(* ===== verification/Prelude.thy ===== *)
theory Prelude
  imports Main "HOL-Library.Word"
begin

text \<open>
  What every component of the development shares: the names of the machine integers, Rust's
  saturating and checked increments, two's complement wrap-around of \<open>i64\<close>, the error-or-value
  sum with its bind (the \<open>?\<close> operator), the operations of \<open>HashMap\<close> that the code uses on maps
  (\<open>retain\<close>, \<open>values_mut\<close>), little-endian byte strings and decimal formatting.

  Conventions of the whole development:
  \<^item> \<open>u8\<close>, \<open>u32\<close> and \<open>u64\<close> are words of that width; \<open>i64\<close> time stamps and \<open>i32\<close> status codes are
    \<open>int\<close> with the wrap-around written out where the code computes with them;
  \<^item> \<open>Result<T, E>\<close> is \<open>'e + 't\<close> with \<open>Inl\<close> the error; a method with \<open>&mut self\<close> returns the new
    state beside its result;
  \<^item> \<open>HashMap<K, V>\<close> is a partial function, \<open>HashSet<K>\<close> a set, \<open>String\<close> a list of bytes.
\<close>

type_synonym u8 = "8 word"
type_synonym u32 = "32 word"
type_synonym u64 = "64 word"
type_synonym i64 = int
type_synonym i32 = int

named_theorems record_ops \<open>definitions of the operations a component's proofs unfold\<close>

section \<open>Machine integers\<close>

text \<open>Rust's \<open>x.saturating_add(1)\<close> and \<open>x.checked_add(1)\<close> on unsigned words.\<close>

definition sat_inc :: "'a::len word \<Rightarrow> 'a word" where
  "sat_inc x = (if x = - 1 then x else x + 1)"

definition checked_inc :: "'a::len word \<Rightarrow> 'a word option" where
  "checked_inc x = (if x = - 1 then None else Some (x + 1))"

text \<open>\<open>x.saturating_sub(y)\<close>.\<close>

definition sat_sub :: "'a::len word \<Rightarrow> 'a word \<Rightarrow> 'a word" where
  "sat_sub x y = (if y \<le> x then x - y else 0)"

text \<open>Two's complement reading of an integer at 64 bits: what \<open>+\<close> on \<open>i64\<close> stores.\<close>

definition wrap_i64 :: "int \<Rightarrow> int" where
  "wrap_i64 x = (x + 2 ^ 63) mod 2 ^ 64 - 2 ^ 63"

definition i64_min :: int where "i64_min = - (2 ^ 63)"

definition i64_max :: int where "i64_max = 2 ^ 63 - 1"

definition i64_add :: "int \<Rightarrow> int \<Rightarrow> int" where
  "i64_add a b = wrap_i64 (a + b)"

definition i64_saturating_sub :: "int \<Rightarrow> int \<Rightarrow> int" where
  "i64_saturating_sub a b = max i64_min (min i64_max (a - b))"

lemma unat_max_word: "unat (- 1 :: 'a::len word) = 2 ^ LENGTH('a) - 1"
  by (simp add: unsigned_minus_1_eq_mask mask_eq_exp_minus_1)

lemma unat_word_less: "x \<noteq> - 1 \<Longrightarrow> Suc (unat (x :: 'a::len word)) < 2 ^ LENGTH('a)"
proof -
  assume "x \<noteq> - 1"
  then have "unat x \<noteq> 2 ^ LENGTH('a) - 1"
    using unat_max_word [where 'a = 'a] by (metis word_unat_eq_iff)
  moreover have "unat x < 2 ^ LENGTH('a)"
    by (rule unsigned_less)
  ultimately show ?thesis by linarith
qed

lemma unat_plus_one: "x \<noteq> - 1 \<Longrightarrow> unat (x + 1 :: 'a::len word) = Suc (unat x)"
  using unat_word_less [of x] by (simp add: unat_word_ariths)

lemma unat_sat_inc: "unat (sat_inc (x :: 'a::len word)) = min (Suc (unat x)) (2 ^ LENGTH('a) - 1)"
proof (cases "x = - 1")
  case True
  then have "sat_inc x = - 1"
    by (simp add: sat_inc_def)
  then have "unat (sat_inc x) = 2 ^ LENGTH('a) - 1"
    by (simp only: unat_max_word)
  moreover have "unat x = 2 ^ LENGTH('a) - 1"
    using True by (simp only: unat_max_word)
  ultimately show ?thesis by simp
next
  case False
  then show ?thesis
    using unat_word_less [OF False] by (simp add: sat_inc_def unat_plus_one min_def)
qed

lemma sat_inc_gr: "x \<noteq> - 1 \<Longrightarrow> x < sat_inc (x :: 'a::len word)"
  by (simp add: sat_inc_def word_less_nat_alt unat_plus_one)

lemma sat_inc_ge: "x \<le> sat_inc (x :: 'a::len word)"
  by (cases "x = - 1") (auto simp: sat_inc_def word_le_nat_alt unat_plus_one)

lemma sat_inc_0 [simp]: "sat_inc (0 :: 'a::len word) = 1"
  by (simp add: sat_inc_def)

lemma unat_sat_sub: "unat (sat_sub x y) = unat x - unat (y :: 'a::len word)"
  by (simp add: sat_sub_def word_le_nat_alt unat_sub)

lemma checked_inc_Some_iff:
  "checked_inc x = Some y \<longleftrightarrow> x \<noteq> - 1 \<and> y = x + (1 :: 'a::len word)"
  by (auto simp: checked_inc_def)

lemma checked_inc_less: "checked_inc x = Some y \<Longrightarrow> x < (y :: 'a::len word)"
  by (auto simp: checked_inc_Some_iff word_less_nat_alt unat_plus_one)

lemma wrap_i64_id: "- (2 ^ 63) \<le> x \<Longrightarrow> x < 2 ^ 63 \<Longrightarrow> wrap_i64 x = x"
  by (simp add: wrap_i64_def)

lemma i64_add_id: "- (2 ^ 63) \<le> a + b \<Longrightarrow> a + b < 2 ^ 63 \<Longrightarrow> i64_add a b = a + b"
  by (simp add: i64_add_def wrap_i64_id)

lemma wrap_i64_range: "i64_min \<le> wrap_i64 x \<and> wrap_i64 x \<le> i64_max"
  using pos_mod_bound [of "2 ^ 64 :: int" "x + 2 ^ 63"] pos_mod_sign [of "2 ^ 64 :: int" "x + 2 ^ 63"]
  by (simp add: wrap_i64_def i64_min_def i64_max_def)

section \<open>Results\<close>

text \<open>Rust's \<open>?\<close>: the error returns at once, the value goes on.\<close>

definition rbind :: "'e + 'a \<Rightarrow> ('a \<Rightarrow> 'e + 'b) \<Rightarrow> 'e + 'b" where
  "rbind r f = (case r of Inl e \<Rightarrow> Inl e | Inr x \<Rightarrow> f x)"

fun is_ok :: "'e + 'a \<Rightarrow> bool" where
  "is_ok (Inl e) = False"
| "is_ok (Inr x) = True"

text \<open>Rust's \<open>Option::ok_or\<close> and \<open>Result::ok\<close>.\<close>

definition ok_or :: "'e \<Rightarrow> 'a option \<Rightarrow> 'e + 'a" where
  "ok_or e x = (case x of None \<Rightarrow> Inl e | Some y \<Rightarrow> Inr y)"

definition result_ok :: "'e + 'a \<Rightarrow> 'a option" where
  "result_ok r = (case r of Inl e \<Rightarrow> None | Inr y \<Rightarrow> Some y)"

lemma rbind_simps [simp]:
  "rbind (Inl e) f = Inl e"
  "rbind (Inr x) f = f x"
  by (simp_all add: rbind_def)

lemma rbind_Inr_iff: "rbind r f = Inr y \<longleftrightarrow> (\<exists>x. r = Inr x \<and> f x = Inr y)"
  by (cases r) auto

lemma ok_or_simps [simp]: "ok_or e None = Inl e" "ok_or e (Some y) = Inr y"
  by (simp_all add: ok_or_def)

lemma result_ok_simps [simp]: "result_ok (Inl e) = None" "result_ok (Inr y) = Some y"
  by (simp_all add: result_ok_def)

lemma result_ok_Some_iff: "result_ok r = Some y \<longleftrightarrow> r = Inr y"
  by (cases r) auto

lemma is_ok_iff: "is_ok r \<longleftrightarrow> (\<exists>x. r = Inr x)"
  by (cases r) auto

section \<open>Operations with a state\<close>

text \<open>Operations that change a state and return a result, one after the other with \<open>?\<close>.\<close>

definition sret :: "'a \<Rightarrow> 's \<Rightarrow> 's \<times> ('e + 'a)" where
  "sret x s = (s, Inr x)"

definition sfail :: "'e \<Rightarrow> 's \<Rightarrow> 's \<times> ('e + 'a)" where
  "sfail e s = (s, Inl e)"

definition sbind ::
  "('s \<Rightarrow> 's \<times> ('e + 'a)) \<Rightarrow> ('a \<Rightarrow> 's \<Rightarrow> 's \<times> ('e + 'b)) \<Rightarrow> 's \<Rightarrow> 's \<times> ('e + 'b)" where
  "sbind m f s = (case m s of (s1, Inl e) \<Rightarrow> (s1, Inl e) | (s1, Inr x) \<Rightarrow> f x s1)"

text \<open>\<open>map_err\<close>.\<close>

definition map_err :: "('e \<Rightarrow> 'f) \<Rightarrow> ('s \<Rightarrow> 's \<times> ('e + 'a)) \<Rightarrow> 's \<Rightarrow> 's \<times> ('f + 'a)" where
  "map_err h m s = (case m s of (s1, Inl e) \<Rightarrow> (s1, Inl (h e)) | (s1, Inr x) \<Rightarrow> (s1, Inr x))"

definition lift_result :: "'e + 'a \<Rightarrow> 's \<Rightarrow> 's \<times> ('e + 'a)" where
  "lift_result r s = (s, r)"

lemma sbind_Inr_iff:
  "sbind m f s = (s2, Inr y) \<longleftrightarrow> (\<exists>s1 x. m s = (s1, Inr x) \<and> f x s1 = (s2, Inr y))"
  by (auto simp: sbind_def split: prod.splits sum.splits)

lemma sbind_step: "m s = (s1, Inr x) \<Longrightarrow> sbind m f s = f x s1"
  by (simp add: sbind_def)

lemma sbind_stop: "m s = (s1, Inl e) \<Longrightarrow> sbind m f s = (s1, Inl e)"
  by (simp add: sbind_def)

lemma sbind_sret [simp]: "sbind (sret x) f s = f x s"
  by (simp add: sbind_def sret_def)

lemma sbind_sfail [simp]: "sbind (sfail e) f s = (s, Inl e)"
  by (simp add: sbind_def sfail_def)

lemma map_err_Inr_iff: "map_err h m s = (s1, Inr x) \<longleftrightarrow> m s = (s1, Inr x)"
  by (auto simp: map_err_def split: prod.splits sum.splits)

lemma sret_iff [simp]: "sret x s = (s1, r) \<longleftrightarrow> s1 = s \<and> r = Inr x"
  by (auto simp: sret_def)

lemma sfail_iff [simp]: "sfail e s = (s1, r) \<longleftrightarrow> s1 = s \<and> r = Inl e"
  by (auto simp: sfail_def)

lemma lift_result_iff [simp]: "lift_result r s = (s1, q) \<longleftrightarrow> s1 = s \<and> r = q"
  by (auto simp: lift_result_def)

text \<open>An operation after which a property of the state holds when it held before, whatever it
  returns.\<close>

named_theorems keeps_intros \<open>operations that keep a property of their state\<close>

definition keeps :: "('s \<Rightarrow> bool) \<Rightarrow> ('s \<Rightarrow> 's \<times> 'r) \<Rightarrow> bool" where
  "keeps P m \<longleftrightarrow> (\<forall>s. P s \<longrightarrow> P (fst (m s)))"

lemma keepsI: "(\<And>s. P s \<Longrightarrow> P (fst (m s))) \<Longrightarrow> keeps P m"
  by (simp add: keeps_def)

lemma keepsD: "keeps P m \<Longrightarrow> P s \<Longrightarrow> m s = (s1, r) \<Longrightarrow> P s1"
  by (auto simp: keeps_def dest: spec [of _ s])

lemma keeps_sret [keeps_intros]: "keeps P (sret x)"
  by (simp add: keeps_def sret_def)

lemma keeps_sfail [keeps_intros]: "keeps P (sfail e)"
  by (simp add: keeps_def sfail_def)

lemma keeps_lift [keeps_intros]: "keeps P (lift_result r)"
  by (simp add: keeps_def lift_result_def)

lemma keeps_sbind [keeps_intros]: "keeps P m \<Longrightarrow> (\<And>x. keeps P (f x)) \<Longrightarrow> keeps P (sbind m f)"
  by (auto simp: keeps_def sbind_def split: prod.splits sum.splits)

lemma keeps_map_err [keeps_intros]: "keeps P m \<Longrightarrow> keeps P (map_err h m)"
  by (auto simp: keeps_def map_err_def split: prod.splits sum.splits)

lemma keeps_if [keeps_intros]: "(c \<Longrightarrow> keeps P a) \<Longrightarrow> (\<not> c \<Longrightarrow> keeps P b) \<Longrightarrow> keeps P (if c then a else b)"
  by simp

section \<open>Hash maps\<close>

text \<open>\<open>HashMap::retain\<close> keeps the entries that satisfy the predicate;
  \<open>map_values\<close> is a loop over \<open>values_mut\<close>.\<close>

definition retain :: "('k \<Rightarrow> 'v \<Rightarrow> bool) \<Rightarrow> ('k \<rightharpoonup> 'v) \<Rightarrow> ('k \<rightharpoonup> 'v)" where
  "retain P m = (\<lambda>k. case m k of None \<Rightarrow> None | Some v \<Rightarrow> if P k v then Some v else None)"

definition map_values :: "('v \<Rightarrow> 'v) \<Rightarrow> ('k \<rightharpoonup> 'v) \<Rightarrow> ('k \<rightharpoonup> 'v)" where
  "map_values f m = (\<lambda>k. map_option f (m k))"

definition map_remove :: "'k \<Rightarrow> ('k \<rightharpoonup> 'v) \<Rightarrow> ('k \<rightharpoonup> 'v)" where
  "map_remove k m = m(k := None)"

lemma retain_Some_iff [simp]: "retain P m k = Some v \<longleftrightarrow> m k = Some v \<and> P k v"
  by (auto simp: retain_def split: option.splits)

lemma retain_None_iff: "retain P m k = None \<longleftrightarrow> (\<forall>v. m k = Some v \<longrightarrow> \<not> P k v)"
  by (auto simp: retain_def split: option.splits)

lemma retain_empty [simp]: "retain P Map.empty = Map.empty"
  by (simp add: retain_def)

lemma map_values_apply [simp]: "map_values f m k = map_option f (m k)"
  by (simp add: map_values_def)

lemma map_remove_apply [simp]: "map_remove k m j = (if j = k then None else m j)"
  by (simp add: map_remove_def)

section \<open>Little-endian bytes\<close>

text \<open>\<open>to_le_bytes\<close> of an unsigned value of \<open>k\<close> bytes, and \<open>from_le_bytes\<close>.\<close>

fun le_bytes :: "nat \<Rightarrow> nat \<Rightarrow> u8 list" where
  "le_bytes 0 n = []"
| "le_bytes (Suc k) n = word_of_nat (n mod 256) # le_bytes k (n div 256)"

fun of_le_bytes :: "u8 list \<Rightarrow> nat" where
  "of_le_bytes [] = 0"
| "of_le_bytes (b # bs) = unat b + 256 * of_le_bytes bs"

lemma unat_u8_less: "unat (b :: u8) < 256"
proof -
  have "unat b < 2 ^ LENGTH(8)" by (rule unsigned_less)
  then show ?thesis by simp
qed

lemma length_le_bytes [simp]: "length (le_bytes k n) = k"
  by (induction k arbitrary: n) simp_all

lemma le_bytes_4:
  "le_bytes 4 n = [word_of_nat (n mod 256), word_of_nat (n div 256 mod 256),
     word_of_nat (n div 256 div 256 mod 256), word_of_nat (n div 256 div 256 div 256 mod 256)]"
proof -
  have "(4::nat) = Suc (Suc (Suc (Suc 0)))" by simp
  then show ?thesis by (simp only: le_bytes.simps)
qed

lemma of_le_bytes_le_bytes: "of_le_bytes (le_bytes k n) = n mod 256 ^ k"
proof (induction k arbitrary: n)
  case 0
  show ?case by simp
next
  case (Suc k)
  have "unat (word_of_nat (n mod 256) :: u8) = n mod 256"
    by (simp add: unat_of_nat)
  with Suc show ?case
    by (simp add: mod_mult2_eq [of n 256 "256 ^ k"] add.commute)
qed

lemma of_le_bytes_less: "of_le_bytes bs < 256 ^ length bs"
proof (induction bs)
  case Nil
  show ?case by simp
next
  case (Cons b bs)
  have "unat b < 256" by (rule unat_u8_less)
  with Cons show ?case by simp
qed

lemma le_bytes_of_le_bytes: "le_bytes (length bs) (of_le_bytes bs) = bs"
proof (induction bs)
  case Nil
  show ?case by simp
next
  case (Cons b bs)
  have b: "unat b < 256" by (rule unat_u8_less)
  then have "(unat b + 256 * of_le_bytes bs) mod 256 = unat b"
    by simp
  moreover have "(unat b + 256 * of_le_bytes bs) div 256 = of_le_bytes bs"
    using b by simp
  ultimately show ?case using Cons by simp
qed

section \<open>Decimal formatting\<close>

text \<open>What \<open>format!("{n}")\<close> prints for an unsigned integer.\<close>

definition digit_char :: "nat \<Rightarrow> char" where
  "digit_char d = char_of (48 + d)"

fun decimal :: "nat \<Rightarrow> string" where
  "decimal n = (if n < 10 then [digit_char n] else decimal (n div 10) @ [digit_char (n mod 10)])"

declare decimal.simps [simp del]

fun undecimal :: "string \<Rightarrow> nat" where
  "undecimal cs = foldl (\<lambda>acc c. 10 * acc + (of_char c - 48)) 0 cs"

lemma of_char_digit: "d < 10 \<Longrightarrow> (of_char (digit_char d) :: nat) = 48 + d"
  by (simp add: digit_char_def)

lemma undecimal_decimal: "undecimal (decimal n) = n"
proof (induction n rule: decimal.induct)
  case (1 n)
  show ?case
  proof (cases "n < 10")
    case True
    then show ?thesis by (subst decimal.simps) (simp add: of_char_digit)
  next
    case False
    with "1.IH" have "foldl (\<lambda>acc c. 10 * acc + (of_char c - 48)) 0 (decimal (n div 10)) = n div 10"
      by simp
    with False show ?thesis by (subst decimal.simps) (simp add: of_char_digit)
  qed
qed

lemma decimal_inject: "decimal m = decimal n \<Longrightarrow> m = n"
  by (metis undecimal_decimal)

end
