(* ===== verification/F32.thy ===== *)
theory F32
  imports Prelude
begin

text \<open>
  Rust's \<open>f32\<close>: IEEE 754 binary32 values by their bit pattern. Comparison follows the standard
  (a NaN is neither below, above nor equal to anything, the two zeros are equal), \<open>total_cmp\<close>
  orders all bit patterns. The arithmetic the code uses (conversion from and to integers,
  product, quotient) is exact rational arithmetic followed by one rounding to nearest, ties to
  even, as the standard prescribes.
\<close>

datatype f32 = F32 (f32_bits: u32)

definition f32_magnitude :: "f32 \<Rightarrow> nat" where
  "f32_magnitude x = unat (f32_bits x) mod 2 ^ 31"

definition f32_negative :: "f32 \<Rightarrow> bool" where
  "f32_negative x \<longleftrightarrow> 2 ^ 31 \<le> unat (f32_bits x)"

definition f32_is_nan :: "f32 \<Rightarrow> bool" where
  "f32_is_nan x \<longleftrightarrow> 0x7F800000 < f32_magnitude x"

definition f32_is_finite :: "f32 \<Rightarrow> bool" where
  "f32_is_finite x \<longleftrightarrow> f32_magnitude x < 0x7F800000"

text \<open>Among values that are no NaN the order is that of the signed magnitudes.\<close>

definition f32_key :: "f32 \<Rightarrow> int" where
  "f32_key x = (if f32_negative x then - int (f32_magnitude x) else int (f32_magnitude x))"

definition f32_lt :: "f32 \<Rightarrow> f32 \<Rightarrow> bool" where
  "f32_lt x y \<longleftrightarrow> \<not> f32_is_nan x \<and> \<not> f32_is_nan y \<and> f32_key x < f32_key y"

definition f32_le :: "f32 \<Rightarrow> f32 \<Rightarrow> bool" where
  "f32_le x y \<longleftrightarrow> \<not> f32_is_nan x \<and> \<not> f32_is_nan y \<and> f32_key x \<le> f32_key y"

definition f32_eq :: "f32 \<Rightarrow> f32 \<Rightarrow> bool" where
  "f32_eq x y \<longleftrightarrow> \<not> f32_is_nan x \<and> \<not> f32_is_nan y \<and> f32_key x = f32_key y"

text \<open>\<open>total_cmp\<close>: the bits as a signed integer, with the lower bits of a negative one flipped.\<close>

definition f32_total_key :: "f32 \<Rightarrow> int" where
  "f32_total_key x =
     (if f32_negative x then - int (f32_magnitude x) - 1 else int (f32_magnitude x))"

definition f32_zero :: f32 where "f32_zero = F32 0"

definition f32_one :: f32 where "f32_one = F32 0x3F800000"

section \<open>Rounding\<close>

fun bit_len :: "nat \<Rightarrow> nat" where
  "bit_len n = (if n = 0 then 0 else Suc (bit_len (n div 2)))"

declare bit_len.simps [simp del]

definition round_half_even :: "nat \<Rightarrow> nat \<Rightarrow> nat" where
  "round_half_even p q =
     (let k = p div q; r = p mod q
      in if 2 * r < q then k
         else if q < 2 * r then Suc k
         else if even k then k else Suc k)"

text \<open>\<open>n / d * 2 ^ e\<close> as a fraction of naturals.\<close>

definition scale2 :: "int \<Rightarrow> nat \<Rightarrow> nat \<Rightarrow> nat \<times> nat" where
  "scale2 e n d = (if 0 \<le> e then (n * 2 ^ nat e, d) else (n, d * 2 ^ nat (- e)))"

definition frac_ge_pow2 :: "nat \<Rightarrow> nat \<Rightarrow> int \<Rightarrow> bool" where
  "frac_ge_pow2 n d e = (case scale2 (- e) n d of (p, q) \<Rightarrow> q \<le> p)"

definition signed_bits :: "bool \<Rightarrow> nat \<Rightarrow> f32" where
  "signed_bits neg mag = F32 (word_of_nat (if neg then 2 ^ 31 + mag else mag))"

definition f32_inf :: "bool \<Rightarrow> f32" where
  "f32_inf neg = signed_bits neg 0x7F800000"

definition f32_nan :: f32 where
  "f32_nan = F32 0x7FC00000"

text \<open>The nearest value to \<open>n / d\<close>: \<open>e\<close> is its binary exponent, at least that of the smallest
  normal value; a mantissa rounded up to the next power of two carries into the exponent.\<close>

definition f32_round :: "bool \<Rightarrow> nat \<Rightarrow> nat \<Rightarrow> f32" where
  "f32_round neg n d =
     (if n = 0 then signed_bits neg 0
      else
        let e0 = int (bit_len n) - int (bit_len d);
            e = max (if frac_ge_pow2 n d e0 then e0 else e0 - 1) (- 126);
            (p, q) = scale2 (23 - e) n d;
            mag = nat (e + 126) * 2 ^ 23 + round_half_even p q
        in if 0x7F800000 \<le> mag then f32_inf neg else signed_bits neg mag)"

text \<open>Mantissa and exponent of a finite value: it is \<open>mant * 2 ^ exponent\<close>.\<close>

definition f32_exponent :: "f32 \<Rightarrow> int" where
  "f32_exponent x = max 1 (int (f32_magnitude x div 2 ^ 23)) - 150"

definition f32_mant :: "f32 \<Rightarrow> nat" where
  "f32_mant x =
     (if f32_magnitude x < 2 ^ 23 then f32_magnitude x
      else 2 ^ 23 + f32_magnitude x mod 2 ^ 23)"

definition f32_of_nat :: "nat \<Rightarrow> f32" where
  "f32_of_nat n = f32_round False n 1"

definition f32_mul :: "f32 \<Rightarrow> f32 \<Rightarrow> f32" where
  "f32_mul x y =
     (let neg = (f32_negative x \<noteq> f32_negative y)
      in if f32_is_nan x \<or> f32_is_nan y then f32_nan
         else if \<not> f32_is_finite x then (if f32_magnitude y = 0 then f32_nan else f32_inf neg)
         else if \<not> f32_is_finite y then (if f32_magnitude x = 0 then f32_nan else f32_inf neg)
         else case scale2 (f32_exponent x + f32_exponent y) (f32_mant x * f32_mant y) 1 of
                (p, q) \<Rightarrow> f32_round neg p q)"

definition f32_div :: "f32 \<Rightarrow> f32 \<Rightarrow> f32" where
  "f32_div x y =
     (let neg = (f32_negative x \<noteq> f32_negative y)
      in if f32_is_nan x \<or> f32_is_nan y then f32_nan
         else if \<not> f32_is_finite x then (if \<not> f32_is_finite y then f32_nan else f32_inf neg)
         else if \<not> f32_is_finite y then signed_bits neg 0
         else if f32_magnitude y = 0 then
           (if f32_magnitude x = 0 then f32_nan else f32_inf neg)
         else case scale2 (f32_exponent x - f32_exponent y) (f32_mant x) (f32_mant y) of
                (p, q) \<Rightarrow> f32_round neg p q)"

text \<open>\<open>x as u32\<close>: NaN is 0, the fraction is dropped, values outside the range saturate.\<close>

definition f32_to_u32 :: "f32 \<Rightarrow> u32" where
  "f32_to_u32 x =
     (if f32_is_nan x \<or> f32_negative x then 0
      else if \<not> f32_is_finite x then - 1
      else case scale2 (f32_exponent x) (f32_mant x) 1 of
             (p, q) \<Rightarrow> if 2 ^ 32 \<le> p div q then - 1 else word_of_nat (p div q))"

text \<open>A finite value as an integer over a common power of two, and the sum.\<close>

definition f32_scaled :: "f32 \<Rightarrow> int \<Rightarrow> int" where
  "f32_scaled x e =
     (let m = int (f32_mant x) * 2 ^ nat (f32_exponent x - e)
      in if f32_negative x then - m else m)"

definition f32_neg :: "f32 \<Rightarrow> f32" where
  "f32_neg x = F32 (f32_bits x + 0x80000000)" \<comment> \<open>flips the sign bit\<close>

definition f32_abs :: "f32 \<Rightarrow> f32" where
  "f32_abs x = signed_bits False (f32_magnitude x)"

definition f32_add :: "f32 \<Rightarrow> f32 \<Rightarrow> f32" where
  "f32_add x y =
     (if f32_is_nan x \<or> f32_is_nan y then f32_nan
      else if \<not> f32_is_finite x then
        (if \<not> f32_is_finite y \<and> f32_negative x \<noteq> f32_negative y then f32_nan else x)
      else if \<not> f32_is_finite y then y
      else
        let e = min (f32_exponent x) (f32_exponent y);
            s = f32_scaled x e + f32_scaled y e
        in if s = 0 then signed_bits (f32_negative x \<and> f32_negative y) 0
           else case scale2 e (nat \<bar>s\<bar>) 1 of (p, q) \<Rightarrow> f32_round (s < 0) p q)"

definition f32_sub :: "f32 \<Rightarrow> f32 \<Rightarrow> f32" where
  "f32_sub x y = f32_add x (f32_neg y)"

text \<open>The square root: the integer root of the mantissa with 32 further bits, one more bit for a
  remainder, rounded once (an inexact root is never halfway between two values).\<close>

fun isqrt :: "nat \<Rightarrow> nat" where
  "isqrt n =
     (if n = 0 then 0
      else let r = 2 * isqrt (n div 4) in if (r + 1) * (r + 1) \<le> n then r + 1 else r)"

declare isqrt.simps [simp del]

definition f32_sqrt :: "f32 \<Rightarrow> f32" where
  "f32_sqrt x =
     (if f32_is_nan x then f32_nan
      else if f32_magnitude x = 0 then x
      else if f32_negative x then f32_nan
      else if \<not> f32_is_finite x then x
      else
        let e = f32_exponent x;
            m = (if even e then f32_mant x else 2 * f32_mant x);
            e2 = (if even e then e else e - 1) div 2;
            n = m * 2 ^ 64;
            r = isqrt n
        in case scale2 (e2 - 33) (2 * r + (if r * r = n then 0 else 1)) 1 of
             (p, q) \<Rightarrow> f32_round False p q)"

text \<open>Rust's \<open>min\<close> and \<open>max\<close> take the other operand of a NaN; \<open>clamp\<close> keeps one.\<close>

definition f32_min :: "f32 \<Rightarrow> f32 \<Rightarrow> f32" where
  "f32_min x y =
     (if f32_is_nan x then y else if f32_is_nan y then x else if f32_lt y x then y else x)"

definition f32_max :: "f32 \<Rightarrow> f32 \<Rightarrow> f32" where
  "f32_max x y =
     (if f32_is_nan x then y else if f32_is_nan y then x else if f32_lt x y then y else x)"

definition f32_clamp :: "f32 \<Rightarrow> f32 \<Rightarrow> f32 \<Rightarrow> f32" where
  "f32_clamp x lo hi = (if f32_lt x lo then lo else if f32_lt hi x then hi else x)"

text \<open>A decimal literal is the nearest value; \<open>f32::EPSILON\<close> is \<open>2 ^ -23\<close>.\<close>

definition f32_lit :: "nat \<Rightarrow> nat \<Rightarrow> f32" where
  "f32_lit n d = f32_round False n d"

definition f32_epsilon :: f32 where "f32_epsilon = F32 0x34000000"

text \<open>\<open>floor\<close> and \<open>ceil\<close>: from the exponent 0 on a value is an integer.\<close>

definition f32_round_fraction :: "bool \<Rightarrow> f32 \<Rightarrow> f32" where
  "f32_round_fraction away x =
     (if \<not> f32_is_finite x \<or> 0 \<le> f32_exponent x then x
      else
        let q = 2 ^ nat (- f32_exponent x); k = f32_mant x div q
        in f32_round (f32_negative x) (if away \<and> f32_mant x mod q \<noteq> 0 then Suc k else k) 1)"

definition f32_floor :: "f32 \<Rightarrow> f32" where
  "f32_floor x = f32_round_fraction (f32_negative x) x"

definition f32_ceil :: "f32 \<Rightarrow> f32" where
  "f32_ceil x = f32_round_fraction (\<not> f32_negative x) x"

text \<open>\<open>x as u64\<close> and \<open>x as usize\<close>.\<close>

definition f32_to_u64 :: "f32 \<Rightarrow> nat" where
  "f32_to_u64 x =
     (if f32_is_nan x \<or> f32_negative x then 0
      else if \<not> f32_is_finite x then 2 ^ 64 - 1
      else case scale2 (f32_exponent x) (f32_mant x) 1 of (p, q) \<Rightarrow> min (p div q) (2 ^ 64 - 1))"

text \<open>\<open>iter().sum::<f32>()\<close> starts with \<open>-0.0\<close>.\<close>

definition f32_sum :: "f32 list \<Rightarrow> f32" where
  "f32_sum xs = foldl f32_add (f32_neg f32_zero) xs"

text \<open>\<open>mul_add\<close>: product and sum with one rounding.\<close>

definition f32_mul_add :: "f32 \<Rightarrow> f32 \<Rightarrow> f32 \<Rightarrow> f32" where
  "f32_mul_add x y z =
     (if f32_is_nan x \<or> f32_is_nan y \<or> f32_is_nan z then f32_nan
      else if \<not> f32_is_finite x \<or> \<not> f32_is_finite y then f32_add (f32_mul x y) z
      else if \<not> f32_is_finite z then z
      else
        let neg = (f32_negative x \<noteq> f32_negative y);
            ep = f32_exponent x + f32_exponent y;
            e = min ep (f32_exponent z);
            p = int (f32_mant x * f32_mant y) * 2 ^ nat (ep - e);
            s = (if neg then - p else p) + f32_scaled z e
        in if s = 0 then signed_bits (neg \<and> f32_negative z) 0
           else case scale2 e (nat \<bar>s\<bar>) 1 of (n, d) \<Rightarrow> f32_round (s < 0) n d)"

section \<open>Laws\<close>

lemma isqrt_bounds: "isqrt n * isqrt n \<le> n \<and> n < (isqrt n + 1) * (isqrt n + 1)"
proof (induction n rule: isqrt.induct)
  case (1 n)
  show ?case
  proof (cases "n = 0")
    case True
    then show ?thesis by (simp add: isqrt.simps)
  next
    case False
    define k where "k = isqrt (n div 4)"
    have k: "k * k \<le> n div 4" "n div 4 < (k + 1) * (k + 1)"
      using "1.IH" [OF False] by (simp_all add: k_def)
    have lower: "(2 * k) * (2 * k) \<le> n"
      using k(1) by (simp add: algebra_simps)
    have "n < 4 * (n div 4 + 1)" by simp
    also have "\<dots> \<le> 4 * ((k + 1) * (k + 1))" using k(2) by simp
    finally have upper: "n < (2 * k + 2) * (2 * k + 2)" by (simp add: algebra_simps)
    have "isqrt n = (if (2 * k + 1) * (2 * k + 1) \<le> n then 2 * k + 1 else 2 * k)"
      using False by (subst isqrt.simps) (simp add: k_def Let_def)
    then show ?thesis using lower upper by (auto simp: not_le)
  qed
qed

lemma f32_clamp_range:
  assumes "f32_le lo hi" and "\<not> f32_is_nan x"
  shows "f32_le lo (f32_clamp x lo hi) \<and> f32_le (f32_clamp x lo hi) hi"
  using assms by (auto simp: f32_clamp_def f32_lt_def f32_le_def)


lemma f32_eq_refl_iff: "f32_eq x x \<longleftrightarrow> \<not> f32_is_nan x"
  by (simp add: f32_eq_def)

lemma f32_eq_sym: "f32_eq x y = f32_eq y x"
  by (auto simp: f32_eq_def)

lemma f32_not_lt_of_le: "f32_le y x \<Longrightarrow> \<not> f32_lt x y"
  by (simp add: f32_le_def f32_lt_def)

lemma f32_total_key_inject: "f32_total_key x = f32_total_key y \<longleftrightarrow> x = y"
proof
  assume eq: "f32_total_key x = f32_total_key y"
  then have "f32_negative x = f32_negative y" "f32_magnitude x = f32_magnitude y"
    by (auto simp: f32_total_key_def split: if_splits)
  moreover have "unat (f32_bits z) = (if f32_negative z then 2 ^ 31 else 0) + f32_magnitude z" for z
  proof -
    have "unat (f32_bits z) < 2 ^ LENGTH(32)" by (rule unsigned_less)
    then have "unat (f32_bits z) < 2 ^ 32" by simp
    then show ?thesis by (auto simp: f32_negative_def f32_magnitude_def mod_if)
  qed
  ultimately have "unat (f32_bits x) = unat (f32_bits y)" by simp
  then show "x = y" by (simp add: f32.expand word_unat_eq_iff)
qed simp

lemma bit_len_double: "0 < n \<Longrightarrow> bit_len (2 * n) = Suc (bit_len n)"
  by (subst bit_len.simps) simp

lemma round_half_even_exact: "0 < q \<Longrightarrow> round_half_even (k * q) q = k"
  by (simp add: round_half_even_def)

text \<open>A quotient of equal fractions is exactly one.\<close>

lemma f32_round_one: "0 < n \<Longrightarrow> f32_round False n n = f32_one"
  using round_half_even_exact [of n "2 ^ 23"]
  by (simp add: f32_round_def scale2_def frac_ge_pow2_def signed_bits_def f32_one_def
      mult.commute Let_def)

lemma f32_div_self:
  assumes "f32_is_finite x" and "f32_magnitude x \<noteq> 0" and "\<not> f32_negative x"
  shows "f32_div x x = f32_one"
proof -
  have "\<not> f32_is_nan x" using assms(1) by (simp add: f32_is_nan_def f32_is_finite_def)
  moreover have "0 < f32_mant x" using assms(2) by (simp add: f32_mant_def)
  ultimately show ?thesis
    using assms by (simp add: f32_div_def scale2_def f32_round_one)
qed

lemma f32_zero_simps [simp]:
  "f32_magnitude f32_zero = 0" "\<not> f32_negative f32_zero" "\<not> f32_is_nan f32_zero"
  "f32_is_finite f32_zero" "f32_key f32_zero = 0"
  by (simp_all add: f32_magnitude_def f32_negative_def f32_is_nan_def f32_is_finite_def
      f32_key_def f32_zero_def)

lemma f32_one_simps [simp]:
  "f32_magnitude f32_one = 0x3F800000" "\<not> f32_negative f32_one" "\<not> f32_is_nan f32_one"
  "f32_is_finite f32_one" "f32_key f32_one = 0x3F800000"
  by (simp_all add: f32_magnitude_def f32_negative_def f32_is_nan_def f32_is_finite_def
      f32_key_def f32_one_def)

section \<open>Arithmetic on one\<close>

lemma isqrt_square: "isqrt (k * k) = k"
proof (rule antisym)
  show "isqrt (k * k) \<le> k"
  proof (rule ccontr)
    assume "\<not> isqrt (k * k) \<le> k"
    then have "k * k < isqrt (k * k) * isqrt (k * k)" by (simp add: mult_strict_mono)
    then show False using isqrt_bounds [of "k * k"] by simp
  qed
  show "k \<le> isqrt (k * k)"
  proof (rule ccontr)
    assume "\<not> k \<le> isqrt (k * k)"
    then have "(isqrt (k * k) + 1) * (isqrt (k * k) + 1) \<le> k * k" by (intro mult_le_mono) simp_all
    then show False using isqrt_bounds [of "k * k"] by simp
  qed
qed

lemma f32_one_parts: "f32_mant f32_one = 2 ^ 23" "f32_exponent f32_one = - 23"
  by (simp_all add: f32_mant_def f32_exponent_def)

lemma f32_zero_parts: "f32_mant f32_zero = 0" "f32_exponent f32_zero = - 149"
  by (simp_all add: f32_mant_def f32_exponent_def)

lemma f32_mul_one: "f32_mul f32_one f32_one = f32_one"
proof -
  have "scale2 (- 46) (2 ^ 23 * 2 ^ 23) 1 = (2 ^ 46, 2 ^ 46)"
    by (simp add: scale2_def)
  then show ?thesis
    by (simp add: f32_mul_def f32_one_parts f32_round_one)
qed

lemma f32_add_zero_one: "f32_add f32_zero f32_one = f32_one"
proof -
  have s: "f32_scaled f32_zero (- 149) + f32_scaled f32_one (- 149) = 2 ^ 149"
    by (simp add: f32_scaled_def f32_one_parts f32_zero_parts)
  have "scale2 (- 149) (2 ^ 149) 1 = (2 ^ 149, 2 ^ 149)"
    by (simp add: scale2_def)
  then show ?thesis
    using s by (simp add: f32_add_def f32_one_parts f32_zero_parts f32_round_one Let_def nat_power_eq)
qed

lemma f32_sqrt_one: "f32_sqrt f32_one = f32_one"
proof -
  have "isqrt (2 ^ 88) = 2 ^ 44"
    using isqrt_square [of "2 ^ 44"] by simp
  moreover have "scale2 (- 45) (2 * 2 ^ 44) 1 = (2 ^ 45, 2 ^ 45)"
    by (simp add: scale2_def)
  ultimately show ?thesis
    by (simp add: f32_sqrt_def f32_one_parts f32_round_one Let_def)
qed

lemma f32_round_zero: "f32_round False 0 d = f32_zero"
  by (simp add: f32_round_def signed_bits_def f32_zero_def)

lemma f32_of_nat_0 [simp]: "f32_of_nat 0 = f32_zero"
  by (simp only: f32_of_nat_def f32_round_zero)

lemma f32_of_nat_1 [simp]: "f32_of_nat (Suc 0) = f32_one"
  unfolding f32_of_nat_def One_nat_def by (rule f32_round_one) simp

lemma scale2_zero: "fst (scale2 e 0 d) = 0"
  by (simp add: scale2_def)

lemma f32_div_zero_one [simp]: "f32_div f32_zero f32_one = f32_zero"
  by (simp add: f32_div_def f32_zero_parts(1) scale2_zero f32_round_zero split_def)

lemma f32_zero_least: "\<not> f32_negative x \<Longrightarrow> \<not> f32_lt x f32_zero"
  by (simp add: f32_lt_def f32_key_def)

section \<open>Conversions between integers and values\<close>

text \<open>The value of a magnitude as a multiple of \<open>2 ^ -149\<close>.\<close>

definition mag_value :: "nat \<Rightarrow> nat" where
  "mag_value m =
     (if m < 2 ^ 23 then m else 2 ^ 23 + m mod 2 ^ 23) * 2 ^ (max 1 (m div 2 ^ 23) - 1)"

lemma mag_value_Suc: "mag_value m \<le> mag_value (Suc m)"
proof -
  define E where "E = m div 2 ^ 23"
  define f where "f = m mod 2 ^ 23"
  have m: "m = E * 2 ^ 23 + f" and f: "f < 2 ^ 23" by (simp_all add: E_def f_def)
  have val: "mag_value (e * 2 ^ 23 + g) = (if e = 0 then g else 2 ^ 23 + g) * 2 ^ (max 1 e - 1)"
    if "g < 2 ^ 23" for e g :: nat
  proof -
    have "(e * 2 ^ 23 + g) div 2 ^ 23 = e" "(e * 2 ^ 23 + g) mod 2 ^ 23 = g"
      "e * 2 ^ 23 + g < 2 ^ 23 \<longleftrightarrow> e = 0"
      using that by auto
    then show ?thesis unfolding mag_value_def by auto
  qed
  show ?thesis
  proof (cases "Suc f < 2 ^ 23")
    case True
    have "Suc m = E * 2 ^ 23 + Suc f" by (simp add: m)
    then show ?thesis unfolding m using val [OF f, of E] val [OF True, of E] by simp
  next
    case False
    then have f': "Suc f = 2 ^ 23" using f by simp
    then have S: "Suc m = Suc E * 2 ^ 23 + 0" by (simp add: m)
    have "mag_value (Suc m) = 2 ^ 23 * 2 ^ E" unfolding S by (subst val) simp_all
    moreover have "mag_value m \<le> 2 ^ 23 * 2 ^ E"
    proof (cases E)
      case 0
      then show ?thesis unfolding m using val [OF f, of 0] f by simp
    next
      case (Suc E')
      have "mag_value m = (2 ^ 23 + f) * 2 ^ E'" unfolding m by (subst val [OF f]) (simp add: Suc)
      also have "\<dots> \<le> (2 ^ 23 + 2 ^ 23) * 2 ^ E'" using f by (intro mult_le_mono1) simp
      finally show ?thesis by (simp add: Suc)
    qed
    ultimately show ?thesis by simp
  qed
qed

lemma mag_value_mono: "m \<le> n \<Longrightarrow> mag_value m \<le> mag_value n"
  by (rule lift_Suc_mono_le [of mag_value]) (simp_all add: mag_value_Suc)

lemma scale2_div:
  assumes "- int k \<le> e"
  shows "(case scale2 e n 1 of (p, q) \<Rightarrow> p div q) = n * 2 ^ nat (e + int k) div 2 ^ k"
proof (cases "0 \<le> e")
  case True
  then have "nat (e + int k) = nat e + k" by simp
  then have "n * 2 ^ nat (e + int k) = n * 2 ^ nat e * 2 ^ k"
    by (simp only: power_add mult.assoc)
  then have "n * 2 ^ nat (e + int k) div 2 ^ k = n * 2 ^ nat e"
    by (metis nonzero_mult_div_cancel_right power_not_zero zero_neq_numeral)
  then show ?thesis using True by (simp add: scale2_def)
next
  case False
  have "k = nat (- e) + nat (e + int k)" using False assms by simp
  then have "(2 :: nat) ^ k = 2 ^ nat (- e) * 2 ^ nat (e + int k)" by (metis power_add)
  then have "n * 2 ^ nat (e + int k) div 2 ^ k = n div 2 ^ nat (- e)" by simp
  then show ?thesis using False by (simp add: scale2_def)
qed

lemma f32_to_u64_value:
  assumes "\<not> f32_negative x" and "f32_is_finite x"
  shows "f32_to_u64 x = min (mag_value (f32_magnitude x) div 2 ^ 149) (2 ^ 64 - 1)"
proof -
  have n: "\<not> f32_is_nan x" using assms(2) by (simp add: f32_is_nan_def f32_is_finite_def)
  have "f32_mant x * 2 ^ nat (f32_exponent x + 149) = mag_value (f32_magnitude x)"
    by (auto simp: f32_mant_def f32_exponent_def mag_value_def nat_diff_distrib' max_def)
  moreover have "- 149 \<le> f32_exponent x" by (simp add: f32_exponent_def)
  ultimately show ?thesis
    using scale2_div [of 149 "f32_exponent x" "f32_mant x"] assms n
    by (simp add: f32_to_u64_def split_def)
qed

lemma bit_len_bounds: "n < 2 ^ bit_len n \<and> (0 < n \<longrightarrow> 2 ^ (bit_len n - 1) \<le> n)"
proof (induction n rule: bit_len.induct)
  case (1 n)
  show ?case
  proof (cases "n = 0")
    case True
    then show ?thesis by (simp add: bit_len.simps)
  next
    case False
    note IH = "1.IH" [OF False]
    have b: "bit_len n = Suc (bit_len (n div 2))" using False by (subst bit_len.simps) simp
    have "n < 2 * 2 ^ bit_len (n div 2)" using IH by linarith
    moreover have "2 ^ bit_len (n div 2) \<le> n"
    proof (cases "n div 2 = 0")
      case True
      then show ?thesis using False by (simp add: bit_len.simps)
    next
      case False
      then have "2 ^ (bit_len (n div 2) - 1) \<le> n div 2" using IH by simp
      moreover have "bit_len (n div 2) \<noteq> 0" using False by (simp add: bit_len.simps)
      ultimately show ?thesis by (cases "bit_len (n div 2)") simp_all
    qed
    ultimately show ?thesis by (simp add: b)
  qed
qed

text \<open>Integers below \<open>2 ^ 24\<close> are exact.\<close>

lemma f32_of_nat_magnitude:
  assumes "0 < n" and "n < 2 ^ 24"
  defines "e \<equiv> bit_len n - 1"
  shows "e < 24 \<and> f32_of_nat n = signed_bits False ((e + 126) * 2 ^ 23 + n * 2 ^ (23 - e)) \<and>
     2 ^ 23 \<le> n * 2 ^ (23 - e) \<and> n * 2 ^ (23 - e) < 2 ^ 24"
proof -
  have L: "bit_len n = Suc e" using assms(1) by (simp add: e_def bit_len.simps)
  have lo: "2 ^ e \<le> n" and hi: "n < 2 ^ Suc e" using bit_len_bounds [of n] assms(1) by (simp_all add: L)
  have "(2 :: nat) ^ e < 2 ^ 24" using lo assms(2) by linarith
  then have e: "e < 24" by (rule power_less_imp_less_exp [rotated]) simp
  have d: "bit_len 1 = 1" by (simp add: bit_len.simps)
  have p: "(2 :: nat) ^ e * 2 ^ (23 - e) = 2 ^ 23"
    using e by (simp add: power_add [symmetric])
  have lo2: "2 ^ 23 \<le> n * 2 ^ (23 - e)" using lo p by (metis mult_le_mono1)
  have "n * 2 ^ (23 - e) < 2 ^ Suc e * 2 ^ (23 - e)" using hi by simp
  also have "\<dots> = 2 ^ 24" using p by simp
  finally have hi2: "n * 2 ^ (23 - e) < 2 ^ 24" .
  have ge: "frac_ge_pow2 n 1 (int e)"
    using lo by (cases "e = 0") (simp_all add: frac_ge_pow2_def scale2_def)
  have sc: "scale2 (23 - int e) n 1 = (n * 2 ^ (23 - e), 1)"
    using e by (simp add: scale2_def nat_diff_distrib)
  have r: "round_half_even m 1 = m" for m by (simp add: round_half_even_def)
  have m: "nat (int e + 126) * 2 ^ 23 + n * 2 ^ (23 - e) < 0x7F800000"
  proof -
    have "nat (int e + 126) * 2 ^ 23 \<le> 149 * 2 ^ 23" using e by (intro mult_le_mono1) simp
    then show ?thesis using hi2 by simp
  qed
  have "f32_of_nat n = signed_bits False (nat (int e + 126) * 2 ^ 23 + n * 2 ^ (23 - e))"
    unfolding f32_of_nat_def f32_round_def d L
    using assms(1) ge sc r m by (simp add: Let_def)
  moreover have "nat (int e + 126) = e + 126" by simp
  ultimately show ?thesis using e lo2 hi2 by simp
qed

lemma signed_bits_positive:
  assumes "m < 2 ^ 31"
  shows "f32_magnitude (signed_bits False m) = m" "\<not> f32_negative (signed_bits False m)"
proof -
  have "unat (word_of_nat m :: u32) = m"
    using assms by (simp add: unat_of_nat take_bit_nat_eq_self)
  then show "f32_magnitude (signed_bits False m) = m" "\<not> f32_negative (signed_bits False m)"
    using assms by (simp_all add: signed_bits_def f32_magnitude_def f32_negative_def)
qed

lemma f32_of_nat_exact:
  assumes "n < 2 ^ 24"
  shows "f32_to_u64 (f32_of_nat n) = n" "f32_is_finite (f32_of_nat n)" "\<not> f32_negative (f32_of_nat n)"
proof -
  have "f32_to_u64 (f32_of_nat n) = n \<and> f32_is_finite (f32_of_nat n) \<and> \<not> f32_negative (f32_of_nat n)"
  proof (cases "n = 0")
    case True
    then show ?thesis by (simp add: f32_to_u64_def f32_zero_parts scale2_def)
  next
    case False
    define e where "e = bit_len n - 1"
    define k where "k = n * 2 ^ (23 - e)"
    define m where "m = (e + 126) * 2 ^ 23 + k"
    have e: "e < 24" and v: "f32_of_nat n = signed_bits False m" and k: "2 ^ 23 \<le> k" "k < 2 ^ 24"
      using f32_of_nat_magnitude [of n] False assms by (simp_all add: e_def k_def m_def)
    have "(e + 126) * 2 ^ 23 \<le> 149 * 2 ^ 23" using e by (intro mult_le_mono1) simp
    then have m: "m < 0x7F800000" using k by (simp add: m_def)
    then have s: "f32_magnitude (f32_of_nat n) = m" "\<not> f32_negative (f32_of_nat n)"
      using signed_bits_positive [of m] by (simp_all add: v)
    then have fin: "f32_is_finite (f32_of_nat n)" using m by (simp add: f32_is_finite_def)
    have "m = (e + 127) * 2 ^ 23 + (k - 2 ^ 23)" using k by (simp add: m_def algebra_simps)
    moreover have "k - 2 ^ 23 < 2 ^ 23" using k by simp
    ultimately have "m div 2 ^ 23 = e + 127" "m mod 2 ^ 23 = k - 2 ^ 23"
      by (simp_all only: div_mult_self3 mod_mult_self3 div_less mod_less power_not_zero
          zero_neq_numeral [symmetric] not_False_eq_True add_0_right)
    moreover have "\<not> m < 2 ^ 23" using k by (simp add: m_def)
    ultimately have "mag_value m = k * 2 ^ (e + 126)" using k by (simp add: mag_value_def)
    also have "\<dots> = n * 2 ^ (23 - e + (e + 126))" by (simp only: k_def mult.assoc power_add)
    also have "23 - e + (e + 126) = 149" using e by simp
    finally have "mag_value m div 2 ^ 149 = n" by simp
    then show ?thesis
      using f32_to_u64_value [OF s(2) fin] s fin assms by simp
  qed
  then show "f32_to_u64 (f32_of_nat n) = n" "f32_is_finite (f32_of_nat n)" "\<not> f32_negative (f32_of_nat n)"
    by simp_all
qed

text \<open>The conversion of a value bounded by an integer gives at most that integer.\<close>

lemma f32_to_u64_min:
  assumes "n < 2 ^ 24"
  shows "f32_to_u64 (f32_min x (f32_of_nat n)) \<le> n"
proof -
  note N = f32_of_nat_exact [OF assms]
  have nn: "\<not> f32_is_nan (f32_of_nat n)" using N(2) by (simp add: f32_is_nan_def f32_is_finite_def)
  show ?thesis
  proof (cases "f32_min x (f32_of_nat n) = x \<and> \<not> f32_negative x \<and> \<not> f32_is_nan x")
    case False
    then show ?thesis
      using N nn by (auto simp: f32_min_def f32_to_u64_def split: if_splits)
  next
    case True
    then have "f32_min x (f32_of_nat n) = x" "\<not> f32_negative x" "\<not> f32_is_nan x" by simp_all
    show ?thesis
    proof (cases "x = f32_of_nat n")
      case True
      then show ?thesis using N by (simp add: f32_min_def)
    next
      case False
      have "\<not> f32_lt (f32_of_nat n) x"
        using True False nn by (auto simp: f32_min_def)
      then have le: "f32_magnitude x \<le> f32_magnitude (f32_of_nat n)"
        using True nn N(3) by (auto simp: f32_lt_def f32_key_def)
      then have "f32_is_finite x" using N(2) by (simp add: f32_is_finite_def)
      then have "f32_to_u64 x = min (mag_value (f32_magnitude x) div 2 ^ 149) (2 ^ 64 - 1)"
        using True by (intro f32_to_u64_value) simp_all
      also have "\<dots> \<le> min (mag_value (f32_magnitude (f32_of_nat n)) div 2 ^ 149) (2 ^ 64 - 1)"
        by (intro min.mono div_le_mono mag_value_mono le) simp
      also have "\<dots> = n" using f32_to_u64_value [OF N(3,2)] N(1) by simp
      finally show ?thesis using True by simp
    qed
  qed
qed

end
