(* ===== verification/Protocol.thy ===== *)
theory Protocol
  imports F32
begin

text \<open>
  Crate \<open>common_protocol\<close> (\<open>src/lib.rs\<close>): the messages between the credential provider, the
  service and the control application, the authorisation grant and its time window; from
  \<open>control_protocol\<close> the settings patch a request carries. The identifiers \<open>UserId\<close>,
  \<open>SessionId\<close>, \<open>GrantId\<close> and \<open>Nonce\<close> wrap strings.
\<close>

datatype user_id = UserId string
datatype session_id = SessionId string
datatype grant_id = GrantId string
datatype nonce = Nonce string
datatype credential_ref = CredentialRef string

datatype account_type = Local | MicrosoftAccount | Domain

datatype auth_source = LocalCamera | VehicleCamera | ManualTest

datatype auth_trigger_source = CredentialScreenEntered | BackgroundSilentMonitor

datatype auth_failure_reason =
    NoFaceDetected
  | MultipleFacesDetected
  | MatchBelowThreshold
  | IntruderDetected
  | TemplateModelMismatch
  | LivenessFailed
  | CooldownActive
  | Timeout
  | Cancelled
  | InternalError

record auth_score =
  match_score :: f32
  liveness_score :: "f32 option"

record protected_credential =
  pc_user_id :: user_id
  pc_credential_ref :: credential_ref

datatype credential_material_protection = DpapiLocalMachineV1

record protected_credential_material =
  pcm_user_id :: user_id
  pcm_domain :: string
  pcm_username :: string
  protected_password :: "u8 list"
  protection :: credential_material_protection

record auth_grant =
  grant_id :: grant_id
  nonce :: nonce
  session_id :: session_id
  user_id :: user_id
  source :: auth_source
  score :: auth_score
  issued_at_unix_ms :: i64
  expires_at_unix_ms :: i64

definition is_expired_at :: "auth_grant \<Rightarrow> i64 \<Rightarrow> bool" where
  "is_expired_at g current_time_unix_ms \<longleftrightarrow> current_time_unix_ms \<ge> expires_at_unix_ms g"

definition has_valid_time_window :: "auth_grant \<Rightarrow> bool" where
  "has_valid_time_window g \<longleftrightarrow> expires_at_unix_ms g > issued_at_unix_ms g"

text \<open>\<open>DEFAULT_GRANT_TTL\<close> in milliseconds.\<close>

definition default_grant_ttl_ms :: i64 where
  "default_grant_ttl_ms = 5000"

text \<open>The derived \<open>PartialEq\<close>: field by field, with the comparison of \<open>f32\<close> on the scores (so a
  grant with a NaN score is not equal to itself).\<close>

fun opt_f32_eq :: "f32 option \<Rightarrow> f32 option \<Rightarrow> bool" where
  "opt_f32_eq None None = True"
| "opt_f32_eq (Some x) (Some y) = f32_eq x y"
| "opt_f32_eq _ _ = False"

definition auth_score_eq :: "auth_score \<Rightarrow> auth_score \<Rightarrow> bool" where
  "auth_score_eq a b \<longleftrightarrow>
     f32_eq (match_score a) (match_score b) \<and> opt_f32_eq (liveness_score a) (liveness_score b)"

definition auth_grant_eq :: "auth_grant \<Rightarrow> auth_grant \<Rightarrow> bool" where
  "auth_grant_eq a b \<longleftrightarrow>
     grant_id a = grant_id b \<and> nonce a = nonce b \<and> session_id a = session_id b \<and>
     user_id a = user_id b \<and> source a = source b \<and> auth_score_eq (score a) (score b) \<and>
     issued_at_unix_ms a = issued_at_unix_ms b \<and> expires_at_unix_ms a = expires_at_unix_ms b"

datatype protocol_error =
    Unauthorized
  | InvalidMessage
  | ExpiredGrant
  | UsedGrant
  | SessionMismatch
  | TransportUnavailable

text \<open>\<open>control_protocol::ControlSettingsPatch\<close> and \<open>LogonWakeMode\<close>.\<close>

datatype logon_wake_mode = TriggeredRecognition | BackgroundSilentRecognition

record control_settings_patch =
  presence_lock_enabled :: "bool option"
  intruder_snap_enabled :: "bool option"
  logon_wake_mode :: "logon_wake_mode option"
  logon_face_match_threshold :: "f32 option"
  intruder_similarity_threshold :: "f32 option"

definition has_updates :: "control_settings_patch \<Rightarrow> bool" where
  "has_updates p \<longleftrightarrow>
     presence_lock_enabled p \<noteq> None \<or> intruder_snap_enabled p \<noteq> None \<or>
     logon_wake_mode p \<noteq> None \<or> logon_face_match_threshold p \<noteq> None \<or>
     intruder_similarity_threshold p \<noteq> None"

definition min_logon_face_match_threshold :: f32 where
  "min_logon_face_match_threshold = F32 0x3E99999A" \<comment> \<open>0.30\<close>

definition max_logon_face_match_threshold :: f32 where
  "max_logon_face_match_threshold = F32 0x3F666666" \<comment> \<open>0.90\<close>

definition min_intruder_similarity_threshold :: f32 where
  "min_intruder_similarity_threshold = F32 0x3DCCCCCD" \<comment> \<open>0.10\<close>

definition max_intruder_similarity_threshold :: f32 where
  "max_intruder_similarity_threshold = F32 0x3F19999A" \<comment> \<open>0.60\<close>

definition threshold_in :: "f32 \<Rightarrow> f32 \<Rightarrow> f32 option \<Rightarrow> bool" where
  "threshold_in lo hi t =
     (case t of None \<Rightarrow> True | Some x \<Rightarrow> f32_is_finite x \<and> f32_le lo x \<and> f32_le x hi)"

definition has_valid_values :: "control_settings_patch \<Rightarrow> bool" where
  "has_valid_values p \<longleftrightarrow>
     threshold_in min_logon_face_match_threshold max_logon_face_match_threshold
       (logon_face_match_threshold p) \<and>
     threshold_in min_intruder_similarity_threshold max_intruder_similarity_threshold
       (intruder_similarity_threshold p)"

datatype service_request =
    WakeAuth session_id auth_source auth_trigger_source
  | FetchAuthResult session_id
  | FetchCredential session_id grant_id nonce
  | FetchCredentialMaterial session_id grant_id nonce
  | Cancel session_id
  | ApplyLocalCameraAuthConfig string string string
  | UpdateSettings control_settings_patch
  | ReloadAuthConfig
  | HealthCheck
  | CheckWindowsCredential user_id credential_ref
  | EnrollWindowsCredential user_id string string account_type credential_ref string

datatype service_event =
    AuthStarted session_id
  | AuthSucceeded auth_grant
  | AuthFailed session_id auth_failure_reason
  | CredentialReady grant_id protected_credential
  | CredentialMaterialReady grant_id protected_credential_material
  | AuthCancelled session_id
  | AuthConfigReloaded
  | HealthOk
  | WindowsCredentialStatus bool
  | WindowsCredentialEnrolled
  | RequestRejected protocol_error

lemma opt_f32_eq_sym: "opt_f32_eq x y = opt_f32_eq y x"
  by (cases x; cases y) (simp_all add: f32_eq_sym)

lemma auth_grant_eq_sym: "auth_grant_eq a b = auth_grant_eq b a"
  by (auto simp: auth_grant_eq_def auth_score_eq_def opt_f32_eq_sym f32_eq_sym)

lemma auth_grant_eq_window:
  "auth_grant_eq a b \<Longrightarrow> is_expired_at a t = is_expired_at b t"
  by (simp add: auth_grant_eq_def is_expired_at_def)

lemma is_expired_at_mono: "is_expired_at g t \<Longrightarrow> t \<le> t' \<Longrightarrow> is_expired_at g t'"
  by (simp add: is_expired_at_def)

end
