(* ===== verification/Grant_Registry.thy ===== *)
theory Grant_Registry
  imports Protocol
begin

text \<open>
  Crate \<open>ipc\<close>, \<open>src/grant_registry.rs\<close>: the authorisation grants the service has issued, each
  redeemable once before it expires. A redeemed or revoked grant stays as a tombstone until its
  expiry, so that the issuer's cached result cannot bring it back. The last section runs
  sequences of operations, with the log of the redeemed grants.
\<close>

section \<open>The registry\<close>

datatype grant_redemption_state = Available | Redeemed | Revoked

record tracked_grant =
  grant :: auth_grant
  redemption_state :: grant_redemption_state

type_synonym grant_registry = "grant_id \<rightharpoonup> tracked_grant"

definition remove_expired_grants :: "i64 \<Rightarrow> grant_registry \<Rightarrow> grant_registry" where
  "remove_expired_grants current_time_unix_ms m =
     retain (\<lambda>_ tracked. \<not> is_expired_at (grant tracked) current_time_unix_ms) m"

definition insert_issued_grant ::
  "auth_grant \<Rightarrow> i64 \<Rightarrow> grant_registry \<Rightarrow> grant_registry \<times> (protocol_error + unit)" where
  "insert_issued_grant g current_time_unix_ms m0 =
     (let m = remove_expired_grants current_time_unix_ms m0
      in if \<not> has_valid_time_window g then (m, Inl InvalidMessage)
         else if is_expired_at g current_time_unix_ms then (m, Inl ExpiredGrant)
         else if issued_at_unix_ms g > current_time_unix_ms then (m, Inl InvalidMessage)
         else case m (grant_id g) of
                Some existing \<Rightarrow>
                  if \<not> auth_grant_eq (grant existing) g then (m, Inl InvalidMessage)
                  else (m, (case redemption_state existing of
                              Available \<Rightarrow> Inr ()
                            | Redeemed \<Rightarrow> Inl UsedGrant
                            | Revoked \<Rightarrow> Inl Unauthorized))
              | None \<Rightarrow>
                  (m(grant_id g \<mapsto> \<lparr>grant = g, redemption_state = Available\<rparr>), Inr ()))"

definition redeem_grant_for_session ::
  "grant_id \<Rightarrow> nonce \<Rightarrow> session_id \<Rightarrow> i64 \<Rightarrow> grant_registry \<Rightarrow>
     grant_registry \<times> (protocol_error + auth_grant)" where
  "redeem_grant_for_session gid n sid current_time_unix_ms m =
     (case m gid of
        None \<Rightarrow> (m, Inl InvalidMessage)
      | Some tracked \<Rightarrow>
          if nonce (grant tracked) \<noteq> n then (m, Inl Unauthorized)
          else if session_id (grant tracked) \<noteq> sid then (m, Inl SessionMismatch)
          else if is_expired_at (grant tracked) current_time_unix_ms then (m, Inl ExpiredGrant)
          else if redemption_state tracked = Redeemed then (m, Inl UsedGrant)
          else if redemption_state tracked = Revoked then (m, Inl Unauthorized)
          else (m(gid \<mapsto> tracked\<lparr>redemption_state := Redeemed\<rparr>), Inr (grant tracked)))"

definition revoke_all_grants :: "grant_registry \<Rightarrow> grant_registry" where
  "revoke_all_grants m = map_values (\<lambda>tracked. tracked\<lparr>redemption_state := Revoked\<rparr>) m"

definition revoke_grants_for_session :: "session_id \<Rightarrow> grant_registry \<Rightarrow> grant_registry" where
  "revoke_grants_for_session sid m =
     map_values (\<lambda>tracked. if session_id (grant tracked) = sid
                            then tracked\<lparr>redemption_state := Revoked\<rparr> else tracked) m"

section \<open>Which grants can still be redeemed\<close>

definition redeemable :: "grant_registry \<Rightarrow> i64 \<Rightarrow> auth_grant \<Rightarrow> bool" where
  "redeemable m t g \<longleftrightarrow>
     (\<exists>tracked. m (grant_id g) = Some tracked \<and> grant tracked = g \<and>
        redemption_state tracked = Available \<and> \<not> is_expired_at g t)"

text \<open>Every entry is stored under the identifier of its grant.\<close>

definition registry_wf :: "grant_registry \<Rightarrow> bool" where
  "registry_wf m \<longleftrightarrow> (\<forall>k tracked. m k = Some tracked \<longrightarrow> grant_id (grant tracked) = k)"

text \<open>A grant is spent at time \<open>t\<close> when it has expired or its tombstone is in the registry.\<close>

definition spent :: "grant_registry \<Rightarrow> i64 \<Rightarrow> auth_grant \<Rightarrow> bool" where
  "spent m t g \<longleftrightarrow> is_expired_at g t \<or>
     (\<exists>tracked. m (grant_id g) = Some tracked \<and> grant tracked = g \<and>
        redemption_state tracked \<noteq> Available)"

lemmas registry_defs = remove_expired_grants_def insert_issued_grant_def
  redeem_grant_for_session_def revoke_all_grants_def revoke_grants_for_session_def

lemma registry_wf_empty [simp]: "registry_wf Map.empty"
  by (simp add: registry_wf_def)

lemma remove_expired_wf [intro]: "registry_wf m \<Longrightarrow> registry_wf (remove_expired_grants t m)"
  by (auto simp: registry_wf_def registry_defs)

lemma insert_wf: "registry_wf m \<Longrightarrow> registry_wf (fst (insert_issued_grant g t m))"
  by (auto simp: registry_wf_def registry_defs Let_def split: option.splits)

lemma redeem_wf: "registry_wf m \<Longrightarrow> registry_wf (fst (redeem_grant_for_session k n s t m))"
  by (auto simp: registry_wf_def registry_defs split: option.splits)

lemma revoke_all_wf: "registry_wf m \<Longrightarrow> registry_wf (revoke_all_grants m)"
  by (auto simp: registry_wf_def registry_defs)

lemma revoke_session_wf: "registry_wf m \<Longrightarrow> registry_wf (revoke_grants_for_session s m)"
  by (auto simp: registry_wf_def registry_defs)

lemma redeem_Inr_iff:
  "redeem_grant_for_session k n s t m = (m', Inr g) \<longleftrightarrow>
     (\<exists>tracked. m k = Some tracked \<and> g = grant tracked \<and> nonce g = n \<and> session_id g = s \<and>
        \<not> is_expired_at g t \<and> redemption_state tracked = Available \<and>
        m' = m(k \<mapsto> tracked\<lparr>redemption_state := Redeemed\<rparr>))"
  by (auto simp: redeem_grant_for_session_def split: option.splits)
    (metis grant_redemption_state.exhaust)

lemma redeem_Inl: "redeem_grant_for_session k n s t m = (m', Inl e) \<Longrightarrow> m' = m"
  by (auto simp: redeem_grant_for_session_def split: option.splits if_splits)

lemma redeem_redeemable:
  assumes "registry_wf m" and "redeem_grant_for_session k n s t m = (m', Inr g)"
  shows "redeemable m t g" "grant_id g = k" "spent m' t' g"
  using assms by (auto simp: redeem_Inr_iff redeemable_def spent_def registry_wf_def)

lemma not_redeemable_spent: "spent m t g \<Longrightarrow> \<not> redeemable m t g"
  by (auto simp: spent_def redeemable_def)

subsection \<open>A spent grant stays spent\<close>

lemma spent_later: "spent m t g \<Longrightarrow> t \<le> t' \<Longrightarrow> spent m t' g"
  by (auto simp: spent_def intro: is_expired_at_mono)

lemma spent_remove_expired: "spent m t g \<Longrightarrow> spent (remove_expired_grants t m) t g"
  by (auto simp: spent_def remove_expired_grants_def)

lemma spent_insert:
  assumes "spent m t g"
  shows "spent (fst (insert_issued_grant h t m)) t g"
proof -
  have "spent (remove_expired_grants t m) t g"
    using assms by (rule spent_remove_expired)
  then show ?thesis
    by (cases "grant_id h = grant_id g")
      (auto simp: insert_issued_grant_def Let_def spent_def split: option.splits)
qed

lemma spent_redeem:
  assumes "spent m t g"
  shows "spent (fst (redeem_grant_for_session k n s t m)) t g"
  using assms
  by (cases "k = grant_id g")
    (auto simp: redeem_grant_for_session_def spent_def split: option.splits)

lemma spent_revoke_all: "spent m t g \<Longrightarrow> spent (revoke_all_grants m) t g"
  by (auto simp: spent_def revoke_all_grants_def)

lemma spent_revoke_session: "spent m t g \<Longrightarrow> spent (revoke_grants_for_session s m) t g"
  by (auto simp: spent_def revoke_grants_for_session_def simp del: map_option_eq_Some
      split: if_splits)

lemmas spent_preserved = spent_remove_expired spent_insert spent_redeem spent_revoke_all
  spent_revoke_session

section \<open>Sequences of operations\<close>

datatype registry_op =
    InsertGrant auth_grant
  | RedeemGrant grant_id nonce session_id
  | RemoveExpired
  | RevokeAll
  | RevokeSession session_id

fun registry_step :: "registry_op \<Rightarrow> i64 \<Rightarrow> grant_registry \<Rightarrow> grant_registry \<times> auth_grant list" where
  "registry_step (InsertGrant g) t m = (fst (insert_issued_grant g t m), [])"
| "registry_step (RedeemGrant k n s) t m =
     (case redeem_grant_for_session k n s t m of
        (m', Inl e) \<Rightarrow> (m', [])
      | (m', Inr g) \<Rightarrow> (m', [g]))"
| "registry_step RemoveExpired t m = (remove_expired_grants t m, [])"
| "registry_step RevokeAll t m = (revoke_all_grants m, [])"
| "registry_step (RevokeSession s) t m = (revoke_grants_for_session s m, [])"

text \<open>The log holds each redeemed grant with the time of its redemption.\<close>

fun registry_run :: "(registry_op \<times> i64) list \<Rightarrow> grant_registry \<Rightarrow> grant_registry \<times> (i64 \<times> auth_grant) list" where
  "registry_run [] m = (m, [])"
| "registry_run ((op, t) # ops) m =
     (case registry_step op t m of
        (m', gs) \<Rightarrow> (case registry_run ops m' of
           (m'', log) \<Rightarrow> (m'', map (Pair t) gs @ log)))"

lemma step_wf: "registry_wf m \<Longrightarrow> registry_wf (fst (registry_step op t m))"
proof (cases op)
  case (RedeemGrant k n s)
  assume "registry_wf m"
  then show ?thesis
    using redeem_wf [of m k n s t] RedeemGrant by (auto split: prod.splits sum.splits)
qed (auto intro: insert_wf revoke_all_wf revoke_session_wf)

lemma step_spent: "spent m t g \<Longrightarrow> spent (fst (registry_step op t m)) t g"
proof (cases op)
  case (RedeemGrant k n s)
  assume "spent m t g"
  then show ?thesis
    using spent_redeem [of m t g k n s] RedeemGrant by (auto split: prod.splits sum.splits)
qed (auto intro: spent_preserved)

lemma step_redeemed:
  assumes "registry_wf m" and "g \<in> set (snd (registry_step op t m))"
  shows "redeemable m t g \<and> spent (fst (registry_step op t m)) t g"
  using assms
  by (cases op) (auto split: prod.splits sum.splits dest: redeem_redeemable)

lemma step_redeemed_length: "length (snd (registry_step op t m)) \<le> 1"
  by (cases op) (auto split: prod.splits sum.splits)

lemma run_never_redeems_spent:
  assumes "registry_wf m" and "spent m t g" and "sorted (t # map snd ops)"
    and "(t', h) \<in> set (snd (registry_run ops m))"
  shows "h \<noteq> g"
  using assms
proof (induction ops arbitrary: m t)
  case Nil
  then show ?case by simp
next
  case (Cons opt ops)
  obtain op u where opt: "opt = (op, u)" by fastforce
  obtain m' gs where st: "registry_step op u m = (m', gs)" by fastforce
  have u: "spent m u g"
    using Cons.prems opt by (auto intro: spent_later)
  have m': "registry_wf m'" "spent m' u g"
    using step_wf [OF Cons.prems(1), of op u] step_spent [OF u, of op] st by simp_all
  have here: "h \<noteq> g" if "h \<in> set gs"
    using step_redeemed [OF Cons.prems(1), of h op u] st that u not_redeemable_spent by auto
  have later: "h \<noteq> g" if "(t', h) \<in> set (snd (registry_run ops m'))"
    using Cons.IH [OF m' _ that] Cons.prems(3) opt by auto
  from Cons.prems(4) opt st here later show ?case
    by (auto split: prod.splits)
qed

lemma registry_run_append:
  "registry_run (xs @ ys) m =
     (case registry_run xs m of (m', log) \<Rightarrow>
        (case registry_run ys m' of (m'', log') \<Rightarrow> (m'', log @ log')))"
  by (induction xs arbitrary: m) (auto split: prod.splits)

lemma registry_run_append_proj:
  "fst (registry_run (xs @ ys) m) = fst (registry_run ys (fst (registry_run xs m)))"
  "snd (registry_run (xs @ ys) m) =
     snd (registry_run xs m) @ snd (registry_run ys (fst (registry_run xs m)))"
  by (simp_all add: registry_run_append split: prod.splits)

lemma run_wf: "registry_wf m \<Longrightarrow> registry_wf (fst (registry_run ops m))"
proof (induction ops arbitrary: m)
  case Nil
  then show ?case by simp
next
  case (Cons opt ops)
  obtain op u where opt: "opt = (op, u)" by fastforce
  with Cons.IH [OF step_wf [OF Cons.prems, of op u]] show ?case
    by (auto split: prod.splits)
qed

text \<open>No grant is redeemed twice.\<close>

lemma distinct_redeemed:
  assumes "registry_wf m" and "sorted (map snd ops)"
  shows "distinct (map snd (snd (registry_run ops m)))"
  using assms
proof (induction ops arbitrary: m)
  case Nil
  then show ?case by simp
next
  case (Cons opt ops)
  obtain op u where opt: "opt = (op, u)" by fastforce
  obtain m' gs where st: "registry_step op u m = (m', gs)" by fastforce
  have m': "registry_wf m'"
    using step_wf [OF Cons.prems(1), of op u] st by simp
  have "distinct gs"
    using step_redeemed_length [of op u m] st by (cases gs) auto
  moreover have "\<forall>g \<in> set gs. g \<notin> snd ` set (snd (registry_run ops m'))"
  proof
    fix g
    assume "g \<in> set gs"
    then have "spent m' u g"
      using step_redeemed [OF Cons.prems(1), of g op u] st by simp
    then show "g \<notin> snd ` set (snd (registry_run ops m'))"
      using run_never_redeems_spent [OF m'] Cons.prems(2) opt by fastforce
  qed
  ultimately show ?case
    using Cons.IH [OF m'] Cons.prems(2) opt st by (cases "registry_run ops m'") (auto simp: comp_def)
qed

section \<open>Properties of the registry\<close>

text \<open>In any run of operations at non-decreasing times no grant is redeemed twice, whatever
  is inserted, revoked or expires in between, and however often the issuer hands the same grant
  in again.\<close>

theorem grant_redeemed_at_most_once:
  assumes "registry_wf m" and "sorted (map snd ops)"
  shows "distinct (map snd (snd (registry_run ops m)))"
  using assms by (rule distinct_redeemed)

definition sample_grant :: auth_grant where
  "sample_grant =
     \<lparr>grant_id = GrantId ''grant-1'', nonce = Nonce ''nonce-1'', session_id = SessionId ''session-1'',
      user_id = UserId ''user-1'', source = LocalCamera,
      score = \<lparr>match_score = f32_one, liveness_score = None\<rparr>,
      issued_at_unix_ms = 1000, expires_at_unix_ms = 6000\<rparr>"

lemmas sample_grant_simps = sample_grant_def is_expired_at_def has_valid_time_window_def

definition sample_ops :: "(registry_op \<times> i64) list" where
  "sample_ops =
     [(InsertGrant sample_grant, 1000),
      (RedeemGrant (GrantId ''grant-1'') (Nonce ''nonce-1'') (SessionId ''session-1''), 2000),
      (InsertGrant sample_grant, 2001),
      (RedeemGrant (GrantId ''grant-1'') (Nonce ''nonce-1'') (SessionId ''session-1''), 2002)]"

theorem grant_redeemed_at_most_once_witness:
  "snd (registry_run (take 2 sample_ops) Map.empty) = [(2000, sample_grant)] \<and>
   distinct (map snd (snd (registry_run sample_ops Map.empty)))"
proof
  show "snd (registry_run (take 2 sample_ops) Map.empty) = [(2000, sample_grant)]"
    by (simp add: sample_ops_def sample_grant_simps insert_issued_grant_def
        redeem_grant_for_session_def remove_expired_grants_def numeral_2_eq_2)
  show "distinct (map snd (snd (registry_run sample_ops Map.empty)))"
    by (rule grant_redeemed_at_most_once) (simp_all add: sample_ops_def)
qed

text \<open>Revocation is permanent: no grant the registry held when all grants were revoked is
  redeemed in any later run of operations at non-decreasing times, not even when the issuer hands
  it in again.\<close>

theorem revocation_is_permanent:
  assumes "registry_wf m" and "m k = Some tracked" and "sorted (t # map snd ops)"
    and "(t', h) \<in> set (snd (registry_run ops (revoke_all_grants m)))"
  shows "h \<noteq> grant tracked"
proof (rule run_never_redeems_spent [OF _ _ assms(3,4)])
  show "registry_wf (revoke_all_grants m)"
    using assms(1) by (rule revoke_all_wf)
  show "spent (revoke_all_grants m) t (grant tracked)"
    using assms(1,2) by (auto simp: spent_def revoke_all_grants_def registry_wf_def)
qed

definition other_grant :: auth_grant where
  "other_grant = sample_grant\<lparr>grant_id := GrantId ''grant-2''\<rparr>"

theorem revocation_is_permanent_witness: "other_grant \<noteq> sample_grant"
proof (rule revocation_is_permanent [of "[GrantId ''grant-1'' \<mapsto> \<lparr>grant = sample_grant, redemption_state = Available\<rparr>]"
      "GrantId ''grant-1''" "\<lparr>grant = sample_grant, redemption_state = Available\<rparr>" 1000
      "[(InsertGrant other_grant, 1500),
        (RedeemGrant (GrantId ''grant-2'') (Nonce ''nonce-1'') (SessionId ''session-1''), 1600)]"
      1600, simplified tracked_grant.simps])
qed (simp_all add: registry_wf_def other_grant_def sample_grant_simps insert_issued_grant_def Let_def
    redeem_grant_for_session_def remove_expired_grants_def retain_def revoke_all_grants_def
    fun_eq_iff)

end
