(* ===== verification/Service_Handler.thy ===== *)
theory Service_Handler
  imports Grant_Registry "HOL-Library.Sublist"
begin

text \<open>
  Crate \<open>ipc\<close>, \<open>src/service_handler.rs\<close>: the service's request handler over the grant registry,
  the set of sessions whose result may still be fetched, the grant issuer and the credential
  resolver. The issuer, the resolver and the clock are traits of the code: records of methods
  over their own state, and the readings the clock gives in the course of one request (\<open>clk 0\<close>
  at entry, then one for every further call).
\<close>

section \<open>The traits\<close>

datatype auth_grant_issue_result =
    Issued auth_grant
  | Started
  | Failed auth_failure_reason

record 'i issuer_ops =
  issue_auth_grant ::
    "session_id \<Rightarrow> auth_source \<Rightarrow> auth_trigger_source \<Rightarrow> i64 \<Rightarrow> 'i \<Rightarrow> 'i \<times> auth_grant_issue_result"
  fetch_auth_result :: "session_id \<Rightarrow> i64 \<Rightarrow> 'i \<Rightarrow> 'i \<times> (auth_failure_reason + auth_grant) option"
  cancel_auth :: "session_id \<Rightarrow> 'i \<Rightarrow> 'i"
  reload_auth_config :: "'i \<Rightarrow> 'i \<times> (protocol_error + unit)"
  apply_local_camera_auth_config ::
    "string \<Rightarrow> string \<Rightarrow> string \<Rightarrow> 'i \<Rightarrow> 'i \<times> (protocol_error + unit)"
  update_settings :: "control_settings_patch \<Rightarrow> 'i \<Rightarrow> 'i \<times> (protocol_error + unit)"
  check_windows_credential :: "user_id \<Rightarrow> credential_ref \<Rightarrow> 'i \<Rightarrow> 'i \<times> (protocol_error + bool)"
  enroll_windows_credential ::
    "user_id \<Rightarrow> string \<Rightarrow> string \<Rightarrow> account_type \<Rightarrow> credential_ref \<Rightarrow> string \<Rightarrow> 'i \<Rightarrow>
       'i \<times> (protocol_error + unit)"

text \<open>The methods an issuer need not define, with the trait's default bodies.\<close>

definition default_issuer_ops ::
  "(session_id \<Rightarrow> auth_source \<Rightarrow> auth_trigger_source \<Rightarrow> i64 \<Rightarrow> 'i \<Rightarrow> 'i \<times> auth_grant_issue_result) \<Rightarrow>
     'i issuer_ops" where
  "default_issuer_ops issue =
     \<lparr>issue_auth_grant = issue,
      fetch_auth_result = (\<lambda>_ _ i. (i, None)),
      cancel_auth = (\<lambda>_ i. i),
      reload_auth_config = (\<lambda>i. (i, Inr ())),
      apply_local_camera_auth_config = (\<lambda>_ _ _ i. (i, Inl Unauthorized)),
      update_settings = (\<lambda>_ i. (i, Inl Unauthorized)),
      check_windows_credential = (\<lambda>_ _ i. (i, Inr False)),
      enroll_windows_credential = (\<lambda>_ _ _ _ _ _ i. (i, Inl Unauthorized))\<rparr>"

record 'r resolver_ops =
  resolve_protected_credential :: "auth_grant \<Rightarrow> 'r \<Rightarrow> 'r \<times> (protocol_error + protected_credential)"
  resolve_protected_credential_material ::
    "auth_grant \<Rightarrow> 'r \<Rightarrow> 'r \<times> (protocol_error + protected_credential_material)"

section \<open>The handler\<close>

record ('i, 'r) handler =
  grant_issuer :: 'i
  credential_resolver :: 'r
  grant_registry :: grant_registry
  pending_auth_sessions :: "session_id \<rightharpoonup> i64"

definition new_handler :: "'i \<Rightarrow> 'r \<Rightarrow> ('i, 'r) handler" where
  "new_handler i r =
     \<lparr>grant_issuer = i, credential_resolver = r, grant_registry = Map.empty,
      pending_auth_sessions = Map.empty\<rparr>"

definition pending_auth_result_ttl_ms :: i64 where
  "pending_auth_result_ttl_ms = 5 * 60 * 1000"

definition invalidate_auth_state :: "('i, 'r) handler \<Rightarrow> ('i, 'r) handler" where
  "invalidate_auth_state h =
     h\<lparr>grant_registry := revoke_all_grants (grant_registry h), pending_auth_sessions := Map.empty\<rparr>"

definition remove_pending :: "session_id \<Rightarrow> ('i, 'r) handler \<Rightarrow> ('i, 'r) handler" where
  "remove_pending sid h = h\<lparr>pending_auth_sessions := map_remove sid (pending_auth_sessions h)\<rparr>"

definition insert_grant ::
  "auth_grant \<Rightarrow> i64 \<Rightarrow> ('i, 'r) handler \<Rightarrow> ('i, 'r) handler \<times> (protocol_error + service_event)" where
  "insert_grant g now h =
     (case insert_issued_grant g now (grant_registry h) of
        (m, Inl e) \<Rightarrow> (h\<lparr>grant_registry := m\<rparr>, Inl e)
      | (m, Inr _) \<Rightarrow> (h\<lparr>grant_registry := m\<rparr>, Inr (AuthSucceeded g)))"

definition handle_wake_auth ::
  "'i issuer_ops \<Rightarrow> (nat \<Rightarrow> i64) \<Rightarrow> session_id \<Rightarrow> auth_source \<Rightarrow> auth_trigger_source \<Rightarrow>
     ('i, 'r) handler \<Rightarrow> ('i, 'r) handler \<times> (protocol_error + service_event)" where
  "handle_wake_auth I clk sid src trigger h =
     (let issued_at_unix_ms = clk 1
      in case issue_auth_grant I sid src trigger issued_at_unix_ms (grant_issuer h) of
           (i, Issued g) \<Rightarrow> insert_grant g (clk 2) (remove_pending sid (h\<lparr>grant_issuer := i\<rparr>))
         | (i, Started) \<Rightarrow>
             (h\<lparr>grant_issuer := i,
                pending_auth_sessions := (pending_auth_sessions h)(sid \<mapsto> issued_at_unix_ms)\<rparr>,
              Inr (AuthStarted sid))
         | (i, Failed reason) \<Rightarrow>
             (remove_pending sid (h\<lparr>grant_issuer := i\<rparr>), Inr (AuthFailed sid reason)))"

definition handle_fetch_auth_result ::
  "'i issuer_ops \<Rightarrow> (nat \<Rightarrow> i64) \<Rightarrow> session_id \<Rightarrow>
     ('i, 'r) handler \<Rightarrow> ('i, 'r) handler \<times> (protocol_error + service_event)" where
  "handle_fetch_auth_result I clk sid h =
     (if pending_auth_sessions h sid = None then (h, Inr (AuthFailed sid Cancelled))
      else case fetch_auth_result I sid (clk 1) (grant_issuer h) of
             (i, None) \<Rightarrow> (h\<lparr>grant_issuer := i\<rparr>, Inr (AuthStarted sid))
           | (i, Some (Inr g)) \<Rightarrow> insert_grant g (clk 2) (remove_pending sid (h\<lparr>grant_issuer := i\<rparr>))
           | (i, Some (Inl reason)) \<Rightarrow>
               (remove_pending sid (h\<lparr>grant_issuer := i\<rparr>), Inr (AuthFailed sid reason)))"

text \<open>The purge every request begins with.\<close>

definition begin_request :: "i64 \<Rightarrow> ('i, 'r) handler \<Rightarrow> ('i, 'r) handler" where
  "begin_request now h =
     h\<lparr>grant_registry := remove_expired_grants now (grant_registry h),
       pending_auth_sessions :=
         retain (\<lambda>_ started. now \<ge> started \<and>
                   i64_saturating_sub now started < pending_auth_result_ttl_ms)
           (pending_auth_sessions h)\<rparr>"

text \<open>\<open>self.grant_issuer.f(...)?\<close> followed by an event.\<close>

fun issuer_call ::
  "('i, 'r) handler \<Rightarrow> 'i \<times> (protocol_error + 'a) \<Rightarrow> ('a \<Rightarrow> service_event) \<Rightarrow>
     ('i, 'r) handler \<times> (protocol_error + service_event)" where
  "issuer_call h (i, Inl e) f = (h\<lparr>grant_issuer := i\<rparr>, Inl e)"
| "issuer_call h (i, Inr x) f = (h\<lparr>grant_issuer := i\<rparr>, Inr (f x))"

fun resolver_call ::
  "('i, 'r) handler \<Rightarrow> 'r \<times> (protocol_error + 'a) \<Rightarrow> ('a \<Rightarrow> service_event) \<Rightarrow>
     ('i, 'r) handler \<times> (protocol_error + service_event)" where
  "resolver_call h (r, Inl e) f = (h\<lparr>credential_resolver := r\<rparr>, Inl e)"
| "resolver_call h (r, Inr x) f = (h\<lparr>credential_resolver := r\<rparr>, Inr (f x))"

fun dispatch_request ::
  "'i issuer_ops \<Rightarrow> 'r resolver_ops \<Rightarrow> (nat \<Rightarrow> i64) \<Rightarrow> service_request \<Rightarrow>
     ('i, 'r) handler \<Rightarrow> ('i, 'r) handler \<times> (protocol_error + service_event)" where
  "dispatch_request I R clk (WakeAuth sid src trigger) h = handle_wake_auth I clk sid src trigger h"
| "dispatch_request I R clk (FetchAuthResult sid) h = handle_fetch_auth_result I clk sid h"
| "dispatch_request I R clk (FetchCredential sid gid n) h =
     (case redeem_grant_for_session gid n sid (clk 1) (grant_registry h) of
        (m, Inl e) \<Rightarrow> (h\<lparr>grant_registry := m\<rparr>, Inl e)
      | (m, Inr g) \<Rightarrow>
          resolver_call (h\<lparr>grant_registry := m\<rparr>)
            (resolve_protected_credential R g (credential_resolver h)) (CredentialReady gid))"
| "dispatch_request I R clk (FetchCredentialMaterial sid gid n) h =
     (case redeem_grant_for_session gid n sid (clk 1) (grant_registry h) of
        (m, Inl e) \<Rightarrow> (h\<lparr>grant_registry := m\<rparr>, Inl e)
      | (m, Inr g) \<Rightarrow>
          resolver_call (h\<lparr>grant_registry := m\<rparr>)
            (resolve_protected_credential_material R g (credential_resolver h))
            (CredentialMaterialReady gid))"
| "dispatch_request I R clk (Cancel sid) h =
     (let h1 = remove_pending sid (h\<lparr>grant_issuer := cancel_auth I sid (grant_issuer h)\<rparr>)
      in (h1\<lparr>grant_registry := revoke_grants_for_session sid (grant_registry h1)\<rparr>,
          Inr (AuthCancelled sid)))"
| "dispatch_request I R clk ReloadAuthConfig h =
     (let h1 = invalidate_auth_state h
      in issuer_call h1 (reload_auth_config I (grant_issuer h1)) (\<lambda>_. AuthConfigReloaded))"
| "dispatch_request I R clk (ApplyLocalCameraAuthConfig template_path camera_id install_dir) h =
     (let h1 = invalidate_auth_state h
      in issuer_call h1
           (apply_local_camera_auth_config I template_path camera_id install_dir (grant_issuer h1))
           (\<lambda>_. AuthConfigReloaded))"
| "dispatch_request I R clk (UpdateSettings patch) h =
     (let h1 = invalidate_auth_state h
      in issuer_call h1 (update_settings I patch (grant_issuer h1)) (\<lambda>_. AuthConfigReloaded))"
| "dispatch_request I R clk HealthCheck h = (h, Inr HealthOk)"
| "dispatch_request I R clk (CheckWindowsCredential uid cref) h =
     issuer_call h (check_windows_credential I uid cref (grant_issuer h)) WindowsCredentialStatus"
| "dispatch_request I R clk (EnrollWindowsCredential uid sid username acct cref secret) h =
     issuer_call h (enroll_windows_credential I uid sid username acct cref secret (grant_issuer h))
       (\<lambda>_. WindowsCredentialEnrolled)"

definition handle_request ::
  "'i issuer_ops \<Rightarrow> 'r resolver_ops \<Rightarrow> (nat \<Rightarrow> i64) \<Rightarrow> service_request \<Rightarrow>
     ('i, 'r) handler \<Rightarrow> ('i, 'r) handler \<times> (protocol_error + service_event)" where
  "handle_request I R clk req h = dispatch_request I R clk req (begin_request (clk 0) h)"

section \<open>What a request does to the registry\<close>

text \<open>The operations of the registry a request performs, with their times: the handler refines a
  run of the registry.\<close>

fun dispatch_ops ::
  "'i issuer_ops \<Rightarrow> (nat \<Rightarrow> i64) \<Rightarrow> service_request \<Rightarrow> ('i, 'r) handler \<Rightarrow> (registry_op \<times> i64) list" where
  "dispatch_ops I clk (WakeAuth sid src trigger) h =
     (case snd (issue_auth_grant I sid src trigger (clk 1) (grant_issuer h)) of
        Issued g \<Rightarrow> [(InsertGrant g, clk 2)] | _ \<Rightarrow> [])"
| "dispatch_ops I clk (FetchAuthResult sid) h =
     (if pending_auth_sessions h sid = None then []
      else case snd (fetch_auth_result I sid (clk 1) (grant_issuer h)) of
             Some (Inr g) \<Rightarrow> [(InsertGrant g, clk 2)] | _ \<Rightarrow> [])"
| "dispatch_ops I clk (FetchCredential sid gid n) h = [(RedeemGrant gid n sid, clk 1)]"
| "dispatch_ops I clk (FetchCredentialMaterial sid gid n) h = [(RedeemGrant gid n sid, clk 1)]"
| "dispatch_ops I clk (Cancel sid) h = [(RevokeSession sid, clk 0)]"
| "dispatch_ops I clk ReloadAuthConfig h = [(RevokeAll, clk 0)]"
| "dispatch_ops I clk (ApplyLocalCameraAuthConfig _ _ _) h = [(RevokeAll, clk 0)]"
| "dispatch_ops I clk (UpdateSettings _) h = [(RevokeAll, clk 0)]"
| "dispatch_ops I clk _ h = []"

definition request_ops ::
  "'i issuer_ops \<Rightarrow> (nat \<Rightarrow> i64) \<Rightarrow> service_request \<Rightarrow> ('i, 'r) handler \<Rightarrow> (registry_op \<times> i64) list" where
  "request_ops I clk req h = (RemoveExpired, clk 0) # dispatch_ops I clk req (begin_request (clk 0) h)"

text \<open>A sequence of requests, each with its own clock readings; the run gives the events, and the
  registry operations performed.\<close>

fun handle_all ::
  "'i issuer_ops \<Rightarrow> 'r resolver_ops \<Rightarrow> (service_request \<times> (nat \<Rightarrow> i64)) list \<Rightarrow> ('i, 'r) handler \<Rightarrow>
     ('i, 'r) handler \<times> (protocol_error + service_event) list \<times> (registry_op \<times> i64) list" where
  "handle_all I R [] h = (h, [], [])"
| "handle_all I R ((req, clk) # reqs) h =
     (case handle_request I R clk req h of
        (h', ev) \<Rightarrow> (case handle_all I R reqs h' of
           (h'', evs, ops) \<Rightarrow> (h'', ev # evs, request_ops I clk req h @ ops)))"

lemma handle_all_Cons:
  "fst (handle_all I R ((req, clk) # reqs) h) =
     fst (handle_all I R reqs (fst (handle_request I R clk req h)))"
  "fst (snd (handle_all I R ((req, clk) # reqs) h)) =
     snd (handle_request I R clk req h) #
     fst (snd (handle_all I R reqs (fst (handle_request I R clk req h))))"
  "snd (snd (handle_all I R ((req, clk) # reqs) h)) =
     request_ops I clk req h @ snd (snd (handle_all I R reqs (fst (handle_request I R clk req h))))"
  by (auto split: prod.splits)

declare handle_all.simps(2) [simp del]

section \<open>The handler refines the registry\<close>

lemma insert_grant_registry [simp]:
  "Service_Handler.grant_registry (fst (insert_grant g t h)) =
     fst (insert_issued_grant g t (Service_Handler.grant_registry h))"
  by (auto simp: insert_grant_def split: prod.splits sum.splits)

lemma issuer_call_simps [simp]:
  "Service_Handler.grant_registry (fst (issuer_call h c f)) = Service_Handler.grant_registry h"
  "pending_auth_sessions (fst (issuer_call h c f)) = pending_auth_sessions h"
  by (cases "(h, c, f)" rule: issuer_call.cases; simp)+

lemma resolver_call_simps [simp]:
  "Service_Handler.grant_registry (fst (resolver_call h c f)) = Service_Handler.grant_registry h"
  "pending_auth_sessions (fst (resolver_call h c f)) = pending_auth_sessions h"
  "grant_issuer (fst (resolver_call h c f)) = grant_issuer h"
  by (cases "(h, c, f)" rule: resolver_call.cases; simp)+

lemma dispatch_refines:
  "Service_Handler.grant_registry (fst (dispatch_request I R clk req h)) =
     fst (registry_run (dispatch_ops I clk req h) (Service_Handler.grant_registry h))"
  by (cases req)
    (auto simp: handle_wake_auth_def handle_fetch_auth_result_def Let_def remove_pending_def
      invalidate_auth_state_def split: auth_grant_issue_result.splits prod.splits sum.splits
      option.splits)

lemma request_refines:
  "Service_Handler.grant_registry (fst (handle_request I R clk req h)) =
     fst (registry_run (request_ops I clk req h) (Service_Handler.grant_registry h))"
  by (simp add: handle_request_def request_ops_def dispatch_refines begin_request_def
      split: prod.splits)

lemma insert_grant_event: "insert_grant g t h = (h', Inr ev) \<Longrightarrow> ev = AuthSucceeded g"
  by (auto simp: insert_grant_def split: prod.splits sum.splits)

lemma issuer_call_Inr: "issuer_call h c f = (h', Inr ev) \<Longrightarrow> \<exists>x. ev = f x"
  by (cases "(h, c, f)" rule: issuer_call.cases) auto

lemma resolver_call_Inr: "resolver_call h c f = (h', Inr ev) \<Longrightarrow> \<exists>x. ev = f x"
  by (cases "(h, c, f)" rule: resolver_call.cases) auto

text \<open>The grant identifiers whose credential an answer releases.\<close>

fun released_ids :: "(protocol_error + service_event) list \<Rightarrow> grant_id list" where
  "released_ids [] = []"
| "released_ids (Inr (CredentialReady k c) # evs) = k # released_ids evs"
| "released_ids (Inr (CredentialMaterialReady k m) # evs) = k # released_ids evs"
| "released_ids (_ # evs) = released_ids evs"

lemma released_ids_Cons: "released_ids (ev # evs) = released_ids [ev] @ released_ids evs"
proof (cases ev)
  case (Inr e)
  then show ?thesis by (cases e) simp_all
qed simp

lemma released_ids_insert_grant: "released_ids [snd (insert_grant g t h)] = []"
  by (auto simp: insert_grant_def split: prod.splits sum.splits)

lemma released_ids_issuer_call:
  "(\<And>x. released_ids [Inr (f x)] = []) \<Longrightarrow> released_ids [snd (issuer_call h c f)] = []"
  by (cases "(h, c, f)" rule: issuer_call.cases) auto

text \<open>An answer releases at most one credential, and only after a redemption by that request.\<close>

definition released_by_redemption ::
  "(protocol_error + service_event) \<Rightarrow> (i64 \<times> auth_grant) list \<Rightarrow> bool" where
  "released_by_redemption ev log \<longleftrightarrow>
     (\<exists>gs. released_ids [ev] = map grant_id gs \<and> subseq gs (map snd log))"

lemma released_nothing: "released_ids [ev] = [] \<Longrightarrow> released_by_redemption ev log"
  by (simp add: released_by_redemption_def)

lemma released_Inl: "released_by_redemption (Inl e) log"
  by (simp add: released_nothing)

lemma released_resolver_call:
  assumes "grant_id g = k" and "\<And>x. released_ids [Inr (f x)] = [k]"
  shows "released_by_redemption (snd (resolver_call h c f)) [(t, g)]"
proof (cases "(h, c, f)" rule: resolver_call.cases)
  case (1 h' r e f')
  then show ?thesis by (simp add: released_nothing)
next
  case (2 h' r x f')
  then have "released_ids [snd (resolver_call h c f)] = map grant_id [g]"
    using assms by simp
  then show ?thesis
    unfolding released_by_redemption_def by (intro exI [of _ "[g]"]) simp
qed

lemma dispatch_releases:
  assumes "registry_wf (Service_Handler.grant_registry h)"
  shows "released_by_redemption (snd (dispatch_request I R clk req h))
    (snd (registry_run (dispatch_ops I clk req h) (Service_Handler.grant_registry h)))"
proof (cases req)
  case (FetchCredential sid k n)
  then show ?thesis
    using redeem_redeemable(2) [OF assms, of k n sid "clk 1"]
    by (auto split: prod.splits sum.splits intro!: released_Inl released_resolver_call)
next
  case (FetchCredentialMaterial sid k n)
  then show ?thesis
    using redeem_redeemable(2) [OF assms, of k n sid "clk 1"]
    by (auto split: prod.splits sum.splits intro!: released_Inl released_resolver_call)
qed (auto simp: handle_wake_auth_def handle_fetch_auth_result_def Let_def
      released_ids_insert_grant released_ids_issuer_call intro!: released_nothing
      split: auth_grant_issue_result.splits prod.splits sum.splits option.splits)

lemma request_releases:
  assumes "registry_wf (Service_Handler.grant_registry h)"
  shows "released_by_redemption (snd (handle_request I R clk req h))
    (snd (registry_run (request_ops I clk req h) (Service_Handler.grant_registry h)))"
proof -
  have "registry_wf (Service_Handler.grant_registry (begin_request (clk 0) h))"
    using assms by (auto simp: begin_request_def)
  from dispatch_releases [OF this, of I R clk req] show ?thesis
    by (simp add: handle_request_def request_ops_def begin_request_def split: prod.splits)
qed

lemma handle_all_refines:
  "Service_Handler.grant_registry (fst (handle_all I R reqs h)) =
     fst (registry_run (snd (snd (handle_all I R reqs h))) (Service_Handler.grant_registry h))"
proof (induction reqs arbitrary: h)
  case Nil
  then show ?case by simp
next
  case (Cons rc reqs)
  obtain req clk where rc: "rc = (req, clk)" by fastforce
  obtain h' ev where hr: "handle_request I R clk req h = (h', ev)" by fastforce
  show ?case
    using Cons.IH [of h'] request_refines [of I R clk req h] rc hr
    by (simp add: handle_all_Cons registry_run_append_proj)
qed

text \<open>The clock readings of a run of requests never go back, from \<open>t\<close> on.\<close>

fun clocks_from :: "i64 \<Rightarrow> (service_request \<times> (nat \<Rightarrow> i64)) list \<Rightarrow> bool" where
  "clocks_from t [] = True"
| "clocks_from t ((req, clk) # reqs) =
     (t \<le> clk 0 \<and> clk 0 \<le> clk 1 \<and> clk 1 \<le> clk 2 \<and> clocks_from (clk 2) reqs)"

lemma request_ops_times:
  assumes "clk 0 \<le> clk 1" and "clk 1 \<le> clk 2"
  shows "sorted (map snd (request_ops I clk req h))"
    and "op \<in> set (request_ops I clk req h) \<Longrightarrow> clk 0 \<le> snd op \<and> snd op \<le> clk 2"
proof -
  have "map snd (dispatch_ops I clk req h') \<in> {[], [clk 0], [clk 1], [clk 2]}" for h' :: "('a, 'b) handler"
    by (cases req) (auto split: auth_grant_issue_result.splits option.splits sum.splits)
  note ops = this [of "begin_request (clk 0) h"]
  show "sorted (map snd (request_ops I clk req h))"
    using ops assms by (auto simp: request_ops_def)
  have "snd op \<in> set (map snd (request_ops I clk req h))" if "op \<in> set (request_ops I clk req h)"
    using that by simp
  then show "clk 0 \<le> snd op \<and> snd op \<le> clk 2" if "op \<in> set (request_ops I clk req h)"
    using ops assms that by (fastforce simp: request_ops_def)
qed

lemma handle_all_times:
  "clocks_from t reqs \<Longrightarrow> sorted (t # map snd (snd (snd (handle_all I R reqs h))))"
proof (induction reqs arbitrary: t h)
  case Nil
  then show ?case by simp
next
  case (Cons rc reqs)
  obtain req clk where rc: "rc = (req, clk)" by fastforce
  obtain h' ev where hr: "handle_request I R clk req h = (h', ev)" by fastforce
  have clk: "t \<le> clk 0" "clk 0 \<le> clk 1" "clk 1 \<le> clk 2" "clocks_from (clk 2) reqs"
    using Cons.prems rc by auto
  have "sorted (clk 2 # map snd (snd (snd (handle_all I R reqs h'))))"
    using Cons.IH [OF clk(4)] .
  moreover have "\<forall>op \<in> set (request_ops I clk req h). clk 0 \<le> snd op \<and> snd op \<le> clk 2"
    using request_ops_times(2) [OF clk(2,3)] by blast
  ultimately show ?case
    using request_ops_times(1) [OF clk(2,3), where I = I and req = req and h = h] clk rc hr
    by (fastforce simp: sorted_append handle_all_Cons)
qed

lemma handle_all_releases:
  assumes "registry_wf (Service_Handler.grant_registry h)"
  shows "\<exists>gs. released_ids (fst (snd (handle_all I R reqs h))) = map grant_id gs \<and>
    subseq gs (map snd (snd (registry_run (snd (snd (handle_all I R reqs h)))
      (Service_Handler.grant_registry h))))"
  using assms
proof (induction reqs arbitrary: h)
  case Nil
  then show ?case by simp
next
  case (Cons rc reqs)
  obtain req clk where rc: "rc = (req, clk)" by fastforce
  obtain h' ev where hr: "handle_request I R clk req h = (h', ev)" by fastforce
  let ?reg = "Service_Handler.grant_registry h" and ?reg' = "Service_Handler.grant_registry h'"
  have reg': "?reg' = fst (registry_run (request_ops I clk req h) ?reg)"
    using request_refines [of I R clk req h] hr by simp
  then have "registry_wf ?reg'"
    using run_wf [OF Cons.prems] by simp
  from Cons.IH [OF this] obtain gs where
    gs: "released_ids (fst (snd (handle_all I R reqs h'))) = map grant_id gs"
      "subseq gs (map snd (snd (registry_run (snd (snd (handle_all I R reqs h'))) ?reg')))"
    by blast
  from request_releases [OF Cons.prems, of I R clk req] hr obtain hs where
    hs: "released_ids [ev] = map grant_id hs"
      "subseq hs (map snd (snd (registry_run (request_ops I clk req h) ?reg)))"
    by (auto simp: released_by_redemption_def)
  have "subseq (hs @ gs) (map snd (snd (registry_run (request_ops I clk req h) ?reg)) @
    map snd (snd (registry_run (snd (snd (handle_all I R reqs h'))) ?reg')))"
    using hs(2) gs(2) by (rule list_emb_append_mono)
  then show ?case
    using rc hr hs(1) gs(1) reg' released_ids_Cons [of ev "fst (snd (handle_all I R reqs h'))"]
    by (intro exI [of _ "hs @ gs"]) (simp add: handle_all_Cons registry_run_append_proj)
qed

text \<open>The requests that change what an authorisation means.\<close>

fun reconfigures :: "service_request \<Rightarrow> bool" where
  "reconfigures ReloadAuthConfig = True"
| "reconfigures (ApplyLocalCameraAuthConfig _ _ _) = True"
| "reconfigures (UpdateSettings _) = True"
| "reconfigures _ = False"

lemma reconfigure_state:
  assumes "reconfigures req"
  shows "Service_Handler.grant_registry (fst (handle_request I R clk req h)) =
      revoke_all_grants (remove_expired_grants (clk 0) (Service_Handler.grant_registry h))"
    and "pending_auth_sessions (fst (handle_request I R clk req h)) = Map.empty"
  using assms
  by (cases req; simp add: handle_request_def begin_request_def invalidate_auth_state_def Let_def)+

lemma snd_resolver_call: "snd (resolver_call h c f) = rbind (snd c) (\<lambda>x. Inr (f x))"
  by (cases "(h, c, f)" rule: resolver_call.cases) auto

lemma snd_issuer_call: "snd (issuer_call h c f) = rbind (snd c) (\<lambda>x. Inr (f x))"
  by (cases "(h, c, f)" rule: issuer_call.cases) auto

text \<open>A grant announced by \<open>AuthSucceeded\<close> is in the registry, or one equal to it.\<close>

lemma insert_Inr:
  assumes "insert_issued_grant g t m = (m', Inr u)"
  shows "\<exists>g'. (g' = g \<or> auth_grant_eq g' g) \<and>
    m' (grant_id g) = Some \<lparr>grant = g', redemption_state = Available\<rparr>"
  using assms
  by (auto simp: insert_issued_grant_def Let_def split: if_splits option.splits
      grant_redemption_state.splits)

lemma insert_grant_Inr:
  assumes "insert_grant g0 t h = (h1, Inr (AuthSucceeded g))"
  shows "\<exists>g'. (g' = g \<or> auth_grant_eq g' g) \<and>
    Service_Handler.grant_registry h1 (grant_id g) =
      Some \<lparr>grant = g', redemption_state = Available\<rparr>"
  using assms insert_Inr [of g t]
  by (auto simp: insert_grant_def split: prod.splits sum.splits)

lemma announced_in_registry:
  assumes "handle_request I R clk req h = (h1, Inr (AuthSucceeded g))"
  shows "\<exists>g'. (g' = g \<or> auth_grant_eq g' g) \<and>
    Service_Handler.grant_registry h1 (grant_id g) =
      Some \<lparr>grant = g', redemption_state = Available\<rparr>"
  using assms
  by (cases req)
    (auto simp: handle_request_def handle_wake_auth_def handle_fetch_auth_result_def Let_def
      dest: insert_grant_Inr issuer_call_Inr resolver_call_Inr
      split: auth_grant_issue_result.splits prod.splits sum.splits option.splits if_splits)

section \<open>What the handler needs of an issuer\<close>

fun asks_for :: "service_request \<Rightarrow> session_id option" where
  "asks_for (WakeAuth sid src trigger) = Some sid"
| "asks_for (FetchAuthResult sid) = Some sid"
| "asks_for _ = None"

text \<open>The grants an issuer hands out are for the session that asked; its own invariant is kept by
  every method.\<close>

locale session_issuer =
  fixes I :: "'i issuer_ops"
    and inv :: "'i \<Rightarrow> bool"
  assumes issue_law: "inv i \<Longrightarrow> issue_auth_grant I sid src trigger t i = (i', res) \<Longrightarrow>
      inv i' \<and> (\<forall>g. res = Issued g \<longrightarrow> session_id g = sid)"
    and fetch_law: "inv i \<Longrightarrow> fetch_auth_result I sid t i = (i', res') \<Longrightarrow>
      inv i' \<and> (\<forall>g. res' = Some (Inr g) \<longrightarrow> session_id g = sid)"
    and cancel_law: "inv i \<Longrightarrow> inv (cancel_auth I sid i)"
    and reload_law: "inv i \<Longrightarrow> inv (fst (reload_auth_config I i))"
    and apply_law: "inv i \<Longrightarrow> inv (fst (apply_local_camera_auth_config I path cam dir i))"
    and update_law: "inv i \<Longrightarrow> inv (fst (update_settings I patch i))"
    and check_law: "inv i \<Longrightarrow> inv (fst (check_windows_credential I uid cref i))"
    and enroll_law: "inv i \<Longrightarrow> inv (fst (enroll_windows_credential I uid wsid name acct cref secret i))"
begin

lemma fst_issuer_call_inv: "inv (fst c) \<Longrightarrow> inv (grant_issuer (fst (issuer_call h c f)))"
  by (cases "(h, c, f)" rule: issuer_call.cases) auto

lemma dispatch_inv:
  assumes "inv (grant_issuer h)"
  shows "inv (grant_issuer (fst (dispatch_request I R clk req h)))"
  using assms issue_law [OF assms] fetch_law [OF assms]
  by (cases req)
    (auto simp: handle_wake_auth_def handle_fetch_auth_result_def Let_def remove_pending_def
      insert_grant_def invalidate_auth_state_def intro: cancel_law reload_law apply_law update_law check_law enroll_law
      fst_issuer_call_inv
      split: auth_grant_issue_result.splits prod.splits sum.splits option.splits)

lemma success_session:
  assumes "inv (grant_issuer h)"
    and "snd (dispatch_request I R clk req h) = Inr (AuthSucceeded g)"
  shows "asks_for req = Some (session_id g)"
proof -
  have no_issuer: "snd (issuer_call h' c f) \<noteq> Inr (AuthSucceeded g)"
    if "\<And>x. f x \<noteq> AuthSucceeded g" for h' :: "('i, 'b) handler" and c :: "'i \<times> (protocol_error + 'x)" and f
    using that by (cases "(h', c, f)" rule: issuer_call.cases) auto
  have no_resolver: "snd (resolver_call h' c f) \<noteq> Inr (AuthSucceeded g)"
    if "\<And>x. f x \<noteq> AuthSucceeded g" for h' :: "('i, 'b) handler" and c :: "'b \<times> (protocol_error + 'x)" and f
    using that by (cases "(h', c, f)" rule: resolver_call.cases) auto
  show ?thesis
    using assms(2) issue_law [OF assms(1)] fetch_law [OF assms(1)]
    by (cases req)
      (auto simp: handle_wake_auth_def handle_fetch_auth_result_def Let_def no_issuer no_resolver
        insert_grant_def split: auth_grant_issue_result.splits prod.splits sum.splits option.splits
        if_splits)
qed

lemma handle_success:
  assumes "inv (grant_issuer h)"
  shows "inv (grant_issuer (fst (handle_request I R clk req h)))"
    and "snd (handle_request I R clk req h) = Inr (AuthSucceeded g) \<Longrightarrow>
      asks_for req = Some (session_id g)"
  using assms dispatch_inv [of "begin_request (clk 0) h"] success_session [of "begin_request (clk 0) h"]
  by (auto simp: handle_request_def begin_request_def)

lemma handle_all_success:
  assumes "inv (grant_issuer h)" and "n < length reqs"
    and "fst (snd (handle_all I R reqs h)) ! n = Inr (AuthSucceeded g)"
  shows "asks_for (fst (reqs ! n)) = Some (session_id g)"
  using assms
proof (induction reqs arbitrary: h n)
  case Nil
  then show ?case by simp
next
  case (Cons rc reqs)
  obtain req clk where rc: "rc = (req, clk)" by fastforce
  show ?case
    using Cons.prems Cons.IH [OF handle_success(1) [OF Cons.prems(1), of R clk req]]
      handle_success(2) [OF Cons.prems(1), of R clk req g] rc
    by (cases n) (auto simp: handle_all_Cons)
qed

end

end
