(* ===== verification/Simulated_Auth.thy ===== *)
theory Simulated_Auth
  imports Service_Handler
begin

text \<open>
  Crate \<open>win_service\<close>, \<open>src/simulated_auth.rs\<close>: the development issuer, which grants every
  request at once under a running number. It leaves every other method of the trait at its
  default.
\<close>

record simulated_issuer =
  sim_user_id :: user_id
  next_grant_sequence :: u64

definition for_user :: "user_id \<Rightarrow> simulated_issuer" where
  "for_user uid = \<lparr>sim_user_id = uid, next_grant_sequence = 1\<rparr>"

definition simulated_grant ::
  "session_id \<Rightarrow> auth_source \<Rightarrow> i64 \<Rightarrow> simulated_issuer \<Rightarrow> auth_grant" where
  "simulated_grant sid src issued i =
     (let grant_sequence = decimal (unat (next_grant_sequence i))
      in \<lparr>grant_id = GrantId (''dev-grant-'' @ grant_sequence),
          nonce = Nonce (''dev-nonce-'' @ grant_sequence),
          session_id = sid, user_id = sim_user_id i, source = src,
          score = \<lparr>match_score = f32_one, liveness_score = None\<rparr>,
          issued_at_unix_ms = issued, expires_at_unix_ms = i64_add issued default_grant_ttl_ms\<rparr>)"

definition simulated_issue ::
  "session_id \<Rightarrow> auth_source \<Rightarrow> auth_trigger_source \<Rightarrow> i64 \<Rightarrow> simulated_issuer \<Rightarrow>
     simulated_issuer \<times> auth_grant_issue_result" where
  "simulated_issue sid src trigger issued i =
     (i\<lparr>next_grant_sequence := sat_inc (next_grant_sequence i)\<rparr>,
      Issued (simulated_grant sid src issued i))"

definition simulated_auth_issuer :: "simulated_issuer issuer_ops" where
  "simulated_auth_issuer = default_issuer_ops simulated_issue"

interpretation simulated: session_issuer simulated_auth_issuer "\<lambda>_. True"
  by unfold_locales
    (auto simp: simulated_auth_issuer_def default_issuer_ops_def simulated_issue_def
      simulated_grant_def Let_def)

lemma simulated_issuer_simps [simp]:
  "issue_auth_grant simulated_auth_issuer = simulated_issue"
  "reload_auth_config simulated_auth_issuer i = (i, Inr ())"
  by (simp_all add: simulated_auth_issuer_def default_issuer_ops_def)

end
