(* ===== verification/Service_Properties.thy ===== *)
theory Service_Properties
  imports Simulated_Auth
begin

text \<open>
  The properties of the request handler: what a run of requests may release, what a change of
  configuration takes away, which fetches reach the issuer and that an announced grant is worth a
  credential. The examples run the handler over the development issuer of \<open>Simulated_Auth\<close> and a
  resolver that answers with a fixed record.
\<close>

section \<open>A concrete handler\<close>

definition sample_material :: protected_credential_material where
  "sample_material =
     \<lparr>pcm_user_id = UserId ''user-1'', pcm_domain = ''.'', pcm_username = ''leo'',
      protected_password = [1, 2, 3], protection = DpapiLocalMachineV1\<rparr>"

definition sample_resolver :: "unit resolver_ops" where
  "sample_resolver =
     \<lparr>resolve_protected_credential = (\<lambda>g r. (r, Inl Unauthorized)),
      resolve_protected_credential_material = (\<lambda>g r. (r, Inr sample_material))\<rparr>"

definition sample_handler :: "(simulated_issuer, unit) handler" where
  "sample_handler = new_handler (for_user (UserId ''user-1'')) ()"

definition sample_wake :: service_request where
  "sample_wake = WakeAuth (SessionId ''s'') ManualTest CredentialScreenEntered"

definition sample_fetch :: service_request where
  "sample_fetch = FetchCredentialMaterial (SessionId ''s'') (GrantId ''dev-grant-1'') (Nonce ''dev-nonce-1'')"

definition wake_grant :: auth_grant where
  "wake_grant = simulated_grant (SessionId ''s'') ManualTest 1000 (for_user (UserId ''user-1''))"

lemma decimal_1: "decimal (Suc 0) = ''1''"
  by code_simp

lemma wake_grant_simps:
  "wake_grant =
     \<lparr>grant_id = GrantId ''dev-grant-1'', nonce = Nonce ''dev-nonce-1'', session_id = SessionId ''s'',
      user_id = UserId ''user-1'', source = ManualTest,
      score = \<lparr>match_score = f32_one, liveness_score = None\<rparr>,
      issued_at_unix_ms = 1000, expires_at_unix_ms = 6000\<rparr>"
  by (simp add: wake_grant_def simulated_grant_def for_user_def decimal_1 i64_add_def wrap_i64_def
      default_grant_ttl_ms_def Let_def)

definition woken_handler :: "(simulated_issuer, unit) handler" where
  "woken_handler =
     \<lparr>grant_issuer = \<lparr>sim_user_id = UserId ''user-1'', next_grant_sequence = 2\<rparr>,
      credential_resolver = (),
      grant_registry = [GrantId ''dev-grant-1'' \<mapsto> \<lparr>grant = wake_grant, redemption_state = Available\<rparr>],
      pending_auth_sessions = Map.empty\<rparr>"

lemma sample_woken:
  "handle_request simulated_auth_issuer sample_resolver (\<lambda>_. 1000) sample_wake sample_handler =
     (woken_handler, Inr (AuthSucceeded wake_grant))"
proof -
  have issue: "simulated_issue (SessionId ''s'') ManualTest CredentialScreenEntered 1000
      (for_user (UserId ''user-1'')) =
      (\<lparr>sim_user_id = UserId ''user-1'', next_grant_sequence = 2\<rparr>, Issued wake_grant)"
    by (simp add: simulated_issue_def wake_grant_def for_user_def sat_inc_def)
  show ?thesis
    by (simp add: handle_request_def sample_wake_def handle_wake_auth_def issue sample_handler_def
        new_handler_def begin_request_def remove_expired_grants_def insert_grant_def
        insert_issued_grant_def remove_pending_def woken_handler_def Let_def
        has_valid_time_window_def is_expired_at_def wake_grant_simps fun_eq_iff map_remove_def)
qed

lemma registry_wf_woken: "registry_wf (Service_Handler.grant_registry woken_handler)"
  by (simp add: woken_handler_def registry_wf_def wake_grant_simps)

section \<open>Properties of the handler\<close>

text \<open>C1: over any run of requests with a clock that does not go back, the handler is a run of
  the grant registry, and every answer that releases a credential is paid for by its own
  redemption of a grant of that identifier: no grant releases two credentials, whatever the issuer
  and the resolver do.\<close>

theorem credentials_released_once:
  assumes "registry_wf (Service_Handler.grant_registry h)" and "clocks_from t reqs"
    and "handle_all I R reqs h = (h', evs, ops)"
    and "registry_run ops (Service_Handler.grant_registry h) = (m, log)"
  shows "Service_Handler.grant_registry h' = m \<and> distinct (map snd log) \<and>
    (\<exists>gs. released_ids evs = map grant_id gs \<and> subseq gs (map snd log))"
  using assms handle_all_refines [of I R reqs h] handle_all_releases [OF assms(1), of I R reqs]
    distinct_redeemed [OF assms(1), of ops] handle_all_times [OF assms(2), of I R h]
  by auto

lemma sample_fetched:
  "handle_request simulated_auth_issuer sample_resolver (\<lambda>_. 1500) sample_fetch woken_handler =
     (woken_handler\<lparr>grant_registry :=
        [GrantId ''dev-grant-1'' \<mapsto> \<lparr>grant = wake_grant, redemption_state = Redeemed\<rparr>]\<rparr>,
      Inr (CredentialMaterialReady (GrantId ''dev-grant-1'') sample_material))"
  by (simp add: handle_request_def sample_fetch_def woken_handler_def begin_request_def
      remove_expired_grants_def redeem_grant_for_session_def wake_grant_simps is_expired_at_def
      sample_resolver_def retain_def fun_eq_iff)

theorem credentials_released_once_witness:
  "released_ids (fst (snd (handle_all simulated_auth_issuer sample_resolver
      [(sample_wake, \<lambda>_. 1000), (sample_fetch, \<lambda>_. 1500)] sample_handler))) =
     [GrantId ''dev-grant-1''] \<and>
   distinct (map snd (snd (registry_run (snd (snd (handle_all simulated_auth_issuer sample_resolver
      [(sample_wake, \<lambda>_. 1000), (sample_fetch, \<lambda>_. 1500)] sample_handler))) Map.empty)))"
proof
  show "released_ids (fst (snd (handle_all simulated_auth_issuer sample_resolver
      [(sample_wake, \<lambda>_. 1000), (sample_fetch, \<lambda>_. 1500)] sample_handler))) =
     [GrantId ''dev-grant-1'']"
    by (simp add: handle_all_Cons sample_woken sample_fetched)
  obtain h' evs ops where run: "handle_all simulated_auth_issuer sample_resolver
      [(sample_wake, \<lambda>_. 1000), (sample_fetch, \<lambda>_. 1500)] sample_handler = (h', evs, ops)"
    by (rule prod_cases3)
  obtain m log where log: "registry_run ops (Service_Handler.grant_registry sample_handler) = (m, log)"
    by fastforce
  have reg: "Service_Handler.grant_registry sample_handler = Map.empty"
    by (simp add: sample_handler_def new_handler_def)
  have "distinct (map snd log)"
    using credentials_released_once [OF _ _ run log, of 1000] by (simp add: reg)
  then show "distinct (map snd (snd (registry_run (snd (snd (handle_all simulated_auth_issuer sample_resolver
      [(sample_wake, \<lambda>_. 1000), (sample_fetch, \<lambda>_. 1500)] sample_handler))) Map.empty)))"
    using log by (simp add: run reg)
qed

text \<open>C13: a request that changes the configuration revokes every grant and drops every pending
  session even when the issuer reports an error, and no later run of requests redeems a grant that
  was in the registry before it.\<close>

theorem reconfiguration_revokes:
  assumes "registry_wf (Service_Handler.grant_registry h)" and "reconfigures req"
    and "handle_request I R clk req h = (h1, res)"
    and "clocks_from (clk 0) reqs" and "handle_all I R' reqs h1 = (h', evs, ops)"
  shows "pending_auth_sessions h1 = Map.empty \<and>
    (\<forall>u g. \<not> redeemable (Service_Handler.grant_registry h1) u g) \<and>
    (\<forall>k tracked u. Service_Handler.grant_registry h k = Some tracked \<longrightarrow>
      (u, grant tracked) \<notin> set (snd (registry_run ops (Service_Handler.grant_registry h1))))"
proof -
  have h1: "Service_Handler.grant_registry h1 =
      revoke_all_grants (remove_expired_grants (clk 0) (Service_Handler.grant_registry h))"
    using reconfigure_state(1) [OF assms(2), of I R clk h] assms(3) by simp
  have wf: "registry_wf (Service_Handler.grant_registry h1)"
    using assms(1) unfolding h1 by (intro revoke_all_wf remove_expired_wf)
  have times: "sorted (clk 0 # map snd ops)"
    using handle_all_times [OF assms(4), of I R' h1] assms(5) by simp
  have "spent (Service_Handler.grant_registry h1) (clk 0) (grant tracked)"
    if "Service_Handler.grant_registry h k = Some tracked" for k tracked
    using that assms(1)
    by (auto simp: h1 spent_def registry_wf_def registry_defs simp del: map_option_eq_Some)
  then have "(u, grant tracked) \<notin> set (snd (registry_run ops (Service_Handler.grant_registry h1)))"
    if "Service_Handler.grant_registry h k = Some tracked" for k tracked u
    using run_never_redeems_spent [OF wf _ times] that by blast
  moreover have "pending_auth_sessions h1 = Map.empty"
    using reconfigure_state(2) [OF assms(2), of I R clk h] assms(3) by simp
  moreover have "\<not> redeemable (Service_Handler.grant_registry h1) u g" for u g
    by (auto simp: h1 redeemable_def registry_defs)
  ultimately show ?thesis by blast
qed

theorem reconfiguration_revokes_witness:
  "fst (snd (handle_all simulated_auth_issuer sample_resolver [(sample_fetch, \<lambda>_. 1500)]
      (fst (handle_request simulated_auth_issuer sample_resolver (\<lambda>_. 1200) ReloadAuthConfig woken_handler)))) =
     [Inl Unauthorized] \<and>
   (1500, wake_grant) \<notin> set (snd (registry_run
     (snd (snd (handle_all simulated_auth_issuer sample_resolver [(sample_fetch, \<lambda>_. 1500)]
       (fst (handle_request simulated_auth_issuer sample_resolver (\<lambda>_. 1200) ReloadAuthConfig woken_handler)))))
     (Service_Handler.grant_registry
       (fst (handle_request simulated_auth_issuer sample_resolver (\<lambda>_. 1200) ReloadAuthConfig woken_handler)))))"
    (is "?answer \<and> ?log")
proof
  show ?answer
    by (simp add: handle_all_Cons handle_request_def sample_fetch_def woken_handler_def Let_def
        begin_request_def remove_expired_grants_def redeem_grant_for_session_def wake_grant_simps
        is_expired_at_def retain_def invalidate_auth_state_def revoke_all_grants_def)
  obtain h1 res where h1: "handle_request simulated_auth_issuer sample_resolver (\<lambda>_. 1200)
      ReloadAuthConfig woken_handler = (h1, res)"
    by fastforce
  obtain h' evs ops where run: "handle_all simulated_auth_issuer sample_resolver
      [(sample_fetch, \<lambda>_. 1500)] h1 = (h', evs, ops)"
    by (rule prod_cases3)
  have "Service_Handler.grant_registry woken_handler (GrantId ''dev-grant-1'') =
      Some \<lparr>grant = wake_grant, redemption_state = Available\<rparr>"
    by (simp add: woken_handler_def)
  then have "(1500, grant \<lparr>grant = wake_grant, redemption_state = Available\<rparr>)
      \<notin> set (snd (registry_run ops (Service_Handler.grant_registry h1)))"
    using reconfiguration_revokes [OF registry_wf_woken _ h1 _ run] by fastforce
  then show ?log
    by (simp add: h1 run)
qed

text \<open>A result is fetched from the issuer only for a session that an unanswered
  \<open>WakeAuth\<close> of the last five minutes started; for any other session the answer is
  \<open>Cancelled\<close> and neither the issuer nor a live grant is touched.\<close>

theorem fetch_needs_pending_session:
  assumes "\<forall>started. pending_auth_sessions h sid = Some started \<longrightarrow>
      clk 0 < started \<or> clk 0 - started \<ge> pending_auth_result_ttl_ms"
  shows "handle_request I R clk (FetchAuthResult sid) h =
    (begin_request (clk 0) h, Inr (AuthFailed sid Cancelled))"
proof -
  have "\<not> (clk 0 \<ge> started \<and> i64_saturating_sub (clk 0) started < pending_auth_result_ttl_ms)"
    if "pending_auth_sessions h sid = Some started" for started
    using that assms
    by (auto simp: i64_saturating_sub_def pending_auth_result_ttl_ms_def i64_max_def i64_min_def)
  then have "pending_auth_sessions (begin_request (clk 0) h) sid = None"
    by (auto simp: begin_request_def retain_None_iff)
  then show ?thesis
    by (simp add: handle_request_def handle_fetch_auth_result_def)
qed

theorem fetch_needs_pending_session_witness:
  "handle_request simulated_auth_issuer sample_resolver (\<lambda>_. 400000) (FetchAuthResult (SessionId ''s''))
     (sample_handler\<lparr>pending_auth_sessions := [SessionId ''s'' \<mapsto> 1000]\<rparr>) =
   (begin_request 400000 (sample_handler\<lparr>pending_auth_sessions := [SessionId ''s'' \<mapsto> 1000]\<rparr>),
    Inr (AuthFailed (SessionId ''s'') Cancelled))"
  by (rule fetch_needs_pending_session) (simp add: pending_auth_result_ttl_ms_def)

text \<open>A grant announced by \<open>AuthSucceeded\<close> is worth a credential: the next request of that
  session for the material, before the grant expires, is answered by the resolver.\<close>

theorem announced_grant_is_redeemable:
  assumes "handle_request I R clk req h = (h1, Inr (AuthSucceeded g))"
    and "clk' 0 < expires_at_unix_ms g" and "clk' 1 < expires_at_unix_ms g"
  shows "\<exists>g'. (g' = g \<or> auth_grant_eq g' g) \<and>
    snd (handle_request I R clk' (FetchCredentialMaterial (session_id g) (grant_id g) (nonce g)) h1) =
      rbind (snd (resolve_protected_credential_material R g' (credential_resolver h1)))
        (\<lambda>m. Inr (CredentialMaterialReady (grant_id g) m))"
proof -
  obtain g' where g': "g' = g \<or> auth_grant_eq g' g"
    "Service_Handler.grant_registry h1 (grant_id g) =
      Some \<lparr>grant = g', redemption_state = Available\<rparr>"
    using announced_in_registry [OF assms(1)] by blast
  have "nonce g' = nonce g" "session_id g' = session_id g" "expires_at_unix_ms g' = expires_at_unix_ms g"
    using g'(1) by (auto simp: auth_grant_eq_def)
  with g'(2) assms(2,3) have
    "\<exists>m. redeem_grant_for_session (grant_id g) (nonce g) (session_id g) (clk' 1)
      (Service_Handler.grant_registry (begin_request (clk' 0) h1)) = (m, Inr g')"
    by (simp add: redeem_grant_for_session_def begin_request_def remove_expired_grants_def
        retain_def is_expired_at_def)
  then show ?thesis
    using g'(1) by (intro exI [of _ g'] conjI)
      (auto simp: handle_request_def begin_request_def snd_resolver_call)
qed

theorem announced_grant_is_redeemable_witness:
  "\<exists>g'. (g' = wake_grant \<or> auth_grant_eq g' wake_grant) \<and>
    snd (handle_request simulated_auth_issuer sample_resolver (\<lambda>_. 1500)
      (FetchCredentialMaterial (session_id wake_grant) (grant_id wake_grant) (nonce wake_grant)) woken_handler) =
      rbind (snd (resolve_protected_credential_material sample_resolver g' (credential_resolver woken_handler)))
        (\<lambda>m. Inr (CredentialMaterialReady (grant_id wake_grant) m))"
  by (rule announced_grant_is_redeemable [OF sample_woken]) (simp_all add: wake_grant_simps)

text \<open>Over the development issuer every announced grant is for the session whose request is
  answered, in every run of requests from any state of the handler.\<close>

theorem simulated_grants_match_session:
  assumes "n < length reqs"
    and "fst (snd (handle_all simulated_auth_issuer R reqs h)) ! n = Inr (AuthSucceeded g)"
  shows "asks_for (fst (reqs ! n)) = Some (session_id g)"
  using simulated.handle_all_success [OF TrueI assms] .

theorem simulated_grants_match_session_witness:
  "asks_for sample_wake = Some (session_id wake_grant)"
  using simulated_grants_match_session [of 0 "[(sample_wake, \<lambda>_. 1000)]" sample_resolver sample_handler wake_grant]
  by (simp add: handle_all_Cons sample_woken)

end
