(* ===== verification/Frame_Codec.thy ===== *)
theory Frame_Codec
  imports Protocol
begin

text \<open>
  Crate \<open>ipc\<close>, \<open>src/codec.rs\<close>: a message on the pipe is a frame, the length of its JSON text as
  four little-endian bytes and the text. The JSON library (\<open>serde_json\<close>) is not part of the
  repository: its \<open>to_vec\<close> and \<open>from_slice\<close> are arguments.
\<close>

definition max_frame_bytes :: nat where
  "max_frame_bytes = 64 * 1024"

definition encode_json_frame ::
  "('a \<Rightarrow> u8 list option) \<Rightarrow> 'a \<Rightarrow> protocol_error + u8 list" where
  "encode_json_frame to_vec v =
     (case to_vec v of
        None \<Rightarrow> Inl InvalidMessage
      | Some payload \<Rightarrow>
          if length payload > max_frame_bytes then Inl InvalidMessage
          else Inr (le_bytes 4 (length payload) @ payload))"

definition decode_json_frame ::
  "(u8 list \<Rightarrow> 'a option) \<Rightarrow> u8 list \<Rightarrow> protocol_error + 'a" where
  "decode_json_frame from_slice frame =
     (if length frame < 4 then Inl InvalidMessage
      else
        let payload_len = of_le_bytes (take 4 frame)
        in if payload_len > max_frame_bytes \<or> length frame \<noteq> 4 + payload_len then Inl InvalidMessage
           else ok_or InvalidMessage (from_slice (drop 4 frame)))"

definition encode_request ::
  "(service_request \<Rightarrow> u8 list option) \<Rightarrow> service_request \<Rightarrow> protocol_error + u8 list" where
  "encode_request = encode_json_frame"

definition decode_request ::
  "(u8 list \<Rightarrow> service_request option) \<Rightarrow> u8 list \<Rightarrow> protocol_error + service_request" where
  "decode_request = decode_json_frame"

definition encode_event ::
  "(service_event \<Rightarrow> u8 list option) \<Rightarrow> service_event \<Rightarrow> protocol_error + u8 list" where
  "encode_event = encode_json_frame"

definition decode_event ::
  "(u8 list \<Rightarrow> service_event option) \<Rightarrow> u8 list \<Rightarrow> protocol_error + service_event" where
  "decode_event = decode_json_frame"

lemma frame_length_prefix:
  "n \<le> max_frame_bytes \<Longrightarrow> of_le_bytes (take 4 (le_bytes 4 n @ xs)) = n"
  by (simp add: of_le_bytes_le_bytes max_frame_bytes_def del: le_bytes.simps)

lemma encode_frame_Inr_iff:
  "encode_json_frame to_vec v = Inr frame \<longleftrightarrow>
    (\<exists>payload. to_vec v = Some payload \<and> length payload \<le> max_frame_bytes \<and>
      frame = le_bytes 4 (length payload) @ payload)"
  by (auto simp: encode_json_frame_def split: option.splits)

lemma decode_frame:
  "length payload \<le> max_frame_bytes \<Longrightarrow>
    decode_json_frame from_slice (le_bytes 4 (length payload) @ payload) =
      ok_or InvalidMessage (from_slice payload)"
  using frame_length_prefix [of "length payload" payload]
  by (simp add: decode_json_frame_def Let_def del: le_bytes.simps)

text \<open>C40: the decoder accepts exactly the canonical frames: a byte string decodes to a message if
  and only if it is the length prefix of a payload of at most 64 KiB followed by exactly that
  payload, and the payload is JSON of the message. Truncated, oversized and over-long frames are
  all rejected.\<close>

theorem decode_accepts_exactly_frames:
  "decode_json_frame from_slice frame = Inr v \<longleftrightarrow>
    (\<exists>payload. length payload \<le> max_frame_bytes \<and>
      frame = le_bytes 4 (length payload) @ payload \<and> from_slice payload = Some v)"
proof
  assume dec: "decode_json_frame from_slice frame = Inr v"
  then have len: "4 \<le> length frame" "of_le_bytes (take 4 frame) \<le> max_frame_bytes"
    "length frame = 4 + of_le_bytes (take 4 frame)"
    by (auto simp: decode_json_frame_def Let_def split: if_splits)
  then have "le_bytes 4 (length (drop 4 frame)) = take 4 frame"
    using le_bytes_of_le_bytes [of "take 4 frame"] by simp
  then have "frame = le_bytes 4 (length (drop 4 frame)) @ drop 4 frame"
    by (metis append_take_drop_id)
  moreover have "from_slice (drop 4 frame) = Some v"
    using dec len by (auto simp: decode_json_frame_def Let_def ok_or_def split: option.splits)
  ultimately show "\<exists>payload. length payload \<le> max_frame_bytes \<and>
      frame = le_bytes 4 (length payload) @ payload \<and> from_slice payload = Some v"
    using len by (intro exI [of _ "drop 4 frame"]) auto
next
  assume "\<exists>payload. length payload \<le> max_frame_bytes \<and>
      frame = le_bytes 4 (length payload) @ payload \<and> from_slice payload = Some v"
  then show "decode_json_frame from_slice frame = Inr v"
    by (auto simp: decode_frame simp del: le_bytes.simps)
qed

text \<open>Every request that can be framed is read back, when the JSON library reads back what
  it writes.\<close>

theorem request_frame_roundtrip:
  assumes "\<And>r bytes. to_vec r = Some bytes \<Longrightarrow> from_slice bytes = Some r"
    and "encode_request to_vec r = Inr frame"
  shows "decode_request from_slice frame = Inr r \<and> length frame \<le> 4 + max_frame_bytes"
  using assms
  by (auto simp: encode_request_def decode_request_def encode_frame_Inr_iff decode_frame
      simp del: le_bytes.simps)

theorem request_frame_roundtrip_witness:
  "decode_request (\<lambda>bs. if bs = [123, 125] then Some HealthCheck else None) [2, 0, 0, 0, 123, 125] =
     Inr HealthCheck"
proof -
  let ?to_vec = "\<lambda>r. if r = HealthCheck then Some [123, 125 :: u8] else None"
  have "encode_request ?to_vec HealthCheck = Inr [2, 0, 0, 0, 123, 125]"
    by (simp add: encode_request_def encode_json_frame_def max_frame_bytes_def le_bytes_4)
  then show ?thesis
    by (rule request_frame_roundtrip [THEN conjunct1, rotated]) (simp split: if_splits)
qed

end
