(* ===== verification/Logon_Guard.thy ===== *)
theory Logon_Guard
  imports Prelude
begin

text \<open>
  Crate \<open>logon_safety\<close> (\<open>src/lib.rs\<close>, \<open>src/windows_store.rs\<close>): the guard that serialises the
  automatic submission of a Windows password and latches a rejection by Windows.
  The first group is \<open>GuardState\<close> and its operations; the second the two guards built on it,
  \<open>MemoryLogonGuard\<close> (a mutex) and \<open>PersistentLogonGuard\<close> (a record of 24 bytes in the
  registry, read and written in a transaction under a global mutex); the third the contract
  \<open>submission_guard\<close> that the credential provider relies on, with its consequences over
  arbitrary sequences of calls, and its interpretation on both guards.
\<close>

section \<open>The guard state machine\<close>

record windows_logon_result =
  status :: u32
  substatus :: u32

definition succeeded :: "windows_logon_result \<Rightarrow> bool" where
  "succeeded r \<longleftrightarrow> status r = 0 \<and> substatus r = 0"

datatype logon_block =
    AwaitingWindowsResult
  | WindowsRejected windows_logon_result
  | StaleAttempt
  | StorageUnavailable

datatype submission_token = SubmissionToken (token_generation: u64)

datatype guard_phase =
    Ready
  | Submitted
  | Rejected windows_logon_result

record guard_state =
  generation :: u64
  guard_phase :: guard_phase

definition default_guard_state :: guard_state where
  "default_guard_state = \<lparr>generation = 0, guard_phase = Ready\<rparr>"

definition ready_generation :: "guard_state \<Rightarrow> logon_block + u64" where
  "ready_generation s =
     (case guard_phase s of
        Ready \<Rightarrow> Inr (generation s)
      | Submitted \<Rightarrow> Inl AwaitingWindowsResult
      | Rejected r \<Rightarrow> Inl (WindowsRejected r))"

definition advance :: "guard_state \<Rightarrow> guard_state \<times> (logon_block + unit)" where
  "advance s =
     (case checked_inc (generation s) of
        None \<Rightarrow> (s, Inl StorageUnavailable)
      | Some g \<Rightarrow> (s\<lparr>generation := g\<rparr>, Inr ()))"

definition reserve ::
  "u64 \<Rightarrow> guard_state \<Rightarrow> guard_state \<times> (logon_block + submission_token)" where
  "reserve gen s =
     (case ready_generation s of
        Inl e \<Rightarrow> (s, Inl e)
      | Inr current \<Rightarrow>
          if current \<noteq> gen then (s, Inl StaleAttempt)
          else case advance s of
                 (s', Inl e) \<Rightarrow> (s', Inl e)
               | (s', Inr _) \<Rightarrow>
                   (s'\<lparr>guard_phase := Submitted\<rparr>, Inr (SubmissionToken (generation s'))))"

definition complete ::
  "submission_token \<Rightarrow> windows_logon_result \<Rightarrow> guard_state \<Rightarrow> guard_state \<times> (logon_block + unit)" where
  "complete tok result s =
     (if guard_phase s \<noteq> Submitted \<or> generation s \<noteq> token_generation tok
      then (s, Inl StaleAttempt)
      else (s\<lparr>guard_phase := (if succeeded result then Ready else Rejected result)\<rparr>, Inr ()))"

definition credentials_updated :: "guard_state \<Rightarrow> guard_state \<times> (logon_block + unit)" where
  "credentials_updated s =
     (case advance s of
        (s', Inl e) \<Rightarrow> (s', Inl e)
      | (s', Inr _) \<Rightarrow> (s'\<lparr>guard_phase := Ready\<rparr>, Inr ()))"

definition no_error_result :: windows_logon_result where
  "no_error_result = \<lparr>status = 0, substatus = 0\<rparr>"

section \<open>The trait and its two implementations\<close>

text \<open>\<open>dyn LogonSubmissionGuard\<close> as the record of its methods over the guard's own state.\<close>

record 'g guard_ops =
  g_ready :: "'g \<Rightarrow> 'g \<times> (logon_block + u64)"
  g_reserve :: "u64 \<Rightarrow> 'g \<Rightarrow> 'g \<times> (logon_block + submission_token)"
  g_complete ::
    "submission_token \<Rightarrow> windows_logon_result \<Rightarrow> 'g \<Rightarrow> 'g \<times> (logon_block + unit)"
  g_cancel_unsubmitted :: "submission_token \<Rightarrow> 'g \<Rightarrow> 'g \<times> (logon_block + unit)"
  g_credentials_updated :: "'g \<Rightarrow> 'g \<times> (logon_block + unit)"

subsection \<open>In memory\<close>

text \<open>\<open>Mutex<GuardState>\<close>: \<open>lock()\<close> fails when the mutex is poisoned.\<close>

record memory_guard =
  poisoned :: bool
  cell :: guard_state

definition with_memory ::
  "(guard_state \<Rightarrow> guard_state \<times> (logon_block + 'a)) \<Rightarrow> memory_guard \<Rightarrow>
     memory_guard \<times> (logon_block + 'a)" where
  "with_memory f m =
     (if poisoned m then (m, Inl StorageUnavailable)
      else case f (cell m) of (s, r) \<Rightarrow> (m\<lparr>cell := s\<rparr>, r))"

definition memory_logon_guard :: "memory_guard guard_ops" where
  "memory_logon_guard =
     \<lparr>g_ready = with_memory (\<lambda>s. (s, ready_generation s)),
      g_reserve = (\<lambda>gen. with_memory (reserve gen)),
      g_complete = (\<lambda>tok result. with_memory (complete tok result)),
      g_cancel_unsubmitted = (\<lambda>tok. with_memory (complete tok no_error_result)),
      g_credentials_updated = with_memory credentials_updated\<rparr>"

subsection \<open>In the registry\<close>

definition record_len :: nat where
  "record_len = 24"

definition encode_guard :: "guard_state \<Rightarrow> u8 list" where
  "encode_guard s =
     (let (ph, result) =
        (case guard_phase s of
           Ready \<Rightarrow> (0, no_error_result)
         | Submitted \<Rightarrow> (1, no_error_result)
         | Rejected r \<Rightarrow> (2, r))
      in le_bytes 4 1 @ le_bytes 8 (unat (generation s)) @ le_bytes 4 ph
         @ le_bytes 4 (unat (status result)) @ le_bytes 4 (unat (substatus result)))"

definition u32_at :: "u8 list \<Rightarrow> nat \<Rightarrow> u32" where
  "u32_at bytes offset = word_of_nat (of_le_bytes (take 4 (drop offset bytes)))"

definition decode_guard :: "u8 list \<Rightarrow> logon_block + guard_state" where
  "decode_guard bytes =
     (if u32_at bytes 0 \<noteq> 1 then Inl StorageUnavailable
      else
        let gen = word_of_nat (of_le_bytes (take 8 (drop 4 bytes)));
            result = \<lparr>status = u32_at bytes 16, substatus = u32_at bytes 20\<rparr>;
            ph = u32_at bytes 12
        in if ph = 0 \<and> succeeded result then Inr \<lparr>generation = gen, guard_phase = Ready\<rparr>
           else if ph = 1 \<and> succeeded result then Inr \<lparr>generation = gen, guard_phase = Submitted\<rparr>
           else if ph = 2 \<and> \<not> succeeded result
             then Inr \<lparr>generation = gen, guard_phase = Rejected result\<rparr>
           else Inl StorageUnavailable)"

text \<open>
  The registry value \<open>StateV1\<close>: absent, or a type and its bytes. The outcomes of the Windows
  calls one transaction makes (the global mutex, \<open>RegCreateKeyExW\<close>, \<open>RegQueryValueExW\<close>,
  \<open>RegSetValueExW\<close>, \<open>RegFlushKey\<close>) are a record of booleans: any call may fail. A successful query
  returns the value when it fits the 24-byte buffer; a write replaces the value; a failed flush
  leaves the written value in place.
\<close>

type_synonym registry_value = "(u32 \<times> u8 list) option"

definition reg_binary :: u32 where
  "reg_binary = 3"

record registry_calls =
  mutex_ok :: bool
  create_ok :: bool
  query_ok :: bool
  set_ok :: bool
  flush_ok :: bool

datatype query_result = QueryNotFound | QuerySuccess u32 "u8 list" | QueryError

definition reg_query_value :: "registry_calls \<Rightarrow> registry_value \<Rightarrow> query_result" where
  "reg_query_value io v =
     (if \<not> query_ok io then QueryError
      else case v of
             None \<Rightarrow> QueryNotFound
           | Some (kind, bytes) \<Rightarrow>
               if length bytes \<le> record_len then QuerySuccess kind bytes else QueryError)"

definition transaction ::
  "registry_calls \<Rightarrow> (guard_state \<Rightarrow> guard_state \<times> (logon_block + 'a)) \<Rightarrow> registry_value \<Rightarrow>
     registry_value \<times> (logon_block + 'a)" where
  "transaction io operation v =
     (if \<not> mutex_ok io then (v, Inl StorageUnavailable)
      else if \<not> create_ok io then (v, Inl StorageUnavailable)
      else
        let loaded =
          (case reg_query_value io v of
             QueryNotFound \<Rightarrow> Inr default_guard_state
           | QuerySuccess kind bytes \<Rightarrow>
               if kind = reg_binary \<and> length bytes = record_len then decode_guard bytes
               else Inl StorageUnavailable
           | QueryError \<Rightarrow> Inl StorageUnavailable)
        in case loaded of
             Inl e \<Rightarrow> (v, Inl e)
           | Inr before \<Rightarrow>
               (case operation before of
                  (state, Inl e) \<Rightarrow> (v, Inl e)
                | (state, Inr result) \<Rightarrow>
                    if state \<noteq> before then
                      if \<not> set_ok io then (v, Inl StorageUnavailable)
                      else if \<not> flush_ok io
                        then (Some (reg_binary, encode_guard state), Inl StorageUnavailable)
                      else (Some (reg_binary, encode_guard state), Inr result)
                    else (v, Inr result)))"

text \<open>The persistent guard's world: the registry value and the outcomes of the transactions to
  come, of which every call uses the first.\<close>

record registry =
  stored :: registry_value
  outcomes :: "nat \<Rightarrow> registry_calls"

definition with_registry ::
  "(guard_state \<Rightarrow> guard_state \<times> (logon_block + 'a)) \<Rightarrow> registry \<Rightarrow> registry \<times> (logon_block + 'a)" where
  "with_registry f g =
     (case transaction (outcomes g 0) f (stored g) of
        (v, r) \<Rightarrow> (\<lparr>stored = v, outcomes = (\<lambda>n. outcomes g (Suc n))\<rparr>, r))"

definition persistent_logon_guard :: "registry guard_ops" where
  "persistent_logon_guard =
     \<lparr>g_ready = with_registry (\<lambda>s. (s, ready_generation s)),
      g_reserve = (\<lambda>gen. with_registry (reserve gen)),
      g_complete = (\<lambda>tok result. with_registry (complete tok result)),
      g_cancel_unsubmitted = (\<lambda>tok. with_registry (complete tok no_error_result)),
      g_credentials_updated = with_registry credentials_updated\<rparr>"

section \<open>Sequences of calls\<close>

datatype guard_call =
    CallReady
  | CallReserve u64
  | CallComplete submission_token windows_logon_result
  | CallCancel submission_token
  | CallUpdated

datatype guard_reply = ReplyGeneration u64 | ReplyToken submission_token | ReplyUnit

fun map_reply :: "('a \<Rightarrow> guard_reply) \<Rightarrow> 'g \<times> (logon_block + 'a) \<Rightarrow> 'g \<times> (logon_block + guard_reply)" where
  "map_reply f (s, Inl e) = (s, Inl e)"
| "map_reply f (s, Inr x) = (s, Inr (f x))"

fun call_guard :: "'g guard_ops \<Rightarrow> guard_call \<Rightarrow> 'g \<Rightarrow> 'g \<times> (logon_block + guard_reply)" where
  "call_guard G CallReady s = map_reply ReplyGeneration (g_ready G s)"
| "call_guard G (CallReserve n) s = map_reply ReplyToken (g_reserve G n s)"
| "call_guard G (CallComplete t r) s = map_reply (\<lambda>_. ReplyUnit) (g_complete G t r s)"
| "call_guard G (CallCancel t) s = map_reply (\<lambda>_. ReplyUnit) (g_cancel_unsubmitted G t s)"
| "call_guard G CallUpdated s = map_reply (\<lambda>_. ReplyUnit) (g_credentials_updated G s)"

fun guard_run :: "'g guard_ops \<Rightarrow> guard_call list \<Rightarrow> 'g \<Rightarrow> 'g \<times> (logon_block + guard_reply) list" where
  "guard_run G [] s = (s, [])"
| "guard_run G (c # cs) s =
     (case call_guard G c s of
        (s', r) \<Rightarrow> (case guard_run G cs s' of (s'', rs) \<Rightarrow> (s'', r # rs)))"

text \<open>The tokens, that is the permissions to hand a password to Windows, a run gives out.\<close>

fun token_of :: "logon_block + guard_reply \<Rightarrow> u64 list" where
  "token_of (Inr (ReplyToken t)) = [token_generation t]"
| "token_of _ = []"

fun tokens_issued :: "(logon_block + guard_reply) list \<Rightarrow> u64 list" where
  "tokens_issued [] = []"
| "tokens_issued (r # rs) = token_of r @ tokens_issued rs"

text \<open>The calls that end the submission a token stands for.\<close>

fun settles :: "u64 \<Rightarrow> guard_call \<Rightarrow> bool" where
  "settles n (CallComplete t r) = (token_generation t = n)"
| "settles n (CallCancel t) = (token_generation t = n)"
| "settles n CallUpdated = True"
| "settles n _ = False"

section \<open>The contract of the guard\<close>

definition after_result :: "u64 \<Rightarrow> windows_logon_result \<Rightarrow> guard_state" where
  "after_result n result =
     \<lparr>generation = n, guard_phase = (if succeeded result then Ready else Rejected result)\<rparr>"

text \<open>
  What a client may rely on, over an abstraction of the guard's state to the state machine
  (\<open>None\<close> when the stored record is unreadable): a call that fails changes nothing, or it has
  made its transition and could not confirm it; in either case it gives out no token.
\<close>

locale submission_guard =
  fixes G :: "'g guard_ops"
    and absg :: "'g \<Rightarrow> guard_state option"
  assumes ready_abs: "absg (fst (g_ready G s)) = absg s"
    and ready_ok: "snd (g_ready G s) = Inr n \<Longrightarrow> absg s = Some \<lparr>generation = n, guard_phase = Ready\<rparr>"
    and reserve_ok: "g_reserve G n s = (s', Inr t) \<Longrightarrow>
      absg s = Some \<lparr>generation = n, guard_phase = Ready\<rparr> \<and>
      absg s' = Some \<lparr>generation = token_generation t, guard_phase = Submitted\<rparr> \<and>
      n < token_generation t"
    and reserve_err: "g_reserve G n s = (s', Inl e) \<Longrightarrow>
      absg s' = absg s \<or>
      (absg s = Some \<lparr>generation = n, guard_phase = Ready\<rparr> \<and>
       (\<exists>k. n < k \<and> absg s' = Some \<lparr>generation = k, guard_phase = Submitted\<rparr>))"
    and complete_ok: "g_complete G t r s = (s', Inr u) \<Longrightarrow>
      absg s = Some \<lparr>generation = token_generation t, guard_phase = Submitted\<rparr> \<and>
      absg s' = Some (after_result (token_generation t) r)"
    and complete_err: "g_complete G t r s = (s', Inl e) \<Longrightarrow>
      absg s' = absg s \<or>
      (absg s = Some \<lparr>generation = token_generation t, guard_phase = Submitted\<rparr> \<and>
       absg s' = Some (after_result (token_generation t) r))"
    and cancel_is_complete: "g_cancel_unsubmitted G t s = g_complete G t no_error_result s"
    and updated_ok: "g_credentials_updated G s = (s', Inr u) \<Longrightarrow>
      \<exists>b k. absg s = Some b \<and> generation b < k \<and> absg s' = Some \<lparr>generation = k, guard_phase = Ready\<rparr>"
    and updated_err: "g_credentials_updated G s = (s', Inl e) \<Longrightarrow>
      absg s' = absg s \<or>
      (\<exists>b k. absg s = Some b \<and> generation b < k \<and>
        absg s' = Some \<lparr>generation = k, guard_phase = Ready\<rparr>)"
begin

text \<open>Every call is one of four transitions of the abstract state.\<close>

lemma call_cases [consumes 1, case_names same reserved settled updated]:
  assumes "call_guard G c s = (s', r)"
  obtains
    "absg s' = absg s" "token_of r = []"
  | n k where "c = CallReserve n" "absg s = Some \<lparr>generation = n, guard_phase = Ready\<rparr>" "n < k"
      "absg s' = Some \<lparr>generation = k, guard_phase = Submitted\<rparr>"
      "token_of r = [] \<or> token_of r = [k]"
  | n res where "settles n c" "c \<noteq> CallUpdated"
      "absg s = Some \<lparr>generation = n, guard_phase = Submitted\<rparr>"
      "absg s' = Some (after_result n res)" "token_of r = []"
  | b k where "c = CallUpdated" "absg s = Some b" "generation b < k"
      "absg s' = Some \<lparr>generation = k, guard_phase = Ready\<rparr>" "token_of r = []"
proof (cases c)
  case CallReady
  with assms ready_abs [of s] that(1) show ?thesis
    by (cases "g_ready G s"; cases "snd (g_ready G s)") auto
next
  case (CallReserve n)
  obtain s'' out where out: "g_reserve G n s = (s'', out)" by fastforce
  show ?thesis
  proof (cases out)
    case (Inl e)
    with assms CallReserve out reserve_err [of n s s'' e] that(1) that(2) show ?thesis by auto
  next
    case (Inr t)
    with assms CallReserve out reserve_ok [of n s s'' t] that(2) show ?thesis by auto
  qed
next
  case (CallComplete t res)
  obtain s'' out where out: "g_complete G t res s = (s'', out)" by fastforce
  show ?thesis
  proof (cases out)
    case (Inl e)
    with assms CallComplete out complete_err [of t res s s'' e] that(1) that(3) show ?thesis by auto
  next
    case (Inr u)
    with assms CallComplete out complete_ok [of t res s s'' u] that(3) show ?thesis by auto
  qed
next
  case (CallCancel t)
  obtain s'' out where out: "g_complete G t no_error_result s = (s'', out)" by fastforce
  show ?thesis
  proof (cases out)
    case (Inl e)
    with assms CallCancel out complete_err [of t no_error_result s s'' e] that(1) that(3)
    show ?thesis by (auto simp: cancel_is_complete)
  next
    case (Inr u)
    with assms CallCancel out complete_ok [of t no_error_result s s'' u] that(3)
    show ?thesis by (auto simp: cancel_is_complete)
  qed
next
  case CallUpdated
  obtain s'' out where out: "g_credentials_updated G s = (s'', out)" by fastforce
  show ?thesis
  proof (cases out)
    case (Inl e)
    with assms CallUpdated out updated_err [of s s'' e] that(1) that(4) show ?thesis by auto
  next
    case (Inr u)
    with assms CallUpdated out updated_ok [of s s'' u] that(4) show ?thesis by auto
  qed
qed

text \<open>A submitted or rejected state stays as it is until a call that settles it.\<close>

lemma blocked_call:
  assumes "call_guard G c s = (s', r)" and "absg s = Some b" and "guard_phase b \<noteq> Ready"
    and "\<not> settles (generation b) c"
  shows "absg s' = Some b \<and> token_of r = []"
  using assms by (cases rule: call_cases) auto

lemma rejected_call:
  assumes "call_guard G c s = (s', r)" and "absg s = Some b" and "guard_phase b = Rejected res"
    and "c \<noteq> CallUpdated"
  shows "absg s' = Some b \<and> token_of r = []"
  using assms by (cases rule: call_cases) auto

lemma unreadable_call:
  assumes "call_guard G c s = (s', r)" and "absg s = None"
  shows "absg s' = None \<and> token_of r = []"
  using assms by (cases rule: call_cases) auto

text \<open>Generations never go back, and a token is always newer than the generation before it.\<close>

lemma call_generation:
  assumes "call_guard G c s = (s', r)" and "absg s = Some b"
  shows "\<exists>b'. absg s' = Some b' \<and> generation b \<le> generation b' \<and>
    (\<forall>k \<in> set (token_of r). generation b < k \<and> k \<le> generation b') \<and>
    length (token_of r) \<le> 1"
  using assms by (cases rule: call_cases) (auto simp: after_result_def)

text \<open>The same for runs.\<close>

lemma blocked_run:
  assumes "absg s = Some b" and "guard_phase b \<noteq> Ready"
    and "\<forall>c \<in> set cs. \<not> settles (generation b) c"
  shows "absg (fst (guard_run G cs s)) = Some b \<and> tokens_issued (snd (guard_run G cs s)) = []"
  using assms
proof (induction cs arbitrary: s)
  case Nil
  then show ?case by simp
next
  case (Cons c cs)
  obtain s' r where c: "call_guard G c s = (s', r)" by fastforce
  from Cons.prems(3) blocked_call [OF c Cons.prems(1,2)] have "absg s' = Some b \<and> token_of r = []" by simp
  with c Cons.IH [of s'] Cons.prems show ?case
    by (auto split: prod.splits)
qed

lemma rejected_run:
  assumes "absg s = Some b" and "guard_phase b = Rejected res" and "CallUpdated \<notin> set cs"
  shows "absg (fst (guard_run G cs s)) = Some b \<and> tokens_issued (snd (guard_run G cs s)) = []"
  using assms
proof (induction cs arbitrary: s)
  case Nil
  then show ?case by simp
next
  case (Cons c cs)
  obtain s' r where c: "call_guard G c s = (s', r)" by fastforce
  from Cons.prems(3) rejected_call [OF c Cons.prems(1,2)] have "absg s' = Some b \<and> token_of r = []" by auto
  with c Cons.IH [of s'] Cons.prems show ?case
    by (auto split: prod.splits)
qed

lemma unreadable_run:
  "absg s = None \<Longrightarrow>
    absg (fst (guard_run G cs s)) = None \<and> tokens_issued (snd (guard_run G cs s)) = []"
proof (induction cs arbitrary: s)
  case Nil
  then show ?case by simp
next
  case (Cons c cs)
  obtain s' r where c: "call_guard G c s = (s', r)" by fastforce
  with Cons.prems unreadable_call [OF c] have "absg s' = None \<and> token_of r = []" by simp
  with c Cons.IH [of s'] show ?case
    by (auto split: prod.splits)
qed

lemma tokens_above:
  "absg s = Some b \<Longrightarrow> k \<in> set (tokens_issued (snd (guard_run G cs s))) \<Longrightarrow> generation b < k"
proof (induction cs arbitrary: s b)
  case Nil
  then show ?case by simp
next
  case (Cons c cs)
  obtain s' r where c: "call_guard G c s = (s', r)" by fastforce
  from call_generation [OF c Cons.prems(1)] obtain b' where b': "absg s' = Some b'"
    "generation b \<le> generation b'" "\<forall>k \<in> set (token_of r). generation b < k" by auto
  from Cons.prems(2) c have
    "k \<in> set (token_of r) \<or> k \<in> set (tokens_issued (snd (guard_run G cs s')))"
    by (auto split: prod.splits)
  with b' Cons.IH [OF b'(1)] show ?case by fastforce
qed

lemma tokens_sorted:
  "absg s = Some b \<Longrightarrow> sorted_wrt (<) (tokens_issued (snd (guard_run G cs s)))"
proof (induction cs arbitrary: s b)
  case Nil
  then show ?case by simp
next
  case (Cons c cs)
  obtain s' r where c: "call_guard G c s = (s', r)" by fastforce
  from call_generation [OF c Cons.prems] obtain b' where b': "absg s' = Some b'"
    "\<forall>k \<in> set (token_of r). k \<le> generation b'" "length (token_of r) \<le> 1" by auto
  have "sorted_wrt (<) (token_of r)"
    using b'(3) by (cases "token_of r") auto
  moreover have "\<forall>x \<in> set (token_of r). \<forall>y \<in> set (tokens_issued (snd (guard_run G cs s'))). x < y"
    using b'(2) tokens_above [OF b'(1), of _ cs] by (meson order_le_less_trans)
  ultimately show ?case
    using Cons.IH [OF b'(1)] c by (cases "guard_run G cs s'") (simp add: sorted_wrt_append)
qed

end

section \<open>Both guards keep the contract\<close>

text \<open>The stored record cannot hold a rejection that is a success; every operation keeps that.\<close>

definition guard_wf :: "guard_state \<Rightarrow> bool" where
  "guard_wf s = (case guard_phase s of Rejected r \<Rightarrow> \<not> succeeded r | _ \<Rightarrow> True)"

lemmas guard_op_defs = ready_generation_def advance_def reserve_def complete_def
  credentials_updated_def

lemma ready_generation_Inr_iff:
  "ready_generation s = Inr n \<longleftrightarrow> s = \<lparr>generation = n, guard_phase = Ready\<rparr>"
  by (cases s) (auto simp: ready_generation_def split: guard_phase.splits)

lemma reserve_Inr:
  "reserve n s = (s', Inr t) \<Longrightarrow> s = \<lparr>generation = n, guard_phase = Ready\<rparr> \<and>
    s' = \<lparr>generation = token_generation t, guard_phase = Submitted\<rparr> \<and> n < token_generation t"
  by (cases s)
    (auto simp: guard_op_defs word_less_nat_alt unat_plus_one checked_inc_Some_iff
      split: guard_phase.splits option.splits if_splits)

lemma reserve_Inl: "reserve n s = (s', Inl e) \<Longrightarrow> s' = s"
  by (auto simp: guard_op_defs split: guard_phase.splits option.splits if_splits)

lemma complete_Inr:
  "complete t r s = (s', Inr u) \<Longrightarrow>
    s = \<lparr>generation = token_generation t, guard_phase = Submitted\<rparr> \<and> s' = after_result (token_generation t) r"
  by (cases s) (auto simp: complete_def after_result_def split: if_splits)

lemma complete_Inl: "complete t r s = (s', Inl e) \<Longrightarrow> s' = s"
  by (auto simp: complete_def split: if_splits)

lemma updated_Inr:
  "credentials_updated s = (s', Inr u) \<Longrightarrow>
    \<exists>k. generation s < k \<and> s' = \<lparr>generation = k, guard_phase = Ready\<rparr>"
  by (cases s)
    (auto simp: guard_op_defs word_less_nat_alt unat_plus_one checked_inc_Some_iff
      split: option.splits)

lemma updated_Inl: "credentials_updated s = (s', Inl e) \<Longrightarrow> s' = s"
  by (auto simp: guard_op_defs split: option.splits)

definition yields_wf :: "(guard_state \<Rightarrow> guard_state \<times> (logon_block + 'a)) \<Rightarrow> bool" where
  "yields_wf f \<longleftrightarrow> (\<forall>b s x. f b = (s, Inr x) \<longrightarrow> guard_wf s)"

lemma yields_wfD: "yields_wf f \<Longrightarrow> f b = (s, Inr x) \<Longrightarrow> guard_wf s"
  by (auto simp: yields_wf_def)

lemma reserve_wf: "yields_wf (reserve n)"
  by (auto simp: yields_wf_def guard_wf_def dest!: reserve_Inr)

lemma complete_wf: "yields_wf (complete t r)"
  by (auto simp: yields_wf_def guard_wf_def after_result_def dest!: complete_Inr)

lemma updated_wf: "yields_wf credentials_updated"
  by (auto simp: yields_wf_def guard_wf_def dest!: updated_Inr)

subsection \<open>The guard in memory\<close>

definition memory_abs :: "memory_guard \<Rightarrow> guard_state option" where
  "memory_abs m = (if poisoned m then None else Some (cell m))"

lemma with_memory_Inr:
  "with_memory f m = (m', Inr x) \<Longrightarrow>
    \<exists>s'. f (cell m) = (s', Inr x) \<and> memory_abs m = Some (cell m) \<and> memory_abs m' = Some s'"
  by (auto simp: with_memory_def memory_abs_def split: if_splits prod.splits)

lemma with_memory_Inl:
  assumes "with_memory f m = (m', Inl e)" and "\<And>s s' e. f s = (s', Inl e) \<Longrightarrow> s' = s"
  shows "memory_abs m' = memory_abs m"
  using assms by (fastforce simp: with_memory_def memory_abs_def split: if_splits prod.splits)

interpretation memory: submission_guard memory_logon_guard memory_abs
proof
  fix s n
  show "memory_abs (fst (g_ready memory_logon_guard s)) = memory_abs s"
    by (simp add: memory_logon_guard_def with_memory_def memory_abs_def)
  show "snd (g_ready memory_logon_guard s) = Inr n \<Longrightarrow>
    memory_abs s = Some \<lparr>generation = n, guard_phase = Ready\<rparr>"
    by (simp add: memory_logon_guard_def with_memory_def memory_abs_def ready_generation_Inr_iff
        split: if_splits)
next
  fix n s s' t
  assume "g_reserve memory_logon_guard n s = (s', Inr t)"
  then show "memory_abs s = Some \<lparr>generation = n, guard_phase = Ready\<rparr> \<and>
      memory_abs s' = Some \<lparr>generation = token_generation t, guard_phase = Submitted\<rparr> \<and>
      n < token_generation t"
    by (auto simp: memory_logon_guard_def dest!: with_memory_Inr reserve_Inr)
next
  fix n s s' e
  assume "g_reserve memory_logon_guard n s = (s', Inl e)"
  then have "memory_abs s' = memory_abs s"
    by (auto simp: memory_logon_guard_def elim: with_memory_Inl dest: reserve_Inl)
  then show "memory_abs s' = memory_abs s \<or>
      memory_abs s = Some \<lparr>generation = n, guard_phase = Ready\<rparr> \<and>
      (\<exists>k. n < k \<and> memory_abs s' = Some \<lparr>generation = k, guard_phase = Submitted\<rparr>)"
    by simp
next
  fix t r s s' u
  assume "g_complete memory_logon_guard t r s = (s', Inr u)"
  then show "memory_abs s = Some \<lparr>generation = token_generation t, guard_phase = Submitted\<rparr> \<and>
      memory_abs s' = Some (after_result (token_generation t) r)"
    by (auto simp: memory_logon_guard_def dest!: with_memory_Inr complete_Inr)
next
  fix t r s s' e
  assume "g_complete memory_logon_guard t r s = (s', Inl e)"
  then have "memory_abs s' = memory_abs s"
    by (auto simp: memory_logon_guard_def elim: with_memory_Inl dest: complete_Inl)
  then show "memory_abs s' = memory_abs s \<or>
      memory_abs s = Some \<lparr>generation = token_generation t, guard_phase = Submitted\<rparr> \<and>
      memory_abs s' = Some (after_result (token_generation t) r)"
    by simp
next
  fix t s
  show "g_cancel_unsubmitted memory_logon_guard t s = g_complete memory_logon_guard t no_error_result s"
    by (simp add: memory_logon_guard_def)
next
  fix s s' u
  assume "g_credentials_updated memory_logon_guard s = (s', Inr u)"
  then show "\<exists>b k. memory_abs s = Some b \<and> generation b < k \<and>
      memory_abs s' = Some \<lparr>generation = k, guard_phase = Ready\<rparr>"
    by (fastforce simp: memory_logon_guard_def dest!: with_memory_Inr updated_Inr)
next
  fix s s' e
  assume "g_credentials_updated memory_logon_guard s = (s', Inl e)"
  then have "memory_abs s' = memory_abs s"
    by (auto simp: memory_logon_guard_def elim: with_memory_Inl dest: updated_Inl)
  then show "memory_abs s' = memory_abs s \<or>
      (\<exists>b k. memory_abs s = Some b \<and> generation b < k \<and>
        memory_abs s' = Some \<lparr>generation = k, guard_phase = Ready\<rparr>)"
    by simp
qed

subsection \<open>The record in the registry\<close>

lemma word_of_le_bytes_u32: "word_of_nat (of_le_bytes (le_bytes 4 (unat (w :: u32)))) = w"
proof -
  have "unat w < 2 ^ LENGTH(32)" by (rule unsigned_less)
  then show ?thesis by (simp add: of_le_bytes_le_bytes)
qed

lemma word_of_le_bytes_u64: "word_of_nat (of_le_bytes (le_bytes 8 (unat (w :: u64)))) = w"
proof -
  have "unat w < 2 ^ LENGTH(64)" by (rule unsigned_less)
  then show ?thesis by (simp add: of_le_bytes_le_bytes)
qed

lemma le_bytes_word_u32:
  assumes "length bs = 4"
  shows "le_bytes 4 (unat (word_of_nat (of_le_bytes bs) :: u32)) = bs"
proof -
  have "of_le_bytes bs < 2 ^ 32" using of_le_bytes_less [of bs] assms by simp
  then show ?thesis using le_bytes_of_le_bytes [of bs] assms by (simp add: unat_of_nat)
qed

lemma le_bytes_word_u64:
  assumes "length bs = 8"
  shows "le_bytes 8 (unat (word_of_nat (of_le_bytes bs) :: u64)) = bs"
proof -
  have "of_le_bytes bs < 2 ^ 64" using of_le_bytes_less [of bs] assms by simp
  then show ?thesis using le_bytes_of_le_bytes [of bs] assms by (simp add: unat_of_nat)
qed

lemma length_encode_guard: "length (encode_guard s) = record_len"
  by (simp add: encode_guard_def record_len_def split: guard_phase.splits)

lemma no_error_succeeded [simp]: "succeeded no_error_result"
  by (simp add: succeeded_def no_error_result_def)

lemma succeeded_iff: "succeeded r \<longleftrightarrow> r = no_error_result"
  by (cases r) (simp add: succeeded_def no_error_result_def)

lemma encoded_fields:
  assumes "length v = 4" "length g = 8" "length p = 4" "length a = 4" "length b = 4"
  shows "take 4 (drop 0 (v @ g @ p @ a @ b)) = v" "take 8 (drop 4 (v @ g @ p @ a @ b)) = g"
    "take 4 (drop 12 (v @ g @ p @ a @ b)) = p" "take 4 (drop 16 (v @ g @ p @ a @ b)) = a"
    "take 4 (drop 20 (v @ g @ p @ a @ b)) = b"
  using assms by simp_all

lemma u32_at_small: "n < 2 ^ 32 \<Longrightarrow> word_of_nat (of_le_bytes (le_bytes 4 n)) = (word_of_nat n :: u32)"
  by (simp add: of_le_bytes_le_bytes)

lemma decode_encode_guard: "guard_wf s \<Longrightarrow> decode_guard (encode_guard s) = Inr s"
proof -
  assume wf: "guard_wf s"
  obtain ph r where ph: "(case guard_phase s of Ready \<Rightarrow> (0, no_error_result)
      | Submitted \<Rightarrow> (1, no_error_result) | Rejected r \<Rightarrow> (2, r)) = (ph :: nat, r)"
    by fastforce
  then have enc: "encode_guard s = le_bytes 4 1 @ le_bytes 8 (unat (generation s)) @ le_bytes 4 ph
      @ le_bytes 4 (unat (status r)) @ le_bytes 4 (unat (substatus r))"
    by (simp add: encode_guard_def)
  have fields: "u32_at (encode_guard s) 0 = 1" "u32_at (encode_guard s) 12 = word_of_nat ph"
    "u32_at (encode_guard s) 16 = status r" "u32_at (encode_guard s) 20 = substatus r"
    "word_of_nat (of_le_bytes (take 8 (drop 4 (encode_guard s)))) = generation s"
    using ph unfolding enc u32_at_def
    by (simp_all only: encoded_fields length_le_bytes word_of_le_bytes_u32 word_of_le_bytes_u64)
      (auto simp: u32_at_small split: guard_phase.splits)
  have r: "\<lparr>status = status r, substatus = substatus r\<rparr> = r" by simp
  show ?thesis
    using wf ph unfolding decode_guard_def Let_def fields r
    by (cases s) (auto simp: guard_wf_def split: guard_phase.splits)
qed

lemma drop_split: "drop n xs = take k (drop n xs) @ drop (k + n) xs"
  by (metis append_take_drop_id drop_drop)

lemma encode_decode_guard:
  assumes len: "length bytes = record_len" and dec: "decode_guard bytes = Inr s"
  shows "encode_guard s = bytes"
proof -
  have l: "length bytes = 24" using len by (simp add: record_len_def)
  have split: "bytes = take 4 (drop 0 bytes) @ take 8 (drop 4 bytes) @ take 4 (drop 12 bytes)
      @ take 4 (drop 16 bytes) @ take 4 (drop 20 bytes)"
  proof -
    have "bytes = take 4 (drop 0 bytes) @ drop 4 bytes" by simp
    also have "drop 4 bytes = take 8 (drop 4 bytes) @ drop 12 bytes"
      using drop_split [of 4 bytes 8] by simp
    also have "drop 12 bytes = take 4 (drop 12 bytes) @ drop 16 bytes"
      using drop_split [of 12 bytes 4] by simp
    also have "drop 16 bytes = take 4 (drop 16 bytes) @ drop 20 bytes"
      using drop_split [of 16 bytes 4] by simp
    also have "drop 20 bytes = take 4 (drop 20 bytes)" using l by simp
    finally show ?thesis .
  qed
  have field4: "le_bytes 4 (unat (u32_at bytes k)) = take 4 (drop k bytes)" if "k \<le> 20" for k
    using l that by (simp add: u32_at_def le_bytes_word_u32)
  have field8: "le_bytes 8 (unat (word_of_nat (of_le_bytes (take 8 (drop 4 bytes))) :: u64))
      = take 8 (drop 4 bytes)"
    using l by (simp add: le_bytes_word_u64)
  have v: "le_bytes 4 (Suc 0) = take 4 bytes"
    using dec field4 [of 0] by (auto simp: decode_guard_def simp del: le_bytes.simps split: if_splits)
  have "encode_guard s = take 4 (drop 0 bytes) @ take 8 (drop 4 bytes) @ take 4 (drop 12 bytes)
      @ take 4 (drop 16 bytes) @ take 4 (drop 20 bytes)"
    using dec v field4 [of 12] field4 [of 16] field4 [of 20]
    by (auto simp: decode_guard_def Let_def encode_guard_def succeeded_def no_error_result_def
        field8 simp del: le_bytes.simps split: if_splits)
  with split show ?thesis by simp
qed

subsection \<open>The guard in the registry\<close>

definition stored_abs :: "registry_value \<Rightarrow> guard_state option" where
  "stored_abs v =
     (case v of
        None \<Rightarrow> Some default_guard_state
      | Some (kind, bytes) \<Rightarrow>
          if kind = reg_binary \<and> length bytes = record_len then result_ok (decode_guard bytes)
          else None)"

definition registry_abs :: "registry \<Rightarrow> guard_state option" where
  "registry_abs g = stored_abs (stored g)"

lemma stored_abs_encode: "guard_wf s \<Longrightarrow> stored_abs (Some (reg_binary, encode_guard s)) = Some s"
  by (simp add: stored_abs_def length_encode_guard decode_encode_guard)

lemma transaction_cases:
  assumes "transaction io f v = (v', r)"
  obtains e where "r = Inl e" "v' = v"
  | b s x where "stored_abs v = Some b" "f b = (s, Inr x)" "r = Inr x"
      "s = b \<and> v' = v \<or> v' = Some (reg_binary, encode_guard s)"
  | b s x e where "stored_abs v = Some b" "f b = (s, Inr x)" "r = Inl e"
      "v' = Some (reg_binary, encode_guard s)"
proof -
  define loaded where "loaded = (case reg_query_value io v of
      QueryNotFound \<Rightarrow> Inr default_guard_state
    | QuerySuccess kind bytes \<Rightarrow>
        if kind = reg_binary \<and> length bytes = record_len then decode_guard bytes
        else Inl StorageUnavailable
    | QueryError \<Rightarrow> Inl StorageUnavailable)"
  show thesis
  proof (cases "mutex_ok io \<and> create_ok io")
    case False
    with assms that(1) show thesis by (auto simp: transaction_def split: if_splits)
  next
    case ok: True
    show thesis
    proof (cases loaded)
      case (Inl e)
      with assms ok that(1) show thesis
        by (auto simp: transaction_def Let_def loaded_def [symmetric])
    next
      case (Inr b)
      then have b: "stored_abs v = Some b"
        by (auto simp: loaded_def reg_query_value_def stored_abs_def
            split: option.splits if_splits prod.splits)
      obtain s out where f: "f b = (s, out)" by fastforce
      with assms ok Inr b that show thesis
        by (cases out)
          (auto simp: transaction_def Let_def loaded_def [symmetric] split: if_splits)
    qed
  qed
qed

lemma with_registry_Inr:
  assumes "with_registry f g = (g', Inr x)"
    and "yields_wf f"
  shows "\<exists>b s. registry_abs g = Some b \<and> f b = (s, Inr x) \<and> registry_abs g' = Some s"
proof -
  obtain v r where t: "transaction (outcomes g 0) f (stored g) = (v, r)" by fastforce
  with assms(1) have "r = Inr x" "stored g' = v" by (auto simp: with_registry_def)
  with t show ?thesis
    by (cases rule: transaction_cases) (use assms(2) in \<open>auto simp: registry_abs_def intro!: stored_abs_encode intro: yields_wfD\<close>)
qed

lemma with_registry_Inl:
  assumes "with_registry f g = (g', Inl e)"
    and "yields_wf f"
  shows "registry_abs g' = registry_abs g \<or>
    (\<exists>b s x. registry_abs g = Some b \<and> f b = (s, Inr x) \<and> registry_abs g' = Some s)"
proof -
  obtain v r where t: "transaction (outcomes g 0) f (stored g) = (v, r)" by fastforce
  with assms(1) have "r = Inl e" "stored g' = v" by (auto simp: with_registry_def)
  with t show ?thesis
    by (cases rule: transaction_cases) (use assms(2) in \<open>auto simp: registry_abs_def intro!: stored_abs_encode intro: yields_wfD\<close>)
qed

text \<open>A query of the guard never writes.\<close>

lemma registry_ready_abs: "registry_abs (fst (with_registry (\<lambda>s. (s, ready_generation s)) g)) = registry_abs g"
  by (auto simp: with_registry_def registry_abs_def transaction_def Let_def
      split: prod.splits sum.splits if_splits)

lemma registry_ready_ok:
  assumes "snd (with_registry (\<lambda>s. (s, ready_generation s)) g) = Inr n"
  shows "registry_abs g = Some \<lparr>generation = n, guard_phase = Ready\<rparr>"
proof -
  obtain v r where t: "transaction (outcomes g 0) (\<lambda>s. (s, ready_generation s)) (stored g) = (v, r)"
    by fastforce
  with assms have "r = Inr n" by (simp add: with_registry_def)
  with t show ?thesis
    by (cases rule: transaction_cases) (auto simp: registry_abs_def ready_generation_Inr_iff)
qed

interpretation persistent: submission_guard persistent_logon_guard registry_abs
proof
  fix s n
  show "registry_abs (fst (g_ready persistent_logon_guard s)) = registry_abs s"
    by (simp add: persistent_logon_guard_def registry_ready_abs)
  show "snd (g_ready persistent_logon_guard s) = Inr n \<Longrightarrow>
    registry_abs s = Some \<lparr>generation = n, guard_phase = Ready\<rparr>"
    by (simp add: persistent_logon_guard_def registry_ready_ok)
next
  fix n s s' t
  assume "g_reserve persistent_logon_guard n s = (s', Inr t)"
  then show "registry_abs s = Some \<lparr>generation = n, guard_phase = Ready\<rparr> \<and>
      registry_abs s' = Some \<lparr>generation = token_generation t, guard_phase = Submitted\<rparr> \<and>
      n < token_generation t"
    by (auto simp: persistent_logon_guard_def dest!: with_registry_Inr [OF _ reserve_wf] reserve_Inr)
next
  fix n s s' e
  assume "g_reserve persistent_logon_guard n s = (s', Inl e)"
  then show "registry_abs s' = registry_abs s \<or>
      registry_abs s = Some \<lparr>generation = n, guard_phase = Ready\<rparr> \<and>
      (\<exists>k. n < k \<and> registry_abs s' = Some \<lparr>generation = k, guard_phase = Submitted\<rparr>)"
    by (auto simp: persistent_logon_guard_def dest!: with_registry_Inl [OF _ reserve_wf] reserve_Inr)
next
  fix t r s s' u
  assume "g_complete persistent_logon_guard t r s = (s', Inr u)"
  then show "registry_abs s = Some \<lparr>generation = token_generation t, guard_phase = Submitted\<rparr> \<and>
      registry_abs s' = Some (after_result (token_generation t) r)"
    by (auto simp: persistent_logon_guard_def dest!: with_registry_Inr [OF _ complete_wf] complete_Inr)
next
  fix t r s s' e
  assume "g_complete persistent_logon_guard t r s = (s', Inl e)"
  then show "registry_abs s' = registry_abs s \<or>
      registry_abs s = Some \<lparr>generation = token_generation t, guard_phase = Submitted\<rparr> \<and>
      registry_abs s' = Some (after_result (token_generation t) r)"
    by (auto simp: persistent_logon_guard_def dest!: with_registry_Inl [OF _ complete_wf] complete_Inr)
next
  fix t s
  show "g_cancel_unsubmitted persistent_logon_guard t s =
      g_complete persistent_logon_guard t no_error_result s"
    by (simp add: persistent_logon_guard_def)
next
  fix s s' u
  assume "g_credentials_updated persistent_logon_guard s = (s', Inr u)"
  then show "\<exists>b k. registry_abs s = Some b \<and> generation b < k \<and>
      registry_abs s' = Some \<lparr>generation = k, guard_phase = Ready\<rparr>"
    by (fastforce simp: persistent_logon_guard_def dest!: with_registry_Inr [OF _ updated_wf] updated_Inr)
next
  fix s s' e
  assume "g_credentials_updated persistent_logon_guard s = (s', Inl e)"
  then show "registry_abs s' = registry_abs s \<or>
      (\<exists>b k. registry_abs s = Some b \<and> generation b < k \<and>
        registry_abs s' = Some \<lparr>generation = k, guard_phase = Ready\<rparr>)"
    by (fastforce simp: persistent_logon_guard_def dest!: with_registry_Inl [OF _ updated_wf] updated_Inr)
qed

section \<open>Properties of the guard\<close>

lemma decode_guard_wf: "decode_guard bytes = Inr s \<Longrightarrow> guard_wf s"
  by (auto simp: decode_guard_def Let_def guard_wf_def split: if_splits)

definition all_calls_succeed :: registry_calls where
  "all_calls_succeed =
     \<lparr>mutex_ok = True, create_ok = True, query_ok = True, set_ok = True, flush_ok = True\<rparr>"

definition lockout_result :: windows_logon_result where
  "lockout_result = \<lparr>status = 0xC0000234, substatus = 0\<rparr>"

text \<open>C9: once Windows has rejected a password, the guard in the registry stays rejected and gives
  out no further permission to submit, whatever the calls that follow and whichever of the
  Windows calls behind them fail, as long as the credentials are not updated.\<close>

theorem rejection_latched:
  assumes "registry_abs g = Some b" and "guard_phase b = Rejected res" and "CallUpdated \<notin> set cs"
  shows "registry_abs (fst (guard_run persistent_logon_guard cs g)) = Some b \<and>
    tokens_issued (snd (guard_run persistent_logon_guard cs g)) = []"
  using assms by (rule persistent.rejected_run)

definition rejected_registry :: registry where
  "rejected_registry =
     \<lparr>stored = Some (reg_binary, encode_guard \<lparr>generation = 7, guard_phase = Rejected lockout_result\<rparr>),
      outcomes = (\<lambda>_. all_calls_succeed)\<rparr>"

lemma rejected_registry_abs:
  "registry_abs rejected_registry = Some \<lparr>generation = 7, guard_phase = Rejected lockout_result\<rparr>"
  by (simp add: registry_abs_def rejected_registry_def stored_abs_encode guard_wf_def
      lockout_result_def succeeded_def)

theorem rejection_latched_witness:
  "tokens_issued (snd (guard_run persistent_logon_guard
     [CallReady, CallReserve 7, CallCancel (SubmissionToken 7), CallReserve 8] rejected_registry)) = []"
  using rejection_latched [OF rejected_registry_abs, of lockout_result
      "[CallReady, CallReserve 7, CallCancel (SubmissionToken 7), CallReserve 8]"]
  by simp

text \<open>While a submission waits for its result no other permission is given out: only the
  completion or cancellation of that very token, or an update of the credentials, ends it.\<close>

theorem submission_exclusive:
  assumes "registry_abs g = Some \<lparr>generation = n, guard_phase = Submitted\<rparr>"
    and "\<forall>c \<in> set cs. \<not> settles n c"
  shows "registry_abs (fst (guard_run persistent_logon_guard cs g)) =
      Some \<lparr>generation = n, guard_phase = Submitted\<rparr> \<and>
    tokens_issued (snd (guard_run persistent_logon_guard cs g)) = []"
  using persistent.blocked_run [OF assms(1)] assms(2) by simp

definition submitted_registry :: registry where
  "submitted_registry =
     \<lparr>stored = Some (reg_binary, encode_guard \<lparr>generation = 4, guard_phase = Submitted\<rparr>),
      outcomes = (\<lambda>_. all_calls_succeed)\<rparr>"

lemma submitted_registry_abs:
  "registry_abs submitted_registry = Some \<lparr>generation = 4, guard_phase = Submitted\<rparr>"
  by (simp add: registry_abs_def submitted_registry_def stored_abs_encode guard_wf_def)

theorem submission_exclusive_witness:
  "tokens_issued (snd (guard_run persistent_logon_guard
     [CallReserve 4, CallComplete (SubmissionToken 3) no_error_result, CallReserve 4]
     submitted_registry)) = []"
  using submission_exclusive [OF submitted_registry_abs,
      of "[CallReserve 4, CallComplete (SubmissionToken 3) no_error_result, CallReserve 4]"]
  by simp

text \<open>The tokens of any run of calls are strictly increasing, and each is newer than the
  stored generation at the start: no token is ever given out twice, and a token of an earlier
  attempt can never settle a later one.\<close>

theorem tokens_strictly_increase:
  assumes "registry_abs g = Some b"
  shows "sorted_wrt (<) (tokens_issued (snd (guard_run persistent_logon_guard cs g))) \<and>
    (\<forall>k \<in> set (tokens_issued (snd (guard_run persistent_logon_guard cs g))). generation b < k)"
  using persistent.tokens_sorted [OF assms] persistent.tokens_above [OF assms] by blast

theorem tokens_strictly_increase_witness:
  "sorted_wrt (<) (tokens_issued (snd (guard_run persistent_logon_guard
     [CallCancel (SubmissionToken 4), CallReserve 4, CallUpdated, CallReserve 6]
     submitted_registry)))"
  using tokens_strictly_increase [OF submitted_registry_abs] by blast

text \<open>The 24-byte record and the guard state determine each other: a record decodes to a
  state exactly when it is the encoding of that state and the state is one the guard can be in.\<close>

theorem guard_record_bijection:
  assumes "length bytes = record_len"
  shows "decode_guard bytes = Inr s \<longleftrightarrow> guard_wf s \<and> encode_guard s = bytes"
  using decode_guard_wf [of bytes s] encode_decode_guard [OF assms, of s] decode_encode_guard [of s]
  by blast

theorem guard_record_bijection_witness:
  "decode_guard (encode_guard \<lparr>generation = 42, guard_phase = Rejected lockout_result\<rparr>) =
     Inr \<lparr>generation = 42, guard_phase = Rejected lockout_result\<rparr>"
  using guard_record_bijection [of "encode_guard \<lparr>generation = 42, guard_phase = Rejected lockout_result\<rparr>"
      "\<lparr>generation = 42, guard_phase = Rejected lockout_result\<rparr>"]
  by (simp add: length_encode_guard guard_wf_def lockout_result_def succeeded_def)

text \<open>An unreadable record (wrong type, length, version or phase) closes the guard: no
  sequence of calls gives out a token or makes the record readable again.\<close>

theorem corrupt_record_fails_closed:
  assumes "registry_abs g = None"
  shows "registry_abs (fst (guard_run persistent_logon_guard cs g)) = None \<and>
    tokens_issued (snd (guard_run persistent_logon_guard cs g)) = []"
  using assms by (rule persistent.unreadable_run)

theorem corrupt_record_fails_closed_witness:
  "tokens_issued (snd (guard_run persistent_logon_guard [CallReady, CallReserve 0, CallUpdated]
     \<lparr>stored = Some (reg_binary, [1, 0, 0, 0]), outcomes = (\<lambda>_. all_calls_succeed)\<rparr>)) = []"
proof -
  have "registry_abs \<lparr>stored = Some (reg_binary, [1, 0, 0, 0]),
      outcomes = (\<lambda>_. all_calls_succeed)\<rparr> = None"
    by (simp add: registry_abs_def stored_abs_def record_len_def)
  then show ?thesis by (rule corrupt_record_fails_closed [THEN conjunct2])
qed

end
