(* ===== verification/Provider_State.thy ===== *)
theory Provider_State
  imports Logon_Guard Protocol
begin

text \<open>
  Crate \<open>windows_provider\<close>, \<open>src/provider_state.rs\<close>: what one instance of the credential provider
  keeps between the calls of Windows and of its worker threads, and the operations on it. The
  mutex is a poisoned flag (a poisoned mutex makes every operation do nothing); the guard shared
  with the other instances is a parameter \<open>G\<close> with its state beside the instance's own; the
  calls of \<open>CredentialsChanged\<close> on the event sink are logged. Time is an argument of the
  operations that read the clock, the outcome of \<open>AgileReference::new\<close> of \<open>set_events\<close>.
\<close>

section \<open>Data\<close>

datatype provider_tile_visibility = VisibleBeforeCredentialReady | HiddenUntilCredentialReady

record credential_count_plan =
  credential_count :: u32
  default_credential_index :: u32
  auto_logon_with_default :: bool

datatype wake_request_block_reason =
    CredentialAlreadyReady
  | WakeAlreadyRunning
  | RetryCooldownActive
  | WindowsSubmissionFinished
  | BlockSuppressed logon_block \<comment> \<open>\<open>AutomaticLogonSuppressed(LogonBlock)\<close>\<close>

datatype wake_request_start =
    WakeStarted session_id u64
  | WakeBlocked wake_request_block_reason

datatype provider_wake_failure =
    FailureAuthFailed auth_failure_reason
  | FailureRequestRejected protocol_error
  | FailureTransportUnavailable protocol_error

datatype provider_unlock_phase =
    ProviderLoaded
  | WakeRequested (attempt_number: u32) (attempt_limit: u32)
  | PhaseCredentialMaterialReady \<comment> \<open>\<open>CredentialMaterialReady\<close>\<close>
  | PhaseAwaitingWindowsResult \<comment> \<open>\<open>AwaitingWindowsResult\<close>\<close>
  | AutomaticLogonSuppressed logon_block
  | WakeFailed provider_wake_failure u32 u32 bool
  | Completed

record credential_material =
  domain :: string
  username :: string
  password :: string

text \<open>\<open>broker_client::ProviderWakeOutcome\<close>.\<close>

datatype provider_wake_outcome =
    OutcomeCredentialMaterialReady session_id credential_material
  | OutcomeAuthFailed session_id auth_failure_reason
  | OutcomeRequestRejected session_id protocol_error

record provider_inner =
  usage_scenario :: i32
  tile_visibility :: provider_tile_visibility
  events :: "nat option"
  advise_context :: u64
  phase :: provider_unlock_phase
  material :: "credential_material option"
  wake_retry_allowed_at_unix_ms :: i64
  wake_request_id :: u64
  credential_generation :: "u64 option"
  submission :: "submission_token option"

record 'g provider =
  inner_poisoned :: bool
  inner :: provider_inner
  logon_guard :: 'g
  notified :: "(nat \<times> u64) list"

definition cpus_invalid :: i32 where "cpus_invalid = 0"

definition credential_provider_no_default :: u32 where
  "credential_provider_no_default = 0xFFFFFFFF"

definition wake_retry_cooldown_ms :: i64 where "wake_retry_cooldown_ms = 3000"

definition new_inner :: "provider_tile_visibility \<Rightarrow> provider_inner" where
  "new_inner visibility =
     \<lparr>usage_scenario = cpus_invalid, tile_visibility = visibility, events = None,
      advise_context = 0, phase = ProviderLoaded, material = None,
      wake_retry_allowed_at_unix_ms = 0, wake_request_id = 0, credential_generation = None,
      submission = None\<rparr>"

definition with_guard :: "provider_tile_visibility \<Rightarrow> 'g \<Rightarrow> 'g provider" where
  "with_guard visibility g =
     \<lparr>inner_poisoned = False, inner = new_inner visibility, logon_guard = g, notified = []\<rparr>"

section \<open>Operations\<close>

definition notify_credentials_changed :: "'g provider \<Rightarrow> 'g provider" where
  "notify_credentials_changed p =
     (if inner_poisoned p then p
      else case events (inner p) of
             None \<Rightarrow> p
           | Some sink \<Rightarrow> p\<lparr>notified := notified p @ [(sink, advise_context (inner p))]\<rparr>)"

definition set_usage_scenario :: "i32 \<Rightarrow> 'g provider \<Rightarrow> 'g provider" where
  "set_usage_scenario cpus p =
     (if inner_poisoned p then p else p\<lparr>inner := (inner p)\<lparr>usage_scenario := cpus\<rparr>\<rparr>)"

fun withdrawn_phase :: "provider_unlock_phase \<Rightarrow> provider_unlock_phase" where
  "withdrawn_phase (WakeRequested _ _) = ProviderLoaded"
| "withdrawn_phase (WakeFailed _ _ _ _) = ProviderLoaded"
| "withdrawn_phase PhaseCredentialMaterialReady = ProviderLoaded"
| "withdrawn_phase ph = ph"

fun submission_finished :: "provider_unlock_phase \<Rightarrow> bool" where
  "submission_finished Completed = True"
| "submission_finished (AutomaticLogonSuppressed _) = True"
| "submission_finished _ = False"

definition set_events ::
  "'g guard_ops \<Rightarrow> nat option \<Rightarrow> bool \<Rightarrow> u64 \<Rightarrow> 'g provider \<Rightarrow> 'g provider" where
  "set_events G new_events agile_ok context p =
     (if inner_poisoned p then p
      else
        let has_new_events = new_events \<noteq> None;
            i = inner p;
            (g, i1) =
              (if \<not> has_new_events then
                 (logon_guard p,
                  i\<lparr>wake_request_id := sat_inc (wake_request_id i), credential_generation := None,
                    material := None, phase := withdrawn_phase (phase i)\<rparr>)
               else if events i = None \<and> submission_finished (phase i) then
                 (case g_ready G (logon_guard p) of
                    (g, Inr _) \<Rightarrow> (g, i\<lparr>phase := ProviderLoaded\<rparr>)
                  | (g, Inl _) \<Rightarrow> (g, i))
               else (logon_guard p, i));
            p1 = p\<lparr>logon_guard := g,
                   inner := i1\<lparr>events := (if agile_ok then new_events else None),
                                advise_context := context\<rparr>\<rparr>
        in if has_new_events \<and> material i1 \<noteq> None then notify_credentials_changed p1 else p1)"

definition get_usage_scenario :: "'g provider \<Rightarrow> i32" where
  "get_usage_scenario p = (if inner_poisoned p then cpus_invalid else usage_scenario (inner p))"

definition has_events_sink :: "'g provider \<Rightarrow> bool" where
  "has_events_sink p \<longleftrightarrow> \<not> inner_poisoned p \<and> events (inner p) \<noteq> None"

definition take_credential_for_submission ::
  "'g guard_ops \<Rightarrow> 'g provider \<Rightarrow> 'g provider \<times> credential_material option" where
  "take_credential_for_submission G p =
     (if inner_poisoned p \<or> phase (inner p) \<noteq> PhaseCredentialMaterialReady then (p, None)
      else case material (inner p) of
             None \<Rightarrow> (p, None)
           | Some m \<Rightarrow>
               (let i = (inner p)\<lparr>material := None\<rparr>
                in case credential_generation i of
                     None \<Rightarrow> (p\<lparr>inner := i\<rparr>, None)
                   | Some gen \<Rightarrow>
                       (case g_reserve G gen (logon_guard p) of
                          (g, Inr token) \<Rightarrow>
                            (p\<lparr>logon_guard := g,
                               inner := i\<lparr>submission := Some token,
                                          phase := PhaseAwaitingWindowsResult\<rparr>\<rparr>,
                             Some m)
                        | (g, Inl reason) \<Rightarrow>
                            (p\<lparr>logon_guard := g,
                               inner := i\<lparr>phase := AutomaticLogonSuppressed reason\<rparr>\<rparr>, None))))"

definition cancel_unsubmitted_credential :: "'g guard_ops \<Rightarrow> 'g provider \<Rightarrow> 'g provider" where
  "cancel_unsubmitted_credential G p =
     (if inner_poisoned p then p
      else
        let i = (inner p)\<lparr>submission := None, phase := Completed\<rparr>
        in case submission (inner p) of
             None \<Rightarrow> p\<lparr>inner := i\<rparr>
           | Some token \<Rightarrow>
               p\<lparr>logon_guard := fst (g_cancel_unsubmitted G token (logon_guard p)), inner := i\<rparr>)"

definition credential_count_plan_of :: "'g provider \<Rightarrow> credential_count_plan" where
  "credential_count_plan_of p =
     (if inner_poisoned p then
        \<lparr>credential_count = 0, default_credential_index = credential_provider_no_default,
         auto_logon_with_default = False\<rparr>
      else if material (inner p) \<noteq> None then
        \<lparr>credential_count = 1, default_credential_index = 0, auto_logon_with_default = True\<rparr>
      else if tile_visibility (inner p) = HiddenUntilCredentialReady then
        \<lparr>credential_count = 0, default_credential_index = credential_provider_no_default,
         auto_logon_with_default = False\<rparr>
      else
        \<lparr>credential_count = 1, default_credential_index = credential_provider_no_default,
         auto_logon_with_default = False\<rparr>)"

fun phase_message :: "provider_unlock_phase \<Rightarrow> string" where
  "phase_message ProviderLoaded = ''Select WinFaceUnlock to try face sign-in''"
| "phase_message (WakeRequested number limit) =
     ''Local face authentication is running ('' @ decimal (unat number) @ ''/'' @
       decimal (unat limit) @ '')''"
| "phase_message PhaseCredentialMaterialReady = ''Face authentication credential is ready''"
| "phase_message PhaseAwaitingWindowsResult =
     ''Waiting for Windows sign-in result; automatic resubmission is paused''"
| "phase_message (AutomaticLogonSuppressed _) =
     ''Automatic face sign-in is paused. Use Windows PIN/password, then save your Windows credential again in WinFaceUnlock''"
| "phase_message (WakeFailed (FailureAuthFailed _) number limit True) =
     ''Face authentication failed. Retrying automatically ('' @ decimal (unat number) @ ''/'' @
       decimal (unat limit) @ '')''"
| "phase_message (WakeFailed (FailureAuthFailed _) number limit False) =
     ''Face authentication failed. Use PIN or password fallback''"
| "phase_message (WakeFailed (FailureRequestRejected _) number limit pending) =
     ''Face sign-in request was rejected. Use PIN or password fallback''"
| "phase_message (WakeFailed (FailureTransportUnavailable _) number limit pending) =
     ''Face service is unavailable. Use PIN or password fallback''"
| "phase_message Completed = ''Face authentication completed''"

definition credential_status_message :: "'g provider \<Rightarrow> string" where
  "credential_status_message p =
     (if inner_poisoned p then ''Select WinFaceUnlock to try face sign-in''
      else phase_message (phase (inner p)))"

definition session_id_for_current_process :: session_id where
  "session_id_for_current_process = SessionId ''credential-provider-logon-auto-wake''"

text \<open>The phases in which no wake request may start or publish.\<close>

fun submission_phase :: "provider_unlock_phase \<Rightarrow> bool" where
  "submission_phase PhaseAwaitingWindowsResult = True"
| "submission_phase Completed = True"
| "submission_phase (AutomaticLogonSuppressed _) = True"
| "submission_phase _ = False"

fun is_wake_requested :: "provider_unlock_phase \<Rightarrow> bool" where
  "is_wake_requested (WakeRequested _ _) = True"
| "is_wake_requested _ = False"

fun is_wake_failed :: "provider_unlock_phase \<Rightarrow> bool" where
  "is_wake_failed (WakeFailed _ _ _ _) = True"
| "is_wake_failed _ = False"

definition begin_wake_request ::
  "'g guard_ops \<Rightarrow> i64 \<Rightarrow> u32 \<Rightarrow> 'g provider \<Rightarrow> 'g provider \<times> wake_request_start" where
  "begin_wake_request G now_unix_ms limit p =
     (if inner_poisoned p then (p, WakeBlocked WakeAlreadyRunning)
      else if submission_phase (phase (inner p)) then (p, WakeBlocked WindowsSubmissionFinished)
      else case g_ready G (logon_guard p) of
             (g, Inl reason) \<Rightarrow>
               (p\<lparr>logon_guard := g, inner := (inner p)\<lparr>phase := AutomaticLogonSuppressed reason\<rparr>\<rparr>,
                WakeBlocked (BlockSuppressed reason))
           | (g, Inr gen) \<Rightarrow>
               (let p1 = p\<lparr>logon_guard := g\<rparr>; i = inner p
                in if material i \<noteq> None then (p1, WakeBlocked CredentialAlreadyReady)
                   else if is_wake_requested (phase i) then (p1, WakeBlocked WakeAlreadyRunning)
                   else if is_wake_failed (phase i) \<and> now_unix_ms < wake_retry_allowed_at_unix_ms i
                     then (p1, WakeBlocked RetryCooldownActive)
                   else
                     let i1 = i\<lparr>phase := WakeRequested 1 limit\<rparr>
                     in case checked_inc (wake_request_id i) of
                          None \<Rightarrow> (p1\<lparr>inner := i1\<rparr>, WakeBlocked WindowsSubmissionFinished)
                        | Some request_id \<Rightarrow>
                            (p1\<lparr>inner := i1\<lparr>wake_request_id := request_id,
                                             credential_generation := Some gen\<rparr>\<rparr>,
                             WakeStarted session_id_for_current_process request_id)))"

text \<open>\<open>can_apply_wake\<close> asks the guard last, and only when the rest holds.\<close>

definition can_apply_wake :: "'g guard_ops \<Rightarrow> u64 \<Rightarrow> 'g provider \<Rightarrow> 'g provider \<times> bool" where
  "can_apply_wake G request_id p =
     (if wake_request_id (inner p) \<noteq> request_id \<or> submission_phase (phase (inner p)) then (p, False)
      else case credential_generation (inner p) of
             None \<Rightarrow> (p, False)
           | Some gen \<Rightarrow>
               (case g_ready G (logon_guard p) of (g, r) \<Rightarrow> (p\<lparr>logon_guard := g\<rparr>, r = Inr gen)))"

definition is_wake_request_current :: "'g guard_ops \<Rightarrow> u64 \<Rightarrow> 'g provider \<Rightarrow> 'g provider \<times> bool" where
  "is_wake_request_current G request_id p =
     (if inner_poisoned p then (p, False) else can_apply_wake G request_id p)"

definition mark_automatic_retry_started ::
  "'g guard_ops \<Rightarrow> u64 \<Rightarrow> u32 \<Rightarrow> u32 \<Rightarrow> 'g provider \<Rightarrow> 'g provider \<times> bool" where
  "mark_automatic_retry_started G request_id number limit p =
     (if inner_poisoned p then (p, False)
      else case can_apply_wake G request_id p of
             (p1, False) \<Rightarrow> (p1, False)
           | (p1, True) \<Rightarrow>
               (notify_credentials_changed
                  (p1\<lparr>inner := (inner p1)\<lparr>phase := WakeRequested number limit\<rparr>\<rparr>), True))"

definition record_wake_failure_locked :: "i64 \<Rightarrow> provider_inner \<Rightarrow> provider_inner" where
  "record_wake_failure_locked now_unix_ms i =
     i\<lparr>wake_retry_allowed_at_unix_ms := i64_add now_unix_ms wake_retry_cooldown_ms\<rparr>"

definition record_credential_material_ready_locked ::
  "credential_material \<Rightarrow> provider_inner \<Rightarrow> provider_inner" where
  "record_credential_material_ready_locked m i =
     i\<lparr>phase := PhaseCredentialMaterialReady, material := Some m,
       wake_retry_allowed_at_unix_ms := 0\<rparr>"

fun outcome_inner ::
  "i64 \<Rightarrow> provider_wake_outcome \<Rightarrow> u32 \<Rightarrow> u32 \<Rightarrow> bool \<Rightarrow> provider_inner \<Rightarrow> provider_inner" where
  "outcome_inner now (OutcomeCredentialMaterialReady sid m) number limit pending i =
     record_credential_material_ready_locked m i"
| "outcome_inner now (OutcomeAuthFailed sid reason) number limit pending i =
     record_wake_failure_locked now
       (i\<lparr>phase := WakeFailed (FailureAuthFailed reason) number limit pending\<rparr>)"
| "outcome_inner now (OutcomeRequestRejected sid err) number limit pending i =
     record_wake_failure_locked now
       (i\<lparr>phase := WakeFailed (FailureRequestRejected err) number limit False\<rparr>)"

definition apply_wake_outcome ::
  "'g guard_ops \<Rightarrow> i64 \<Rightarrow> u64 \<Rightarrow> provider_wake_outcome \<Rightarrow> u32 \<Rightarrow> u32 \<Rightarrow> bool \<Rightarrow>
     'g provider \<Rightarrow> 'g provider" where
  "apply_wake_outcome G now request_id outcome number limit pending p =
     (if inner_poisoned p then p
      else case can_apply_wake G request_id p of
             (p1, False) \<Rightarrow> p1
           | (p1, True) \<Rightarrow>
               notify_credentials_changed
                 (p1\<lparr>inner := outcome_inner now outcome number limit pending (inner p1)\<rparr>))"

definition apply_wake_transport_error ::
  "'g guard_ops \<Rightarrow> i64 \<Rightarrow> u64 \<Rightarrow> protocol_error \<Rightarrow> u32 \<Rightarrow> u32 \<Rightarrow> 'g provider \<Rightarrow> 'g provider" where
  "apply_wake_transport_error G now request_id err number limit p =
     (if inner_poisoned p then p
      else case can_apply_wake G request_id p of
             (p1, False) \<Rightarrow> p1
           | (p1, True) \<Rightarrow>
               notify_credentials_changed
                 (p1\<lparr>inner := record_wake_failure_locked now
                    ((inner p1)\<lparr>phase :=
                       WakeFailed (FailureTransportUnavailable err) number limit False\<rparr>)\<rparr>))"

definition mark_report_result_received ::
  "'g guard_ops \<Rightarrow> windows_logon_result \<Rightarrow> 'g provider \<Rightarrow> 'g provider" where
  "mark_report_result_received G result p =
     (if inner_poisoned p then p
      else case submission (inner p) of
             None \<Rightarrow> p
           | Some token \<Rightarrow>
               (case g_complete G token result (logon_guard p) of
                  (g, saved) \<Rightarrow>
                    p\<lparr>logon_guard := g,
                      inner := (inner p)
                        \<lparr>submission := None,
                         phase := (case saved of
                                     Inr _ \<Rightarrow>
                                       if succeeded result then Completed
                                       else AutomaticLogonSuppressed (WindowsRejected result)
                                   | Inl reason \<Rightarrow> AutomaticLogonSuppressed reason),
                         material := None, credential_generation := None\<rparr>\<rparr>))"

end
