(* ===== verification/Wake_Worker.thy ===== *)
theory Wake_Worker
  imports Provider_State Simulated_Auth
begin

text \<open>
  Crate \<open>windows_provider\<close>, the worker thread of \<open>src/provider.rs\<close>
  (\<open>request_wake_in_background\<close> and what it calls) and the client of the service it uses
  (\<open>src/broker_client.rs\<close>). What happens beside the worker, that is other threads of the provider,
  the pipe and the service behind it, the user's input, is the world \<open>'w\<close>: the operations the worker
  performs on it are the record \<open>worker_ops\<close>, and may change it in any way. The worker records
  what it asked of the provider's state in a trace. The loops that need not end take fuel: \<open>None\<close>
  is a worker that is still running.
\<close>

section \<open>The client of the service\<close>

text \<open>\<open>CredentialMaterialSecret\<close> and the check of its protection: DPAPI is the argument
  \<open>dpapi_unprotect\<close>, the decoding of the password \<open>from_utf8\<close>.\<close>

definition unprotect_credential_material ::
  "(u8 list \<Rightarrow> protocol_error + u8 list) \<Rightarrow> (u8 list \<Rightarrow> string option) \<Rightarrow>
     protected_credential_material \<Rightarrow> protocol_error + credential_material" where
  "unprotect_credential_material dpapi_unprotect from_utf8 m =
     (if protection m \<noteq> DpapiLocalMachineV1 then Inl InvalidMessage
      else rbind (dpapi_unprotect (protected_password m)) (\<lambda>secret.
             rbind (ok_or InvalidMessage (from_utf8 secret)) (\<lambda>pw.
               Inr \<lparr>domain = pcm_domain m, username = pcm_username m, password = pw\<rparr>)))"

definition auth_result_poll_attempts :: nat where
  "auth_result_poll_attempts = 80"

text \<open>\<open>ask\<close> is one connection to the pipe with one request; its error is the transport's.\<close>

type_synonym 'w pipe_request = "service_request \<Rightarrow> 'w \<Rightarrow> 'w \<times> (protocol_error + service_event)"

fun wait_for_auth_result ::
  "'w pipe_request \<Rightarrow> nat \<Rightarrow> session_id \<Rightarrow> 'w \<Rightarrow>
     'w \<times> (protocol_error + (auth_failure_reason + auth_grant))" where
  "wait_for_auth_result ask 0 sid w = (w, Inl TransportUnavailable)"
| "wait_for_auth_result ask (Suc n) sid w =
     (case ask (FetchAuthResult sid) w of
        (w1, Inl e) \<Rightarrow> (w1, Inl e)
      | (w1, Inr ev) \<Rightarrow>
          (case ev of
             AuthSucceeded g \<Rightarrow> (w1, Inr (Inr g))
           | AuthStarted _ \<Rightarrow> wait_for_auth_result ask n sid w1
           | AuthFailed _ reason \<Rightarrow> (w1, Inr (Inl reason))
           | RequestRejected reason \<Rightarrow> (w1, Inl reason)
           | _ \<Rightarrow> (w1, Inl InvalidMessage)))"

text \<open>The second half of \<open>wake_and_fetch_credential_material\<close>: the credential for a grant.\<close>

definition fetch_for_grant ::
  "'w pipe_request \<Rightarrow> (protected_credential_material \<Rightarrow> protocol_error + credential_material) \<Rightarrow>
     auth_grant \<Rightarrow> 'w \<Rightarrow> 'w \<times> (protocol_error + provider_wake_outcome)" where
  "fetch_for_grant ask unprotect g w =
     (let sid = Protocol.session_id g
      in case ask (FetchCredentialMaterial sid (grant_id g) (nonce g)) w of
           (w1, Inl e) \<Rightarrow> (w1, Inl e)
         | (w1, Inr ev) \<Rightarrow>
             (w1, case ev of
                    CredentialMaterialReady _ m \<Rightarrow>
                      rbind (unprotect m) (\<lambda>c. Inr (OutcomeCredentialMaterialReady sid c))
                  | RequestRejected reason \<Rightarrow> Inr (OutcomeRequestRejected sid reason)
                  | _ \<Rightarrow> Inr (OutcomeRequestRejected sid InvalidMessage)))"

definition wake_and_fetch_credential_material ::
  "'w pipe_request \<Rightarrow> (protected_credential_material \<Rightarrow> protocol_error + credential_material) \<Rightarrow>
     auth_source \<Rightarrow> session_id \<Rightarrow> auth_trigger_source \<Rightarrow> 'w \<Rightarrow>
     'w \<times> (protocol_error + provider_wake_outcome)" where
  "wake_and_fetch_credential_material ask unprotect src sid trigger w =
     (case ask (WakeAuth sid src trigger) w of
        (w1, Inl e) \<Rightarrow> (w1, Inl e)
      | (w1, Inr ev) \<Rightarrow>
          (case ev of
             AuthSucceeded g \<Rightarrow> fetch_for_grant ask unprotect g w1
           | AuthStarted started_sid \<Rightarrow>
               (case wait_for_auth_result ask auth_result_poll_attempts started_sid w1 of
                  (w2, Inl e) \<Rightarrow> (w2, Inl e)
                | (w2, Inr (Inr g)) \<Rightarrow> fetch_for_grant ask unprotect g w2
                | (w2, Inr (Inl reason)) \<Rightarrow> (w2, Inr (OutcomeAuthFailed started_sid reason)))
           | AuthFailed _ reason \<Rightarrow> (w1, Inr (OutcomeAuthFailed sid reason))
           | RequestRejected reason \<Rightarrow> (w1, Inr (OutcomeRequestRejected sid reason))
           | _ \<Rightarrow> (w1, Inr (OutcomeRequestRejected sid InvalidMessage))))"

section \<open>The worker\<close>

datatype wake_start_policy = Immediate | WaitForUserInputAfterAdvise

datatype wake_attempt_policy = Finite u32 | WhileAdvised

definition automatic_wake_attempt_limit :: u32 where
  "automatic_wake_attempt_limit = 3"

definition background_silent_wake_attempt_limit :: u32 where
  "background_silent_wake_attempt_limit = - 1"

definition transport_wake_attempt_limit :: nat where
  "transport_wake_attempt_limit = 20"

record 'w worker_ops =
  w_last_input :: "'w \<Rightarrow> 'w \<times> u32 option"
  w_has_sink :: "'w \<Rightarrow> 'w \<times> bool"
  w_begin :: "u32 \<Rightarrow> 'w \<Rightarrow> 'w \<times> wake_request_start"
  w_current :: "u64 \<Rightarrow> 'w \<Rightarrow> 'w \<times> bool"
  w_mark_retry :: "u64 \<Rightarrow> u32 \<Rightarrow> u32 \<Rightarrow> 'w \<Rightarrow> 'w \<times> bool"
  w_broker :: "session_id \<Rightarrow> 'w \<Rightarrow> 'w \<times> (protocol_error + provider_wake_outcome)"
  w_apply_outcome :: "u64 \<Rightarrow> provider_wake_outcome \<Rightarrow> u32 \<Rightarrow> u32 \<Rightarrow> bool \<Rightarrow> 'w \<Rightarrow> 'w"
  w_apply_error :: "u64 \<Rightarrow> protocol_error \<Rightarrow> u32 \<Rightarrow> u32 \<Rightarrow> 'w \<Rightarrow> 'w"

datatype worker_event =
    BeganRequest u64
  | AskedService u64
  | PublishedOutcome u64 provider_wake_outcome u32 bool
  | PublishedError u64 protocol_error u32

definition configured_attempt_limit :: "wake_attempt_policy \<Rightarrow> u32" where
  "configured_attempt_limit policy =
     (case policy of Finite limit \<Rightarrow> limit | WhileAdvised \<Rightarrow> background_silent_wake_attempt_limit)"

text \<open>\<open>wait_for_user_input_after_advise\<close>: polls until the tick of the last input changes or the
  sink is gone; an input probe that is not available starts at once.\<close>

fun wait_for_input :: "'w worker_ops \<Rightarrow> nat \<Rightarrow> u32 \<Rightarrow> 'w \<Rightarrow> ('w \<times> bool) option" where
  "wait_for_input W 0 baseline w = None"
| "wait_for_input W (Suc fuel) baseline w =
     (case w_has_sink W w of
        (w1, False) \<Rightarrow> Some (w1, False)
      | (w1, True) \<Rightarrow>
          (case w_last_input W w1 of
             (w2, None) \<Rightarrow> Some (w2, True)
           | (w2, Some current) \<Rightarrow>
               if current \<noteq> baseline then Some (w2, True) else wait_for_input W fuel baseline w2))"

definition wait_for_wake_start_policy ::
  "'w worker_ops \<Rightarrow> nat \<Rightarrow> wake_start_policy \<Rightarrow> 'w \<Rightarrow> ('w \<times> bool) option" where
  "wait_for_wake_start_policy W fuel policy w =
     (case policy of
        Immediate \<Rightarrow> Some (w, True)
      | WaitForUserInputAfterAdvise \<Rightarrow>
          (case w_last_input W w of
             (w1, None) \<Rightarrow> Some (w1, True)
           | (w1, Some baseline) \<Rightarrow> wait_for_input W fuel baseline w1))"

text \<open>\<open>wake_and_fetch_with_transport_retry\<close>, with the number of attempts that are left.\<close>

fun transport_retry ::
  "'w worker_ops \<Rightarrow> nat \<Rightarrow> u64 \<Rightarrow> session_id \<Rightarrow> 'w \<Rightarrow>
     'w \<times> (protocol_error + provider_wake_outcome) \<times> worker_event list" where
  "transport_retry W 0 k sid w = (w, Inl TransportUnavailable, [])"
| "transport_retry W (Suc n) k sid w =
     (case w_current W k w of
        (w1, False) \<Rightarrow> (w1, Inl TransportUnavailable, [])
      | (w1, True) \<Rightarrow>
          (case w_broker W sid w1 of
             (w2, Inr outcome) \<Rightarrow> (w2, Inr outcome, [AskedService k])
           | (w2, Inl e) \<Rightarrow>
               if n > 0 then
                 (case transport_retry W n k sid w2 of (w3, r, tr) \<Rightarrow> (w3, r, AskedService k # tr))
               else (w2, Inl e, [AskedService k])))"

fun is_material :: "provider_wake_outcome \<Rightarrow> bool" where
  "is_material (OutcomeCredentialMaterialReady _ _) = True"
| "is_material _ = False"

fun is_auth_failed :: "provider_wake_outcome \<Rightarrow> bool" where
  "is_auth_failed (OutcomeAuthFailed _ _) = True"
| "is_auth_failed _ = False"

definition attempts_left :: "wake_attempt_policy \<Rightarrow> u32 \<Rightarrow> bool" where
  "attempts_left policy number =
     (case policy of Finite limit \<Rightarrow> number < limit | WhileAdvised \<Rightarrow> True)"

text \<open>The retry of an attempt that is not the first: \<open>False\<close> leaves the loop.\<close>

definition announce_attempt ::
  "'w worker_ops \<Rightarrow> u64 \<Rightarrow> u32 \<Rightarrow> u32 \<Rightarrow> 'w \<Rightarrow> 'w \<times> bool" where
  "announce_attempt W k number limit w =
     (if number > 1 then
        (case w_has_sink W w of
           (w1, False) \<Rightarrow> (w1, False)
         | (w1, True) \<Rightarrow> w_mark_retry W k number limit w1)
      else (w, True))"

text \<open>One turn of the \<open>while\<close> loop: \<open>Some auth_succeeded\<close> leaves the loop, \<open>None\<close> goes round.\<close>

definition wake_attempt ::
  "'w worker_ops \<Rightarrow> wake_attempt_policy \<Rightarrow> u64 \<Rightarrow> session_id \<Rightarrow> u32 \<Rightarrow> 'w \<Rightarrow>
     'w \<times> bool option \<times> worker_event list" where
  "wake_attempt W policy k sid number w =
     (let limit = configured_attempt_limit policy
      in if \<not> number \<le> limit then (w, Some False, [])
         else case w_has_sink W w of
           (w1, False) \<Rightarrow> (w1, Some False, [])
         | (w1, True) \<Rightarrow>
             (case announce_attempt W k number limit w1 of
                (w2, False) \<Rightarrow> (w2, Some False, [])
              | (w2, True) \<Rightarrow>
                  (case transport_retry W transport_wake_attempt_limit k sid w2 of
                     (w3, Inl e, tr) \<Rightarrow>
                       (w_apply_error W k e number limit w3, Some False,
                        tr @ [PublishedError k e number])
                   | (w3, Inr outcome, tr) \<Rightarrow>
                       (case (if is_auth_failed outcome then w_has_sink W w3 else (w3, False)) of
                          (w4, sink) \<Rightarrow>
                            (let pending = (sink \<and> attempts_left policy number)
                             in (w_apply_outcome W k outcome number limit pending w4,
                                 if pending then None else Some (is_material outcome),
                                 tr @ [PublishedOutcome k outcome number pending]))))))"

text \<open>The loop over the attempts of one request.\<close>

fun wake_attempts ::
  "'w worker_ops \<Rightarrow> wake_attempt_policy \<Rightarrow> nat \<Rightarrow> u64 \<Rightarrow> session_id \<Rightarrow> u32 \<Rightarrow> 'w \<Rightarrow>
     ('w \<times> bool \<times> worker_event list) option" where
  "wake_attempts W policy 0 k sid number w = None"
| "wake_attempts W policy (Suc fuel) k sid number w =
     (case wake_attempt W policy k sid number w of
        (w1, Some auth_ok, tr) \<Rightarrow> Some (w1, auth_ok, tr)
      | (w1, None, tr) \<Rightarrow>
          map_option (\<lambda>(w2, auth_ok, tr2). (w2, auth_ok, tr @ tr2))
            (wake_attempts W policy fuel k sid (sat_inc number) w1))"

text \<open>The whole worker: requests until one succeeds, the sink is gone or the request is no longer
  current; only the policy that waits for input begins another.\<close>

fun request_wake_in_background ::
  "'w worker_ops \<Rightarrow> wake_start_policy \<Rightarrow> wake_attempt_policy \<Rightarrow> nat \<Rightarrow> 'w \<Rightarrow>
     ('w \<times> worker_event list) option" where
  "request_wake_in_background W start policy 0 w = None"
| "request_wake_in_background W start policy (Suc fuel) w =
     (case wait_for_wake_start_policy W fuel start w of
        None \<Rightarrow> None
      | Some (w1, False) \<Rightarrow> Some (w1, [])
      | Some (w1, True) \<Rightarrow>
          (case w_begin W (configured_attempt_limit policy) w1 of
             (w2, WakeBlocked reason) \<Rightarrow> Some (w2, [])
           | (w2, WakeStarted sid k) \<Rightarrow>
               (case wake_attempts W policy fuel k sid 1 w2 of
                  None \<Rightarrow> None
                | Some (w3, auth_ok, tr) \<Rightarrow>
                    if auth_ok then Some (w3, BeganRequest k # tr)
                    else case w_has_sink W w3 of
                      (w4, False) \<Rightarrow> Some (w4, BeganRequest k # tr)
                    | (w4, True) \<Rightarrow>
                        (case w_current W k w4 of
                           (w5, False) \<Rightarrow> Some (w5, BeganRequest k # tr)
                         | (w5, True) \<Rightarrow>
                             if start \<noteq> WaitForUserInputAfterAdvise then Some (w5, BeganRequest k # tr)
                             else map_option (\<lambda>(w6, tr2). (w6, BeganRequest k # tr @ tr2))
                                    (request_wake_in_background W start policy fuel w5)))))"

section \<open>The host of the pipe\<close>

text \<open>\<open>win_service/src/named_pipe_host.rs\<close> answers a request the handler fails with
  \<open>RequestRejected\<close>; \<open>pipe_to\<close> is the pipe to a service that is reached at time \<open>t\<close>.\<close>

definition serve_request ::
  "'i issuer_ops \<Rightarrow> 'r resolver_ops \<Rightarrow> (nat \<Rightarrow> i64) \<Rightarrow> service_request \<Rightarrow> ('i, 'r) handler \<Rightarrow>
     ('i, 'r) handler \<times> service_event" where
  "serve_request I R clk req h =
     (case handle_request I R clk req h of
        (h1, Inr ev) \<Rightarrow> (h1, ev)
      | (h1, Inl reason) \<Rightarrow> (h1, RequestRejected reason))"

definition pipe_to ::
  "'i issuer_ops \<Rightarrow> 'r resolver_ops \<Rightarrow> i64 \<Rightarrow> ('i, 'r) handler pipe_request" where
  "pipe_to I R t req h = (case serve_request I R (\<lambda>_. t) req h of (h1, ev) \<Rightarrow> (h1, Inr ev))"

section \<open>Bounds and traces\<close>

text \<open>A pipe that counts the requests.\<close>

definition counted :: "'w pipe_request \<Rightarrow> ('w \<times> nat) pipe_request" where
  "counted ask req wn = (case ask req (fst wn) of (w1, r) \<Rightarrow> ((w1, snd wn + 1), r))"

lemma wait_for_auth_result_count:
  "snd (fst (wait_for_auth_result (counted ask) n sid wn)) \<le> snd wn + n"
proof (induction n arbitrary: wn)
  case 0
  show ?case by simp
next
  case (Suc n)
  obtain w1 r where r: "ask (FetchAuthResult sid) (fst wn) = (w1, r)" by fastforce
  show ?case
    using Suc [of "(w1, snd wn + 1)"] r
    by (auto simp: counted_def split: sum.splits service_event.splits)
qed

lemma fetch_for_grant_count:
  "snd (fst (fetch_for_grant (counted ask) unprotect g wn)) = snd wn + 1"
  by (auto simp: fetch_for_grant_def counted_def Let_def split: prod.splits sum.splits)

fun asked :: "worker_event list \<Rightarrow> nat" where
  "asked [] = 0"
| "asked (AskedService k # tr) = Suc (asked tr)"
| "asked (_ # tr) = asked tr"

fun event_request :: "worker_event \<Rightarrow> u64" where
  "event_request (BeganRequest k) = k"
| "event_request (AskedService k) = k"
| "event_request (PublishedOutcome k _ _ _) = k"
| "event_request (PublishedError k _ _) = k"

fun publishes_material :: "worker_event \<Rightarrow> bool" where
  "publishes_material (PublishedOutcome k outcome number pending) = is_material outcome"
| "publishes_material _ = False"

lemma asked_append [simp]: "asked (xs @ ys) = asked xs + asked ys"
  by (induction xs rule: asked.induct) auto

lemma transport_retry_trace:
  "transport_retry W n k sid w = (w', r, tr) \<Longrightarrow>
     asked tr \<le> n \<and> set tr \<subseteq> {AskedService k}"
proof (induction n arbitrary: w w' r tr)
  case 0
  then show ?case by simp
next
  case (Suc n)
  then show ?case
    by (fastforce split: prod.splits bool.splits sum.splits if_splits)
qed

text \<open>Material is published by the last event of an attempt loop only; all its events are of the
  loop's request.\<close>

lemma is_material_not_failed: "is_auth_failed outcome \<Longrightarrow> \<not> is_material outcome"
  by (cases outcome) auto

lemma wake_attempt_cases [consumes 1, case_names left error outcome]:
  assumes "wake_attempt W policy k sid number w = (w', r, tr)"
  obtains "tr = []" "r = Some False"
  | w2 w3 e tr1 where
      "transport_retry W transport_wake_attempt_limit k sid w2 = (w3, Inl e, tr1)"
      "tr = tr1 @ [PublishedError k e number]" "r = Some False"
  | w2 w3 outcome tr1 pending where
      "transport_retry W transport_wake_attempt_limit k sid w2 = (w3, Inr outcome, tr1)"
      "tr = tr1 @ [PublishedOutcome k outcome number pending]"
      "r = (if pending then None else Some (is_material outcome))"
      "pending \<Longrightarrow> is_auth_failed outcome \<and> attempts_left policy number"
      "number \<le> configured_attempt_limit policy"
proof -
  let ?limit = "configured_attempt_limit policy"
  obtain w1 sink where sink: "w_has_sink W w = (w1, sink)" by fastforce
  obtain w2 going where going: "announce_attempt W k number ?limit w1 = (w2, going)" by fastforce
  obtain w3 res tr1 where res: "transport_retry W transport_wake_attempt_limit k sid w2 = (w3, res, tr1)"
    by (rule prod_cases3)
  show ?thesis
  proof (cases "number \<le> ?limit \<and> sink \<and> going")
    case False
    then show ?thesis
      using assms that(1) sink going
      by (cases sink; cases going) (auto simp: wake_attempt_def Let_def split: if_splits)
  next
    case True
    show ?thesis
    proof (cases res)
      case (Inl e)
      with True show ?thesis
        using assms that(2) sink going res by (auto simp: wake_attempt_def Let_def)
    next
      case (Inr outcome)
      obtain w4 sink2 where sink2: "(if is_auth_failed outcome then w_has_sink W w3 else (w3, False)) = (w4, sink2)"
        by fastforce
      have tr: "tr = tr1 @ [PublishedOutcome k outcome number (sink2 \<and> attempts_left policy number)]"
        and r: "r = (if sink2 \<and> attempts_left policy number then None else Some (is_material outcome))"
        using assms True sink going res Inr sink2 by (simp_all add: wake_attempt_def Let_def)
      show ?thesis
      proof (rule that(3) [OF res [unfolded Inr] tr r])
        show "is_auth_failed outcome \<and> attempts_left policy number" if "sink2 \<and> attempts_left policy number"
          using that sink2 by (auto split: if_splits)
        show "number \<le> ?limit" using True by simp
      qed
    qed
  qed
qed

lemma wake_attempt_trace:
  assumes "wake_attempt W policy k sid number w = (w', r, tr)"
  shows "\<forall>ev \<in> set tr. event_request ev = k" "asked tr \<le> transport_wake_attempt_limit"
    and "r = Some True \<Longrightarrow> \<exists>xs ev. tr = xs @ [ev] \<and> publishes_material ev \<and> (\<forall>e \<in> set xs. \<not> publishes_material e)"
    and "r \<noteq> Some True \<Longrightarrow> \<forall>e \<in> set tr. \<not> publishes_material e"
    and "r = None \<Longrightarrow> attempts_left policy number \<and> number \<le> configured_attempt_limit policy"
proof -
  have retry: "asked tr1 \<le> transport_wake_attempt_limit \<and> (\<forall>e \<in> set tr1. e = AskedService k)"
    if "transport_retry W transport_wake_attempt_limit k sid w2 = (w3, res, tr1)" for w2 w3 res tr1
    using transport_retry_trace [OF that] by auto
  show "\<forall>ev \<in> set tr. event_request ev = k" "asked tr \<le> transport_wake_attempt_limit"
    using assms by (cases rule: wake_attempt_cases; fastforce dest: retry)+
  show "\<exists>xs ev. tr = xs @ [ev] \<and> publishes_material ev \<and> (\<forall>e \<in> set xs. \<not> publishes_material e)"
    if "r = Some True"
    using assms that by (cases rule: wake_attempt_cases) (fastforce dest: retry split: if_splits)+
  show "\<forall>e \<in> set tr. \<not> publishes_material e" if "r \<noteq> Some True"
    using assms that
    by (cases rule: wake_attempt_cases)
      (fastforce dest: retry is_material_not_failed split: if_splits)+
  show "attempts_left policy number \<and> number \<le> configured_attempt_limit policy" if "r = None"
    using assms that by (cases rule: wake_attempt_cases) (auto split: if_splits)
qed

lemma wake_attempts_trace:
  "wake_attempts W policy fuel k sid number w = Some (w', ok, tr) \<Longrightarrow>
     (\<forall>ev \<in> set tr. event_request ev = k) \<and>
     (if ok then \<exists>xs ev. tr = xs @ [ev] \<and> publishes_material ev \<and> (\<forall>e \<in> set xs. \<not> publishes_material e)
      else \<forall>e \<in> set tr. \<not> publishes_material e)"
proof (induction fuel arbitrary: number w w' ok tr)
  case 0
  then show ?case by simp
next
  case (Suc fuel)
  obtain w1 r tr1 where one: "wake_attempt W policy k sid number w = (w1, r, tr1)"
    by (rule prod_cases3)
  note t = wake_attempt_trace [OF one]
  show ?case
  proof (cases r)
    case (Some b)
    then show ?thesis using Suc.prems one t by (cases b) auto
  next
    case None
    with Suc.prems one obtain tr2 where rest:
      "wake_attempts W policy fuel k sid (sat_inc number) w1 = Some (w', ok, tr2)" "tr = tr1 @ tr2"
      by auto
    note IH = Suc.IH [OF rest(1)]
    have quiet: "\<forall>e \<in> set tr1. \<not> publishes_material e" using t(4) None by simp
    show ?thesis
    proof (cases ok)
      case True
      with IH obtain xs ev where "tr2 = xs @ [ev]" "publishes_material ev"
        "\<forall>e \<in> set xs. \<not> publishes_material e" by auto
      then have "tr = (tr1 @ xs) @ [ev] \<and> publishes_material ev \<and>
          (\<forall>e \<in> set (tr1 @ xs). \<not> publishes_material e)"
        using quiet rest(2) by auto
      then show ?thesis using IH t(1) rest(2) True by auto
    next
      case False
      then show ?thesis using IH t(1) quiet rest(2) by auto
    qed
  qed
qed

text \<open>A finite policy ends: fuel for the attempts that are left is enough.\<close>

lemma wake_attempts_finite:
  "unat limit + 1 - unat number < fuel \<Longrightarrow>
     \<exists>w' ok tr. wake_attempts W (Finite limit) fuel k sid number w = Some (w', ok, tr) \<and>
       asked tr \<le> transport_wake_attempt_limit * (unat limit + 1 - unat number)"
proof (induction fuel arbitrary: number w)
  case 0
  then show ?case by simp
next
  case (Suc fuel)
  obtain w1 r tr1 where one: "wake_attempt W (Finite limit) k sid number w = (w1, r, tr1)"
    by (rule prod_cases3)
  note t = wake_attempt_trace [OF one]
  show ?case
  proof (cases "number \<le> limit")
    case False
    then have "wake_attempt W (Finite limit) k sid number w = (w, Some False, [])"
      by (simp add: wake_attempt_def configured_attempt_limit_def)
    then show ?thesis
      by (intro exI [of _ w] exI [of _ False] exI [of _ "[]"]) simp
  next
    case True
    then have le: "unat number \<le> unat limit" by (simp add: word_le_nat_alt)
    show ?thesis
    proof (cases r)
      case (Some b)
      have "1 \<le> unat limit + 1 - unat number" using le by simp
      then have "transport_wake_attempt_limit * 1 \<le>
          transport_wake_attempt_limit * (unat limit + 1 - unat number)"
        by (rule mult_le_mono2)
      then have "asked tr1 \<le> transport_wake_attempt_limit * (unat limit + 1 - unat number)"
        using t(2) by linarith
      then show ?thesis using one Some by simp
    next
      case None
      then have less: "number < limit" using t(5) by (simp add: attempts_left_def)
      then have "unat number < unat limit" by (simp add: word_less_nat_alt)
      moreover have "unat limit \<le> 2 ^ 32 - 1"
        using unat_max_word [where 'a = 32] word_n1_ge [of limit] by (simp add: word_le_nat_alt)
      ultimately have number: "unat (sat_inc number) = Suc (unat number)"
        by (simp add: unat_sat_inc)
      then have "unat limit + 1 - unat (sat_inc number) < fuel"
        using Suc.prems le by simp
      from Suc.IH [OF this, of w1] obtain w2 ok tr2 where
        rest: "wake_attempts W (Finite limit) fuel k sid (sat_inc number) w1 = Some (w2, ok, tr2)"
        "asked tr2 \<le> transport_wake_attempt_limit * (unat limit + 1 - unat (sat_inc number))"
        by blast
      have "unat limit + 1 - unat number = Suc (unat limit + 1 - unat (sat_inc number))"
        using number le by simp
      then show ?thesis using one rest t(2) None by simp
    qed
  qed
qed

text \<open>Every event belongs to the request begun last.\<close>

fun attributed :: "u64 option \<Rightarrow> worker_event list \<Rightarrow> bool" where
  "attributed c [] = True"
| "attributed c (BeganRequest k # tr) = attributed (Some k) tr"
| "attributed c (ev # tr) = (c = Some (event_request ev) \<and> attributed c tr)"

fun begins :: "worker_event \<Rightarrow> bool" where
  "begins (BeganRequest k) = True"
| "begins _ = False"

lemma attributed_append:
  "\<forall>e \<in> set tr. event_request e = k \<and> \<not> begins e \<Longrightarrow>
    attributed (Some k) (tr @ tr2) = attributed (Some k) tr2"
proof (induction tr)
  case (Cons ev tr)
  then show ?case by (cases ev) auto
qed simp

lemma wake_attempt_no_begin:
  "wake_attempt W policy k sid number w = (w', r, tr) \<Longrightarrow> \<forall>e \<in> set tr. \<not> begins e"
  by (erule wake_attempt_cases) (fastforce dest: transport_retry_trace)+

lemma wake_attempts_no_begin:
  "wake_attempts W policy fuel k sid number w = Some (w', ok, tr) \<Longrightarrow> \<forall>e \<in> set tr. \<not> begins e"
proof (induction fuel arbitrary: number w w' ok tr)
  case 0
  then show ?case by simp
next
  case (Suc fuel)
  obtain w1 r tr1 where one: "wake_attempt W policy k sid number w = (w1, r, tr1)"
    by (rule prod_cases3)
  show ?case
    using Suc.prems Suc.IH one wake_attempt_no_begin [OF one]
    by (cases r) fastforce+
qed

lemma worker_trace:
  "request_wake_in_background W start policy fuel w = Some (w', tr) \<Longrightarrow>
     attributed c tr \<and> (\<forall>e \<in> set (butlast tr). \<not> publishes_material e)"
proof (induction fuel arbitrary: w w' tr c)
  case 0
  then show ?case by simp
next
  case (Suc fuel)
  show ?case
  proof (cases "tr = []")
    case False
    with Suc.prems obtain k sid w2 w3 ok tr1 tr2 where
      loop: "wake_attempts W policy fuel k sid 1 w2 = Some (w3, ok, tr1)"
      and tr: "tr = BeganRequest k # tr1 @ tr2"
      and rest: "tr2 = [] \<or> (\<not> ok \<and> (\<exists>w4 w5. request_wake_in_background W start policy fuel w4 = Some (w5, tr2)))"
      by (force split: option.splits prod.splits bool.splits wake_request_start.splits if_splits)
    note t = wake_attempts_trace [OF loop] and nb = wake_attempts_no_begin [OF loop]
    have attr: "attributed (Some k) (tr1 @ tr2) = attributed (Some k) tr2"
      using t nb by (intro attributed_append) blast
    show ?thesis
    proof (cases "tr2 = []")
      case True
      have "\<forall>e \<in> set (butlast tr1). \<not> publishes_material e"
        using t by (cases ok) (auto dest: in_set_butlastD)
      then show ?thesis
        using attr tr True by (auto split: if_splits)
    next
      case nonempty: False
      with rest obtain w4 w5 where "\<not> ok"
        "request_wake_in_background W start policy fuel w4 = Some (w5, tr2)" by blast
      then have "attributed (Some k) tr2 \<and> (\<forall>e \<in> set (butlast tr2). \<not> publishes_material e)"
        and "\<forall>e \<in> set tr1. \<not> publishes_material e"
        using Suc.IH t by auto
      then show ?thesis
        using attr tr nonempty by (auto simp: butlast_append)
    qed
  qed simp
qed

lemma worker_ends:
  assumes "unat limit < fuel"
  shows "\<exists>w' tr. request_wake_in_background W Immediate (Finite limit) (Suc fuel) w = Some (w', tr) \<and>
    asked tr \<le> transport_wake_attempt_limit * unat limit"
proof -
  have loop: "\<exists>w' ok tr. wake_attempts W (Finite limit) fuel k sid 1 w2 = Some (w', ok, tr) \<and>
      asked tr \<le> transport_wake_attempt_limit * unat limit" for k sid w2
    using wake_attempts_finite [of limit 1 fuel W k sid w2] assms by simp
  obtain w2 st where st: "w_begin W (configured_attempt_limit (Finite limit)) w = (w2, st)" by fastforce
  show ?thesis
  proof (cases st)
    case (WakeBlocked reason)
    then show ?thesis using st by (simp add: wait_for_wake_start_policy_def)
  next
    case (WakeStarted sid k)
    from loop [of k sid w2] obtain w3 ok tr where
      "wake_attempts W (Finite limit) fuel k sid 1 w2 = Some (w3, ok, tr)"
      "asked tr \<le> transport_wake_attempt_limit * unat limit" by blast
    then show ?thesis
      using st WakeStarted
      by (auto simp: wait_for_wake_start_policy_def split: prod.splits bool.splits)
  qed
qed

end
