(* ===== verification/Wake_Bounds.thy ===== *)
theory Wake_Bounds
  imports Wake_Worker
begin

text \<open>
  How long a worker runs and what it costs: a bound on what it asks its environment for
  (\<open>metered_worker\<close>, of a worker whose requests to the service are counted), and that every worker
  ends when its sink is taken away (\<open>worker_ends_without_sink\<close>).
\<close>

section \<open>What a worker spends\<close>

text \<open>A meter that only the client of the service moves, by at most \<open>cost\<close> for a call.\<close>

locale metered_worker =
  fixes W :: "'w worker_ops" and spent :: "'w \<Rightarrow> nat" and cost :: nat
  assumes free: "spent (fst (w_last_input W w)) = spent w" "spent (fst (w_has_sink W w)) = spent w"
      "spent (fst (w_begin W limit w)) = spent w" "spent (fst (w_current W k w)) = spent w"
      "spent (fst (w_mark_retry W k number limit w)) = spent w"
      "spent (w_apply_outcome W k outcome number limit pending w) = spent w"
      "spent (w_apply_error W k e number limit w) = spent w"
    and paid: "spent (fst (w_broker W sid w)) \<le> spent w + cost"
begin

lemma free_call [dest]:
  "w_last_input W w = (w1, i) \<Longrightarrow> spent w1 = spent w"
  "w_has_sink W w = (w1, b) \<Longrightarrow> spent w1 = spent w"
  "w_begin W limit w = (w1, st) \<Longrightarrow> spent w1 = spent w"
  "w_current W k w = (w1, b) \<Longrightarrow> spent w1 = spent w"
  "w_mark_retry W k number limit w = (w1, b) \<Longrightarrow> spent w1 = spent w"
  using free by (metis fst_conv)+

lemma paid_call: "w_broker W sid w = (w1, r) \<Longrightarrow> spent w1 \<le> spent w + cost"
  using paid by (metis fst_conv)

lemma wait_for_input_spent: "wait_for_input W fuel baseline w = Some (w', b) \<Longrightarrow> spent w' = spent w"
proof (induction fuel arbitrary: w)
  case (Suc fuel)
  then show ?case by (fastforce split: prod.splits bool.splits option.splits if_splits)
qed simp

lemma start_spent: "wait_for_wake_start_policy W fuel start w = Some (w', b) \<Longrightarrow> spent w' = spent w"
  by (fastforce simp: wait_for_wake_start_policy_def dest: wait_for_input_spent
      split: wake_start_policy.splits prod.splits option.splits)

lemma transport_retry_spent:
  "transport_retry W n k sid w = (w', r, tr) \<Longrightarrow> spent w' \<le> spent w + cost * asked tr"
proof (induction n arbitrary: w w' r tr)
  case (Suc n)
  obtain w1 c where 1: "w_current W k w = (w1, c)" by fastforce
  obtain w2 a where 2: "w_broker W sid w1 = (w2, a)" by fastforce
  obtain w3 r3 tr3 where 3: "transport_retry W n k sid w2 = (w3, r3, tr3)" by (rule prod_cases3)
  have "spent w2 \<le> spent w + cost" using 1 paid_call [OF 2] by auto
  then show ?case
    using Suc.prems 1 2 3 Suc.IH [OF 3] by (auto split: bool.splits sum.splits if_splits)
qed simp

lemma announce_spent: "announce_attempt W k number limit w = (w', b) \<Longrightarrow> spent w' = spent w"
  by (fastforce simp: announce_attempt_def split: if_splits prod.splits bool.splits)

lemma wake_attempt_spent:
  assumes "wake_attempt W policy k sid number w = (w', r, tr)"
  shows "spent w' \<le> spent w + cost * asked tr"
proof -
  let ?limit = "configured_attempt_limit policy"
  obtain w1 sink where 1: "w_has_sink W w = (w1, sink)" by fastforce
  obtain w2 going where 2: "announce_attempt W k number ?limit w1 = (w2, going)" by fastforce
  obtain w3 res tr1 where 3: "transport_retry W transport_wake_attempt_limit k sid w2 = (w3, res, tr1)"
    by (rule prod_cases3)
  obtain w4 sink2 where 4: "w_has_sink W w3 = (w4, sink2)" by fastforce
  have "spent w1 = spent w" "spent w2 = spent w" "spent w4 = spent w3"
    using 1 announce_spent [OF 2] 4 by auto
  then show ?thesis
    using assms 1 2 3 4 transport_retry_spent [OF 3] free
    by (cases sink; cases going; cases res) (auto simp: wake_attempt_def Let_def split: if_splits)
qed

lemma wake_attempts_spent:
  "wake_attempts W policy fuel k sid number w = Some (w', ok, tr) \<Longrightarrow> spent w' \<le> spent w + cost * asked tr"
proof (induction fuel arbitrary: number w w' ok tr)
  case (Suc fuel)
  obtain w1 r tr1 where 1: "wake_attempt W policy k sid number w = (w1, r, tr1)" by (rule prod_cases3)
  note s = wake_attempt_spent [OF 1]
  show ?case
  proof (cases r)
    case (Some b)
    then show ?thesis using Suc.prems 1 s by simp
  next
    case None
    then obtain w2 ok2 tr2 where 2: "wake_attempts W policy fuel k sid (sat_inc number) w1 = Some (w2, ok2, tr2)"
      and "w' = w2" "tr = tr1 @ tr2"
      using Suc.prems 1 by auto
    then show ?thesis using s Suc.IH [OF 2] by (simp add: algebra_simps)
  qed
qed simp

lemma worker_spent:
  "request_wake_in_background W start policy fuel w = Some (w', tr) \<Longrightarrow> spent w' \<le> spent w + cost * asked tr"
proof (induction fuel arbitrary: w w' tr)
  case (Suc fuel)
  from Suc.prems obtain w1 go where 1: "wait_for_wake_start_policy W fuel start w = Some (w1, go)"
    by (auto split: option.splits prod.splits)
  obtain w2 st where 2: "w_begin W (configured_attempt_limit policy) w1 = (w2, st)" by fastforce
  have s2: "spent w1 = spent w" "spent w2 = spent w" using start_spent [OF 1] 2 by auto
  show ?case
  proof (cases "\<exists>sid k. go \<and> st = WakeStarted sid k")
    case False
    then show ?thesis using Suc.prems 1 2 s2 by (cases go; cases st) auto
  next
    case True
    then obtain sid k where t: "go" "st = WakeStarted sid k" by blast
    then obtain w3 ok tr1 where 3: "wake_attempts W policy fuel k sid 1 w2 = Some (w3, ok, tr1)"
      using Suc.prems 1 2 by (auto split: option.splits)
    obtain w4 sink where 4: "w_has_sink W w3 = (w4, sink)" by fastforce
    obtain w5 cur where 5: "w_current W k w4 = (w5, cur)" by fastforce
    have s5: "spent w4 = spent w3" "spent w5 = spent w3" using free_call(2) [OF 4] free_call(4) [OF 5] by simp_all
    have s3: "spent w3 \<le> spent w + cost * asked tr1" using wake_attempts_spent [OF 3] s2 by simp
    show ?thesis
    proof (cases "\<not> ok \<and> sink \<and> cur \<and> start = WaitForUserInputAfterAdvise")
      case False
      then show ?thesis using Suc.prems 1 2 3 4 5 t s3 s5
        by (cases ok; cases sink; cases cur) auto
    next
      case again: True
      then obtain w6 tr2 where 6: "request_wake_in_background W start policy fuel w5 = Some (w6, tr2)"
        and "w' = w6" "tr = BeganRequest k # tr1 @ tr2"
        using Suc.prems 1 2 3 4 5 t by auto
      then show ?thesis using Suc.IH [OF 6] s3 s5 by (simp add: algebra_simps)
    qed
  qed
qed simp

end


section \<open>The requests of one call of the client\<close>

lemma wait_for_auth_result_bounded:
  "snd (fst (wait_for_auth_result (counted ask) auth_result_poll_attempts sid (w, n))) \<le> n + 80"
  using wait_for_auth_result_count [of ask auth_result_poll_attempts sid "(w, n)"]
  by (simp add: auth_result_poll_attempts_def)

text \<open>One request to wake, at most eighty for the result, one for the credential.\<close>

lemma client_requests_bounded:
  "snd (fst (wake_and_fetch_credential_material (counted ask) unprotect src sid trigger wn)) \<le> snd wn + 82"
proof -
  obtain w n where wn: "wn = (w, n)" by fastforce
  obtain w1 r where r: "ask (WakeAuth sid src trigger) w = (w1, r)" by fastforce
  have first: "counted ask (WakeAuth sid src trigger) (w, n) = ((w1, n + 1), r)"
    using r by (simp add: counted_def)
  note fetch = fetch_for_grant_count [of ask unprotect]
  show ?thesis
  proof (cases "\<exists>s. r = Inr (AuthStarted s)")
    case True
    then obtain s where s: "r = Inr (AuthStarted s)" by blast
    obtain wn' res where wait: "wait_for_auth_result (counted ask) auth_result_poll_attempts s (w1, n + 1) = (wn', res)"
      by fastforce
    with wait_for_auth_result_bounded [of ask s w1 "n + 1"] have "snd wn' \<le> n + 81" by simp
    then show ?thesis
      using s wait fetch
      by (auto simp: wn wake_and_fetch_credential_material_def first split: sum.splits)
  next
    case False
    then show ?thesis
      using fetch by (cases r) (auto simp: wn wake_and_fetch_credential_material_def first split: service_event.split)
  qed
qed

text \<open>A worker with the client of the service over a pipe that counts its requests.\<close>

definition counting_worker ::
  "'w worker_ops \<Rightarrow> 'w pipe_request \<Rightarrow> (protected_credential_material \<Rightarrow> protocol_error + credential_material) \<Rightarrow>
     auth_source \<Rightarrow> auth_trigger_source \<Rightarrow> ('w \<times> nat) worker_ops" where
  "counting_worker W ask unprotect src trigger =
     \<lparr>w_last_input = (\<lambda>(w, n). case w_last_input W w of (w1, r) \<Rightarrow> ((w1, n), r)),
      w_has_sink = (\<lambda>(w, n). case w_has_sink W w of (w1, r) \<Rightarrow> ((w1, n), r)),
      w_begin = (\<lambda>limit (w, n). case w_begin W limit w of (w1, r) \<Rightarrow> ((w1, n), r)),
      w_current = (\<lambda>k (w, n). case w_current W k w of (w1, r) \<Rightarrow> ((w1, n), r)),
      w_mark_retry = (\<lambda>k number limit (w, n). case w_mark_retry W k number limit w of (w1, r) \<Rightarrow> ((w1, n), r)),
      w_broker = (\<lambda>sid wn. wake_and_fetch_credential_material (counted ask) unprotect src sid trigger wn),
      w_apply_outcome = (\<lambda>k outcome number limit pending (w, n).
        (w_apply_outcome W k outcome number limit pending w, n)),
      w_apply_error = (\<lambda>k e number limit (w, n). (w_apply_error W k e number limit w, n))\<rparr>"

interpretation counting: metered_worker "counting_worker W ask unprotect src trigger" snd 82
  for W ask unprotect src trigger
  by unfold_locales (simp_all add: counting_worker_def client_requests_bounded split: prod.split)

section \<open>How often a worker asks\<close>

lemma wake_attempts_asked:
  assumes "wake_attempts W (Finite limit) fuel k sid number w = Some (w', ok, tr)"
  shows "asked tr \<le> transport_wake_attempt_limit * (unat limit + 1 - unat number)"
proof -
  have more: "wake_attempts W (Finite limit) (fuel + m) k sid number w = Some (w', ok, tr)" for m
    using assms
  proof (induction fuel arbitrary: number w tr)
    case (Suc fuel)
    then show ?case by (fastforce split: prod.splits option.splits)
  qed simp
  have "unat limit + 1 - unat number < fuel + (unat limit + 2)" by simp
  from wake_attempts_finite [OF this, of W k sid w] show ?thesis
    unfolding more by blast
qed

lemma worker_asked:
  "request_wake_in_background W start (Finite limit) fuel w = Some (w', tr) \<Longrightarrow>
     asked tr \<le> transport_wake_attempt_limit * unat limit * length (filter begins tr) \<and>
     (start = Immediate \<longrightarrow> length (filter begins tr) \<le> 1)"
proof (induction fuel arbitrary: w w' tr)
  case (Suc fuel)
  show ?case
  proof (cases "tr = []")
    case False
    with Suc.prems obtain k sid w2 w3 ok tr1 tr2 where
      loop: "wake_attempts W (Finite limit) fuel k sid 1 w2 = Some (w3, ok, tr1)"
      and tr: "tr = BeganRequest k # tr1 @ tr2"
      and rest: "tr2 = [] \<or> (start = WaitForUserInputAfterAdvise \<and>
        (\<exists>w4 w5. request_wake_in_background W start (Finite limit) fuel w4 = Some (w5, tr2)))"
      by (force split: option.splits prod.splits bool.splits wake_request_start.splits if_splits)
    have "filter begins tr1 = []" using wake_attempts_no_begin [OF loop] by (simp add: filter_empty_conv)
    then have b: "length (filter begins tr) = Suc (length (filter begins tr2))" by (simp add: tr)
    have a: "asked tr1 \<le> transport_wake_attempt_limit * unat limit"
      using wake_attempts_asked [OF loop] by simp
    show ?thesis
    proof (cases "tr2 = []")
      case True
      then show ?thesis using a b by (simp add: tr)
    next
      case more: False
      then obtain w4 w5 where "start = WaitForUserInputAfterAdvise"
        "request_wake_in_background W start (Finite limit) fuel w4 = Some (w5, tr2)"
        using rest by blast
      then show ?thesis using Suc.IH a b by (fastforce simp: tr algebra_simps)
    qed
  qed simp
qed simp


section \<open>A worker whose sink is taken away\<close>

text \<open>\<open>P d w\<close>: from the world \<open>w\<close> on, every operation of the worker brings the end of its sink closer,
  and after \<open>d\<close> of them it has none, for good.\<close>

definition sink_gone_within :: "'w worker_ops \<Rightarrow> (nat \<Rightarrow> 'w \<Rightarrow> bool) \<Rightarrow> bool" where
  "sink_gone_within W P \<longleftrightarrow>
     (\<forall>d w. P d w \<longrightarrow>
        P (d - 1) (fst (w_last_input W w)) \<and> P (d - 1) (fst (w_has_sink W w)) \<and>
        (\<forall>limit. P (d - 1) (fst (w_begin W limit w))) \<and> (\<forall>k. P (d - 1) (fst (w_current W k w))) \<and>
        (\<forall>k number limit. P (d - 1) (fst (w_mark_retry W k number limit w))) \<and>
        (\<forall>sid. P (d - 1) (fst (w_broker W sid w))) \<and>
        (\<forall>k outcome number limit pending. P (d - 1) (w_apply_outcome W k outcome number limit pending w)) \<and>
        (\<forall>k e number limit. P (d - 1) (w_apply_error W k e number limit w))) \<and>
     (\<forall>w. P 0 w \<longrightarrow> \<not> snd (w_has_sink W w))"

text \<open>What is left after some operations.\<close>

definition left_over :: "(nat \<Rightarrow> 'w \<Rightarrow> bool) \<Rightarrow> nat \<Rightarrow> 'w \<Rightarrow> bool" where
  "left_over P d w \<longleftrightarrow> (\<exists>d' \<le> d. P d' w)"

lemma left_over_weaken: "left_over P d w \<Longrightarrow> d \<le> d' \<Longrightarrow> left_over P d' w"
  by (auto simp: left_over_def intro: order_trans)

lemma left_over_calls:
  assumes "sink_gone_within W P" and "left_over P d w"
  shows "w_last_input W w = (w1, i) \<Longrightarrow> left_over P (d - 1) w1"
    "w_has_sink W w = (w1, b) \<Longrightarrow> left_over P (d - 1) w1"
    "w_begin W limit w = (w1, st) \<Longrightarrow> left_over P (d - 1) w1"
    "w_current W k w = (w1, b) \<Longrightarrow> left_over P (d - 1) w1"
    "w_mark_retry W k number limit w = (w1, b) \<Longrightarrow> left_over P (d - 1) w1"
    "w_broker W sid w = (w1, r) \<Longrightarrow> left_over P (d - 1) w1"
    "left_over P (d - 1) (w_apply_outcome W k outcome number limit pending w)"
    "left_over P (d - 1) (w_apply_error W k e number limit w)"
proof -
  obtain d' where d: "d' \<le> d" "P d' w" using assms(2) by (auto simp: left_over_def)
  then have "d' - 1 \<le> d - 1" by simp
  then have l: "P (d' - 1) w1 \<Longrightarrow> left_over P (d - 1) w1" for w1 unfolding left_over_def by blast
  have "P (d' - 1) (fst (w_last_input W w))" "P (d' - 1) (fst (w_has_sink W w))"
    "P (d' - 1) (fst (w_begin W limit w))" "P (d' - 1) (fst (w_current W k w))"
    "P (d' - 1) (fst (w_mark_retry W k number limit w))" "P (d' - 1) (fst (w_broker W sid w))"
    "P (d' - 1) (w_apply_outcome W k outcome number limit pending w)"
    "P (d' - 1) (w_apply_error W k e number limit w)"
    using assms(1) d(2) unfolding sink_gone_within_def by blast+
  note s = this [THEN l]
  show "w_last_input W w = (w1, i) \<Longrightarrow> left_over P (d - 1) w1"
    "w_has_sink W w = (w1, b) \<Longrightarrow> left_over P (d - 1) w1"
    "w_begin W limit w = (w1, st) \<Longrightarrow> left_over P (d - 1) w1"
    "w_current W k w = (w1, b) \<Longrightarrow> left_over P (d - 1) w1"
    "w_mark_retry W k number limit w = (w1, b) \<Longrightarrow> left_over P (d - 1) w1"
    "w_broker W sid w = (w1, r) \<Longrightarrow> left_over P (d - 1) w1"
    "left_over P (d - 1) (w_apply_outcome W k outcome number limit pending w)"
    "left_over P (d - 1) (w_apply_error W k e number limit w)"
    using s by simp_all
qed

lemma sink_means_left_over:
  assumes "sink_gone_within W P" and "left_over P d w" and "w_has_sink W w = (w1, True)"
  shows "0 < d"
proof (rule ccontr)
  assume "\<not> 0 < d"
  then have "P 0 w" using assms(2) by (simp add: left_over_def)
  then show False using assms(1,3) unfolding sink_gone_within_def by (metis snd_conv)
qed

lemma wait_for_input_ends:
  assumes "sink_gone_within W P"
  shows "left_over P d w \<Longrightarrow> d < fuel \<Longrightarrow>
    \<exists>w' b. wait_for_input W fuel baseline w = Some (w', b) \<and> left_over P d w'"
proof (induction fuel arbitrary: d w)
  case (Suc fuel)
  note calls = left_over_calls [OF assms]
  obtain w1 sink where 1: "w_has_sink W w = (w1, sink)" by fastforce
  have l1: "left_over P (d - 1) w1" using calls(2) [OF Suc.prems(1) 1] .
  then have k1: "left_over P d w1" by (rule left_over_weaken) simp
  obtain w2 i where 2: "w_last_input W w1 = (w2, i)" by fastforce
  have l2: "left_over P (d - 1) w2" using calls(1) [OF l1 2] by (rule left_over_weaken) simp
  then have k2: "left_over P d w2" by (rule left_over_weaken) simp
  show ?case
  proof (cases sink)
    case False
    then show ?thesis using 1 k1 by (intro exI [of _ w1] exI [of _ False]) simp
  next
    case True
    then have "0 < d" using sink_means_left_over [OF assms Suc.prems(1)] 1 by simp
    then have "d - 1 < fuel" using Suc.prems(2) by simp
    then obtain w' b where "wait_for_input W fuel baseline w2 = Some (w', b)" "left_over P (d - 1) w'"
      using Suc.IH [OF l2] by blast
    moreover from this(2) have "left_over P d w'" by (rule left_over_weaken) simp
    ultimately have "\<exists>w' b. wait_for_input W fuel baseline w2 = Some (w', b) \<and> left_over P d w'" by blast
    then show ?thesis using 1 2 k2 True by (cases i) (simp_all split: if_split, blast+)
  qed
qed simp

lemma start_ends:
  assumes "sink_gone_within W P" and "left_over P d w" and "d < fuel"
  shows "\<exists>w' b. wait_for_wake_start_policy W fuel start w = Some (w', b) \<and> left_over P d w'"
proof (cases start)
  case WaitForUserInputAfterAdvise
  obtain w1 i where 1: "w_last_input W w = (w1, i)" by fastforce
  have l1: "left_over P d w1"
    using left_over_calls(1) [OF assms(1,2) 1] by (rule left_over_weaken) simp
  then show ?thesis
    using wait_for_input_ends [OF assms(1) l1 assms(3)] WaitForUserInputAfterAdvise 1
    by (cases i) (simp_all add: wait_for_wake_start_policy_def, blast)
qed (use assms in \<open>auto simp: wait_for_wake_start_policy_def\<close>)

lemma transport_retry_left_over:
  assumes "sink_gone_within W P"
  shows "left_over P d w \<Longrightarrow> transport_retry W n k sid w = (w', r, tr) \<Longrightarrow> left_over P d w'"
proof (induction n arbitrary: w w' r tr)
  case (Suc n)
  note calls = left_over_calls [OF assms]
  obtain w1 c where 1: "w_current W k w = (w1, c)" by fastforce
  have l1: "left_over P d w1" using calls(4) [OF Suc.prems(1) 1] by (rule left_over_weaken) simp
  obtain w2 a where 2: "w_broker W sid w1 = (w2, a)" by fastforce
  have l2: "left_over P d w2" using calls(6) [OF l1 2] by (rule left_over_weaken) simp
  obtain w3 r3 tr3 where 3: "transport_retry W n k sid w2 = (w3, r3, tr3)" by (rule prod_cases3)
  show ?case
    using Suc.prems(2) 1 2 3 l1 l2 Suc.IH [OF l2 3] by (auto split: bool.splits sum.splits if_splits)
qed simp

text \<open>An attempt uses at least one operation when its loop goes round.\<close>

lemma wake_attempt_left_over:
  assumes "sink_gone_within W P" and "left_over P d w"
    and "wake_attempt W policy k sid number w = (w', r, tr)"
  shows "left_over P d w'" "r = None \<Longrightarrow> 0 < d \<and> left_over P (d - 1) w'"
proof -
  note calls = left_over_calls [OF assms(1)]
  let ?limit = "configured_attempt_limit policy"
  obtain w1 sink where 1: "w_has_sink W w = (w1, sink)" by fastforce
  have l1: "left_over P (d - 1) w1" using calls(2) [OF assms(2) 1] .
  obtain w2 going where 2: "announce_attempt W k number ?limit w1 = (w2, going)" by fastforce
  have l2: "left_over P (d - 1) w2"
    using 2 l1 calls(2) [OF l1, THEN left_over_weaken, of w2 False "d - 1"]
      calls(5) [OF calls(2) [OF l1], THEN left_over_weaken, of _ True k number ?limit w2 going "d - 1"]
    by (auto simp: announce_attempt_def split: if_splits prod.splits bool.splits)
  obtain w3 res tr1 where 3: "transport_retry W transport_wake_attempt_limit k sid w2 = (w3, res, tr1)"
    by (rule prod_cases3)
  have l3: "left_over P (d - 1) w3" by (rule transport_retry_left_over [OF assms(1) l2 3])
  obtain w4 sink2 where 4: "w_has_sink W w3 = (w4, sink2)" by fastforce
  have l4: "left_over P (d - 1) w4" using calls(2) [OF l3 4] by (rule left_over_weaken) simp
  have kept: "left_over P (d - 1) (w_apply_outcome W k outcome number ?limit pending x)"
      "left_over P (d - 1) (w_apply_error W k e number ?limit x)"
    if "left_over P (d - 1) x" for x outcome pending e
    by (rule left_over_weaken [OF calls(7) [OF that]], simp) (rule left_over_weaken [OF calls(8) [OF that]], simp)
  have up: "left_over P (d - 1) x \<Longrightarrow> left_over P d x" for x by (erule left_over_weaken) simp
  show "left_over P d w'"
    using assms(2,3) 1 2 3 4 l1 l2 l3 l4
    by (cases sink; cases going; cases res)
      (auto simp: wake_attempt_def Let_def intro!: up kept split: if_splits)
  show "0 < d \<and> left_over P (d - 1) w'" if "r = None"
  proof
    have "sink" using that assms(3) 1 by (cases sink) (auto simp: wake_attempt_def Let_def split: if_splits)
    then show "0 < d" using sink_means_left_over [OF assms(1,2)] 1 by simp
    show "left_over P (d - 1) w'"
      using that assms(3) 1 2 3 4 l3 l4
      by (cases sink; cases going; cases res)
        (auto simp: wake_attempt_def Let_def intro!: kept [simplified] split: if_splits)
  qed
qed

lemma wake_attempts_end:
  assumes "sink_gone_within W P"
  shows "left_over P d w \<Longrightarrow> d < fuel \<Longrightarrow>
    \<exists>w' ok tr. wake_attempts W policy fuel k sid number w = Some (w', ok, tr) \<and> left_over P d w'"
proof (induction fuel arbitrary: d w number)
  case (Suc fuel)
  obtain w1 r tr1 where 1: "wake_attempt W policy k sid number w = (w1, r, tr1)" by (rule prod_cases3)
  note l = wake_attempt_left_over [OF assms Suc.prems(1) 1]
  show ?case
  proof (cases r)
    case None
    then have "left_over P (d - 1) w1" "d - 1 < fuel" using l(2) Suc.prems(2) by auto
    from Suc.IH [OF this] obtain w2 ok tr2 where
      "wake_attempts W policy fuel k sid (sat_inc number) w1 = Some (w2, ok, tr2)" "left_over P (d - 1) w2"
      by blast
    moreover from this(2) have "left_over P d w2" by (rule left_over_weaken) simp
    ultimately show ?thesis using 1 None by auto
  qed (use 1 l in simp)
qed simp

text \<open>The worker ends, whatever its policies are.\<close>

lemma worker_ends_without_sink:
  assumes "sink_gone_within W P"
  shows "left_over P d w \<Longrightarrow> Suc d < fuel \<Longrightarrow>
    \<exists>w' tr. request_wake_in_background W start policy fuel w = Some (w', tr)"
proof (induction fuel arbitrary: d w)
  case (Suc fuel)
  note calls = left_over_calls [OF assms]
  have f: "d < fuel" using Suc.prems(2) by simp
  obtain w1 go where 1: "wait_for_wake_start_policy W fuel start w = Some (w1, go)" and l1: "left_over P d w1"
    using start_ends [OF assms Suc.prems(1) f] by blast
  obtain w2 st where 2: "w_begin W (configured_attempt_limit policy) w1 = (w2, st)" by fastforce
  have l2: "left_over P d w2" using calls(3) [OF l1 2] by (rule left_over_weaken) simp
  show ?case
  proof (cases "\<exists>sid k. go \<and> st = WakeStarted sid k")
    case False
    then show ?thesis using 1 2 by (cases go; cases st) auto
  next
    case True
    then obtain sid k where t: "go" "st = WakeStarted sid k" by blast
    obtain w3 ok tr1 where 3: "wake_attempts W policy fuel k sid 1 w2 = Some (w3, ok, tr1)" and l3: "left_over P d w3"
      using wake_attempts_end [OF assms l2 f] by blast
    obtain w4 sink where 4: "w_has_sink W w3 = (w4, sink)" by fastforce
    obtain w5 cur where 5: "w_current W k w4 = (w5, cur)" by fastforce
    have l5: "left_over P (d - 1) w5"
      using calls(4) [OF calls(2) [OF l3 4] 5] by (rule left_over_weaken) simp
    show ?thesis
    proof (cases "\<not> ok \<and> sink \<and> cur \<and> start = WaitForUserInputAfterAdvise")
      case False
      then show ?thesis using 1 2 3 4 5 t by (cases ok; cases sink; cases cur) auto
    next
      case again: True
      then have "0 < d" using sink_means_left_over [OF assms l3] 4 by simp
      then have "Suc (d - 1) < fuel" using f by simp
      from Suc.IH [OF l5 this] obtain w6 tr2 where
        "request_wake_in_background W start policy fuel w5 = Some (w6, tr2)" by blast
      then show ?thesis using again 1 2 3 4 5 t by simp
    qed
  qed
qed simp

end
