(* ===== verification/Provider_Sharing.thy ===== *)
theory Provider_Sharing
  imports Provider_State
begin

text \<open>
  Several instances of the credential provider on one guard. Each operation of an instance is a
  critical section under its mutex that makes at most one call of the shared guard
  (\<open>guard_call_of\<close>); any interleaving of the operations of all instances, with the updates of
  the saved credentials, is a run of the guard. The laws of \<open>submission_guard\<close> then carry over to
  the passwords handed to Windows. \<open>get_serialization\<close> and \<open>report_result\<close> are the entry points
  of \<open>windows_provider/src/credential.rs\<close> that hand a password out and take the result in.
\<close>

section \<open>The entry points of the credential\<close>

datatype serialization =
    SerializationInvalidArg
  | CredentialFinished credential_material
  | PackingFailed
  | NoCredentialNotFinished string

definition get_serialization ::
  "'g guard_ops \<Rightarrow> bool \<Rightarrow> (credential_material \<Rightarrow> bool) \<Rightarrow> 'g provider \<Rightarrow>
     'g provider \<times> serialization" where
  "get_serialization G null_argument packs p =
     (if null_argument then (p, SerializationInvalidArg)
      else case take_credential_for_submission G p of
             (p1, Some m) \<Rightarrow>
               if packs m then (p1, CredentialFinished m)
               else (cancel_unsubmitted_credential G p1, PackingFailed)
           | (p1, None) \<Rightarrow> (p1, NoCredentialNotFinished (credential_status_message p1)))"

text \<open>The optional status text of \<open>ReportResult\<close> (\<open>None\<close> is the null string) and whether the
  icon is \<open>CPSI_ERROR\<close>.\<close>

definition report_result ::
  "'g guard_ops \<Rightarrow> windows_logon_result \<Rightarrow> 'g provider \<Rightarrow> 'g provider \<times> string option \<times> bool" where
  "report_result G result p =
     (mark_report_result_received G result p,
      (if succeeded result then None
       else Some ''Windows rejected face sign-in. Automatic retries are paused. Use Windows PIN/password, then save your Windows credential again in WinFaceUnlock.''),
      \<not> succeeded result)"

section \<open>Operations as steps\<close>

datatype provider_op =
    OpSetUsage i32
  | OpAdvise nat bool u64
  | OpUnAdvise
  | OpTake
  | OpCancel
  | OpBegin i64 u32
  | OpRetry u64 u32 u32
  | OpIsCurrent u64
  | OpOutcome i64 u64 provider_wake_outcome u32 u32 bool
  | OpTransportError i64 u64 protocol_error u32 u32
  | OpReport windows_logon_result

fun provider_step ::
  "'g guard_ops \<Rightarrow> provider_op \<Rightarrow> 'g provider \<Rightarrow> 'g provider \<times> credential_material option" where
  "provider_step G (OpSetUsage cpus) p = (set_usage_scenario cpus p, None)"
| "provider_step G (OpAdvise sink ok ctxt) p = (set_events G (Some sink) ok ctxt p, None)"
| "provider_step G OpUnAdvise p = (set_events G None True 0 p, None)"
| "provider_step G OpTake p = take_credential_for_submission G p"
| "provider_step G OpCancel p = (cancel_unsubmitted_credential G p, None)"
| "provider_step G (OpBegin now limit) p = (fst (begin_wake_request G now limit p), None)"
| "provider_step G (OpRetry k number limit) p =
     (fst (mark_automatic_retry_started G k number limit p), None)"
| "provider_step G (OpIsCurrent k) p = (fst (is_wake_request_current G k p), None)"
| "provider_step G (OpOutcome now k outcome number limit pending) p =
     (apply_wake_outcome G now k outcome number limit pending p, None)"
| "provider_step G (OpTransportError now k err number limit) p =
     (apply_wake_transport_error G now k err number limit p, None)"
| "provider_step G (OpReport result) p = (mark_report_result_received G result p, None)"

text \<open>The call of the guard an operation makes, if any.\<close>

definition apply_call :: "u64 \<Rightarrow> provider_inner \<Rightarrow> guard_call list" where
  "apply_call k i =
     (if wake_request_id i = k \<and> \<not> submission_phase (phase i) \<and> credential_generation i \<noteq> None
      then [CallReady] else [])"

fun guard_call_of :: "provider_op \<Rightarrow> 'g provider \<Rightarrow> guard_call list" where
  "guard_call_of op p =
     (let i = inner p
      in if inner_poisoned p then []
         else case op of
                OpAdvise _ _ _ \<Rightarrow>
                  if events i = None \<and> submission_finished (phase i) then [CallReady] else []
              | OpTake \<Rightarrow>
                  (case (material i, credential_generation i) of
                     (Some m, Some gen) \<Rightarrow>
                       if phase i = PhaseCredentialMaterialReady then [CallReserve gen] else []
                   | _ \<Rightarrow> [])
              | OpCancel \<Rightarrow> (case submission i of None \<Rightarrow> [] | Some t \<Rightarrow> [CallCancel t])
              | OpBegin _ _ \<Rightarrow> if submission_phase (phase i) then [] else [CallReady]
              | OpRetry k _ _ \<Rightarrow> apply_call k i
              | OpIsCurrent k \<Rightarrow> apply_call k i
              | OpOutcome _ k _ _ _ _ \<Rightarrow> apply_call k i
              | OpTransportError _ k _ _ _ \<Rightarrow> apply_call k i
              | OpReport result \<Rightarrow>
                  (case submission i of None \<Rightarrow> [] | Some t \<Rightarrow> [CallComplete t result])
              | _ \<Rightarrow> [])"

lemmas provider_op_defs = set_usage_scenario_def set_events_def take_credential_for_submission_def
  cancel_unsubmitted_credential_def begin_wake_request_def mark_automatic_retry_started_def
  is_wake_request_current_def can_apply_wake_def apply_wake_outcome_def
  apply_wake_transport_error_def mark_report_result_received_def

lemma notify_simps [simp]:
  "inner (notify_credentials_changed p) = inner p"
  "logon_guard (notify_credentials_changed p) = logon_guard p"
  "inner_poisoned (notify_credentials_changed p) = inner_poisoned p"
  by (simp_all add: notify_credentials_changed_def split: option.splits)

lemma outcome_inner_simps [simp]:
  "submission (outcome_inner now outcome number limit pending i) = submission i"
  "wake_request_id (outcome_inner now outcome number limit pending i) = wake_request_id i"
  "credential_generation (outcome_inner now outcome number limit pending i) = credential_generation i"
  by (cases outcome; simp add: record_credential_material_ready_locked_def record_wake_failure_locked_def)+

lemma record_wake_failure_simps [simp]:
  "submission (record_wake_failure_locked now i) = submission i"
  "phase (record_wake_failure_locked now i) = phase i"
  "material (record_wake_failure_locked now i) = material i"
  "wake_request_id (record_wake_failure_locked now i) = wake_request_id i"
  "credential_generation (record_wake_failure_locked now i) = credential_generation i"
  by (simp_all add: record_wake_failure_locked_def)

lemma length_guard_call_of: "length (guard_call_of op p) \<le> 1"
  by (cases op) (auto simp: apply_call_def Let_def split: option.splits)

lemma fst_map_reply [simp]: "fst (map_reply f x) = fst x"
  by (cases "(f, x)" rule: map_reply.cases) auto

lemma guard_run_single [simp]:
  "fst (guard_run G [c] g) = fst (call_guard G c g)"
  "tokens_issued (snd (guard_run G [c] g)) = token_of (snd (call_guard G c g))"
  by (simp_all add: guard_run.simps split: prod.splits)

lemma guard_run_Cons:
  "fst (guard_run G (c # cs) g) = fst (guard_run G cs (fst (call_guard G c g)))"
  "tokens_issued (snd (guard_run G (c # cs) g)) =
     token_of (snd (call_guard G c g)) @ tokens_issued (snd (guard_run G cs (fst (call_guard G c g))))"
  by (simp_all split: prod.splits)

declare guard_run.simps(2) [simp del]

lemma token_of_map_reply [simp]:
  "token_of (snd (map_reply ReplyGeneration x)) = []"
  "token_of (snd (map_reply (\<lambda>_. ReplyUnit) y)) = []"
  "token_of (snd (map_reply ReplyToken z)) =
     (case snd z of Inl _ \<Rightarrow> [] | Inr t \<Rightarrow> [token_generation t])"
  by (cases x; cases "snd x"; cases y; cases "snd y"; cases z; cases "snd z"; simp)+

lemma step_guard:
  "logon_guard (fst (provider_step G op p)) = fst (guard_run G (guard_call_of op p) (logon_guard p))"
proof (cases op)
  case (OpAdvise sink ok ctxt)
  then show ?thesis
    by (cases "g_ready G (logon_guard p)"; cases "snd (g_ready G (logon_guard p))")
      (auto simp: set_events_def Let_def)
next
  case OpTake
  then show ?thesis
    by (auto simp: take_credential_for_submission_def Let_def split: option.splits prod.splits
        sum.splits)
next
  case OpCancel
  then show ?thesis
    by (auto simp: cancel_unsubmitted_credential_def Let_def split: option.splits)
next
  case (OpBegin now limit)
  then show ?thesis
    by (auto simp: begin_wake_request_def Let_def split: option.splits prod.splits sum.splits)
next
  case (OpReport result)
  then show ?thesis
    by (auto simp: mark_report_result_received_def split: option.splits prod.splits)
qed (auto simp: provider_op_defs apply_call_def Let_def split: option.splits prod.splits
    bool.splits)

text \<open>A password is handed out exactly when the step's call of the guard gives out a token, and
  the instance keeps that token.\<close>

lemma step_tokens:
  "tokens_issued (snd (guard_run G (guard_call_of op p) (logon_guard p))) =
     (case snd (provider_step G op p) of
        None \<Rightarrow> []
      | Some m \<Rightarrow> (case submission (inner (fst (provider_step G op p))) of
                      None \<Rightarrow> [] | Some t \<Rightarrow> [token_generation t]))"
proof (cases op)
  case (OpAdvise sink ok ctxt)
  then show ?thesis
    by (cases "g_ready G (logon_guard p)"; cases "snd (g_ready G (logon_guard p))")
      (auto simp: Let_def)
next
  case OpTake
  then show ?thesis
    by (auto simp: take_credential_for_submission_def Let_def split: option.splits prod.splits
        sum.splits)
next
  case OpCancel
  then show ?thesis
    by (auto simp: Let_def split: option.splits)
next
  case (OpReport result)
  then show ?thesis
    by (auto simp: Let_def split: option.splits)
qed (auto simp: apply_call_def Let_def)

text \<open>Between steps an instance keeps its submission, drops it, or takes a new one.\<close>

lemma step_submission:
  "submission (inner (fst (provider_step G op p))) = submission (inner p) \<or>
   submission (inner (fst (provider_step G op p))) = None \<or>
   snd (provider_step G op p) \<noteq> None \<and> submission (inner (fst (provider_step G op p))) \<noteq> None"
proof (cases op)
  case OpTake
  then show ?thesis
    by (auto simp: take_credential_for_submission_def Let_def split: option.splits prod.splits
        sum.splits)
next
  case (OpAdvise sink ok ctxt)
  then show ?thesis
    by (auto simp: set_events_def Let_def split: prod.splits sum.splits)
qed (auto simp: provider_op_defs Let_def split: option.splits prod.splits sum.splits bool.splits)

text \<open>A step settles a token only when the instance holds it.\<close>

lemma step_settles:
  "c \<in> set (guard_call_of op p) \<Longrightarrow> settles n c \<Longrightarrow>
    submission (inner p) = Some (SubmissionToken n) \<and> (op = OpCancel \<or> (\<exists>r. op = OpReport r))"
  by (cases op) (auto simp: apply_call_def Let_def split: option.splits if_splits;
      metis submission_token.exhaust_sel)+

section \<open>The invariant of one instance\<close>

text \<open>A ready phase has its material and the guard's generation it was fetched under; a token is
  held exactly while the result is awaited.\<close>

definition provider_inv :: "provider_inner \<Rightarrow> bool" where
  "provider_inv i \<longleftrightarrow>
     (phase i = PhaseCredentialMaterialReady \<longrightarrow> material i \<noteq> None \<and> credential_generation i \<noteq> None) \<and>
     (submission i \<noteq> None \<longleftrightarrow> phase i = PhaseAwaitingWindowsResult)"

lemma provider_inv_new: "provider_inv (new_inner visibility)"
  by (simp add: provider_inv_def new_inner_def)

lemma can_apply_wake_True:
  "can_apply_wake G k p = (p', True) \<Longrightarrow>
    inner p' = inner p \<and> wake_request_id (inner p) = k \<and> \<not> submission_phase (phase (inner p)) \<and>
    (\<exists>gen. credential_generation (inner p) = Some gen \<and> snd (g_ready G (logon_guard p)) = Inr gen)"
  by (auto simp: can_apply_wake_def split: if_splits option.splits prod.splits)

lemma can_apply_wake_inner [simp]: "inner (fst (can_apply_wake G k p)) = inner p"
  by (auto simp: can_apply_wake_def split: option.splits prod.splits)

lemma can_apply_wake_False: "can_apply_wake G k p = (p', False) \<Longrightarrow> inner p' = inner p"
  using can_apply_wake_inner [of G k p] by simp

lemma withdrawn_phase_inv:
  "withdrawn_phase ph \<noteq> PhaseCredentialMaterialReady"
  "withdrawn_phase ph = PhaseAwaitingWindowsResult \<longleftrightarrow> ph = PhaseAwaitingWindowsResult"
  by (cases ph rule: withdrawn_phase.cases; simp)+

lemma outcome_inner_inv:
  assumes "provider_inv i" and "\<not> submission_phase (phase i)" and "credential_generation i \<noteq> None"
  shows "provider_inv (outcome_inner now outcome number limit pending i)"
  using assms
  by (cases outcome) (auto simp: provider_inv_def record_credential_material_ready_locked_def)

lemma step_inv:
  assumes "provider_inv (inner p)"
  shows "provider_inv (inner (fst (provider_step G op p)))"
proof (cases op)
  case (OpAdvise sink ok ctxt)
  then show ?thesis
    using assms
    by (auto simp: set_events_def Let_def provider_inv_def split: prod.splits sum.splits)
next
  case OpUnAdvise
  then show ?thesis
    using assms by (auto simp: set_events_def Let_def provider_inv_def withdrawn_phase_inv)
next
  case OpTake
  then show ?thesis
    using assms
    by (auto simp: take_credential_for_submission_def Let_def provider_inv_def
        split: option.splits prod.splits sum.splits)
next
  case (OpBegin now limit)
  then show ?thesis
    using assms
    by (auto simp: begin_wake_request_def Let_def provider_inv_def
        split: option.splits prod.splits sum.splits)
next
  case (OpOutcome now k outcome number limit pending)
  then show ?thesis
    using assms
    by (auto simp: apply_wake_outcome_def dest!: can_apply_wake_True can_apply_wake_False
        intro: outcome_inner_inv split: prod.splits bool.splits)
next
  case (OpTransportError now k err number limit)
  then show ?thesis
    using assms
    by (auto simp: apply_wake_transport_error_def provider_inv_def
        dest!: can_apply_wake_True can_apply_wake_False split: prod.splits bool.splits)
next
  case (OpRetry k number limit)
  then show ?thesis
    using assms
    by (auto simp: mark_automatic_retry_started_def provider_inv_def
        dest!: can_apply_wake_True can_apply_wake_False split: prod.splits bool.splits)
qed (use assms in \<open>auto simp: provider_inv_def set_usage_scenario_def cancel_unsubmitted_credential_def
    is_wake_request_current_def mark_report_result_received_def Let_def split: option.splits prod.splits sum.splits\<close>)

section \<open>Many instances on one guard\<close>

text \<open>The members are numbered; their own copies of the guard's state are refreshed before each
  step. \<open>CredentialsSaved\<close> is the control application's update of the credentials. A run gives the
  passwords handed out, with the member that handed out each.\<close>

type_synonym 'g system = "'g \<times> (nat \<Rightarrow> 'g provider)"

datatype system_event = Member nat provider_op | CredentialsSaved

fun member_step ::
  "'g guard_ops \<Rightarrow> nat \<Rightarrow> provider_op \<Rightarrow> 'g system \<Rightarrow> 'g system \<times> (nat \<times> credential_material) list" where
  "member_step G n op (g, ms) =
     (case provider_step G op ((ms n)\<lparr>logon_guard := g\<rparr>) of
        (p, out) \<Rightarrow> ((logon_guard p, ms(n := p)), case out of None \<Rightarrow> [] | Some m \<Rightarrow> [(n, m)]))"

fun system_step ::
  "'g guard_ops \<Rightarrow> system_event \<Rightarrow> 'g system \<Rightarrow> 'g system \<times> (nat \<times> credential_material) list" where
  "system_step G (Member n op) s = member_step G n op s"
| "system_step G CredentialsSaved (g, ms) = ((fst (g_credentials_updated G g), ms), [])"

fun system_run ::
  "'g guard_ops \<Rightarrow> system_event list \<Rightarrow> 'g system \<Rightarrow> 'g system \<times> (nat \<times> credential_material) list" where
  "system_run G [] s = (s, [])"
| "system_run G (ev # evs) s =
     (case system_step G ev s of
        (s', out) \<Rightarrow> (case system_run G evs s' of (s'', outs) \<Rightarrow> (s'', out @ outs)))"

text \<open>The calls of the guard a run makes.\<close>

fun event_calls :: "system_event \<Rightarrow> 'g system \<Rightarrow> guard_call list" where
  "event_calls (Member n op) (g, ms) = guard_call_of op ((ms n)\<lparr>logon_guard := g\<rparr>)"
| "event_calls CredentialsSaved s = [CallUpdated]"

fun system_calls :: "'g guard_ops \<Rightarrow> system_event list \<Rightarrow> 'g system \<Rightarrow> guard_call list" where
  "system_calls G [] s = []"
| "system_calls G (ev # evs) s = event_calls ev s @ system_calls G evs (fst (system_step G ev s))"

definition holder :: "'g system \<Rightarrow> nat \<Rightarrow> submission_token option" where
  "holder s n = submission (inner (snd s n))"

definition initial_system :: "'g \<Rightarrow> (nat \<Rightarrow> provider_tile_visibility) \<Rightarrow> 'g system" where
  "initial_system g vis = (g, \<lambda>n. with_guard (vis n) g)"

lemma guard_run_append_proj:
  "fst (guard_run G (cs @ ds) g) = fst (guard_run G ds (fst (guard_run G cs g)))"
  "tokens_issued (snd (guard_run G (cs @ ds) g)) =
     tokens_issued (snd (guard_run G cs g)) @ tokens_issued (snd (guard_run G ds (fst (guard_run G cs g))))"
  by (induction cs arbitrary: g) (simp_all add: guard_run_Cons)

lemma system_run_proj:
  "fst (system_run G (ev # evs) s) = fst (system_run G evs (fst (system_step G ev s)))"
  "snd (system_run G (ev # evs) s) =
     snd (system_step G ev s) @ snd (system_run G evs (fst (system_step G ev s)))"
  by (auto split: prod.splits)

declare system_run.simps(2) [simp del]

lemma step_hands_out:
  "snd (provider_step G op p) = Some m \<Longrightarrow>
    \<exists>t. submission (inner (fst (provider_step G op p))) = Some t"
  by (cases op)
    (auto simp: take_credential_for_submission_def Let_def split: if_splits option.splits prod.splits
      sum.splits)

lemma event_guard: "fst (fst (system_step G ev s)) = fst (guard_run G (event_calls ev s) (fst s))"
proof (cases "(ev, s)" rule: event_calls.cases)
  case (1 n op g ms)
  then show ?thesis
    using step_guard [of G op "(ms n)\<lparr>logon_guard := g\<rparr>"]
    by (auto simp del: guard_call_of.simps split: prod.splits)
next
  case (2 s')
  then show ?thesis by (cases s') simp
qed

lemma event_tokens:
  "length (snd (system_step G ev s)) = length (tokens_issued (snd (guard_run G (event_calls ev s) (fst s))))"
proof (cases "(ev, s)" rule: event_calls.cases)
  case (1 n op g ms)
  let ?p = "(ms n)\<lparr>logon_guard := g\<rparr>"
  have "tokens_issued (snd (guard_run G (event_calls ev s) (fst s))) =
      (case snd (provider_step G op ?p) of
         None \<Rightarrow> []
       | Some m \<Rightarrow> (case submission (inner (fst (provider_step G op ?p))) of
                      None \<Rightarrow> [] | Some t \<Rightarrow> [token_generation t]))"
    using step_tokens [of G op ?p] 1 by simp
  then show ?thesis
    using 1 step_hands_out [of G op ?p] by (auto split: prod.splits option.splits)
next
  case (2 s')
  then show ?thesis by (cases s') simp
qed

text \<open>A run of the system is a run of the guard, with one token for each password.\<close>

lemma system_refines:
  "fst (fst (system_run G evs s)) = fst (guard_run G (system_calls G evs s) (fst s)) \<and>
   length (snd (system_run G evs s)) = length (tokens_issued (snd (guard_run G (system_calls G evs s) (fst s))))"
proof (induction evs arbitrary: s)
  case Nil
  then show ?case by simp
next
  case (Cons ev evs)
  then show ?case
    by (simp add: system_run_proj guard_run_append_proj event_guard event_tokens)
qed

lemma system_calls_updated:
  "CredentialsSaved \<notin> set evs \<Longrightarrow> CallUpdated \<notin> set (system_calls G evs s)"
proof (induction evs arbitrary: s)
  case Nil
  then show ?case by simp
next
  case (Cons ev evs)
  have "CallUpdated \<notin> set (guard_call_of op p)" for op and p :: "'a provider"
    using step_settles [of CallUpdated op p 0] step_settles [of CallUpdated op p 1] by auto
  with Cons show ?case by (cases "(ev, s)" rule: event_calls.cases) auto
qed

text \<open>The events that may end the submission of token \<open>n\<close>.\<close>

fun ends_submission :: "u64 \<Rightarrow> 'g system \<Rightarrow> system_event \<Rightarrow> bool" where
  "ends_submission n s CredentialsSaved = True"
| "ends_submission n s (Member k OpCancel) = (holder s k = Some (SubmissionToken n))"
| "ends_submission n s (Member k (OpReport r)) = (holder s k = Some (SubmissionToken n))"
| "ends_submission n s (Member k _) = False"

lemma ends_submission_calls:
  assumes "\<not> ends_submission n s ev" and "c \<in> set (event_calls ev s)"
  shows "\<not> settles n c"
proof
  assume settles: "settles n c"
  show False
  proof (cases "(ev, s)" rule: event_calls.cases)
    case (1 k op g ms)
    with assms(2) step_settles [OF _ settles, of op "(ms k)\<lparr>logon_guard := g\<rparr>"] assms(1) show False
      by (auto simp: holder_def)
  next
    case (2 s')
    with assms(1) show False by simp
  qed
qed

lemma step_holder:
  "holder (fst (system_step G ev s)) k = holder s k \<or> holder (fst (system_step G ev s)) k = None \<or>
    (\<exists>m. snd (system_step G ev s) = [(k, m)]) \<and> holder (fst (system_step G ev s)) k \<noteq> None"
proof (cases "(ev, s)" rule: event_calls.cases)
  case (1 n op g ms)
  then show ?thesis
    using step_submission [of G op "(ms n)\<lparr>logon_guard := g\<rparr>"]
    by (auto simp: holder_def split: prod.splits option.splits)
next
  case (2 s')
  then show ?thesis by (cases s') (simp add: holder_def)
qed

lemma ends_submission_mono:
  assumes "\<And>k t. holder s' k = Some t \<Longrightarrow> holder s k = Some t"
    and "\<not> ends_submission n s ev"
  shows "\<not> ends_submission n s' ev"
  using assms(2) by (cases "(n, s, ev)" rule: ends_submission.cases) (auto dest: assms(1))

section \<open>The guard's laws over the system\<close>

text \<open>Held tokens are not newer than the guard and have one holder each.\<close>

definition tokens_held :: "('g \<Rightarrow> guard_state option) \<Rightarrow> 'g system \<Rightarrow> bool" where
  "tokens_held absg s \<longleftrightarrow>
     (\<exists>b. absg (fst s) = Some b \<and>
        (\<forall>k t. holder s k = Some t \<longrightarrow> token_generation t \<le> generation b)) \<and>
     (\<forall>j k t. holder s j = Some t \<and> holder s k = Some t \<longrightarrow> j = k)"

context submission_guard
begin

text \<open>While token \<open>n\<close> waits for its result, a step that does not end its submission hands out
  nothing, leaves the guard as it is and creates no holder.\<close>

lemma system_step_blocked:
  assumes "absg (fst s) = Some \<lparr>generation = n, guard_phase = Submitted\<rparr>"
    and "\<not> ends_submission n s ev"
  shows "absg (fst (fst (system_step G ev s))) = Some \<lparr>generation = n, guard_phase = Submitted\<rparr>"
    and "snd (system_step G ev s) = []"
    and "holder (fst (system_step G ev s)) k = Some t \<Longrightarrow> holder s k = Some t"
proof -
  have calls: "\<forall>c \<in> set (event_calls ev s). \<not> settles n c"
    using ends_submission_calls [OF assms(2)] by blast
  note blocked = blocked_run [OF assms(1), of "event_calls ev s"]
  show "absg (fst (fst (system_step G ev s))) = Some \<lparr>generation = n, guard_phase = Submitted\<rparr>"
    using blocked calls by (simp add: event_guard)
  show none: "snd (system_step G ev s) = []"
    using blocked calls event_tokens [of G ev s] by simp
  show "holder s k = Some t" if "holder (fst (system_step G ev s)) k = Some t"
    using step_holder [of G ev s k] none that by auto
qed

lemma system_run_blocked:
  assumes "absg (fst s) = Some \<lparr>generation = n, guard_phase = Submitted\<rparr>"
    and "\<forall>ev \<in> set evs. \<not> ends_submission n s ev"
  shows "absg (fst (fst (system_run G evs s))) = Some \<lparr>generation = n, guard_phase = Submitted\<rparr> \<and>
    snd (system_run G evs s) = []"
  using assms
proof (induction evs arbitrary: s)
  case Nil
  then show ?case by simp
next
  case (Cons ev evs)
  have ev: "\<not> ends_submission n s ev" using Cons.prems(2) by simp
  note step = system_step_blocked [OF Cons.prems(1) ev]
  have "\<forall>e \<in> set evs. \<not> ends_submission n (fst (system_step G ev s)) e"
    using ends_submission_mono [OF step(3), where ev = _ and n = n] Cons.prems(2) by fastforce
  from Cons.IH [OF step(1) this] step(2) show ?case
    by (simp add: system_run_proj)
qed

lemma system_run_rejected:
  assumes "absg (fst s) = Some b" and "guard_phase b = Rejected res" and "CredentialsSaved \<notin> set evs"
  shows "absg (fst (fst (system_run G evs s))) = Some b \<and> snd (system_run G evs s) = []"
  using rejected_run [OF assms(1,2) system_calls_updated [OF assms(3), of G s]] system_refines [of G evs s]
  by simp

lemma tokens_held_initial: "absg g = Some b \<Longrightarrow> tokens_held absg (initial_system g vis)"
  by (simp add: tokens_held_def initial_system_def holder_def with_guard_def new_inner_def)

lemma guard_run_at_most_one:
  assumes "length cs \<le> 1" and "absg g = Some b"
  shows "\<exists>b'. absg (fst (guard_run G cs g)) = Some b' \<and> generation b \<le> generation b' \<and>
    (\<forall>k \<in> set (tokens_issued (snd (guard_run G cs g))). generation b < k \<and> k \<le> generation b')"
proof (cases cs)
  case Nil
  then show ?thesis using assms by simp
next
  case (Cons c cs')
  then have "cs = [c]" using assms(1) by simp
  then show ?thesis
    using call_generation [of c g "fst (call_guard G c g)" "snd (call_guard G c g)", OF _ assms(2)]
    by auto
qed

lemma tokens_held_step:
  assumes "tokens_held absg s"
  shows "tokens_held absg (fst (system_step G ev s))"
proof -
  let ?s' = "fst (system_step G ev s)"
  from assms obtain b where b: "absg (fst s) = Some b"
    "\<And>k t. holder s k = Some t \<Longrightarrow> token_generation t \<le> generation b"
    "\<And>j k t. holder s j = Some t \<Longrightarrow> holder s k = Some t \<Longrightarrow> j = k"
    by (auto simp: tokens_held_def)
  have len: "length (event_calls ev s) \<le> 1"
    by (cases "(ev, s)" rule: event_calls.cases)
      (simp_all add: length_guard_call_of del: guard_call_of.simps One_nat_def)
  from guard_run_at_most_one [OF len b(1)] obtain b' where b': "absg (fst ?s') = Some b'"
    "generation b \<le> generation b'"
    "\<And>k. k \<in> set (tokens_issued (snd (guard_run G (event_calls ev s) (fst s)))) \<Longrightarrow>
      generation b < k \<and> k \<le> generation b'"
    by (auto simp: event_guard)
  have new: "holder ?s' k = holder s k \<or> holder ?s' k = None \<or>
      (\<exists>m t. snd (system_step G ev s) = [(k, m)] \<and> holder ?s' k = Some t \<and>
        generation b < token_generation t \<and> token_generation t \<le> generation b')" for k
  proof -
    have "generation b < token_generation t \<and> token_generation t \<le> generation b'"
      if out: "snd (system_step G ev s) = [(k, m)]" and t: "holder ?s' k = Some t" for m t
    proof (cases "(ev, s)" rule: event_calls.cases)
      case (1 n op g ms)
      let ?p = "(ms n)\<lparr>logon_guard := g\<rparr>"
      have nk: "n = k" and "snd (provider_step G op ?p) = Some m"
        using out 1 by (auto split: prod.splits option.splits)
      moreover have "submission (inner (fst (provider_step G op ?p))) = Some t"
        using t 1 nk by (auto simp: holder_def split: prod.splits)
      ultimately have "token_generation t \<in> set (tokens_issued (snd (guard_run G (event_calls ev s) (fst s))))"
        using step_tokens [of G op ?p] 1 by (simp del: guard_call_of.simps)
      then show ?thesis by (rule b'(3))
    next
      case (2 s')
      with out show ?thesis by (cases s') simp
    qed
    then show ?thesis using step_holder [of G ev s k] by auto
  qed
  have "token_generation t \<le> generation b'" if "holder ?s' k = Some t" for k t
    using new [of k] that b(2) [of k t] b'(2) by auto
  moreover have "j = k" if "holder ?s' j = Some t" "holder ?s' k = Some t" for j k t
    using new [of j] new [of k] that b(2) [of j t] b(2) [of k t] b(3) [of j t k] by fastforce
  ultimately show ?thesis
    using b'(1) by (auto simp: tokens_held_def)
qed

lemma tokens_held_run: "tokens_held absg s \<Longrightarrow> tokens_held absg (fst (system_run G evs s))"
proof (induction evs arbitrary: s)
  case Nil
  then show ?case by simp
next
  case (Cons ev evs)
  from Cons.IH [OF tokens_held_step [OF Cons.prems]] show ?case
    by (simp add: system_run_proj)
qed

end

end
