(* ===== verification/Provider_Properties.thy ===== *)
theory Provider_Properties
  imports Provider_Sharing
begin

text \<open>
  The properties of the credential provider on the guard it uses in production (the record in the
  registry, with every Windows call allowed to fail): over any interleaving of the instances, their
  workers and the updates of the credentials.
\<close>

section \<open>Request identifiers only grow\<close>

lemma step_request_id:
  "wake_request_id (inner p) \<le> wake_request_id (inner (fst (provider_step G op p)))"
proof (cases op)
  case (OpAdvise sink ok ctxt)
  then show ?thesis
    by (auto simp: set_events_def Let_def split: prod.splits sum.splits)
next
  case OpUnAdvise
  then show ?thesis
    by (auto simp: set_events_def Let_def sat_inc_ge)
next
  case (OpBegin now limit)
  then show ?thesis
    by (auto simp: begin_wake_request_def Let_def dest: checked_inc_less
        split: prod.splits sum.splits option.splits)
next
  case (OpOutcome now k outcome number limit pending)
  then show ?thesis
    by (auto simp: apply_wake_outcome_def dest!: can_apply_wake_True can_apply_wake_False
        split: prod.splits bool.splits)
next
  case (OpTransportError now k err number limit)
  then show ?thesis
    by (auto simp: apply_wake_transport_error_def dest!: can_apply_wake_True can_apply_wake_False
        split: prod.splits bool.splits)
next
  case (OpRetry k number limit)
  then show ?thesis
    by (auto simp: mark_automatic_retry_started_def dest!: can_apply_wake_True can_apply_wake_False
        split: prod.splits bool.splits)
qed (auto simp: set_usage_scenario_def take_credential_for_submission_def Let_def
    cancel_unsubmitted_credential_def is_wake_request_current_def mark_report_result_received_def
    split: option.splits prod.splits sum.splits)

definition request_id_of :: "'g system \<Rightarrow> nat \<Rightarrow> u64" where
  "request_id_of s n = wake_request_id (inner (snd s n))"

lemma system_step_request_id: "request_id_of s n \<le> request_id_of (fst (system_step G ev s)) n"
proof (cases "(ev, s)" rule: event_calls.cases)
  case (1 k op g ms)
  then show ?thesis
    using step_request_id [of "(ms k)\<lparr>logon_guard := g\<rparr>" G op]
    by (auto simp: request_id_of_def split: prod.splits)
next
  case (2 s')
  then show ?thesis by (cases s') (simp add: request_id_of_def)
qed

lemma system_run_request_id: "request_id_of s n \<le> request_id_of (fst (system_run G evs s)) n"
proof (induction evs arbitrary: s)
  case Nil
  then show ?case by simp
next
  case (Cons ev evs)
  show ?case
    using system_step_request_id [of s n G ev] Cons.IH [of "fst (system_step G ev s)"]
    by (simp add: system_run_proj)
qed

text \<open>A worker's outcome is published only for the current request.\<close>

lemma stale_outcome:
  assumes "wake_request_id (inner p) \<noteq> k"
  shows "apply_wake_outcome G now k outcome number limit pending p = p"
    and "apply_wake_transport_error G now k err number limit p = p"
    and "mark_automatic_retry_started G k number limit p = (p, False)"
    and "is_wake_request_current G k p = (p, False)"
  using assms
  by (simp_all add: apply_wake_outcome_def apply_wake_transport_error_def
      mark_automatic_retry_started_def is_wake_request_current_def can_apply_wake_def)

lemma poisoned_step: "inner_poisoned p \<Longrightarrow> provider_step G op p = (p, None)"
  by (cases op) (auto simp: provider_op_defs)

lemma unadvise_request_id:
  "\<not> inner_poisoned p \<Longrightarrow>
    wake_request_id (inner (set_events G None ok ctxt p)) = sat_inc (wake_request_id (inner p))"
  by (simp add: set_events_def Let_def)

section \<open>Properties of the credential provider\<close>

text \<open>C2: after Windows has rejected a password, no instance of the provider hands out a password
  again, in any interleaving of their operations and whatever their workers bring, until the
  credentials are saved anew.\<close>

theorem rejection_stops_all_providers:
  assumes "registry_abs (fst s) = Some b" and "guard_phase b = Rejected res"
    and "CredentialsSaved \<notin> set evs"
  shows "snd (system_run persistent_logon_guard evs s) = [] \<and>
    registry_abs (fst (fst (system_run persistent_logon_guard evs s))) = Some b"
  using persistent.system_run_rejected [OF assms] by blast

definition sample_password :: credential_material where
  "sample_password = \<lparr>domain = ''.'', username = ''leo'', password = ''secret''\<rparr>"

definition ready_inner :: "u64 \<Rightarrow> provider_inner" where
  "ready_inner gen =
     (new_inner VisibleBeforeCredentialReady)
       \<lparr>phase := PhaseCredentialMaterialReady, material := Some sample_password,
        wake_request_id := 1, credential_generation := Some gen\<rparr>"

definition ready_system :: "registry \<Rightarrow> u64 \<Rightarrow> registry system" where
  "ready_system g gen =
     (g, \<lambda>_. \<lparr>inner_poisoned = False, inner = ready_inner gen, logon_guard = g, notified = []\<rparr>)"

theorem rejection_stops_all_providers_witness:
  "snd (system_run persistent_logon_guard [Member 0 OpTake, Member 1 OpTake, Member 0 (OpBegin 0 3)]
     (ready_system rejected_registry 7)) = []"
  using rejection_stops_all_providers [of "ready_system rejected_registry 7"
      "\<lparr>generation = 7, guard_phase = Rejected lockout_result\<rparr>" lockout_result
      "[Member 0 OpTake, Member 1 OpTake, Member 0 (OpBegin 0 3)]"]
  by (simp add: ready_system_def rejected_registry_abs)

text \<open>C8: while the result of a submission is awaited no other password leaves any instance: only
  the instance that holds the token can end it, by its report or cancellation, or an update of the
  credentials.\<close>

theorem one_password_in_flight:
  assumes "registry_abs (fst s) = Some \<lparr>generation = n, guard_phase = Submitted\<rparr>"
    and "\<forall>ev \<in> set evs. \<not> ends_submission n s ev"
  shows "snd (system_run persistent_logon_guard evs s) = [] \<and>
    registry_abs (fst (fst (system_run persistent_logon_guard evs s))) =
      Some \<lparr>generation = n, guard_phase = Submitted\<rparr>"
  using persistent.system_run_blocked [OF assms] by blast

theorem one_password_in_flight_witness:
  "snd (system_run persistent_logon_guard
     [Member 1 OpTake, Member 2 OpUnAdvise, Member 3 (OpReport no_error_result), Member 3 OpTake]
     (ready_system submitted_registry 4)) = []"
  using one_password_in_flight [of "ready_system submitted_registry 4" 4
      "[Member 1 OpTake, Member 2 OpUnAdvise, Member 3 (OpReport no_error_result), Member 3 OpTake]"]
  by (simp add: ready_system_def submitted_registry_abs holder_def ready_inner_def new_inner_def)

text \<open>From fresh instances on, in every run, each password handed out has a token of its own,
  newer than all before it, and a token is held by one instance only and never newer than the
  guard's generation.\<close>

theorem passwords_have_unique_tokens:
  assumes "registry_abs g = Some b"
    and "system_run persistent_logon_guard evs (initial_system g vis) = (s, passwords)"
    and "tokens = tokens_issued (snd (guard_run persistent_logon_guard
           (system_calls persistent_logon_guard evs (initial_system g vis)) g))"
  shows "length passwords = length tokens \<and> sorted_wrt (<) tokens \<and> tokens_held registry_abs s"
proof -
  have "length passwords = length tokens"
    using system_refines [of persistent_logon_guard evs "initial_system g vis"] assms(2,3)
    by (simp add: initial_system_def)
  moreover have "sorted_wrt (<) tokens"
    unfolding assms(3) by (rule persistent.tokens_sorted [OF assms(1)])
  moreover have "tokens_held registry_abs s"
    using persistent.tokens_held_run [OF persistent.tokens_held_initial [OF assms(1)], of evs vis] assms(2)
    by simp
  ultimately show ?thesis by simp
qed

definition fresh_registry :: registry where
  "fresh_registry = \<lparr>stored = None, outcomes = (\<lambda>_. all_calls_succeed)\<rparr>"

lemma fresh_registry_abs: "registry_abs fresh_registry = Some default_guard_state"
  by (simp add: fresh_registry_def registry_abs_def stored_abs_def)

theorem passwords_have_unique_tokens_witness:
  "tokens_held registry_abs (fst (system_run persistent_logon_guard
     [Member 0 (OpBegin 0 3), Member 1 (OpBegin 0 3),
      Member 0 (OpOutcome 0 1 (OutcomeCredentialMaterialReady session_id_for_current_process sample_password) 1 3 False),
      Member 0 OpTake, Member 1 OpTake]
     (initial_system fresh_registry (\<lambda>_. VisibleBeforeCredentialReady))))"
  using passwords_have_unique_tokens [OF fresh_registry_abs prod.collapse [symmetric] refl] by blast

text \<open>A password is handed out only in the ready phase, to the guard it was fetched under: the
  guard is ready at exactly the generation captured when the wake request began, the submission is
  recorded before the password leaves, and the material is gone from the state.\<close>

theorem handed_out_password_is_reserved:
  assumes "take_credential_for_submission persistent_logon_guard p = (p', Some m)"
  shows "phase (inner p) = PhaseCredentialMaterialReady \<and> material (inner p) = Some m \<and>
    material (inner p') = None \<and> phase (inner p') = PhaseAwaitingWindowsResult \<and>
    (\<exists>gen t. credential_generation (inner p) = Some gen \<and>
      registry_abs (logon_guard p) = Some \<lparr>generation = gen, guard_phase = Ready\<rparr> \<and>
      submission (inner p') = Some t \<and> gen < token_generation t \<and>
      registry_abs (logon_guard p') = Some \<lparr>generation = token_generation t, guard_phase = Submitted\<rparr>)"
  using assms
  by (auto simp: take_credential_for_submission_def Let_def dest: persistent.reserve_ok
      split: if_splits option.splits prod.splits sum.splits)

definition ready_provider :: "registry provider" where
  "ready_provider =
     \<lparr>inner_poisoned = False, inner = ready_inner 0, logon_guard = fresh_registry, notified = []\<rparr>"

lemma fresh_reserve:
  "g_reserve persistent_logon_guard 0 fresh_registry =
     (\<lparr>stored = Some (reg_binary, encode_guard \<lparr>generation = 1, guard_phase = Submitted\<rparr>),
       outcomes = (\<lambda>_. all_calls_succeed)\<rparr>, Inr (SubmissionToken 1))"
  by (simp add: persistent_logon_guard_def with_registry_def transaction_def fresh_registry_def
      all_calls_succeed_def reg_query_value_def reserve_def ready_generation_def advance_def
      default_guard_state_def checked_inc_def Let_def)

theorem handed_out_password_is_reserved_witness:
  "take_credential_for_submission persistent_logon_guard ready_provider =
     (fst (take_credential_for_submission persistent_logon_guard ready_provider), Some sample_password) \<and>
   phase (inner (fst (take_credential_for_submission persistent_logon_guard ready_provider))) =
     PhaseAwaitingWindowsResult"
proof
  show take: "take_credential_for_submission persistent_logon_guard ready_provider =
     (fst (take_credential_for_submission persistent_logon_guard ready_provider), Some sample_password)"
    by (simp add: take_credential_for_submission_def ready_provider_def ready_inner_def fresh_reserve Let_def)
  show "phase (inner (fst (take_credential_for_submission persistent_logon_guard ready_provider))) =
     PhaseAwaitingWindowsResult"
    using handed_out_password_is_reserved [OF take] by blast
qed

text \<open>Once \<open>UnAdvise\<close> has withdrawn the event sink, whatever worker was running for that
  instance can publish nothing any more: after any interleaving its outcome, its transport error
  and its retry leave the instance unchanged, and it finds itself not current.\<close>

theorem withdrawn_worker_publishes_nothing:
  assumes "request_id_of s n \<noteq> - 1" and "k \<le> request_id_of s n"
    and "fst (system_run G evs (fst (system_step G (Member n OpUnAdvise) s))) = (g, ms)"
    and "\<not> inner_poisoned (snd s n)"
  shows "apply_wake_outcome G now k outcome number limit pending (ms n) = ms n \<and>
    apply_wake_transport_error G now k err number limit (ms n) = ms n \<and>
    mark_automatic_retry_started G k number limit (ms n) = (ms n, False) \<and>
    is_wake_request_current G k (ms n) = (ms n, False)"
proof -
  have "request_id_of (fst (system_step G (Member n OpUnAdvise) s)) n = sat_inc (request_id_of s n)"
    using assms(4) unadvise_request_id [of "(snd s n)\<lparr>logon_guard := fst s\<rparr>" G True 0]
    by (cases s) (simp add: request_id_of_def)
  then have "sat_inc (request_id_of s n) \<le> wake_request_id (inner (ms n))"
    using system_run_request_id [of "fst (system_step G (Member n OpUnAdvise) s)" n G evs] assms(3)
    by (simp add: request_id_of_def)
  then have "wake_request_id (inner (ms n)) \<noteq> k"
    using sat_inc_gr [OF assms(1)] assms(2) by (auto simp: not_le [symmetric])
  then show ?thesis by (simp add: stale_outcome)
qed

theorem withdrawn_worker_publishes_nothing_witness:
  "apply_wake_outcome persistent_logon_guard 0 1
     (OutcomeCredentialMaterialReady session_id_for_current_process sample_password) 1 3 False
     (snd (fst (system_step persistent_logon_guard (Member 0 OpUnAdvise) (ready_system fresh_registry 0))) 0) =
   snd (fst (system_step persistent_logon_guard (Member 0 OpUnAdvise) (ready_system fresh_registry 0))) 0"
proof -
  let ?s = "fst (system_step persistent_logon_guard (Member 0 OpUnAdvise) (ready_system fresh_registry 0))"
  have "fst (system_run persistent_logon_guard [] ?s) = (fst ?s, snd ?s)"
    by simp
  from withdrawn_worker_publishes_nothing [OF _ _ this, of 1 0
      "OutcomeCredentialMaterialReady session_id_for_current_process sample_password" 1 3 False]
  show ?thesis
    by (simp add: request_id_of_def ready_system_def ready_inner_def)
qed

lemma system_step_inv:
  "\<forall>n. provider_inv (inner (snd s n)) \<Longrightarrow>
    \<forall>n. provider_inv (inner (snd (fst (system_step G ev s)) n))"
proof (cases "(ev, s)" rule: event_calls.cases)
  case (1 n op g ms)
  assume "\<forall>n. provider_inv (inner (snd s n))"
  then show ?thesis
    using 1 step_inv [of "(ms n)\<lparr>logon_guard := g\<rparr>" G op] by (auto split: prod.splits)
next
  case (2 s')
  assume "\<forall>n. provider_inv (inner (snd s n))"
  with 2 show ?thesis by (cases s') simp
qed

lemma system_run_inv:
  "\<forall>n. provider_inv (inner (snd s n)) \<Longrightarrow>
    \<forall>n. provider_inv (inner (snd (fst (system_run G evs s)) n))"
proof (induction evs arbitrary: s)
  case Nil
  then show ?case by simp
next
  case (Cons ev evs)
  from Cons.IH [OF system_step_inv [OF Cons.prems]] show ?case
    by (simp add: system_run_proj)
qed

text \<open>Every instance of a system of fresh instances stays consistent, whatever the
  interleaving and the guard: a ready phase has its password and its generation, and a token is
  held exactly while the result of Windows is awaited.\<close>

theorem members_stay_consistent:
  "provider_inv (inner (snd (fst (system_run G evs (initial_system g vis))) n))"
  using system_run_inv [of "initial_system g vis" G evs]
  by (simp add: initial_system_def with_guard_def provider_inv_new)

end
