(* ===== verification/Wake_Properties.thy ===== *)
theory Wake_Properties
  imports Wake_Bounds Provider_Properties Service_Properties
begin

text \<open>
  The properties of the worker and of the client of the service: the bounds on what they ask, what
  a worker publishes, and that a sign-in works end to end, from the request handler of the service
  to the ready phase of the provider.
\<close>

section \<open>A worker alone with its provider\<close>

text \<open>The operations of \<open>request_wake_in_background\<close> on a provider's state and a pipe, with no
  other thread in between.\<close>

definition direct_worker ::
  "'g guard_ops \<Rightarrow> 'w pipe_request \<Rightarrow> (protected_credential_material \<Rightarrow> protocol_error + credential_material) \<Rightarrow>
     auth_source \<Rightarrow> auth_trigger_source \<Rightarrow> i64 \<Rightarrow> ('g provider \<times> 'w) worker_ops" where
  "direct_worker G ask unprotect src trigger now =
     \<lparr>w_last_input = (\<lambda>s. (s, None)),
      w_has_sink = (\<lambda>(p, w). ((p, w), has_events_sink p)),
      w_begin = (\<lambda>limit (p, w). case begin_wake_request G now limit p of (p1, r) \<Rightarrow> ((p1, w), r)),
      w_current = (\<lambda>k (p, w). case is_wake_request_current G k p of (p1, r) \<Rightarrow> ((p1, w), r)),
      w_mark_retry = (\<lambda>k number limit (p, w).
        case mark_automatic_retry_started G k number limit p of (p1, r) \<Rightarrow> ((p1, w), r)),
      w_broker = (\<lambda>sid (p, w).
        case wake_and_fetch_credential_material ask unprotect src sid trigger w of
          (w1, r) \<Rightarrow> ((p, w1), r)),
      w_apply_outcome = (\<lambda>k outcome number limit pending (p, w).
        (apply_wake_outcome G now k outcome number limit pending p, w)),
      w_apply_error = (\<lambda>k e number limit (p, w).
        (apply_wake_transport_error G now k e number limit p, w))\<rparr>"

lemma direct_worker_simps [simp]:
  "w_last_input (direct_worker G ask unprotect src trigger now) s = (s, None)"
  "w_has_sink (direct_worker G ask unprotect src trigger now) (p, w) = ((p, w), has_events_sink p)"
  "w_begin (direct_worker G ask unprotect src trigger now) limit (p, w) =
     (case begin_wake_request G now limit p of (p1, r) \<Rightarrow> ((p1, w), r))"
  "w_current (direct_worker G ask unprotect src trigger now) k (p, w) =
     (case is_wake_request_current G k p of (p1, c) \<Rightarrow> ((p1, w), c))"
  "w_broker (direct_worker G ask unprotect src trigger now) sid (p, w) =
     (case wake_and_fetch_credential_material ask unprotect src sid trigger w of (w1, r') \<Rightarrow> ((p, w1), r'))"
  "w_apply_outcome (direct_worker G ask unprotect src trigger now) k outcome number limit pending (p, w) =
     (apply_wake_outcome G now k outcome number limit pending p, w)"
  by (simp_all add: direct_worker_def)

lemma broker_password:
  assumes "issue_auth_grant I sid src trigger t (grant_issuer h) = (i, Issued g)"
    and "Protocol.session_id g = sid" and "issued_at_unix_ms g \<le> t" and "t < expires_at_unix_ms g"
    and "Service_Handler.grant_registry h (grant_id g) = None"
    and "\<And>r. snd (resolve_protected_credential_material R g r) = Inr m"
    and "unprotect m = Inr c"
  shows "snd (wake_and_fetch_credential_material (pipe_to I R t) unprotect src sid trigger h) =
    Inr (OutcomeCredentialMaterialReady sid c)"
proof -
  let ?m0 = "remove_expired_grants t (Service_Handler.grant_registry h)"
  have none: "?m0 (grant_id g) = None" "remove_expired_grants t ?m0 (grant_id g) = None"
    using assms(5) by (simp_all add: remove_expired_grants_def retain_def)
  have insert: "insert_issued_grant g t ?m0 =
      ((remove_expired_grants t ?m0)(grant_id g \<mapsto> \<lparr>grant = g, redemption_state = Available\<rparr>), Inr ())"
    using assms(3,4) none
    by (simp add: insert_issued_grant_def Let_def has_valid_time_window_def is_expired_at_def)
  obtain h1 where wake: "handle_request I R (\<lambda>_. t) (WakeAuth sid src trigger) h = (h1, Inr (AuthSucceeded g))"
    and h1: "Service_Handler.grant_registry h1 (grant_id g) = Some \<lparr>grant = g, redemption_state = Available\<rparr>"
    using assms(1) insert
    by (simp add: handle_request_def begin_request_def handle_wake_auth_def insert_grant_def
        remove_pending_def)
  have "\<exists>m'. redeem_grant_for_session (grant_id g) (nonce g) sid t
      (Service_Handler.grant_registry (begin_request t h1)) = (m', Inr g)"
    using h1 assms(2,4)
    by (simp add: redeem_grant_for_session_def begin_request_def remove_expired_grants_def
        retain_def is_expired_at_def)
  then have "snd (handle_request I R (\<lambda>_. t) (FetchCredentialMaterial sid (grant_id g) (nonce g)) h1) =
      Inr (CredentialMaterialReady (grant_id g) m)"
    using assms(6) by (auto simp: handle_request_def snd_resolver_call)
  then obtain h2 where fetch: "handle_request I R (\<lambda>_. t) (FetchCredentialMaterial sid (grant_id g) (nonce g)) h1 =
      (h2, Inr (CredentialMaterialReady (grant_id g) m))"
    by (metis prod.collapse)
  show ?thesis
    using wake fetch assms(2,7)
    by (simp add: wake_and_fetch_credential_material_def fetch_for_grant_def pipe_to_def
        serve_request_def Let_def)
qed

section \<open>A concrete sign-in\<close>

definition sample_unprotect :: "protected_credential_material \<Rightarrow> protocol_error + credential_material" where
  "sample_unprotect = unprotect_credential_material (\<lambda>bytes. Inr bytes)
     (\<lambda>bytes. Some (map (\<lambda>b. char_of (unat b)) bytes))"

definition sample_worker :: "(registry provider \<times> (simulated_issuer, unit) handler) worker_ops" where
  "sample_worker = direct_worker persistent_logon_guard
     (pipe_to simulated_auth_issuer sample_resolver 1000) sample_unprotect ManualTest
     CredentialScreenEntered 0"

definition advised_provider :: "registry provider" where
  "advised_provider =
     (with_guard VisibleBeforeCredentialReady fresh_registry)
       \<lparr>inner := (new_inner VisibleBeforeCredentialReady)\<lparr>events := Some 1, advise_context := 7\<rparr>\<rparr>"

section \<open>Properties of the worker\<close>

text \<open>C37: a worker that starts at once with a number of attempts (the one of a selected credential) ends,
  whatever its environment does, with at most twenty calls of the client for each attempt: a fuel above
  the attempt limit is enough. A worker that waits for input may go on and begin again, and one without
  a limit try again, as long as its provider is advised; but every worker, of any policies, ends when
  its event sink is taken away: if that happens within \<open>d\<close> of its operations, a fuel above \<open>d + 1\<close> is
  enough.\<close>

theorem every_worker_ends:
  "(\<forall>limit fuel w. unat limit < fuel \<longrightarrow>
      (\<exists>w' tr. request_wake_in_background W Immediate (Finite limit) (Suc fuel) w = Some (w', tr) \<and>
         asked tr \<le> transport_wake_attempt_limit * unat limit)) \<and>
   (\<forall>P d w fuel start policy. sink_gone_within W P \<and> P d w \<and> Suc d < fuel \<longrightarrow>
      (\<exists>w' tr. request_wake_in_background W start policy fuel w = Some (w', tr)))"
proof (intro conjI allI impI)
  fix P d w fuel start policy assume a: "sink_gone_within W P \<and> P d w \<and> Suc d < fuel"
  then have "left_over P d w" unfolding left_over_def by blast
  show "\<exists>w' tr. request_wake_in_background W start policy fuel w = Some (w', tr)"
    by (rule worker_ends_without_sink [of W P d w fuel start policy]) (use a \<open>left_over P d w\<close> in simp_all)
qed (rule worker_ends)

text \<open>A worker whose provider is unadvised after some operations, of a user who gives no input.\<close>

definition unadvised_worker :: "'w worker_ops \<Rightarrow> ('w \<times> nat) worker_ops" where
  "unadvised_worker W =
     \<lparr>w_last_input = (\<lambda>(w, n). ((w, n - 1), Some 0)),
      w_has_sink = (\<lambda>(w, n). case w_has_sink W w of (w1, b) \<Rightarrow> ((w1, n - 1), b \<and> 0 < n)),
      w_begin = (\<lambda>limit (w, n). case w_begin W limit w of (w1, r) \<Rightarrow> ((w1, n - 1), r)),
      w_current = (\<lambda>k (w, n). case w_current W k w of (w1, r) \<Rightarrow> ((w1, n - 1), r)),
      w_mark_retry = (\<lambda>k number limit (w, n). case w_mark_retry W k number limit w of (w1, r) \<Rightarrow> ((w1, n - 1), r)),
      w_broker = (\<lambda>sid (w, n). case w_broker W sid w of (w1, r) \<Rightarrow> ((w1, n - 1), r)),
      w_apply_outcome = (\<lambda>k outcome number limit pending (w, n).
        (w_apply_outcome W k outcome number limit pending w, n - 1)),
      w_apply_error = (\<lambda>k e number limit (w, n). (w_apply_error W k e number limit w, n - 1))\<rparr>"

lemma unadvised_gone: "sink_gone_within (unadvised_worker W) (\<lambda>d (w, n). n \<le> d)"
  unfolding sink_gone_within_def
  by (auto simp: unadvised_worker_def split: prod.split)

theorem every_worker_ends_witness:
  "(\<exists>w' tr. request_wake_in_background sample_worker Immediate (Finite automatic_wake_attempt_limit)
      (Suc 4) (advised_provider, sample_handler) = Some (w', tr) \<and>
    asked tr \<le> transport_wake_attempt_limit * unat automatic_wake_attempt_limit) \<and>
   (\<exists>w' tr. request_wake_in_background (unadvised_worker sample_worker) WaitForUserInputAfterAdvise
      (Finite automatic_wake_attempt_limit) 1000 ((advised_provider, sample_handler), 100) = Some (w', tr))"
proof
  show "\<exists>w' tr. request_wake_in_background sample_worker Immediate (Finite automatic_wake_attempt_limit)
      (Suc 4) (advised_provider, sample_handler) = Some (w', tr) \<and>
    asked tr \<le> transport_wake_attempt_limit * unat automatic_wake_attempt_limit"
    using conjunct1 [OF every_worker_ends [of sample_worker], rule_format, of automatic_wake_attempt_limit 4]
    by (simp add: automatic_wake_attempt_limit_def)
  show "\<exists>w' tr. request_wake_in_background (unadvised_worker sample_worker) WaitForUserInputAfterAdvise
      (Finite automatic_wake_attempt_limit) 1000 ((advised_provider, sample_handler), 100) = Some (w', tr)"
  proof -
    have "sink_gone_within (unadvised_worker sample_worker) (\<lambda>d (w, n). n \<le> d) \<and>
        (\<lambda>d (w, n). n \<le> d) (100 :: nat) ((advised_provider, sample_handler), 100) \<and> Suc 100 < (1000 :: nat)"
      using unadvised_gone by simp
    from conjunct2 [OF every_worker_ends [of "unadvised_worker sample_worker"], rule_format, OF this]
    show ?thesis .
  qed
qed

text \<open>Whatever its environment does, a worker that has ended published at most one password,
  as its very last act, and everything it asked and published was for the request it had begun
  last.\<close>

theorem worker_publishes_password_last:
  assumes "request_wake_in_background W start policy fuel w = Some (w', tr)"
  shows "attributed None tr \<and> (\<forall>e \<in> set (butlast tr). \<not> publishes_material e)"
  using worker_trace [OF assms] by blast

theorem worker_publishes_password_last_witness:
  "\<exists>w' tr. request_wake_in_background sample_worker Immediate (Finite 3) (Suc 4)
      (advised_provider, sample_handler) = Some (w', tr) \<and>
    attributed None tr \<and> (\<forall>e \<in> set (butlast tr). \<not> publishes_material e)"
proof -
  obtain w' tr where run: "request_wake_in_background sample_worker Immediate (Finite 3) (Suc 4)
      (advised_provider, sample_handler) = Some (w', tr)"
    using worker_ends [of 3 4 sample_worker "(advised_provider, sample_handler)"] by auto
  from worker_publishes_password_last [OF run] run show ?thesis by blast
qed

text \<open>C36: a worker makes at most 82 requests to the service for each of its calls of the client (one to
  wake, eighty for the result, one for the credential), whatever the answers are. A worker with a number
  of attempts calls the client at most twenty times for each of them, and begins them anew only with a
  new request; one that starts at once begins one request, so that with the limit of three attempts it
  makes at most 4920 requests.\<close>

theorem broker_requests_bounded:
  assumes "request_wake_in_background (counting_worker W ask unprotect src trigger) start policy fuel (w, n) =
      Some ((w', n'), tr)"
  shows "n' \<le> n + 82 * asked tr \<and>
    (\<forall>limit. policy = Finite limit \<longrightarrow>
       asked tr \<le> transport_wake_attempt_limit * unat limit * length (filter begins tr) \<and>
       (start = Immediate \<longrightarrow> length (filter begins tr) \<le> 1 \<and> n' \<le> n + 82 * 20 * unat limit))"
proof -
  have n: "n' \<le> n + 82 * asked tr" using counting.worker_spent [OF assms] by simp
  have "asked tr \<le> 20 * unat limit * length (filter begins tr) \<and>
       (start = Immediate \<longrightarrow> length (filter begins tr) \<le> 1 \<and> n' \<le> n + 82 * 20 * unat limit)"
    if "policy = Finite limit" for limit
  proof -
    have a: "asked tr \<le> 20 * unat limit * length (filter begins tr)"
      and b: "start = Immediate \<longrightarrow> length (filter begins tr) \<le> 1"
      using worker_asked [OF assms [unfolded that]] by (simp_all add: transport_wake_attempt_limit_def)
    have "asked tr \<le> 20 * unat limit" if "start = Immediate"
    proof -
      have "20 * unat limit * length (filter begins tr) \<le> 20 * unat limit * 1"
        by (rule mult_le_mono2) (use b that in simp)
      from order_trans [OF a this] show ?thesis by simp
    qed
    then show ?thesis using a b n by fastforce
  qed
  then show ?thesis using n by (simp add: transport_wake_attempt_limit_def)
qed

theorem broker_requests_bounded_witness:
  "\<exists>w' n' tr. request_wake_in_background
      (counting_worker sample_worker
        (\<lambda>req (p, h). case pipe_to simulated_auth_issuer sample_resolver 1000 req h of (h1, r) \<Rightarrow> ((p, h1), r))
        sample_unprotect ManualTest CredentialScreenEntered)
      Immediate (Finite automatic_wake_attempt_limit) (Suc 4) ((advised_provider, sample_handler), 0) =
      Some ((w', n'), tr) \<and> n' \<le> 4920"
proof -
  let ?W = "counting_worker sample_worker
        (\<lambda>req (p, h). case pipe_to simulated_auth_issuer sample_resolver 1000 req h of (h1, r) \<Rightarrow> ((p, h1), r))
        sample_unprotect ManualTest CredentialScreenEntered"
  obtain w' n' tr where r: "request_wake_in_background ?W Immediate (Finite automatic_wake_attempt_limit) (Suc 4)
      ((advised_provider, sample_handler), 0) = Some ((w', n'), tr)"
    using worker_ends [of automatic_wake_attempt_limit 4 ?W "((advised_provider, sample_handler), 0)"]
    by (auto simp: automatic_wake_attempt_limit_def)
  have "n' \<le> 0 + 82 * 20 * unat automatic_wake_attempt_limit"
    using broker_requests_bounded [OF r] by blast
  then show ?thesis using r by (auto simp: automatic_wake_attempt_limit_def)
qed

text \<open>Over the service's request handler, when the issuer grants the request with a fresh grant
  for that session and the resolver has the credential, the client obtains the password.\<close>

theorem broker_obtains_password:
  assumes "issue_auth_grant I sid src trigger t (grant_issuer h) = (i, Issued g)"
    and "Protocol.session_id g = sid" and "issued_at_unix_ms g \<le> t" and "t < expires_at_unix_ms g"
    and "Service_Handler.grant_registry h (grant_id g) = None"
    and "\<And>r. snd (resolve_protected_credential_material R g r) = Inr m"
    and "unprotect m = Inr c"
  shows "snd (wake_and_fetch_credential_material (pipe_to I R t) unprotect src sid trigger h) =
    Inr (OutcomeCredentialMaterialReady sid c)"
  using assms by (rule broker_password)

theorem broker_obtains_password_witness:
  "snd (wake_and_fetch_credential_material (pipe_to simulated_auth_issuer sample_resolver 1000) sample_unprotect
      ManualTest (SessionId ''s'') CredentialScreenEntered sample_handler) =
    Inr (OutcomeCredentialMaterialReady (SessionId ''s'')
      \<lparr>domain = ''.'', username = ''leo'', password = [char_of (1::nat), char_of (2::nat), char_of (3::nat)]\<rparr>)"
  by (rule broker_obtains_password [where m = sample_material
        and g = "simulated_grant (SessionId ''s'') ManualTest 1000 (for_user (UserId ''user-1''))"
        and i = "(for_user (UserId ''user-1''))\<lparr>next_grant_sequence := 2\<rparr>"])
    (simp_all add: simulated_issue_def sample_handler_def new_handler_def for_user_def
      sat_inc_def simulated_grant_def Let_def i64_add_def wrap_i64_def default_grant_ttl_ms_def
      sample_resolver_def sample_unprotect_def unprotect_credential_material_def sample_material_def)

text \<open>C32: a sign-in works end to end: from a provider with its event sink, no attempt in its way
  and a guard that is ready, when the client obtains a password the worker ends with the provider
  in the ready phase, holding that password under the guard's generation, and Windows is told
  once.\<close>

theorem sign_in_reaches_ready:
  assumes "\<not> inner_poisoned p" and "events (inner p) = Some sink" and "phase (inner p) = ProviderLoaded"
    and "material (inner p) = None" and "wake_request_id (inner p) \<noteq> - 1"
    and "g_ready G (logon_guard p) = (logon_guard p, Inr gen)"
    and "wake_and_fetch_credential_material ask unprotect src session_id_for_current_process trigger w =
      (w', Inr (OutcomeCredentialMaterialReady sid c))"
    and "0 < limit"
  shows "\<exists>p' tr. request_wake_in_background (direct_worker G ask unprotect src trigger now) Immediate
      (Finite limit) (Suc (Suc fuel)) (p, w) = Some ((p', w'), tr) \<and>
    phase (inner p') = PhaseCredentialMaterialReady \<and> material (inner p') = Some c \<and>
    credential_generation (inner p') = Some gen \<and>
    notified p' = notified p @ [(sink, advise_context (inner p))]"
proof -
  let ?W = "direct_worker G ask unprotect src trigger now"
  let ?k = "wake_request_id (inner p) + 1"
  let ?p1 = "p\<lparr>inner := (inner p)\<lparr>phase := WakeRequested 1 limit, wake_request_id := ?k,
      credential_generation := Some gen\<rparr>\<rparr>"
  have begun: "begin_wake_request G now limit p = (?p1, WakeStarted session_id_for_current_process ?k)"
    using assms(1-6) by (simp add: begin_wake_request_def Let_def checked_inc_def)
  have sink: "has_events_sink ?p1"
    using assms(1,2) by (simp add: has_events_sink_def)
  have can: "can_apply_wake G ?k ?p1 = (?p1, True)"
    using assms(6) by (simp add: can_apply_wake_def)
  have "transport_retry ?W (Suc 19) ?k session_id_for_current_process (?p1, w) =
      ((?p1, w'), Inr (OutcomeCredentialMaterialReady sid c), [AskedService ?k])"
    using assms(1,7) can
    by (simp only: transport_retry.simps direct_worker_simps) (simp add: is_wake_request_current_def)
  then have retry: "transport_retry ?W transport_wake_attempt_limit ?k session_id_for_current_process (?p1, w) =
      ((?p1, w'), Inr (OutcomeCredentialMaterialReady sid c), [AskedService ?k])"
    by (simp add: transport_wake_attempt_limit_def)
  have "(1 :: u32) \<le> limit"
    using assms(8) by (simp add: word_le_nat_alt word_less_nat_alt)
  then have attempt: "wake_attempt ?W (Finite limit) ?k session_id_for_current_process 1 (?p1, w) =
      ((apply_wake_outcome G now ?k (OutcomeCredentialMaterialReady sid c) 1 limit False ?p1, w'),
       Some True, [AskedService ?k, PublishedOutcome ?k (OutcomeCredentialMaterialReady sid c) 1 False])"
    using retry sink
    by (simp add: wake_attempt_def configured_attempt_limit_def announce_attempt_def Let_def)
  have applied: "apply_wake_outcome G now ?k (OutcomeCredentialMaterialReady sid c) 1 limit False ?p1 =
      notify_credentials_changed
        (?p1\<lparr>inner := record_credential_material_ready_locked c (inner ?p1)\<rparr>)"
    using can assms(1) by (simp add: apply_wake_outcome_def)
  show ?thesis
    using begun attempt assms(1,2)
    by (simp add: wait_for_wake_start_policy_def configured_attempt_limit_def applied
        notify_credentials_changed_def record_credential_material_ready_locked_def)
qed

lemma fresh_ready:
  "g_ready persistent_logon_guard fresh_registry = (fresh_registry, Inr 0)"
  by (simp add: persistent_logon_guard_def with_registry_def transaction_def fresh_registry_def
      all_calls_succeed_def reg_query_value_def ready_generation_def default_guard_state_def Let_def)

theorem sign_in_reaches_ready_witness:
  "\<exists>p' w' tr c. request_wake_in_background sample_worker Immediate (Finite 3) (Suc (Suc 0))
      (advised_provider, sample_handler) = Some ((p', w'), tr) \<and>
    material (inner p') = Some c \<and> notified p' = [(1, 7)]"
proof -
  let ?sid = session_id_for_current_process
  let ?g = "simulated_grant ?sid ManualTest 1000 (for_user (UserId ''user-1''))"
  let ?c = "\<lparr>domain = ''.'', username = ''leo'', password = [char_of (1::nat), char_of (2::nat), char_of (3::nat)]\<rparr>"
  have "snd (wake_and_fetch_credential_material (pipe_to simulated_auth_issuer sample_resolver 1000)
      sample_unprotect ManualTest ?sid CredentialScreenEntered sample_handler) =
    Inr (OutcomeCredentialMaterialReady ?sid ?c)"
    by (rule broker_password [where g = ?g and m = sample_material
        and i = "(for_user (UserId ''user-1''))\<lparr>next_grant_sequence := 2\<rparr>"])
      (simp_all add: simulated_issue_def sample_handler_def new_handler_def for_user_def
        sat_inc_def simulated_grant_def Let_def i64_add_def wrap_i64_def default_grant_ttl_ms_def
        sample_resolver_def sample_unprotect_def unprotect_credential_material_def sample_material_def)
  then obtain w' where "wake_and_fetch_credential_material (pipe_to simulated_auth_issuer sample_resolver 1000)
      sample_unprotect ManualTest ?sid CredentialScreenEntered sample_handler =
    (w', Inr (OutcomeCredentialMaterialReady ?sid ?c))"
    by (metis prod.collapse)
  from sign_in_reaches_ready [OF _ _ _ _ _ _ this, of advised_provider 1 persistent_logon_guard 0 3 0 0]
  show ?thesis
    by (auto simp: advised_provider_def with_guard_def new_inner_def fresh_ready sample_worker_def)
qed

end
