(* ===== verification/Presence_Policy.thy ===== *)
theory Presence_Policy
  imports F32
begin

text \<open>
  Crate \<open>win_service\<close>, \<open>src/presence_policy.rs\<close>: the counters that decide when an absent or unknown
  person locks the workstation. The specification is by history: every counter is the length of
  the run of its observation at the end of the observations so far, where a camera that is not
  available counts for nothing.
\<close>

section \<open>The policy\<close>

record presence_policy_config =
  presence_stable_initial_interval_ms :: u64
  presence_stable_second_interval_ms :: u64
  presence_stable_max_interval_ms :: u64
  presence_no_face_suspect_interval_ms :: u64
  presence_unknown_face_suspect_interval_ms :: u64
  presence_no_face_required_count :: u32
  presence_unknown_face_required_count :: u32
  presence_owner_match_threshold :: f32
  presence_person_suspect_interval_ms :: u64
  presence_person_absent_required_frames :: u32

definition default_presence_policy_config :: presence_policy_config where
  "default_presence_policy_config =
     \<lparr>presence_stable_initial_interval_ms = 10000,
      presence_stable_second_interval_ms = 30000,
      presence_stable_max_interval_ms = 60000,
      presence_no_face_suspect_interval_ms = 10000,
      presence_unknown_face_suspect_interval_ms = 1000,
      presence_no_face_required_count = 3,
      presence_unknown_face_required_count = 3,
      presence_owner_match_threshold = F32 0x3F000000,
      presence_person_suspect_interval_ms = 1000,
      presence_person_absent_required_frames = 3\<rparr>"

datatype presence_monitor_state =
    StableOwnerPresent
  | NoFaceSuspect
  | UnknownFaceSuspect
  | StatePersonPresent
  | PersonAbsenceSuspect
  | StateLockRequested
  | StateCameraUnavailable

datatype presence_observation =
    OwnerPresent f32
  | ObsNoFaceDetected
  | UnknownFace f32
  | PersonPresent f32 f32 f32
  | PersonAbsent
  | CameraUnavailable

datatype presence_lock_reason = ConsecutiveNoFace | ConsecutiveUnknownFace | PersonLeftFrame

record presence_policy_decision =
  monitor_state :: presence_monitor_state
  next_check_interval_ms :: u64
  owner_match_score :: "f32 option"
  d_no_face_consecutive_count :: u32
  d_unknown_face_consecutive_count :: u32
  unknown_face_audit_capture_requested :: bool
  lock_requested :: bool
  lock_reason :: "presence_lock_reason option"

record presence_policy =
  config :: presence_policy_config
  stable_owner_observation_count :: u32
  no_face_consecutive_count :: u32
  unknown_face_consecutive_count :: u32
  unknown_face_audit_already_requested :: bool
  person_present_consecutive_count :: u32
  person_absent_consecutive_count :: u32

definition new_policy :: "presence_policy_config \<Rightarrow> presence_policy" where
  "new_policy cfg =
     \<lparr>config = cfg, stable_owner_observation_count = 0, no_face_consecutive_count = 0,
      unknown_face_consecutive_count = 0, unknown_face_audit_already_requested = False,
      person_present_consecutive_count = 0, person_absent_consecutive_count = 0\<rparr>"

definition reset_person_departure_state :: "presence_policy \<Rightarrow> presence_policy" where
  "reset_person_departure_state p =
     p\<lparr>person_present_consecutive_count := 0, person_absent_consecutive_count := 0\<rparr>"

definition stable_next_interval_ms :: "presence_policy_config \<Rightarrow> u32 \<Rightarrow> u64" where
  "stable_next_interval_ms cfg count =
     (if count = 0 \<or> count = 1 then presence_stable_initial_interval_ms cfg
      else if count = 2 then presence_stable_second_interval_ms cfg
      else presence_stable_max_interval_ms cfg)"

definition record_owner_present :: "f32 \<Rightarrow> presence_policy \<Rightarrow> presence_policy \<times> presence_policy_decision" where
  "record_owner_present match_score p0 =
     (let p = reset_person_departure_state
                (p0\<lparr>stable_owner_observation_count := sat_inc (stable_owner_observation_count p0),
                    no_face_consecutive_count := 0, unknown_face_consecutive_count := 0,
                    unknown_face_audit_already_requested := False\<rparr>)
      in (p, \<lparr>monitor_state = StableOwnerPresent,
              next_check_interval_ms =
                stable_next_interval_ms (config p) (stable_owner_observation_count p),
              owner_match_score = Some match_score,
              d_no_face_consecutive_count = no_face_consecutive_count p,
              d_unknown_face_consecutive_count = unknown_face_consecutive_count p,
              unknown_face_audit_capture_requested = False,
              lock_requested = False, lock_reason = None\<rparr>))"

definition record_no_face :: "presence_policy \<Rightarrow> presence_policy \<times> presence_policy_decision" where
  "record_no_face p0 =
     (let p = reset_person_departure_state
                (p0\<lparr>stable_owner_observation_count := 0,
                    no_face_consecutive_count := sat_inc (no_face_consecutive_count p0),
                    unknown_face_consecutive_count := 0,
                    unknown_face_audit_already_requested := False\<rparr>);
          locks = (no_face_consecutive_count p \<ge> presence_no_face_required_count (config p))
      in (p, \<lparr>monitor_state = (if locks then StateLockRequested else NoFaceSuspect),
              next_check_interval_ms = presence_no_face_suspect_interval_ms (config p),
              owner_match_score = None,
              d_no_face_consecutive_count = no_face_consecutive_count p,
              d_unknown_face_consecutive_count = unknown_face_consecutive_count p,
              unknown_face_audit_capture_requested = False,
              lock_requested = locks,
              lock_reason = (if locks then Some ConsecutiveNoFace else None)\<rparr>))"

definition record_unknown_face :: "f32 \<Rightarrow> presence_policy \<Rightarrow> presence_policy \<times> presence_policy_decision" where
  "record_unknown_face match_score p0 =
     (let p1 = reset_person_departure_state
                 (p0\<lparr>stable_owner_observation_count := 0, no_face_consecutive_count := 0,
                     unknown_face_consecutive_count := sat_inc (unknown_face_consecutive_count p0)\<rparr>);
          audit = (\<not> unknown_face_audit_already_requested p1);
          p = p1\<lparr>unknown_face_audit_already_requested := True\<rparr>;
          locks = (unknown_face_consecutive_count p \<ge> presence_unknown_face_required_count (config p))
      in (p, \<lparr>monitor_state = (if locks then StateLockRequested else UnknownFaceSuspect),
              next_check_interval_ms = presence_unknown_face_suspect_interval_ms (config p),
              owner_match_score = Some match_score,
              d_no_face_consecutive_count = no_face_consecutive_count p,
              d_unknown_face_consecutive_count = unknown_face_consecutive_count p,
              unknown_face_audit_capture_requested = audit,
              lock_requested = locks,
              lock_reason = (if locks then Some ConsecutiveUnknownFace else None)\<rparr>))"

definition record_person_present :: "presence_policy \<Rightarrow> presence_policy \<times> presence_policy_decision" where
  "record_person_present p0 =
     (let p = p0\<lparr>stable_owner_observation_count := 0, no_face_consecutive_count := 0,
                 unknown_face_consecutive_count := 0,
                 unknown_face_audit_already_requested := False,
                 person_present_consecutive_count := sat_inc (person_present_consecutive_count p0),
                 person_absent_consecutive_count := 0\<rparr>
      in (p, \<lparr>monitor_state = StatePersonPresent,
              next_check_interval_ms =
                stable_next_interval_ms (config p) (person_present_consecutive_count p),
              owner_match_score = None,
              d_no_face_consecutive_count = no_face_consecutive_count p,
              d_unknown_face_consecutive_count = unknown_face_consecutive_count p,
              unknown_face_audit_capture_requested = False,
              lock_requested = False, lock_reason = None\<rparr>))"

definition record_person_absent :: "presence_policy \<Rightarrow> presence_policy \<times> presence_policy_decision" where
  "record_person_absent p0 =
     (let p = p0\<lparr>stable_owner_observation_count := 0, no_face_consecutive_count := 0,
                 unknown_face_consecutive_count := 0,
                 unknown_face_audit_already_requested := False,
                 person_present_consecutive_count := 0,
                 person_absent_consecutive_count := sat_inc (person_absent_consecutive_count p0)\<rparr>;
          locks = (person_absent_consecutive_count p \<ge> presence_person_absent_required_frames (config p))
      in (p, \<lparr>monitor_state = (if locks then StateLockRequested else PersonAbsenceSuspect),
              next_check_interval_ms = presence_person_suspect_interval_ms (config p),
              owner_match_score = None,
              d_no_face_consecutive_count = no_face_consecutive_count p,
              d_unknown_face_consecutive_count = unknown_face_consecutive_count p,
              unknown_face_audit_capture_requested = False,
              lock_requested = locks,
              lock_reason = (if locks then Some PersonLeftFrame else None)\<rparr>))"

definition record_camera_unavailable :: "presence_policy \<Rightarrow> presence_policy \<times> presence_policy_decision" where
  "record_camera_unavailable p =
     (p, \<lparr>monitor_state = StateCameraUnavailable,
          next_check_interval_ms = presence_stable_initial_interval_ms (config p),
          owner_match_score = None,
          d_no_face_consecutive_count = no_face_consecutive_count p,
          d_unknown_face_consecutive_count = unknown_face_consecutive_count p,
          unknown_face_audit_capture_requested = False,
          lock_requested = False, lock_reason = None\<rparr>)"

fun record_observation ::
  "presence_observation \<Rightarrow> presence_policy \<Rightarrow> presence_policy \<times> presence_policy_decision" where
  "record_observation (OwnerPresent s) p = record_owner_present s p"
| "record_observation ObsNoFaceDetected p = record_no_face p"
| "record_observation (UnknownFace s) p = record_unknown_face s p"
| "record_observation (PersonPresent confidence center area) p = record_person_present p"
| "record_observation PersonAbsent p = record_person_absent p"
| "record_observation CameraUnavailable p = record_camera_unavailable p"

definition owner_match_passes_presence_threshold :: "f32 \<Rightarrow> presence_policy \<Rightarrow> bool" where
  "owner_match_passes_presence_threshold match_score p \<longleftrightarrow>
     f32_le (presence_owner_match_threshold (config p)) match_score"

section \<open>The specification by history\<close>

text \<open>The state after a list of observations.\<close>

definition policy_after :: "presence_policy_config \<Rightarrow> presence_observation list \<Rightarrow> presence_policy" where
  "policy_after cfg obs = foldl (\<lambda>p ob. fst (record_observation ob p)) (new_policy cfg) obs"

fun is_owner :: "presence_observation \<Rightarrow> bool" where
  "is_owner (OwnerPresent _) = True" | "is_owner _ = False"

fun is_no_face :: "presence_observation \<Rightarrow> bool" where
  "is_no_face ObsNoFaceDetected = True" | "is_no_face _ = False"

fun is_unknown :: "presence_observation \<Rightarrow> bool" where
  "is_unknown (UnknownFace _) = True" | "is_unknown _ = False"

fun is_person :: "presence_observation \<Rightarrow> bool" where
  "is_person (PersonPresent _ _ _) = True" | "is_person _ = False"

fun is_person_absent :: "presence_observation \<Rightarrow> bool" where
  "is_person_absent PersonAbsent = True" | "is_person_absent _ = False"

text \<open>The run of \<open>P\<close> at the end of the history.\<close>

definition trailing :: "(presence_observation \<Rightarrow> bool) \<Rightarrow> presence_observation list \<Rightarrow> nat" where
  "trailing P obs = length (takeWhile P (rev (filter (\<lambda>ob. ob \<noteq> CameraUnavailable) obs)))"

lemma trailing_Nil [simp]: "trailing P [] = 0"
  by (simp add: trailing_def)

lemma trailing_snoc:
  "trailing P (obs @ [ob]) =
     (if ob = CameraUnavailable then trailing P obs
      else if P ob then Suc (trailing P obs) else 0)"
  by (simp add: trailing_def)

definition saturated :: "nat \<Rightarrow> nat" where
  "saturated n = min n (2 ^ 32 - 1)"

lemma unat_sat_inc_saturated: "unat x = saturated n \<Longrightarrow> unat (sat_inc (x :: u32)) = saturated (Suc n)"
  by (simp add: unat_sat_inc saturated_def)

lemma saturated_0 [simp]: "saturated 0 = 0"
  by (simp add: saturated_def)

lemma saturated_ge: "unat (r :: u32) \<le> saturated n \<longleftrightarrow> unat r \<le> n"
proof -
  have "unat r < 2 ^ LENGTH(32)" by (rule unsigned_less)
  then show ?thesis by (auto simp: saturated_def)
qed

lemma policy_after_snoc:
  "policy_after cfg (obs @ [ob]) = fst (record_observation ob (policy_after cfg obs))"
  by (simp add: policy_after_def)

lemmas record_defs = record_owner_present_def record_no_face_def record_unknown_face_def
  record_person_present_def record_person_absent_def record_camera_unavailable_def
  reset_person_departure_state_def

text \<open>Every counter is the run of its observation, up to saturation.\<close>

lemma policy_counters:
  "config (policy_after cfg obs) = cfg \<and>
   unat (stable_owner_observation_count (policy_after cfg obs)) = saturated (trailing is_owner obs) \<and>
   unat (no_face_consecutive_count (policy_after cfg obs)) = saturated (trailing is_no_face obs) \<and>
   unat (unknown_face_consecutive_count (policy_after cfg obs)) = saturated (trailing is_unknown obs) \<and>
   (unknown_face_audit_already_requested (policy_after cfg obs) \<longleftrightarrow> trailing is_unknown obs \<noteq> 0) \<and>
   unat (person_present_consecutive_count (policy_after cfg obs)) = saturated (trailing is_person obs) \<and>
   unat (person_absent_consecutive_count (policy_after cfg obs)) = saturated (trailing is_person_absent obs)"
proof (induction obs rule: rev_induct)
  case Nil
  show ?case by (simp add: policy_after_def new_policy_def)
next
  case (snoc ob obs)
  then show ?case
    by (cases ob)
      (auto simp: policy_after_snoc trailing_snoc record_defs Let_def unat_sat_inc_saturated)
qed

definition decision_after ::
  "presence_policy_config \<Rightarrow> presence_observation list \<Rightarrow> presence_observation \<Rightarrow> presence_policy_decision" where
  "decision_after cfg obs ob = snd (record_observation ob (policy_after cfg obs))"

text \<open>What the history says about locking.\<close>

fun lock_due ::
  "presence_policy_config \<Rightarrow> presence_observation list \<Rightarrow> presence_observation \<Rightarrow> presence_lock_reason option" where
  "lock_due cfg obs ObsNoFaceDetected =
     (if unat (presence_no_face_required_count cfg) \<le> Suc (trailing is_no_face obs)
      then Some ConsecutiveNoFace else None)"
| "lock_due cfg obs (UnknownFace s) =
     (if unat (presence_unknown_face_required_count cfg) \<le> Suc (trailing is_unknown obs)
      then Some ConsecutiveUnknownFace else None)"
| "lock_due cfg obs PersonAbsent =
     (if unat (presence_person_absent_required_frames cfg) \<le> Suc (trailing is_person_absent obs)
      then Some PersonLeftFrame else None)"
| "lock_due cfg obs _ = None"

lemma decision_lock:
  "lock_reason (decision_after cfg obs ob) = lock_due cfg obs ob \<and>
   (lock_requested (decision_after cfg obs ob) \<longleftrightarrow> lock_due cfg obs ob \<noteq> None)"
  using policy_counters [of cfg obs]
  by (cases ob)
    (auto simp: decision_after_def record_defs Let_def word_le_nat_alt unat_sat_inc_saturated saturated_ge)

lemma decision_audit:
  "unknown_face_audit_capture_requested (decision_after cfg obs ob) \<longleftrightarrow>
     is_unknown ob \<and> trailing is_unknown obs = 0"
  using policy_counters [of cfg obs]
  by (cases ob) (auto simp: decision_after_def record_defs Let_def)

section \<open>Properties of the policy\<close>

text \<open>C30: the policy asks for the lock exactly when the history calls for it: at the observation
  that completes the required number of consecutive frames without a face, with an unknown face, or
  without a person; a camera that is not available neither counts nor interrupts, and every other
  observation starts the count again. The state keeps only counters, the specification reads the
  whole history.\<close>

theorem lock_requested_iff_history:
  "lock_reason (snd (record_observation ob (policy_after cfg obs))) = lock_due cfg obs ob \<and>
   (lock_requested (snd (record_observation ob (policy_after cfg obs))) \<longleftrightarrow> lock_due cfg obs ob \<noteq> None)"
  using decision_lock unfolding decision_after_def .

text \<open>One picture is taken for each run of unknown faces: at its first frame, and not again
  before another face or an empty frame was seen.\<close>

theorem one_audit_per_unknown_run:
  "unknown_face_audit_capture_requested (snd (record_observation ob (policy_after cfg obs))) \<longleftrightarrow>
     is_unknown ob \<and> trailing is_unknown obs = 0"
  using decision_audit unfolding decision_after_def .

end
