(* ===== verification/Face_Matching.thy ===== *)
theory Face_Matching
  imports F32
begin

text \<open>
  Crate \<open>face_engine\<close>: faces and embeddings (\<open>src/types.rs\<close>), the cosine similarity
  (\<open>src/embedding.rs\<close>) and the comparison of a candidate with the enrolled templates
  (\<open>src/template.rs\<close>); crate \<open>face_auth\<close>, the template list of \<open>src/authenticator.rs\<close>. The
  floating-point arithmetic is that of \<open>F32\<close>, in the order of the code.
\<close>

section \<open>Data\<close>

record face_model_descriptor =
  model_family :: string
  model_version :: string

record face_box =
  box_x :: f32
  box_y :: f32
  box_width :: f32
  box_height :: f32

record face_landmark =
  landmark_x :: f32
  landmark_y :: f32

record detected_face =
  bounds :: face_box
  landmarks :: "face_landmark list"
  confidence :: f32

type_synonym face_embedding = "f32 list"

datatype face_match_decision = MatchAccepted | MatchRejectedBelowThreshold

datatype face_engine_error =
    ModelNotLoaded
  | ModelLoadFailed
  | ModelPathMissing
  | EngineNoFaceDetected
  | EngineMultipleFacesDetected
  | InvalidFrame
  | InvalidEmbedding
  | InferenceFailed

definition new_embedding :: "f32 list \<Rightarrow> face_engine_error + face_embedding" where
  "new_embedding values =
     (if values = [] \<or> list_ex (\<lambda>v. \<not> f32_is_finite v) values then Inl InvalidEmbedding
      else Inr values)"

datatype face_pose_group =
    FrontalPrimary
  | FrontalVariant
  | YawLeftMild
  | YawRightMild
  | PitchDownMild
  | PitchUpMild
  | BlinkMotion
  | HardPoseDiagnostic
  | RejectedQuality

fun selected_for_unlock_by_default :: "face_pose_group \<Rightarrow> bool" where
  "selected_for_unlock_by_default BlinkMotion = False"
| "selected_for_unlock_by_default HardPoseDiagnostic = False"
| "selected_for_unlock_by_default RejectedQuality = False"
| "selected_for_unlock_by_default _ = True"

record face_template =
  template_ref :: string
  template_user_id :: string
  template_model :: face_model_descriptor
  pose_group :: face_pose_group
  selected_for_unlock :: bool
  template_quality_score :: "f32 option"
  embedding :: face_embedding

definition is_compatible_with :: "face_template \<Rightarrow> face_model_descriptor \<Rightarrow> bool" where
  "is_compatible_with t m \<longleftrightarrow>
     model_family (template_model t) = model_family m \<and>
     model_version (template_model t) = model_version m"

section \<open>Similarity\<close>

text \<open>The three sums of the loop: dot product and the squares of both norms.\<close>

fun similarity_sums :: "(f32 \<times> f32) list \<Rightarrow> f32 \<times> f32 \<times> f32 \<Rightarrow> f32 \<times> f32 \<times> f32" where
  "similarity_sums [] acc = acc"
| "similarity_sums ((l, r) # rest) (dot, left_norm, right_norm) =
     similarity_sums rest
       (f32_add dot (f32_mul l r), f32_add left_norm (f32_mul l l), f32_add right_norm (f32_mul r r))"

definition cosine_similarity :: "f32 list \<Rightarrow> f32 list \<Rightarrow> f32 option" where
  "cosine_similarity left right =
     (if length left \<noteq> length right \<or> left = [] then None
      else case similarity_sums (zip left right) (f32_zero, f32_zero, f32_zero) of
             (dot, left_norm, right_norm) \<Rightarrow>
               if f32_eq left_norm f32_zero \<or> f32_eq right_norm f32_zero then None
               else Some (f32_div dot (f32_mul (f32_sqrt left_norm) (f32_sqrt right_norm))))"

section \<open>The matcher\<close>

record face_template_match =
  m_template_ref :: string
  m_user_id :: string
  m_pose_group :: face_pose_group
  m_score :: f32
  m_decision :: face_match_decision

definition embedding_score :: "face_embedding \<Rightarrow> face_embedding \<Rightarrow> f32" where
  "embedding_score enrolled candidate =
     (case cosine_similarity enrolled candidate of None \<Rightarrow> f32_zero | Some s \<Rightarrow> s)"

definition compare_embeddings ::
  "f32 \<Rightarrow> face_embedding \<Rightarrow> face_embedding \<Rightarrow> f32 \<times> face_match_decision" where
  "compare_embeddings threshold enrolled candidate =
     (let s = embedding_score enrolled candidate
      in (s, if f32_le threshold s then MatchAccepted else MatchRejectedBelowThreshold))"

definition match_template ::
  "f32 \<Rightarrow> face_embedding \<Rightarrow> face_template \<Rightarrow> face_template_match" where
  "match_template threshold candidate t =
     (case compare_embeddings threshold (embedding t) candidate of
        (s, decision) \<Rightarrow>
          \<lparr>m_template_ref = template_ref t, m_user_id = template_user_id t,
           m_pose_group = pose_group t, m_score = s, m_decision = decision\<rparr>)"

text \<open>\<open>Iterator::max_by\<close> with \<open>total_cmp\<close> on the scores: the last of the greatest.\<close>

fun max_by_score :: "face_template_match list \<Rightarrow> face_template_match option" where
  "max_by_score [] = None"
| "max_by_score (m # ms) =
     Some (foldl (\<lambda>best x. if f32_total_key (m_score best) \<le> f32_total_key (m_score x) then x else best) m ms)"

definition best_match :: "f32 \<Rightarrow> face_template list \<Rightarrow> face_embedding \<Rightarrow> face_template_match option" where
  "best_match threshold templates candidate =
     max_by_score (map (match_template threshold candidate) templates)"

definition best_compatible_match ::
  "f32 \<Rightarrow> face_template list \<Rightarrow> face_model_descriptor \<Rightarrow> face_embedding \<Rightarrow> face_template_match option" where
  "best_compatible_match threshold templates recognition_model candidate =
     max_by_score (map (match_template threshold candidate)
       (filter (\<lambda>t. is_compatible_with t recognition_model) templates))"

section \<open>The templates of a user\<close>

record recognition_templates =
  templates :: "face_template list"
  average_face_area :: "u32 option"

definition new_recognition_templates :: "face_template list \<Rightarrow> recognition_templates" where
  "new_recognition_templates ts = \<lparr>templates = ts, average_face_area = None\<rparr>"

definition has_compatible_template :: "recognition_templates \<Rightarrow> face_model_descriptor \<Rightarrow> bool" where
  "has_compatible_template rt m \<longleftrightarrow> list_ex (\<lambda>t. is_compatible_with t m) (templates rt)"

datatype face_sample_reject_reason =
    SampleNoFaceDetected
  | SampleMultipleFacesDetected
  | FaceTooSmall
  | FaceTooLargeOrClipped
  | BlurTooHigh
  | UnderExposed
  | OverExposed
  | BacklightTooStrong
  | LandmarkUnstable
  | PoseOutOfExpectedRange
  | AlignmentFailed
  | EmbeddingInconsistentWithPrimary
  | DuplicateTooSimilar

record face_template_quality_scores =
  quality_score :: f32
  blur_score :: f32
  illumination_score :: f32
  face_size_score :: f32
  alignment_score :: f32
  scored_pose_fit :: f32
  embedding_consistency_score :: "f32 option"

record face_template_sample_metadata =
  sample_id :: string
  sample_pose_group :: face_pose_group
  source_step :: string
  sample_frame_index :: u32
  frame_timestamp_ms :: i64
  sample_face_box :: face_box
  sample_landmarks :: "face_landmark list"
  detection_confidence :: f32
  pose_yaw_deg :: f32
  pose_pitch_deg :: f32
  pose_roll_deg :: f32
  sample_quality :: face_template_quality_scores
  sample_selected_for_unlock :: bool
  reject_reason :: "face_sample_reject_reason option"

record face_template_threshold_profile =
  template_acceptance_threshold :: f32
  frame_match_threshold :: f32
  profile_consecutive_match_count :: u32
  profile_min_quality_score :: f32

record face_template_set_quality_summary =
  selected_template_count :: nat
  rejected_sample_count :: nat
  average_selected_quality_score :: "f32 option"
  minimum_selected_quality_score :: "f32 option"

record face_template_set =
  set_user_id :: string
  detector_model_family :: string
  detector_model_version :: string
  recognizer_model_family :: string
  recognizer_model_version :: string
  enrollment_id :: string
  enrollment_created_at_unix_ms :: i64
  threshold_profile :: face_template_threshold_profile
  set_templates :: "face_template list"
  sample_metadata :: "face_template_sample_metadata list"
  set_quality_summary :: face_template_set_quality_summary

text \<open>What \<open>read_face_templates\<close> (\<open>win_service/src/auth_issuer.rs\<close>) makes of a file: a template set,
  of which the selected templates are used and the average area of the faces in the samples' metadata
  (\<open>as u64\<close> of each area, their sum, and the quotient \<open>as u32\<close>), or a single template.\<close>

definition templates_of_set :: "face_template_set \<Rightarrow> recognition_templates" where
  "templates_of_set s =
     (let rt = new_recognition_templates (filter selected_for_unlock (set_templates s))
      in if sample_metadata s \<noteq> [] then
           let total_area = foldl (\<lambda>acc b. (acc + f32_to_u64 (f32_mul (box_width b) (box_height b))) mod 2 ^ 64)
                              0 (map sample_face_box (sample_metadata s))
           in rt\<lparr>average_face_area := Some (word_of_nat (total_area div length (sample_metadata s)))\<rparr>
         else rt)"

section \<open>Laws of the matcher\<close>

lemma max_by_score_fold:
  "let r = foldl (\<lambda>best x. if f32_total_key (m_score best) \<le> f32_total_key (m_score x) then x else best) m ms
   in r \<in> set (m # ms) \<and> (\<forall>x \<in> set (m # ms). f32_total_key (m_score x) \<le> f32_total_key (m_score r))"
proof (induction ms arbitrary: m)
  case Nil
  show ?case by simp
next
  case (Cons x ms)
  let ?m = "if f32_total_key (m_score m) \<le> f32_total_key (m_score x) then x else m"
  from Cons [of ?m] show ?case
    by (auto simp: Let_def split: if_splits intro: order_trans)
qed

lemma max_by_score_Some:
  assumes "max_by_score ms = Some r"
  shows "r \<in> set ms" "x \<in> set ms \<Longrightarrow> f32_total_key (m_score x) \<le> f32_total_key (m_score r)"
  using assms max_by_score_fold [of "hd ms" "tl ms"] by (cases ms; auto simp: Let_def)+

lemma max_by_score_None: "max_by_score ms = None \<longleftrightarrow> ms = []"
  by (cases ms) simp_all

lemma match_template_simps [simp]:
  "m_user_id (match_template threshold c t) = template_user_id t"
  "m_template_ref (match_template threshold c t) = template_ref t"
  "m_score (match_template threshold c t) = embedding_score (embedding t) c"
  "m_decision (match_template threshold c t) = MatchAccepted \<longleftrightarrow>
     f32_le threshold (embedding_score (embedding t) c)"
  by (simp_all add: match_template_def compare_embeddings_def Let_def)

section \<open>Properties of the matcher\<close>

text \<open>The match that decides comes from a template of the running recognition model; no other
  such template scores higher; it is accepted exactly when its score reaches the threshold, and
  there is none exactly when no template is of that model.\<close>

theorem best_compatible_match_correct:
  "case best_compatible_match threshold ts model candidate of
     None \<Rightarrow> (\<forall>t \<in> set ts. \<not> is_compatible_with t model)
   | Some m \<Rightarrow>
       (\<exists>t \<in> set ts. is_compatible_with t model \<and> m_template_ref m = template_ref t \<and>
          m_user_id m = template_user_id t \<and> m_score m = embedding_score (embedding t) candidate) \<and>
       (\<forall>t \<in> set ts. is_compatible_with t model \<longrightarrow>
          f32_total_key (embedding_score (embedding t) candidate) \<le> f32_total_key (m_score m)) \<and>
       (m_decision m = MatchAccepted \<longleftrightarrow> f32_le threshold (m_score m))"
proof (cases "best_compatible_match threshold ts model candidate")
  case None
  then show ?thesis
    by (auto simp: best_compatible_match_def max_by_score_None filter_empty_conv)
next
  case (Some m)
  note r = max_by_score_Some [OF Some [unfolded best_compatible_match_def]]
  from r(1) obtain t where "t \<in> set ts" "is_compatible_with t model"
    "m = match_template threshold candidate t" by auto
  moreover have "f32_total_key (embedding_score (embedding t) candidate) \<le> f32_total_key (m_score m)"
    if "t \<in> set ts" "is_compatible_with t model" for t
    using r(2) [of "match_template threshold candidate t"] that by auto
  ultimately show ?thesis using Some by auto
qed

definition sample_model :: face_model_descriptor where
  "sample_model = \<lparr>model_family = ''sface'', model_version = ''2021dec''\<rparr>"

definition sample_template :: face_template where
  "sample_template =
     \<lparr>template_ref = ''face-1'', template_user_id = ''user-1'', template_model = sample_model,
      pose_group = FrontalPrimary, selected_for_unlock = True, template_quality_score = None,
      embedding = [f32_one]\<rparr>"

theorem best_compatible_match_correct_witness:
  "\<exists>m. best_compatible_match (F32 0x3E99999A)
     [sample_template\<lparr>template_model := sample_model\<lparr>model_version := ''2020''\<rparr>, template_user_id := ''user-2''\<rparr>,
      sample_template] sample_model [f32_one] = Some m \<and> m_user_id m = ''user-1''"
proof (cases "best_compatible_match (F32 0x3E99999A)
     [sample_template\<lparr>template_model := sample_model\<lparr>model_version := ''2020''\<rparr>, template_user_id := ''user-2''\<rparr>,
      sample_template] sample_model [f32_one]")
  case None
  then show ?thesis
    by (simp add: best_compatible_match_def is_compatible_with_def sample_template_def sample_model_def)
next
  case (Some m)
  then show ?thesis
    using best_compatible_match_correct [where threshold = "F32 0x3E99999A" and
        ts = "[sample_template\<lparr>template_model := sample_model\<lparr>model_version := ''2020''\<rparr>, template_user_id := ''user-2''\<rparr>,
          sample_template]" and model = sample_model and candidate = "[f32_one]"]
    by (auto simp: is_compatible_with_def sample_template_def sample_model_def)
qed

end
