(* ===== verification/Presence_Monitor.thy ===== *)
theory Presence_Monitor
  imports Presence_Policy Face_Matching
begin

text \<open>
  Crate \<open>win_service\<close>: the loop that watches the workstation (\<open>src/presence_monitor.rs\<close>), the gate
  that keeps the camera closed while someone types (\<open>src/presence_sampling_gate.rs\<close>), the check of
  the input agent's snapshot (\<open>src/desktop_input_state.rs\<close>) and the reading of a camera frame as an
  observation (\<open>src/presence_camera.rs\<close>, with the face models as its arguments). The stop flag, the
  source of observations, the audit sink and the session locker are operations on a world \<open>'w\<close>.
  A loop takes fuel: \<open>None\<close> is a loop that is still running.
\<close>

section \<open>The snapshot of the input agent\<close>

record desktop_input_snapshot =
  schema_version :: u32
  snapshot_source :: string
  snapshot_session_id :: u32
  agent_process_id :: u32
  last_input_tick_ms :: u64
  human_input_quiet_duration_ms :: u64
  sampled_at_unix_ms :: u64

definition snapshot_schema_version :: u32 where "snapshot_schema_version = 1"

definition snapshot_source_get_last_input_info :: string where
  "snapshot_source_get_last_input_info = ''interactive-session-get-last-input-info''"

datatype human_input_state_unavailable_reason =
    SnapshotReadFailed
  | SnapshotSchemaUnsupported
  | SnapshotSourceUnexpected
  | SnapshotSessionMismatch
  | SnapshotStale

text \<open>\<open>HumanInputActivityRead\<close>: the quiet duration and the session, or the reason and a detail.\<close>

datatype human_input_activity_read =
    Available u64 "u32 option"
  | Unavailable human_input_state_unavailable_reason string

definition validate_snapshot ::
  "desktop_input_snapshot \<Rightarrow> u32 \<Rightarrow> u64 \<Rightarrow> u64 \<Rightarrow> human_input_activity_read" where
  "validate_snapshot s expected_session_id snapshot_max_age_ms now_unix_ms =
     (if schema_version s \<noteq> snapshot_schema_version then
        Unavailable SnapshotSchemaUnsupported
          (''schema_version='' @ decimal (unat (schema_version s)) @ '' expected_schema_version='' @
           decimal (unat snapshot_schema_version))
      else if snapshot_source s \<noteq> snapshot_source_get_last_input_info then
        Unavailable SnapshotSourceUnexpected (''source='' @ snapshot_source s)
      else if snapshot_session_id s \<noteq> expected_session_id then
        Unavailable SnapshotSessionMismatch
          (''snapshot_session_id='' @ decimal (unat (snapshot_session_id s)) @
           '' expected_session_id='' @ decimal (unat expected_session_id))
      else
        let snapshot_age_ms = sat_sub now_unix_ms (sampled_at_unix_ms s)
        in if snapshot_age_ms > snapshot_max_age_ms then
             Unavailable SnapshotStale
               (''snapshot_age_ms='' @ decimal (unat snapshot_age_ms) @ '' snapshot_max_age_ms='' @
                decimal (unat snapshot_max_age_ms))
           else Available (human_input_quiet_duration_ms s) (Some (snapshot_session_id s)))"

section \<open>The gate\<close>

record presence_sampling_gate_config =
  human_input_quiet_threshold_ms :: u64
  gate_recheck_interval_ms :: u64

datatype presence_sampling_gate_decision =
    SkipSamplingBecauseRecentHumanInput u64 u64
  | AllowSamplingBecauseHumanInputQuiet u64 u64
  | SkipSamplingBecauseHumanInputStateUnavailable human_input_state_unavailable_reason string

definition evaluate_gate ::
  "presence_sampling_gate_config \<Rightarrow> human_input_activity_read \<Rightarrow> presence_sampling_gate_decision" where
  "evaluate_gate cfg snapshot =
     (case snapshot of
        Unavailable reason detail \<Rightarrow> SkipSamplingBecauseHumanInputStateUnavailable reason detail
      | Available quiet session \<Rightarrow>
          if quiet < human_input_quiet_threshold_ms cfg
          then SkipSamplingBecauseRecentHumanInput quiet (human_input_quiet_threshold_ms cfg)
          else AllowSamplingBecauseHumanInputQuiet quiet (human_input_quiet_threshold_ms cfg))"

definition recheck_interval_ms :: "presence_sampling_gate_config \<Rightarrow> u64" where
  "recheck_interval_ms cfg = max (gate_recheck_interval_ms cfg) 1"

datatype session_lock_error =
    PlatformUnavailable
  | LockRequestFailed
  | UserSessionTokenUnavailable
  | UserSessionLockProcessLaunchFailed

datatype presence_monitor_error =
    ObservationFailed
  | UnknownFaceAuditFailed
  | SessionLockFailed session_lock_error

record 'w gate_ops =
  gate_stop :: "'w \<Rightarrow> 'w \<times> bool"
  gate_snapshot :: "'w \<Rightarrow> 'w \<times> human_input_activity_read"
  gate_source :: "'w \<Rightarrow> 'w \<times> (presence_monitor_error + presence_observation option)"

text \<open>Sleeps in chunks of half a second, looking at the stop flag before each; \<open>False\<close> is a stop.\<close>

function gate_wait :: "'w gate_ops \<Rightarrow> nat \<Rightarrow> 'w \<Rightarrow> 'w \<times> bool" where
  "gate_wait E remaining_ms w =
     (if remaining_ms = 0 then (case gate_stop E w of (w1, stop) \<Rightarrow> (w1, \<not> stop))
      else case gate_stop E w of
             (w1, True) \<Rightarrow> (w1, False)
           | (w1, False) \<Rightarrow> gate_wait E (remaining_ms - min remaining_ms 500) w1)"
  by pat_completeness auto

termination
  by (relation "measure (\<lambda>(E, remaining_ms, w). remaining_ms)") auto

declare gate_wait.simps [simp del]

fun gated_next_observation ::
  "'w gate_ops \<Rightarrow> presence_sampling_gate_config \<Rightarrow> nat \<Rightarrow> 'w \<Rightarrow>
     ('w \<times> (presence_monitor_error + presence_observation option)) option" where
  "gated_next_observation E cfg 0 w = None"
| "gated_next_observation E cfg (Suc fuel) w =
     (case gate_stop E w of
        (w1, True) \<Rightarrow> Some (w1, Inr None)
      | (w1, False) \<Rightarrow>
          (case gate_snapshot E w1 of
             (w2, snapshot) \<Rightarrow>
               (case evaluate_gate cfg snapshot of
                  AllowSamplingBecauseHumanInputQuiet _ _ \<Rightarrow> Some (gate_source E w2)
                | _ \<Rightarrow>
                    (case gate_wait E (unat (recheck_interval_ms cfg)) w2 of
                       (w3, False) \<Rightarrow> Some (w3, Inr None)
                     | (w3, True) \<Rightarrow> gated_next_observation E cfg fuel w3))))"

section \<open>A frame as an observation\<close>

definition presence_observation_from_match_decision ::
  "f32 \<Rightarrow> face_match_decision \<Rightarrow> presence_observation" where
  "presence_observation_from_match_decision match_score decision =
     (case decision of
        MatchAccepted \<Rightarrow> OwnerPresent match_score
      | MatchRejectedBelowThreshold \<Rightarrow> UnknownFace match_score)"

text \<open>\<open>observe_once\<close>: the lease of the camera, the camera and its frame, the faces found in it, and
  the best compatible match of the only face are given by the environment; an unavailable camera is
  an observation, a failing model an error.\<close>

record 'face presence_camera_calls =
  lease_granted :: bool
  camera_opens :: bool
  frame_reads :: bool
  detected :: "'face list option"
  best_match :: "'face \<Rightarrow> (f32 \<times> face_match_decision) option option"

definition observe_once :: "'face presence_camera_calls \<Rightarrow> presence_monitor_error + presence_observation" where
  "observe_once c =
     (if \<not> lease_granted c then Inr CameraUnavailable
      else if \<not> camera_opens c then Inr CameraUnavailable
      else if \<not> frame_reads c then Inr CameraUnavailable
      else case detected c of
             None \<Rightarrow> Inl ObservationFailed
           | Some [] \<Rightarrow> Inr ObsNoFaceDetected
           | Some [face] \<Rightarrow>
               (case best_match c face of
                  None \<Rightarrow> Inl ObservationFailed
                | Some None \<Rightarrow> Inl ObservationFailed
                | Some (Some (match_score, decision)) \<Rightarrow>
                    Inr (presence_observation_from_match_decision match_score decision))
           | Some _ \<Rightarrow> Inr (UnknownFace f32_zero))"

section \<open>The monitor\<close>

record presence_monitor_config =
  monitor_lock_enabled :: bool
  max_monitor_iteration_count :: "u32 option"
  sleep_between_checks :: bool

datatype presence_monitor_stop_reason =
    StopDisabled
  | ObservationSourceEnded
  | MaxIterationCountReached
  | StopRequested
  | StopLockRequested presence_lock_reason u32

record presence_monitor_summary =
  iteration_count :: u32
  unknown_face_audit_request_count :: u32
  lock_request_count :: u32
  stop_reason :: presence_monitor_stop_reason

record 'w monitor_ops =
  mon_stop :: "'w \<Rightarrow> 'w \<times> bool"
  mon_next :: "'w \<Rightarrow> 'w \<times> (presence_monitor_error + presence_observation option)"
  mon_audit :: "presence_policy_decision \<Rightarrow> 'w \<Rightarrow> 'w \<times> (presence_monitor_error + unit)"
  mon_lock :: "'w \<Rightarrow> 'w \<times> (session_lock_error + unit)"

function mon_sleep :: "'w monitor_ops \<Rightarrow> nat \<Rightarrow> 'w \<Rightarrow> 'w" where
  "mon_sleep E remaining_ms w =
     (if remaining_ms = 0 then w
      else case mon_stop E w of
             (w1, True) \<Rightarrow> w1
           | (w1, False) \<Rightarrow> mon_sleep E (remaining_ms - min remaining_ms 500) w1)"
  by pat_completeness auto

termination
  by (relation "measure (\<lambda>(E, remaining_ms, w). remaining_ms)") auto

declare mon_sleep.simps [simp del]

text \<open>The loop, with its counters; the last component of the result lists the observations it read,
  for the statements below.\<close>

record monitor_counts =
  c_iterations :: u32
  c_audits :: u32

definition monitor_summary :: "monitor_counts \<Rightarrow> u32 \<Rightarrow> presence_monitor_stop_reason \<Rightarrow> presence_monitor_summary" where
  "monitor_summary c locks reason =
     \<lparr>iteration_count = c_iterations c, unknown_face_audit_request_count = c_audits c,
      lock_request_count = locks, stop_reason = reason\<rparr>"

fun monitor_loop ::
  "'w monitor_ops \<Rightarrow> presence_monitor_config \<Rightarrow> nat \<Rightarrow> monitor_counts \<Rightarrow> presence_policy \<Rightarrow> 'w \<Rightarrow>
     ('w \<times> (presence_monitor_error + presence_monitor_summary) \<times> presence_observation list) option" where
  "monitor_loop E cfg 0 c p w = None"
| "monitor_loop E cfg (Suc fuel) c p w =
     (case mon_stop E w of
        (w1, True) \<Rightarrow> Some (w1, Inr (monitor_summary c 0 StopRequested), [])
      | (w1, False) \<Rightarrow>
          if (case max_monitor_iteration_count cfg of
                None \<Rightarrow> False | Some m \<Rightarrow> c_iterations c \<ge> m)
          then Some (w1, Inr (monitor_summary c 0 MaxIterationCountReached), [])
          else case mon_next E w1 of
            (w2, Inl e) \<Rightarrow> Some (w2, Inl e, [])
          | (w2, Inr None) \<Rightarrow> Some (w2, Inr (monitor_summary c 0 ObservationSourceEnded), [])
          | (w2, Inr (Some ob)) \<Rightarrow>
              (let c1 = c\<lparr>c_iterations := sat_inc (c_iterations c)\<rparr>;
                   (p1, decision) = record_observation ob p
               in case (if unknown_face_audit_capture_requested decision
                        then mon_audit E decision w2 else (w2, Inr ())) of
                    (w3, Inl e) \<Rightarrow> Some (w3, Inl e, [ob])
                  | (w3, Inr _) \<Rightarrow>
                      (let c2 = (if unknown_face_audit_capture_requested decision
                                 then c1\<lparr>c_audits := sat_inc (c_audits c1)\<rparr> else c1)
                       in if lock_requested decision then
                            (case mon_lock E w3 of
                               (w4, Inl e) \<Rightarrow> Some (w4, Inl (SessionLockFailed e), [ob])
                             | (w4, Inr _) \<Rightarrow>
                                 Some (w4, Inr (monitor_summary c2 1
                                   (StopLockRequested
                                     (case lock_reason decision of
                                        None \<Rightarrow> ConsecutiveNoFace | Some r \<Rightarrow> r)
                                     (c_iterations c2))), [ob]))
                          else
                            let w4 = (if sleep_between_checks cfg
                                      then mon_sleep E (unat (next_check_interval_ms decision)) w3
                                      else w3)
                            in map_option (\<lambda>(w5, r, obs). (w5, r, ob # obs))
                                 (monitor_loop E cfg fuel c2 p1 w4))))"

definition monitor_run ::
  "'w monitor_ops \<Rightarrow> presence_monitor_config \<Rightarrow> presence_policy_config \<Rightarrow> nat \<Rightarrow> 'w \<Rightarrow>
     ('w \<times> (presence_monitor_error + presence_monitor_summary) \<times> presence_observation list) option" where
  "monitor_run E cfg policy_cfg fuel w =
     (if \<not> monitor_lock_enabled cfg then
        Some (w, Inr \<lparr>iteration_count = 0, unknown_face_audit_request_count = 0,
                      lock_request_count = 0, stop_reason = StopDisabled\<rparr>, [])
      else monitor_loop E cfg fuel \<lparr>c_iterations = 0, c_audits = 0\<rparr> (new_policy policy_cfg) w)"

section \<open>The monitor against the history\<close>

text \<open>The first lock the history of observations calls for, with the number of observations.\<close>

fun first_lock ::
  "presence_policy_config \<Rightarrow> presence_observation list \<Rightarrow> presence_observation list \<Rightarrow>
     (presence_lock_reason \<times> nat) option" where
  "first_lock cfg h [] = None"
| "first_lock cfg h (ob # obs) =
     (case lock_due cfg h ob of
        Some r \<Rightarrow> Some (r, 1)
      | None \<Rightarrow> map_option (\<lambda>(r, n). (r, Suc n)) (first_lock cfg (h @ [ob]) obs))"

definition summary_agrees ::
  "presence_policy_config \<Rightarrow> presence_observation list \<Rightarrow> nat \<Rightarrow> presence_observation list \<Rightarrow>
     presence_monitor_summary \<Rightarrow> bool" where
  "summary_agrees cfg h n obs s \<longleftrightarrow>
     unat (iteration_count s) = saturated (n + length obs) \<and>
     (case stop_reason s of
        StopLockRequested r k \<Rightarrow>
          lock_request_count s = 1 \<and> k = iteration_count s \<and> first_lock cfg h obs = Some (r, length obs)
      | _ \<Rightarrow> lock_request_count s = 0 \<and> first_lock cfg h obs = None)"

lemma summary_agrees_Cons:
  assumes "lock_due cfg h ob = None" and "summary_agrees cfg (h @ [ob]) (Suc n) obs s"
  shows "summary_agrees cfg h n (ob # obs) s"
  using assms by (auto simp: summary_agrees_def split: presence_monitor_stop_reason.splits)

lemma loop_agrees:
  assumes "monitor_loop E mc fuel c (policy_after cfg h) w = Some (w', Inr s, obs)"
    and "unat (c_iterations c) = saturated n"
  shows "summary_agrees cfg h n obs s"
  using assms
proof (induction fuel arbitrary: c h w w' s obs n)
  case 0
  then show ?case by simp
next
  case (Suc fuel)
  obtain w1 stop where stop: "mon_stop E w = (w1, stop)" by fastforce
  have here: "summary_agrees cfg h n [] (monitor_summary c 0 reason)"
    if "\<And>r k. reason \<noteq> StopLockRequested r k" for reason
    using that Suc.prems(2)
    by (cases reason) (auto simp: summary_agrees_def monitor_summary_def)
  show ?case
  proof (cases "stop \<or> (case max_monitor_iteration_count mc of None \<Rightarrow> False | Some m \<Rightarrow> c_iterations c \<ge> m)")
    case True
    then show ?thesis
      using Suc.prems(1) stop here by (cases stop) auto
  next
    case False
    obtain w2 res where res: "mon_next E w1 = (w2, res)" by fastforce
    show ?thesis
    proof (cases "\<exists>ob. res = Inr (Some ob)")
      case False2: False
      then show ?thesis
        using Suc.prems(1) False stop res here by (auto split: sum.splits option.splits)
    next
      case True
      then obtain ob where ob: "res = Inr (Some ob)" by blast
      obtain p1 d where d: "record_observation ob (policy_after cfg h) = (p1, d)" by fastforce
      have p1: "p1 = policy_after cfg (h @ [ob])" using d by (simp add: policy_after_snoc)
      have due: "lock_reason d = lock_due cfg h ob" "lock_requested d \<longleftrightarrow> lock_due cfg h ob \<noteq> None"
        using decision_lock [of cfg h ob] d by (simp_all add: decision_after_def)
      let ?c2 = "if unknown_face_audit_capture_requested d
        then (c\<lparr>c_iterations := sat_inc (c_iterations c)\<rparr>)\<lparr>c_audits := sat_inc (c_audits c)\<rparr>
        else c\<lparr>c_iterations := sat_inc (c_iterations c)\<rparr>"
      have c2: "unat (c_iterations ?c2) = saturated (Suc n)"
        using unat_sat_inc_saturated [OF Suc.prems(2)] by simp
      show ?thesis
      proof (cases "lock_requested d")
        case True
        then obtain r where r: "lock_due cfg h ob = Some r" using due(2) by blast
        then have "s = monitor_summary ?c2 1 (StopLockRequested r (c_iterations ?c2))" "obs = [ob]"
          using Suc.prems(1) False stop res ob d True due(1)
          by (auto simp: Let_def split: if_splits prod.splits sum.splits)
        then show ?thesis
          using r c2 by (simp add: summary_agrees_def monitor_summary_def)
      next
        case no_lock: False
        then have none: "lock_due cfg h ob = None" using due(2) by simp
        from Suc.prems(1) False stop res ob d no_lock obtain w4 obs2 where
          rest: "monitor_loop E mc fuel ?c2 p1 w4 = Some (w', Inr s, obs2)" "obs = ob # obs2"
          by (auto simp: Let_def split: if_splits prod.splits sum.splits)
        show ?thesis
          using Suc.IH [OF rest(1) [unfolded p1] c2] none rest(2) by (simp add: summary_agrees_Cons)
      qed
    qed
  qed
qed

section \<open>What the monitor did\<close>

text \<open>The observations it read and its calls of the session locker, with their success.\<close>

datatype monitor_act = Observed presence_observation | LockCalled bool

definition logged_monitor :: "'w monitor_ops \<Rightarrow> ('w \<times> monitor_act list) monitor_ops" where
  "logged_monitor E =
     \<lparr>mon_stop = (\<lambda>(w, acts). case mon_stop E w of (w1, b) \<Rightarrow> ((w1, acts), b)),
      mon_next = (\<lambda>(w, acts). case mon_next E w of
        (w1, r) \<Rightarrow> ((w1, case r of Inr (Some ob) \<Rightarrow> acts @ [Observed ob] | _ \<Rightarrow> acts), r)),
      mon_audit = (\<lambda>d (w, acts). case mon_audit E d w of (w1, r) \<Rightarrow> ((w1, acts), r)),
      mon_lock = (\<lambda>(w, acts). case mon_lock E w of (w1, r) \<Rightarrow> ((w1, acts @ [LockCalled (is_ok r)]), r))\<rparr>"

definition lock_acts :: "presence_monitor_stop_reason \<Rightarrow> monitor_act list" where
  "lock_acts reason = (case reason of StopLockRequested r k \<Rightarrow> [LockCalled True] | _ \<Rightarrow> [])"

lemma logged_calls:
  "mon_stop (logged_monitor E) wl = (wl', b) \<Longrightarrow> snd wl' = snd wl"
  "mon_audit (logged_monitor E) d wl = (wl', q) \<Longrightarrow> snd wl' = snd wl"
  "mon_next (logged_monitor E) wl = (wl', r) \<Longrightarrow>
     snd wl' = (case r of Inr (Some ob) \<Rightarrow> snd wl @ [Observed ob] | _ \<Rightarrow> snd wl)"
  "mon_lock (logged_monitor E) wl = (wl', l) \<Longrightarrow> snd wl' = snd wl @ [LockCalled (is_ok l)]"
  by (auto simp: logged_monitor_def split: prod.splits sum.split option.split)

lemma sleep_logs_nothing: "snd (mon_sleep (logged_monitor E) remaining_ms wl) = snd wl"
proof (induction remaining_ms arbitrary: wl rule: less_induct)
  case (less remaining_ms)
  obtain wl1 b where b: "mon_stop (logged_monitor E) wl = (wl1, b)" by fastforce
  show ?case
  proof (cases "remaining_ms = 0 \<or> b")
    case True
    then show ?thesis
      using b logged_calls(1) [OF b] by (subst mon_sleep.simps) (auto split: bool.splits)
  next
    case False
    then have "remaining_ms - min remaining_ms 500 < remaining_ms" by simp
    from less.IH [OF this, of wl1] show ?thesis
      using b False logged_calls(1) [OF b] by (subst mon_sleep.simps) simp
  qed
qed

lemma loop_acts:
  "monitor_loop (logged_monitor E) mc fuel c p wl = Some (wl', Inr s, obs) \<Longrightarrow>
     snd wl' = snd wl @ map Observed obs @ lock_acts (stop_reason s)"
proof (induction fuel arbitrary: c p wl obs)
  case (Suc fuel)
  let ?E = "logged_monitor E"
  obtain w1 stop where stop: "mon_stop ?E wl = (w1, stop)" by fastforce
  note s1 = logged_calls(1) [OF stop]
  show ?case
  proof (cases "stop \<or> (case max_monitor_iteration_count mc of None \<Rightarrow> False | Some m \<Rightarrow> c_iterations c \<ge> m)")
    case True
    then show ?thesis
      using Suc.prems stop s1 by (cases stop) (auto simp: monitor_summary_def lock_acts_def)
  next
    case False
    obtain w2 res where res: "mon_next ?E w1 = (w2, res)" by fastforce
    note s2 = logged_calls(3) [OF res]
    show ?thesis
    proof (cases "\<exists>ob. res = Inr (Some ob)")
      case False2: False
      then show ?thesis
        using Suc.prems False stop res s1 s2
        by (auto simp: monitor_summary_def lock_acts_def split: sum.splits option.splits)
    next
      case True
      then obtain ob where ob: "res = Inr (Some ob)" by blast
      obtain p1 d where d: "record_observation ob p = (p1, d)" by fastforce
      obtain w3 q where au: "(if unknown_face_audit_capture_requested d then mon_audit ?E d w2 else (w2, Inr ())) = (w3, q)"
        by fastforce
      have s3: "snd w3 = snd wl @ [Observed ob]"
        using au s1 s2 ob by (auto dest: logged_calls(2) split: if_splits)
      show ?thesis
      proof (cases "lock_requested d")
        case True
        obtain w4 l where lock: "mon_lock ?E w3 = (w4, l)" by fastforce
        show ?thesis
          using Suc.prems False stop res ob d au lock True s3 logged_calls(4) [OF lock]
          by (cases q; cases l) (auto simp: Let_def monitor_summary_def lock_acts_def split: if_splits option.splits)
      next
        case no_lock: False
        obtain wl4 c2 obs2 where
          rest: "monitor_loop ?E mc fuel c2 p1 wl4 = Some (wl', Inr s, obs2)" "obs = ob # obs2"
          and wl4: "wl4 = (if sleep_between_checks mc then mon_sleep ?E (unat (next_check_interval_ms d)) w3 else w3)"
          using Suc.prems False stop res ob d au no_lock
          by (cases q) (auto simp: Let_def split: if_splits option.splits)
        have "snd wl4 = snd wl @ [Observed ob]" using wl4 s3 by (simp add: sleep_logs_nothing)
        then show ?thesis using Suc.IH [OF rest(1)] rest(2) by simp
      qed
    qed
  qed
qed simp

text \<open>With a maximal number of iterations the loop ends.\<close>

lemma loop_ends:
  assumes "max_monitor_iteration_count mc = Some m" and "unat m - unat (c_iterations c) < fuel"
  shows "\<exists>w' r obs. monitor_loop E mc fuel c p w = Some (w', r, obs)"
  using assms(2)
proof (induction fuel arbitrary: c p w)
  case 0
  then show ?case by simp
next
  case (Suc fuel)
  obtain w1 stop where stop: "mon_stop E w = (w1, stop)" by fastforce
  show ?case
  proof (cases "stop \<or> m \<le> c_iterations c")
    case True
    then show ?thesis using stop assms(1) by (cases stop) auto
  next
    case False
    then have less: "unat (c_iterations c) < unat m" by (simp add: word_le_nat_alt)
    have "unat m \<le> 2 ^ 32 - 1"
      using unat_max_word [where 'a = 32] word_n1_ge [of m] by (simp add: word_le_nat_alt)
    then have inc: "unat (sat_inc (c_iterations c)) = Suc (unat (c_iterations c))"
      using less by (simp add: unat_sat_inc)
    have IH: "\<exists>w' r obs. monitor_loop E mc fuel c2 p1 w4 = Some (w', r, obs)"
      if "c_iterations c2 = sat_inc (c_iterations c)" for c2 p1 w4
      using Suc.IH [of c2 p1 w4] that inc less Suc.prems by simp
    obtain w2 res where res: "mon_next E w1 = (w2, res)" by fastforce
    show ?thesis
    proof (cases "\<exists>ob. res = Inr (Some ob)")
      case False2: False
      then show ?thesis
        using False stop res assms(1) by (auto split: sum.splits option.splits)
    next
      case True
      then obtain ob where ob: "res = Inr (Some ob)" by blast
      obtain p1 d where d: "record_observation ob p = (p1, d)" by fastforce
      obtain w3 au where au: "(if unknown_face_audit_capture_requested d then mon_audit E d w2 else (w2, Inr ())) = (w3, au)"
        by fastforce
      let ?c2 = "if unknown_face_audit_capture_requested d
        then (c\<lparr>c_iterations := sat_inc (c_iterations c)\<rparr>)\<lparr>c_audits := sat_inc (c_audits c)\<rparr>
        else c\<lparr>c_iterations := sat_inc (c_iterations c)\<rparr>"
      let ?w4 = "if sleep_between_checks mc then mon_sleep E (unat (next_check_interval_ms d)) w3 else w3"
      have "c_iterations ?c2 = sat_inc (c_iterations c)" by simp
      from IH [OF this, of p1 ?w4] obtain w5 r obs where
        rest: "monitor_loop E mc fuel ?c2 p1 ?w4 = Some (w5, r, obs)"
        by blast
      show ?thesis
        using False stop res assms(1) ob d au rest
        by (cases au) (auto simp: Let_def split: if_splits prod.splits sum.splits)
    qed
  qed
qed

section \<open>Properties of the monitor and the gate\<close>

text \<open>C31: a monitor that ends without an error called the session locker exactly at the first
  observation for which the history of what it saw calls for the lock, for the reason the history
  gives: once, with success, and as its last act after the observations it read. If it ended otherwise,
  no observation called for the lock and the locker was never called.\<close>

theorem monitor_locks_at_first_due:
  assumes "monitor_run (logged_monitor E) mc cfg fuel (w, acts) = Some ((w', acts'), Inr s, obs)"
  shows "unat (iteration_count s) = saturated (length obs) \<and>
    (case stop_reason s of
       StopLockRequested r k \<Rightarrow>
         lock_request_count s = 1 \<and> k = iteration_count s \<and> first_lock cfg [] obs = Some (r, length obs) \<and>
         acts' = acts @ map Observed obs @ [LockCalled True]
     | _ \<Rightarrow> lock_request_count s = 0 \<and> first_lock cfg [] obs = None \<and> acts' = acts @ map Observed obs)"
proof (cases "monitor_lock_enabled mc")
  case True
  have "policy_after cfg [] = new_policy cfg" by (simp add: policy_after_def)
  then have "summary_agrees cfg [] 0 obs s"
    using assms True loop_agrees [of "logged_monitor E" mc fuel _ cfg "[]" "(w, acts)" "(w', acts')" s obs 0]
    by (simp add: monitor_run_def)
  moreover have "acts' = acts @ map Observed obs @ lock_acts (stop_reason s)"
    using assms True loop_acts [of E mc fuel _ "new_policy cfg" "(w, acts)" "(w', acts')" s obs]
    by (simp add: monitor_run_def)
  ultimately show ?thesis
    by (auto simp: summary_agrees_def lock_acts_def split: presence_monitor_stop_reason.split)
next
  case False
  then show ?thesis using assms by (auto simp: monitor_run_def)
qed

text \<open>A world for the examples: the observations to come.\<close>

definition scripted :: "presence_observation list monitor_ops" where
  "scripted =
     \<lparr>mon_stop = (\<lambda>w. (w, False)),
      mon_next = (\<lambda>w. case w of [] \<Rightarrow> ([], Inr None) | ob # obs \<Rightarrow> (obs, Inr (Some ob))),
      mon_audit = (\<lambda>_ w. (w, Inr ())),
      mon_lock = (\<lambda>w. (w, Inr ()))\<rparr>"

definition sample_monitor_config :: presence_monitor_config where
  "sample_monitor_config =
     \<lparr>monitor_lock_enabled = True, max_monitor_iteration_count = Some 10, sleep_between_checks = False\<rparr>"

theorem monitor_locks_at_first_due_witness:
  "\<exists>w' acts s obs. monitor_run (logged_monitor scripted) sample_monitor_config default_presence_policy_config 6
     ([ObsNoFaceDetected, CameraUnavailable, ObsNoFaceDetected, ObsNoFaceDetected, OwnerPresent f32_one], []) =
       Some ((w', acts), Inr s, obs) \<and>
     stop_reason s = StopLockRequested ConsecutiveNoFace 4 \<and> lock_request_count s = 1 \<and> last acts = LockCalled True"
proof -
  have six: "(6::nat) = Suc (Suc (Suc (Suc (Suc (Suc 0)))))" by simp
  obtain w' acts s obs where run: "monitor_run (logged_monitor scripted) sample_monitor_config
     default_presence_policy_config 6
     ([ObsNoFaceDetected, CameraUnavailable, ObsNoFaceDetected, ObsNoFaceDetected, OwnerPresent f32_one], []) =
       Some ((w', acts), Inr s, obs)" and stop: "stop_reason s = StopLockRequested ConsecutiveNoFace 4"
    unfolding six
    by (simp add: monitor_run_def logged_monitor_def scripted_def sample_monitor_config_def new_policy_def
        default_presence_policy_config_def record_defs Let_def sat_inc_def monitor_summary_def
        word_le_nat_alt)
  show ?thesis
    using run stop monitor_locks_at_first_due [OF run] by auto
qed

text \<open>A monitor with a maximal number of iterations ends, whatever its world does, with a fuel
  of one more.\<close>

theorem bounded_monitor_ends:
  assumes "max_monitor_iteration_count mc = Some m" and "unat m < fuel"
  shows "\<exists>w' r obs. monitor_run E mc cfg fuel w = Some (w', r, obs)"
  using assms(2) loop_ends [OF assms(1), of "\<lparr>c_iterations = 0, c_audits = 0\<rparr>" fuel E "new_policy cfg" w]
  by (simp add: monitor_run_def)

theorem bounded_monitor_ends_witness:
  "\<exists>w' r obs. monitor_run scripted sample_monitor_config default_presence_policy_config 11
     (replicate 100 ObsNoFaceDetected) = Some (w', r, obs)"
  by (rule bounded_monitor_ends [where m = 10]) (simp_all add: sample_monitor_config_def)

text \<open>The gate lets the camera be used exactly when the agent's snapshot has the known schema
  and source, belongs to the watched session, is not older than the limit and reports that the
  user has not typed for the threshold.\<close>

theorem sampling_allowed_iff:
  "(\<exists>quiet threshold. evaluate_gate cfg (validate_snapshot s expected max_age now) =
      AllowSamplingBecauseHumanInputQuiet quiet threshold) \<longleftrightarrow>
   schema_version s = 1 \<and> snapshot_source s = ''interactive-session-get-last-input-info'' \<and>
   snapshot_session_id s = expected \<and>
   unat now \<le> unat (sampled_at_unix_ms s) + unat max_age \<and>
   human_input_quiet_threshold_ms cfg \<le> human_input_quiet_duration_ms s"
proof -
  have "sat_sub now (sampled_at_unix_ms s) > max_age \<longleftrightarrow>
      \<not> unat now \<le> unat (sampled_at_unix_ms s) + unat max_age"
    by (auto simp: word_less_nat_alt unat_sat_sub)
  then show ?thesis
    by (auto simp: evaluate_gate_def validate_snapshot_def Let_def snapshot_schema_version_def
        snapshot_source_get_last_input_info_def not_less)
qed

lemma gate_wait_reach:
  assumes stop: "\<And>w. reach w \<Longrightarrow> reach (fst (gate_stop E w))"
  shows "reach w \<Longrightarrow> reach (fst (gate_wait E remaining_ms w))"
proof (induction remaining_ms arbitrary: w rule: less_induct)
  case (less remaining_ms)
  obtain w1 b where b: "gate_stop E w = (w1, b)" by fastforce
  have w1: "reach w1" using stop [OF less.prems] b by simp
  show ?case
  proof (cases "remaining_ms = 0 \<or> b")
    case True
    then show ?thesis
      using b w1 by (subst gate_wait.simps) (auto split: bool.splits)
  next
    case False
    then have "remaining_ms - min remaining_ms 500 < remaining_ms" by simp
    from less.IH [OF this w1] show ?thesis
      using b False by (subst gate_wait.simps) simp
  qed
qed

lemma gated_reach:
  assumes "\<And>w. reach w \<Longrightarrow> reach (fst (gate_stop E w))"
    and "\<And>w. reach w \<Longrightarrow> reach (fst (gate_snapshot E w)) \<and>
      (\<forall>quiet threshold. evaluate_gate cfg (snd (gate_snapshot E w)) \<noteq>
        AllowSamplingBecauseHumanInputQuiet quiet threshold)"
  shows "reach w \<Longrightarrow> gated_next_observation E cfg fuel w = Some (w', r) \<Longrightarrow> r = Inr None \<and> reach w'"
proof (induction fuel arbitrary: w)
  case 0
  then show ?case by simp
next
  case (Suc fuel)
  obtain w1 stop where stop: "gate_stop E w = (w1, stop)" by fastforce
  have w1: "reach w1" using assms(1) [OF Suc.prems(1)] stop by simp
  obtain w2 snapshot where snapshot: "gate_snapshot E w1 = (w2, snapshot)" by fastforce
  have w2: "reach w2" and skip: "\<forall>quiet threshold. evaluate_gate cfg snapshot \<noteq>
      AllowSamplingBecauseHumanInputQuiet quiet threshold"
    using assms(2) [OF w1] snapshot by auto
  obtain w3 go where wait: "gate_wait E (unat (recheck_interval_ms cfg)) w2 = (w3, go)" by fastforce
  have w3: "reach w3"
    using gate_wait_reach [OF assms(1) w2, of "unat (recheck_interval_ms cfg)"] wait by simp
  show ?case
    using Suc.prems(2) Suc.IH [OF w3] stop w1 snapshot skip wait w3
    by (cases "evaluate_gate cfg snapshot"; cases stop; cases go) auto
qed

text \<open>While no snapshot in reach says that the user is quiet, the gated source never uses the
  camera: it ends only with the stop flag, in a state still in reach.\<close>

theorem camera_closed_while_user_active:
  assumes "\<And>w. reach w \<Longrightarrow> reach (fst (gate_stop E w))"
    and "\<And>w. reach w \<Longrightarrow> reach (fst (gate_snapshot E w)) \<and>
      (\<forall>quiet threshold. evaluate_gate cfg (snd (gate_snapshot E w)) \<noteq>
        AllowSamplingBecauseHumanInputQuiet quiet threshold)"
    and "reach w" and "gated_next_observation E cfg fuel w = Some (w', r)"
  shows "r = Inr None \<and> reach w'"
  using gated_reach [OF assms(1,2)] assms(3,4) by blast

text \<open>The world of the example: how often the stop flag is still read as unset, and how often the
  camera was used; the snapshot is always stale.\<close>

definition stale_world :: "(nat \<times> nat) gate_ops" where
  "stale_world =
     \<lparr>gate_stop = (\<lambda>(n, used). ((n - 1, used), n = 0)),
      gate_snapshot = (\<lambda>w. (w, Unavailable SnapshotStale [])),
      gate_source = (\<lambda>(n, used). ((n, Suc used), Inr (Some (OwnerPresent f32_one))))\<rparr>"

theorem camera_closed_while_user_active_witness:
  "\<exists>w' r. gated_next_observation stale_world
      \<lparr>human_input_quiet_threshold_ms = 60000, gate_recheck_interval_ms = 500\<rparr> 3 (3, 0) = Some (w', r) \<and>
    r = Inr None \<and> snd w' = 0"
proof -
  let ?cfg = "\<lparr>human_input_quiet_threshold_ms = 60000, gate_recheck_interval_ms = 500\<rparr>"
  have three: "(3::nat) = Suc (Suc (Suc 0))" by simp
  have "unat (recheck_interval_ms ?cfg) = 500" by (simp add: recheck_interval_ms_def)
  then obtain w' r where run: "gated_next_observation stale_world ?cfg 3 (3, 0) = Some (w', r)"
    unfolding three by (simp add: stale_world_def evaluate_gate_def gate_wait.simps)
  have "r = Inr None \<and> snd w' = 0"
    by (rule camera_closed_while_user_active [OF _ _ _ run, where reach = "\<lambda>w. snd w = 0"])
      (auto simp: stale_world_def evaluate_gate_def)
  with run show ?thesis by blast
qed

end
