(* ===== verification/Camera_Runtime.thy ===== *)
theory Camera_Runtime
  imports Prelude
begin

text \<open>
  Crate \<open>win_service\<close>, \<open>src/camera_runtime.rs\<close>: the one camera of the machine, lent to one user at
  a time and only in the interface states its use is meant for. The static mutex is a record with a
  poisoned flag; a lease is a value that is dropped once, which a run keeps as the list of the
  leases that are alive.
\<close>

section \<open>The runtime state\<close>

datatype interface_runtime_state = InterfaceUnknown | LockedOrLogon | DesktopUnlocked

datatype camera_lease_kind = LogonAuthentication | PresenceLock | BackendProfiling

datatype camera_lease_denied_reason =
    InterfaceStateDoesNotAllowCamera
  | CameraAlreadyLeased
  | RuntimeStateUnavailable

record camera_runtime =
  runtime_poisoned :: bool
  interface_state :: interface_runtime_state
  active_lease :: "camera_lease_kind option"

definition initial_camera_runtime :: camera_runtime where
  "initial_camera_runtime =
     \<lparr>runtime_poisoned = False, interface_state = InterfaceUnknown, active_lease = None\<rparr>"

definition cached_interface_runtime_state :: "camera_runtime \<Rightarrow> interface_runtime_state" where
  "cached_interface_runtime_state s =
     (if runtime_poisoned s then InterfaceUnknown else interface_state s)"

definition lease_allowed_for_interface_state ::
  "camera_lease_kind \<Rightarrow> interface_runtime_state \<Rightarrow> bool" where
  "lease_allowed_for_interface_state kind st =
     (case kind of
        LogonAuthentication \<Rightarrow> st = LockedOrLogon \<or> st = InterfaceUnknown
      | PresenceLock \<Rightarrow> st = DesktopUnlocked
      | BackendProfiling \<Rightarrow> st = DesktopUnlocked)"

definition try_acquire_camera_lease ::
  "camera_lease_kind \<Rightarrow> camera_runtime \<Rightarrow>
     camera_runtime \<times> (camera_lease_denied_reason + camera_lease_kind)" where
  "try_acquire_camera_lease kind s =
     (if runtime_poisoned s then (s, Inl RuntimeStateUnavailable)
      else if \<not> lease_allowed_for_interface_state kind (interface_state s)
        then (s, Inl InterfaceStateDoesNotAllowCamera)
      else if active_lease s \<noteq> None then (s, Inl CameraAlreadyLeased)
      else (s\<lparr>active_lease := Some kind\<rparr>, Inr kind))"

definition update_interface_runtime_state ::
  "interface_runtime_state \<Rightarrow> camera_runtime \<Rightarrow> camera_runtime" where
  "update_interface_runtime_state st s =
     (if runtime_poisoned s then s
      else if interface_state s \<noteq> st then s\<lparr>interface_state := st\<rparr> else s)"

definition drop_camera_lease :: "camera_lease_kind \<Rightarrow> camera_runtime \<Rightarrow> camera_runtime" where
  "drop_camera_lease kind s =
     (if runtime_poisoned s then s
      else if active_lease s = Some kind then s\<lparr>active_lease := None\<rparr> else s)"

text \<open>\<open>acquire_camera_lease_until\<close>: what others do to the runtime between two attempts is \<open>env\<close>, the
  readings of the clock are \<open>now\<close> (by the number of the attempt).\<close>

fun acquire_camera_lease_until ::
  "(nat \<Rightarrow> camera_runtime \<Rightarrow> camera_runtime) \<Rightarrow> (nat \<Rightarrow> nat) \<Rightarrow> nat \<Rightarrow> camera_lease_kind \<Rightarrow> nat \<Rightarrow> nat \<Rightarrow>
     camera_runtime \<Rightarrow> (camera_runtime \<times> (camera_lease_denied_reason + camera_lease_kind)) option" where
  "acquire_camera_lease_until env now deadline kind 0 k s = None"
| "acquire_camera_lease_until env now deadline kind (Suc fuel) k s =
     (case try_acquire_camera_lease kind (env k s) of
        (s1, Inr lease) \<Rightarrow> Some (s1, Inr lease)
      | (s1, Inl reason) \<Rightarrow>
          if reason = CameraAlreadyLeased \<and> now k < deadline
          then acquire_camera_lease_until env now deadline kind fuel (Suc k) s1
          else Some (s1, Inl reason))"

section \<open>Runs with live leases\<close>

datatype camera_event =
    AcquireLease camera_lease_kind
  | DropLease nat
  | InterfaceChanged interface_runtime_state

type_synonym camera_system = "camera_runtime \<times> camera_lease_kind list"

definition remove_nth :: "nat \<Rightarrow> 'a list \<Rightarrow> 'a list" where
  "remove_nth n xs = take n xs @ drop (Suc n) xs"

fun camera_step :: "camera_event \<Rightarrow> camera_system \<Rightarrow> camera_system" where
  "camera_step (AcquireLease kind) (s, live) =
     (case try_acquire_camera_lease kind s of
        (s1, Inr lease) \<Rightarrow> (s1, lease # live)
      | (s1, Inl _) \<Rightarrow> (s1, live))"
| "camera_step (DropLease n) (s, live) =
     (if n < length live then (drop_camera_lease (live ! n) s, remove_nth n live) else (s, live))"
| "camera_step (InterfaceChanged st) (s, live) = (update_interface_runtime_state st s, live)"

text \<open>The camera is lent exactly to the lease that is alive.\<close>

definition camera_inv :: "camera_system \<Rightarrow> bool" where
  "camera_inv cs \<longleftrightarrow> snd cs = (case active_lease (fst cs) of None \<Rightarrow> [] | Some kind \<Rightarrow> [kind])"

lemmas camera_defs = try_acquire_camera_lease_def update_interface_runtime_state_def
  drop_camera_lease_def

lemma camera_step_inv:
  assumes "camera_inv cs" and "\<not> runtime_poisoned (fst cs)"
  shows "camera_inv (camera_step ev cs) \<and> \<not> runtime_poisoned (fst (camera_step ev cs))"
  using assms
  by (cases "(ev, cs)" rule: camera_step.cases)
    (auto simp: camera_inv_def camera_defs remove_nth_def nth_Cons' split: option.splits if_splits)

lemma camera_run_inv:
  assumes "camera_inv cs" and "\<not> runtime_poisoned (fst cs)"
  shows "camera_inv (foldl (\<lambda>c ev. camera_step ev c) cs evs) \<and>
    \<not> runtime_poisoned (fst (foldl (\<lambda>c ev. camera_step ev c) cs evs))"
  using assms
proof (induction evs arbitrary: cs)
  case Nil
  then show ?case by simp
next
  case (Cons ev evs)
  from Cons.IH [of "camera_step ev cs"] camera_step_inv [OF Cons.prems, of ev] show ?case by simp
qed

section \<open>Properties of the leases\<close>

text \<open>At any time at most one lease is alive, whatever is acquired, dropped and however the
  interface changes; the runtime's record names exactly that lease, so a camera whose lease was
  dropped can be lent again.\<close>

theorem at_most_one_camera_lease:
  "let cs = foldl (\<lambda>c ev. camera_step ev c) (initial_camera_runtime, []) evs
   in length (snd cs) \<le> 1 \<and> set_option (active_lease (fst cs)) = set (snd cs)"
proof -
  have "camera_inv (foldl (\<lambda>c ev. camera_step ev c) (initial_camera_runtime, []) evs)"
    by (rule camera_run_inv [THEN conjunct1]) (simp_all add: camera_inv_def initial_camera_runtime_def)
  then show ?thesis by (auto simp: camera_inv_def Let_def split: option.splits)
qed

text \<open>A lease is granted exactly when the runtime can be read, the interface state is one the
  use is meant for, and no lease is active; a watcher of the unlocked desktop and the sign-in can
  never be granted the camera in the same interface state.\<close>

theorem lease_granted_iff:
  "(snd (try_acquire_camera_lease kind s) = Inr kind) \<longleftrightarrow>
     \<not> runtime_poisoned s \<and> active_lease s = None \<and>
     (interface_state s = DesktopUnlocked \<longleftrightarrow> kind \<noteq> LogonAuthentication)"
  by (cases kind; cases "interface_state s")
    (auto simp: try_acquire_camera_lease_def lease_allowed_for_interface_state_def)

end
