(* ===== verification/Camera_Frames.thy ===== *)
theory Camera_Frames
  imports F32
begin

text \<open>
  Frames of the camera: their validation (\<open>video_provider/src/frame.rs\<close>), the filter for black frames
  (\<open>video_provider/src/frame_filter.rs\<close>) and the tolerance for frames that fail
  (\<open>win_service/src/camera_frame_recovery.rs\<close>). Lengths are \<open>usize\<close> of 64 bits.
\<close>

datatype pixel_format = Bgr8 | Rgb8 | Gray8

datatype video_error =
    ProviderUnavailable
  | CameraNotFound
  | CameraAlreadyOpen
  | CameraNotOpen
  | OpenFailed
  | ReadFailed
  | EmptyFrame
  | UnsupportedFormat

record video_frame =
  width :: u32
  height :: u32
  format :: pixel_format
  data :: "u8 list"

fun channel_count :: "pixel_format \<Rightarrow> nat" where
  "channel_count Bgr8 = 3"
| "channel_count Rgb8 = 3"
| "channel_count Gray8 = 1"

definition checked_mul_usize :: "nat \<Rightarrow> nat \<Rightarrow> nat option" where
  "checked_mul_usize a b = (if a * b < 2 ^ 64 then Some (a * b) else None)"

definition validate_frame :: "video_frame \<Rightarrow> video_error + unit" where
  "validate_frame f =
     (if width f = 0 \<or> height f = 0 \<or> data f = [] then Inl EmptyFrame
      else case Option.bind (checked_mul_usize (unat (width f)) (unat (height f)))
                  (\<lambda>pixel_count. checked_mul_usize pixel_count (channel_count (format f))) of
             None \<Rightarrow> Inl UnsupportedFormat
           | Some expected_len \<Rightarrow>
               if length (data f) \<noteq> expected_len then Inl UnsupportedFormat else Inr ())"

definition frame_is_empty :: "video_frame \<Rightarrow> bool" where
  "frame_is_empty f \<longleftrightarrow> \<not> is_ok (validate_frame f)"

section \<open>Black frames\<close>

text \<open>The bytes the filter looks at: \<open>(0..len).step_by(step)\<close>.\<close>

definition sample_step :: "nat \<Rightarrow> nat" where
  "sample_step len = max (len div 1000) 1"

definition sampled_bytes :: "u8 list \<Rightarrow> u8 list" where
  "sampled_bytes bytes =
     (let step = sample_step (length bytes)
      in map (\<lambda>i. bytes ! (i * step)) [0 ..< (length bytes + step - 1) div step])"

definition dark_threshold :: u8 where "dark_threshold = 10"

definition black_ratio :: f32 where "black_ratio = F32 0x3F7AE148" \<comment> \<open>0.98\<close>

definition is_black_or_noise :: "video_frame \<Rightarrow> bool" where
  "is_black_or_noise f =
     (if data f = [] \<or> width f = 0 \<or> height f = 0 then True
      else
        let sampled = sampled_bytes (data f);
            total_sampled = length sampled;
            dark_count = length (filter (\<lambda>b. b < dark_threshold) sampled)
        in if total_sampled = 0 then True
           else f32_lt black_ratio (f32_div (f32_of_nat dark_count) (f32_of_nat total_sampled)))"

section \<open>The tolerance for failing frames\<close>

datatype transient_frame_failure_kind =
    KindEmptyFrame
  | KindBlackFrame
  | KindReadFailed
  | KindInvalidFrame

fun kind_from_video_error :: "video_error \<Rightarrow> transient_frame_failure_kind option" where
  "kind_from_video_error EmptyFrame = Some KindEmptyFrame"
| "kind_from_video_error ReadFailed = Some KindReadFailed"
| "kind_from_video_error _ = None"

datatype transient_frame_failure_decision =
    RetryNextFrame u32 u32
  | Escalate u32 u32

record tolerance =
  max_consecutive_failures :: u32
  consecutive_failures :: u32
  is_warmed_up :: bool

definition new_tolerance :: "u32 \<Rightarrow> tolerance" where
  "new_tolerance limit =
     \<lparr>max_consecutive_failures = max limit 1, consecutive_failures = 0, is_warmed_up = False\<rparr>"

definition default_for_camera_stream :: tolerance where
  "default_for_camera_stream = new_tolerance 60"

definition record_valid_frame :: "tolerance \<Rightarrow> tolerance" where
  "record_valid_frame t = t\<lparr>consecutive_failures := 0, is_warmed_up := True\<rparr>"

definition record_transient_failure :: "tolerance \<Rightarrow> tolerance \<times> transient_frame_failure_decision" where
  "record_transient_failure t0 =
     (let t = t0\<lparr>consecutive_failures := sat_inc (consecutive_failures t0)\<rparr>
      in (t, if consecutive_failures t \<ge> max_consecutive_failures t
             then Escalate (consecutive_failures t) (max_consecutive_failures t)
             else RetryNextFrame (consecutive_failures t) (max_consecutive_failures t)))"

definition validate_frame_for_camera_stream ::
  "video_frame \<Rightarrow> bool \<Rightarrow> transient_frame_failure_kind + unit" where
  "validate_frame_for_camera_stream f warmed_up =
     (case validate_frame f of
        Inl EmptyFrame \<Rightarrow> Inl KindEmptyFrame
      | Inl ReadFailed \<Rightarrow> Inl KindReadFailed
      | Inl _ \<Rightarrow> Inl KindInvalidFrame
      | Inr _ \<Rightarrow>
          if \<not> warmed_up \<and> is_black_or_noise f then Inl KindBlackFrame else Inr ())"

section \<open>The filter for the first frames of a camera\<close>

text \<open>\<open>win_service/src/black_frame.rs\<close>: the average luma of up to 1000 pixels, until the first frame
  that is not black or the configured number of frames. The product of the dimensions is a \<open>u32\<close>.\<close>

record black_frame_filter =
  max_frames_to_check :: u32
  checked_frames :: u32
  filter_active :: bool

definition default_black_frame_filter :: black_frame_filter where
  "default_black_frame_filter = \<lparr>max_frames_to_check = 30, checked_frames = 0, filter_active = True\<rparr>"

definition pixel_luma :: "pixel_format \<Rightarrow> u8 list \<Rightarrow> nat \<Rightarrow> nat" where
  "pixel_luma fmt bytes byte_idx =
     (case fmt of
        Gray8 \<Rightarrow> unat (bytes ! byte_idx)
      | Bgr8 \<Rightarrow>
          if byte_idx + 2 < length bytes then
            (unat (bytes ! (byte_idx + 2)) * 299 + unat (bytes ! (byte_idx + 1)) * 587 +
             unat (bytes ! byte_idx) * 114) div 1000
          else 0
      | Rgb8 \<Rightarrow>
          if byte_idx + 2 < length bytes then
            (unat (bytes ! byte_idx) * 299 + unat (bytes ! (byte_idx + 1)) * 587 +
             unat (bytes ! (byte_idx + 2)) * 114) div 1000
          else 0)"

text \<open>The loop over the samples, with the sum of the luma and the number of samples taken; it leaves
  at the end of the pixels or of the data.\<close>

fun luma_sum :: "video_frame \<Rightarrow> nat \<Rightarrow> nat \<Rightarrow> nat \<Rightarrow> nat \<Rightarrow> nat \<times> nat \<Rightarrow> nat \<times> nat" where
  "luma_sum f total_pixels step i 0 acc = acc"
| "luma_sum f total_pixels step i (Suc left) (sum_luma, samples) =
     (let pixel_idx = i * step; byte_idx = pixel_idx * channel_count (format f)
      in if pixel_idx \<ge> total_pixels then (sum_luma, samples)
         else if byte_idx \<ge> length (data f) then (sum_luma, samples)
         else luma_sum f total_pixels step (Suc i) left
                (sum_luma + pixel_luma (format f) (data f) byte_idx, Suc samples))"

definition frame_is_dark :: "video_frame \<Rightarrow> bool" where
  "frame_is_dark f =
     (let total_pixels = unat (width f * height f)
      in if total_pixels = 0 then True
         else case luma_sum f total_pixels (max (total_pixels div 1000) 1) 0 1000 (0, 0) of
                (sum_luma, samples) \<Rightarrow> if samples = 0 then True else sum_luma div samples < 5)"

definition is_black_frame :: "video_frame \<Rightarrow> black_frame_filter \<Rightarrow> black_frame_filter \<times> bool" where
  "is_black_frame f b =
     (if \<not> filter_active b then (b, False)
      else
        let b1 = b\<lparr>checked_frames := checked_frames b + 1\<rparr>
        in if checked_frames b1 > max_frames_to_check b1 then (b1\<lparr>filter_active := False\<rparr>, False)
           else if frame_is_dark f then (b1, True)
           else (b1\<lparr>filter_active := False\<rparr>, False))"

section \<open>Lemmas\<close>

text \<open>The two multiplications cannot overflow before the third factor.\<close>

lemma validate_frame_Inr_iff:
  "validate_frame f = Inr () \<longleftrightarrow>
     width f \<noteq> 0 \<and> height f \<noteq> 0 \<and>
     length (data f) = unat (width f) * unat (height f) * channel_count (format f) \<and>
     length (data f) < 2 ^ 64"
proof -
  have bound: "unat (w :: u32) < 2 ^ 32" for w
  proof -
    have "unat w < 2 ^ LENGTH(32)" by (rule unsigned_less)
    then show ?thesis by simp
  qed
  have "unat (width f) * unat (height f) < 2 ^ 32 * 2 ^ 32"
    by (intro mult_strict_mono bound) simp_all
  then have "checked_mul_usize (unat (width f)) (unat (height f)) = Some (unat (width f) * unat (height f))"
    by (simp add: checked_mul_usize_def)
  moreover have "channel_count (format f) \<noteq> 0" by (cases "format f") simp_all
  moreover have "unat (width f) \<noteq> 0 \<longleftrightarrow> width f \<noteq> 0" "unat (height f) \<noteq> 0 \<longleftrightarrow> height f \<noteq> 0"
    by (simp_all add: unat_eq_zero)
  ultimately show ?thesis
    by (auto simp: validate_frame_def checked_mul_usize_def)
qed

text \<open>The filter never reads outside the data, and looks at no more than 1999 bytes.\<close>

lemma sample_step_pos: "0 < sample_step n"
  by (simp add: sample_step_def)

lemma sample_index_less:
  assumes "i < (n + sample_step n - 1) div sample_step n"
  shows "i * sample_step n < n"
proof -
  have "Suc i * sample_step n \<le> n + sample_step n - 1"
    using assms sample_step_pos [of n] by (metis Suc_leI div_times_less_eq_dividend le_trans mult_le_mono1)
  then show ?thesis using sample_step_pos [of n] by simp
qed

lemma length_sampled: "length (sampled_bytes bytes) =
    (length bytes + sample_step (length bytes) - 1) div sample_step (length bytes)"
  by (simp add: sampled_bytes_def Let_def)

lemma sampled_subset: "set (sampled_bytes bytes) \<subseteq> set bytes"
  using sample_index_less [of _ "length bytes"]
  by (auto simp: sampled_bytes_def Let_def intro!: nth_mem)

lemma length_sampled_bounds:
  "length (sampled_bytes bytes) \<le> 1999" "bytes \<noteq> [] \<Longrightarrow> sampled_bytes bytes \<noteq> []"
proof -
  let ?n = "length bytes" and ?k = "sample_step (length bytes)"
  have "(?n + ?k - 1) div ?k < 2000"
  proof (cases "?n < 2000")
    case True
    then have "?n div 1000 \<le> 1" by simp
    then have "?k = 1" by (simp add: sample_step_def)
    then show ?thesis using True by simp
  next
    case False
    then have k: "?k = ?n div 1000" by (simp add: sample_step_def)
    have "?n < ?k * 1000 + 1000"
      unfolding k using div_mult_mod_eq [of ?n 1000] mod_less_divisor [of 1000 ?n] by linarith
    moreover have "2 \<le> ?k" unfolding k using False by simp
    ultimately have "?n + ?k - 1 < 2000 * ?k" by linarith
    then show ?thesis using sample_step_pos [of ?n] by (simp add: div_less_iff_less_mult)
  qed
  then show "length (sampled_bytes bytes) \<le> 1999" by (simp add: length_sampled)
  show "sampled_bytes bytes \<noteq> []" if "bytes \<noteq> []"
  proof -
    have "?k \<le> ?n + ?k - 1" using that by (cases bytes) simp_all
    then have "0 < (?n + ?k - 1) div ?k" using sample_step_pos [of ?n] by (simp add: div_greater_zero_iff)
    then show ?thesis by (metis length_greater_0_conv length_sampled)
  qed
qed

section \<open>The tolerance against the history\<close>

text \<open>The frames of a stream: valid, or failing in some way.\<close>

fun tolerance_step :: "transient_frame_failure_kind option \<Rightarrow> tolerance \<Rightarrow> tolerance" where
  "tolerance_step None t = record_valid_frame t"
| "tolerance_step (Some kind) t = fst (record_transient_failure t)"

definition tolerance_after :: "u32 \<Rightarrow> transient_frame_failure_kind option list \<Rightarrow> tolerance" where
  "tolerance_after limit frames = foldl (\<lambda>t fr. tolerance_step fr t) (new_tolerance limit) frames"

definition failing_run :: "transient_frame_failure_kind option list \<Rightarrow> nat" where
  "failing_run frames = length (takeWhile (\<lambda>fr. fr \<noteq> None) (rev frames))"

lemma tolerance_counters:
  "max_consecutive_failures (tolerance_after limit frames) = max limit 1 \<and>
   unat (consecutive_failures (tolerance_after limit frames)) = min (failing_run frames) (2 ^ 32 - 1) \<and>
   (is_warmed_up (tolerance_after limit frames) \<longleftrightarrow> None \<in> set frames)"
proof (induction frames rule: rev_induct)
  case Nil
  show ?case by (simp add: tolerance_after_def new_tolerance_def failing_run_def)
next
  case (snoc fr frames)
  have "tolerance_after limit (frames @ [fr]) = tolerance_step fr (tolerance_after limit frames)"
    by (simp add: tolerance_after_def)
  with snoc show ?case
    by (cases fr)
      (auto simp: failing_run_def record_valid_frame_def record_transient_failure_def Let_def unat_sat_inc)
qed

section \<open>Properties of the frames\<close>

text \<open>A stream is given up exactly at the failing frame that completes the configured number
  (at least one) of failures in a row: any valid frame starts the count again, and the counters
  that decide are the length of the run in the history.\<close>

theorem escalates_iff_run_complete:
  "(\<exists>n m. snd (record_transient_failure (tolerance_after limit frames)) = Escalate n m) \<longleftrightarrow>
     max (unat limit) 1 \<le> Suc (failing_run frames)"
proof -
  have "unat (max limit 1) = max (unat limit) 1"
    by (auto simp: max_def word_le_nat_alt)
  moreover have "unat (max limit 1) < 2 ^ LENGTH(32)"
    by (rule unsigned_less)
  ultimately show ?thesis
    using tolerance_counters [of limit frames]
    by (auto simp: record_transient_failure_def Let_def word_le_nat_alt unat_sat_inc)
qed

text \<open>The filter for black frames reads only bytes of the frame, at least one and at most 1999
  of them for a frame with data, so its counters and its quotient are always defined.\<close>

theorem black_filter_samples_within_frame:
  assumes "data f \<noteq> []"
  shows "set (sampled_bytes (data f)) \<subseteq> set (data f) \<and>
    1 \<le> length (sampled_bytes (data f)) \<and> length (sampled_bytes (data f)) \<le> 1999"
  using sampled_subset length_sampled_bounds(1) length_sampled_bounds(2) [OF assms]
  by (simp add: Suc_le_eq)

theorem black_filter_samples_within_frame_witness:
  "set (sampled_bytes [1, 2, 3]) \<subseteq> {1, 2, 3}"
  using black_filter_samples_within_frame [of "\<lparr>width = 1, height = 1, format = Rgb8, data = [1, 2, 3]\<rparr>"]
  by simp

end
