(* ===== verification/Attempt_Policy.thy ===== *)
theory Attempt_Policy
  imports F32
begin

text \<open>
  Crate \<open>face_auth\<close>, \<open>src/policy.rs\<close>: how many frames in a row must match before a face is accepted,
  and the cooldown after repeated failures. The specification is again by history: a run of
  operations, and the length of the run of matches at its end.
\<close>

section \<open>The policy\<close>

record attempt_policy_config =
  required_consecutive_match_count :: u32
  failure_limit_before_cooldown :: u32
  cooldown_duration_ms :: i64
  intruder_similarity_threshold :: f32

definition default_attempt_policy_config :: attempt_policy_config where
  "default_attempt_policy_config =
     \<lparr>required_consecutive_match_count = 2, failure_limit_before_cooldown = 3,
      cooldown_duration_ms = 30000, intruder_similarity_threshold = F32 0x3E99999A\<rparr>"

record attempt_policy_state =
  consecutive_match_count :: u32
  consecutive_failure_count :: u32
  cooldown_until_unix_ms :: "i64 option"

definition new_attempt_policy_state :: attempt_policy_state where
  "new_attempt_policy_state =
     \<lparr>consecutive_match_count = 0, consecutive_failure_count = 0, cooldown_until_unix_ms = None\<rparr>"

datatype attempt_policy_decision =
    AuthenticationAccepted
  | NeedMoreConsecutiveMatches
  | DecisionMatchRejectedBelowThreshold
  | DecisionIntruderDetected
  | CooldownActivated

record attempt_policy =
  ap_config :: attempt_policy_config
  ap_state :: attempt_policy_state

definition new_attempt_policy :: "attempt_policy_config \<Rightarrow> attempt_policy" where
  "new_attempt_policy cfg = \<lparr>ap_config = cfg, ap_state = new_attempt_policy_state\<rparr>"

definition cooldown_is_active :: "i64 \<Rightarrow> attempt_policy \<Rightarrow> attempt_policy \<times> bool" where
  "cooldown_is_active now p =
     (case cooldown_until_unix_ms (ap_state p) of
        None \<Rightarrow> (p, False)
      | Some until \<Rightarrow>
          if now < until then (p, True)
          else (p\<lparr>ap_state := (ap_state p)
                    \<lparr>cooldown_until_unix_ms := None, consecutive_failure_count := 0\<rparr>\<rparr>, False))"

definition record_failed_attempt :: "i64 \<Rightarrow> attempt_policy \<Rightarrow> attempt_policy \<times> attempt_policy_decision" where
  "record_failed_attempt now p =
     (let s = (ap_state p)\<lparr>consecutive_match_count := 0,
                           consecutive_failure_count := sat_inc (consecutive_failure_count (ap_state p))\<rparr>
      in if consecutive_failure_count s \<ge> failure_limit_before_cooldown (ap_config p)
         then (p\<lparr>ap_state := s\<lparr>cooldown_until_unix_ms :=
                  Some (i64_add now (cooldown_duration_ms (ap_config p)))\<rparr>\<rparr>, CooldownActivated)
         else (p\<lparr>ap_state := s\<rparr>, DecisionMatchRejectedBelowThreshold))"

definition record_match_result ::
  "bool \<Rightarrow> bool \<Rightarrow> i64 \<Rightarrow> attempt_policy \<Rightarrow> attempt_policy \<times> attempt_policy_decision" where
  "record_match_result match_threshold_passed is_intruder now p =
     (if \<not> match_threshold_passed then
        (case record_failed_attempt now p of
           (p1, decision) \<Rightarrow>
             (p1, if decision \<noteq> CooldownActivated \<and> is_intruder then DecisionIntruderDetected
                  else decision))
      else
        let s = (ap_state p)\<lparr>consecutive_failure_count := 0,
                             consecutive_match_count := sat_inc (consecutive_match_count (ap_state p))\<rparr>
        in if consecutive_match_count s \<ge> required_consecutive_match_count (ap_config p)
           then (p\<lparr>ap_state := s\<lparr>consecutive_match_count := 0\<rparr>\<rparr>, AuthenticationAccepted)
           else (p\<lparr>ap_state := s\<rparr>, NeedMoreConsecutiveMatches))"

definition reset_consecutive_matches :: "attempt_policy \<Rightarrow> attempt_policy" where
  "reset_consecutive_matches p = p\<lparr>ap_state := (ap_state p)\<lparr>consecutive_match_count := 0\<rparr>\<rparr>"

section \<open>Runs\<close>

datatype attempt_op =
    AttemptMatch i64
  | AttemptFailure bool i64
  | AttemptReset
  | AttemptCooldownCheck i64

fun attempt_step :: "attempt_op \<Rightarrow> attempt_policy \<Rightarrow> attempt_policy" where
  "attempt_step (AttemptMatch now) p = fst (record_match_result True False now p)"
| "attempt_step (AttemptFailure intruder now) p = fst (record_match_result False intruder now p)"
| "attempt_step AttemptReset p = reset_consecutive_matches p"
| "attempt_step (AttemptCooldownCheck now) p = fst (cooldown_is_active now p)"

definition attempts_after :: "attempt_policy_config \<Rightarrow> attempt_op list \<Rightarrow> attempt_policy" where
  "attempts_after cfg ops = foldl (\<lambda>p op. attempt_step op p) (new_attempt_policy cfg) ops"

fun is_match :: "attempt_op \<Rightarrow> bool" where
  "is_match (AttemptMatch _) = True" | "is_match _ = False"

fun is_cooldown_check :: "attempt_op \<Rightarrow> bool" where
  "is_cooldown_check (AttemptCooldownCheck _) = True" | "is_cooldown_check _ = False"

text \<open>The matches at the end of the history; reading the cooldown does not interrupt them.\<close>

definition trailing_matches :: "attempt_op list \<Rightarrow> nat" where
  "trailing_matches ops = length (takeWhile is_match (rev (filter (\<lambda>op. \<not> is_cooldown_check op) ops)))"

lemma trailing_matches_snoc:
  "trailing_matches (ops @ [op]) =
     (if is_cooldown_check op then trailing_matches ops
      else if is_match op then Suc (trailing_matches ops) else 0)"
  by (simp add: trailing_matches_def)

lemma attempts_after_snoc:
  "attempts_after cfg (ops @ [op]) = attempt_step op (attempts_after cfg ops)"
  by (simp add: attempts_after_def)

lemma ap_config_step [simp]: "ap_config (attempt_step op p) = ap_config p"
  by (cases op)
    (auto simp: record_match_result_def record_failed_attempt_def reset_consecutive_matches_def
      cooldown_is_active_def Let_def split: option.splits prod.splits)

lemma ap_config_after: "ap_config (attempts_after cfg ops) = cfg"
  by (induction ops rule: rev_induct)
    (simp_all add: attempts_after_snoc attempts_after_def [of _ "[]"] new_attempt_policy_def)

lemma mod_Suc_less:
  assumes "0 < (r::nat)"
  shows "Suc n mod r = (if Suc (n mod r) < r then Suc (n mod r) else 0)"
  using assms mod_Suc [of n r] mod_less_divisor [OF assms, of n] by auto

text \<open>The counter is the run of matches since the last acceptance: the run modulo the required
  number.\<close>

lemma match_counter:
  assumes "required_consecutive_match_count cfg \<noteq> 0"
  shows "unat (consecutive_match_count (ap_state (attempts_after cfg ops))) =
    trailing_matches ops mod unat (required_consecutive_match_count cfg)"
proof (induction ops rule: rev_induct)
  case Nil
  show ?case
    by (simp add: attempts_after_def new_attempt_policy_def new_attempt_policy_state_def trailing_matches_def)
next
  case (snoc op ops)
  let ?p = "attempts_after cfg ops" and ?r = "unat (required_consecutive_match_count cfg)"
  have r: "0 < ?r" using assms by (simp add: unat_gt_0)
  have less: "unat (consecutive_match_count (ap_state ?p)) < ?r"
    using snoc r by simp
  have "?r < 2 ^ LENGTH(32)" by (rule unsigned_less)
  with less have inc: "unat (sat_inc (consecutive_match_count (ap_state ?p))) =
      Suc (unat (consecutive_match_count (ap_state ?p)))"
    by (simp add: unat_sat_inc)
  show ?case
  proof (cases op)
    case (AttemptMatch now)
    have "unat (consecutive_match_count (ap_state (attempt_step op ?p))) =
        (if Suc (trailing_matches ops mod ?r) < ?r then Suc (trailing_matches ops mod ?r) else 0)"
      using AttemptMatch inc snoc ap_config_after [of cfg ops]
      by (auto simp: record_match_result_def Let_def word_le_nat_alt)
    then show ?thesis
      using AttemptMatch mod_Suc_less [OF r, of "trailing_matches ops"]
      by (simp add: attempts_after_snoc trailing_matches_snoc)
  next
    case (AttemptFailure intruder now)
    then show ?thesis
      by (auto simp: attempts_after_snoc trailing_matches_snoc record_match_result_def
          record_failed_attempt_def Let_def split: prod.splits)
  next
    case AttemptReset
    then show ?thesis
      by (simp add: attempts_after_snoc trailing_matches_snoc reset_consecutive_matches_def)
  next
    case (AttemptCooldownCheck now)
    then show ?thesis
      using snoc
      by (auto simp: attempts_after_snoc trailing_matches_snoc cooldown_is_active_def split: option.splits)
  qed
qed

lemma accepted_iff:
  assumes "required_consecutive_match_count cfg \<noteq> 0"
  shows "snd (record_match_result True intruder now (attempts_after cfg ops)) = AuthenticationAccepted \<longleftrightarrow>
    unat (required_consecutive_match_count cfg) dvd Suc (trailing_matches ops)"
proof -
  let ?p = "attempts_after cfg ops" and ?r = "unat (required_consecutive_match_count cfg)"
  have r: "0 < ?r" using assms by (simp add: unat_gt_0)
  have less: "unat (consecutive_match_count (ap_state ?p)) < ?r"
    using match_counter [OF assms, of ops] r by simp
  have "?r < 2 ^ LENGTH(32)" by (rule unsigned_less)
  with less have inc: "unat (sat_inc (consecutive_match_count (ap_state ?p))) =
      Suc (trailing_matches ops mod ?r)"
    using match_counter [OF assms, of ops] by (simp add: unat_sat_inc)
  have "snd (record_match_result True intruder now ?p) = AuthenticationAccepted \<longleftrightarrow>
      ?r \<le> Suc (trailing_matches ops mod ?r)"
    using inc ap_config_after [of cfg ops] by (simp add: record_match_result_def Let_def word_le_nat_alt)
  also have "\<dots> \<longleftrightarrow> Suc (trailing_matches ops) mod ?r = 0"
    using mod_Suc_less [OF r, of "trailing_matches ops"] by auto
  finally show ?thesis by (simp add: dvd_eq_mod_eq_0)
qed

section \<open>Cooldown\<close>

text \<open>Within the cooldown every check says so and changes nothing.\<close>

lemma cooldown_checks:
  assumes "cooldown_until_unix_ms (ap_state p) = Some until" and "\<forall>t \<in> set ts. t < until"
  shows "foldl (\<lambda>p op. attempt_step op p) p (map AttemptCooldownCheck ts) = p"
  using assms(2)
proof (induction ts)
  case (Cons t ts)
  then show ?case using assms(1) by (simp add: cooldown_is_active_def)
qed simp

section \<open>Properties of the policy\<close>

text \<open>A match is accepted exactly when it completes a multiple of the required number of matches
  in a row, in any history of matches, failures, resets and cooldown checks.\<close>

theorem accepted_iff_run_complete:
  assumes "required_consecutive_match_count cfg \<noteq> 0"
  shows "snd (record_match_result True intruder now (attempts_after cfg ops)) = AuthenticationAccepted \<longleftrightarrow>
    unat (required_consecutive_match_count cfg) dvd Suc (trailing_matches ops)"
  using assms by (rule accepted_iff)

theorem accepted_iff_run_complete_witness:
  "snd (record_match_result True False 5 (attempts_after default_attempt_policy_config
     [AttemptMatch 1, AttemptFailure True 2, AttemptMatch 3, AttemptCooldownCheck 4])) = AuthenticationAccepted"
  by (subst accepted_iff_run_complete)
    (simp_all add: default_attempt_policy_config_def trailing_matches_def)

text \<open>The failure that completes the limit starts the cooldown, and for as long as it was
  configured every check finds it active, however often it is asked.\<close>

theorem cooldown_holds_for_its_duration:
  assumes "snd (record_failed_attempt now p) = CooldownActivated"
    and "- (2 ^ 63) \<le> now + cooldown_duration_ms (ap_config p)"
    and "now + cooldown_duration_ms (ap_config p) < 2 ^ 63"
    and "\<forall>t \<in> set ts. t < now + cooldown_duration_ms (ap_config p)"
    and "t < now + cooldown_duration_ms (ap_config p)"
  shows "snd (cooldown_is_active t (foldl (\<lambda>p op. attempt_step op p) (fst (record_failed_attempt now p))
    (map AttemptCooldownCheck ts)))"
proof -
  have until: "cooldown_until_unix_ms (ap_state (fst (record_failed_attempt now p))) =
      Some (now + cooldown_duration_ms (ap_config p))"
    using assms(1) i64_add_id [OF assms(2,3)]
    by (auto simp: record_failed_attempt_def Let_def split: if_splits)
  show ?thesis
    using cooldown_checks [OF until, of ts] assms(4,5) until by (simp add: cooldown_is_active_def)
qed

theorem cooldown_holds_for_its_duration_witness:
  "snd (cooldown_is_active 30999 (foldl (\<lambda>p op. attempt_step op p)
     (fst (record_failed_attempt 1000 (attempts_after default_attempt_policy_config
       [AttemptFailure False 1, AttemptFailure False 2])))
     (map AttemptCooldownCheck [2000, 1500])))"
proof -
  let ?p = "attempts_after default_attempt_policy_config [AttemptFailure False 1, AttemptFailure False 2]"
  have cfg: "cooldown_duration_ms (ap_config ?p) = 30000"
    by (simp add: ap_config_after) (simp add: default_attempt_policy_config_def)
  show ?thesis
  proof (rule cooldown_holds_for_its_duration)
    show "snd (record_failed_attempt 1000 ?p) = CooldownActivated"
      by (simp add: attempts_after_def new_attempt_policy_def new_attempt_policy_state_def
          default_attempt_policy_config_def record_match_result_def record_failed_attempt_def
          sat_inc_def Let_def word_le_nat_alt)
  qed (simp_all add: cfg)
qed

end
