(* ===== verification/Face_Quality.thy ===== *)
theory Face_Quality
  imports Face_Matching Camera_Frames
begin

text \<open>
  Crate \<open>face_pose\<close> (\<open>src/lib.rs\<close>): head poses from five landmarks and how well a pose fits the one
  asked for; crate \<open>face_auth\<close>: the steps of an enrollment (\<open>src/enrollment_steps.rs\<close>) and the
  quality of a sample (\<open>src/quality.rs\<close>). The arithmetic is that of \<open>F32\<close> in the order of the code;
  \<open>f32::atan2\<close>, whose last digits Rust leaves to the platform, is the argument \<open>atan2\<close>. An index
  beyond a vector panics, which is \<open>None\<close>.
\<close>

section \<open>Poses\<close>

record face_pose_estimate =
  yaw_deg :: f32
  pitch_deg :: f32
  roll_deg :: f32
  left_eye_blink_score :: "f32 option"
  right_eye_blink_score :: "f32 option"

definition without_blink :: "f32 \<Rightarrow> f32 \<Rightarrow> f32 \<Rightarrow> face_pose_estimate" where
  "without_blink yaw pitch roll =
     \<lparr>yaw_deg = yaw, pitch_deg = pitch, roll_deg = roll, left_eye_blink_score = None,
      right_eye_blink_score = None\<rparr>"

definition with_blink_scores :: "f32 \<Rightarrow> f32 \<Rightarrow> f32 \<Rightarrow> f32 \<Rightarrow> f32 \<Rightarrow> face_pose_estimate" where
  "with_blink_scores yaw pitch roll left right =
     \<lparr>yaw_deg = yaw, pitch_deg = pitch, roll_deg = roll,
      left_eye_blink_score = Some (f32_clamp left f32_zero f32_one),
      right_eye_blink_score = Some (f32_clamp right f32_zero f32_one)\<rparr>"

definition both_eye_blink_score :: "face_pose_estimate \<Rightarrow> f32 option" where
  "both_eye_blink_score p =
     (case (left_eye_blink_score p, right_eye_blink_score p) of
        (Some l, Some r) \<Rightarrow> Some (f32_clamp (f32_min l r) f32_zero f32_one)
      | _ \<Rightarrow> None)"

datatype face_pose_error =
    PoseNoFace
  | PoseMultipleFaces
  | InsufficientLandmarks
  | PoseProviderUnavailable
  | PoseInferenceFailed

datatype face_pose_target =
    TargetFrontal
  | TargetYawLeftMild
  | TargetYawRightMild
  | TargetPitchDownMild
  | TargetPitchUpMild
  | TargetBlinkMotion

record face_pose_capabilities =
  estimates_head_pose :: bool
  estimates_blink :: bool

definition head_pose_only :: face_pose_capabilities where
  "head_pose_only = \<lparr>estimates_head_pose = True, estimates_blink = False\<rparr>"

definition head_pose_and_blink :: face_pose_capabilities where
  "head_pose_and_blink = \<lparr>estimates_head_pose = True, estimates_blink = True\<rparr>"

definition supports_target :: "face_pose_capabilities \<Rightarrow> face_pose_target \<Rightarrow> bool" where
  "supports_target c target =
     (if target = TargetBlinkMotion then estimates_blink c else estimates_head_pose c)"

definition linear_score :: "f32 \<Rightarrow> f32 \<Rightarrow> f32 \<Rightarrow> f32" where
  "linear_score v best reject_at =
     (if f32_le v best then f32_one
      else if f32_le reject_at v then f32_zero
      else f32_sub f32_one (f32_div (f32_sub v best) (f32_sub reject_at best)))"

definition range_score :: "f32 \<Rightarrow> f32 \<Rightarrow> f32 \<Rightarrow> f32 \<Rightarrow> f32" where
  "range_score v mn mx ideal =
     (if f32_lt v mn \<or> f32_lt mx v then f32_zero
      else
        let distance_from_ideal = f32_abs (f32_sub v ideal);
            max_distance = f32_max (f32_abs (f32_sub ideal mn)) (f32_abs (f32_sub mx ideal))
        in f32_sub f32_one (f32_clamp (f32_div distance_from_ideal max_distance) f32_zero f32_one))"

definition target_score :: "face_pose_target \<Rightarrow> face_pose_estimate \<Rightarrow> f32" where
  "target_score target p =
     (let yaw = yaw_deg p; pitch = pitch_deg p
      in case target of
           TargetFrontal \<Rightarrow>
             f32_mul (linear_score (f32_abs yaw) f32_zero (f32_lit 24 1))
               (linear_score (f32_abs pitch) f32_zero (f32_lit 24 1))
         | TargetBlinkMotion \<Rightarrow>
             (case both_eye_blink_score p of None \<Rightarrow> f32_zero | Some s \<Rightarrow> s)
         | TargetYawLeftMild \<Rightarrow>
             f32_mul (range_score yaw (f32_neg (f32_lit 40 1)) (f32_neg (f32_lit 4 1)) (f32_neg (f32_lit 18 1)))
               (linear_score (f32_abs pitch) f32_zero (f32_lit 28 1))
         | TargetYawRightMild \<Rightarrow>
             f32_mul (range_score yaw (f32_lit 4 1) (f32_lit 40 1) (f32_lit 18 1))
               (linear_score (f32_abs pitch) f32_zero (f32_lit 28 1))
         | TargetPitchDownMild \<Rightarrow>
             f32_mul (range_score pitch (f32_lit 4 1) (f32_lit 34 1) (f32_lit 16 1))
               (linear_score (f32_abs yaw) f32_zero (f32_lit 30 1))
         | TargetPitchUpMild \<Rightarrow>
             f32_mul (range_score pitch (f32_neg (f32_lit 34 1)) (f32_neg (f32_lit 4 1)) (f32_neg (f32_lit 16 1)))
               (linear_score (f32_abs yaw) f32_zero (f32_lit 30 1)))"

definition pose_fit_score :: "face_pose_target \<Rightarrow> face_pose_estimate option \<Rightarrow> f32" where
  "pose_fit_score target estimate =
     (case estimate of
        None \<Rightarrow> f32_zero
      | Some p \<Rightarrow>
          f32_clamp
            (f32_mul (target_score target p)
               (linear_score (f32_abs (roll_deg p)) f32_zero (f32_lit 18 1)))
            f32_zero f32_one)"

definition landmark_distance :: "face_landmark \<Rightarrow> face_landmark \<Rightarrow> f32" where
  "landmark_distance l r =
     (let dx = f32_sub (landmark_x l) (landmark_x r); dy = f32_sub (landmark_y l) (landmark_y r)
      in f32_sqrt (f32_mul_add dx dx (f32_mul dy dy)))"

definition f32_half :: f32 where "f32_half = f32_lit 1 2"

definition f32_pi :: f32 where "f32_pi = F32 0x40490FDB"

definition estimate_pose_from_five_landmarks ::
  "(f32 \<Rightarrow> f32 \<Rightarrow> f32) \<Rightarrow> detected_face \<Rightarrow> face_pose_estimate option" where
  "estimate_pose_from_five_landmarks atan2 face =
     (case landmarks face of
        left_eye # right_eye # nose # left_mouth # right_mouth # _ \<Rightarrow>
          (let eye_distance = landmark_distance left_eye right_eye
           in if f32_le eye_distance f32_epsilon then None
              else
                let eye_mid_y = f32_mul (f32_add (landmark_y left_eye) (landmark_y right_eye)) f32_half;
                    mouth_mid_y = f32_mul (f32_add (landmark_y left_mouth) (landmark_y right_mouth)) f32_half;
                    eye_to_mouth = f32_max (f32_abs (f32_sub mouth_mid_y eye_mid_y)) eye_distance;
                    yaw_ratio = f32_div
                      (f32_sub (landmark_distance right_eye nose) (landmark_distance left_eye nose))
                      eye_distance;
                    yaw = f32_clamp (f32_mul yaw_ratio (f32_lit 45 1)) (f32_neg (f32_lit 45 1)) (f32_lit 45 1);
                    nose_vertical_ratio = f32_div (f32_sub (landmark_y nose) eye_mid_y) eye_to_mouth;
                    pitch = f32_clamp
                      (f32_mul (f32_sub nose_vertical_ratio (f32_lit 35 100)) (f32_lit 70 1))
                      (f32_neg (f32_lit 35 1)) (f32_lit 35 1);
                    roll = f32_div
                      (f32_mul
                        (atan2 (f32_sub (landmark_y right_eye) (landmark_y left_eye))
                               (f32_sub (landmark_x right_eye) (landmark_x left_eye)))
                        (f32_lit 180 1)) f32_pi
                in Some (without_blink yaw pitch roll))
      | _ \<Rightarrow> None)"

definition landmark_estimate_pose ::
  "(f32 \<Rightarrow> f32 \<Rightarrow> f32) \<Rightarrow> video_frame \<Rightarrow> detected_face \<Rightarrow> face_pose_error + face_pose_estimate" where
  "landmark_estimate_pose atan2 frame face =
     ok_or InsufficientLandmarks (estimate_pose_from_five_landmarks atan2 face)"

section \<open>The steps of an enrollment\<close>

datatype guided_enrollment_step =
    StepFrontalPrimary
  | StepYawLeftMild
  | StepYawRightMild
  | StepPitchDownMild
  | StepPitchUpMild
  | StepBlinkMotion

definition ordered_steps :: "guided_enrollment_step list" where
  "ordered_steps =
     [StepFrontalPrimary, StepYawLeftMild, StepYawRightMild, StepPitchDownMild, StepPitchUpMild,
      StepBlinkMotion]"

fun step_pose_group :: "guided_enrollment_step \<Rightarrow> face_pose_group" where
  "step_pose_group StepFrontalPrimary = FrontalPrimary"
| "step_pose_group StepYawLeftMild = YawLeftMild"
| "step_pose_group StepYawRightMild = YawRightMild"
| "step_pose_group StepPitchDownMild = PitchDownMild"
| "step_pose_group StepPitchUpMild = PitchUpMild"
| "step_pose_group StepBlinkMotion = BlinkMotion"

fun step_pose_target :: "guided_enrollment_step \<Rightarrow> face_pose_target" where
  "step_pose_target StepFrontalPrimary = TargetFrontal"
| "step_pose_target StepYawLeftMild = TargetYawLeftMild"
| "step_pose_target StepYawRightMild = TargetYawRightMild"
| "step_pose_target StepPitchDownMild = TargetPitchDownMild"
| "step_pose_target StepPitchUpMild = TargetPitchUpMild"
| "step_pose_target StepBlinkMotion = TargetBlinkMotion"

fun step_label :: "guided_enrollment_step \<Rightarrow> string" where
  "step_label StepFrontalPrimary = ''frontal_primary''"
| "step_label StepYawLeftMild = ''yaw_left_mild''"
| "step_label StepYawRightMild = ''yaw_right_mild''"
| "step_label StepPitchDownMild = ''pitch_down_mild''"
| "step_label StepPitchUpMild = ''pitch_up_mild''"
| "step_label StepBlinkMotion = ''blink_motion''"

definition supported_ordered_steps :: "face_pose_capabilities \<Rightarrow> guided_enrollment_step list" where
  "supported_ordered_steps c = filter (\<lambda>s. supports_target c (step_pose_target s)) ordered_steps"

section \<open>The region of the face\<close>

record face_region =
  x_start :: nat
  y_start :: nat
  x_end :: nat
  y_end :: nat

definition region_width :: "face_region \<Rightarrow> nat" where
  "region_width r = x_end r - x_start r"

definition region_height :: "face_region \<Rightarrow> nat" where
  "region_height r = y_end r - y_start r"

definition face_region_of :: "video_frame \<Rightarrow> detected_face \<Rightarrow> f32 \<Rightarrow> face_region option" where
  "face_region_of frame face padding_ratio =
     (if width frame = 0 \<or> height frame = 0 then None
      else
        let b = bounds face;
            padding_x = f32_mul (f32_max (box_width b) f32_zero) padding_ratio;
            padding_y = f32_mul (f32_max (box_height b) f32_zero) padding_ratio;
            r = \<lparr>x_start = f32_to_u64 (f32_max (f32_floor (f32_sub (box_x b) padding_x)) f32_zero),
                 y_start = f32_to_u64 (f32_max (f32_floor (f32_sub (box_y b) padding_y)) f32_zero),
                 x_end = f32_to_u64
                   (f32_min (f32_ceil (f32_add (f32_add (box_x b) (box_width b)) padding_x))
                      (f32_of_nat (unat (width frame)))),
                 y_end = f32_to_u64
                   (f32_min (f32_ceil (f32_add (f32_add (box_y b) (box_height b)) padding_y))
                      (f32_of_nat (unat (height frame))))\<rparr>
        in if x_end r \<le> x_start r \<or> y_end r \<le> y_start r then None else Some r)"

section \<open>Gray values\<close>

definition f32_of_u8 :: "u8 \<Rightarrow> f32" where
  "f32_of_u8 b = f32_of_nat (unat b)"

text \<open>\<open>chunks_exact(3)\<close>: an incomplete last pixel is dropped.\<close>

fun gray_pixels :: "(u8 \<Rightarrow> u8 \<Rightarrow> u8 \<Rightarrow> f32) \<Rightarrow> u8 list \<Rightarrow> f32 list" where
  "gray_pixels luma (a # b # c # rest) = luma a b c # gray_pixels luma rest"
| "gray_pixels luma _ = []"

definition weighted_channel :: "nat \<Rightarrow> u8 \<Rightarrow> f32" where
  "weighted_channel per_mille b = f32_mul (f32_lit per_mille 1000) (f32_of_u8 b)"

definition grayscale_values :: "video_frame \<Rightarrow> f32 list" where
  "grayscale_values frame =
     (case format frame of
        Gray8 \<Rightarrow> map f32_of_u8 (data frame)
      | Bgr8 \<Rightarrow>
          gray_pixels (\<lambda>b g r. f32_add (f32_add (weighted_channel 114 b) (weighted_channel 587 g))
                                 (weighted_channel 299 r)) (data frame)
      | Rgb8 \<Rightarrow>
          gray_pixels (\<lambda>r g b. f32_add (f32_add (weighted_channel 299 r) (weighted_channel 587 g))
                                 (weighted_channel 114 b)) (data frame))"

section \<open>Blur\<close>

definition mean_of :: "f32 list \<Rightarrow> f32" where
  "mean_of xs = f32_div (f32_sum xs) (f32_of_nat (length xs))"

definition variance :: "f32 list \<Rightarrow> f32" where
  "variance xs =
     (if xs = [] then f32_zero
      else
        let mean = mean_of xs
        in mean_of (map (\<lambda>v. let delta = f32_sub v mean in f32_mul delta delta) xs))"

definition laplacian :: "f32 list \<Rightarrow> nat \<Rightarrow> nat \<Rightarrow> nat \<Rightarrow> f32" where
  "laplacian gray w y x =
     f32_sub (f32_mul (gray ! (y * w + x)) (f32_lit 4 1))
       (f32_add (f32_add (f32_add (gray ! ((y - 1) * w + x)) (gray ! ((y + 1) * w + x)))
          (gray ! (y * w + x - 1))) (gray ! (y * w + x + 1)))"

definition laplacian_values :: "f32 list \<Rightarrow> nat \<Rightarrow> face_region \<Rightarrow> f32 list" where
  "laplacian_values gray w r =
     concat (map (\<lambda>y. map (laplacian gray w y) [x_start r + 1 ..< x_end r - 1])
       [y_start r + 1 ..< y_end r - 1])"

definition blur_of_values :: "f32 list \<Rightarrow> f32" where
  "blur_of_values vs = f32_clamp (f32_div (variance vs) (f32_lit 350 1)) f32_zero f32_one"

definition score_blur_values :: "f32 list \<Rightarrow> nat \<Rightarrow> nat \<Rightarrow> f32" where
  "score_blur_values gray w h =
     (if w < 3 \<or> h < 3 \<or> length gray < w * h then f32_zero
      else blur_of_values
             (laplacian_values gray w \<lparr>x_start = 0, y_start = 0, x_end = w, y_end = h\<rparr>))"

definition score_blur :: "video_frame \<Rightarrow> f32" where
  "score_blur frame =
     (if width frame < 3 \<or> height frame < 3 \<or> data frame = [] then f32_zero
      else score_blur_values (grayscale_values frame) (unat (width frame)) (unat (height frame)))"

definition score_blur_region :: "f32 list \<Rightarrow> nat \<Rightarrow> face_region \<Rightarrow> f32 option" where
  "score_blur_region gray frame_width r =
     (if region_width r < 3 \<or> region_height r < 3 \<or> length gray < frame_width * y_end r then None
      else Some (blur_of_values (laplacian_values gray frame_width r)))"

definition face_padding :: f32 where "face_padding = f32_lit 20 100"

definition score_face_region_blur :: "video_frame \<Rightarrow> detected_face \<Rightarrow> f32" where
  "score_face_region_blur frame face =
     (case face_region_of frame face face_padding of
        None \<Rightarrow> score_blur frame
      | Some r \<Rightarrow>
          (case score_blur_region (grayscale_values frame) (unat (width frame)) r of
             None \<Rightarrow> score_blur frame
           | Some s \<Rightarrow> s))"

section \<open>Illumination\<close>

definition illumination_of_values :: "f32 list \<Rightarrow> f32" where
  "illumination_of_values gray =
     (let mean = mean_of gray;
          mean_score = f32_sub f32_one
            (f32_clamp (f32_div (f32_abs (f32_sub mean (f32_lit 128 1))) (f32_lit 128 1)) f32_zero f32_one);
          saturated_count = length (filter (\<lambda>v. f32_lt v (f32_lit 8 1) \<or> f32_lt (f32_lit 247 1) v) gray);
          saturated_ratio = f32_div (f32_of_nat saturated_count) (f32_of_nat (length gray));
          saturation_score = f32_sub f32_one
            (f32_clamp (f32_div saturated_ratio (f32_lit 25 100)) f32_zero f32_one)
      in f32_clamp
           (f32_add (f32_mul mean_score (f32_lit 65 100)) (f32_mul saturation_score (f32_lit 35 100)))
           f32_zero f32_one)"

definition score_illumination :: "video_frame \<Rightarrow> f32" where
  "score_illumination frame =
     (if data frame = [] then f32_zero else illumination_of_values (grayscale_values frame))"

definition score_illumination_values :: "f32 list \<Rightarrow> f32 option" where
  "score_illumination_values gray = (if gray = [] then None else Some (illumination_of_values gray))"

text \<open>The gray values of the region; \<open>gray[row + x]\<close> panics beyond the data.\<close>

definition region_values :: "f32 list \<Rightarrow> nat \<Rightarrow> face_region \<Rightarrow> f32 list option" where
  "region_values gray w r =
     (let is = concat (map (\<lambda>y. map (\<lambda>x. y * w + x) [x_start r ..< x_end r]) [y_start r ..< y_end r])
      in if list_all (\<lambda>i. i < length gray) is then Some (map (nth gray) is) else None)"

definition score_face_region_illumination :: "video_frame \<Rightarrow> detected_face \<Rightarrow> f32 option" where
  "score_face_region_illumination frame face =
     (case face_region_of frame face face_padding of
        None \<Rightarrow> Some (score_illumination frame)
      | Some r \<Rightarrow>
          (case region_values (grayscale_values frame) (unat (width frame)) r of
             None \<Rightarrow> None
           | Some vs \<Rightarrow>
               (case score_illumination_values vs of
                  None \<Rightarrow> Some (score_illumination frame)
                | Some s \<Rightarrow> Some s)))"

section \<open>Size and alignment\<close>

definition score_face_size :: "video_frame \<Rightarrow> detected_face \<Rightarrow> f32" where
  "score_face_size frame face =
     (if width frame = 0 \<or> height frame = 0 then f32_zero
      else
        let frame_area = f32_mul (f32_of_nat (unat (width frame))) (f32_of_nat (unat (height frame)));
            ratio = f32_clamp
              (f32_div (f32_mul (box_width (bounds face)) (box_height (bounds face))) frame_area)
              f32_zero f32_one
        in if f32_lt ratio (f32_lit 2 100) then
             f32_mul (f32_div ratio (f32_lit 2 100)) (f32_lit 3 10)
           else if f32_lt ratio (f32_lit 8 100) then
             f32_add (f32_lit 3 10)
               (f32_mul (f32_div (f32_sub ratio (f32_lit 2 100)) (f32_lit 6 100)) f32_half)
           else if f32_le ratio (f32_lit 45 100) then f32_one
           else f32_clamp
                  (f32_sub f32_one (f32_div (f32_sub ratio (f32_lit 45 100)) (f32_lit 35 100)))
                  f32_zero f32_one)"

definition score_alignment :: "detected_face \<Rightarrow> f32" where
  "score_alignment face =
     (if length (landmarks face) < 5 then f32_zero
      else if f32_lt (confidence face) f32_half then f32_lit 2 10
      else f32_clamp (confidence face) f32_zero f32_one)"

section \<open>The score of a sample\<close>

definition weighted_average :: "(f32 \<times> f32) list \<Rightarrow> f32" where
  "weighted_average vs =
     (let total_weight = f32_sum (map snd vs)
      in if f32_le total_weight f32_epsilon then f32_zero
         else f32_div
                (f32_sum (map (\<lambda>(v, weight). f32_mul (f32_clamp v f32_zero f32_one) weight) vs))
                total_weight)"

definition score_face_sample ::
  "video_frame \<Rightarrow> detected_face \<Rightarrow> guided_enrollment_step \<Rightarrow> face_pose_estimate option \<Rightarrow> f32 option \<Rightarrow>
     face_template_quality_scores option" where
  "score_face_sample frame face step pose consistency =
     (case score_face_region_illumination frame face of
        None \<Rightarrow> None
      | Some illumination \<Rightarrow>
          (let size = score_face_size frame face;
               blur = score_face_region_blur frame face;
               alignment = score_alignment face;
               fit = pose_fit_score (step_pose_target step) pose;
               embedding_component = f32_clamp (case consistency of None \<Rightarrow> f32_one | Some c \<Rightarrow> c)
                                       f32_zero f32_one
           in Some \<lparr>quality_score = weighted_average
                      [(size, f32_lit 18 100), (blur, f32_lit 15 100), (illumination, f32_lit 17 100),
                       (alignment, f32_lit 15 100), (fit, f32_lit 20 100),
                       (embedding_component, f32_lit 15 100)],
                    blur_score = blur, illumination_score = illumination, face_size_score = size,
                    alignment_score = alignment, scored_pose_fit = fit,
                    embedding_consistency_score = consistency\<rparr>))"

section \<open>The policy\<close>

record face_quality_policy =
  min_quality_score :: f32
  min_face_size_score :: f32
  min_illumination_score :: f32
  min_blur_score :: f32
  min_pose_fit_score :: f32

definition default_face_quality_policy :: face_quality_policy where
  "default_face_quality_policy =
     \<lparr>min_quality_score = f32_lit 55 100, min_face_size_score = f32_lit 30 100,
      min_illumination_score = f32_lit 35 100, min_blur_score = f32_lit 20 100,
      min_pose_fit_score = f32_lit 25 100\<rparr>"

definition reject_reason_for_quality ::
  "face_template_quality_scores \<Rightarrow> face_quality_policy \<Rightarrow> face_sample_reject_reason option" where
  "reject_reason_for_quality q p =
     (if f32_lt (face_size_score q) (min_face_size_score p) then Some FaceTooSmall
      else if f32_lt (blur_score q) (min_blur_score p) then Some BlurTooHigh
      else if f32_lt (illumination_score q) (min_illumination_score p) then Some UnderExposed
      else if f32_lt (scored_pose_fit q) (min_pose_fit_score p) then Some PoseOutOfExpectedRange
      else if f32_le (alignment_score q) f32_zero then Some AlignmentFailed
      else if f32_lt (quality_score q) (min_quality_score p) then Some PoseOutOfExpectedRange
      else None)"

text \<open>The gate of the silent monitor (\<open>src/authenticator.rs\<close>): a face of low quality is not taken for
  an intruder's.\<close>

definition intruder_quality_policy :: face_quality_policy where
  "intruder_quality_policy =
     default_face_quality_policy\<lparr>min_pose_fit_score := f32_lit 6 10, min_quality_score := f32_half\<rparr>"

definition intruder_quality_rejects ::
  "(f32 \<Rightarrow> f32 \<Rightarrow> f32) \<Rightarrow> video_frame \<Rightarrow> detected_face \<Rightarrow> bool option" where
  "intruder_quality_rejects atan2 frame face =
     map_option (\<lambda>q. reject_reason_for_quality q intruder_quality_policy \<noteq> None)
       (score_face_sample frame face StepFrontalPrimary
          (estimate_pose_from_five_landmarks atan2 face) None)"

end
