(* ===== verification/Authenticator.thy ===== *)
theory Authenticator
  imports Attempt_Policy Face_Quality Protocol
begin

text \<open>
  Crate \<open>face_auth\<close>, \<open>src/authenticator.rs\<close>: from a frame to an accepted user or the reason of its
  rejection. The models are a trait of the code, the record \<open>model_ops\<close> over their state \<open>'m\<close>; the
  quality gate of the intruder decision is that of \<open>Face_Quality\<close>, with its argument \<open>atan2\<close>. The
  camera's loop hands over validated frames, on which the gate does not panic
  (\<open>score_face_sample_total\<close>).
\<close>

section \<open>The authenticator\<close>

record 'm model_ops =
  load_models :: "'m \<Rightarrow> 'm \<times> (face_engine_error + unit)"
  unload_models :: "'m \<Rightarrow> 'm"
  recognition_model :: "'m \<Rightarrow> face_model_descriptor"
  detect :: "video_frame \<Rightarrow> 'm \<Rightarrow> 'm \<times> (face_engine_error + detected_face list)"
  extract_embedding :: "video_frame \<Rightarrow> detected_face \<Rightarrow> 'm \<Rightarrow> 'm \<times> (face_engine_error + face_embedding)"

record 'm authenticator =
  model_provider :: 'm
  matcher_threshold :: f32
  attempts :: attempt_policy

record authentication_outcome =
  matched_user_id :: user_id
  outcome_match_score :: f32
  matched_template :: face_template_match
  matched_pose_group :: face_pose_group

definition new_authenticator :: "'m \<Rightarrow> f32 \<Rightarrow> attempt_policy \<Rightarrow> 'm authenticator" where
  "new_authenticator m threshold p = \<lparr>model_provider = m, matcher_threshold = threshold, attempts = p\<rparr>"

fun face_engine_error_to_auth_failure :: "face_engine_error \<Rightarrow> auth_failure_reason" where
  "face_engine_error_to_auth_failure EngineNoFaceDetected = NoFaceDetected"
| "face_engine_error_to_auth_failure EngineMultipleFacesDetected = MultipleFacesDetected"
| "face_engine_error_to_auth_failure _ = InternalError"

definition detect_single_face ::
  "'m model_ops \<Rightarrow> video_frame \<Rightarrow> 'm authenticator \<Rightarrow>
     'm authenticator \<times> (auth_failure_reason + detected_face)" where
  "detect_single_face M frame a =
     (case detect M frame (model_provider a) of
        (m, r) \<Rightarrow>
          (a\<lparr>model_provider := m\<rparr>,
           (case r of
              Inl e \<Rightarrow> Inl (face_engine_error_to_auth_failure e)
            | Inr faces \<Rightarrow>
                if faces = [] then Inl NoFaceDetected
                else if length faces > 1 then Inl MultipleFacesDetected
                else Inr (hd faces))))"

definition validate_authentication_preconditions ::
  "'m model_ops \<Rightarrow> recognition_templates \<Rightarrow> i64 \<Rightarrow> 'm authenticator \<Rightarrow>
     'm authenticator \<times> (auth_failure_reason + unit)" where
  "validate_authentication_preconditions M rt now a =
     (if templates rt = [] then (a, Inl InternalError)
      else case cooldown_is_active now (attempts a) of
             (p, active) \<Rightarrow>
               (let a1 = a\<lparr>attempts := p\<rparr>
                in if active then (a1, Inl CooldownActive)
                   else if \<not> has_compatible_template rt (recognition_model M (model_provider a1))
                     then (a1, Inl TemplateModelMismatch)
                   else (a1, Inr ())))"

text \<open>Whether a low score counts as an intruder: the silent monitor ignores faces that are small
  against the enrolled ones or of bad quality.\<close>

definition counts_as_intruder ::
  "(f32 \<Rightarrow> f32 \<Rightarrow> f32) \<Rightarrow> video_frame \<Rightarrow> detected_face \<Rightarrow> recognition_templates \<Rightarrow>
     auth_trigger_source \<Rightarrow> f32 \<Rightarrow> f32 \<Rightarrow> bool" where
  "counts_as_intruder atan2 frame face rt trigger threshold s =
     (if \<not> f32_lt s threshold then False
      else if trigger \<noteq> BackgroundSilentMonitor then True
      else if (case average_face_area rt of
                 None \<Rightarrow> False
               | Some avg_area \<Rightarrow>
                   f32_to_u32 (f32_mul (box_width (bounds face)) (box_height (bounds face))) <
                   f32_to_u32 (f32_mul (f32_of_nat (unat avg_area)) (F32 0x3F4CCCCD)))
        then False
      else intruder_quality_rejects atan2 frame face = Some False)"

definition decide_match ::
  "bool \<Rightarrow> bool \<Rightarrow> i64 \<Rightarrow> face_match_decision \<Rightarrow> attempt_policy \<Rightarrow>
     attempt_policy \<times> attempt_policy_decision" where
  "decide_match record_failure is_intruder now decision p =
     (case decision of
        MatchAccepted \<Rightarrow> record_match_result True False now p
      | MatchRejectedBelowThreshold \<Rightarrow>
          if record_failure then record_match_result False is_intruder now p
          else (p, if is_intruder then DecisionIntruderDetected
                   else DecisionMatchRejectedBelowThreshold))"

definition outcome_of_match :: "face_template_match \<Rightarrow> authentication_outcome" where
  "outcome_of_match m =
     \<lparr>matched_user_id = UserId (m_user_id m), outcome_match_score = m_score m,
      matched_template = m, matched_pose_group = m_pose_group m\<rparr>"

definition authenticate_after_preconditions ::
  "'m model_ops \<Rightarrow> (f32 \<Rightarrow> f32 \<Rightarrow> f32) \<Rightarrow> bool \<Rightarrow> video_frame \<Rightarrow> detected_face \<Rightarrow>
     recognition_templates \<Rightarrow> auth_trigger_source \<Rightarrow> i64 \<Rightarrow> 'm authenticator \<Rightarrow>
     'm authenticator \<times> (auth_failure_reason + authentication_outcome)" where
  "authenticate_after_preconditions M atan2 record_failure frame face rt trigger now a =
     (let model = recognition_model M (model_provider a)
      in case extract_embedding M frame face (model_provider a) of
           (m, Inl e) \<Rightarrow> (a\<lparr>model_provider := m\<rparr>, Inl (face_engine_error_to_auth_failure e))
         | (m, Inr candidate) \<Rightarrow>
             (let a1 = a\<lparr>model_provider := m\<rparr>
              in case best_compatible_match (matcher_threshold a1) (templates rt) model candidate of
                   None \<Rightarrow>
                     (if record_failure
                      then a1\<lparr>attempts := fst (record_failed_attempt now (attempts a1))\<rparr>
                      else a1, Inl MatchBelowThreshold)
                 | Some best \<Rightarrow>
                     (let is_intruder = counts_as_intruder atan2 frame face rt trigger
                            (attempt_policy_config.intruder_similarity_threshold (ap_config (attempts a1))) (m_score best)
                      in case decide_match record_failure is_intruder now (m_decision best) (attempts a1) of
                           (p, decision) \<Rightarrow>
                             (a1\<lparr>attempts := p\<rparr>,
                              (case decision of
                                 AuthenticationAccepted \<Rightarrow> Inr (outcome_of_match best)
                               | NeedMoreConsecutiveMatches \<Rightarrow> Inl MatchBelowThreshold
                               | DecisionMatchRejectedBelowThreshold \<Rightarrow> Inl MatchBelowThreshold
                               | DecisionIntruderDetected \<Rightarrow> Inl IntruderDetected
                               | CooldownActivated \<Rightarrow> Inl CooldownActive)))))"

definition authenticate_detected_face_with ::
  "'m model_ops \<Rightarrow> (f32 \<Rightarrow> f32 \<Rightarrow> f32) \<Rightarrow> bool \<Rightarrow> video_frame \<Rightarrow> detected_face \<Rightarrow>
     recognition_templates \<Rightarrow> auth_trigger_source \<Rightarrow> i64 \<Rightarrow> 'm authenticator \<Rightarrow>
     'm authenticator \<times> (auth_failure_reason + authentication_outcome)" where
  "authenticate_detected_face_with M atan2 record_failure frame face rt trigger now a =
     (case validate_authentication_preconditions M rt now a of
        (a1, Inl e) \<Rightarrow> (a1, Inl e)
      | (a1, Inr _) \<Rightarrow>
          authenticate_after_preconditions M atan2 record_failure frame face rt trigger now a1)"

definition authenticate_detected_face ::
  "'m model_ops \<Rightarrow> (f32 \<Rightarrow> f32 \<Rightarrow> f32) \<Rightarrow> video_frame \<Rightarrow> detected_face \<Rightarrow>
     recognition_templates \<Rightarrow> auth_trigger_source \<Rightarrow> i64 \<Rightarrow> 'm authenticator \<Rightarrow>
     'm authenticator \<times> (auth_failure_reason + authentication_outcome)" where
  "authenticate_detected_face M atan2 = authenticate_detected_face_with M atan2 True"

definition authenticate_detected_face_without_failure_cooldown ::
  "'m model_ops \<Rightarrow> (f32 \<Rightarrow> f32 \<Rightarrow> f32) \<Rightarrow> video_frame \<Rightarrow> detected_face \<Rightarrow>
     recognition_templates \<Rightarrow> auth_trigger_source \<Rightarrow> i64 \<Rightarrow> 'm authenticator \<Rightarrow>
     'm authenticator \<times> (auth_failure_reason + authentication_outcome)" where
  "authenticate_detected_face_without_failure_cooldown M atan2 =
     authenticate_detected_face_with M atan2 False"

definition authenticate_frame ::
  "'m model_ops \<Rightarrow> (f32 \<Rightarrow> f32 \<Rightarrow> f32) \<Rightarrow> video_frame \<Rightarrow>
     recognition_templates \<Rightarrow> auth_trigger_source \<Rightarrow> i64 \<Rightarrow> 'm authenticator \<Rightarrow>
     'm authenticator \<times> (auth_failure_reason + authentication_outcome)" where
  "authenticate_frame M atan2 frame rt trigger now a =
     (case validate_authentication_preconditions M rt now a of
        (a1, Inl e) \<Rightarrow> (a1, Inl e)
      | (a1, Inr _) \<Rightarrow>
          (case detect_single_face M frame a1 of
             (a2, Inl e) \<Rightarrow> (a2, Inl e)
           | (a2, Inr face) \<Rightarrow>
               authenticate_after_preconditions M atan2 True frame face rt trigger now a2))"

definition auth_reset_consecutive_matches :: "'m authenticator \<Rightarrow> 'm authenticator" where
  "auth_reset_consecutive_matches a = a\<lparr>attempts := reset_consecutive_matches (attempts a)\<rparr>"

section \<open>Lemmas\<close>

lemma decide_match_accepted:
  assumes "decide_match record_failure intruder now d p = (p1, AuthenticationAccepted)"
  shows "d = MatchAccepted \<and> record_match_result True False now p = (p1, AuthenticationAccepted)"
  using assms
  by (auto simp: decide_match_def record_match_result_def record_failed_attempt_def Let_def
      split: face_match_decision.splits if_splits prod.splits)

lemma after_preconditions_Inr:
  assumes "authenticate_after_preconditions M q rf frame face rt trigger now a = (a1, Inr outcome)"
  shows "\<exists>m candidate best. extract_embedding M frame face (model_provider a) = (m, Inr candidate) \<and>
    best_compatible_match (matcher_threshold a) (templates rt) (recognition_model M (model_provider a)) candidate = Some best \<and>
    m_decision best = MatchAccepted \<and> outcome = outcome_of_match best \<and>
    record_match_result True False now (attempts a) = (attempts a1, AuthenticationAccepted)"
proof -
  from assms obtain m candidate where ex: "extract_embedding M frame face (model_provider a) = (m, Inr candidate)"
    by (auto simp: authenticate_after_preconditions_def Let_def split: prod.splits sum.splits)
  from assms ex obtain best where best:
    "best_compatible_match (matcher_threshold a) (templates rt) (recognition_model M (model_provider a)) candidate = Some best"
    by (auto simp: authenticate_after_preconditions_def Let_def split: option.splits)
  from assms ex best show ?thesis
    by (auto simp: authenticate_after_preconditions_def Let_def split: prod.splits
        attempt_policy_decision.splits dest: decide_match_accepted)
qed

lemma preconditions_Inr:
  assumes "validate_authentication_preconditions M rt now a = (a1, Inr u)"
  shows "templates rt \<noteq> [] \<and> snd (cooldown_is_active now (attempts a)) = False \<and>
    a1 = a\<lparr>attempts := fst (cooldown_is_active now (attempts a))\<rparr> \<and>
    has_compatible_template rt (recognition_model M (model_provider a))"
  using assms
  by (auto simp: validate_authentication_preconditions_def Let_def split: if_splits prod.splits)

lemma accepted_by_template:
  assumes "authenticate_detected_face_with M q rf frame face rt trigger now a = (a1, Inr outcome)"
  shows "\<exists>m candidate t. extract_embedding M frame face (model_provider a) = (m, Inr candidate) \<and>
      t \<in> set (templates rt) \<and> is_compatible_with t (recognition_model M (model_provider a)) \<and>
      matched_user_id outcome = UserId (template_user_id t) \<and>
      outcome_match_score outcome = embedding_score (embedding t) candidate \<and>
      f32_le (matcher_threshold a) (outcome_match_score outcome)"
proof -
  from assms obtain a0 where
    pre: "validate_authentication_preconditions M rt now a = (a0, Inr ())" and
    post: "authenticate_after_preconditions M q rf frame face rt trigger now a0 = (a1, Inr outcome)"
    by (auto simp: authenticate_detected_face_with_def split: prod.splits sum.splits)
  have "model_provider a0 = model_provider a" "matcher_threshold a0 = matcher_threshold a"
    using preconditions_Inr [OF pre] by simp_all
  with after_preconditions_Inr [OF post] obtain m candidate best where r:
    "extract_embedding M frame face (model_provider a) = (m, Inr candidate)"
    "best_compatible_match (matcher_threshold a) (templates rt) (recognition_model M (model_provider a)) candidate = Some best"
    "m_decision best = MatchAccepted" "outcome = outcome_of_match best"
    by auto
  moreover obtain t where "t \<in> set (templates rt)" "is_compatible_with t (recognition_model M (model_provider a))"
    "best = match_template (matcher_threshold a) candidate t"
    using max_by_score_Some(1) [OF r(2) [unfolded best_compatible_match_def]] by auto
  ultimately show ?thesis
    by (auto simp: outcome_of_match_def)
qed

lemma authenticate_keeps_threshold:
  "matcher_threshold (fst (authenticate_detected_face_with M q rf frame face rt trigger now a)) = matcher_threshold a"
  by (auto simp: authenticate_detected_face_with_def validate_authentication_preconditions_def
      authenticate_after_preconditions_def Let_def split: prod.splits sum.splits option.splits if_splits)

lemma detect_keeps_threshold:
  "matcher_threshold (fst (detect_single_face M frame a)) = matcher_threshold a"
  by (auto simp: detect_single_face_def split: prod.splits sum.splits list.splits)

section \<open>Properties of the authenticator\<close>

text \<open>A face is accepted only when no cooldown is active, the best match of the face's own
  embedding comes from a template of the running model whose score reaches the threshold, the user
  is that template's, and the frame completes the required run of matches.\<close>

theorem accepted_face_matches_template:
  assumes "authenticate_detected_face_with M q rf frame face rt trigger now a = (a1, Inr outcome)"
    and "attempts a = attempts_after cfg ops" and "required_consecutive_match_count cfg \<noteq> 0"
  shows "\<not> snd (cooldown_is_active now (attempts a)) \<and>
    unat (required_consecutive_match_count cfg) dvd Suc (trailing_matches ops) \<and>
    (\<exists>m candidate t. extract_embedding M frame face (model_provider a) = (m, Inr candidate) \<and>
      t \<in> set (templates rt) \<and> is_compatible_with t (recognition_model M (model_provider a)) \<and>
      matched_user_id outcome = UserId (template_user_id t) \<and>
      outcome_match_score outcome = embedding_score (embedding t) candidate \<and>
      f32_le (matcher_threshold a) (outcome_match_score outcome))"
proof -
  from assms(1) obtain a0 where
    pre: "validate_authentication_preconditions M rt now a = (a0, Inr ())" and
    post: "authenticate_after_preconditions M q rf frame face rt trigger now a0 = (a1, Inr outcome)"
    by (auto simp: authenticate_detected_face_with_def split: prod.splits sum.splits)
  note p = preconditions_Inr [OF pre]
  then have "attempts a0 = attempts_after cfg (ops @ [AttemptCooldownCheck now])"
    using assms(2) by (simp add: attempts_after_snoc)
  with after_preconditions_Inr [OF post] have
    "snd (record_match_result True False now (attempts_after cfg (ops @ [AttemptCooldownCheck now]))) = AuthenticationAccepted"
    by auto
  then have "unat (required_consecutive_match_count cfg) dvd Suc (trailing_matches ops)"
    using accepted_iff [OF assms(3)] by (simp add: trailing_matches_snoc)
  with p accepted_by_template [OF assms(1)] show ?thesis by blast
qed

text \<open>C38: a frame that does not match leaves the run of matches as it is when failures are not
  recorded for the cooldown: the next match continues it.\<close>

theorem unrecorded_rejection_keeps_run:
  assumes "validate_authentication_preconditions M rt now a = (a0, Inr ())"
    and "extract_embedding M frame face (model_provider a) = (m, Inr candidate)"
    and "case best_compatible_match (matcher_threshold a) (templates rt)
           (recognition_model M (model_provider a)) candidate of
           None \<Rightarrow> True | Some best \<Rightarrow> m_decision best = MatchRejectedBelowThreshold"
  shows "consecutive_match_count (ap_state (attempts (fst
    (authenticate_detected_face_without_failure_cooldown M q frame face rt trigger now a)))) =
      consecutive_match_count (ap_state (attempts a))"
proof -
  note p = preconditions_Inr [OF assms(1)]
  have "consecutive_match_count (ap_state (fst (cooldown_is_active now (attempts a)))) =
      consecutive_match_count (ap_state (attempts a))"
    by (auto simp: cooldown_is_active_def split: option.splits)
  then show ?thesis
    using assms p
    by (auto simp: authenticate_detected_face_without_failure_cooldown_def authenticate_detected_face_with_def
        authenticate_after_preconditions_def decide_match_def Let_def split: option.splits)
qed

text \<open>A model for the examples: one face, whose embedding is the state.\<close>

definition sample_face :: detected_face where
  "sample_face = \<lparr>bounds = \<lparr>box_x = f32_zero, box_y = f32_zero, box_width = f32_one, box_height = f32_one\<rparr>,
     landmarks = [], confidence = f32_one\<rparr>"

definition sample_models :: "f32 list model_ops" where
  "sample_models =
     \<lparr>load_models = (\<lambda>m. (m, Inr ())), unload_models = (\<lambda>m. m),
      recognition_model = (\<lambda>_. sample_model), detect = (\<lambda>_ m. (m, Inr [sample_face])),
      extract_embedding = (\<lambda>_ _ m. (m, Inr m))\<rparr>"

definition sample_frame :: video_frame where
  "sample_frame = \<lparr>width = 1, height = 1, format = Gray8, data = [200]\<rparr>"

definition sample_templates :: recognition_templates where
  "sample_templates = new_recognition_templates [sample_template]"

definition single_match_config :: attempt_policy_config where
  "single_match_config = default_attempt_policy_config\<lparr>required_consecutive_match_count := 1\<rparr>"

definition sample_authenticator :: "f32 list authenticator" where
  "sample_authenticator =
     new_authenticator [f32_one] (F32 0x3E99999A) (new_attempt_policy single_match_config)"

lemma sample_template_model: "template_model sample_template = sample_model"
  by (simp add: sample_template_def)

lemma sample_cosine: "embedding_score [f32_one] [f32_one] = f32_one"
  by (simp add: embedding_score_def cosine_similarity_def f32_mul_one f32_add_zero_one f32_sqrt_one
      f32_div_self f32_eq_def)

lemma sample_threshold: "f32_le (F32 0x3E99999A) f32_one"
proof -
  have "f32_key (F32 0x3E99999A) = 0x3E99999A" "\<not> f32_is_nan (F32 0x3E99999A)"
    by (simp_all add: f32_key_def f32_is_nan_def f32_magnitude_def f32_negative_def)
  then show ?thesis by (simp add: f32_le_def)
qed

lemma sample_accepted:
  "\<exists>a1 outcome. authenticate_detected_face_with sample_models (\<lambda>_ _. f32_zero) False sample_frame sample_face
     sample_templates CredentialScreenEntered 5 sample_authenticator = (a1, Inr outcome)"
proof -
  have match: "match_template (F32 0x3E99999A) [f32_one] sample_template =
      \<lparr>m_template_ref = ''face-1'', m_user_id = ''user-1'', m_pose_group = FrontalPrimary,
       m_score = f32_one, m_decision = MatchAccepted\<rparr>"
    by (simp add: match_template_def compare_embeddings_def sample_template_def sample_cosine
        sample_threshold)
  then show ?thesis
    by (simp add: authenticate_detected_face_with_def validate_authentication_preconditions_def
        sample_templates_def new_recognition_templates_def sample_authenticator_def new_authenticator_def
        cooldown_is_active_def new_attempt_policy_def new_attempt_policy_state_def
        has_compatible_template_def is_compatible_with_def sample_models_def
        authenticate_after_preconditions_def best_compatible_match_def match Let_def
        decide_match_def record_match_result_def single_match_config_def sample_template_model)
qed

theorem accepted_face_matches_template_witness:
  "\<exists>a1 outcome. authenticate_detected_face_with sample_models (\<lambda>_ _. f32_zero) False sample_frame sample_face
      sample_templates CredentialScreenEntered 5 sample_authenticator = (a1, Inr outcome) \<and>
    matched_user_id outcome = UserId ''user-1''"
proof -
  obtain a1 outcome where run: "authenticate_detected_face_with sample_models (\<lambda>_ _. f32_zero) False sample_frame
      sample_face sample_templates CredentialScreenEntered 5 sample_authenticator = (a1, Inr outcome)"
    using sample_accepted by blast
  have "attempts sample_authenticator = attempts_after single_match_config []"
    by (simp add: sample_authenticator_def new_authenticator_def attempts_after_def)
  from accepted_face_matches_template [OF run this]
  have "matched_user_id outcome = UserId ''user-1''"
    by (auto simp: sample_templates_def new_recognition_templates_def sample_template_def single_match_config_def)
  with run show ?thesis by blast
qed

theorem unrecorded_rejection_keeps_run_witness:
  "consecutive_match_count (ap_state (attempts (fst
     (authenticate_detected_face_without_failure_cooldown sample_models (\<lambda>_ _. f32_zero) sample_frame sample_face
       sample_templates CredentialScreenEntered 5
       (new_authenticator [] (F32 0x3E99999A) (attempts_after default_attempt_policy_config [AttemptMatch 1])))))) = 1"
proof -
  let ?a = "new_authenticator ([] :: f32 list) (F32 0x3E99999A) (attempts_after default_attempt_policy_config [AttemptMatch 1])"
  have cool: "cooldown_is_active 5 (attempts ?a) = (attempts ?a, False)"
    and one: "consecutive_match_count (ap_state (attempts ?a)) = 1"
    by (simp_all add: new_authenticator_def attempts_after_def new_attempt_policy_def
        new_attempt_policy_state_def cooldown_is_active_def record_match_result_def
        default_attempt_policy_config_def Let_def word_le_nat_alt)
  have "\<not> f32_le (F32 0x3E99999A) f32_zero"
    by (simp add: f32_le_def f32_key_def f32_magnitude_def f32_negative_def f32_is_nan_def f32_zero_def)
  then have rejected: "m_decision (match_template (F32 0x3E99999A) [] sample_template) = MatchRejectedBelowThreshold"
    by (simp add: match_template_def compare_embeddings_def embedding_score_def cosine_similarity_def Let_def)
  have "consecutive_match_count (ap_state (attempts (fst
     (authenticate_detected_face_without_failure_cooldown sample_models (\<lambda>_ _. f32_zero) sample_frame sample_face
       sample_templates CredentialScreenEntered 5 ?a)))) = consecutive_match_count (ap_state (attempts ?a))"
  proof (rule unrecorded_rejection_keeps_run)
    show "validate_authentication_preconditions sample_models sample_templates 5 ?a = (?a, Inr ())"
      using cool
      by (simp add: validate_authentication_preconditions_def sample_templates_def new_recognition_templates_def
          has_compatible_template_def is_compatible_with_def sample_models_def sample_template_model Let_def)
    show "extract_embedding sample_models sample_frame sample_face (model_provider ?a) = ([], Inr [])"
      by (simp add: sample_models_def new_authenticator_def)
    show "case best_compatible_match (matcher_threshold ?a) (templates sample_templates)
        (recognition_model sample_models (model_provider ?a)) [] of
        None \<Rightarrow> True | Some best \<Rightarrow> m_decision best = MatchRejectedBelowThreshold"
      using rejected
      by (simp add: best_compatible_match_def sample_templates_def new_recognition_templates_def
          is_compatible_with_def sample_models_def sample_template_model new_authenticator_def)
  qed
  then show ?thesis by (simp add: one)
qed

end
