(* ===== verification/Local_Camera_Auth.thy ===== *)
theory Local_Camera_Auth
  imports Authenticator Camera_Runtime
begin

text \<open>
  Crate \<open>win_service\<close>, \<open>src/auth_issuer.rs\<close>, the issuer that looks into the camera
  (\<open>LocalCameraAuthGrantIssuer\<close>): the loop over the frames with the liveness evidence of the window
  (\<open>MiniFasNetWindowEvidence\<close>), the loading of the models around it, and the grant it publishes;
  from \<open>src/snapshot_policy.rs\<close> the permission for pictures of intruders. The camera, the liveness
  model, the clock and the lease of the camera are operations on a world \<open>'w\<close>; the grant sequence
  of the process is a counter passed in and out.
\<close>

section \<open>Liveness evidence\<close>

datatype liveness_decision = LiveAccepted | SpoofRejected | Inconclusive | LivenessProviderUnavailable

record liveness_result =
  liveness_decision :: liveness_decision
  result_liveness_score :: "f32 option"

record window_evidence =
  evaluated_frame_count :: u32
  spoof_frame_count :: u32
  max_spoof_frame_ratio :: f32

definition new_window :: "f32 \<Rightarrow> window_evidence" where
  "new_window ratio = \<lparr>evaluated_frame_count = 0, spoof_frame_count = 0, max_spoof_frame_ratio = ratio\<rparr>"

definition record_liveness ::
  "liveness_result \<Rightarrow> window_evidence \<Rightarrow> window_evidence \<times> (auth_failure_reason + f32 option)" where
  "record_liveness r e0 =
     (let e = e0\<lparr>evaluated_frame_count := sat_inc (evaluated_frame_count e0)\<rparr>
      in case liveness_decision r of
           LiveAccepted \<Rightarrow>
             (e, case result_liveness_score r of None \<Rightarrow> Inl InternalError | Some s \<Rightarrow> Inr (Some s))
         | SpoofRejected \<Rightarrow> (e\<lparr>spoof_frame_count := sat_inc (spoof_frame_count e)\<rparr>, Inr None)
         | Inconclusive \<Rightarrow> (e, Inr None)
         | LivenessProviderUnavailable \<Rightarrow> (e, Inl InternalError))"

definition spoof_frame_ratio :: "window_evidence \<Rightarrow> f32" where
  "spoof_frame_ratio e =
     (if evaluated_frame_count e = 0 then f32_zero
      else f32_div (f32_of_nat (unat (spoof_frame_count e))) (f32_of_nat (unat (evaluated_frame_count e))))"

definition reject_unlock_candidate_if_spoof_ratio_exceeded ::
  "window_evidence \<Rightarrow> auth_failure_reason + unit" where
  "reject_unlock_candidate_if_spoof_ratio_exceeded e =
     (if f32_lt (max_spoof_frame_ratio e) (spoof_frame_ratio e) then Inl LivenessFailed else Inr ())"

section \<open>The permission for pictures\<close>

text \<open>One generation of the permission: once revoked or with a poisoned capture mutex it never
  captures again.\<close>

record snapshot_policy =
  snapshot_enabled :: bool
  capture_poisoned :: bool

definition new_snapshot_policy :: "bool \<Rightarrow> snapshot_policy" where
  "new_snapshot_policy enabled = \<lparr>snapshot_enabled = enabled, capture_poisoned = False\<rparr>"

definition revoke_snapshots :: "snapshot_policy \<Rightarrow> snapshot_policy" where
  "revoke_snapshots p = p\<lparr>snapshot_enabled := False\<rparr>"

definition may_capture :: "snapshot_policy \<Rightarrow> bool" where
  "may_capture p \<longleftrightarrow> \<not> capture_poisoned p \<and> snapshot_enabled p"

section \<open>The issuer\<close>

record 'w camera_env =
  env_lease :: "'w \<Rightarrow> 'w \<times> bool"
  env_open :: "'w \<Rightarrow> 'w \<times> (video_error + unit)"
  env_read :: "'w \<Rightarrow> 'w \<times> (video_error + video_frame)"
  env_close :: "'w \<Rightarrow> 'w"
  env_release :: "'w \<Rightarrow> 'w"
  env_now :: "'w \<Rightarrow> 'w \<times> i64"
  env_load_liveness :: "'w \<Rightarrow> 'w \<times> bool"
  env_unload_liveness :: "'w \<Rightarrow> 'w"
  env_liveness :: "video_frame \<Rightarrow> detected_face \<Rightarrow> 'w \<Rightarrow> 'w \<times> liveness_result option"
  env_snapshot_policy :: "'w \<Rightarrow> snapshot_policy"
  env_publish :: "auth_grant \<Rightarrow> 'w \<Rightarrow> 'w"
  env_capture :: "video_frame \<Rightarrow> detected_face \<Rightarrow> 'w \<Rightarrow> 'w"

record 'm local_issuer =
  max_auth_frames :: u32
  issuer_templates :: recognition_templates
  issuer_authenticator :: "'m authenticator"
  issuer_black_frame_filter :: black_frame_filter
  issuer_max_spoof_frame_ratio :: f32

record local_outcome =
  face_authentication :: authentication_outcome
  outcome_liveness_score :: f32

fun video_error_to_auth_failure :: "video_error \<Rightarrow> auth_failure_reason" where
  "video_error_to_auth_failure EmptyFrame = NoFaceDetected"
| "video_error_to_auth_failure ReadFailed = NoFaceDetected"
| "video_error_to_auth_failure _ = InternalError"

definition handle_auth_transient_frame_failure ::
  "tolerance \<Rightarrow> tolerance \<times> (auth_failure_reason + unit)" where
  "handle_auth_transient_frame_failure t =
     (case record_transient_failure t of
        (t1, RetryNextFrame _ _) \<Rightarrow> (t1, Inr ())
      | (t1, Escalate _ _) \<Rightarrow> (t1, Inl NoFaceDetected))"

text \<open>What one frame leads to: the loop goes on with a rejection to report (\<open>None\<close> keeps the last
  one), or it ends.\<close>

datatype frame_end = NextFrame "auth_failure_reason option" | LoopEnds "auth_failure_reason + local_outcome"

record ('m, 'w) camera_loop =
  loop_issuer :: "'m local_issuer"
  loop_tolerance :: tolerance
  loop_window :: window_evidence
  loop_world :: 'w
  loop_issued :: "auth_grant option"

definition transient_failure ::
  "('m, 'w) camera_loop \<Rightarrow> ('m, 'w) camera_loop \<times> frame_end" where
  "transient_failure c =
     (case handle_auth_transient_frame_failure (loop_tolerance c) of
        (t, Inl e) \<Rightarrow> (c\<lparr>loop_tolerance := t\<rparr>, LoopEnds (Inl e))
      | (t, Inr _) \<Rightarrow> (c\<lparr>loop_tolerance := t\<rparr>, NextFrame (Some NoFaceDetected)))"

definition reset_loop_matches :: "('m, 'w) camera_loop \<Rightarrow> ('m, 'w) camera_loop" where
  "reset_loop_matches c =
     c\<lparr>loop_issuer := (loop_issuer c)\<lparr>issuer_authenticator :=
         auth_reset_consecutive_matches (issuer_authenticator (loop_issuer c))\<rparr>\<rparr>"

text \<open>The closure the loop calls on acceptance, \<open>on_authorization_accepted\<close>: it builds the grant,
  hands it to the observer and keeps it. The session, the source and the sequence number are those
  it captured.\<close>

definition build_auth_grant ::
  "session_id \<Rightarrow> auth_source \<Rightarrow> u64 \<Rightarrow> local_outcome \<Rightarrow> i64 \<Rightarrow> auth_grant" where
  "build_auth_grant sid src grant_sequence outcome now =
     \<lparr>grant_id = GrantId (''camera-grant-'' @ decimal (unat grant_sequence)),
      nonce = Nonce (''camera-nonce-'' @ decimal (unat grant_sequence)),
      session_id = sid, user_id = matched_user_id (face_authentication outcome), source = src,
      score = \<lparr>match_score = outcome_match_score (face_authentication outcome),
               liveness_score = Some (outcome_liveness_score outcome)\<rparr>,
      issued_at_unix_ms = now, expires_at_unix_ms = i64_add now default_grant_ttl_ms\<rparr>"

definition on_authorization_accepted ::
  "'w camera_env \<Rightarrow> session_id \<Rightarrow> auth_source \<Rightarrow> u64 \<Rightarrow> local_outcome \<Rightarrow>
     ('m, 'w) camera_loop \<Rightarrow> ('m, 'w) camera_loop" where
  "on_authorization_accepted E sid src grant_sequence outcome c =
     (case env_now E (loop_world c) of
        (w1, now) \<Rightarrow>
          (let g = build_auth_grant sid src grant_sequence outcome now
           in c\<lparr>loop_world := env_publish E g w1, loop_issued := Some g\<rparr>))"

text \<open>A face that passed the liveness check.\<close>

definition live_face ::
  "(local_outcome \<Rightarrow> ('m, 'w) camera_loop \<Rightarrow> ('m, 'w) camera_loop) \<Rightarrow> 'm model_ops \<Rightarrow> (f32 \<Rightarrow> f32 \<Rightarrow> f32) \<Rightarrow> 'w camera_env \<Rightarrow> auth_trigger_source \<Rightarrow>
     video_frame \<Rightarrow> detected_face \<Rightarrow> f32 \<Rightarrow> ('m, 'w) camera_loop \<Rightarrow> ('m, 'w) camera_loop \<times> frame_end" where
  "live_face accept M atan2 E trigger frame face live_score c =
     (case env_now E (loop_world c) of
        (w1, now) \<Rightarrow>
          (case authenticate_detected_face_without_failure_cooldown M atan2 frame face
                  (issuer_templates (loop_issuer c)) trigger now (issuer_authenticator (loop_issuer c)) of
             (a, r) \<Rightarrow>
               (let c1 = c\<lparr>loop_issuer := (loop_issuer c)\<lparr>issuer_authenticator := a\<rparr>, loop_world := w1\<rparr>
                in case r of
                     Inr face_outcome \<Rightarrow>
                       (case reject_unlock_candidate_if_spoof_ratio_exceeded (loop_window c1) of
                          Inl reason \<Rightarrow> (c1, LoopEnds (Inl reason))
                        | Inr _ \<Rightarrow>
                            (let outcome = \<lparr>face_authentication = face_outcome,
                                            outcome_liveness_score = live_score\<rparr>
                             in (accept outcome c1, LoopEnds (Inr outcome))))
                   | Inl reason \<Rightarrow>
                       (if reason = IntruderDetected \<and> may_capture (env_snapshot_policy E w1)
                        then c1\<lparr>loop_world := env_capture E frame face w1\<rparr> else c1,
                        NextFrame (Some reason)))))"

text \<open>A valid frame that is not black.\<close>

definition examine_frame ::
  "(local_outcome \<Rightarrow> ('m, 'w) camera_loop \<Rightarrow> ('m, 'w) camera_loop) \<Rightarrow> 'm model_ops \<Rightarrow>
     (f32 \<Rightarrow> f32 \<Rightarrow> f32) \<Rightarrow> 'w camera_env \<Rightarrow> auth_trigger_source \<Rightarrow>
     video_frame \<Rightarrow> ('m, 'w) camera_loop \<Rightarrow> ('m, 'w) camera_loop \<times> frame_end" where
  "examine_frame accept M atan2 E trigger frame c =
     (case detect_single_face M frame (issuer_authenticator (loop_issuer c)) of
        (a, r) \<Rightarrow>
          (let c1 = c\<lparr>loop_issuer := (loop_issuer c)\<lparr>issuer_authenticator := a\<rparr>\<rparr>
           in case r of
                Inl reason \<Rightarrow> (reset_loop_matches c1, NextFrame (Some reason))
              | Inr face \<Rightarrow>
                  (case env_liveness E frame face (loop_world c1) of
                     (w1, None) \<Rightarrow> (c1\<lparr>loop_world := w1\<rparr>, LoopEnds (Inl InternalError))
                   | (w1, Some live) \<Rightarrow>
                       (case record_liveness live (loop_window c1) of
                          (e, res) \<Rightarrow>
                            (let c2 = c1\<lparr>loop_world := w1, loop_window := e\<rparr>
                             in case res of
                                  Inl reason \<Rightarrow> (c2, LoopEnds (Inl reason))
                                | Inr None \<Rightarrow> (reset_loop_matches c2, NextFrame (Some LivenessFailed))
                                | Inr (Some s) \<Rightarrow> live_face accept M atan2 E trigger frame face s c2)))))"

text \<open>One turn of the loop over the frames.\<close>

definition camera_frame_step ::
  "(local_outcome \<Rightarrow> ('m, 'w) camera_loop \<Rightarrow> ('m, 'w) camera_loop) \<Rightarrow> 'm model_ops \<Rightarrow>
     (f32 \<Rightarrow> f32 \<Rightarrow> f32) \<Rightarrow> 'w camera_env \<Rightarrow> auth_trigger_source \<Rightarrow>
     ('m, 'w) camera_loop \<Rightarrow> ('m, 'w) camera_loop \<times> frame_end" where
  "camera_frame_step accept M atan2 E trigger c =
     (case env_read E (loop_world c) of
        (w1, Inl e) \<Rightarrow>
          (let c1 = c\<lparr>loop_world := w1\<rparr>
           in case kind_from_video_error e of
                None \<Rightarrow> (c1, LoopEnds (Inl (video_error_to_auth_failure e)))
              | Some kind \<Rightarrow> transient_failure c1)
      | (w1, Inr frame) \<Rightarrow>
          (let c1 = c\<lparr>loop_world := w1\<rparr>
           in case validate_frame_for_camera_stream frame (is_warmed_up (loop_tolerance c1)) of
                Inl kind \<Rightarrow> transient_failure c1
              | Inr _ \<Rightarrow>
                  (let c2 = c1\<lparr>loop_tolerance := record_valid_frame (loop_tolerance c1)\<rparr>
                   in case is_black_frame frame (issuer_black_frame_filter (loop_issuer c2)) of
                        (b, black) \<Rightarrow>
                          (let c3 = c2\<lparr>loop_issuer := (loop_issuer c2)\<lparr>issuer_black_frame_filter := b\<rparr>\<rparr>
                           in if black then (c3, NextFrame None)
                              else examine_frame accept M atan2 E trigger frame c3))))"

fun camera_frames ::
  "(local_outcome \<Rightarrow> ('m, 'w) camera_loop \<Rightarrow> ('m, 'w) camera_loop) \<Rightarrow> 'm model_ops \<Rightarrow>
     (f32 \<Rightarrow> f32 \<Rightarrow> f32) \<Rightarrow> 'w camera_env \<Rightarrow> auth_trigger_source \<Rightarrow>
     nat \<Rightarrow> auth_failure_reason \<Rightarrow> ('m, 'w) camera_loop \<Rightarrow>
     ('m, 'w) camera_loop \<times> (auth_failure_reason + local_outcome)" where
  "camera_frames accept M q E trigger 0 last_rejection c = (c, Inl last_rejection)"
| "camera_frames accept M q E trigger (Suc n) last_rejection c =
     (case camera_frame_step accept M q E trigger c of
        (c1, LoopEnds r) \<Rightarrow> (c1, r)
      | (c1, NextFrame None) \<Rightarrow> camera_frames accept M q E trigger n last_rejection c1
      | (c1, NextFrame (Some reason)) \<Rightarrow> camera_frames accept M q E trigger n reason c1)"

definition authenticate_with_loaded_runtime ::
  "(local_outcome \<Rightarrow> ('m, 'w) camera_loop \<Rightarrow> ('m, 'w) camera_loop) \<Rightarrow> 'm model_ops \<Rightarrow>
     (f32 \<Rightarrow> f32 \<Rightarrow> f32) \<Rightarrow> 'w camera_env \<Rightarrow> auth_trigger_source \<Rightarrow>
     'm local_issuer \<Rightarrow> 'w \<Rightarrow> 'm local_issuer \<times> 'w \<times> auth_grant option \<times> (auth_failure_reason + local_outcome)" where
  "authenticate_with_loaded_runtime accept M q E trigger i w =
     (case env_lease E w of
        (w1, False) \<Rightarrow> (i, w1, None, Inl InternalError)
      | (w1, True) \<Rightarrow>
          (case env_open E w1 of
             (w2, Inl e) \<Rightarrow> (i, env_release E (env_close E w2), None, Inl (video_error_to_auth_failure e))
           | (w2, Inr _) \<Rightarrow>
               (case camera_frames accept M q E trigger (unat (max_auth_frames i)) Timeout
                       \<lparr>loop_issuer = i, loop_tolerance = default_for_camera_stream,
                        loop_window = new_window (issuer_max_spoof_frame_ratio i), loop_world = w2,
                        loop_issued = None\<rparr> of
                  (c, r) \<Rightarrow> (loop_issuer c, env_release E (env_close E (loop_world c)), loop_issued c, r))))"

definition unload_issuer_models :: "'m model_ops \<Rightarrow> 'm local_issuer \<Rightarrow> 'm local_issuer" where
  "unload_issuer_models M i =
     i\<lparr>issuer_authenticator := (issuer_authenticator i)
         \<lparr>model_provider := unload_models M (model_provider (issuer_authenticator i))\<rparr>\<rparr>"

definition authenticate_from_camera ::
  "(local_outcome \<Rightarrow> ('m, 'w) camera_loop \<Rightarrow> ('m, 'w) camera_loop) \<Rightarrow> 'm model_ops \<Rightarrow>
     (f32 \<Rightarrow> f32 \<Rightarrow> f32) \<Rightarrow> 'w camera_env \<Rightarrow> auth_trigger_source \<Rightarrow>
     'm local_issuer \<Rightarrow> 'w \<Rightarrow> 'm local_issuer \<times> 'w \<times> auth_grant option \<times> (auth_failure_reason + local_outcome)" where
  "authenticate_from_camera accept M q E trigger i w =
     (case load_models M (model_provider (issuer_authenticator i)) of
        (m, loaded) \<Rightarrow>
          (let i1 = i\<lparr>issuer_authenticator := (issuer_authenticator i)\<lparr>model_provider := m\<rparr>\<rparr>
           in case loaded of
                Inl e \<Rightarrow> (i1, w, None, Inl InternalError)
              | Inr _ \<Rightarrow>
                  (case env_load_liveness E w of
                     (w1, False) \<Rightarrow> (unload_issuer_models M i1, w1, None, Inl InternalError)
                   | (w1, True) \<Rightarrow>
                       (case authenticate_with_loaded_runtime accept M q E trigger i1 w1 of
                          (i2, w2, issued, r) \<Rightarrow>
                            (unload_issuer_models M i2, env_unload_liveness E w2, issued, r)))))"

section \<open>The grant\<close>

definition reserve_camera_grant_sequence :: "u64 \<Rightarrow> u64 \<times> (auth_failure_reason + u64)" where
  "reserve_camera_grant_sequence n =
     (case checked_inc n of None \<Rightarrow> (n, Inl InternalError) | Some n1 \<Rightarrow> (n1, Inr n))"

text \<open>\<open>issue_auth_grant_blocking_with_observer\<close>; the observer is \<open>env_publish\<close>.\<close>

definition issue_auth_grant_blocking ::
  "'m model_ops \<Rightarrow> (f32 \<Rightarrow> f32 \<Rightarrow> f32) \<Rightarrow> 'w camera_env \<Rightarrow> session_id \<Rightarrow> auth_source \<Rightarrow>
     auth_trigger_source \<Rightarrow> u64 \<Rightarrow> 'm local_issuer \<Rightarrow> 'w \<Rightarrow>
     u64 \<times> 'm local_issuer \<times> 'w \<times> (auth_failure_reason + auth_grant)" where
  "issue_auth_grant_blocking M q E sid src trigger next_sequence i w =
     (case reserve_camera_grant_sequence next_sequence of
        (n, Inl e) \<Rightarrow> (n, i, w, Inl e)
      | (n, Inr grant_sequence) \<Rightarrow>
          (case authenticate_from_camera (on_authorization_accepted E sid src grant_sequence)
                  M q E trigger i w of
             (i1, w1, issued, Inl e) \<Rightarrow> (n, i1, w1, Inl e)
           | (i1, w1, issued, Inr outcome) \<Rightarrow>
               (n, i1, w1, case issued of None \<Rightarrow> Inl InternalError | Some g \<Rightarrow> Inr g)))"

end
