(* ===== verification/Camera_Auth_Properties.thy ===== *)
theory Camera_Auth_Properties
  imports Local_Camera_Auth
begin

text \<open>
  What the issuer of \<open>win_service/src/auth_issuer.rs\<close> that looks into the camera guarantees: what a
  grant stands for, that no grant number is used twice in the life of the process, and the order in
  which it takes and gives back the camera, its lease and the liveness model.
\<close>

section \<open>The calls of one authentication\<close>

datatype camera_call =
    LivenessLoaded bool | LeaseAsked bool | CameraOpened bool | FrameRead | LivenessEvaluated | ClockRead
  | SnapshotTaken | GrantPublished auth_grant | CameraClosed | LeaseReleased | LivenessUnloaded

text \<open>The same environment, keeping the list of the calls made to it.\<close>

definition traced :: "'w camera_env \<Rightarrow> ('w \<times> camera_call list) camera_env" where
  "traced E =
     \<lparr>env_lease = (\<lambda>(w, log). case env_lease E w of (w1, r) \<Rightarrow> ((w1, log @ [LeaseAsked r]), r)),
      env_open = (\<lambda>(w, log). case env_open E w of (w1, r) \<Rightarrow> ((w1, log @ [CameraOpened (is_ok r)]), r)),
      env_read = (\<lambda>(w, log). case env_read E w of (w1, r) \<Rightarrow> ((w1, log @ [FrameRead]), r)),
      env_close = (\<lambda>(w, log). (env_close E w, log @ [CameraClosed])),
      env_release = (\<lambda>(w, log). (env_release E w, log @ [LeaseReleased])),
      env_now = (\<lambda>(w, log). case env_now E w of (w1, r) \<Rightarrow> ((w1, log @ [ClockRead]), r)),
      env_load_liveness = (\<lambda>(w, log). case env_load_liveness E w of (w1, r) \<Rightarrow> ((w1, log @ [LivenessLoaded r]), r)),
      env_unload_liveness = (\<lambda>(w, log). (env_unload_liveness E w, log @ [LivenessUnloaded])),
      env_liveness = (\<lambda>frame face (w, log).
         case env_liveness E frame face w of (w1, r) \<Rightarrow> ((w1, log @ [LivenessEvaluated]), r)),
      env_snapshot_policy = (\<lambda>(w, log). env_snapshot_policy E w),
      env_publish = (\<lambda>g (w, log). (env_publish E g w, log @ [GrantPublished g])),
      env_capture = (\<lambda>frame face (w, log). (env_capture E frame face w, log @ [SnapshotTaken]))\<rparr>"

definition frame_calls :: "camera_call list \<Rightarrow> bool" where
  "frame_calls l \<longleftrightarrow> set l \<subseteq> {LivenessEvaluated, ClockRead, SnapshotTaken}"

lemma frame_calls_simps [simp]:
  "frame_calls []"
  "frame_calls (x # l) \<longleftrightarrow> x \<in> {LivenessEvaluated, ClockRead, SnapshotTaken} \<and> frame_calls l"
  by (auto simp: frame_calls_def)

text \<open>The calls of one turn of the loop: after the read only evaluations, clock readings and
  pictures, and for an accepted face the publication of the grant as the last.\<close>

definition turn_calls :: "frame_end \<Rightarrow> auth_grant option \<Rightarrow> camera_call list \<Rightarrow> bool" where
  "turn_calls fe issued l =
     (case fe of
        LoopEnds (Inr outcome) \<Rightarrow>
          (case issued of
             None \<Rightarrow> False
           | Some g \<Rightarrow> l \<noteq> [] \<and> frame_calls (butlast l) \<and> last l = GrantPublished g)
      | _ \<Rightarrow> frame_calls l)"

abbreviation calls_of :: "('m, 'w \<times> camera_call list) camera_loop \<Rightarrow> camera_call list" where
  "calls_of c \<equiv> snd (loop_world c)"

lemma reset_loop_matches_simps [simp]:
  "loop_world (reset_loop_matches c) = loop_world c"
  "loop_issued (reset_loop_matches c) = loop_issued c"
  "loop_window (reset_loop_matches c) = loop_window c"
  "matcher_threshold (issuer_authenticator (loop_issuer (reset_loop_matches c))) =
     matcher_threshold (issuer_authenticator (loop_issuer c))"
  "issuer_templates (loop_issuer (reset_loop_matches c)) = issuer_templates (loop_issuer c)"
  by (simp_all add: reset_loop_matches_def auth_reset_consecutive_matches_def)

lemma turn_calls_simps [simp]:
  "turn_calls (NextFrame r) i l \<longleftrightarrow> frame_calls l"
  "turn_calls (LoopEnds (Inl e)) i l \<longleftrightarrow> frame_calls l"
  by (simp_all add: turn_calls_def)

lemma turn_calls_Cons:
  "\<lbrakk>turn_calls fe i l; x \<in> {LivenessEvaluated, ClockRead, SnapshotTaken}\<rbrakk> \<Longrightarrow> turn_calls fe i (x # l)"
  by (auto simp: turn_calls_def split: frame_end.splits sum.splits option.splits)

text \<open>How a turn leaves the log and the grant.\<close>

definition turn_logged ::
  "camera_call list \<Rightarrow> ('m, 'w \<times> camera_call list) camera_loop \<times> frame_end \<Rightarrow> bool" where
  "turn_logged log t \<longleftrightarrow>
     (\<exists>l. calls_of (fst t) = log @ l \<and> turn_calls (snd t) (loop_issued (fst t)) l) \<and>
     (loop_issued (fst t) \<noteq> None \<longrightarrow> (\<exists>outcome. snd t = LoopEnds (Inr outcome)))"

lemma turn_logged_quiet:
  "\<lbrakk>calls_of c = log @ l; frame_calls l; loop_issued c = None; \<And>outcome. fe \<noteq> LoopEnds (Inr outcome)\<rbrakk>
     \<Longrightarrow> turn_logged log (c, fe)"
  by (cases fe) (auto simp: turn_logged_def turn_calls_def split: sum.splits)

lemma turn_logged_Cons:
  "\<lbrakk>turn_logged (log @ [x]) t; x \<in> {LivenessEvaluated, ClockRead, SnapshotTaken}\<rbrakk> \<Longrightarrow> turn_logged log t"
  unfolding turn_logged_def by (metis append.assoc append_Cons append_Nil turn_calls_Cons)

lemma live_face_logged:
  assumes "loop_issued c = None"
  shows "turn_logged (calls_of c)
    (live_face (on_authorization_accepted (traced E) sid src n) M q (traced E) trigger frame face s c)"
  using assms
  by (cases "loop_world c")
    (auto simp: live_face_def traced_def turn_calls_def turn_logged_def on_authorization_accepted_def Let_def
      split: prod.splits sum.splits if_splits)

lemma examine_frame_logged:
  assumes "loop_issued c = None"
  shows "turn_logged (calls_of c)
    (examine_frame (on_authorization_accepted (traced E) sid src n) M q (traced E) trigger frame c)"
proof -
  let ?acc = "on_authorization_accepted (traced E) sid src n"
  obtain w log where w: "loop_world c = (w, log)" by (cases "loop_world c")
  obtain a r where d: "detect_single_face M frame (issuer_authenticator (loop_issuer c)) = (a, r)"
    by fastforce
  define c1 where "c1 = c\<lparr>loop_issuer := (loop_issuer c)\<lparr>issuer_authenticator := a\<rparr>\<rparr>"
  show ?thesis
  proof (cases r)
    case (Inl reason)
    then show ?thesis
      using assms by (auto simp: examine_frame_def d c1_def Let_def intro!: turn_logged_quiet)
  next
    case (Inr face)
    obtain w1 r1 where l: "env_liveness E frame face w = (w1, r1)" by fastforce
    have lt: "env_liveness (traced E) frame face (w, log) = ((w1, log @ [LivenessEvaluated]), r1)"
      by (simp add: traced_def l)
    show ?thesis
    proof (cases r1)
      case None
      then show ?thesis
        using assms
        by (auto simp: examine_frame_def d Inr lt w Let_def intro!: turn_logged_quiet)
    next
      case (Some live)
      obtain e res where e: "record_liveness live (loop_window c) = (e, res)" by fastforce
      define c2 where "c2 = c1\<lparr>loop_world := (w1, log @ [LivenessEvaluated]), loop_window := e\<rparr>"
      have c2: "calls_of c2 = log @ [LivenessEvaluated]" "loop_issued c2 = None"
        using assms by (simp_all add: c2_def c1_def)
      have ex: "examine_frame ?acc M q (traced E) trigger frame c =
          (case res of
             Inl reason \<Rightarrow> (c2, LoopEnds (Inl reason))
           | Inr None \<Rightarrow> (reset_loop_matches c2, NextFrame (Some LivenessFailed))
           | Inr (Some s) \<Rightarrow> live_face ?acc M q (traced E) trigger frame face s c2)"
        unfolding c2_def c1_def by (simp add: examine_frame_def d Inr w lt Some e Let_def)
      have "turn_logged (log @ [LivenessEvaluated]) (live_face ?acc M q (traced E) trigger frame face s c2)" for s
        using live_face_logged [OF c2(2)] by (simp add: c2(1))
      then show ?thesis
        using c2 w by (auto simp: ex intro!: turn_logged_quiet split: sum.split option.split
            intro: turn_logged_Cons)
    qed
  qed
qed

lemma camera_frame_step_logged:
  assumes "loop_issued c = None"
  shows "turn_logged (calls_of c @ [FrameRead])
    (camera_frame_step (on_authorization_accepted (traced E) sid src n) M q (traced E) trigger c)"
proof -
  let ?acc = "on_authorization_accepted (traced E) sid src n"
  obtain w log where w: "loop_world c = (w, log)" by (cases "loop_world c")
  obtain w1 r where r: "env_read E w = (w1, r)" by fastforce
  have rt: "env_read (traced E) (w, log) = ((w1, log @ [FrameRead]), r)"
    by (simp add: traced_def r)
  have "turn_logged (log @ [FrameRead]) (examine_frame ?acc M q (traced E) trigger frame d)"
    if "calls_of d = log @ [FrameRead]" "loop_issued d = None" for frame d
    using examine_frame_logged [OF that(2)] by (simp add: that(1))
  then show ?thesis
    using assms w
    by (auto simp: camera_frame_step_def rt transient_failure_def Let_def
        split: sum.split option.split prod.split intro!: turn_logged_quiet)
qed

text \<open>The calls of the whole loop: at most \<open>n\<close> frames are read, and the publication of the grant, if
  there is one, is the last call.\<close>

definition loop_calls :: "nat \<Rightarrow> auth_grant option \<Rightarrow> camera_call list \<Rightarrow> bool" where
  "loop_calls n issued l \<longleftrightarrow>
     count_list l FrameRead \<le> n \<and>
     (case issued of
        None \<Rightarrow> set l \<subseteq> {FrameRead, LivenessEvaluated, ClockRead, SnapshotTaken}
      | Some g \<Rightarrow> l \<noteq> [] \<and> last l = GrantPublished g \<and>
          set (butlast l) \<subseteq> {FrameRead, LivenessEvaluated, ClockRead, SnapshotTaken})"

lemma count_frame_calls: "frame_calls l \<Longrightarrow> count_list l FrameRead = 0"
  by (induction l) auto

lemma turn_calls_loop:
  assumes "turn_calls fe issued l" and "issued \<noteq> None \<longrightarrow> (\<exists>outcome. fe = LoopEnds (Inr outcome))"
  shows "loop_calls (Suc 0) issued (FrameRead # l)"
proof (cases issued)
  case None
  with assms have "frame_calls l"
    by (auto simp: turn_calls_def split: frame_end.splits sum.splits)
  with None show ?thesis
    by (auto simp: loop_calls_def count_frame_calls) (auto simp: frame_calls_def)
next
  case (Some g)
  with assms have l: "l \<noteq> []" "frame_calls (butlast l)" "last l = GrantPublished g"
    by (auto simp: turn_calls_def)
  then have "l = butlast l @ [GrantPublished g]" by (metis append_butlast_last_id)
  then have "count_list l FrameRead = 0"
    using count_frame_calls [OF l(2)] by (metis add_is_0 camera_call.distinct(61) count_list.simps count_list_append)
  with l Some show ?thesis
    by (auto simp: loop_calls_def) (auto simp: frame_calls_def)
qed

lemma loop_calls_append:
  assumes "set l \<subseteq> {FrameRead, LivenessEvaluated, ClockRead, SnapshotTaken}"
    and "count_list l FrameRead \<le> Suc 0" and "loop_calls n issued k"
  shows "loop_calls (Suc n) issued (l @ k)"
  using assms by (auto simp: loop_calls_def butlast_append split: option.splits)

lemma camera_frames_calls:
  assumes "camera_frames (on_authorization_accepted (traced E) sid src n) M q (traced E) trigger k rejection c = (c1, r)"
    and "loop_issued c = None"
  shows "\<exists>l. calls_of c1 = calls_of c @ l \<and> loop_calls k (loop_issued c1) l \<and>
    (loop_issued c1 = None \<longleftrightarrow> \<not> is_ok r)"
  using assms
proof (induction k arbitrary: rejection c)
  case 0
  then show ?case by (auto simp: loop_calls_def)
next
  case (Suc k)
  let ?acc = "on_authorization_accepted (traced E) sid src n"
  obtain d fe where step: "camera_frame_step ?acc M q (traced E) trigger c = (d, fe)" by fastforce
  from camera_frame_step_logged [OF Suc.prems(2), of E sid src n M q trigger] step
  obtain l where l: "calls_of d = calls_of c @ FrameRead # l" "turn_calls fe (loop_issued d) l"
    "loop_issued d \<noteq> None \<longrightarrow> (\<exists>outcome. fe = LoopEnds (Inr outcome))"
    by (auto simp: turn_logged_def)
  note turn = turn_calls_loop [OF l(2,3)]
  show ?case
  proof (cases fe)
    case (LoopEnds res)
    with Suc.prems(1) step have "c1 = d" "r = res" by simp_all
    moreover have "loop_issued d = None \<longleftrightarrow> \<not> is_ok res"
      using l(2,3) LoopEnds by (cases res) (auto simp: turn_calls_def split: option.splits)
    ultimately show ?thesis
      using l(1) turn by (auto simp: loop_calls_def)
  next
    case (NextFrame reason)
    with l(3) have d: "loop_issued d = None" by auto
    obtain rejection' where "camera_frames ?acc M q (traced E) trigger k rejection' d = (c1, r)"
      using Suc.prems(1) step NextFrame by (cases reason) auto
    from Suc.IH [OF this d] obtain l' where l':
      "calls_of c1 = calls_of d @ l'" "loop_calls k (loop_issued c1) l'" "loop_issued c1 = None \<longleftrightarrow> \<not> is_ok r"
      by (elim exE conjE) (rule that)
    have "loop_calls (Suc k) (loop_issued c1) ((FrameRead # l) @ l')"
    proof (rule loop_calls_append)
      show "set (FrameRead # l) \<subseteq> {FrameRead, LivenessEvaluated, ClockRead, SnapshotTaken}"
        using turn unfolding d loop_calls_def by (simp only: option.case)
      show "count_list (FrameRead # l) FrameRead \<le> Suc 0"
        using turn unfolding loop_calls_def by (rule conjunct1)
    qed (rule l'(2))
    moreover have "calls_of c1 = calls_of c @ ((FrameRead # l) @ l')"
      using l(1) l'(1) by simp
    ultimately show ?thesis using l'(3) by (intro exI conjI)
  qed
qed

text \<open>What one authentication may do to the camera, its lease and the liveness model.\<close>

definition bracketed :: "nat \<Rightarrow> auth_grant option \<Rightarrow> camera_call list \<Rightarrow> bool" where
  "bracketed n issued log \<longleftrightarrow>
     issued = None \<and>
       log \<in> {[], [LivenessLoaded False], [LivenessLoaded True, LeaseAsked False, LivenessUnloaded],
         [LivenessLoaded True, LeaseAsked True, CameraOpened False, CameraClosed, LeaseReleased, LivenessUnloaded]} \<or>
     (\<exists>l. loop_calls n issued l \<and>
       log = [LivenessLoaded True, LeaseAsked True, CameraOpened True] @ l @
             [CameraClosed, LeaseReleased, LivenessUnloaded])"

lemma authenticate_from_camera_calls:
  assumes "authenticate_from_camera (on_authorization_accepted (traced E) sid src n) M q (traced E) trigger i (w, []) =
      (i1, w1, issued, r)"
  shows "bracketed (unat (max_auth_frames i)) issued (snd w1) \<and> (issued = None \<longleftrightarrow> \<not> is_ok r)"
proof -
  let ?acc = "on_authorization_accepted (traced E) sid src n"
  obtain m loaded where m: "load_models M (model_provider (issuer_authenticator i)) = (m, loaded)" by fastforce
  obtain wl okl where wl: "env_load_liveness E w = (wl, okl)" by fastforce
  obtain wr okr where wr: "env_lease E wl = (wr, okr)" by fastforce
  obtain wo ro where wo: "env_open E wr = (wo, ro)" by fastforce
  note facts = authenticate_from_camera_def authenticate_with_loaded_runtime_def m Let_def
  show ?thesis
  proof (cases "is_ok loaded \<and> okl \<and> okr \<and> is_ok ro")
    case False
    then show ?thesis
      using assms wl wr wo
      by (auto simp: facts traced_def bracketed_def split: sum.splits bool.splits)
  next
    case True
    then obtain u v where ok: "loaded = Inr u" "okl" "okr" "ro = Inr v"
      by (cases loaded; cases ro) auto
    define i0 where "i0 = i\<lparr>issuer_authenticator := (issuer_authenticator i)\<lparr>model_provider := m\<rparr>\<rparr>"
    let ?start = "\<lparr>loop_issuer = i0, loop_tolerance = default_for_camera_stream,
      loop_window = new_window (issuer_max_spoof_frame_ratio i0),
      loop_world = (wo, [LivenessLoaded True, LeaseAsked True, CameraOpened True]), loop_issued = None\<rparr>"
    obtain c res where run: "camera_frames ?acc M q (traced E) trigger (unat (max_auth_frames i)) Timeout ?start = (c, res)"
      by fastforce
    have tr: "env_load_liveness (traced E) (w, []) = ((wl, [LivenessLoaded True]), True)"
      "env_lease (traced E) (wl, [LivenessLoaded True]) = ((wr, [LivenessLoaded True, LeaseAsked True]), True)"
      "env_open (traced E) (wr, [LivenessLoaded True, LeaseAsked True]) =
         ((wo, [LivenessLoaded True, LeaseAsked True, CameraOpened True]), Inr v)"
      using ok wl wr wo by (simp_all add: traced_def)
    have frames: "max_auth_frames i0 = max_auth_frames i" by (simp add: i0_def)
    have "issued = loop_issued c" "r = res"
      "w1 = env_unload_liveness (traced E) (env_release (traced E) (env_close (traced E) (loop_world c)))"
      using assms ok run by (simp_all add: facts tr i0_def [symmetric] frames)
    moreover obtain l where "calls_of c = calls_of ?start @ l" "loop_calls (unat (max_auth_frames i)) (loop_issued c) l"
      "loop_issued c = None \<longleftrightarrow> \<not> is_ok res"
      using camera_frames_calls [OF run] by auto
    moreover obtain wc where "loop_world c = (wc, calls_of c)"
      by (metis surjective_pairing)
    ultimately show ?thesis
      by (auto simp: bracketed_def traced_def)
  qed
qed

section \<open>What an accepted candidate stands for\<close>

text \<open>One and the same face of one frame passed the liveness check and matched a template.\<close>

definition earned ::
  "'m model_ops \<Rightarrow> 'w camera_env \<Rightarrow> f32 \<Rightarrow> recognition_templates \<Rightarrow> local_outcome \<Rightarrow> bool" where
  "earned M E threshold rt outcome \<longleftrightarrow>
     (\<exists>frame face w live m m1 candidate t.
        snd (env_liveness E frame face w) = Some live \<and> liveness_decision live = LiveAccepted \<and>
        result_liveness_score live = Some (outcome_liveness_score outcome) \<and>
        extract_embedding M frame face m = (m1, Inr candidate) \<and> t \<in> set (templates rt) \<and>
        is_compatible_with t (recognition_model M m) \<and>
        matched_user_id (face_authentication outcome) = UserId (template_user_id t) \<and>
        outcome_match_score (face_authentication outcome) = embedding_score (embedding t) candidate \<and>
        f32_le threshold (outcome_match_score (face_authentication outcome)))"

definition loop_keeps :: "('m, 'w) camera_loop \<Rightarrow> ('m, 'w) camera_loop \<Rightarrow> bool" where
  "loop_keeps c c1 \<longleftrightarrow>
     matcher_threshold (issuer_authenticator (loop_issuer c1)) = matcher_threshold (issuer_authenticator (loop_issuer c)) \<and>
     issuer_templates (loop_issuer c1) = issuer_templates (loop_issuer c) \<and>
     max_spoof_frame_ratio (loop_window c1) = max_spoof_frame_ratio (loop_window c)"

definition window_passes :: "window_evidence \<Rightarrow> bool" where
  "window_passes e \<longleftrightarrow> 0 < evaluated_frame_count e \<and> \<not> f32_lt (max_spoof_frame_ratio e) (spoof_frame_ratio e)"

lemma accept_simps [simp]:
  "loop_issuer (on_authorization_accepted E sid src n outcome c) = loop_issuer c"
  "loop_window (on_authorization_accepted E sid src n outcome c) = loop_window c"
  by (simp_all add: on_authorization_accepted_def Let_def split: prod.split)

lemma sat_inc_positive: "0 < sat_inc (n :: u32)"
proof -
  have "unat (0 :: u32) < unat (sat_inc n)" by (simp add: unat_sat_inc)
  then show ?thesis by (simp only: word_less_nat_alt)
qed

lemma record_liveness_Inr:
  assumes "record_liveness live e = (e1, r)"
  shows "max_spoof_frame_ratio e1 = max_spoof_frame_ratio e \<and> 0 < evaluated_frame_count e1 \<and>
    (\<forall>s. r = Inr (Some s) \<longrightarrow> liveness_decision live = LiveAccepted \<and> result_liveness_score live = Some s)"
  using assms
  by (auto simp: record_liveness_def sat_inc_positive Let_def split: liveness_decision.splits option.splits)

lemma live_face_earned:
  assumes "live_face (on_authorization_accepted E sid src n) M q E trigger frame face s c = (c1, fe)"
  shows "loop_keeps c c1 \<and> loop_window c1 = loop_window c \<and>
    (\<forall>outcome. fe = LoopEnds (Inr outcome) \<longrightarrow>
       outcome_liveness_score outcome = s \<and> \<not> f32_lt (max_spoof_frame_ratio (loop_window c)) (spoof_frame_ratio (loop_window c)) \<and>
       (\<exists>now a. authenticate_detected_face_without_failure_cooldown M q frame face
          (issuer_templates (loop_issuer c)) trigger now (issuer_authenticator (loop_issuer c)) =
            (a, Inr (face_authentication outcome))))"
proof -
  obtain w1 now where now: "env_now E (loop_world c) = (w1, now)" by fastforce
  obtain a r where a: "authenticate_detected_face_without_failure_cooldown M q frame face
      (issuer_templates (loop_issuer c)) trigger now (issuer_authenticator (loop_issuer c)) = (a, r)"
    by fastforce
  have "matcher_threshold a = matcher_threshold (issuer_authenticator (loop_issuer c))"
    using authenticate_keeps_threshold [of M q False frame face "issuer_templates (loop_issuer c)" trigger now
        "issuer_authenticator (loop_issuer c)"] a
    by (simp add: authenticate_detected_face_without_failure_cooldown_def)
  then show ?thesis
    using assms a now
    by (auto simp: live_face_def loop_keeps_def reject_unlock_candidate_if_spoof_ratio_exceeded_def Let_def
        split: sum.splits if_splits) (use a in blast)+
qed

lemma earnedI:
  assumes "authenticate_detected_face_without_failure_cooldown M q frame face rt trigger now a =
      (a1, Inr (face_authentication outcome))"
    and "snd (env_liveness E frame face w) = Some live" "liveness_decision live = LiveAccepted"
    and "result_liveness_score live = Some (outcome_liveness_score outcome)"
  shows "earned M E (matcher_threshold a) rt outcome"
  using accepted_by_template [OF assms(1) [unfolded authenticate_detected_face_without_failure_cooldown_def]]
    assms(2-4) unfolding earned_def by blast

definition turn_sound :: "'m model_ops \<Rightarrow> 'w camera_env \<Rightarrow> ('m, 'w) camera_loop \<Rightarrow> ('m, 'w) camera_loop \<times> frame_end \<Rightarrow> bool" where
  "turn_sound M E c t \<longleftrightarrow> loop_keeps c (fst t) \<and>
     (\<forall>outcome. snd t = LoopEnds (Inr outcome) \<longrightarrow>
        window_passes (loop_window (fst t)) \<and>
        earned M E (matcher_threshold (issuer_authenticator (loop_issuer c))) (issuer_templates (loop_issuer c)) outcome)"

lemma loop_keeps_trans: "\<lbrakk>loop_keeps c d; loop_keeps d e\<rbrakk> \<Longrightarrow> loop_keeps c e"
  by (simp add: loop_keeps_def)

lemma turn_soundI:
  "\<lbrakk>loop_keeps c c1; \<And>outcome. fe \<noteq> LoopEnds (Inr outcome)\<rbrakk> \<Longrightarrow> turn_sound M E c (c1, fe)"
  by (simp add: turn_sound_def)

lemma turn_sound_after: "\<lbrakk>loop_keeps c d; turn_sound M E d t\<rbrakk> \<Longrightarrow> turn_sound M E c t"
  by (auto simp: turn_sound_def loop_keeps_def)

lemma examine_frame_sound:
  "turn_sound M E c (examine_frame (on_authorization_accepted E sid src n) M q E trigger frame c)"
proof -
  let ?acc = "on_authorization_accepted E sid src n"
  obtain a r where d: "detect_single_face M frame (issuer_authenticator (loop_issuer c)) = (a, r)"
    by fastforce
  have thr: "matcher_threshold a = matcher_threshold (issuer_authenticator (loop_issuer c))"
    using detect_keeps_threshold [of M frame "issuer_authenticator (loop_issuer c)"] d by simp
  show ?thesis
  proof (cases r)
    case (Inl reason)
    then show ?thesis
      using thr by (auto simp: examine_frame_def d Let_def loop_keeps_def intro!: turn_soundI)
  next
    case (Inr face)
    obtain w1 r1 where l: "env_liveness E frame face (loop_world c) = (w1, r1)" by fastforce
    show ?thesis
    proof (cases r1)
      case None
      then show ?thesis
        using thr l by (auto simp: examine_frame_def d Inr Let_def loop_keeps_def intro!: turn_soundI)
    next
      case (Some live)
      obtain e res where e: "record_liveness live (loop_window c) = (e, res)" by fastforce
      note rec = record_liveness_Inr [OF e]
      define c2 where "c2 = c\<lparr>loop_issuer := (loop_issuer c)\<lparr>issuer_authenticator := a\<rparr>,
        loop_world := w1, loop_window := e\<rparr>"
      have keeps: "loop_keeps c c2" using thr rec by (simp add: c2_def loop_keeps_def)
      have ex: "examine_frame ?acc M q E trigger frame c =
          (case res of
             Inl reason \<Rightarrow> (c2, LoopEnds (Inl reason))
           | Inr None \<Rightarrow> (reset_loop_matches c2, NextFrame (Some LivenessFailed))
           | Inr (Some s) \<Rightarrow> live_face ?acc M q E trigger frame face s c2)"
        unfolding c2_def by (simp add: examine_frame_def d Inr l Some e Let_def)
      have "turn_sound M E c2 (live_face ?acc M q E trigger frame face s c2)" if s: "res = Inr (Some s)" for s
      proof -
        obtain c3 fe where run: "live_face ?acc M q E trigger frame face s c2 = (c3, fe)" by fastforce
        have lw: "snd (env_liveness E frame face (loop_world c)) = Some live" by (simp add: l Some)
        have "loop_window c2 = e" by (simp add: c2_def)
        with live_face_earned [OF run] rec s show ?thesis
          unfolding run turn_sound_def window_passes_def by (auto intro: earnedI [OF _ lw])
      qed
      moreover have "loop_keeps c (reset_loop_matches c2)" using keeps by (simp add: loop_keeps_def)
      ultimately show ?thesis
        using keeps by (auto simp: ex intro!: turn_soundI split: sum.split option.split intro: turn_sound_after)
    qed
  qed
qed

lemma camera_frame_step_sound:
  "turn_sound M E c (camera_frame_step (on_authorization_accepted E sid src n) M q E trigger c)"
proof -
  have ex: "turn_sound M E c (examine_frame (on_authorization_accepted E sid src n) M q E trigger frame d)"
    if "loop_keeps c d" for frame d
    using that examine_frame_sound by (rule turn_sound_after)
  show ?thesis
    by (auto simp: camera_frame_step_def transient_failure_def Let_def loop_keeps_def
        split: sum.split option.split prod.split intro!: turn_soundI ex)
qed

lemma camera_frames_sound:
  assumes "camera_frames (on_authorization_accepted E sid src n) M q E trigger k rejection c = (c1, Inr outcome)"
  shows "window_passes (loop_window c1) \<and> loop_keeps c c1 \<and>
    earned M E (matcher_threshold (issuer_authenticator (loop_issuer c))) (issuer_templates (loop_issuer c)) outcome"
  using assms
proof (induction k arbitrary: rejection c)
  case 0
  then show ?case by simp
next
  case (Suc k)
  obtain d fe where step: "camera_frame_step (on_authorization_accepted E sid src n) M q E trigger c = (d, fe)"
    by fastforce
  note sound = camera_frame_step_sound [of M E c sid src n q trigger, unfolded step turn_sound_def]
  show ?case
  proof (cases fe)
    case (LoopEnds res)
    with Suc.prems step sound show ?thesis by auto
  next
    case (NextFrame reason)
    obtain rejection' where
      "camera_frames (on_authorization_accepted E sid src n) M q E trigger k rejection' d = (c1, Inr outcome)"
      using Suc.prems step NextFrame by (cases reason) auto
    from Suc.IH [OF this] sound show ?thesis by (auto simp: loop_keeps_def)
  qed
qed

lemma frame_step_issued:
  assumes "camera_frame_step (on_authorization_accepted E sid src n) M q E trigger c = (c1, fe)"
    and "loop_issued c = None"
  shows "case fe of
      LoopEnds (Inr outcome) \<Rightarrow> \<exists>now. loop_issued c1 = Some (build_auth_grant sid src n outcome now)
    | _ \<Rightarrow> loop_issued c1 = None"
  using assms
  by (auto simp: camera_frame_step_def transient_failure_def examine_frame_def live_face_def
      on_authorization_accepted_def Let_def split: prod.splits sum.splits option.splits if_splits)

lemma camera_frames_issued:
  assumes "camera_frames (on_authorization_accepted E sid src n) M q E trigger k rejection c = (c1, Inr outcome)"
    and "loop_issued c = None"
  shows "\<exists>now. loop_issued c1 = Some (build_auth_grant sid src n outcome now)"
  using assms
proof (induction k arbitrary: rejection c)
  case 0
  then show ?case by simp
next
  case (Suc k)
  obtain d fe where step: "camera_frame_step (on_authorization_accepted E sid src n) M q E trigger c = (d, fe)"
    by fastforce
  note issued = frame_step_issued [OF step Suc.prems(2)]
  show ?case
  proof (cases fe)
    case (LoopEnds res)
    with Suc.prems step issued show ?thesis by auto
  next
    case (NextFrame reason)
    obtain rejection' where
      "camera_frames (on_authorization_accepted E sid src n) M q E trigger k rejection' d = (c1, Inr outcome)"
      using Suc.prems step NextFrame by (cases reason) auto
    from Suc.IH [OF this] issued NextFrame show ?thesis by auto
  qed
qed

lemma loaded_runtime_Inr:
  assumes "authenticate_with_loaded_runtime (on_authorization_accepted E sid src n) M q E trigger i w =
      (i1, w1, issued, Inr outcome)"
  shows "earned M E (matcher_threshold (issuer_authenticator i)) (issuer_templates i) outcome \<and>
    (\<exists>now. issued = Some (build_auth_grant sid src n outcome now))"
proof -
  obtain wr okr where lease: "env_lease E w = (wr, okr)" by fastforce
  obtain wo ro where opened: "env_open E wr = (wo, ro)" by fastforce
  have okr using assms lease by (cases okr) (simp_all add: authenticate_with_loaded_runtime_def)
  moreover obtain v where "ro = Inr v"
    using assms lease opened \<open>okr\<close> by (cases ro) (simp_all add: authenticate_with_loaded_runtime_def)
  moreover obtain c r where run: "camera_frames (on_authorization_accepted E sid src n) M q E trigger
      (unat (max_auth_frames i)) Timeout
      \<lparr>loop_issuer = i, loop_tolerance = default_for_camera_stream,
       loop_window = new_window (issuer_max_spoof_frame_ratio i), loop_world = wo, loop_issued = None\<rparr> = (c, r)"
    by fastforce
  ultimately have "r = Inr outcome" "issued = loop_issued c"
    using assms lease opened by (simp_all add: authenticate_with_loaded_runtime_def)
  with camera_frames_sound [of E sid src n M q trigger] camera_frames_issued [of E sid src n M q trigger] run
  show ?thesis by fastforce
qed

lemma authenticate_from_camera_Inr:
  assumes "authenticate_from_camera (on_authorization_accepted E sid src n) M q E trigger i w = (i1, w1, issued, Inr outcome)"
  shows "earned M E (matcher_threshold (issuer_authenticator i)) (issuer_templates i) outcome \<and>
    (\<exists>now. issued = Some (build_auth_grant sid src n outcome now))"
proof -
  obtain m loaded where m: "load_models M (model_provider (issuer_authenticator i)) = (m, loaded)" by fastforce
  obtain wl okl where wl: "env_load_liveness E w = (wl, okl)" by fastforce
  obtain v where "loaded = Inr v"
    using assms m by (cases loaded) (simp_all add: authenticate_from_camera_def)
  moreover have okl
    using assms m wl calculation by (cases okl) (simp_all add: authenticate_from_camera_def)
  moreover obtain i2 w2 iss r where run:
    "authenticate_with_loaded_runtime (on_authorization_accepted E sid src n) M q E trigger
       (i\<lparr>issuer_authenticator := (issuer_authenticator i)\<lparr>model_provider := m\<rparr>\<rparr>) wl = (i2, w2, iss, r)"
    by (metis prod_cases4)
  ultimately have "r = Inr outcome" "issued = iss"
    using assms m wl by (simp_all add: authenticate_from_camera_def)
  with loaded_runtime_Inr run show ?thesis by fastforce
qed

lemma issue_blocking_Inr:
  assumes "issue_auth_grant_blocking M q E sid src trigger n i w = (n1, i1, w1, Inr g)"
  shows "n \<noteq> - 1 \<and> n1 = n + 1 \<and> (\<exists>outcome now. g = build_auth_grant sid src n outcome now \<and>
    earned M E (matcher_threshold (issuer_authenticator i)) (issuer_templates i) outcome)"
proof (cases "n = - 1")
  case True
  with assms show ?thesis
    by (simp add: issue_auth_grant_blocking_def reserve_camera_grant_sequence_def checked_inc_def)
next
  case False
  obtain i2 w2 issued r where run:
    "authenticate_from_camera (on_authorization_accepted E sid src n) M q E trigger i w = (i2, w2, issued, r)"
    by (metis prod_cases4)
  with assms False have "n1 = n + 1" and r: "r = Inr (projr r)" "issued = Some g"
    by (auto simp: issue_auth_grant_blocking_def reserve_camera_grant_sequence_def checked_inc_def
        split: sum.splits option.splits)
  with authenticate_from_camera_Inr [of E sid src n M q trigger i w i2 w2 issued "projr r"] run False
  show ?thesis by auto
qed

section \<open>Properties of the camera issuer\<close>

text \<open>C3: a grant the camera issuer returns is for the session and the source that were asked, has
  the next number of the process in its id, lives for the fixed time, and names the user and the
  scores of one face that passed the liveness check and matched a template of the issuer with at
  least the threshold.\<close>

theorem camera_grant_is_earned:
  assumes "issue_auth_grant_blocking M q E sid src trigger n i w = (n1, i1, w1, Inr g)"
  shows "n1 = n + 1 \<and> session_id g = sid \<and> source g = src \<and>
    grant_id g = GrantId (''camera-grant-'' @ decimal (unat n)) \<and>
    expires_at_unix_ms g = i64_add (issued_at_unix_ms g) default_grant_ttl_ms \<and>
    (\<exists>outcome. earned M E (matcher_threshold (issuer_authenticator i)) (issuer_templates i) outcome \<and>
       user_id g = matched_user_id (face_authentication outcome) \<and>
       match_score (score g) = outcome_match_score (face_authentication outcome) \<and>
       liveness_score (score g) = Some (outcome_liveness_score outcome))"
  using issue_blocking_Inr [OF assms] by (auto simp: build_auth_grant_def)

text \<open>C28: whatever an authentication ends with, the liveness model, the lease and the camera it took
  are given back in reverse order, at most the configured number of frames is read, and a grant is
  published exactly when one is returned, before anything is given back.\<close>

theorem camera_calls_are_bracketed:
  "case issue_auth_grant_blocking M q (traced E) sid src trigger n i (w, []) of
     (n1, i1, w1, Inl e) \<Rightarrow> bracketed (unat (max_auth_frames i)) None (snd w1)
   | (n1, i1, w1, Inr g) \<Rightarrow> bracketed (unat (max_auth_frames i)) (Some g) (snd w1)"
proof (cases "n = - 1")
  case True
  then show ?thesis
    by (simp add: issue_auth_grant_blocking_def reserve_camera_grant_sequence_def checked_inc_def bracketed_def)
next
  case False
  obtain i2 w2 issued r where run:
    "authenticate_from_camera (on_authorization_accepted (traced E) sid src n) M q (traced E) trigger i (w, []) =
       (i2, w2, issued, r)"
    by (metis prod_cases4)
  from authenticate_from_camera_calls [OF run] show ?thesis
    using run False
    by (auto simp: issue_auth_grant_blocking_def reserve_camera_grant_sequence_def checked_inc_def
        split: sum.splits)
qed

text \<open>Authentications of one process, each with an issuer and a world of its own: the numbers are all
  they share.\<close>

fun issue_all ::
  "u64 \<Rightarrow> ('m model_ops \<times> (f32 \<Rightarrow> f32 \<Rightarrow> f32) \<times> 'w camera_env \<times> session_id \<times> auth_source \<times>
     auth_trigger_source \<times> 'm local_issuer \<times> 'w) list \<Rightarrow> u64 \<times> auth_grant list" where
  "issue_all n [] = (n, [])"
| "issue_all n ((M, q, E, sid, src, trigger, i, w) # calls) =
     (case issue_auth_grant_blocking M q E sid src trigger n i w of
        (n1, i1, w1, r) \<Rightarrow>
          (case issue_all n1 calls of
             (n2, gs) \<Rightarrow> (n2, (case r of Inl e \<Rightarrow> gs | Inr g \<Rightarrow> g # gs))))"

lemma issue_blocking_sequence:
  assumes "issue_auth_grant_blocking M q E sid src trigger n i w = (n1, i1, w1, r)"
  shows "unat n \<le> unat n1"
  using assms
  by (auto simp: issue_auth_grant_blocking_def reserve_camera_grant_sequence_def checked_inc_def unat_plus_one
      split: prod.splits sum.splits if_splits)

lemma issue_all_ids:
  "(\<forall>g \<in> set (snd (issue_all n calls)). \<exists>k \<ge> unat n. grant_id g = GrantId (''camera-grant-'' @ decimal k)) \<and>
   distinct (map grant_id (snd (issue_all n calls)))"
proof (induction calls arbitrary: n)
  case Nil
  show ?case by simp
next
  case (Cons call calls)
  obtain M q E sid src tail where "call = (M, q, E, sid, src, tail)" by (cases call)
  moreover obtain trigger i w where "tail = (trigger, i, w)" by (cases tail)
  ultimately have call: "call = (M, q, E, sid, src, trigger, i, w)" by simp
  obtain n1 i1 w1 r where issue: "issue_auth_grant_blocking M q E sid src trigger n i w = (n1, i1, w1, r)"
    by (metis prod_cases4)
  obtain n2 gs where rest: "issue_all n1 calls = (n2, gs)" by fastforce
  have later: "\<exists>k \<ge> unat n1. grant_id g = GrantId (''camera-grant-'' @ decimal k)" if "g \<in> set gs" for g
    using Cons.IH [of n1] rest that by simp
  have "distinct (map grant_id gs)" using Cons.IH [of n1] rest by simp
  show ?case
  proof (cases r)
    case (Inl e)
    have "\<exists>k \<ge> unat n. grant_id g = GrantId (''camera-grant-'' @ decimal k)" if "g \<in> set gs" for g
      using later [OF that] issue_blocking_sequence [OF issue] by (elim exE conjE) (intro exI conjI, rule le_trans)
    with Inl \<open>distinct _\<close> show ?thesis by (simp add: call issue rest)
  next
    case (Inr g)
    with issue_blocking_Inr [of M q E sid src trigger n i w n1 i1 w1 g] issue
    have n: "n \<noteq> - 1" "n1 = n + 1" and g: "grant_id g = GrantId (''camera-grant-'' @ decimal (unat n))"
      by (auto simp: build_auth_grant_def)
    have n1: "unat n1 = Suc (unat n)" using n by (simp add: unat_plus_one)
    have "grant_id g \<notin> grant_id ` set gs"
    proof
      assume "grant_id g \<in> grant_id ` set gs"
      then obtain h where "h \<in> set gs" "grant_id h = grant_id g" by force
      with later [of h] g obtain k where "unat n1 \<le> k" "decimal k = decimal (unat n)" by auto
      then show False using decimal_inject [of k "unat n"] n1 by simp
    qed
    moreover have "\<exists>k \<ge> unat n. grant_id h = GrantId (''camera-grant-'' @ decimal k)" if h: "h \<in> set gs" for h
    proof -
      obtain k where "unat n1 \<le> k" "grant_id h = GrantId (''camera-grant-'' @ decimal k)"
        using later [OF h] by (elim exE conjE) (rule that)
      then show ?thesis using n1 by (intro exI [of _ k]) simp
    qed
    ultimately show ?thesis
      using g \<open>distinct _\<close> Inr by (auto simp: call issue rest)
  qed
qed

text \<open>No two grants of the camera issuers of one process have the same id, however often the
  issuer is replaced.\<close>

theorem camera_grant_ids_are_unique:
  "distinct (map grant_id (snd (issue_all n calls)))"
  using issue_all_ids by blast

text \<open>An environment for the examples: the camera shows one face that is alive.\<close>

definition live_result :: liveness_result where
  "live_result = \<lparr>liveness_decision = LiveAccepted, result_liveness_score = Some f32_one\<rparr>"

definition sample_env :: "i64 camera_env" where
  "sample_env =
     \<lparr>env_lease = (\<lambda>w. (w, True)), env_open = (\<lambda>w. (w, Inr ())), env_read = (\<lambda>w. (w, Inr sample_frame)),
      env_close = (\<lambda>w. w), env_release = (\<lambda>w. w), env_now = (\<lambda>w. (w, w)),
      env_load_liveness = (\<lambda>w. (w, True)), env_unload_liveness = (\<lambda>w. w),
      env_liveness = (\<lambda>_ _ w. (w, Some live_result)), env_snapshot_policy = (\<lambda>_. new_snapshot_policy False),
      env_publish = (\<lambda>_ w. w), env_capture = (\<lambda>_ _ w. w)\<rparr>"

definition sample_issuer :: "f32 list local_issuer" where
  "sample_issuer =
     \<lparr>max_auth_frames = 1, issuer_templates = sample_templates, issuer_authenticator = sample_authenticator,
      issuer_black_frame_filter = default_black_frame_filter, issuer_max_spoof_frame_ratio = f32_one\<rparr>"

lemma not_black_ratio: "\<not> f32_lt black_ratio (f32_div (f32_of_nat 0) (f32_of_nat (Suc 0)))"
  by (simp add: f32_zero_least black_ratio_def f32_negative_def)

lemma sample_luma: "luma_sum sample_frame (Suc 0) (Suc 0) 0 1000 (0, 0) = (200, 1)"
proof -
  have "(1000::nat) = Suc (Suc 998)" by simp
  then show ?thesis by (simp only: luma_sum.simps) (simp add: sample_frame_def pixel_luma_def)
qed

lemma sample_frame_valid:
  "validate_frame_for_camera_stream sample_frame False = Inr ()"
  "is_black_frame sample_frame default_black_frame_filter =
     (default_black_frame_filter\<lparr>checked_frames := 1, filter_active := False\<rparr>, False)"
proof -
  have "sampled_bytes [200] = [200]" by (simp add: sampled_bytes_def sample_step_def Let_def)
  then show "validate_frame_for_camera_stream sample_frame False = Inr ()"
    using not_black_ratio
    by (simp add: validate_frame_for_camera_stream_def validate_frame_def sample_frame_def
      checked_mul_usize_def is_black_or_noise_def dark_threshold_def Let_def)
  have "\<not> frame_is_dark sample_frame"
    using sample_luma by (simp add: frame_is_dark_def Let_def) (simp add: sample_frame_def)
  then show "is_black_frame sample_frame default_black_frame_filter =
     (default_black_frame_filter\<lparr>checked_frames := 1, filter_active := False\<rparr>, False)"
    by (simp add: is_black_frame_def default_black_frame_filter_def Let_def)
qed

lemma sample_window:
  "reject_unlock_candidate_if_spoof_ratio_exceeded
     \<lparr>evaluated_frame_count = 1, spoof_frame_count = 0, max_spoof_frame_ratio = f32_one\<rparr> = Inr ()"
  by (simp add: reject_unlock_candidate_if_spoof_ratio_exceeded_def spoof_frame_ratio_def f32_lt_def)

theorem camera_grant_is_earned_witness:
  "\<exists>n1 i1 w1 g. issue_auth_grant_blocking sample_models (\<lambda>_ _. f32_zero) sample_env (SessionId ''s'') LocalCamera
     CredentialScreenEntered 7 sample_issuer 5 = (n1, i1, w1, Inr g) \<and> session_id g = SessionId ''s'' \<and>
     grant_id g = GrantId (''camera-grant-'' @ decimal 7)"
proof -
  obtain a outcome where accepted: "authenticate_detected_face_without_failure_cooldown sample_models (\<lambda>_ _. f32_zero)
      sample_frame sample_face sample_templates CredentialScreenEntered 5 sample_authenticator = (a, Inr outcome)"
    using sample_accepted by (auto simp: authenticate_detected_face_without_failure_cooldown_def)
  have face: "detect_single_face sample_models sample_frame sample_authenticator = (sample_authenticator, Inr sample_face)"
    by (simp add: detect_single_face_def sample_models_def)
  have models: "load_models sample_models m = (m, Inr ())" for m by (simp add: sample_models_def)
  have calls: "env_lease sample_env w = (w, True)" "env_open sample_env w = (w, Inr ())"
    "env_read sample_env w = (w, Inr sample_frame)" "env_now sample_env w = (w, w)"
    "env_load_liveness sample_env w = (w, True)" "env_liveness sample_env f d w = (w, Some live_result)" for w f d
    by (simp_all add: sample_env_def)
  have frames: "unat (1 :: u32) = Suc 0" by simp
  obtain n1 i1 w1 g where run: "issue_auth_grant_blocking sample_models (\<lambda>_ _. f32_zero) sample_env (SessionId ''s'')
      LocalCamera CredentialScreenEntered 7 sample_issuer 5 = (n1, i1, w1, Inr g)"
    by (simp add: issue_auth_grant_blocking_def reserve_camera_grant_sequence_def checked_inc_def
        authenticate_from_camera_def authenticate_with_loaded_runtime_def models calls sample_issuer_def
        camera_frame_step_def default_for_camera_stream_def new_tolerance_def sample_frame_valid
        examine_frame_def face live_face_def accepted record_liveness_def live_result_def new_window_def
        record_valid_frame_def sample_window on_authorization_accepted_def frames Let_def)
  from camera_grant_is_earned [OF run] run show ?thesis by auto
qed

end
