(* ===== verification/Orchestrator.thy ===== *)
theory Orchestrator
  imports Local_Camera_Auth Service_Handler
begin

text \<open>
  Crate \<open>win_service\<close>, \<open>src/auth_orchestrator.rs\<close>: camera authentications run as background jobs.
  The orchestrator shares the issuer, the set of sessions with a running job and the cache of
  outcomes with its jobs behind \<open>Arc<Mutex<..>>\<close>. \<open>invalidate_results\<close> replaces the two collections;
  jobs keep those they started with. A generation is one pair of collections, a job names its
  generation, and each step of a job is one critical section of its thread; the requests of the
  service take place between such steps. The inner issuer gives, for one call, the grants it hands
  to the observer and its result.
\<close>

section \<open>State\<close>

type_synonym auth_outcome = "auth_failure_reason + auth_grant"

record auth_generation =
  running_sessions :: "session_id set"
  running_poisoned :: bool
  cached_grant_outcomes :: "session_id \<rightharpoonup> auth_outcome"
  cache_poisoned :: bool

definition new_generation :: auth_generation where
  "new_generation =
     \<lparr>running_sessions = {}, running_poisoned = False, cached_grant_outcomes = Map.empty,
      cache_poisoned = False\<rparr>"

text \<open>Where the thread of a job stands: before the issuer's lock, inside the issuer with the grants
  still to be handed to the observer, whether one was published and the result to come, with the
  result in hand, with the result recorded.\<close>

datatype job_phase =
    WaitsForIssuer
  | Issues "auth_grant list" bool auth_grant_issue_result
  | Returned auth_outcome
  | Recorded

record auth_job =
  job_generation :: nat
  job_session :: session_id
  job_trigger :: auth_trigger_source
  job_issued_at :: i64
  job_phase :: job_phase

record 'i orchestrator =
  shared_issuer :: 'i
  issuer_poisoned :: bool
  issuer_holder :: "nat option"
  current_generation :: nat
  generations :: "nat \<Rightarrow> auth_generation"
  jobs :: "nat \<rightharpoonup> auth_job"
  next_job :: nat

type_synonym 'i observed_issue =
  "session_id \<Rightarrow> auth_source \<Rightarrow> auth_trigger_source \<Rightarrow> i64 \<Rightarrow> 'i \<Rightarrow>
     'i \<times> auth_grant list \<times> auth_grant_issue_result"

text \<open>The default body of \<open>issue_auth_grant_with_observer\<close>.\<close>

definition default_observed ::
  "(session_id \<Rightarrow> auth_source \<Rightarrow> auth_trigger_source \<Rightarrow> i64 \<Rightarrow> 'i \<Rightarrow> 'i \<times> auth_grant_issue_result) \<Rightarrow>
     'i observed_issue" where
  "default_observed issue sid src trigger t i =
     (case issue sid src trigger t i of
        (i1, Issued g) \<Rightarrow> (i1, [g], Issued g)
      | (i1, r) \<Rightarrow> (i1, [], r))"

text \<open>The camera issuer, with the number of the next grant and its world as state; it publishes what
  it returns.\<close>

definition camera_observed ::
  "'m model_ops \<Rightarrow> (f32 \<Rightarrow> f32 \<Rightarrow> f32) \<Rightarrow> 'w camera_env \<Rightarrow>
     (u64 \<times> 'm local_issuer \<times> 'w) observed_issue" where
  "camera_observed M q E sid src trigger t s =
     (case s of (n, i, w) \<Rightarrow>
        (case issue_auth_grant_blocking M q E sid src trigger n i w of
           (n1, i1, w1, Inl e) \<Rightarrow> ((n1, i1, w1), [], Failed e)
         | (n1, i1, w1, Inr g) \<Rightarrow> ((n1, i1, w1), [g], Issued g)))"

definition new_orchestrator :: "'i \<Rightarrow> 'i orchestrator" where
  "new_orchestrator i =
     \<lparr>shared_issuer = i, issuer_poisoned = False, issuer_holder = None, current_generation = 0,
      generations = (\<lambda>_. new_generation), jobs = Map.empty, next_job = 0\<rparr>"

section \<open>The collections of a generation\<close>

definition update_generation ::
  "nat \<Rightarrow> (auth_generation \<Rightarrow> auth_generation) \<Rightarrow> 'i orchestrator \<Rightarrow> 'i orchestrator" where
  "update_generation n f o1 = o1\<lparr>generations := (generations o1)(n := f (generations o1 n))\<rparr>"

text \<open>\<open>if let Ok(mut c) = cached_grant_outcomes.lock() { c.insert(..); }\<close>, and the same for the other
  collection.\<close>

definition cache_insert :: "session_id \<Rightarrow> auth_outcome \<Rightarrow> auth_generation \<Rightarrow> auth_generation" where
  "cache_insert sid r g =
     (if cache_poisoned g then g
      else g\<lparr>cached_grant_outcomes := (cached_grant_outcomes g)(sid \<mapsto> r)\<rparr>)"

definition cache_remove :: "session_id \<Rightarrow> auth_generation \<Rightarrow> auth_generation" where
  "cache_remove sid g =
     (if cache_poisoned g then g
      else g\<lparr>cached_grant_outcomes := (cached_grant_outcomes g)(sid := None)\<rparr>)"

definition running_remove :: "session_id \<Rightarrow> auth_generation \<Rightarrow> auth_generation" where
  "running_remove sid g =
     (if running_poisoned g then g else g\<lparr>running_sessions := running_sessions g - {sid}\<rparr>)"

section \<open>The steps of a job\<close>

definition set_job_phase :: "nat \<Rightarrow> auth_job \<Rightarrow> job_phase \<Rightarrow> 'i orchestrator \<Rightarrow> 'i orchestrator" where
  "set_job_phase k j ph o1 = o1\<lparr>jobs := (jobs o1)(k \<mapsto> j\<lparr>job_phase := ph\<rparr>)\<rparr>"

fun outcome_of_result :: "auth_grant_issue_result \<Rightarrow> auth_outcome" where
  "outcome_of_result (Issued g) = Inr g"
| "outcome_of_result (Failed reason) = Inl reason"
| "outcome_of_result Started = Inl InternalError"

definition step_of_job :: "'i observed_issue \<Rightarrow> nat \<Rightarrow> auth_job \<Rightarrow> 'i orchestrator \<Rightarrow> 'i orchestrator" where
  "step_of_job A k j o1 =
     (let n = job_generation j; sid = job_session j
      in case job_phase j of
           WaitsForIssuer \<Rightarrow>
             if issuer_poisoned o1 then set_job_phase k j (Returned (Inl InternalError)) o1
             else if issuer_holder o1 \<noteq> None then o1
             else (case A sid LocalCamera (job_trigger j) (job_issued_at j) (shared_issuer o1) of
                     (i, grants, r) \<Rightarrow>
                       set_job_phase k j (Issues grants False r)
                         (o1\<lparr>shared_issuer := i, issuer_holder := Some k\<rparr>))
         | Issues (g # grants) published r \<Rightarrow>
             set_job_phase k j
               (Issues grants (published \<or> \<not> cache_poisoned (generations o1 n)) r)
               (update_generation n (cache_insert sid (Inr g)) o1)
         | Issues [] published r \<Rightarrow>
             set_job_phase k j (Returned (outcome_of_result r))
               ((case outcome_of_result r of
                   Inr g \<Rightarrow>
                     if published then o1 else update_generation n (cache_insert sid (Inr g)) o1
                 | Inl _ \<Rightarrow> o1)\<lparr>issuer_holder := None\<rparr>)
         | Returned result \<Rightarrow>
             set_job_phase k j Recorded
               (case result of
                  Inl _ \<Rightarrow> update_generation n (cache_insert sid result) o1
                | Inr _ \<Rightarrow> o1)
         | Recorded \<Rightarrow>
             (update_generation n (running_remove sid) o1)\<lparr>jobs := (jobs o1)(k := None)\<rparr>)"

definition job_step :: "'i observed_issue \<Rightarrow> nat \<Rightarrow> 'i orchestrator \<Rightarrow> 'i orchestrator" where
  "job_step A k o1 = (case jobs o1 k of None \<Rightarrow> o1 | Some j \<Rightarrow> step_of_job A k j o1)"

fun job_steps :: "'i observed_issue \<Rightarrow> nat list \<Rightarrow> 'i orchestrator \<Rightarrow> 'i orchestrator" where
  "job_steps A [] o1 = o1"
| "job_steps A (k # ks) o1 = job_steps A ks (job_step A k o1)"

section \<open>The requests\<close>

text \<open>The look into the cache: an answer, or none and the entry dropped.\<close>

definition check_cache ::
  "session_id \<Rightarrow> i64 \<Rightarrow> 'i orchestrator \<Rightarrow> 'i orchestrator \<times> auth_grant_issue_result option" where
  "check_cache sid now o1 =
     (let n = current_generation o1; g = generations o1 n
      in if cache_poisoned g then (o1, Some (Failed InternalError))
         else case cached_grant_outcomes g sid of
                Some (Inr cached) \<Rightarrow>
                  if \<not> is_expired_at cached now then (o1, Some (Issued cached))
                  else (update_generation n (cache_remove sid) o1, None)
              | Some (Inl _) \<Rightarrow> (update_generation n (cache_remove sid) o1, None)
              | None \<Rightarrow> (o1, None))"

text \<open>The mark in the running set and the new thread, which may fail to start.\<close>

definition spawn_job ::
  "session_id \<Rightarrow> auth_trigger_source \<Rightarrow> i64 \<Rightarrow> bool \<Rightarrow> 'i orchestrator \<Rightarrow>
     'i orchestrator \<times> auth_grant_issue_result" where
  "spawn_job sid trigger now spawn_ok o1 =
     (let n = current_generation o1; g = generations o1 n
      in if running_poisoned g then (o1, Failed InternalError)
         else if sid \<in> running_sessions g then (o1, Started)
         else
           let o2 = update_generation n (\<lambda>g. g\<lparr>running_sessions := insert sid (running_sessions g)\<rparr>) o1
           in if spawn_ok then
                (o2\<lparr>jobs := (jobs o2)(next_job o2 \<mapsto>
                       \<lparr>job_generation = n, job_session = sid, job_trigger = trigger,
                        job_issued_at = now, job_phase = WaitsForIssuer\<rparr>),
                    next_job := Suc (next_job o2)\<rparr>, Started)
              else (update_generation n (running_remove sid) o2, Failed InternalError))"

text \<open>\<open>issue_auth_grant\<close> for the camera; \<open>mid\<close> are the job steps that take place between its two
  critical sections.\<close>

definition issue_from_camera ::
  "'i observed_issue \<Rightarrow> session_id \<Rightarrow> auth_trigger_source \<Rightarrow> i64 \<Rightarrow> bool \<Rightarrow> nat list \<Rightarrow> 'i orchestrator \<Rightarrow>
     'i orchestrator \<times> auth_grant_issue_result" where
  "issue_from_camera A sid trigger now spawn_ok mid o1 =
     (case check_cache sid now o1 of
        (o2, Some r) \<Rightarrow> (o2, r)
      | (o2, None) \<Rightarrow> spawn_job sid trigger now spawn_ok (job_steps A mid o2))"

text \<open>For every other source the issuer is called directly; \<open>None\<close> while a job holds its lock.\<close>

definition orch_issue_auth_grant ::
  "'i observed_issue \<Rightarrow>
     (session_id \<Rightarrow> auth_source \<Rightarrow> auth_trigger_source \<Rightarrow> i64 \<Rightarrow> 'i \<Rightarrow> 'i \<times> auth_grant_issue_result) \<Rightarrow>
     session_id \<Rightarrow> auth_source \<Rightarrow> auth_trigger_source \<Rightarrow> i64 \<Rightarrow> bool \<Rightarrow> nat list \<Rightarrow> 'i orchestrator \<Rightarrow>
     ('i orchestrator \<times> auth_grant_issue_result) option" where
  "orch_issue_auth_grant A issue sid src trigger now spawn_ok mid o1 =
     (if src \<noteq> LocalCamera then
        if issuer_poisoned o1 then Some (o1, Failed InternalError)
        else if issuer_holder o1 \<noteq> None then None
        else (case issue sid src trigger now (shared_issuer o1) of
                (i, r) \<Rightarrow> Some (o1\<lparr>shared_issuer := i\<rparr>, r))
      else Some (issue_from_camera A sid trigger now spawn_ok mid o1))"

definition orch_fetch_auth_result :: "session_id \<Rightarrow> 'i orchestrator \<Rightarrow> auth_outcome option" where
  "orch_fetch_auth_result sid o1 =
     (let g = generations o1 (current_generation o1)
      in if cache_poisoned g then None else cached_grant_outcomes g sid)"

definition orch_cancel_auth :: "session_id \<Rightarrow> 'i orchestrator \<Rightarrow> 'i orchestrator" where
  "orch_cancel_auth sid o1 =
     update_generation (current_generation o1) (cache_remove sid)
       (update_generation (current_generation o1) (running_remove sid) o1)"

definition invalidate_results :: "'i orchestrator \<Rightarrow> 'i orchestrator" where
  "invalidate_results o1 =
     (let n = Suc (current_generation o1)
      in o1\<lparr>current_generation := n, generations := (generations o1)(n := new_generation)\<rparr>)"

definition try_with_issuer :: "('i \<Rightarrow> 'a) \<Rightarrow> 'i orchestrator \<Rightarrow> 'a option" where
  "try_with_issuer read o1 =
     (if issuer_poisoned o1 \<or> issuer_holder o1 \<noteq> None then None else Some (read (shared_issuer o1)))"

section \<open>Runs\<close>

datatype orch_event =
    IssueCall session_id auth_trigger_source i64 bool "nat list"
  | CancelCall session_id
  | InvalidateCall
  | JobStep nat

fun orch_step :: "'i observed_issue \<Rightarrow> orch_event \<Rightarrow> 'i orchestrator \<Rightarrow> 'i orchestrator" where
  "orch_step A (IssueCall sid trigger now spawn_ok mid) o1 =
     fst (issue_from_camera A sid trigger now spawn_ok mid o1)"
| "orch_step A (CancelCall sid) o1 = orch_cancel_auth sid o1"
| "orch_step A InvalidateCall o1 = invalidate_results o1"
| "orch_step A (JobStep k) o1 = job_step A k o1"

fun orch_run :: "'i observed_issue \<Rightarrow> orch_event list \<Rightarrow> 'i orchestrator \<Rightarrow> 'i orchestrator" where
  "orch_run A [] o1 = o1"
| "orch_run A (ev # evs) o1 = orch_run A evs (orch_step A ev o1)"

fun starts :: "session_id \<Rightarrow> orch_event \<Rightarrow> bool" where
  "starts sid (IssueCall sid' _ _ _ _) = (sid' = sid)"
| "starts sid _ = False"

fun cancels :: "orch_event \<Rightarrow> bool" where
  "cancels (CancelCall _) = True"
| "cancels _ = False"

end
