(* ===== verification/Auth_Issuer.thy ===== *)
theory Auth_Issuer
  imports Orchestrator Simulated_Auth
begin

text \<open>
  Crate \<open>win_service\<close>, \<open>src/auth_issuer.rs\<close>: the issuer of the running service
  (\<open>DevelopmentAuthGrantIssuer\<close>), which routes a request to the manual test issuer or to the
  orchestrator of the camera issuer, and replaces the latter when the configuration changes. The
  loader of the configuration, the construction of the camera issuer and the stores are operations
  on an environment \<open>'e\<close>. The permissions for pictures are numbered: \<open>Arc\<close>s that jobs of an earlier
  configuration keep. An orchestrator that was replaced has only its own jobs left and is not kept.
  Before and within a request job steps take place, as the schedule says.
\<close>

datatype 'c service_auth_mode =
    ManualTestOnly
  | LocalCameraUnavailable
  | LocalCameraMode 'c

record ('c, 'i, 'e) dev_ops =
  load_auth_config :: "'e \<Rightarrow> 'e \<times> (protocol_error + 'c service_auth_mode)"
  config_intruder_snap_enabled :: "'c \<Rightarrow> bool"
  camera_issuer_from_config :: "'c \<Rightarrow> nat \<Rightarrow> 'e \<Rightarrow> 'e \<times> (protocol_error + 'i)"
  resolve_camera_id :: "string \<Rightarrow> 'e \<Rightarrow> 'e \<times> string option"
  persist_camera_config :: "string \<Rightarrow> string \<Rightarrow> string \<Rightarrow> 'e \<Rightarrow> 'e \<times> bool"
  persist_settings :: "control_settings_patch \<Rightarrow> 'e \<Rightarrow> 'e \<times> bool"
  open_store_paths :: "'e \<Rightarrow> 'e \<times> (protocol_error + unit)"
  secret_configured :: "user_id \<Rightarrow> credential_ref \<Rightarrow> 'e \<Rightarrow> 'e \<times> (protocol_error + bool)"
  store_credential ::
    "user_id \<Rightarrow> string \<Rightarrow> string \<Rightarrow> account_type \<Rightarrow> credential_ref \<Rightarrow> string \<Rightarrow> 'e \<Rightarrow>
       'e \<times> bool"

type_synonym orch_schedule = "(nat list \<times> nat list \<times> bool) list"

record ('i, 'e) development_issuer =
  manual_test_user_id :: user_id
  manual_test_issuer :: simulated_issuer
  local_camera_issuer :: "'i orchestrator option"
  snapshot_policies :: "nat \<Rightarrow> snapshot_policy"
  current_policy :: nat
  auth_mode_unavailable :: bool
  dev_env :: 'e
  dev_schedule :: orch_schedule

definition config_snapshots :: "('c, 'i, 'e) dev_ops \<Rightarrow> 'c service_auth_mode \<Rightarrow> snapshot_policy" where
  "config_snapshots D mode =
     new_snapshot_policy (case mode of LocalCameraMode c \<Rightarrow> config_intruder_snap_enabled D c | _ \<Rightarrow> False)"

text \<open>The issuer is built for the policy number \<open>p\<close>.\<close>

definition local_camera_issuer_from_config ::
  "('c, 'i, 'e) dev_ops \<Rightarrow> 'c service_auth_mode \<Rightarrow> nat \<Rightarrow> 'e \<Rightarrow>
     'e \<times> (protocol_error + 'i orchestrator option)" where
  "local_camera_issuer_from_config D mode p e =
     (case mode of
        LocalCameraMode c \<Rightarrow>
          (case camera_issuer_from_config D c p e of
             (e1, Inl err) \<Rightarrow> (e1, Inl err)
           | (e1, Inr i) \<Rightarrow> (e1, Inr (Some (new_orchestrator i))))
      | _ \<Rightarrow> (e, Inr None))"

definition development_from_config ::
  "('c, 'i, 'e) dev_ops \<Rightarrow> user_id \<Rightarrow> 'c service_auth_mode \<Rightarrow> orch_schedule \<Rightarrow> 'e \<Rightarrow>
     'e \<times> (protocol_error + ('i, 'e) development_issuer)" where
  "development_from_config D uid mode schedule e =
     (case local_camera_issuer_from_config D mode 0 e of
        (e1, Inl err) \<Rightarrow> (e1, Inl err)
      | (e1, Inr local) \<Rightarrow>
          (e1, Inr \<lparr>manual_test_user_id = uid, manual_test_issuer = for_user uid,
                    local_camera_issuer = local, snapshot_policies = (\<lambda>_. config_snapshots D mode),
                    current_policy = 0,
                    auth_mode_unavailable = (case mode of LocalCameraUnavailable \<Rightarrow> True | _ \<Rightarrow> False),
                    dev_env = e1, dev_schedule = schedule\<rparr>))"

definition revoke_current_policy :: "('i, 'e) development_issuer \<Rightarrow> ('i, 'e) development_issuer" where
  "revoke_current_policy d =
     d\<lparr>snapshot_policies := (snapshot_policies d)
         (current_policy d := revoke_snapshots (snapshot_policies d (current_policy d)))\<rparr>"

definition dev_reload ::
  "('c, 'i, 'e) dev_ops \<Rightarrow> ('i, 'e) development_issuer \<Rightarrow>
     ('i, 'e) development_issuer \<times> (protocol_error + unit)" where
  "dev_reload D d0 =
     (let d = (revoke_current_policy d0)\<lparr>local_camera_issuer := None, auth_mode_unavailable := True\<rparr>
      in case load_auth_config D (dev_env d) of
           (e1, Inl err) \<Rightarrow> (d\<lparr>dev_env := e1\<rparr>, Inl err)
         | (e1, Inr mode) \<Rightarrow>
             if mode = LocalCameraUnavailable then (d\<lparr>dev_env := e1\<rparr>, Inl TransportUnavailable)
             else
               let p = Suc (current_policy d)
               in case local_camera_issuer_from_config D mode p e1 of
                    (e2, Inl err) \<Rightarrow> (d\<lparr>dev_env := e2\<rparr>, Inl err)
                  | (e2, Inr local) \<Rightarrow>
                      (d\<lparr>dev_env := e2, local_camera_issuer := local,
                         snapshot_policies := (snapshot_policies d)(p := config_snapshots D mode),
                         current_policy := p, auth_mode_unavailable := False\<rparr>, Inr ()))"

definition dev_invalidate :: "('i, 'e) development_issuer \<Rightarrow> ('i, 'e) development_issuer" where
  "dev_invalidate d = d\<lparr>local_camera_issuer := map_option invalidate_results (local_camera_issuer d)\<rparr>"

fun next_schedule :: "orch_schedule \<Rightarrow> (nat list \<times> nat list \<times> bool) \<times> orch_schedule" where
  "next_schedule [] = (([], [], True), [])"
| "next_schedule (s # ss) = (s, ss)"

definition dev_issue ::
  "'i observed_issue \<Rightarrow> session_id \<Rightarrow> auth_source \<Rightarrow> auth_trigger_source \<Rightarrow> i64 \<Rightarrow>
     ('i, 'e) development_issuer \<Rightarrow> ('i, 'e) development_issuer \<times> auth_grant_issue_result" where
  "dev_issue A sid src trigger now d =
     (if auth_mode_unavailable d then (d, Failed InternalError)
      else case src of
             ManualTest \<Rightarrow>
               (case simulated_issue sid src trigger now (manual_test_issuer d) of
                  (i, r) \<Rightarrow> (d\<lparr>manual_test_issuer := i\<rparr>, r))
           | LocalCamera \<Rightarrow>
               (case local_camera_issuer d of
                  None \<Rightarrow> (d, Failed InternalError)
                | Some o1 \<Rightarrow>
                    (case next_schedule (dev_schedule d) of
                       ((before, mid, spawn_ok), rest) \<Rightarrow>
                         (case issue_from_camera A sid trigger now spawn_ok mid (job_steps A before o1) of
                            (o2, r) \<Rightarrow> (d\<lparr>local_camera_issuer := Some o2, dev_schedule := rest\<rparr>, r))))
           | VehicleCamera \<Rightarrow> (d, Failed InternalError))"

definition dev_fetch ::
  "'i observed_issue \<Rightarrow> session_id \<Rightarrow> i64 \<Rightarrow> ('i, 'e) development_issuer \<Rightarrow>
     ('i, 'e) development_issuer \<times> auth_outcome option" where
  "dev_fetch A sid now d =
     (if auth_mode_unavailable d then (d, Some (Inl InternalError))
      else case local_camera_issuer d of
             None \<Rightarrow> (d, None)
           | Some o1 \<Rightarrow>
               (case next_schedule (dev_schedule d) of
                  ((before, _, _), rest) \<Rightarrow>
                    (let o2 = job_steps A before o1
                     in (d\<lparr>local_camera_issuer := Some o2, dev_schedule := rest\<rparr>,
                         orch_fetch_auth_result sid o2))))"

definition dev_cancel :: "session_id \<Rightarrow> ('i, 'e) development_issuer \<Rightarrow> ('i, 'e) development_issuer" where
  "dev_cancel sid d = d\<lparr>local_camera_issuer := map_option (orch_cancel_auth sid) (local_camera_issuer d)\<rparr>"

definition dev_apply_local_camera_auth_config ::
  "('c, 'i, 'e) dev_ops \<Rightarrow> string \<Rightarrow> string \<Rightarrow> string \<Rightarrow> ('i, 'e) development_issuer \<Rightarrow>
     ('i, 'e) development_issuer \<times> (protocol_error + unit)" where
  "dev_apply_local_camera_auth_config D template_path camera install_dir d0 =
     (let d = dev_invalidate d0
      in case resolve_camera_id D camera (dev_env d) of
           (e1, None) \<Rightarrow> (d\<lparr>dev_env := e1\<rparr>, Inl InvalidMessage)
         | (e1, Some resolved) \<Rightarrow>
             (case persist_camera_config D template_path resolved install_dir e1 of
                (e2, False) \<Rightarrow> (d\<lparr>dev_env := e2\<rparr>, Inl InvalidMessage)
              | (e2, True) \<Rightarrow> dev_reload D (d\<lparr>dev_env := e2\<rparr>)))"

definition only_disables_snapshots :: "control_settings_patch \<Rightarrow> bool" where
  "only_disables_snapshots patch \<longleftrightarrow>
     intruder_snap_enabled patch = Some False \<and> presence_lock_enabled patch = None \<and>
     logon_wake_mode patch = None \<and> logon_face_match_threshold patch = None \<and>
     control_settings_patch.intruder_similarity_threshold patch = None"

definition dev_update_settings ::
  "('c, 'i, 'e) dev_ops \<Rightarrow> control_settings_patch \<Rightarrow> ('i, 'e) development_issuer \<Rightarrow>
     ('i, 'e) development_issuer \<times> (protocol_error + unit)" where
  "dev_update_settings D patch d0 =
     (if \<not> has_updates patch \<or> \<not> has_valid_values patch then (d0, Inl InvalidMessage)
      else
        let d1 = dev_invalidate d0;
            d = (if intruder_snap_enabled patch = Some False then revoke_current_policy d1 else d1)
        in case persist_settings D patch (dev_env d) of
             (e1, False) \<Rightarrow> (d\<lparr>dev_env := e1\<rparr>, Inl InvalidMessage)
           | (e1, True) \<Rightarrow>
               if only_disables_snapshots patch then (d\<lparr>dev_env := e1\<rparr>, Inr ())
               else dev_reload D (d\<lparr>dev_env := e1\<rparr>))"

definition dev_check_windows_credential ::
  "('c, 'i, 'e) dev_ops \<Rightarrow> user_id \<Rightarrow> credential_ref \<Rightarrow> ('i, 'e) development_issuer \<Rightarrow>
     ('i, 'e) development_issuer \<times> (protocol_error + bool)" where
  "dev_check_windows_credential D uid cref d =
     (case open_store_paths D (dev_env d) of
        (e1, Inl err) \<Rightarrow> (d\<lparr>dev_env := e1\<rparr>, Inl err)
      | (e1, Inr _) \<Rightarrow>
          (case secret_configured D uid cref e1 of (e2, r) \<Rightarrow> (d\<lparr>dev_env := e2\<rparr>, r)))"

definition dev_enroll_windows_credential ::
  "('c, 'i, 'e) dev_ops \<Rightarrow> user_id \<Rightarrow> string \<Rightarrow> string \<Rightarrow> account_type \<Rightarrow> credential_ref \<Rightarrow> string \<Rightarrow>
     ('i, 'e) development_issuer \<Rightarrow> ('i, 'e) development_issuer \<times> (protocol_error + unit)" where
  "dev_enroll_windows_credential D uid sid name acct cref secret d =
     (case open_store_paths D (dev_env d) of
        (e1, Inl err) \<Rightarrow> (d\<lparr>dev_env := e1\<rparr>, Inl err)
      | (e1, Inr _) \<Rightarrow>
          (case store_credential D uid sid name acct cref secret e1 of
             (e2, stored) \<Rightarrow> (d\<lparr>dev_env := e2\<rparr>, if stored then Inr () else Inl InvalidMessage)))"

definition development_ops ::
  "'i observed_issue \<Rightarrow> ('c, 'i, 'e) dev_ops \<Rightarrow> ('i, 'e) development_issuer issuer_ops" where
  "development_ops A D =
     \<lparr>issue_auth_grant = dev_issue A, fetch_auth_result = dev_fetch A, cancel_auth = dev_cancel,
      reload_auth_config = dev_reload D,
      apply_local_camera_auth_config = dev_apply_local_camera_auth_config D,
      update_settings = dev_update_settings D,
      check_windows_credential = dev_check_windows_credential D,
      enroll_windows_credential = dev_enroll_windows_credential D\<rparr>"

end
