(* ===== verification/Orchestrator_Properties.thy ===== *)
theory Orchestrator_Properties
  imports Orchestrator Camera_Auth_Properties Simulated_Auth
begin

text \<open>
  What the orchestrator of \<open>win_service/src/auth_orchestrator.rs\<close> guarantees in every interleaving
  of requests and job steps: results of an earlier configuration are out of reach, one job per
  session, what a finished job leaves behind, and that what is answered is for the session that
  asked. Cancelling does not detach a running job; the last section shows what follows.
\<close>

lemmas generation_defs = update_generation_def cache_insert_def cache_remove_def running_remove_def

lemma generations_update [simp]:
  "generations (update_generation n f o1) = (generations o1)(n := f (generations o1 n))"
  "current_generation (update_generation n f o1) = current_generation o1"
  "jobs (update_generation n f o1) = jobs o1"
  "next_job (update_generation n f o1) = next_job o1"
  "issuer_holder (update_generation n f o1) = issuer_holder o1"
  "shared_issuer (update_generation n f o1) = shared_issuer o1"
  "issuer_poisoned (update_generation n f o1) = issuer_poisoned o1"
  by (simp_all add: update_generation_def)

lemma set_job_phase_simps [simp]:
  "generations (set_job_phase k j ph o1) = generations o1"
  "current_generation (set_job_phase k j ph o1) = current_generation o1"
  "jobs (set_job_phase k j ph o1) = (jobs o1)(k \<mapsto> j\<lparr>job_phase := ph\<rparr>)"
  "next_job (set_job_phase k j ph o1) = next_job o1"
  "issuer_holder (set_job_phase k j ph o1) = issuer_holder o1"
  "shared_issuer (set_job_phase k j ph o1) = shared_issuer o1"
  "issuer_poisoned (set_job_phase k j ph o1) = issuer_poisoned o1"
  by (simp_all add: set_job_phase_def)

lemma cache_simps [simp]:
  "cache_poisoned (cache_insert sid r g) = cache_poisoned g"
  "running_poisoned (cache_insert sid r g) = running_poisoned g"
  "running_sessions (cache_insert sid r g) = running_sessions g"
  "cache_poisoned (cache_remove sid g) = cache_poisoned g"
  "running_poisoned (cache_remove sid g) = running_poisoned g"
  "running_sessions (cache_remove sid g) = running_sessions g"
  "cache_poisoned (running_remove sid g) = cache_poisoned g"
  "running_poisoned (running_remove sid g) = running_poisoned g"
  "cached_grant_outcomes (running_remove sid g) = cached_grant_outcomes g"
  "cached_grant_outcomes (cache_insert sid r g) =
     (if cache_poisoned g then cached_grant_outcomes g else (cached_grant_outcomes g)(sid \<mapsto> r))"
  "cached_grant_outcomes (cache_remove sid g) =
     (if cache_poisoned g then cached_grant_outcomes g else (cached_grant_outcomes g)(sid := None))"
  "running_sessions (running_remove sid g) =
     (if running_poisoned g then running_sessions g else running_sessions g - {sid})"
  by (simp_all add: cache_insert_def cache_remove_def running_remove_def)

section \<open>A step of a job\<close>

text \<open>A step changes only the collections of the job's own generation, only at its own session, and
  of the jobs only the job itself.\<close>

lemma job_step_frame:
  assumes "jobs o1 k = Some j"
  shows "current_generation (job_step A k o1) = current_generation o1"
    and "next_job (job_step A k o1) = next_job o1"
    and "n \<noteq> job_generation j \<Longrightarrow> generations (job_step A k o1) n = generations o1 n"
    and "sid \<noteq> job_session j \<Longrightarrow>
      cached_grant_outcomes (generations (job_step A k o1) n) sid = cached_grant_outcomes (generations o1 n) sid"
    and "k' \<noteq> k \<Longrightarrow> jobs (job_step A k o1) k' = jobs o1 k'"
    and "jobs (job_step A k o1) k = Some j' \<Longrightarrow>
      job_generation j' = job_generation j \<and> job_session j' = job_session j"
  using assms
  by (auto simp: job_step_def step_of_job_def Let_def
      split: job_phase.splits list.splits auth_grant_issue_result.splits sum.splits prod.splits if_splits
        option.splits)

lemma job_step_none: "jobs o1 k = None \<Longrightarrow> job_step A k o1 = o1"
  by (simp add: job_step_def)

lemma job_step_jobs:
  assumes "jobs (job_step A k o1) k' = Some j'"
  shows "\<exists>j. jobs o1 k' = Some j \<and> job_generation j = job_generation j' \<and> job_session j = job_session j'"
proof (cases "jobs o1 k")
  case None
  with assms show ?thesis by (simp add: job_step_none)
next
  case (Some j)
  with assms job_step_frame(5,6) [OF Some, where A = A] show ?thesis by (cases "k' = k") auto
qed

lemma job_step_counts [simp]:
  "current_generation (job_step A k o1) = current_generation o1"
  "next_job (job_step A k o1) = next_job o1"
  by (cases "jobs o1 k"; simp add: job_step_none job_step_frame(1,2))+

section \<open>Results of an earlier configuration\<close>

definition out_of_reach :: "session_id \<Rightarrow> 'i orchestrator \<Rightarrow> bool" where
  "out_of_reach sid o1 \<longleftrightarrow>
     cached_grant_outcomes (generations o1 (current_generation o1)) sid = None \<and>
     (\<forall>k j. jobs o1 k = Some j \<longrightarrow>
        job_generation j \<le> current_generation o1 \<and>
        (job_generation j = current_generation o1 \<longrightarrow> job_session j \<noteq> sid))"

lemma job_step_out_of_reach:
  assumes "out_of_reach sid o1"
  shows "out_of_reach sid (job_step A k o1)"
proof (cases "jobs o1 k")
  case None
  with assms show ?thesis by (simp add: job_step_none)
next
  case (Some j)
  note frame = job_step_frame [OF Some, where A = A]
  have own: "job_generation j \<le> current_generation o1"
      "job_generation j = current_generation o1 \<Longrightarrow> job_session j \<noteq> sid"
    using assms Some by (auto simp: out_of_reach_def)
  have "cached_grant_outcomes (generations (job_step A k o1) (current_generation o1)) sid =
      cached_grant_outcomes (generations o1 (current_generation o1)) sid"
  proof (cases "job_generation j = current_generation o1")
    case True
    then show ?thesis using own(2) by (intro frame(4)) blast
  next
    case False
    then show ?thesis using frame(3) [of "current_generation o1"] by simp
  qed
  moreover have "job_generation j' \<le> current_generation o1 \<and>
      (job_generation j' = current_generation o1 \<longrightarrow> job_session j' \<noteq> sid)"
    if "jobs (job_step A k o1) k' = Some j'" for k' j'
    using job_step_jobs [OF that] assms unfolding out_of_reach_def by metis
  ultimately show ?thesis
    using assms unfolding out_of_reach_def by simp
qed

lemma job_steps_out_of_reach: "out_of_reach sid o1 \<Longrightarrow> out_of_reach sid (job_steps A ks o1)"
  by (induction ks arbitrary: o1) (auto intro: job_step_out_of_reach)

lemma check_cache_out_of_reach:
  "out_of_reach sid o1 \<Longrightarrow> out_of_reach sid (fst (check_cache sid' now o1))"
  by (auto simp: check_cache_def out_of_reach_def Let_def split: option.splits sum.splits)

lemma spawn_out_of_reach:
  "\<lbrakk>out_of_reach sid o1; sid' \<noteq> sid\<rbrakk> \<Longrightarrow> out_of_reach sid (fst (spawn_job sid' trigger now ok o1))"
  by (auto simp: spawn_job_def out_of_reach_def Let_def split: if_splits)

lemma orch_step_out_of_reach:
  assumes "out_of_reach sid o1" and "\<not> starts sid ev"
  shows "out_of_reach sid (orch_step A ev o1)"
proof (cases ev)
  case (IssueCall sid' trigger now ok mid)
  obtain o2 r where c: "check_cache sid' now o1 = (o2, r)" by fastforce
  then have "out_of_reach sid o2" using check_cache_out_of_reach [OF assms(1), of sid' now] by simp
  with c IssueCall assms(2) show ?thesis
    by (auto simp: issue_from_camera_def split: option.splits
        intro: spawn_out_of_reach job_steps_out_of_reach)
next
  case (CancelCall sid')
  with assms show ?thesis by (auto simp: out_of_reach_def orch_cancel_auth_def)
next
  case InvalidateCall
  with assms show ?thesis
    by (force simp: out_of_reach_def invalidate_results_def new_generation_def Let_def)
next
  case (JobStep k)
  with assms show ?thesis by (simp add: job_step_out_of_reach)
qed

lemma orch_run_out_of_reach:
  "\<lbrakk>out_of_reach sid o1; \<forall>ev \<in> set evs. \<not> starts sid ev\<rbrakk> \<Longrightarrow> out_of_reach sid (orch_run A evs o1)"
  by (induction evs arbitrary: o1) (auto intro: orch_step_out_of_reach)

text \<open>Jobs have a number that was given out, and never belong to a generation still to come.\<close>

definition orch_wf :: "'i orchestrator \<Rightarrow> bool" where
  "orch_wf o1 \<longleftrightarrow>
     (\<forall>k j. jobs o1 k = Some j \<longrightarrow> k < next_job o1 \<and> job_generation j \<le> current_generation o1)"

lemma job_step_wf: "orch_wf o1 \<Longrightarrow> orch_wf (job_step A k o1)"
  unfolding orch_wf_def using job_step_jobs [of A k o1] by fastforce

lemma job_steps_wf: "orch_wf o1 \<Longrightarrow> orch_wf (job_steps A ks o1)"
  by (induction ks arbitrary: o1) (auto intro: job_step_wf)

lemma check_cache_simps [simp]:
  "jobs (fst (check_cache sid now o1)) = jobs o1"
  "next_job (fst (check_cache sid now o1)) = next_job o1"
  "current_generation (fst (check_cache sid now o1)) = current_generation o1"
  "running_sessions (generations (fst (check_cache sid now o1)) n) = running_sessions (generations o1 n)"
  by (auto simp: check_cache_def Let_def split: option.splits sum.splits)

lemma spawn_wf: "orch_wf o1 \<Longrightarrow> orch_wf (fst (spawn_job sid trigger now ok o1))"
  by (auto simp: orch_wf_def spawn_job_def Let_def less_SucI split: if_splits)

lemma issue_cases:
  obtains r where "check_cache sid now o1 = (fst (check_cache sid now o1), Some r)"
      "issue_from_camera A sid trigger now ok mid o1 = (fst (check_cache sid now o1), r)"
  | "check_cache sid now o1 = (fst (check_cache sid now o1), None)"
      "issue_from_camera A sid trigger now ok mid o1 =
         spawn_job sid trigger now ok (job_steps A mid (fst (check_cache sid now o1)))"
  by (cases "check_cache sid now o1"; cases "snd (check_cache sid now o1)")
    (auto simp: issue_from_camera_def)

lemma check_cache_wf: "orch_wf o1 \<Longrightarrow> orch_wf (fst (check_cache sid now o1))"
  by (simp add: orch_wf_def)

lemma issue_wf: "orch_wf o1 \<Longrightarrow> orch_wf (fst (issue_from_camera A sid trigger now ok mid o1))"
  by (rule issue_cases [of sid now o1 A trigger ok mid])
    (auto intro: check_cache_wf spawn_wf job_steps_wf)

lemma orch_step_wf: "orch_wf o1 \<Longrightarrow> orch_wf (orch_step A ev o1)"
proof (cases ev)
  case InvalidateCall
  assume "orch_wf o1"
  with InvalidateCall show ?thesis
    by (auto simp: orch_wf_def invalidate_results_def Let_def le_SucI)
next
  case (CancelCall sid)
  assume "orch_wf o1"
  with CancelCall show ?thesis by (simp add: orch_wf_def orch_cancel_auth_def)
qed (auto intro: issue_wf job_step_wf)

lemma orch_run_wf: "orch_wf o1 \<Longrightarrow> orch_wf (orch_run A evs o1)"
  by (induction evs arbitrary: o1) (auto intro: orch_step_wf)

lemma new_orchestrator_wf: "orch_wf (new_orchestrator i)"
  by (simp add: orch_wf_def new_orchestrator_def)

lemma invalidated_out_of_reach: "orch_wf o1 \<Longrightarrow> out_of_reach sid (invalidate_results o1)"
  by (force simp: orch_wf_def out_of_reach_def invalidate_results_def new_generation_def Let_def)

text \<open>C27: once the results are invalidated, whatever the jobs that are still running publish and in
  whatever order, nothing can be fetched for a session until an authentication of that session is
  started anew.\<close>

theorem invalidated_results_stay_out_of_reach:
  assumes "\<forall>ev \<in> set evs. \<not> starts sid ev"
  shows "orch_fetch_auth_result sid
      (orch_run A evs (invalidate_results (orch_run A before (new_orchestrator i)))) = None"
proof -
  have "out_of_reach sid (orch_run A evs (invalidate_results (orch_run A before (new_orchestrator i))))"
    by (intro orch_run_out_of_reach invalidated_out_of_reach orch_run_wf new_orchestrator_wf assms)
  then show ?thesis by (simp add: orch_fetch_auth_result_def out_of_reach_def Let_def)
qed

section \<open>One job for a session\<close>

definition one_job_each :: "'i orchestrator \<Rightarrow> bool" where
  "one_job_each o1 \<longleftrightarrow>
     (\<forall>k j. jobs o1 k = Some j \<longrightarrow> job_session j \<in> running_sessions (generations o1 (job_generation j))) \<and>
     (\<forall>k k' j j'. jobs o1 k = Some j \<and> jobs o1 k' = Some j' \<and> job_generation j = job_generation j' \<and>
        job_session j = job_session j' \<longrightarrow> k = k')"

lemma job_step_running:
  assumes "jobs o1 k = Some j"
  shows "running_sessions (generations (job_step A k o1) n) =
    (if job_phase j = Recorded \<and> n = job_generation j
     then running_sessions (running_remove (job_session j) (generations o1 n))
     else running_sessions (generations o1 n))"
  using assms
  by (auto simp: job_step_def step_of_job_def Let_def
      split: job_phase.splits list.splits auth_grant_issue_result.splits sum.splits prod.splits if_splits
        option.splits)

lemma job_step_ended:
  "\<lbrakk>jobs o1 k = Some j; job_phase j = Recorded\<rbrakk> \<Longrightarrow> jobs (job_step A k o1) k = None"
  by (simp add: job_step_def step_of_job_def Let_def)

lemma job_step_one_each:
  assumes "one_job_each o1"
  shows "one_job_each (job_step A k o1)"
proof (cases "jobs o1 k")
  case None
  with assms show ?thesis by (simp add: job_step_none)
next
  case (Some j)
  have own: "job_session j' \<in> running_sessions (generations (job_step A k o1) (job_generation j'))"
    if j': "jobs (job_step A k o1) k' = Some j'" for k' j'
  proof -
    obtain j0 where j0: "jobs o1 k' = Some j0" "job_generation j0 = job_generation j'" "job_session j0 = job_session j'"
      using job_step_jobs [OF j'] by blast
    have "job_session j' \<noteq> job_session j" if "job_phase j = Recorded" "job_generation j' = job_generation j"
    proof
      assume "job_session j' = job_session j"
      with that j0 Some assms have "k' = k" by (simp add: one_job_each_def)
      with job_step_ended [OF Some that(1)] j' show False by simp
    qed
    moreover have "job_session j' \<in> running_sessions (generations o1 (job_generation j'))"
      using assms j0 unfolding one_job_each_def by metis
    ultimately show ?thesis by (auto simp: job_step_running [OF Some])
  qed
  have "k1 = k2" if "jobs (job_step A k o1) k1 = Some j1" "jobs (job_step A k o1) k2 = Some j2"
    "job_generation j1 = job_generation j2" "job_session j1 = job_session j2" for k1 k2 j1 j2
    using job_step_jobs [OF that(1)] job_step_jobs [OF that(2)] that(3,4) assms
    unfolding one_job_each_def by metis
  with own show ?thesis unfolding one_job_each_def by blast
qed

lemma job_steps_one_each: "one_job_each o1 \<Longrightarrow> one_job_each (job_steps A ks o1)"
  by (induction ks arbitrary: o1) (auto intro: job_step_one_each)

lemma check_cache_one_each: "one_job_each o1 \<Longrightarrow> one_job_each (fst (check_cache sid now o1))"
  by (simp add: one_job_each_def)

lemma spawn_one_each:
  assumes "one_job_each o1" and "orch_wf o1"
  shows "one_job_each (fst (spawn_job sid trigger now ok o1))"
proof -
  have "jobs o1 (next_job o1) = None"
    using assms(2) unfolding orch_wf_def by (metis less_irrefl option.exhaust)
  then show ?thesis
    using assms(1) unfolding one_job_each_def
    by (auto simp: spawn_job_def Let_def) metis+
qed

lemma issue_one_each:
  "\<lbrakk>one_job_each o1; orch_wf o1\<rbrakk> \<Longrightarrow> one_job_each (fst (issue_from_camera A sid trigger now ok mid o1))"
  by (rule issue_cases [of sid now o1 A trigger ok mid])
    (auto intro: check_cache_one_each spawn_one_each job_steps_one_each job_steps_wf check_cache_wf)

lemma invalidate_one_each:
  assumes "one_job_each o1" and "orch_wf o1"
  shows "one_job_each (invalidate_results o1)"
proof -
  have "job_generation j \<noteq> Suc (current_generation o1)" if "jobs o1 k = Some j" for k j
    using assms(2) that unfolding orch_wf_def by fastforce
  with assms(1) show ?thesis by (auto simp: one_job_each_def invalidate_results_def Let_def)
qed

lemma orch_run_one_each:
  "\<lbrakk>one_job_each o1; orch_wf o1; \<forall>ev \<in> set evs. \<not> cancels ev\<rbrakk> \<Longrightarrow> one_job_each (orch_run A evs o1)"
proof (induction evs arbitrary: o1)
  case Nil
  then show ?case by simp
next
  case (Cons ev evs)
  have "one_job_each (orch_step A ev o1)"
    using Cons.prems by (cases ev) (auto intro: issue_one_each invalidate_one_each job_step_one_each)
  with Cons orch_step_wf show ?case by (metis list.set_intros(2) orch_run.simps(2))
qed

text \<open>As long as nothing is cancelled, no two jobs of the same configuration authenticate the same
  session, however requests and job steps interleave.\<close>

theorem one_job_per_session:
  assumes "\<forall>ev \<in> set evs. \<not> cancels ev"
    and "jobs (orch_run A evs (new_orchestrator i)) k = Some j"
    and "jobs (orch_run A evs (new_orchestrator i)) k' = Some j'"
    and "job_generation j = job_generation j'" and "job_session j = job_session j'"
  shows "k = k'"
proof -
  have "one_job_each (new_orchestrator i)" by (simp add: one_job_each_def new_orchestrator_def)
  then have "one_job_each (orch_run A evs (new_orchestrator i))"
    using assms(1) new_orchestrator_wf by (intro orch_run_one_each)
  with assms(2-5) show ?thesis unfolding one_job_each_def by metis
qed

section \<open>A job that runs to its end\<close>

text \<open>An issuer publishes what it returns.\<close>

fun published_grants :: "auth_grant_issue_result \<Rightarrow> auth_grant list" where
  "published_grants (Issued g) = [g]"
| "published_grants _ = []"

lemma job_step_waits:
  assumes "jobs o1 k = Some j" and "job_phase j = WaitsForIssuer"
    and "\<not> issuer_poisoned o1" and "issuer_holder o1 = None"
    and "A (job_session j) LocalCamera (job_trigger j) (job_issued_at j) (shared_issuer o1) = (i, grants, r)"
  shows "job_step A k o1 =
    set_job_phase k j (Issues grants False r) (o1\<lparr>shared_issuer := i, issuer_holder := Some k\<rparr>)"
  using assms by (simp add: job_step_def step_of_job_def Let_def)

lemma job_step_issuing:
  assumes "jobs o1 k = Some j" and "job_phase j = Issues (published_grants r) False r"
    and "\<not> cache_poisoned (generations o1 (job_generation j))"
  shows "\<exists>o2. job_steps A [k, k, k, k] o1 = o2 \<and> jobs o2 = (jobs o1)(k := None) \<and> issuer_holder o2 = None \<and>
    shared_issuer o2 = shared_issuer o1 \<and> current_generation o2 = current_generation o1 \<and>
    generations o2 = (generations o1)(job_generation j :=
      running_remove (job_session j) (cache_insert (job_session j) (outcome_of_result r) (generations o1 (job_generation j))))"
  using assms
  by (cases r) (simp_all add: job_step_def step_of_job_def Let_def update_generation_def set_job_phase_def)

text \<open>A job that comes to the issuer's lock and is not held up leaves its issuer's answer in the cache
  of its configuration within five steps, for the next request to fetch; the session is no longer
  marked as running, the lock is free and the job is gone.\<close>

theorem finished_job_leaves_its_outcome:
  assumes "jobs o1 k = Some j" and "job_phase j = WaitsForIssuer"
    and "\<not> issuer_poisoned o1" and "issuer_holder o1 = None"
    and "\<not> cache_poisoned (generations o1 (job_generation j))"
    and "\<not> running_poisoned (generations o1 (job_generation j))"
    and "A (job_session j) LocalCamera (job_trigger j) (job_issued_at j) (shared_issuer o1) = (i, published_grants r, r)"
  shows "let o2 = job_steps A [k, k, k, k, k] o1 in jobs o2 k = None \<and> issuer_holder o2 = None \<and>
    job_session j \<notin> running_sessions (generations o2 (job_generation j)) \<and>
    (if job_generation j = current_generation o2
     then orch_fetch_auth_result (job_session j) o2 = Some (outcome_of_result r)
     else \<forall>sid. orch_fetch_auth_result sid o2 = orch_fetch_auth_result sid o1)"
proof -
  let ?j = "j\<lparr>job_phase := Issues (published_grants r) False r\<rparr>"
  define o2 where "o2 = job_step A k o1"
  have o2: "o2 = set_job_phase k j (Issues (published_grants r) False r)
      (o1\<lparr>shared_issuer := i, issuer_holder := Some k\<rparr>)"
    unfolding o2_def using assms by (intro job_step_waits)
  have "jobs o2 k = Some ?j" "\<not> cache_poisoned (generations o2 (job_generation ?j))"
    using assms by (simp_all add: o2)
  from job_step_issuing [OF this(1) _ this(2), of r A] obtain o3 where
    o3: "job_steps A [k, k, k, k] o2 = o3" "jobs o3 = (jobs o2)(k := None)" "issuer_holder o3 = None"
      "current_generation o3 = current_generation o2"
      "generations o3 = (generations o2)(job_generation j :=
        running_remove (job_session j) (cache_insert (job_session j) (outcome_of_result r)
          (generations o2 (job_generation j))))"
    by auto
  have "job_steps A [k, k, k, k, k] o1 = o3" using o3(1) by (simp add: o2_def)
  with o3 assms show ?thesis
    by (auto simp: orch_fetch_auth_result_def Let_def o2)
qed

section \<open>Cancelling does not stop a job\<close>

text \<open>C39: a job that is inside the issuer when its session is cancelled publishes its grant all the same,
  and the next request of the session is answered with it: the cancellation is lost.\<close>

theorem cancelled_job_still_delivers:
  assumes "jobs o1 k = Some j" and "job_generation j = current_generation o1"
    and "job_phase j = Issues (g # grants) published r"
    and "\<not> cache_poisoned (generations o1 (current_generation o1))" and "\<not> is_expired_at g now"
  shows "snd (issue_from_camera A (job_session j) trigger now ok mid
    (job_step A k (orch_cancel_auth (job_session j) o1))) = Issued g"
  using assms
  by (simp add: issue_from_camera_def check_cache_def job_step_def step_of_job_def orch_cancel_auth_def Let_def)

section \<open>Examples\<close>

definition sample_observed :: "simulated_issuer observed_issue" where
  "sample_observed = default_observed simulated_issue"

definition sample_session :: session_id where "sample_session = SessionId ''s''"

definition started_orchestrator :: "simulated_issuer orchestrator" where
  "started_orchestrator =
     orch_run sample_observed [IssueCall sample_session CredentialScreenEntered 100 True []]
       (new_orchestrator (for_user (UserId ''u'')))"

lemma started_job:
  "jobs started_orchestrator = [0 \<mapsto> \<lparr>job_generation = 0, job_session = sample_session,
     job_trigger = CredentialScreenEntered, job_issued_at = 100, job_phase = WaitsForIssuer\<rparr>]"
  "issuer_poisoned started_orchestrator = False" "issuer_holder started_orchestrator = None"
  "current_generation started_orchestrator = 0"
  "generations started_orchestrator 0 = new_generation\<lparr>running_sessions := {sample_session}\<rparr>"
  "shared_issuer started_orchestrator = for_user (UserId ''u'')"
  by (simp_all add: started_orchestrator_def issue_from_camera_def check_cache_def spawn_job_def
      new_orchestrator_def new_generation_def update_generation_def Let_def)

theorem finished_job_leaves_its_outcome_witness:
  "orch_fetch_auth_result sample_session (job_steps sample_observed [0, 0, 0, 0, 0] started_orchestrator) =
     Some (Inr (simulated_grant sample_session LocalCamera 100 (for_user (UserId ''u''))))"
proof -
  let ?j = "\<lparr>job_generation = 0, job_session = sample_session, job_trigger = CredentialScreenEntered,
    job_issued_at = 100, job_phase = WaitsForIssuer\<rparr>"
  let ?i = "for_user (UserId ''u'')"
  have steps: "current_generation (job_steps A ks o1) = current_generation o1" for A ks and o1 :: "simulated_issuer orchestrator"
    by (induction ks arbitrary: o1) simp_all
  have issued: "sample_observed sample_session LocalCamera CredentialScreenEntered 100 ?i =
      (fst (simulated_issue sample_session LocalCamera CredentialScreenEntered 100 ?i),
       published_grants (Issued (simulated_grant sample_session LocalCamera 100 ?i)),
       Issued (simulated_grant sample_session LocalCamera 100 ?i))"
    by (simp add: sample_observed_def default_observed_def simulated_issue_def)
  show ?thesis
    using finished_job_leaves_its_outcome [of started_orchestrator 0 ?j sample_observed _
        "Issued (simulated_grant sample_session LocalCamera 100 ?i)"] issued
    by (simp add: started_job new_generation_def Let_def steps del: job_steps.simps)
qed

text \<open>The job of the example inside the issuer.\<close>

definition issuing_orchestrator :: "simulated_issuer orchestrator" where
  "issuing_orchestrator = job_step sample_observed 0 started_orchestrator"

theorem cancelled_job_still_delivers_witness:
  "snd (issue_from_camera sample_observed sample_session CredentialScreenEntered 200 True []
     (job_step sample_observed 0 (orch_cancel_auth sample_session issuing_orchestrator))) =
   Issued (simulated_grant sample_session LocalCamera 100 (for_user (UserId ''u'')))"
proof -
  let ?i = "for_user (UserId ''u'')"
  let ?g = "simulated_grant sample_session LocalCamera 100 ?i"
  let ?j = "\<lparr>job_generation = 0, job_session = sample_session, job_trigger = CredentialScreenEntered,
    job_issued_at = 100, job_phase = Issues [?g] False (Issued ?g)\<rparr>"
  have o1: "jobs issuing_orchestrator 0 = Some ?j" "current_generation issuing_orchestrator = 0"
    "generations issuing_orchestrator 0 = new_generation\<lparr>running_sessions := {sample_session}\<rparr>"
    by (simp_all add: issuing_orchestrator_def job_step_def step_of_job_def started_job sample_observed_def
        default_observed_def simulated_issue_def Let_def)
  have "\<not> is_expired_at ?g 200"
    by (simp add: is_expired_at_def simulated_grant_def Let_def i64_add_def wrap_i64_def default_grant_ttl_ms_def)
  then show ?thesis
    using cancelled_job_still_delivers [of issuing_orchestrator 0 ?j ?g "[]" False "Issued ?g" 200] o1
    by (simp add: new_generation_def)
qed

definition two_session_events :: "orch_event list" where
  "two_session_events =
     [IssueCall sample_session CredentialScreenEntered 100 True [], JobStep 0,
      IssueCall sample_session CredentialScreenEntered 150 True [],
      IssueCall (SessionId ''t'') CredentialScreenEntered 160 True []]"

theorem invalidated_results_stay_out_of_reach_witness:
  "orch_fetch_auth_result sample_session
     (orch_run sample_observed [JobStep 0, JobStep 0, JobStep 0]
       (invalidate_results (orch_run sample_observed two_session_events (new_orchestrator (for_user (UserId ''u'')))))) =
   None"
  by (rule invalidated_results_stay_out_of_reach) simp

theorem one_job_per_session_witness:
  "\<exists>j. jobs (orch_run sample_observed two_session_events (new_orchestrator (for_user (UserId ''u'')))) 0 = Some j \<and>
     (\<forall>k. jobs (orch_run sample_observed two_session_events (new_orchestrator (for_user (UserId ''u'')))) k = Some j
        \<longrightarrow> k = 0)"
proof -
  have "\<exists>j. jobs (orch_run sample_observed two_session_events (new_orchestrator (for_user (UserId ''u'')))) 0 = Some j"
    by (simp add: two_session_events_def issue_from_camera_def check_cache_def spawn_job_def new_orchestrator_def
        new_generation_def update_generation_def Let_def job_step_def step_of_job_def sample_observed_def
        default_observed_def simulated_issue_def set_job_phase_def sample_session_def)
  moreover have "\<forall>ev \<in> set two_session_events. \<not> cancels ev" by (simp add: two_session_events_def)
  ultimately show ?thesis
    using one_job_per_session [of two_session_events sample_observed] by blast
qed

end
