(* ===== verification/Auth_Issuer_Properties.thy ===== *)
theory Auth_Issuer_Properties
  imports Auth_Issuer Orchestrator_Properties Service_Properties
begin

text \<open>
  What the service's issuer (\<open>win_service/src/auth_issuer.rs\<close>) guarantees: grants are for the session
  that asked, for every configuration, schedule of jobs and camera; a configuration that cannot be
  loaded blocks every sign-in; and a permission for pictures that was withdrawn stays withdrawn.
\<close>

section \<open>Issuers whose grants are for the session\<close>

definition job_grants_match :: "auth_job \<Rightarrow> bool" where
  "job_grants_match j \<longleftrightarrow>
     (case job_phase j of
        Issues grants _ r \<Rightarrow>
          (\<forall>g \<in> set grants. session_id g = job_session j) \<and> (\<forall>g. r = Issued g \<longrightarrow> session_id g = job_session j)
      | _ \<Rightarrow> True)"

definition grants_match :: "'i orchestrator \<Rightarrow> bool" where
  "grants_match o1 \<longleftrightarrow>
     (\<forall>n sid g. cached_grant_outcomes (generations o1 n) sid = Some (Inr g) \<longrightarrow> session_id g = sid) \<and>
     (\<forall>k j. jobs o1 k = Some j \<longrightarrow> job_grants_match j)"

definition dev_match :: "('i, 'e) development_issuer \<Rightarrow> bool" where
  "dev_match d \<longleftrightarrow> (\<forall>o1. local_camera_issuer d = Some o1 \<longrightarrow> grants_match o1)"

lemma dev_match_cong: "local_camera_issuer d = local_camera_issuer d' \<Longrightarrow> dev_match d = dev_match d'"
  by (simp add: dev_match_def)

lemma dev_match_update [simp]:
  "dev_match (d\<lparr>dev_env := e\<rparr>) = dev_match d"
  "dev_match (d\<lparr>manual_test_issuer := i\<rparr>) = dev_match d"
  "dev_match (revoke_current_policy d) = dev_match d"
  by (simp_all add: dev_match_def revoke_current_policy_def)

locale observed_issuer =
  fixes A :: "'i observed_issue"
  assumes observed_law: "A sid src trigger t i = (i1, grants, r) \<Longrightarrow>
      (\<forall>g \<in> set grants. session_id g = sid) \<and> (\<forall>g. r = Issued g \<longrightarrow> session_id g = sid)"
begin

lemma job_step_match:
  assumes "grants_match o1"
  shows "grants_match (job_step A k o1)"
proof (cases "jobs o1 k")
  case None
  with assms show ?thesis by (simp add: job_step_none)
next
  case (Some j)
  have cache: "cached_grant_outcomes (generations o1 n) sid = Some (Inr g) \<Longrightarrow> session_id g = sid" for n sid g
    using assms by (simp add: grants_match_def)
  have job: "job_grants_match j" "\<And>k j. jobs o1 k = Some j \<Longrightarrow> job_grants_match j"
    using assms Some by (auto simp: grants_match_def)
  show ?thesis
  proof (cases "job_phase j")
    case WaitsForIssuer
    then show ?thesis
      using Some cache job observed_law
      by (auto simp: job_step_def step_of_job_def grants_match_def job_grants_match_def Let_def
          split: prod.splits if_splits)
  next
    case (Issues grants published r)
    then show ?thesis
      using Some cache job
      by (cases grants; cases r)
        (auto simp: job_step_def step_of_job_def grants_match_def job_grants_match_def Let_def split: if_splits)
  next
    case (Returned result)
    then show ?thesis
      using Some cache job
      by (cases result)
        (auto simp: job_step_def step_of_job_def grants_match_def job_grants_match_def Let_def split: if_splits)
  next
    case Recorded
    then show ?thesis
      using Some cache job
      by (auto simp: job_step_def step_of_job_def grants_match_def Let_def split: if_splits)
  qed
qed

lemma job_steps_match: "grants_match o1 \<Longrightarrow> grants_match (job_steps A ks o1)"
  by (induction ks arbitrary: o1) (auto intro: job_step_match)

lemma check_cache_match:
  assumes "grants_match o1"
  shows "grants_match (fst (check_cache sid now o1)) \<and>
    (\<forall>g. snd (check_cache sid now o1) = Some (Issued g) \<longrightarrow> session_id g = sid)"
  using assms
  by (auto simp: check_cache_def grants_match_def Let_def split: option.splits sum.splits if_splits)

lemma spawn_match:
  "grants_match o1 \<Longrightarrow> grants_match (fst (spawn_job sid trigger now ok o1)) \<and>
     (\<forall>g. snd (spawn_job sid trigger now ok o1) \<noteq> Issued g)"
  by (auto simp: spawn_job_def grants_match_def job_grants_match_def Let_def split: if_splits)

lemma issue_match:
  assumes "grants_match o1"
  shows "grants_match (fst (issue_from_camera A sid trigger now ok mid o1)) \<and>
    (\<forall>g. snd (issue_from_camera A sid trigger now ok mid o1) = Issued g \<longrightarrow> session_id g = sid)"
proof (rule issue_cases [of sid now o1 A trigger ok mid])
  fix r
  assume "check_cache sid now o1 = (fst (check_cache sid now o1), Some r)"
    and i: "issue_from_camera A sid trigger now ok mid o1 = (fst (check_cache sid now o1), r)"
  then have "snd (check_cache sid now o1) = Some r" by (metis snd_conv)
  with check_cache_match [OF assms, of sid now] show ?thesis by (simp add: i)
next
  assume "issue_from_camera A sid trigger now ok mid o1 =
    spawn_job sid trigger now ok (job_steps A mid (fst (check_cache sid now o1)))"
  then show ?thesis
    using spawn_match [OF job_steps_match] check_cache_match [OF assms] by metis
qed

lemma cancel_match: "grants_match o1 \<Longrightarrow> grants_match (orch_cancel_auth sid o1)"
  by (auto simp: orch_cancel_auth_def grants_match_def split: if_splits)

lemma invalidate_match: "grants_match o1 \<Longrightarrow> grants_match (invalidate_results o1)"
  by (auto simp: invalidate_results_def grants_match_def new_generation_def Let_def split: if_splits)

lemma new_orchestrator_match: "grants_match (new_orchestrator i)"
  by (simp add: grants_match_def new_orchestrator_def new_generation_def)

lemma fetch_match: "\<lbrakk>grants_match o1; orch_fetch_auth_result sid o1 = Some (Inr g)\<rbrakk> \<Longrightarrow> session_id g = sid"
  by (auto simp: orch_fetch_auth_result_def grants_match_def Let_def split: if_splits)

lemma dev_issue_match:
  assumes "dev_match d" and "dev_issue A sid src trigger t d = (d', res)"
  shows "dev_match d' \<and> (\<forall>g. res = Issued g \<longrightarrow> session_id g = sid)"
proof (cases "auth_mode_unavailable d \<or> src \<noteq> LocalCamera \<or> local_camera_issuer d = None")
  case True
  with assms show ?thesis
    by (cases src) (auto simp: dev_issue_def simulated_issue_def simulated_grant_def Let_def split: if_splits)
next
  case False
  then obtain o1 where o1: "local_camera_issuer d = Some o1" "grants_match o1"
    using assms(1) by (auto simp: dev_match_def)
  obtain before mid ok rest where sch: "next_schedule (dev_schedule d) = ((before, mid, ok), rest)"
    by (metis prod_cases3 prod.exhaust)
  obtain o2 r where i: "issue_from_camera A sid trigger t ok mid (job_steps A before o1) = (o2, r)" by fastforce
  have "grants_match o2 \<and> (\<forall>g. r = Issued g \<longrightarrow> session_id g = sid)"
    using issue_match [OF job_steps_match [OF o1(2), of before], of sid trigger t ok mid] i by simp
  with False assms(2) o1(1) sch i show ?thesis by (auto simp: dev_issue_def dev_match_def)
qed

lemma dev_fetch_match:
  assumes "dev_match d" and "dev_fetch A sid t d = (d', res)"
  shows "dev_match d' \<and> (\<forall>g. res = Some (Inr g) \<longrightarrow> session_id g = sid)"
  using assms
  by (auto simp: dev_fetch_def dev_match_def Let_def split: if_splits option.splits prod.splits
      intro: job_steps_match dest: fetch_match [OF job_steps_match])

lemma dev_cancel_match: "dev_match d \<Longrightarrow> dev_match (dev_cancel sid d)"
  using cancel_match by (auto simp: dev_cancel_def dev_match_def)

lemma dev_invalidate_match: "dev_match d \<Longrightarrow> dev_match (dev_invalidate d)"
  using invalidate_match by (auto simp: dev_invalidate_def dev_match_def)

lemma from_config_match:
  "local_camera_issuer_from_config D mode p e = (e1, Inr (Some o1)) \<Longrightarrow> grants_match o1"
  using new_orchestrator_match
  by (auto simp: local_camera_issuer_from_config_def split: service_auth_mode.splits prod.splits sum.splits)

lemma dev_reload_match: "dev_match (fst (dev_reload D d))"
  by (auto simp: dev_reload_def dev_match_def revoke_current_policy_def Let_def dest: from_config_match
      split: prod.splits sum.splits)

lemma development_session_issuer: "session_issuer (development_ops A D) dev_match"
  by unfold_locales
    (auto simp: development_ops_def dev_cancel_match dev_reload_match dev_apply_local_camera_auth_config_def
      dev_update_settings_def dev_check_windows_credential_def dev_enroll_windows_credential_def
      dev_invalidate_match Let_def
      dest: dev_issue_match dev_fetch_match split: prod.splits option.splits sum.splits bool.splits)

end

text \<open>The camera issuer's grants are for the session that asked.\<close>

interpretation camera: observed_issuer "camera_observed M q E" for M q E
  by unfold_locales
    (auto simp: camera_observed_def build_auth_grant_def split: prod.splits sum.splits dest!: issue_blocking_Inr)

interpretation development: session_issuer "development_ops (camera_observed M q E) D" dev_match for M q E D
  by (rule camera.development_session_issuer)

text \<open>C5: over the service's own issuer, whatever camera, models and schedule of jobs it works with, every
  announced grant is for the session whose request is answered, in every run of requests,
  reconfigurations and cancellations included.\<close>

theorem service_grants_match_session:
  assumes "dev_match (grant_issuer h)" and "n < length reqs"
    and "fst (snd (handle_all (development_ops (camera_observed M q E) D) R reqs h)) ! n = Inr (AuthSucceeded g)"
  shows "asks_for (fst (reqs ! n)) = Some (session_id g)"
  using development.handle_all_success [OF assms] .

section \<open>Calls of the issuer\<close>

datatype dev_call =
    DevIssue session_id auth_source auth_trigger_source i64
  | DevFetch session_id i64
  | DevCancel session_id
  | DevReload
  | DevApply string string string
  | DevUpdate control_settings_patch

datatype dev_reply =
    ReplyIssue auth_grant_issue_result
  | ReplyFetch "auth_outcome option"
  | ReplyDone
  | ReplyConfig "protocol_error + unit"

fun dev_call_step ::
  "'i observed_issue \<Rightarrow> ('c, 'i, 'e) dev_ops \<Rightarrow> dev_call \<Rightarrow> ('i, 'e) development_issuer \<Rightarrow>
     ('i, 'e) development_issuer \<times> dev_reply" where
  "dev_call_step A D (DevIssue sid src trigger t) d = apsnd ReplyIssue (dev_issue A sid src trigger t d)"
| "dev_call_step A D (DevFetch sid t) d = apsnd ReplyFetch (dev_fetch A sid t d)"
| "dev_call_step A D (DevCancel sid) d = (dev_cancel sid d, ReplyDone)"
| "dev_call_step A D DevReload d = apsnd ReplyConfig (dev_reload D d)"
| "dev_call_step A D (DevApply path cam dir) d =
     apsnd ReplyConfig (dev_apply_local_camera_auth_config D path cam dir d)"
| "dev_call_step A D (DevUpdate patch) d = apsnd ReplyConfig (dev_update_settings D patch d)"

fun dev_run ::
  "'i observed_issue \<Rightarrow> ('c, 'i, 'e) dev_ops \<Rightarrow> dev_call list \<Rightarrow> ('i, 'e) development_issuer \<Rightarrow>
     ('i, 'e) development_issuer \<times> (dev_call \<times> dev_reply) list" where
  "dev_run A D [] d = (d, [])"
| "dev_run A D (call # calls) d =
     (case dev_call_step A D call d of
        (d1, reply) \<Rightarrow> apsnd ((#) (call, reply)) (dev_run A D calls d1))"

section \<open>A configuration that cannot be loaded\<close>

text \<open>A call that has loaded a configuration.\<close>

fun reloaded :: "dev_call \<times> dev_reply \<Rightarrow> bool" where
  "reloaded (DevUpdate patch, ReplyConfig (Inr _)) = (\<not> only_disables_snapshots patch)"
| "reloaded (_, ReplyConfig (Inr _)) = True"
| "reloaded _ = False"

fun blocked_reply :: "dev_reply \<Rightarrow> bool" where
  "blocked_reply (ReplyIssue r) = (r = Failed InternalError)"
| "blocked_reply (ReplyFetch r) = (r = Some (Inl InternalError))"
| "blocked_reply _ = True"

lemma dev_reload_unavailable:
  "dev_reload D d = (d1, Inl err) \<Longrightarrow> auth_mode_unavailable d1"
  by (auto simp: dev_reload_def Let_def split: prod.splits sum.splits if_splits)

lemma revoke_current_policy_simps [simp]:
  "auth_mode_unavailable (revoke_current_policy d) = auth_mode_unavailable d"
  "dev_env (revoke_current_policy d) = dev_env d"
  "current_policy (revoke_current_policy d) = current_policy d"
  "auth_mode_unavailable (dev_invalidate d) = auth_mode_unavailable d"
  "snapshot_policies (dev_invalidate d) = snapshot_policies d"
  "current_policy (dev_invalidate d) = current_policy d"
  by (simp_all add: revoke_current_policy_def dev_invalidate_def)

lemma dev_apply_unavailable:
  assumes "auth_mode_unavailable d" and "dev_apply_local_camera_auth_config D path cam dir d = (d1, Inl err)"
  shows "auth_mode_unavailable d1"
  using assms
  by (auto simp: dev_apply_local_camera_auth_config_def Let_def dest: dev_reload_unavailable
      split: prod.splits option.splits bool.splits)

lemma dev_update_unavailable:
  assumes "auth_mode_unavailable d" and "dev_update_settings D patch d = (d1, r)"
    and "\<not> is_ok r \<or> only_disables_snapshots patch"
  shows "auth_mode_unavailable d1"
proof (cases "has_updates patch \<and> has_valid_values patch")
  case False
  with assms show ?thesis by (auto simp: dev_update_settings_def)
next
  case True
  define d2 where "d2 = (if intruder_snap_enabled patch = Some False then revoke_current_policy (dev_invalidate d)
    else dev_invalidate d)"
  have d2: "auth_mode_unavailable d2" using assms(1) by (simp add: d2_def)
  obtain e1 stored where e1: "persist_settings D patch (dev_env d2) = (e1, stored)" by fastforce
  have upd: "dev_update_settings D patch d =
      (if \<not> stored then (d2\<lparr>dev_env := e1\<rparr>, Inl InvalidMessage)
       else if only_disables_snapshots patch then (d2\<lparr>dev_env := e1\<rparr>, Inr ())
       else dev_reload D (d2\<lparr>dev_env := e1\<rparr>))"
    using True e1 by (simp add: dev_update_settings_def d2_def Let_def)
  show ?thesis
  proof (cases "stored \<and> \<not> only_disables_snapshots patch")
    case True
    with assms(2,3) upd obtain err where "dev_reload D (d2\<lparr>dev_env := e1\<rparr>) = (d1, Inl err)"
      by (cases r) auto
    then show ?thesis by (rule dev_reload_unavailable)
  next
    case False
    with assms(2) upd d2 show ?thesis by (auto split: if_splits)
  qed
qed

lemma unavailable_step:
  assumes "auth_mode_unavailable d" and "dev_call_step A D call d = (d1, reply)" and "\<not> reloaded (call, reply)"
  shows "auth_mode_unavailable d1 \<and> blocked_reply reply"
proof (cases call)
  case DevReload
  obtain d2 r where r: "dev_reload D d = (d2, r)" by fastforce
  with DevReload assms show ?thesis using dev_reload_unavailable [of D d d2] by (cases r) auto
next
  case (DevApply path cam dir)
  obtain d2 r where r: "dev_apply_local_camera_auth_config D path cam dir d = (d2, r)" by fastforce
  with DevApply assms show ?thesis
    using dev_apply_unavailable [OF assms(1), of D path cam dir d2] by (cases r) auto
next
  case (DevUpdate patch)
  obtain d2 r where r: "dev_update_settings D patch d = (d2, r)" by fastforce
  with DevUpdate assms show ?thesis
    using dev_update_unavailable [OF assms(1) r] by (cases r) auto
qed (use assms in \<open>auto simp: dev_issue_def dev_fetch_def dev_cancel_def\<close>)

lemma unavailable_run:
  assumes "auth_mode_unavailable d" and "\<forall>cr \<in> set (snd (dev_run A D calls d)). \<not> reloaded cr"
  shows "\<forall>cr \<in> set (snd (dev_run A D calls d)). blocked_reply (snd cr)"
  using assms
proof (induction calls arbitrary: d)
  case Nil
  then show ?case by simp
next
  case (Cons call calls)
  obtain d1 reply where step: "dev_call_step A D call d = (d1, reply)" by fastforce
  with Cons.prems have "\<not> reloaded (call, reply)" by simp
  note first = unavailable_step [OF Cons.prems(1) step this]
  have "\<forall>cr \<in> set (snd (dev_run A D calls d1)). blocked_reply (snd cr)"
    using Cons.IH [of d1] Cons.prems(2) first step by simp
  with first step show ?case by simp
qed

text \<open>C22: after a reload that failed, for whatever reason, every authentication fails and no result can be
  fetched, in every run of calls, until a configuration has been loaded.\<close>

theorem failed_reload_blocks_sign_in:
  assumes "dev_reload D d = (d1, Inl err)"
    and "\<forall>cr \<in> set (snd (dev_run A D calls d1)). \<not> reloaded cr"
  shows "\<forall>cr \<in> set (snd (dev_run A D calls d1)). blocked_reply (snd cr)"
  using assms dev_reload_unavailable unavailable_run by blast

section \<open>Permissions for pictures\<close>

text \<open>The permissions of all earlier configurations are withdrawn.\<close>

definition older_policies_revoked :: "('i, 'e) development_issuer \<Rightarrow> bool" where
  "older_policies_revoked d \<longleftrightarrow> (\<forall>p < current_policy d. \<not> may_capture (snapshot_policies d p))"

lemma revoked_may_not_capture [simp]: "\<not> may_capture (revoke_snapshots p)"
  by (simp add: revoke_snapshots_def may_capture_def)

text \<open>What a call does to the permissions: those not allowed stay so, none is numbered lower.\<close>

definition permissions_shrink :: "('i, 'e) development_issuer \<Rightarrow> ('i, 'e) development_issuer \<Rightarrow> bool" where
  "permissions_shrink d d1 \<longleftrightarrow> current_policy d \<le> current_policy d1 \<and>
     (older_policies_revoked d \<longrightarrow> older_policies_revoked d1) \<and>
     (\<forall>p \<le> current_policy d. may_capture (snapshot_policies d1 p) \<longrightarrow> may_capture (snapshot_policies d p))"

lemma permissions_same:
  "\<lbrakk>snapshot_policies d1 = snapshot_policies d; current_policy d1 = current_policy d\<rbrakk> \<Longrightarrow> permissions_shrink d d1"
  by (simp add: permissions_shrink_def older_policies_revoked_def)

lemma permissions_revoke: "permissions_shrink d (revoke_current_policy d)"
  by (auto simp: permissions_shrink_def older_policies_revoked_def revoke_current_policy_def)

lemma permissions_trans:
  "\<lbrakk>permissions_shrink d d1; permissions_shrink d1 d2\<rbrakk> \<Longrightarrow> permissions_shrink d d2"
  unfolding permissions_shrink_def by (meson le_trans)

lemma permissions_cong:
  "\<lbrakk>permissions_shrink d d1; snapshot_policies d2 = snapshot_policies d1; current_policy d2 = current_policy d1\<rbrakk>
     \<Longrightarrow> permissions_shrink d d2"
  by (simp add: permissions_shrink_def older_policies_revoked_def)

lemma dev_reload_permissions:
  "permissions_shrink d (fst (dev_reload D d)) \<and>
   \<not> may_capture (snapshot_policies (fst (dev_reload D d)) (current_policy d))"
proof -
  let ?d = "(revoke_current_policy d)\<lparr>local_camera_issuer := None, auth_mode_unavailable := True\<rparr>"
  have "current_policy (fst (dev_reload D d)) = current_policy d \<and>
      snapshot_policies (fst (dev_reload D d)) = snapshot_policies (revoke_current_policy d) \<or>
    (\<exists>pol. current_policy (fst (dev_reload D d)) = Suc (current_policy d) \<and>
      snapshot_policies (fst (dev_reload D d)) =
        (snapshot_policies (revoke_current_policy d))(Suc (current_policy d) := pol))"
    by (auto simp: dev_reload_def Let_def split: prod.splits sum.splits)
  then show ?thesis
    by (auto simp: permissions_shrink_def older_policies_revoked_def revoke_current_policy_def less_Suc_eq
        split: if_splits)
qed

lemma dev_call_permissions: "permissions_shrink d (fst (dev_call_step A D call d))"
proof (cases call)
  case DevReload
  then show ?thesis using dev_reload_permissions [of d D] by simp
next
  case (DevApply path cam dir)
  have "permissions_shrink d (fst (dev_reload D ((dev_invalidate d)\<lparr>dev_env := e\<rparr>)))" for e
    by (rule permissions_trans [OF permissions_same conjunct1 [OF dev_reload_permissions]]) simp_all
  with DevApply show ?thesis
    by (auto simp: dev_apply_local_camera_auth_config_def Let_def intro: permissions_same
        split: prod.split option.split bool.split)
next
  case (DevUpdate patch)
  let ?d = "if intruder_snap_enabled patch = Some False then revoke_current_policy (dev_invalidate d)
    else dev_invalidate d"
  have d: "permissions_shrink d ?d"
    by (auto intro: permissions_same permissions_trans [OF permissions_same permissions_revoke])
  have "permissions_shrink d (fst (dev_reload D (?d\<lparr>dev_env := e\<rparr>)))" for e
    by (rule permissions_trans [OF permissions_cong [OF d] conjunct1 [OF dev_reload_permissions]]) simp_all
  moreover have "permissions_shrink d (?d\<lparr>dev_env := e\<rparr>)" for e
    by (rule permissions_cong [OF d]) simp_all
  ultimately show ?thesis
    using DevUpdate by (auto simp: dev_update_settings_def Let_def permissions_same split: prod.split bool.split)
qed (auto simp: dev_issue_def dev_fetch_def dev_cancel_def simulated_issue_def Let_def intro!: permissions_same
    split: auth_source.split option.split prod.split)

lemma dev_run_permissions: "permissions_shrink d (fst (dev_run A D calls d))"
proof (induction calls arbitrary: d)
  case Nil
  show ?case by (simp add: permissions_same)
next
  case (Cons call calls)
  then show ?case
    using permissions_trans [OF dev_call_permissions [of d A D call] Cons.IH]
    by (simp add: split_def)
qed

text \<open>The calls that withdraw the permission: a reload, and valid settings that switch pictures off.\<close>

fun withdraws :: "dev_call \<Rightarrow> bool" where
  "withdraws DevReload = True"
| "withdraws (DevUpdate patch) =
     (has_updates patch \<and> has_valid_values patch \<and> intruder_snap_enabled patch = Some False)"
| "withdraws _ = False"

lemma withdrawn_step:
  assumes "withdraws call"
  shows "\<not> may_capture (snapshot_policies (fst (dev_call_step A D call d)) (current_policy d))"
proof (cases call)
  case DevReload
  then show ?thesis using dev_reload_permissions [of d D] by simp
next
  case (DevUpdate patch)
  let ?d = "revoke_current_policy (dev_invalidate d)"
  have revoked: "\<not> may_capture (snapshot_policies ?d (current_policy d))"
    by (simp add: revoke_current_policy_def)
  then have "\<not> may_capture (snapshot_policies (fst (dev_reload D (?d\<lparr>dev_env := e\<rparr>))) (current_policy d))" for e
    using dev_reload_permissions [of "?d\<lparr>dev_env := e\<rparr>" D] by simp
  with DevUpdate assms revoked show ?thesis
    by (auto simp: dev_update_settings_def Let_def split: prod.split bool.split)
qed (use assms in auto)

text \<open>C29: once pictures are switched off or the configuration is reloaded, even when the change could not be
  stored or loaded, no permission given before is ever in force again: jobs of earlier configurations
  that are still running take no more pictures, whatever is called later.\<close>

theorem withdrawn_permission_is_final:
  assumes "development_from_config D uid mode schedule e = (e1, Inr d0)"
    and "fst (dev_run A D before d0) = d" and "withdraws call" and "p \<le> current_policy d"
  shows "\<not> may_capture (snapshot_policies (fst (dev_run A D calls (fst (dev_call_step A D call d)))) p)"
proof -
  have "older_policies_revoked d0"
    using assms(1)
    by (auto simp: development_from_config_def older_policies_revoked_def split: prod.splits sum.splits)
  then have older: "older_policies_revoked d"
    using dev_run_permissions [of d0 A D before] assms(2) by (simp add: permissions_shrink_def)
  let ?d1 = "fst (dev_call_step A D call d)"
  have "\<not> may_capture (snapshot_policies ?d1 p)"
  proof (cases "p = current_policy d")
    case True
    then show ?thesis using withdrawn_step [OF assms(3)] by simp
  next
    case False
    then have "\<not> may_capture (snapshot_policies d p)"
      using older assms(4) by (simp add: older_policies_revoked_def)
    then show ?thesis
      using dev_call_permissions [of d A D call] assms(4) unfolding permissions_shrink_def by blast
  qed
  moreover have "p \<le> current_policy ?d1"
    using dev_call_permissions [of d A D call] assms(4) unfolding permissions_shrink_def by linarith
  ultimately show ?thesis
    using dev_run_permissions [of ?d1 A D calls] unfolding permissions_shrink_def by blast
qed

section \<open>Examples\<close>

text \<open>An environment that counts down: at 0 the configuration cannot be loaded, nor settings stored.\<close>

definition sample_dev_ops :: "'i \<Rightarrow> (bool, 'i, nat) dev_ops" where
  "sample_dev_ops i =
     \<lparr>load_auth_config = (\<lambda>e. (e - 1, if e = 0 then Inl TransportUnavailable else Inr (LocalCameraMode True))),
      config_intruder_snap_enabled = (\<lambda>c. c), camera_issuer_from_config = (\<lambda>c p e. (e, Inr i)),
      resolve_camera_id = (\<lambda>s e. (e, Some s)), persist_camera_config = (\<lambda>_ _ _ e. (e, True)),
      persist_settings = (\<lambda>_ e. (e, e \<noteq> 0)), open_store_paths = (\<lambda>e. (e, Inr ())),
      secret_configured = (\<lambda>_ _ e. (e, Inr False)), store_credential = (\<lambda>_ _ _ _ _ _ e. (e, True))\<rparr>"

definition sample_development :: "'i \<Rightarrow> nat \<Rightarrow> ('i, nat) development_issuer" where
  "sample_development i e =
     \<lparr>manual_test_user_id = UserId ''u'', manual_test_issuer = for_user (UserId ''u''),
      local_camera_issuer = Some (new_orchestrator i), snapshot_policies = (\<lambda>_. new_snapshot_policy True),
      current_policy = 0, auth_mode_unavailable = False, dev_env = e, dev_schedule = []\<rparr>"

lemma sample_from_config:
  "development_from_config (sample_dev_ops i) (UserId ''u'') (LocalCameraMode True) [] e =
     (e, Inr (sample_development i e))"
  by (simp add: development_from_config_def local_camera_issuer_from_config_def sample_dev_ops_def
      sample_development_def config_snapshots_def)

definition sample_opt_out :: control_settings_patch where
  "sample_opt_out =
     \<lparr>presence_lock_enabled = None, intruder_snap_enabled = Some False, logon_wake_mode = None,
      logon_face_match_threshold = None, control_settings_patch.intruder_similarity_threshold = None\<rparr>"

lemma sample_opt_out_valid: "has_updates sample_opt_out" "has_valid_values sample_opt_out"
  "intruder_snap_enabled sample_opt_out = Some False"
  by (simp_all add: has_updates_def has_valid_values_def threshold_in_def sample_opt_out_def)

theorem failed_reload_blocks_sign_in_witness:
  "snd (dev_run sample_observed (sample_dev_ops (for_user (UserId ''u'')))
     [DevIssue sample_session LocalCamera CredentialScreenEntered 5]
     (fst (dev_reload (sample_dev_ops (for_user (UserId ''u''))) (sample_development (for_user (UserId ''u'')) 0)))) =
   [(DevIssue sample_session LocalCamera CredentialScreenEntered 5, ReplyIssue (Failed InternalError))]"
proof -
  let ?D = "sample_dev_ops (for_user (UserId ''u''))"
  let ?d = "sample_development (for_user (UserId ''u'')) 0"
  let ?calls = "[DevIssue sample_session LocalCamera CredentialScreenEntered 5]"
  obtain d1 where d1: "dev_reload ?D ?d = (d1, Inl TransportUnavailable)"
    by (simp add: dev_reload_def sample_dev_ops_def sample_development_def Let_def revoke_current_policy_def)
  obtain r where r: "snd (dev_run sample_observed ?D ?calls d1) = [(hd ?calls, ReplyIssue r)]"
    by (cases "dev_issue sample_observed sample_session LocalCamera CredentialScreenEntered 5 d1") simp
  with failed_reload_blocks_sign_in [OF d1, of sample_observed ?calls] d1 show ?thesis by simp
qed

theorem withdrawn_permission_is_final_witness:
  "\<not> may_capture (snapshot_policies (fst (dev_run sample_observed (sample_dev_ops (for_user (UserId ''u''))) [DevReload]
     (fst (dev_call_step sample_observed (sample_dev_ops (for_user (UserId ''u''))) (DevUpdate sample_opt_out)
       (sample_development (for_user (UserId ''u'')) 0))))) 0)"
  by (rule withdrawn_permission_is_final [OF sample_from_config, where before = "[]"])
    (simp_all add: sample_opt_out_valid)

text \<open>The service over the camera issuer of the examples, asked for a manual test.\<close>

definition sample_service :: "((u64 \<times> f32 list local_issuer \<times> i64, nat) development_issuer, unit) handler" where
  "sample_service = new_handler (sample_development (7, sample_issuer, 5) 1) ()"

definition service_grant :: auth_grant where
  "service_grant = simulated_grant (SessionId ''s'') ManualTest 1000 (for_user (UserId ''u''))"

lemma service_grant_simps:
  "service_grant =
     \<lparr>grant_id = GrantId ''dev-grant-1'', nonce = Nonce ''dev-nonce-1'', session_id = SessionId ''s'',
      user_id = UserId ''u'', source = ManualTest,
      score = \<lparr>match_score = f32_one, liveness_score = None\<rparr>,
      issued_at_unix_ms = 1000, expires_at_unix_ms = 6000\<rparr>"
  by (simp add: service_grant_def simulated_grant_def for_user_def decimal_1 i64_add_def wrap_i64_def
      default_grant_ttl_ms_def Let_def)

lemma sample_service_woken:
  "snd (handle_request (development_ops (camera_observed sample_models (\<lambda>_ _. f32_zero) sample_env) (sample_dev_ops x))
     sample_resolver (\<lambda>_. 1000) sample_wake sample_service) = Inr (AuthSucceeded service_grant)"
proof -
  have "snd (simulated_issue (SessionId ''s'') ManualTest CredentialScreenEntered 1000 (for_user (UserId ''u''))) =
      Issued service_grant"
    by (simp add: simulated_issue_def service_grant_def)
  then obtain i where issue: "simulated_issue (SessionId ''s'') ManualTest CredentialScreenEntered 1000
      (for_user (UserId ''u'')) = (i, Issued service_grant)"
    by (metis prod.collapse)
  show ?thesis
    by (simp add: handle_request_def sample_wake_def handle_wake_auth_def development_ops_def dev_issue_def issue
        sample_service_def sample_development_def
        new_handler_def begin_request_def remove_expired_grants_def insert_grant_def
        insert_issued_grant_def remove_pending_def Let_def
        has_valid_time_window_def is_expired_at_def service_grant_simps map_remove_def)
qed

theorem service_grants_match_session_witness:
  "asks_for sample_wake = Some (session_id service_grant)"
proof -
  have "dev_match (grant_issuer sample_service)"
    by (simp add: sample_service_def new_handler_def sample_development_def dev_match_def camera.new_orchestrator_match)
  from service_grants_match_session [OF this, of 0 "[(sample_wake, \<lambda>_. 1000)]"
      sample_models "\<lambda>_ _. f32_zero" sample_env "sample_dev_ops (7, sample_issuer, 5)" sample_resolver service_grant]
  show ?thesis by (simp add: handle_all_Cons sample_service_woken)
qed

end
