(* ===== verification/Guided_Enrollment.thy ===== *)
theory Guided_Enrollment
  imports Face_Quality Authenticator "HOL-Library.List_Lexorder" "HOL-Library.Char_ord"
begin

text \<open>
  Crate \<open>face_auth\<close>: the guided enrollment (\<open>src/guided_enrollment.rs\<close>) and the enrollment of one
  frame (\<open>src/enrollment.rs\<close>). The models and the pose provider are traits of the code. A frame whose
  data is shorter than its dimensions say makes the scoring panic, which is \<open>None\<close>. The candidates
  are a map from groups; \<open>finish\<close> walks the groups of its list and then what is left of the map, where
  only the group \<open>BlinkMotion\<close> can be.
\<close>

section \<open>State\<close>

record ('m, 'p) enrollment_ops =
  enroll_models :: "'m model_ops"
  compare_scores :: "face_embedding \<Rightarrow> face_embedding \<Rightarrow> 'm \<Rightarrow> f32"
  estimate_pose :: "video_frame \<Rightarrow> detected_face \<Rightarrow> 'p \<Rightarrow> 'p \<times> (face_pose_error + face_pose_estimate)"

record guided_enrollment_config =
  frames_per_step :: u32
  duplicate_similarity_threshold :: f32
  acceptance_threshold :: f32
  match_threshold :: f32
  match_count :: u32
  quality_policy :: face_quality_policy

definition default_guided_enrollment_config :: guided_enrollment_config where
  "default_guided_enrollment_config =
     \<lparr>frames_per_step = 30, duplicate_similarity_threshold = f32_lit 98 100,
      acceptance_threshold = f32_lit 45 100, match_threshold = f32_lit 65 100, match_count = 3,
      quality_policy = default_face_quality_policy\<rparr>"

record candidate_sample =
  cand_template :: face_template
  cand_metadata :: face_template_sample_metadata

record guided_frame_observation =
  obs_step :: guided_enrollment_step
  obs_frame_index :: u32
  accepted_for_step :: bool
  obs_reject_reason :: "face_sample_reject_reason option"
  obs_quality_score :: f32
  obs_pose_fit_score :: f32
  obs_pose_estimate :: "face_pose_estimate option"
  obs_detected_faces :: "detected_face list"

record ('m, 'p) guided_enrollment =
  enroll_model :: 'm
  pose_provider :: 'p
  enroll_config :: guided_enrollment_config
  candidates_by_group :: "face_pose_group \<rightharpoonup> candidate_sample list"
  rejected_samples :: "face_template_sample_metadata list"
  primary_embedding :: "face_embedding option"
  frontal_yaw_baseline_deg :: "f32 option"
  frontal_pitch_baseline_deg :: "f32 option"
  frontal_yaw_samples :: "f32 list"
  frontal_pitch_samples :: "f32 list"

definition new_guided_enrollment ::
  "'m \<Rightarrow> 'p \<Rightarrow> guided_enrollment_config \<Rightarrow> ('m, 'p) guided_enrollment" where
  "new_guided_enrollment m p cfg =
     \<lparr>enroll_model = m, pose_provider = p, enroll_config = cfg, candidates_by_group = Map.empty,
      rejected_samples = [], primary_embedding = None, frontal_yaw_baseline_deg = None,
      frontal_pitch_baseline_deg = None, frontal_yaw_samples = [], frontal_pitch_samples = []\<rparr>"

section \<open>Helpers\<close>

definition decimal_i64 :: "i64 \<Rightarrow> string" where
  "decimal_i64 t = (if t < 0 then CHR ''-'' # decimal (nat (- t)) else decimal (nat t))"

definition sample_name :: "guided_enrollment_step \<Rightarrow> i64 \<Rightarrow> u32 \<Rightarrow> string" where
  "sample_name step timestamp frame_index =
     step_label step @ ''-'' @ decimal_i64 timestamp @ ''-'' @ decimal (unat frame_index)"

definition zero_quality :: face_template_quality_scores where
  "zero_quality =
     \<lparr>quality_score = f32_zero, blur_score = f32_zero, illumination_score = f32_zero,
      face_size_score = f32_zero, alignment_score = f32_zero, scored_pose_fit = f32_zero,
      embedding_consistency_score = None\<rparr>"

definition rejected_metadata ::
  "user_id \<Rightarrow> guided_enrollment_step \<Rightarrow> u32 \<Rightarrow> i64 \<Rightarrow> face_sample_reject_reason \<Rightarrow>
     face_template_sample_metadata" where
  "rejected_metadata uid step frame_index timestamp reason =
     \<lparr>sample_id = sample_name step timestamp frame_index, sample_pose_group = step_pose_group step,
      source_step = step_label step @ '':'' @ (case uid of UserId u \<Rightarrow> u),
      sample_frame_index = frame_index, frame_timestamp_ms = timestamp,
      sample_face_box = \<lparr>box_x = f32_zero, box_y = f32_zero, box_width = f32_zero, box_height = f32_zero\<rparr>,
      sample_landmarks = [], detection_confidence = f32_zero, pose_yaw_deg = f32_zero,
      pose_pitch_deg = f32_zero, pose_roll_deg = f32_zero, sample_quality = zero_quality,
      sample_selected_for_unlock = False, reject_reason = Some reason\<rparr>"

definition no_single_face ::
  "guided_enrollment_step \<Rightarrow> u32 \<Rightarrow> detected_face list \<Rightarrow> guided_frame_observation" where
  "no_single_face step frame_index faces =
     \<lparr>obs_step = step, obs_frame_index = frame_index, accepted_for_step = False,
      obs_reject_reason =
        Some (if faces = [] then SampleNoFaceDetected else SampleMultipleFacesDetected),
      obs_quality_score = f32_zero, obs_pose_fit_score = f32_zero, obs_pose_estimate = None,
      obs_detected_faces = faces\<rparr>"

definition median :: "f32 list \<Rightarrow> f32" where
  "median vs = (sort_key f32_total_key vs) ! (length vs div 2)"

definition calibrated_pose_estimate ::
  "('m, 'p) guided_enrollment \<Rightarrow> face_pose_estimate option \<Rightarrow> face_pose_estimate option" where
  "calibrated_pose_estimate s estimate =
     map_option
       (\<lambda>p. p\<lparr>yaw_deg := (case frontal_yaw_baseline_deg s of
                             None \<Rightarrow> yaw_deg p | Some b \<Rightarrow> f32_sub (yaw_deg p) b),
              pitch_deg := (case frontal_pitch_baseline_deg s of
                             None \<Rightarrow> pitch_deg p | Some b \<Rightarrow> f32_sub (pitch_deg p) b)\<rparr>)
       estimate"

definition min_frontal_pose_baseline_samples :: nat where
  "min_frontal_pose_baseline_samples = 3"

definition record_frontal_pose_baseline ::
  "guided_enrollment_step \<Rightarrow> face_pose_estimate option \<Rightarrow> ('m, 'p) guided_enrollment \<Rightarrow>
     ('m, 'p) guided_enrollment" where
  "record_frontal_pose_baseline step estimate s =
     (if step \<noteq> StepFrontalPrimary \<or> frontal_yaw_baseline_deg s \<noteq> None then s
      else case estimate of
             None \<Rightarrow> s
           | Some p \<Rightarrow>
               (let yaws = frontal_yaw_samples s @ [yaw_deg p];
                    pitches = frontal_pitch_samples s @ [pitch_deg p];
                    s1 = s\<lparr>frontal_yaw_samples := yaws, frontal_pitch_samples := pitches\<rparr>
                in if length yaws \<ge> min_frontal_pose_baseline_samples then
                     s1\<lparr>frontal_yaw_baseline_deg := Some (median yaws),
                        frontal_pitch_baseline_deg := Some (median pitches)\<rparr>
                   else s1))"

section \<open>Observing frames\<close>

text \<open>The reason to reject a sample: its quality, or an embedding that does not match the first
  frontal one, which is not asked of the frontal step itself.\<close>

definition sample_reject_reason ::
  "guided_enrollment_config \<Rightarrow> guided_enrollment_step \<Rightarrow> face_template_quality_scores \<Rightarrow> f32 option \<Rightarrow>
     face_sample_reject_reason option" where
  "sample_reject_reason cfg step q consistency =
     (if step \<noteq> StepFrontalPrimary \<and>
         (case consistency of Some s \<Rightarrow> f32_lt s (acceptance_threshold cfg) | None \<Rightarrow> False)
      then Some EmbeddingInconsistentWithPrimary
      else reject_reason_for_quality q (quality_policy cfg))"

definition sample_metadata_of ::
  "guided_enrollment_step \<Rightarrow> u32 \<Rightarrow> i64 \<Rightarrow> detected_face \<Rightarrow> face_pose_estimate option \<Rightarrow>
     face_template_quality_scores \<Rightarrow> face_sample_reject_reason option \<Rightarrow>
     face_template_sample_metadata" where
  "sample_metadata_of step frame_index timestamp face raw_pose q reason =
     (let pose = (case raw_pose of
                    None \<Rightarrow> without_blink f32_zero f32_zero f32_zero | Some p \<Rightarrow> p)
      in \<lparr>sample_id = sample_name step timestamp frame_index, sample_pose_group = step_pose_group step,
          source_step = step_label step, sample_frame_index = frame_index,
          frame_timestamp_ms = timestamp, sample_face_box = bounds face,
          sample_landmarks = landmarks face, detection_confidence = confidence face,
          pose_yaw_deg = yaw_deg pose, pose_pitch_deg = pitch_deg pose, pose_roll_deg = roll_deg pose,
          sample_quality = q,
          sample_selected_for_unlock =
            (reason = None \<and> selected_for_unlock_by_default (step_pose_group step)),
          reject_reason = reason\<rparr>)"

definition template_of_sample ::
  "user_id \<Rightarrow> face_model_descriptor \<Rightarrow> face_embedding \<Rightarrow> face_template_sample_metadata \<Rightarrow> face_template" where
  "template_of_sample uid model e meta =
     \<lparr>template_ref = ''face-template-'' @ sample_id meta,
      template_user_id = (case uid of UserId u \<Rightarrow> u), template_model = model,
      pose_group = sample_pose_group meta, selected_for_unlock = sample_selected_for_unlock meta,
      template_quality_score = Some (quality_score (sample_quality meta)), embedding = e\<rparr>"

definition push_candidate ::
  "candidate_sample \<Rightarrow> ('m, 'p) guided_enrollment \<Rightarrow> ('m, 'p) guided_enrollment" where
  "push_candidate c s =
     (let g = sample_pose_group (cand_metadata c)
      in s\<lparr>candidates_by_group := (candidates_by_group s)
            (g \<mapsto> (case candidates_by_group s g of None \<Rightarrow> [] | Some cs \<Rightarrow> cs) @ [c])\<rparr>)"

text \<open>An accepted sample: the pose baseline, the first frontal embedding, the candidate.\<close>

definition accept_sample ::
  "guided_enrollment_step \<Rightarrow> face_pose_estimate option \<Rightarrow> face_template \<Rightarrow>
     face_template_sample_metadata \<Rightarrow> ('m, 'p) guided_enrollment \<Rightarrow> ('m, 'p) guided_enrollment" where
  "accept_sample step raw_pose t meta s =
     (let s1 = record_frontal_pose_baseline step raw_pose s;
          s2 = (if step = StepFrontalPrimary \<and> primary_embedding s1 = None
                then s1\<lparr>primary_embedding := Some (embedding t)\<rparr> else s1)
      in push_candidate \<lparr>cand_template = t, cand_metadata = meta\<rparr> s2)"

definition consistency_with_primary ::
  "('m, 'p) enrollment_ops \<Rightarrow> ('m, 'p) guided_enrollment \<Rightarrow> face_embedding \<Rightarrow> f32 option" where
  "consistency_with_primary A s e =
     map_option (\<lambda>primary. f32_clamp (compare_scores A primary e (enroll_model s)) f32_zero f32_one)
       (primary_embedding s)"

definition observe_single_face ::
  "('m, 'p) enrollment_ops \<Rightarrow> video_frame \<Rightarrow> detected_face \<Rightarrow> face_embedding \<Rightarrow>
     face_pose_estimate option \<Rightarrow> user_id \<Rightarrow> guided_enrollment_step \<Rightarrow> u32 \<Rightarrow> i64 \<Rightarrow> ('m, 'p) guided_enrollment \<Rightarrow>
     (('m, 'p) guided_enrollment \<times> guided_frame_observation) option" where
  "observe_single_face A frame face e raw_pose uid step frame_index timestamp s =
     (let pose = calibrated_pose_estimate s raw_pose;
          consistency = consistency_with_primary A s e
      in case score_face_sample frame face step pose consistency of
           None \<Rightarrow> None
         | Some q \<Rightarrow>
             (let reason = sample_reject_reason (enroll_config s) step q consistency;
                  meta = sample_metadata_of step frame_index timestamp face raw_pose q reason;
                  t = template_of_sample uid
                        (recognition_model (enroll_models A) (enroll_model s)) e meta;
                  s1 = (if reason \<noteq> None
                        then s\<lparr>rejected_samples := rejected_samples s @ [meta]\<rparr>
                        else accept_sample step raw_pose t meta s)
              in Some (s1, \<lparr>obs_step = step, obs_frame_index = frame_index,
                    accepted_for_step = (reason = None), obs_reject_reason = reason,
                    obs_quality_score = quality_score q, obs_pose_fit_score = scored_pose_fit q,
                    obs_pose_estimate = pose, obs_detected_faces = [face]\<rparr>)))"

definition observe_frame ::
  "('m, 'p) enrollment_ops \<Rightarrow> video_frame \<Rightarrow> user_id \<Rightarrow> guided_enrollment_step \<Rightarrow> u32 \<Rightarrow> i64 \<Rightarrow>
     ('m, 'p) guided_enrollment \<Rightarrow>
     (('m, 'p) guided_enrollment \<times> (face_engine_error + guided_frame_observation)) option" where
  "observe_frame A frame uid step frame_index timestamp s =
     (case detect (enroll_models A) frame (enroll_model s) of
        (m1, Inl err) \<Rightarrow> Some (s\<lparr>enroll_model := m1\<rparr>, Inl err)
      | (m1, Inr faces) \<Rightarrow>
          (case faces of
             [face] \<Rightarrow>
               (case extract_embedding (enroll_models A) frame face m1 of
                  (m2, Inl err) \<Rightarrow> Some (s\<lparr>enroll_model := m2\<rparr>, Inl err)
                | (m2, Inr e) \<Rightarrow>
                    (case estimate_pose A frame face (pose_provider s) of
                       (p, r) \<Rightarrow>
                         map_option (\<lambda>(s1, observation). (s1, Inr observation))
                           (observe_single_face A frame face e (result_ok r) uid step frame_index
                              timestamp (s\<lparr>enroll_model := m2, pose_provider := p\<rparr>))))
           | _ \<Rightarrow>
               (let observation = no_single_face step frame_index faces;
                    meta = rejected_metadata uid step frame_index timestamp
                             (the (obs_reject_reason observation))
                in Some (s\<lparr>enroll_model := m1, rejected_samples := rejected_samples s @ [meta]\<rparr>,
                         Inr observation))))"

text \<open>\<open>preview_frame_for_step\<close> scores a frame and keeps nothing of it.\<close>

definition preview_embedding ::
  "('m, 'p) enrollment_ops \<Rightarrow> video_frame \<Rightarrow> detected_face \<Rightarrow> guided_enrollment_step \<Rightarrow>
     ('m, 'p) guided_enrollment \<Rightarrow>
     ('m, 'p) guided_enrollment \<times> (face_engine_error + f32 option)" where
  "preview_embedding A frame face step s =
     (if step \<noteq> StepFrontalPrimary \<and> primary_embedding s \<noteq> None then
        (case extract_embedding (enroll_models A) frame face (enroll_model s) of
           (m, Inl err) \<Rightarrow> (s\<lparr>enroll_model := m\<rparr>, Inl err)
         | (m, Inr e) \<Rightarrow>
             (let s1 = s\<lparr>enroll_model := m\<rparr> in (s1, Inr (consistency_with_primary A s1 e))))
      else (s, Inr None))"

definition preview_frame_for_step ::
  "('m, 'p) enrollment_ops \<Rightarrow> video_frame \<Rightarrow> guided_enrollment_step \<Rightarrow> u32 \<Rightarrow>
     ('m, 'p) guided_enrollment \<Rightarrow>
     (('m, 'p) guided_enrollment \<times> (face_engine_error + guided_frame_observation)) option" where
  "preview_frame_for_step A frame step frame_index s =
     (case detect (enroll_models A) frame (enroll_model s) of
        (m1, Inl err) \<Rightarrow> Some (s\<lparr>enroll_model := m1\<rparr>, Inl err)
      | (m1, Inr faces) \<Rightarrow>
          (case faces of
             [face] \<Rightarrow>
               (case estimate_pose A frame face (pose_provider s) of
                  (p, r) \<Rightarrow>
                    (case preview_embedding A frame face step
                            (s\<lparr>enroll_model := m1, pose_provider := p\<rparr>) of
                       (s1, Inl err) \<Rightarrow> Some (s1, Inl err)
                     | (s1, Inr consistency) \<Rightarrow>
                         (let pose = calibrated_pose_estimate s (result_ok r)
                          in case score_face_sample frame face step pose consistency of
                               None \<Rightarrow> None
                             | Some q \<Rightarrow>
                                 (let reason = sample_reject_reason (enroll_config s) step q consistency
                                  in Some (s1, Inr
                                    \<lparr>obs_step = step, obs_frame_index = frame_index,
                                     accepted_for_step = (reason = None), obs_reject_reason = reason,
                                     obs_quality_score = quality_score q,
                                     obs_pose_fit_score = scored_pose_fit q,
                                     obs_pose_estimate = pose, obs_detected_faces = faces\<rparr>)))))
           | _ \<Rightarrow> Some (s\<lparr>enroll_model := m1\<rparr>, Inr (no_single_face step frame_index faces))))"

section \<open>Finishing\<close>

fun target_template_count :: "face_pose_group \<Rightarrow> nat" where
  "target_template_count FrontalPrimary = 2"
| "target_template_count FrontalVariant = 2"
| "target_template_count YawLeftMild = 2"
| "target_template_count YawRightMild = 2"
| "target_template_count PitchDownMild = 1"
| "target_template_count PitchUpMild = 1"
| "target_template_count BlinkMotion = 0"
| "target_template_count HardPoseDiagnostic = 0"
| "target_template_count RejectedQuality = 0"

definition selected_templates_for_group :: "face_template list \<Rightarrow> face_pose_group \<Rightarrow> nat" where
  "selected_templates_for_group ts g = length (filter (\<lambda>t. pose_group t = g) ts)"

definition is_duplicate :: "face_template list \<Rightarrow> face_pose_group \<Rightarrow> face_template \<Rightarrow> f32 \<Rightarrow> bool" where
  "is_duplicate ts g candidate threshold =
     list_ex (\<lambda>t. case cosine_similarity (embedding t) (embedding candidate) of
                     None \<Rightarrow> False | Some s \<Rightarrow> f32_le threshold s)
       (filter (\<lambda>t. pose_group t = g) ts)"

text \<open>The templates selected, the metadata of the selected and of the rejected samples.\<close>

type_synonym selection =
  "face_template list \<times> face_template_sample_metadata list \<times> face_template_sample_metadata list"

definition as_duplicate :: "face_template_sample_metadata \<Rightarrow> face_template_sample_metadata" where
  "as_duplicate m = m\<lparr>sample_selected_for_unlock := False, reject_reason := Some DuplicateTooSimilar\<rparr>"

definition select_candidate ::
  "f32 \<Rightarrow> face_pose_group \<Rightarrow> candidate_sample \<Rightarrow> selection \<Rightarrow> selection" where
  "select_candidate threshold g c sel =
     (case sel of (ts, selected, rejected) \<Rightarrow>
        if selected_templates_for_group ts g \<ge> target_template_count g then
          (ts, selected, rejected @ [as_duplicate (cand_metadata c)])
        else if is_duplicate ts g (cand_template c) threshold then
          (ts, selected, rejected @ [as_duplicate (cand_metadata c)])
        else (ts @ [cand_template c], selected @ [cand_metadata c], rejected))"

definition by_quality :: "candidate_sample list \<Rightarrow> candidate_sample list" where
  "by_quality = sort_key (\<lambda>c. - f32_total_key (quality_score (sample_quality (cand_metadata c))))"

definition select_group ::
  "f32 \<Rightarrow> face_pose_group \<Rightarrow> (face_pose_group \<rightharpoonup> candidate_sample list) \<times> selection \<Rightarrow>
     (face_pose_group \<rightharpoonup> candidate_sample list) \<times> selection" where
  "select_group threshold g st =
     (case st of (m, sel) \<Rightarrow>
        (case m g of
           None \<Rightarrow> (m, sel)
         | Some cs \<Rightarrow> (m(g := None), fold (select_candidate threshold g) (by_quality cs) sel)))"

definition unlock_groups :: "face_pose_group list" where
  "unlock_groups =
     [FrontalPrimary, FrontalVariant, YawLeftMild, YawRightMild, PitchDownMild, PitchUpMild]"

definition leftover_groups :: "face_pose_group list" where
  "leftover_groups = [BlinkMotion, HardPoseDiagnostic, RejectedQuality]"

definition leftover_metadata ::
  "(face_pose_group \<rightharpoonup> candidate_sample list) \<Rightarrow> face_template_sample_metadata list" where
  "leftover_metadata m =
     concat (map (\<lambda>g. map (\<lambda>c. (cand_metadata c)\<lparr>sample_selected_for_unlock := False\<rparr>)
                      (case m g of None \<Rightarrow> [] | Some cs \<Rightarrow> cs)) leftover_groups)"

definition quality_summary ::
  "face_template_sample_metadata list \<Rightarrow> nat \<Rightarrow> face_template_set_quality_summary" where
  "quality_summary selected rejected_count =
     (let scores = sort_key f32_total_key (map (\<lambda>m. quality_score (sample_quality m)) selected)
      in \<lparr>selected_template_count = length selected, rejected_sample_count = rejected_count,
          average_selected_quality_score =
            (if scores = [] then None
             else Some (f32_div (f32_sum scores) (f32_of_nat (length scores)))),
          minimum_selected_quality_score = (if scores = [] then None else Some (hd scores))\<rparr>)"

definition select_all :: "('m, 'p) guided_enrollment \<Rightarrow> (face_pose_group \<rightharpoonup> candidate_sample list) \<times> selection" where
  "select_all s =
     fold (select_group (duplicate_similarity_threshold (enroll_config s))) unlock_groups
       (candidates_by_group s, [], [], rejected_samples s)"

definition finish ::
  "('m, 'p) enrollment_ops \<Rightarrow> user_id \<Rightarrow> string \<Rightarrow> string \<Rightarrow> string \<Rightarrow> i64 \<Rightarrow> ('m, 'p) guided_enrollment \<Rightarrow>
     face_template_set" where
  "finish A uid eid family version created s =
     (case select_all s of (left, ts, selected0, rejected) \<Rightarrow>
        (let selected = selected0 @ leftover_metadata left;
             model = recognition_model (enroll_models A) (enroll_model s);
             cfg = enroll_config s
         in \<lparr>set_user_id = (case uid of UserId u \<Rightarrow> u), detector_model_family = family,
             detector_model_version = version, recognizer_model_family = model_family model,
             recognizer_model_version = model_version model, enrollment_id = eid,
             enrollment_created_at_unix_ms = created,
             threshold_profile =
               \<lparr>template_acceptance_threshold = acceptance_threshold cfg,
                frame_match_threshold = match_threshold cfg,
                profile_consecutive_match_count = match_count cfg,
                profile_min_quality_score = min_quality_score (quality_policy cfg)\<rparr>,
             set_templates = ts, sample_metadata = selected @ rejected,
             set_quality_summary = quality_summary selected (length rejected)\<rparr>))"

section \<open>The report\<close>

fun pose_group_sort_key :: "face_pose_group \<Rightarrow> nat" where
  "pose_group_sort_key FrontalPrimary = 0"
| "pose_group_sort_key FrontalVariant = 1"
| "pose_group_sort_key YawLeftMild = 2"
| "pose_group_sort_key YawRightMild = 3"
| "pose_group_sort_key PitchDownMild = 4"
| "pose_group_sort_key PitchUpMild = 5"
| "pose_group_sort_key BlinkMotion = 6"
| "pose_group_sort_key HardPoseDiagnostic = 7"
| "pose_group_sort_key RejectedQuality = 8"

text \<open>\<open>format!("{:?}", reason)\<close>, by which the reasons are sorted.\<close>

fun reason_name :: "face_sample_reject_reason \<Rightarrow> string" where
  "reason_name SampleNoFaceDetected = ''NoFaceDetected''"
| "reason_name SampleMultipleFacesDetected = ''MultipleFacesDetected''"
| "reason_name FaceTooSmall = ''FaceTooSmall''"
| "reason_name FaceTooLargeOrClipped = ''FaceTooLargeOrClipped''"
| "reason_name BlurTooHigh = ''BlurTooHigh''"
| "reason_name UnderExposed = ''UnderExposed''"
| "reason_name OverExposed = ''OverExposed''"
| "reason_name BacklightTooStrong = ''BacklightTooStrong''"
| "reason_name LandmarkUnstable = ''LandmarkUnstable''"
| "reason_name PoseOutOfExpectedRange = ''PoseOutOfExpectedRange''"
| "reason_name AlignmentFailed = ''AlignmentFailed''"
| "reason_name EmbeddingInconsistentWithPrimary = ''EmbeddingInconsistentWithPrimary''"
| "reason_name DuplicateTooSimilar = ''DuplicateTooSimilar''"

record guided_enrollment_report =
  report_enrollment_id :: string
  report_user_id :: string
  report_template_count :: nat
  report_rejected_count :: nat
  pose_group_counts :: "(face_pose_group \<times> nat) list"
  reject_reason_counts :: "(face_sample_reject_reason \<times> nat) list"
  report_quality_summary :: face_template_set_quality_summary

text \<open>The entries of the hash map of counts, sorted: the keys that occur, with how often.\<close>

definition sorted_counts :: "('a \<Rightarrow> 'b::linorder) \<Rightarrow> 'a list \<Rightarrow> ('a \<times> nat) list" where
  "sorted_counts key xs = map (\<lambda>x. (x, count_list xs x)) (sort_key key (remdups xs))"

definition build_guided_enrollment_report :: "face_template_set \<Rightarrow> guided_enrollment_report" where
  "build_guided_enrollment_report ts =
     \<lparr>report_enrollment_id = enrollment_id ts, report_user_id = set_user_id ts,
      report_template_count = length (set_templates ts),
      report_rejected_count = length (filter (\<lambda>m. reject_reason m \<noteq> None) (sample_metadata ts)),
      pose_group_counts = sorted_counts pose_group_sort_key
        (map pose_group (filter selected_for_unlock (set_templates ts))),
      reject_reason_counts = sorted_counts reason_name
        (List.map_filter reject_reason (sample_metadata ts)),
      report_quality_summary = set_quality_summary ts\<rparr>"

section \<open>Enrolling one frame\<close>

record enrollment_outcome =
  outcome_template :: face_template
  detected_face_count :: nat

definition enroll_frame ::
  "'m model_ops \<Rightarrow> video_frame \<Rightarrow> user_id \<Rightarrow> string \<Rightarrow> 'm \<Rightarrow> 'm \<times> (face_engine_error + enrollment_outcome)" where
  "enroll_frame M frame uid tref m =
     (case detect M frame m of
        (m1, Inl e) \<Rightarrow> (m1, Inl e)
      | (m1, Inr faces) \<Rightarrow>
          if faces = [] then (m1, Inl EngineNoFaceDetected)
          else if length faces > 1 then (m1, Inl EngineMultipleFacesDetected)
          else (case extract_embedding M frame (hd faces) m1 of
                  (m2, Inl e) \<Rightarrow> (m2, Inl e)
                | (m2, Inr e) \<Rightarrow>
                    (m2, Inr \<lparr>outcome_template =
                                \<lparr>template_ref = tref, template_user_id = (case uid of UserId u \<Rightarrow> u),
                                 template_model = recognition_model M m2, pose_group = FrontalPrimary,
                                 selected_for_unlock = True, template_quality_score = None,
                                 embedding = e\<rparr>,
                              detected_face_count = length faces\<rparr>)))"

end
