(* ===== verification/Enrollment_Selection.thy ===== *)
theory Enrollment_Selection
  imports Guided_Enrollment
begin

text \<open>
  Lemmas on the guided enrollment: frames of the promised length are scored without a panic; what
  an observation does; what the candidates satisfy; which candidates a group takes; the parts of
  the finished set.
\<close>

section \<open>Scoring does not panic\<close>

lemma gray_pixels_length: "length (gray_pixels luma bs) = length bs div 3"
  by (induction luma bs rule: gray_pixels.induct) simp_all

lemma grayscale_length:
  assumes "validate_frame frame = Inr ()"
  shows "length (grayscale_values frame) = unat (width frame) * unat (height frame)"
  using assms by (cases "format frame") (simp_all add: validate_frame_Inr_iff grayscale_values_def gray_pixels_length)

lemma face_region_bounds:
  assumes "face_region_of frame face p = Some r"
    and "unat (width frame) < 2 ^ 24" and "unat (height frame) < 2 ^ 24"
  shows "x_end r \<le> unat (width frame) \<and> y_end r \<le> unat (height frame)"
proof -
  note [simp del] = f32_of_nat_def
  have "\<exists>a b. x_end r = f32_to_u64 (f32_min a (f32_of_nat (unat (width frame)))) \<and>
      y_end r = f32_to_u64 (f32_min b (f32_of_nat (unat (height frame))))"
    using assms(1) by (auto simp: face_region_of_def Let_def split: if_splits)
  then show ?thesis using f32_to_u64_min [OF assms(2)] f32_to_u64_min [OF assms(3)] by auto
qed

lemma region_values_in_data:
  assumes "x_end r \<le> w" and "y_end r \<le> h" and "length gray = w * h"
  shows "region_values gray w r \<noteq> None"
proof -
  have "i < length gray" if "y < y_end r" "i < x_end r + y * w" for i y
  proof -
    have "i < y * w + w" using that assms(1) by simp
    also have "\<dots> = Suc y * w" by simp
    also have "\<dots> \<le> h * w" using that assms(2) by (intro mult_le_mono1) simp
    finally show ?thesis by (simp add: assms(3) mult.commute)
  qed
  then show ?thesis by (auto simp: region_values_def list_all_iff)
qed

lemma score_face_sample_total:
  assumes "validate_frame frame = Inr ()"
    and "unat (width frame) < 2 ^ 24" and "unat (height frame) < 2 ^ 24"
  shows "\<exists>q. score_face_sample frame face step pose c = Some q \<and> embedding_consistency_score q = c \<and>
     alignment_score q = score_alignment face"
proof -
  have "score_face_region_illumination frame face \<noteq> None"
  proof (cases "face_region_of frame face face_padding")
    case (Some r)
    then have "region_values (grayscale_values frame) (unat (width frame)) r \<noteq> None"
      using face_region_bounds [OF Some assms(2,3)] grayscale_length [OF assms(1)]
      by (intro region_values_in_data [where h = "unat (height frame)"]) simp_all
    then show ?thesis using Some
      by (auto simp: score_face_region_illumination_def split: option.splits)
  qed (simp add: score_face_region_illumination_def)
  then show ?thesis by (auto simp: score_face_sample_def Let_def)
qed


section \<open>Runs\<close>

text \<open>The frames of an enrollment with their step, number and time; a frame on which the models fail
  leaves no sample.\<close>

type_synonym observed_frame = "video_frame \<times> guided_enrollment_step \<times> u32 \<times> i64"

fun enroll_run ::
  "('m, 'p) enrollment_ops \<Rightarrow> user_id \<Rightarrow> observed_frame list \<Rightarrow> ('m, 'p) guided_enrollment \<Rightarrow>
     (('m, 'p) guided_enrollment \<times> guided_frame_observation list) option" where
  "enroll_run A uid [] s = Some (s, [])"
| "enroll_run A uid ((frame, step, index, t) # rest) s =
     (case observe_frame A frame uid step index t s of
        None \<Rightarrow> None
      | Some (s1, r) \<Rightarrow>
          map_option (\<lambda>(s2, os). (s2, case r of Inl _ \<Rightarrow> os | Inr ob \<Rightarrow> ob # os))
            (enroll_run A uid rest s1))"

definition usable_frame :: "video_frame \<Rightarrow> bool" where
  "usable_frame f \<longleftrightarrow> is_ok (validate_frame f) \<and> unat (width f) < 2 ^ 24 \<and> unat (height f) < 2 ^ 24"

lemma observe_single_face_total:
  assumes "usable_frame frame"
  shows "observe_single_face A frame face e pose uid step i t s \<noteq> None"
proof -
  have "validate_frame frame = Inr ()" using assms by (auto simp: usable_frame_def is_ok_iff)
  then obtain q where "score_face_sample frame face step (calibrated_pose_estimate s pose)
      (consistency_with_primary A s e) = Some q"
    using score_face_sample_total assms by (metis usable_frame_def)
  then show ?thesis by (simp add: observe_single_face_def Let_def)
qed

lemma observe_frame_total:
  assumes "usable_frame frame"
  shows "observe_frame A frame uid step i t s \<noteq> None"
  using observe_single_face_total [OF assms]
  by (auto simp: observe_frame_def Let_def split: prod.splits sum.splits list.splits option.splits)

text \<open>The cases of an observation: the models fail, no single face, a single face.\<close>

lemma observe_frame_cases:
  assumes "observe_frame A frame uid step i t s = Some (s1, r)"
  obtains (failed) m err where "s1 = s\<lparr>enroll_model := m\<rparr>" "r = Inl err"
      "m = fst (detect (enroll_models A) frame (enroll_model s)) \<or>
       (\<exists>face. m = fst (extract_embedding (enroll_models A) frame face
                        (fst (detect (enroll_models A) frame (enroll_model s)))))"
  | (faces) faces where "snd (detect (enroll_models A) frame (enroll_model s)) = Inr faces"
      "length faces \<noteq> 1" "r = Inr (no_single_face step i faces)"
      "s1 = s\<lparr>enroll_model := fst (detect (enroll_models A) frame (enroll_model s)),
              rejected_samples := rejected_samples s @
                [rejected_metadata uid step i t (the (obs_reject_reason (no_single_face step i faces)))]\<rparr>"
  | (single) face m1 m2 e p pr ob where "detect (enroll_models A) frame (enroll_model s) = (m1, Inr [face])"
      "extract_embedding (enroll_models A) frame face m1 = (m2, Inr e)"
      "estimate_pose A frame face (pose_provider s) = (p, pr)" "r = Inr ob"
      "observe_single_face A frame face e (result_ok pr) uid step i t
         (s\<lparr>enroll_model := m2, pose_provider := p\<rparr>) = Some (s1, ob)"
proof -
  obtain m1 d where D: "detect (enroll_models A) frame (enroll_model s) = (m1, d)" by fastforce
  show thesis
  proof (cases d)
    case (Inl err)
    then show thesis using assms D failed [of m1 err] by (simp add: observe_frame_def)
  next
    case (Inr fs)
    show thesis
    proof (cases "length fs = 1")
      case False
      then show thesis using assms D Inr faces [of fs]
        by (auto simp: observe_frame_def Let_def split: list.splits)
    next
      case True
      then obtain face where fs: "fs = [face]" by (auto simp: length_Suc_conv)
      obtain m2 x where X: "extract_embedding (enroll_models A) frame face m1 = (m2, x)" by fastforce
      show thesis
      proof (cases x)
        case (Inl err)
        then show thesis using assms D Inr fs X failed [of m2 err]
          by (simp add: observe_frame_def) (metis fst_conv)
      next
        case e: (Inr e)
        obtain p pr where P: "estimate_pose A frame face (pose_provider s) = (p, pr)" by fastforce
        show thesis
          using assms D Inr fs X e P single [of m1 face m2 e p pr]
          by (auto simp: observe_frame_def)
      qed
    qed
  qed
qed


section \<open>What the candidates satisfy\<close>

definition keeps_recognition_model :: "'m model_ops \<Rightarrow> bool" where
  "keeps_recognition_model M \<longleftrightarrow>
     (\<forall>f m. recognition_model M (fst (detect M f m)) = recognition_model M m) \<and>
     (\<forall>f d m. recognition_model M (fst (extract_embedding M f d m)) = recognition_model M m)"

text \<open>A candidate of the group \<open>g\<close>: its template is the user's, for the model, and its sample passed
  the policy, and for a group other than the frontal one the comparison with the primary embedding.\<close>

definition candidate_ok ::
  "guided_enrollment_config \<Rightarrow> user_id \<Rightarrow> face_model_descriptor \<Rightarrow> face_pose_group \<Rightarrow> candidate_sample \<Rightarrow> bool" where
  "candidate_ok cfg uid model g c \<longleftrightarrow>
     (let t = cand_template c; m = cand_metadata c; q = sample_quality m
      in g \<in> range step_pose_group \<and> pose_group t = g \<and> sample_pose_group m = g \<and> UserId (template_user_id t) = uid \<and>
         template_model t = model \<and> template_quality_score t = Some (quality_score q) \<and>
         selected_for_unlock t = selected_for_unlock_by_default g \<and> reject_reason m = None \<and>
         reject_reason_for_quality q (quality_policy cfg) = None \<and>
         (g \<noteq> FrontalPrimary \<longrightarrow>
            (\<forall>x. embedding_consistency_score q = Some x \<longrightarrow> \<not> f32_lt x (acceptance_threshold cfg))))"

definition candidates_of :: "(face_pose_group \<rightharpoonup> candidate_sample list) \<Rightarrow> face_pose_group \<Rightarrow> candidate_sample list" where
  "candidates_of m g = (case m g of None \<Rightarrow> [] | Some cs \<Rightarrow> cs)"

definition enrollment_ok ::
  "('m, 'p) enrollment_ops \<Rightarrow> guided_enrollment_config \<Rightarrow> user_id \<Rightarrow> face_model_descriptor \<Rightarrow>
     ('m, 'p) guided_enrollment \<Rightarrow> bool" where
  "enrollment_ok A cfg uid model s \<longleftrightarrow>
     enroll_config s = cfg \<and> recognition_model (enroll_models A) (enroll_model s) = model \<and>
     (\<forall>g. \<forall>c \<in> set (candidates_of (candidates_by_group s) g). candidate_ok cfg uid model g c)"

lemma record_frontal_pose_baseline_simps [simp]:
  "enroll_config (record_frontal_pose_baseline step p s) = enroll_config s"
  "enroll_model (record_frontal_pose_baseline step p s) = enroll_model s"
  "candidates_by_group (record_frontal_pose_baseline step p s) = candidates_by_group s"
  "rejected_samples (record_frontal_pose_baseline step p s) = rejected_samples s"
  "primary_embedding (record_frontal_pose_baseline step p s) = primary_embedding s"
  by (simp_all add: record_frontal_pose_baseline_def Let_def split: option.splits)

lemma accept_sample_simps [simp]:
  "enroll_config (accept_sample step p t meta s) = enroll_config s"
  "enroll_model (accept_sample step p t meta s) = enroll_model s"
  "rejected_samples (accept_sample step p t meta s) = rejected_samples s"
  by (simp_all add: accept_sample_def push_candidate_def Let_def)

lemma accept_sample_candidates:
  "candidates_of (candidates_by_group (accept_sample step p t meta s)) g =
     candidates_of (candidates_by_group s) g @
       (if g = sample_pose_group meta then [\<lparr>cand_template = t, cand_metadata = meta\<rparr>] else [])"
  by (simp add: accept_sample_def push_candidate_def candidates_of_def Let_def split: option.splits)

text \<open>What one face does: a rejected sample, or a candidate of its step's group.\<close>

lemma observe_single_face_effect:
  assumes "observe_single_face A frame face e pose uid step i t s = Some (s1, ob)"
  obtains (rejected) meta where "s1 = s\<lparr>rejected_samples := rejected_samples s @ [meta]\<rparr>"
      "\<not> accepted_for_step ob" "reject_reason meta = obs_reject_reason ob" "obs_reject_reason ob \<noteq> None"
      "sample_face_box meta = bounds face"
  | (candidate) tm meta where "s1 = accept_sample step pose tm meta s" "accepted_for_step ob"
      "sample_pose_group meta = step_pose_group step"
      "candidate_ok (enroll_config s) uid (recognition_model (enroll_models A) (enroll_model s))
         (step_pose_group step) \<lparr>cand_template = tm, cand_metadata = meta\<rparr>"
      "embedding tm = e" "embedding_consistency_score (sample_quality meta) = consistency_with_primary A s e"
proof -
  obtain q where Q: "score_face_sample frame face step (calibrated_pose_estimate s pose)
      (consistency_with_primary A s e) = Some q"
    using assms by (auto simp: observe_single_face_def Let_def split: option.splits)
  have c: "embedding_consistency_score q = consistency_with_primary A s e"
    using Q by (auto simp: score_face_sample_def Let_def split: option.splits)
  define reason where "reason = sample_reject_reason (enroll_config s) step q (consistency_with_primary A s e)"
  define meta where "meta = sample_metadata_of step i t face pose q reason"
  have m: "sample_quality meta = q" "reject_reason meta = reason" "sample_pose_group meta = step_pose_group step"
    "sample_face_box meta = bounds face"
    "sample_selected_for_unlock meta = (reason = None \<and> selected_for_unlock_by_default (step_pose_group step))"
    by (simp_all add: meta_def sample_metadata_of_def Let_def)
  show thesis
  proof (cases "reason = None")
    case False
    then show thesis
      using assms rejected [of meta] Q m
      by (auto simp: observe_single_face_def Let_def reason_def [symmetric] meta_def [symmetric])
  next
    case True
    define tm where "tm = template_of_sample uid (recognition_model (enroll_models A) (enroll_model s)) e meta"
    have "reject_reason_for_quality q (quality_policy (enroll_config s)) = None"
      "step \<noteq> StepFrontalPrimary \<Longrightarrow> consistency_with_primary A s e = Some x \<Longrightarrow>
         \<not> f32_lt x (acceptance_threshold (enroll_config s))" for x
      using True by (auto simp: reason_def sample_reject_reason_def split: if_splits)
    moreover have "step_pose_group step \<noteq> FrontalPrimary \<longleftrightarrow> step \<noteq> StepFrontalPrimary" by (cases step) simp_all
    ultimately have "candidate_ok (enroll_config s) uid (recognition_model (enroll_models A) (enroll_model s))
         (step_pose_group step) \<lparr>cand_template = tm, cand_metadata = meta\<rparr>"
      using True c m by (cases uid) (simp add: candidate_ok_def tm_def template_of_sample_def)
    moreover have "s1 = accept_sample step pose tm meta s" "accepted_for_step ob"
      using assms Q True
      by (auto simp: observe_single_face_def Let_def reason_def [symmetric] meta_def tm_def)
    moreover have "embedding tm = e" by (simp add: tm_def template_of_sample_def)
    ultimately show thesis using candidate m c by blast
  qed
qed

lemma observe_frame_ok:
  assumes "observe_frame A frame uid step i t s = Some (s1, r)" and "enrollment_ok A cfg uid model s"
    and "keeps_recognition_model (enroll_models A)"
  shows "enrollment_ok A cfg uid model s1"
  using assms(1)
proof (cases rule: observe_frame_cases)
  case (failed m err)
  then show ?thesis using assms(2,3) by (auto simp: enrollment_ok_def keeps_recognition_model_def)
next
  case (faces fs)
  then show ?thesis using assms(2,3) by (auto simp: enrollment_ok_def keeps_recognition_model_def)
next
  case (single face m1 m2 e p pr ob)
  have model: "recognition_model (enroll_models A) m2 = model"
    using single(1,2) assms(2,3) unfolding enrollment_ok_def keeps_recognition_model_def
    by (metis fst_conv)
  from single(5) show ?thesis
  proof (cases rule: observe_single_face_effect)
    case (rejected meta)
    then show ?thesis using assms(2) model by (simp add: enrollment_ok_def)
  next
    case (candidate tm meta)
    then show ?thesis using assms(2) model
      by (auto simp: enrollment_ok_def accept_sample_candidates)
  qed
qed

lemma enroll_run_ok:
  assumes "enroll_run A uid frames s = Some (s1, os)" and "enrollment_ok A cfg uid model s"
    and "keeps_recognition_model (enroll_models A)"
  shows "enrollment_ok A cfg uid model s1"
  using assms
proof (induction A uid frames s arbitrary: s1 os rule: enroll_run.induct)
  case (2 A uid frame step index t rest s)
  then obtain s' r os' where o: "observe_frame A frame uid step index t s = Some (s', r)"
    "enroll_run A uid rest s' = Some (s1, os')"
    by (auto split: option.splits prod.splits)
  show ?case
    by (rule "2.IH" [OF o(1) refl o(2) observe_frame_ok [OF o(1) "2.prems"(2,3)] "2.prems"(3)])
qed simp

lemma new_guided_enrollment_ok:
  "enrollment_ok A cfg uid (recognition_model (enroll_models A) m) (new_guided_enrollment m p cfg)"
  by (simp add: enrollment_ok_def new_guided_enrollment_def candidates_of_def)


section \<open>The first frontal embedding\<close>

text \<open>The embedding of the first sample that was accepted in the frontal step.\<close>

definition first_frontal_embedding :: "('m, 'p) guided_enrollment \<Rightarrow> face_embedding option" where
  "first_frontal_embedding s =
     (case candidates_of (candidates_by_group s) FrontalPrimary of
        [] \<Rightarrow> None
      | c # _ \<Rightarrow> Some (embedding (cand_template c)))"

lemma observe_frame_primary:
  assumes "observe_frame A frame uid step i t s = Some (s1, r)"
    and "primary_embedding s = first_frontal_embedding s"
  shows "primary_embedding s1 = first_frontal_embedding s1"
  using assms(1)
proof (cases rule: observe_frame_cases)
  case (single face m1 m2 e p pr ob)
  have "step_pose_group step = FrontalPrimary \<longleftrightarrow> step = StepFrontalPrimary" by (cases step) simp_all
  note g = this
  from single(5) show ?thesis
  proof (cases rule: observe_single_face_effect)
    case (rejected meta)
    then show ?thesis using assms(2) by (simp add: first_frontal_embedding_def)
  next
    case (candidate tm meta)
    have "primary_embedding s1 = (if step = StepFrontalPrimary \<and> primary_embedding s = None
        then Some (embedding tm) else primary_embedding s)"
      unfolding candidate(1) by (simp add: accept_sample_def push_candidate_def Let_def)
    then show ?thesis
      using assms(2) candidate(3) g
      by (auto simp: first_frontal_embedding_def candidate(1) accept_sample_candidates split: list.splits)
  qed
qed (use assms(2) in \<open>simp_all add: first_frontal_embedding_def\<close>)

text \<open>A sample of the group \<open>g\<close> was taken from one of the frames: the face in it gave the embedding, and
  the score of the sample is its comparison with the first frontal embedding there was by then.\<close>

definition taken_from_frame ::
  "('m, 'p) enrollment_ops \<Rightarrow> user_id \<Rightarrow> observed_frame list \<Rightarrow> ('m, 'p) guided_enrollment \<Rightarrow> face_pose_group \<Rightarrow>
     face_embedding \<Rightarrow> face_template_sample_metadata \<Rightarrow> bool" where
  "taken_from_frame A uid frames s g e meta \<longleftrightarrow>
     (\<exists>earlier frame step i t later s0 os face m1 m2.
        frames = earlier @ (frame, step, i, t) # later \<and> step_pose_group step = g \<and>
        enroll_run A uid earlier s = Some (s0, os) \<and>
        detect (enroll_models A) frame (enroll_model s0) = (m1, Inr [face]) \<and>
        extract_embedding (enroll_models A) frame face m1 = (m2, Inr e) \<and>
        embedding_consistency_score (sample_quality meta) =
          map_option (\<lambda>primary. f32_clamp (compare_scores A primary e m2) f32_zero f32_one)
            (first_frontal_embedding s0))"

lemma observe_frame_candidate:
  assumes "observe_frame A frame uid step i t s = Some (s1, r)"
    and "primary_embedding s = first_frontal_embedding s"
    and "c \<in> set (candidates_of (candidates_by_group s1) g)"
  shows "c \<in> set (candidates_of (candidates_by_group s) g) \<or>
    taken_from_frame A uid ((frame, step, i, t) # later) s g (embedding (cand_template c)) (cand_metadata c)"
  using assms(1)
proof (cases rule: observe_frame_cases)
  case (single face m1 m2 e p pr ob)
  from single(5) show ?thesis
  proof (cases rule: observe_single_face_effect)
    case (rejected meta)
    then show ?thesis using assms(3) by simp
  next
    case (candidate tm meta)
    show ?thesis
    proof (cases "c \<in> set (candidates_of (candidates_by_group s) g)")
      case False
      then have c: "g = step_pose_group step" "c = \<lparr>cand_template = tm, cand_metadata = meta\<rparr>"
        using assms(3) candidate(1,3) by (auto simp: accept_sample_candidates split: if_splits)
      have "taken_from_frame A uid ([] @ (frame, step, i, t) # later) s g e meta"
        unfolding taken_from_frame_def
        using single(1,2) candidate(6) assms(2) c(1)
        by (intro exI [of _ "[]"] exI [of _ frame] exI [of _ step] exI [of _ i] exI [of _ t] exI [of _ later]
            exI [of _ s] exI [of _ m1] exI [of _ face] exI [of _ m2])
          (simp add: consistency_with_primary_def)
      then show ?thesis using c candidate(5) by simp
    qed simp
  qed
qed (use assms(3) in simp_all)

lemma taken_from_later_frame:
  assumes "observe_frame A frame uid step i t s = Some (s', r)" and "taken_from_frame A uid rest s' g e meta"
  shows "taken_from_frame A uid ((frame, step, i, t) # rest) s g e meta"
proof -
  obtain earlier frame' step' i' t' later s0 os face m1 m2 where
    "rest = earlier @ (frame', step', i', t') # later" "step_pose_group step' = g"
    and run: "enroll_run A uid earlier s' = Some (s0, os)"
    and d: "detect (enroll_models A) frame' (enroll_model s0) = (m1, Inr [face])"
      "extract_embedding (enroll_models A) frame' face m1 = (m2, Inr e)"
      "embedding_consistency_score (sample_quality meta) =
          map_option (\<lambda>primary. f32_clamp (compare_scores A primary e m2) f32_zero f32_one)
            (first_frontal_embedding s0)"
    using assms(2) unfolding taken_from_frame_def by blast
  moreover have "enroll_run A uid ((frame, step, i, t) # earlier) s =
      Some (s0, case r of Inl _ \<Rightarrow> os | Inr ob \<Rightarrow> ob # os)"
    using assms(1) run by simp
  moreover have "(frame, step, i, t) # rest = ((frame, step, i, t) # earlier) @ (frame', step', i', t') # later"
    using calculation(1) by simp
  ultimately show ?thesis unfolding taken_from_frame_def by blast
qed

lemma enroll_run_candidates:
  assumes "enroll_run A uid frames s = Some (s1, os)"
    and "primary_embedding s = first_frontal_embedding s"
    and "c \<in> set (candidates_of (candidates_by_group s1) g)"
  shows "c \<in> set (candidates_of (candidates_by_group s) g) \<or>
    taken_from_frame A uid frames s g (embedding (cand_template c)) (cand_metadata c)"
  using assms
proof (induction A uid frames s arbitrary: s1 os rule: enroll_run.induct)
  case (2 A uid frame step index t rest s)
  then obtain s' r os' where o: "observe_frame A frame uid step index t s = Some (s', r)"
    "enroll_run A uid rest s' = Some (s1, os')"
    by (auto split: option.splits prod.splits)
  show ?case
    using "2.IH" [OF o(1) refl o(2) observe_frame_primary [OF o(1) "2.prems"(2)] "2.prems"(3)]
      observe_frame_candidate [OF o(1) "2.prems"(2)] taken_from_later_frame [OF o(1)] by blast
qed simp

section \<open>The selection of a group\<close>

definition similar :: "f32 \<Rightarrow> face_template \<Rightarrow> face_template \<Rightarrow> bool" where
  "similar threshold a b \<longleftrightarrow>
     (case cosine_similarity (embedding a) (embedding b) of None \<Rightarrow> False | Some s \<Rightarrow> f32_le threshold s)"

text \<open>The candidates a group of \<open>n\<close> places takes, after those already taken.\<close>

fun picks :: "('a \<Rightarrow> 'a \<Rightarrow> bool) \<Rightarrow> nat \<Rightarrow> 'a list \<Rightarrow> 'a list \<Rightarrow> 'a list" where
  "picks sim n ps [] = ps"
| "picks sim n ps (c # cs) =
     picks sim n (if n \<le> length ps \<or> list_ex (\<lambda>p. sim p c) ps then ps else ps @ [c]) cs"

lemma picks_extends: "\<exists>rest. picks sim n ps cs = ps @ rest \<and> set rest \<subseteq> set cs"
proof (induction cs arbitrary: ps)
  case (Cons c cs)
  obtain r1 r2 where r: "picks sim n ps cs = ps @ r1" "set r1 \<subseteq> set cs"
    "picks sim n (ps @ [c]) cs = (ps @ [c]) @ r2" "set r2 \<subseteq> set cs"
    using Cons.IH by blast
  then show ?case by auto
qed simp

lemma picks_length: "length ps \<le> n \<Longrightarrow> length (picks sim n ps cs) \<le> n"
  by (induction cs arbitrary: ps) simp_all

lemma picks_distinct:
  "sorted_wrt (\<lambda>a b. \<not> sim a b) ps \<Longrightarrow> sorted_wrt (\<lambda>a b. \<not> sim a b) (picks sim n ps cs)"
  by (induction cs arbitrary: ps) (auto simp: sorted_wrt_append list_ex_iff)

text \<open>In falling order of quality, a candidate is left out only for better ones.\<close>

lemma picks_maximal:
  assumes "sorted_wrt (\<lambda>a b. k b \<le> (k a :: int)) (ps @ cs)" and "c \<in> set cs"
  shows "c \<in> set (picks sim n ps cs) \<or>
     n \<le> length (filter (\<lambda>p. k c \<le> k p) (picks sim n ps cs)) \<or>
     (\<exists>p \<in> set (picks sim n ps cs). k c \<le> k p \<and> sim p c)"
  using assms
proof (induction cs arbitrary: ps)
  case (Cons d cs)
  let ?ps = "if n \<le> length ps \<or> list_ex (\<lambda>p. sim p d) ps then ps else ps @ [d]"
  have sorted: "sorted_wrt (\<lambda>a b. k b \<le> k a) (?ps @ cs)"
    using Cons.prems(1) by (auto simp: sorted_wrt_append)
  obtain rest where rest: "picks sim n ?ps cs = ?ps @ rest"
    using picks_extends [of sim n ?ps cs] by blast
  have le: "k d \<le> k p" if "p \<in> set ps" for p
    using Cons.prems(1) that by (auto simp: sorted_wrt_append)
  show ?case
  proof (cases "c = d")
    case True
    have "filter (\<lambda>p. k d \<le> k p) ps = ps" using le by (simp add: filter_id_conv)
    then show ?thesis using True rest le by (auto simp: list_ex_iff split: if_splits)
  next
    case False
    then show ?thesis using Cons.IH [OF sorted] Cons.prems(2) by simp
  qed
qed simp

lemma by_quality_set [simp]: "set (by_quality cs) = set cs"
  by (simp add: by_quality_def)

lemma by_quality_length [simp]: "length (by_quality cs) = length cs"
  by (simp add: by_quality_def)

definition cand_key :: "candidate_sample \<Rightarrow> int" where
  "cand_key c = f32_total_key (quality_score (sample_quality (cand_metadata c)))"

lemma by_quality_sorted: "sorted_wrt (\<lambda>a b. cand_key b \<le> cand_key a) (by_quality cs)"
proof -
  have "sorted (map (\<lambda>c. - cand_key c) (by_quality cs))"
    unfolding by_quality_def cand_key_def by (rule sorted_sort_key)
  then show ?thesis by (simp add: sorted_map)
qed

definition similar_candidates :: "f32 \<Rightarrow> candidate_sample \<Rightarrow> candidate_sample \<Rightarrow> bool" where
  "similar_candidates threshold a b = similar threshold (cand_template a) (cand_template b)"

text \<open>What a group takes of its candidates.\<close>

definition chosen :: "f32 \<Rightarrow> face_pose_group \<Rightarrow> candidate_sample list \<Rightarrow> candidate_sample list" where
  "chosen threshold g cs =
     picks (similar_candidates threshold) (target_template_count g) [] (by_quality cs)"

lemma select_candidates_pick:
  assumes "\<forall>c \<in> set cs. pose_group (cand_template c) = g"
    and "\<forall>c \<in> set ps. pose_group (cand_template c) = g" and "\<forall>t \<in> set ts. pose_group t \<noteq> g"
  shows "\<exists>rej'. fold (select_candidate threshold g) cs
           (ts @ map cand_template ps, sel @ map cand_metadata ps, rej) =
         (ts @ map cand_template (picks (similar_candidates threshold) (target_template_count g) ps cs),
          sel @ map cand_metadata (picks (similar_candidates threshold) (target_template_count g) ps cs),
          rej')"
  using assms
proof (induction cs arbitrary: ps rej)
  case (Cons c cs)
  have f: "filter (\<lambda>t. pose_group t = g) (ts @ map cand_template ps) = map cand_template ps"
    using Cons.prems(2,3) by (auto simp: filter_empty_conv filter_id_conv)
  have d: "is_duplicate (ts @ map cand_template ps) g (cand_template c) threshold =
      list_ex (\<lambda>p. similar_candidates threshold p c) ps"
    unfolding is_duplicate_def f
    by (simp add: list_ex_iff similar_candidates_def similar_def)
  have n: "selected_templates_for_group (ts @ map cand_template ps) g = length ps"
    unfolding selected_templates_for_group_def f by simp
  show ?case
  proof (cases "target_template_count g \<le> length ps \<or> list_ex (\<lambda>p. similar_candidates threshold p c) ps")
    case True
    then have "select_candidate threshold g c (ts @ map cand_template ps, sel @ map cand_metadata ps, rej) =
        (ts @ map cand_template ps, sel @ map cand_metadata ps, rej @ [as_duplicate (cand_metadata c)])"
      by (auto simp add: select_candidate_def d n)
    then show ?thesis using Cons.IH [of ps] Cons.prems True by simp
  next
    case False
    then have "select_candidate threshold g c (ts @ map cand_template ps, sel @ map cand_metadata ps, rej) =
        (ts @ map cand_template (ps @ [c]), sel @ map cand_metadata (ps @ [c]), rej)"
      by (simp add: select_candidate_def d n)
    then show ?thesis using Cons.IH [of "ps @ [c]"] Cons.prems False by auto
  qed
qed simp

lemma select_groups:
  assumes "distinct gs"
  shows "fold (select_group threshold) gs (m, sel) =
     ((\<lambda>g. if g \<in> set gs then None else m g),
      fold (\<lambda>g. fold (select_candidate threshold g) (by_quality (candidates_of m g))) gs sel)"
  using assms
proof (induction gs arbitrary: m sel)
  case (Cons g gs)
  have "select_group threshold g (m, sel) =
      (m(g := None), fold (select_candidate threshold g) (by_quality (candidates_of m g)) sel)"
    by (auto simp: select_group_def candidates_of_def by_quality_def fun_upd_idem split: option.splits)
  moreover have "fold (\<lambda>g'. fold (select_candidate threshold g') (by_quality (candidates_of (m(g := None)) g'))) gs x =
      fold (\<lambda>g'. fold (select_candidate threshold g') (by_quality (candidates_of m g'))) gs x" for x
    using Cons.prems by (intro fold_cong) (auto simp: candidates_of_def)
  ultimately show ?case using Cons by (auto simp: fun_eq_iff)
qed simp

lemma select_groups_templates:
  assumes "distinct gs" and "\<forall>g. \<forall>c \<in> set (candidates_of m g). pose_group (cand_template c) = g"
    and "\<forall>t \<in> set ts. pose_group t \<notin> set gs"
  shows "\<exists>rej'. fold (\<lambda>g. fold (select_candidate threshold g) (by_quality (candidates_of m g))) gs (ts, sel, rej) =
     (ts @ concat (map (\<lambda>g. map cand_template (chosen threshold g (candidates_of m g))) gs),
      sel @ concat (map (\<lambda>g. map cand_metadata (chosen threshold g (candidates_of m g))) gs), rej')"
  using assms
proof (induction gs arbitrary: ts sel rej)
  case (Cons g gs)
  let ?cs = "candidates_of m g"
  obtain rej1 where r: "fold (select_candidate threshold g) (by_quality ?cs) (ts, sel, rej) =
      (ts @ map cand_template (chosen threshold g ?cs), sel @ map cand_metadata (chosen threshold g ?cs), rej1)"
    using select_candidates_pick [of "by_quality ?cs" g "[]" ts threshold sel rej] Cons.prems
    by (auto simp: chosen_def)
  have sub: "set (chosen threshold g ?cs) \<subseteq> set ?cs"
    using picks_extends [of _ _ "[]" "by_quality ?cs"] unfolding chosen_def by fastforce
  have "\<forall>t \<in> set (ts @ map cand_template (chosen threshold g ?cs)). pose_group t \<notin> set gs"
    using Cons.prems sub by auto
  then show ?case
    using Cons.IH [of "ts @ map cand_template (chosen threshold g ?cs)"
        "sel @ map cand_metadata (chosen threshold g ?cs)" rej1] Cons.prems r by auto
qed simp


section \<open>The finished set\<close>

lemma unlock_groups_simps [simp]:
  "distinct unlock_groups" "distinct leftover_groups" "set unlock_groups \<inter> set leftover_groups = {}"
  "g \<in> set unlock_groups \<or> g \<in> set leftover_groups"
  "g \<in> set unlock_groups \<longleftrightarrow> selected_for_unlock_by_default g"
  by (cases g; simp add: unlock_groups_def leftover_groups_def)+

lemma candidate_okD:
  assumes "enrollment_ok A cfg uid model s" and "c \<in> set (candidates_of (candidates_by_group s) g)"
  shows "candidate_ok cfg uid model g c" "pose_group (cand_template c) = g"
  using assms by (auto simp: enrollment_ok_def candidate_ok_def Let_def)

abbreviation group_choice :: "('m, 'p) guided_enrollment \<Rightarrow> face_pose_group \<Rightarrow> candidate_sample list" where
  "group_choice s g \<equiv>
     chosen (duplicate_similarity_threshold (enroll_config s)) g (candidates_of (candidates_by_group s) g)"

lemma chosen_subset: "set (chosen threshold g cs) \<subseteq> set cs"
  using picks_extends [of _ _ "[]" "by_quality cs"] unfolding chosen_def by fastforce

text \<open>A candidate adds one sample to the two lists; the rejected ones are only appended to.\<close>

lemma fold_select_rejected:
  "fold (select_candidate threshold g) cs (ts, sel, rej0 @ rej) =
     (case fold (select_candidate threshold g) cs (ts, sel, rej) of
        (ts', sel', rej') \<Rightarrow> (ts', sel', rej0 @ rej'))"
  by (induction cs arbitrary: ts sel rej) (auto simp: select_candidate_def)

lemma fold_groups_rejected:
  "fold (\<lambda>g. fold (select_candidate threshold g) (f g)) gs (ts, sel, rej0 @ rej) =
     (case fold (\<lambda>g. fold (select_candidate threshold g) (f g)) gs (ts, sel, rej) of
        (ts', sel', rej') \<Rightarrow> (ts', sel', rej0 @ rej'))"
  by (induction gs arbitrary: ts sel rej) (auto simp: fold_select_rejected split: prod.splits)

definition selection_size :: "selection \<Rightarrow> nat" where
  "selection_size sel = (case sel of (ts, selected, rejected) \<Rightarrow> length selected + length rejected)"

lemma fold_select_size:
  "selection_size (fold (select_candidate threshold g) cs sel) = selection_size sel + length cs"
  by (induction cs arbitrary: sel)
    (auto simp: selection_size_def select_candidate_def split: prod.splits)

lemma fold_groups_size:
  "selection_size (fold (\<lambda>g. fold (select_candidate threshold g) (f g)) gs sel) =
     selection_size sel + sum_list (map (\<lambda>g. length (f g)) gs)"
  by (induction gs arbitrary: sel) (simp_all add: fold_select_size)

lemma select_all_eq:
  assumes "enrollment_ok A cfg uid model s"
  obtains rej where "select_all s =
      ((\<lambda>g. if selected_for_unlock_by_default g then None else candidates_by_group s g),
       concat (map (\<lambda>g. map cand_template (group_choice s g)) unlock_groups),
       concat (map (\<lambda>g. map cand_metadata (group_choice s g)) unlock_groups),
       rejected_samples s @ rej)"
    and "length (concat (map (\<lambda>g. map cand_metadata (group_choice s g)) unlock_groups)) + length rej =
      sum_list (map (\<lambda>g. length (candidates_of (candidates_by_group s) g)) unlock_groups)"
proof -
  let ?F = "fold (\<lambda>g. fold (select_candidate (duplicate_similarity_threshold (enroll_config s)) g)
      (by_quality (candidates_of (candidates_by_group s) g))) unlock_groups"
  obtain rej where F: "?F ([], [], []) =
      ([] @ concat (map (\<lambda>g. map cand_template (group_choice s g)) unlock_groups),
       [] @ concat (map (\<lambda>g. map cand_metadata (group_choice s g)) unlock_groups), rej)"
    using select_groups_templates [of unlock_groups "candidates_by_group s" "[]"
        "duplicate_similarity_threshold (enroll_config s)" "[]" "[]"] candidate_okD [OF assms]
    by auto
  show thesis
  proof (rule that [of rej])
    show "select_all s =
      ((\<lambda>g. if selected_for_unlock_by_default g then None else candidates_by_group s g),
       concat (map (\<lambda>g. map cand_template (group_choice s g)) unlock_groups),
       concat (map (\<lambda>g. map cand_metadata (group_choice s g)) unlock_groups),
       rejected_samples s @ rej)"
      unfolding select_all_def select_groups [OF unlock_groups_simps(1)]
      using F fold_groups_rejected [of _ _ _ "[]" "[]" "rejected_samples s" "[]"] by simp
    show "length (concat (map (\<lambda>g. map cand_metadata (group_choice s g)) unlock_groups)) + length rej =
      sum_list (map (\<lambda>g. length (candidates_of (candidates_by_group s) g)) unlock_groups)"
      using F fold_groups_size [of "duplicate_similarity_threshold (enroll_config s)"
          "\<lambda>g. by_quality (candidates_of (candidates_by_group s) g)" unlock_groups "([], [], [])"]
      by (simp add: selection_size_def)
  qed
qed

text \<open>The templates and the samples of the finished set.\<close>

lemma leftover_metadata_eq:
  "leftover_metadata (\<lambda>g. if selected_for_unlock_by_default g then None else m g) =
     concat (map (\<lambda>g. map (\<lambda>c. (cand_metadata c)\<lparr>sample_selected_for_unlock := False\<rparr>) (candidates_of m g))
       leftover_groups)"
  by (simp add: leftover_metadata_def leftover_groups_def candidates_of_def)

lemma finish_parts:
  assumes "enrollment_ok A cfg uid model s"
  obtains rej where
    "set_templates (finish A uid' eid fam ver created s) =
       concat (map (\<lambda>g. map cand_template (group_choice s g)) unlock_groups)"
    "sample_metadata (finish A uid' eid fam ver created s) =
       (concat (map (\<lambda>g. map cand_metadata (group_choice s g)) unlock_groups) @
        concat (map (\<lambda>g. map (\<lambda>c. (cand_metadata c)\<lparr>sample_selected_for_unlock := False\<rparr>)
          (candidates_of (candidates_by_group s) g)) leftover_groups)) @ rejected_samples s @ rej"
    "length (concat (map (\<lambda>g. map cand_metadata (group_choice s g)) unlock_groups)) + length rej =
       sum_list (map (\<lambda>g. length (candidates_of (candidates_by_group s) g)) unlock_groups)"
    "selected_template_count (set_quality_summary (finish A uid' eid fam ver created s)) =
       length (set_templates (finish A uid' eid fam ver created s)) +
       sum_list (map (\<lambda>g. length (candidates_of (candidates_by_group s) g)) leftover_groups)"
    "rejected_sample_count (set_quality_summary (finish A uid' eid fam ver created s)) =
       length (rejected_samples s) + length rej"
proof -
  obtain rej where R: "select_all s =
      ((\<lambda>g. if selected_for_unlock_by_default g then None else candidates_by_group s g),
       concat (map (\<lambda>g. map cand_template (group_choice s g)) unlock_groups),
       concat (map (\<lambda>g. map cand_metadata (group_choice s g)) unlock_groups),
       rejected_samples s @ rej)"
    and L: "length (concat (map (\<lambda>g. map cand_metadata (group_choice s g)) unlock_groups)) + length rej =
      sum_list (map (\<lambda>g. length (candidates_of (candidates_by_group s) g)) unlock_groups)"
    by (rule select_all_eq [OF assms])
  define left where "left = concat (map (\<lambda>g. map (\<lambda>c. (cand_metadata c)\<lparr>sample_selected_for_unlock := False\<rparr>)
    (candidates_of (candidates_by_group s) g)) leftover_groups)"
  have left: "leftover_metadata (\<lambda>g. if selected_for_unlock_by_default g then None else candidates_by_group s g) = left"
    unfolding left_def by (rule leftover_metadata_eq)
  have count: "length left = sum_list (map (\<lambda>g. length (candidates_of (candidates_by_group s) g)) leftover_groups)"
    by (simp add: left_def length_concat comp_def)
  have same: "length (concat (map (\<lambda>g. map cand_metadata (group_choice s g)) unlock_groups)) =
      length (concat (map (\<lambda>g. map cand_template (group_choice s g)) unlock_groups))"
    by (simp only: length_concat map_map comp_def length_map)
  show thesis
  proof (rule that [of rej])
    show "sample_metadata (finish A uid' eid fam ver created s) =
       (concat (map (\<lambda>g. map cand_metadata (group_choice s g)) unlock_groups) @
        concat (map (\<lambda>g. map (\<lambda>c. (cand_metadata c)\<lparr>sample_selected_for_unlock := False\<rparr>)
          (candidates_of (candidates_by_group s) g)) leftover_groups)) @ rejected_samples s @ rej"
      unfolding finish_def R prod.case left Let_def left_def [symmetric] by (simp only: face_template_set.simps)
  qed (unfold finish_def R prod.case left Let_def, simp_all only: face_template_set.simps L [unfolded same]
      quality_summary_def Let_def face_template_set_quality_summary.simps length_append count same)
qed

end
