(* ===== verification/Enrollment_Properties.thy ===== *)
theory Enrollment_Properties
  imports Enrollment_Selection
begin

text \<open>
  Properties of the guided enrollment: every observed frame leaves one sample, the templates passed
  the gate, are distinct and the best of their group, the issuer can use them, frames of the promised
  length never make it panic.
\<close>

section \<open>Every frame is accounted for\<close>

definition joins :: "face_pose_group \<Rightarrow> guided_frame_observation \<Rightarrow> bool" where
  "joins g ob \<longleftrightarrow> accepted_for_step ob \<and> step_pose_group (obs_step ob) = g"

lemma observe_frame_counts:
  assumes "observe_frame A frame uid step i t s = Some (s1, r)"
  shows "length (candidates_of (candidates_by_group s1) g) =
      length (candidates_of (candidates_by_group s) g) +
      (case r of Inl _ \<Rightarrow> 0 | Inr ob \<Rightarrow> if joins g ob then 1 else 0)"
    and "length (rejected_samples s1) = length (rejected_samples s) +
      (case r of Inl _ \<Rightarrow> 0 | Inr ob \<Rightarrow> if accepted_for_step ob then 0 else 1)"
  using assms
proof (atomize (full), cases rule: observe_frame_cases)
  case (single face m1 m2 e p pr ob)
  have st: "obs_step ob = step"
    using single(5) by (auto simp: observe_single_face_def Let_def split: option.splits)
  from single(5) show "length (candidates_of (candidates_by_group s1) g) =
      length (candidates_of (candidates_by_group s) g) +
      (case r of Inl _ \<Rightarrow> 0 | Inr ob \<Rightarrow> if joins g ob then 1 else 0) \<and>
     length (rejected_samples s1) = length (rejected_samples s) +
      (case r of Inl _ \<Rightarrow> 0 | Inr ob \<Rightarrow> if accepted_for_step ob then 0 else 1)"
  proof (cases rule: observe_single_face_effect)
    case (rejected meta)
    then show ?thesis using single(4) by (simp add: joins_def)
  next
    case (candidate tm meta)
    then show ?thesis using single(4) st by (auto simp: joins_def accept_sample_candidates)
  qed
qed (auto simp: joins_def no_single_face_def)

lemma enroll_run_counts:
  assumes "enroll_run A uid frames s = Some (s1, os)"
  shows "length (candidates_of (candidates_by_group s1) g) =
      length (candidates_of (candidates_by_group s) g) + length (filter (joins g) os)"
    and "length (rejected_samples s1) = length (rejected_samples s) +
      length (filter (\<lambda>ob. \<not> accepted_for_step ob) os)"
  using assms
proof (atomize (full), induction A uid frames s arbitrary: s1 os rule: enroll_run.induct)
  case (2 A uid frame step index t rest s)
  then obtain s' r os' where o: "observe_frame A frame uid step index t s = Some (s', r)"
    "enroll_run A uid rest s' = Some (s1, os')" "os = (case r of Inl _ \<Rightarrow> os' | Inr ob \<Rightarrow> ob # os')"
    by (auto split: option.splits prod.splits)
  show ?case
    using "2.IH" [OF o(1) refl] o(2,3) observe_frame_counts [OF o(1)]
    by (auto split: sum.splits)
qed simp

lemma sum_joins:
  "sum_list (map (\<lambda>g. length (filter (joins g) os)) (unlock_groups @ leftover_groups)) =
     length (filter accepted_for_step os)"
proof (induction os)
  case (Cons ob os)
  have "sum_list (map (\<lambda>g. if joins g ob then 1 else 0) (unlock_groups @ leftover_groups)) =
      (if accepted_for_step ob then 1 else (0 :: nat))"
    by (cases "step_pose_group (obs_step ob)") (simp_all add: joins_def unlock_groups_def leftover_groups_def)
  moreover have "length (filter (joins g) (ob # os)) = length (filter (joins g) os) + (if joins g ob then 1 else 0)"
    for g by simp
  ultimately show ?case
    using Cons.IH by (simp only: sum_list_addf) simp
qed (simp add: sum_list_0)

lemma new_guided_enrollment_simps [simp]:
  "candidates_of (candidates_by_group (new_guided_enrollment m p cfg)) g = []"
  "rejected_samples (new_guided_enrollment m p cfg) = []"
  "enroll_config (new_guided_enrollment m p cfg) = cfg"
  "enroll_model (new_guided_enrollment m p cfg) = m"
  by (simp_all add: new_guided_enrollment_def candidates_of_def)

lemma new_run_ok:
  assumes "enroll_run A uid frames (new_guided_enrollment m p cfg) = Some (s, os)"
    and "keeps_recognition_model (enroll_models A)"
  shows "enrollment_ok A cfg uid (recognition_model (enroll_models A) m) s"
  by (rule enroll_run_ok [OF assms(1) new_guided_enrollment_ok assms(2)])

text \<open>Every frame the models could process leaves exactly one sample in the finished set, and the
  summary counts them all; but what it calls selected templates are the templates and, beside them,
  the accepted samples of the blink step, of which no template is made.\<close>

theorem every_frame_is_accounted_for:
  fixes eid fam ver :: string and created :: i64
  assumes "enroll_run A uid frames (new_guided_enrollment m p cfg) = Some (s, os)"
    and "keeps_recognition_model (enroll_models A)"
  defines "S \<equiv> finish A uid eid fam ver created s"
  shows "length (sample_metadata S) = length os \<and>
    selected_template_count (set_quality_summary S) + rejected_sample_count (set_quality_summary S) = length os \<and>
    selected_template_count (set_quality_summary S) =
      length (set_templates S) + length (filter (joins BlinkMotion) os)"
proof -
  have wf: "enrollment_ok A cfg uid (recognition_model (enroll_models A) m) s"
    by (rule new_run_ok [OF assms(1,2)])
  let ?n = "\<lambda>g. length (candidates_of (candidates_by_group s) g)"
  have n: "?n g = length (filter (joins g) os)" for g
    using enroll_run_counts(1) [OF assms(1), of g] by simp
  have r: "length (rejected_samples s) = length (filter (\<lambda>ob. \<not> accepted_for_step ob) os)"
    using enroll_run_counts(2) [OF assms(1)] by simp
  have none: "joins g ob \<Longrightarrow> g \<in> range step_pose_group" for g ob by (auto simp: joins_def)
  have left: "sum_list (map ?n leftover_groups) = length (filter (joins BlinkMotion) os)"
  proof -
    have "filter (joins HardPoseDiagnostic) os = []" "filter (joins RejectedQuality) os = []"
      using none by (auto simp: filter_empty_conv image_iff) (metis face_pose_group.distinct step_pose_group.simps guided_enrollment_step.exhaust)+
    then show ?thesis by (simp add: n leftover_groups_def)
  qed
  have all: "sum_list (map ?n unlock_groups) + sum_list (map ?n leftover_groups) +
      length (rejected_samples s) = length os"
    using sum_joins [of os] sum_length_filter_compl [of accepted_for_step os]
    by (simp add: n r)
  show ?thesis
    unfolding S_def
  proof (rule finish_parts [OF wf, of uid eid fam ver created], intro conjI)
    fix rej
    let ?S = "finish A uid eid fam ver created s"
    assume P: "set_templates ?S = concat (map (\<lambda>g. map cand_template (group_choice s g)) unlock_groups)"
      "sample_metadata ?S =
       (concat (map (\<lambda>g. map cand_metadata (group_choice s g)) unlock_groups) @
        concat (map (\<lambda>g. map (\<lambda>c. (cand_metadata c)\<lparr>sample_selected_for_unlock := False\<rparr>)
          (candidates_of (candidates_by_group s) g)) leftover_groups)) @ rejected_samples s @ rej"
      "length (concat (map (\<lambda>g. map cand_metadata (group_choice s g)) unlock_groups)) + length rej =
       sum_list (map ?n unlock_groups)"
      "selected_template_count (set_quality_summary ?S) =
       length (set_templates ?S) + sum_list (map ?n leftover_groups)"
      "rejected_sample_count (set_quality_summary ?S) = length (rejected_samples s) + length rej"
    have T: "length (set_templates ?S) = length (concat (map (\<lambda>g. map cand_metadata (group_choice s g)) unlock_groups))"
      unfolding P(1) by (simp only: length_concat map_map comp_def length_map)
    have "length (sample_metadata ?S) = length (set_templates ?S) + sum_list (map ?n leftover_groups) +
        length (rejected_samples s) + length rej"
      unfolding P(2) T by (simp add: length_concat comp_def)
    then show "length (sample_metadata ?S) = length os" using P(3) all T by simp
    show "selected_template_count (set_quality_summary ?S) + rejected_sample_count (set_quality_summary ?S) = length os"
      using P(3,4,5) all T by simp
    show "selected_template_count (set_quality_summary ?S) =
        length (set_templates ?S) + length (filter (joins BlinkMotion) os)"
      using P(4) left by simp
  qed
qed


section \<open>The templates\<close>

lemma finish_templates:
  assumes "enrollment_ok A cfg uid model s"
  shows "set_templates (finish A uid' eid fam ver created s) =
     concat (map (\<lambda>g. map cand_template (group_choice s g)) unlock_groups)"
  by (rule finish_parts [OF assms, of uid' eid fam ver created])

lemma group_choice_group:
  assumes "enrollment_ok A cfg uid model s" and "c \<in> set (group_choice s g)"
  shows "pose_group (cand_template c) = g"
  using candidate_okD(2) [OF assms(1)] assms(2) chosen_subset by blast

lemma filter_group_concat:
  assumes "\<forall>g. \<forall>c \<in> set (f g). pose_group (cand_template c) = g" and "distinct gs"
  shows "filter (\<lambda>t. pose_group t = g) (concat (map (\<lambda>g. map cand_template (f g)) gs)) =
     (if g \<in> set gs then map cand_template (f g) else [])"
  using assms(2)
proof (induction gs)
  case (Cons h gs)
  have "filter (\<lambda>t. pose_group t = g) (map cand_template (f h)) =
      (if h = g then map cand_template (f h) else [])"
    using assms(1) by (auto simp: filter_empty_conv filter_id_conv)
  then show ?case using Cons by auto
qed simp

lemma finish_group:
  assumes "enrollment_ok A cfg uid model s"
  shows "filter (\<lambda>t. pose_group t = g) (set_templates (finish A uid' eid fam ver created s)) =
     (if selected_for_unlock_by_default g then map cand_template (group_choice s g) else [])"
  unfolding finish_templates [OF assms]
  by (subst filter_group_concat) (auto dest: group_choice_group [OF assms])

lemma chosen_distinct:
  "sorted_wrt (\<lambda>a b. \<not> similar threshold a b) (map cand_template (chosen threshold g cs))"
  using picks_distinct [of "similar_candidates threshold" "[]" "target_template_count g" "by_quality cs"]
  unfolding chosen_def sorted_wrt_map similar_candidates_def by simp

lemma chosen_length: "length (chosen threshold g cs) \<le> target_template_count g"
  unfolding chosen_def by (rule picks_length) simp

lemma chosen_maximal:
  assumes "c \<in> set cs"
  shows "c \<in> set (chosen threshold g cs) \<or>
     target_template_count g \<le> length (filter (\<lambda>p. cand_key c \<le> cand_key p) (chosen threshold g cs)) \<or>
     (\<exists>p \<in> set (chosen threshold g cs).
        cand_key c \<le> cand_key p \<and> similar threshold (cand_template p) (cand_template c))"
  using picks_maximal [of cand_key "[]" "by_quality cs" c "similar_candidates threshold"
      "target_template_count g"] by_quality_sorted assms
  unfolding chosen_def similar_candidates_def by simp

text \<open>The templates of one pose are at most as many as the pose has places, and no two of them
  are as similar as duplicates.\<close>

theorem enrolled_templates_are_distinct:
  fixes eid fam ver :: string and created :: i64
  assumes "enroll_run A uid frames (new_guided_enrollment m p cfg) = Some (s, os)"
    and "keeps_recognition_model (enroll_models A)"
  defines "T \<equiv> \<lambda>g. filter (\<lambda>t. pose_group t = g) (set_templates (finish A uid eid fam ver created s))"
  shows "length (T g) \<le> target_template_count g \<and>
    sorted_wrt (\<lambda>a b. \<not> similar (duplicate_similarity_threshold cfg) a b) (T g)"
proof -
  have wf: "enrollment_ok A cfg uid (recognition_model (enroll_models A) m) s"
    by (rule new_run_ok [OF assms(1,2)])
  have cfg: "enroll_config s = cfg" using wf by (simp add: enrollment_ok_def)
  show ?thesis
    unfolding T_def finish_group [OF wf] cfg
    by (simp add: chosen_length chosen_distinct)
qed

text \<open>The key of a template's own score, by which the candidates are compared.\<close>

definition template_key :: "face_template \<Rightarrow> int" where
  "template_key t = (case template_quality_score t of None \<Rightarrow> 0 | Some q \<Rightarrow> f32_total_key q)"

text \<open>C21: a candidate for sign-in is left out only when its pose has all its templates at least as good
  as it, or one at least as good is similar to it.\<close>

theorem enrollment_keeps_the_best:
  fixes eid fam ver :: string and created :: i64
  assumes "enroll_run A uid frames (new_guided_enrollment m p cfg) = Some (s, os)"
    and "keeps_recognition_model (enroll_models A)"
    and "candidates_by_group s g = Some cs" and "c \<in> set cs" and "g \<in> set unlock_groups"
  defines "T \<equiv> filter (\<lambda>t. pose_group t = g) (set_templates (finish A uid eid fam ver created s))"
  shows "cand_template c \<in> set T \<or>
    target_template_count g \<le> length (filter (\<lambda>t. template_key (cand_template c) \<le> template_key t) T) \<or>
    (\<exists>t \<in> set T. template_key (cand_template c) \<le> template_key t \<and>
       similar (duplicate_similarity_threshold cfg) t (cand_template c))"
proof -
  have wf: "enrollment_ok A cfg uid (recognition_model (enroll_models A) m) s"
    by (rule new_run_ok [OF assms(1,2)])
  have cfg: "enroll_config s = cfg" using wf by (simp add: enrollment_ok_def)
  have cs: "candidates_of (candidates_by_group s) g = cs" using assms(3) by (simp add: candidates_of_def)
  have T: "T = map cand_template (group_choice s g)"
    using assms(5) by (simp add: T_def finish_group [OF wf])
  have key: "template_key (cand_template x) = cand_key x" if "x \<in> set cs" for x
    using candidate_okD(1) [OF wf, of x g] that
    by (auto simp: cs candidate_ok_def Let_def template_key_def cand_key_def)
  have sub: "set (group_choice s g) \<subseteq> set cs" using chosen_subset by (simp add: cs)
  have count: "filter (\<lambda>t. cand_key c \<le> template_key t) (map cand_template (group_choice s g)) =
      map cand_template (filter (\<lambda>x. cand_key c \<le> cand_key x) (group_choice s g))"
    unfolding filter_map comp_def
    by (rule arg_cong [where f = "map cand_template"], rule filter_cong) (use key sub in auto)
  show ?thesis
    using chosen_maximal [OF assms(4), of "duplicate_similarity_threshold cfg" g] key [OF assms(4)] sub key
    unfolding T key [OF assms(4)] count by (auto simp: cfg cs)
qed

text \<open>C20: every enrolled template was taken from one of the frames, in which its embedding was the one of
  the only face; its sample passed the quality policy, and its score is the comparison of the embedding
  with the first frontal one, if a sample of the frontal step had been accepted by then; unless the
  template is a frontal one itself, that score is not below the acceptance threshold.\<close>

theorem enrolled_templates_passed_the_gate:
  fixes eid fam ver :: string and created :: i64
  assumes "enroll_run A uid frames (new_guided_enrollment m p cfg) = Some (s, os)"
    and "keeps_recognition_model (enroll_models A)"
  defines "S \<equiv> finish A uid eid fam ver created s"
  shows "\<forall>t \<in> set (set_templates S). selected_for_unlock t \<and> UserId (template_user_id t) = uid \<and>
    template_model t = recognition_model (enroll_models A) m \<and>
    (\<exists>meta \<in> set (sample_metadata S).
       sample_pose_group meta = pose_group t \<and>
       template_quality_score t = Some (quality_score (sample_quality meta)) \<and>
       reject_reason_for_quality (sample_quality meta) (quality_policy cfg) = None \<and>
       taken_from_frame A uid frames (new_guided_enrollment m p cfg) (pose_group t) (embedding t) meta \<and>
       (pose_group t \<noteq> FrontalPrimary \<longrightarrow>
          (\<forall>x. embedding_consistency_score (sample_quality meta) = Some x \<longrightarrow>
             \<not> f32_lt x (acceptance_threshold cfg))))"
proof
  have wf: "enrollment_ok A cfg uid (recognition_model (enroll_models A) m) s"
    by (rule new_run_ok [OF assms(1,2)])
  have new: "primary_embedding (new_guided_enrollment m p cfg) =
      first_frontal_embedding (new_guided_enrollment m p cfg)"
    by (simp add: first_frontal_embedding_def) (simp add: new_guided_enrollment_def)
  fix t assume "t \<in> set (set_templates S)"
  then obtain g c where c: "g \<in> set unlock_groups" "c \<in> set (group_choice s g)" "t = cand_template c"
    unfolding S_def finish_templates [OF wf] by auto
  then have ok: "candidate_ok cfg uid (recognition_model (enroll_models A) m) g c"
    using candidate_okD(1) [OF wf] chosen_subset by blast
  have "c \<in> set (candidates_of (candidates_by_group s) g)" using c(2) chosen_subset by blast
  then have "taken_from_frame A uid frames (new_guided_enrollment m p cfg) g (embedding t) (cand_metadata c)"
    using enroll_run_candidates [OF assms(1) new] c(3) by simp
  moreover have "cand_metadata c \<in> set (sample_metadata S)"
    unfolding S_def by (rule finish_parts [OF wf, of uid eid fam ver created]) (use c in auto)
  ultimately show "selected_for_unlock t \<and> UserId (template_user_id t) = uid \<and>
    template_model t = recognition_model (enroll_models A) m \<and>
    (\<exists>meta \<in> set (sample_metadata S).
       sample_pose_group meta = pose_group t \<and>
       template_quality_score t = Some (quality_score (sample_quality meta)) \<and>
       reject_reason_for_quality (sample_quality meta) (quality_policy cfg) = None \<and>
       taken_from_frame A uid frames (new_guided_enrollment m p cfg) (pose_group t) (embedding t) meta \<and>
       (pose_group t \<noteq> FrontalPrimary \<longrightarrow>
          (\<forall>x. embedding_consistency_score (sample_quality meta) = Some x \<longrightarrow>
             \<not> f32_lt x (acceptance_threshold cfg))))"
    using ok c(1,3) by (intro conjI bexI [of _ "cand_metadata c"]) (auto simp: candidate_ok_def Let_def)
qed


section \<open>The issuer can use the set\<close>

lemma chosen_nonempty:
  assumes "cs \<noteq> []" and "0 < target_template_count g"
  shows "chosen threshold g cs \<noteq> []"
proof -
  obtain c rest where "by_quality cs = c # rest"
    using assms(1) by (metis by_quality_length length_0_conv neq_Nil_conv)
  then have "chosen threshold g cs =
      picks (similar_candidates threshold) (target_template_count g) [c] rest"
    using assms(2) by (simp add: chosen_def)
  then show ?thesis using picks_extends [of "similar_candidates threshold" "target_template_count g" "[c]" rest] by auto
qed

lemma target_template_count_pos: "0 < target_template_count g \<longleftrightarrow> selected_for_unlock_by_default g"
  by (cases g) simp_all

text \<open>A set from an enrollment in which one sample for sign-in was accepted passes the
  authenticator's preconditions, a cooldown aside, with the same model: every template is compatible.\<close>

theorem enrolled_set_is_usable:
  fixes eid fam ver :: string and created :: i64
  assumes "enroll_run A uid frames (new_guided_enrollment m p cfg) = Some (s, os)"
    and "keeps_recognition_model (enroll_models A)"
    and "ob \<in> set os" and "accepted_for_step ob" and "obs_step ob \<noteq> StepBlinkMotion"
    and "recognition_model M (model_provider a) = recognition_model (enroll_models A) m"
  defines "R \<equiv> templates_of_set (finish A uid eid fam ver created s)"
  shows "snd (validate_authentication_preconditions M R now a) \<in> {Inr (), Inl CooldownActive} \<and>
    (\<forall>t \<in> set (templates R). is_compatible_with t (recognition_model M (model_provider a)))"
proof -
  let ?S = "finish A uid eid fam ver created s" and ?g = "step_pose_group (obs_step ob)"
  have wf: "enrollment_ok A cfg uid (recognition_model (enroll_models A) m) s"
    by (rule new_run_ok [OF assms(1,2)])
  have g: "selected_for_unlock_by_default ?g" using assms(5) by (cases "obs_step ob") simp_all
  have "filter (joins ?g) os \<noteq> []" using assms(3,4) by (auto simp: filter_empty_conv joins_def)
  then have "candidates_of (candidates_by_group s) ?g \<noteq> []"
    using enroll_run_counts(1) [OF assms(1), of ?g] by auto
  then have "group_choice s ?g \<noteq> []" using g by (simp add: chosen_nonempty target_template_count_pos)
  then have "filter (\<lambda>t. pose_group t = ?g) (set_templates ?S) \<noteq> []"
    using g by (simp add: finish_group [OF wf])
  then have some: "set_templates ?S \<noteq> []" by auto
  have all: "selected_for_unlock t \<and> template_model t = recognition_model M (model_provider a)"
    if t: "t \<in> set (set_templates ?S)" for t
  proof -
    obtain g c where c: "g \<in> set unlock_groups" "c \<in> set (group_choice s g)" "t = cand_template c"
      using t unfolding finish_templates [OF wf] by auto
    then have "candidate_ok cfg uid (recognition_model (enroll_models A) m) g c"
      using candidate_okD(1) [OF wf] chosen_subset by blast
    then show ?thesis using c(1,3) assms(6) by (auto simp: candidate_ok_def Let_def)
  qed
  have T: "templates R = set_templates ?S"
    using all by (auto simp: R_def templates_of_set_def new_recognition_templates_def Let_def filter_id_conv)
  have comp: "is_compatible_with t (recognition_model M (model_provider a))" if "t \<in> set (templates R)" for t
    using all that by (simp add: T is_compatible_with_def)
  then have "has_compatible_template R (recognition_model M (model_provider a))"
    using some by (cases "set_templates ?S") (auto simp: has_compatible_template_def T)
  then show ?thesis
    using some comp by (auto simp: validate_authentication_preconditions_def T Let_def split: prod.splits)
qed

section \<open>The average area of a face\<close>

definition metadata_area :: "face_template_sample_metadata \<Rightarrow> nat" where
  "metadata_area m = f32_to_u64 (f32_mul (box_width (sample_face_box m)) (box_height (sample_face_box m)))"

lemma average_area_eq:
  "average_face_area (templates_of_set S) =
     (if sample_metadata S = [] then None
      else Some (word_of_nat ((sum_list (map metadata_area (sample_metadata S)) mod 2 ^ 64)
                   div length (sample_metadata S))))"
proof -
  have "foldl (\<lambda>acc b. (acc + f32_to_u64 (f32_mul (box_width b) (box_height b))) mod 2 ^ 64) k
          (map sample_face_box ms) = (k + sum_list (map metadata_area ms)) mod 2 ^ 64"
    if "k < 2 ^ 64" for k ms
    using that
  proof (induction ms arbitrary: k)
    case (Cons m ms)
    show ?case
      using Cons.IH [of "(k + metadata_area m) mod 2 ^ 64"]
      by (simp add: metadata_area_def [symmetric] mod_add_left_eq add.assoc)
  qed simp
  from this [of 0 "sample_metadata S"] show ?thesis
    by (simp add: templates_of_set_def new_recognition_templates_def Let_def)
qed

lemma finish_rejected:
  "sample_metadata (finish A uid eid fam ver created
       (s\<lparr>enroll_model := m, rejected_samples := rejected_samples s @ [meta]\<rparr>)) =
     (let (left, ts, sel, rej) =
        fold (select_group (duplicate_similarity_threshold (enroll_config s))) unlock_groups
          (candidates_by_group s, [], [], [])
      in (sel @ leftover_metadata left) @ rejected_samples s @ meta # rej)" (is ?with)
  "sample_metadata (finish A uid eid fam ver created s) =
     (let (left, ts, sel, rej) =
        fold (select_group (duplicate_similarity_threshold (enroll_config s))) unlock_groups
          (candidates_by_group s, [], [], [])
      in (sel @ leftover_metadata left) @ rejected_samples s @ rej)" (is ?without)
proof -
  obtain ts sel rej where F: "fold (\<lambda>g. fold (select_candidate (duplicate_similarity_threshold (enroll_config s)) g)
      (by_quality (candidates_of (candidates_by_group s) g))) unlock_groups ([], [], []) = (ts, sel, rej)"
    by (rule prod_cases3)
  have F': "fold (\<lambda>g. fold (select_candidate (duplicate_similarity_threshold (enroll_config s)) g)
      (by_quality (candidates_of (candidates_by_group s) g))) unlock_groups ([], [], rej0) = (ts, sel, rej0 @ rej)"
    for rej0
    using fold_groups_rejected [of "duplicate_similarity_threshold (enroll_config s)" _ _ "[]" "[]" rej0 "[]"] F
    by simp
  show ?with ?without
    by (simp_all add: finish_def select_all_def select_groups F F' Let_def)
qed

text \<open>C18: a frame without a face is stored with an empty box, and the average area that the gate of the
  silent monitor compares faces with counts it as a face of area zero.\<close>

theorem faceless_frames_lower_the_average_area:
  fixes eid fam ver :: string and created :: i64
  assumes "snd (detect (enroll_models A) frame (enroll_model s)) = Inr []"
    and "observe_frame A frame uid step i t s = Some (s1, r)"
  defines "S \<equiv> finish A uid eid fam ver created s" and "S1 \<equiv> finish A uid eid fam ver created s1"
  shows "average_face_area (templates_of_set S1) =
      Some (word_of_nat ((sum_list (map metadata_area (sample_metadata S)) mod 2 ^ 64)
              div Suc (length (sample_metadata S))))"
proof -
  obtain m where m: "detect (enroll_models A) frame (enroll_model s) = (m, Inr [])"
    using assms(1) by (cases "detect (enroll_models A) frame (enroll_model s)") auto
  define meta where "meta = rejected_metadata uid step i t SampleNoFaceDetected"
  have s1: "s1 = s\<lparr>enroll_model := m, rejected_samples := rejected_samples s @ [meta]\<rparr>"
    using assms(2) by (simp add: observe_frame_def m Let_def no_single_face_def meta_def)
  have "f32_mul f32_zero f32_zero = f32_zero"
    by (simp add: f32_mul_def f32_zero_parts scale2_def f32_round_zero)
  then have z: "metadata_area meta = 0"
    by (simp add: metadata_area_def meta_def rejected_metadata_def f32_to_u64_def f32_zero_parts scale2_def)
  have "sum_list (map metadata_area (sample_metadata S1)) = sum_list (map metadata_area (sample_metadata S))"
    "length (sample_metadata S1) = Suc (length (sample_metadata S))"
    unfolding S_def S1_def s1 finish_rejected(1) finish_rejected(2) [of A uid eid fam ver created s]
    by (simp_all add: Let_def z split: prod.splits)
  then show ?thesis by (auto simp: average_area_eq)
qed

section \<open>No panic\<close>

text \<open>Frames whose data has the promised length, of fewer than \<open>2 ^ 24\<close> columns and rows, are
  observed without a panic, however many there are.\<close>

theorem enrollment_never_panics:
  assumes "\<forall>(frame, step, i, t) \<in> set frames. usable_frame frame"
  shows "enroll_run A uid frames s \<noteq> None"
  using assms
proof (induction A uid frames s rule: enroll_run.induct)
  case (2 A uid frame step index t rest s)
  obtain s' r where o: "observe_frame A frame uid step index t s = Some (s', r)"
    using observe_frame_total [of frame A uid step index t s] "2.prems" by auto
  then show ?case using "2.IH" [OF o refl] "2.prems" by auto
qed simp


section \<open>An example\<close>

text \<open>A policy that asks for nothing but the landmarks, models that find the face of \<open>marked_face\<close> in
  every frame but the dark one.\<close>

definition no_minimum :: face_quality_policy where
  "no_minimum =
     \<lparr>min_quality_score = f32_inf True, min_face_size_score = f32_inf True,
      min_illumination_score = f32_inf True, min_blur_score = f32_inf True,
      min_pose_fit_score = f32_inf True\<rparr>"

definition sample_enroll_config :: guided_enrollment_config where
  "sample_enroll_config =
     default_guided_enrollment_config\<lparr>acceptance_threshold := f32_zero, quality_policy := no_minimum\<rparr>"

definition marked_face :: detected_face where
  "marked_face = sample_face\<lparr>landmarks := replicate 5 \<lparr>landmark_x = f32_zero, landmark_y = f32_zero\<rparr>,
     confidence := f32_one\<rparr>"

definition dark_frame :: video_frame where
  "dark_frame = sample_frame\<lparr>data := [0]\<rparr>"

definition sample_enroll_ops :: "(unit, unit) enrollment_ops" where
  "sample_enroll_ops =
     \<lparr>enroll_models =
        \<lparr>load_models = (\<lambda>m. (m, Inr ())), unload_models = id,
         recognition_model = (\<lambda>_. \<lparr>model_family = ''m'', model_version = ''1''\<rparr>),
         detect = (\<lambda>f m. (m, Inr (if data f = [0] then [] else [marked_face]))),
         extract_embedding = (\<lambda>_ _ m. (m, Inr [f32_one]))\<rparr>,
      compare_scores = (\<lambda>_ _ _. f32_one),
      estimate_pose = (\<lambda>_ _ p. (p, Inl PoseNoFace))\<rparr>"

definition sample_enrollment :: "(unit, unit) guided_enrollment" where
  "sample_enrollment = new_guided_enrollment () () sample_enroll_config"

definition sample_enroll_frames :: "observed_frame list" where
  "sample_enroll_frames =
     [(sample_frame, StepFrontalPrimary, 0, 10), (dark_frame, StepFrontalPrimary, 1, 20),
      (sample_frame, StepBlinkMotion, 2, 30)]"

lemma sample_keeps: "keeps_recognition_model (enroll_models sample_enroll_ops)"
  by (simp add: keeps_recognition_model_def sample_enroll_ops_def)

lemma sample_frame_usable: "usable_frame sample_frame" "usable_frame dark_frame"
  by (simp_all add: usable_frame_def is_ok_iff validate_frame_Inr_iff sample_frame_def dark_frame_def)

lemma not_lt_minus_inf: "\<not> f32_lt x (f32_inf True)"
proof -
  have "f32_key (f32_inf True) = - 0x7F800000"
    by (simp add: f32_key_def f32_negative_def f32_magnitude_def f32_inf_def signed_bits_def)
  then show ?thesis by (auto simp: f32_lt_def f32_key_def f32_is_nan_def)
qed

lemma sample_alignment: "score_alignment marked_face = f32_one"
proof -
  have "\<not> f32_lt f32_one f32_half" "f32_clamp f32_one f32_zero f32_one = f32_one"
    by (simp_all add: f32_lt_def f32_clamp_def f32_half_def f32_lit_def f32_key_def f32_one_def
        f32_round_def f32_magnitude_def f32_negative_def f32_is_nan_def scale2_def frac_ge_pow2_def
        signed_bits_def bit_len.simps round_half_even_def f32_zero_def Let_def)
  then show ?thesis by (simp add: score_alignment_def marked_face_def)
qed

lemma sample_no_reason:
  assumes "alignment_score q = f32_one" and "c = None \<or> c = Some f32_one"
  shows "sample_reject_reason sample_enroll_config step q c = None"
proof -
  have "\<not> f32_lt f32_one f32_zero" "\<not> f32_le f32_one f32_zero" by (simp_all add: f32_lt_def f32_le_def)
  then show ?thesis
    using assms
    by (auto simp: sample_reject_reason_def sample_enroll_config_def reject_reason_for_quality_def
        no_minimum_def not_lt_minus_inf)
qed

lemma sample_observe:
  assumes "enroll_config s = sample_enroll_config"
  shows "\<exists>s1 ob. observe_frame sample_enroll_ops sample_frame uid step i t s = Some (s1, Inr ob) \<and>
     accepted_for_step ob \<and> obs_step ob = step \<and> enroll_config s1 = sample_enroll_config"
proof -
  let ?s = "s\<lparr>enroll_model := (), pose_provider := ()\<rparr>"
  define c where "c = consistency_with_primary sample_enroll_ops ?s [f32_one]"
  have c: "c = None \<or> c = Some f32_one"
    by (auto simp: c_def consistency_with_primary_def sample_enroll_ops_def f32_clamp_def f32_lt_def)
  have "validate_frame sample_frame = Inr ()" using sample_frame_usable by (auto simp: usable_frame_def is_ok_iff)
  then obtain q where q: "score_face_sample sample_frame marked_face step (calibrated_pose_estimate ?s None) c = Some q"
    "alignment_score q = f32_one"
    using score_face_sample_total sample_frame_usable sample_alignment by (metis usable_frame_def)
  have "\<exists>s1 ob. observe_single_face sample_enroll_ops sample_frame marked_face [f32_one] None uid step i t ?s =
      Some (s1, ob) \<and> accepted_for_step ob \<and> obs_step ob = step \<and> enroll_config s1 = sample_enroll_config"
    using q sample_no_reason [OF q(2) c, of step] assms
    by (simp add: observe_single_face_def c_def [symmetric] Let_def)
  then show ?thesis
    by (auto simp: observe_frame_def sample_enroll_ops_def sample_frame_def)
qed

lemma sample_observe_dark:
  "observe_frame sample_enroll_ops dark_frame uid step i t s =
     Some (s\<lparr>enroll_model := (), rejected_samples := rejected_samples s @
             [rejected_metadata uid step i t SampleNoFaceDetected]\<rparr>, Inr (no_single_face step i []))"
  by (simp add: observe_frame_def sample_enroll_ops_def dark_frame_def no_single_face_def Let_def)

lemma sample_enroll_run:
  "\<exists>s ob1 ob2. enroll_run sample_enroll_ops (UserId ''u'') sample_enroll_frames sample_enrollment =
      Some (s, [ob1, no_single_face StepFrontalPrimary 1 [], ob2]) \<and>
     accepted_for_step ob1 \<and> obs_step ob1 = StepFrontalPrimary \<and> accepted_for_step ob2 \<and>
     obs_step ob2 = StepBlinkMotion"
proof -
  have "enroll_config sample_enrollment = sample_enroll_config" by (simp add: sample_enrollment_def)
  then obtain s1 ob1 where 1: "observe_frame sample_enroll_ops sample_frame (UserId ''u'') StepFrontalPrimary 0 10
      sample_enrollment = Some (s1, Inr ob1)" "accepted_for_step ob1" "obs_step ob1 = StepFrontalPrimary"
      "enroll_config s1 = sample_enroll_config"
    using sample_observe by blast
  let ?s2 = "s1\<lparr>enroll_model := (), rejected_samples := rejected_samples s1 @
      [rejected_metadata (UserId ''u'') StepFrontalPrimary 1 20 SampleNoFaceDetected]\<rparr>"
  have "enroll_config ?s2 = sample_enroll_config" using 1(4) by simp
  then obtain s3 ob2 where 2: "observe_frame sample_enroll_ops sample_frame (UserId ''u'') StepBlinkMotion 2 30
      ?s2 = Some (s3, Inr ob2)" "accepted_for_step ob2" "obs_step ob2 = StepBlinkMotion"
    using sample_observe by blast
  show ?thesis using 1 2 by (simp add: sample_enroll_frames_def sample_observe_dark)
qed


lemma sample_enrollment_new: "sample_enrollment = new_guided_enrollment () () sample_enroll_config"
  by (rule sample_enrollment_def)

theorem every_frame_is_accounted_for_witness:
  "\<exists>s os. enroll_run sample_enroll_ops (UserId ''u'') sample_enroll_frames sample_enrollment = Some (s, os) \<and>
     length (sample_metadata (finish sample_enroll_ops (UserId ''u'') ''e'' ''d'' ''1'' 0 s)) = 3 \<and>
     selected_template_count (set_quality_summary
       (finish sample_enroll_ops (UserId ''u'') ''e'' ''d'' ''1'' 0 s)) =
     length (set_templates (finish sample_enroll_ops (UserId ''u'') ''e'' ''d'' ''1'' 0 s)) + 1"
proof -
  obtain s ob1 ob2 where r: "enroll_run sample_enroll_ops (UserId ''u'') sample_enroll_frames sample_enrollment =
      Some (s, [ob1, no_single_face StepFrontalPrimary 1 [], ob2])"
    "accepted_for_step ob1" "obs_step ob1 = StepFrontalPrimary" "accepted_for_step ob2" "obs_step ob2 = StepBlinkMotion"
    using sample_enroll_run by blast
  show ?thesis
    using every_frame_is_accounted_for [OF r(1) [unfolded sample_enrollment_new] sample_keeps,
        of "''e''" "''d''" "''1''" 0] r
    by (simp add: joins_def no_single_face_def)
qed

theorem enrolled_templates_are_distinct_witness:
  "\<exists>s os. enroll_run sample_enroll_ops (UserId ''u'') sample_enroll_frames sample_enrollment = Some (s, os) \<and>
     length (filter (\<lambda>t. pose_group t = FrontalPrimary)
       (set_templates (finish sample_enroll_ops (UserId ''u'') ''e'' ''d'' ''1'' 0 s))) \<le> 2"
proof -
  obtain s os where r: "enroll_run sample_enroll_ops (UserId ''u'') sample_enroll_frames sample_enrollment =
      Some (s, os)"
    using sample_enroll_run by blast
  show ?thesis
    using enrolled_templates_are_distinct [OF r [unfolded sample_enrollment_new] sample_keeps,
        of FrontalPrimary "''e''" "''d''" "''1''" 0] r
    by simp
qed

text \<open>A face looking ahead and then to the left.\<close>

definition sample_turned_frames :: "observed_frame list" where
  "sample_turned_frames = [(sample_frame, StepFrontalPrimary, 0, 10), (sample_frame, StepYawLeftMild, 1, 20)]"

lemma sample_turned_run:
  "\<exists>s ob1 ob2. enroll_run sample_enroll_ops (UserId ''u'') sample_turned_frames sample_enrollment =
      Some (s, [ob1, ob2]) \<and> joins YawLeftMild ob2"
proof -
  have "enroll_config sample_enrollment = sample_enroll_config" by (simp add: sample_enrollment_def)
  then obtain s1 ob1 where 1: "observe_frame sample_enroll_ops sample_frame (UserId ''u'') StepFrontalPrimary 0 10
      sample_enrollment = Some (s1, Inr ob1)" "enroll_config s1 = sample_enroll_config"
    using sample_observe by blast
  then obtain s2 ob2 where "observe_frame sample_enroll_ops sample_frame (UserId ''u'') StepYawLeftMild 1 20
      s1 = Some (s2, Inr ob2)" "accepted_for_step ob2" "obs_step ob2 = StepYawLeftMild"
    using sample_observe by blast
  then show ?thesis using 1 by (simp add: sample_turned_frames_def joins_def)
qed

theorem enrolled_templates_passed_the_gate_witness:
  "\<exists>s os t meta. enroll_run sample_enroll_ops (UserId ''u'') sample_turned_frames sample_enrollment = Some (s, os) \<and>
     t \<in> set (set_templates (finish sample_enroll_ops (UserId ''u'') ''e'' ''d'' ''1'' 0 s)) \<and>
     pose_group t = YawLeftMild \<and>
     taken_from_frame sample_enroll_ops (UserId ''u'') sample_turned_frames sample_enrollment YawLeftMild
       (embedding t) meta"
proof -
  obtain s ob1 ob2 where r: "enroll_run sample_enroll_ops (UserId ''u'') sample_turned_frames sample_enrollment =
      Some (s, [ob1, ob2])" and j: "joins YawLeftMild ob2"
    using sample_turned_run by blast
  note r' = r [unfolded sample_enrollment_new]
  let ?S = "finish sample_enroll_ops (UserId ''u'') ''e'' ''d'' ''1'' 0 s"
  have "candidates_of (candidates_by_group s) YawLeftMild \<noteq> []"
    using enroll_run_counts(1) [OF r', of YawLeftMild] j by (auto split: if_splits)
  then have "filter (\<lambda>t. pose_group t = YawLeftMild) (set_templates ?S) \<noteq> []"
    unfolding finish_group [OF new_run_ok [OF r' sample_keeps]]
    by (simp add: chosen_nonempty)
  then obtain t where "t \<in> set (set_templates ?S)" "pose_group t = YawLeftMild"
    by (auto simp: filter_empty_conv)
  then show ?thesis
    using enrolled_templates_passed_the_gate [OF r' sample_keeps, of "''e''" "''d''" "''1''" 0] r
    unfolding sample_enrollment_new by metis
qed

theorem enrollment_keeps_the_best_witness:
  "\<exists>s os c. enroll_run sample_enroll_ops (UserId ''u'') sample_enroll_frames sample_enrollment = Some (s, os) \<and>
     c \<in> set (candidates_of (candidates_by_group s) FrontalPrimary) \<and>
     filter (\<lambda>t. pose_group t = FrontalPrimary)
       (set_templates (finish sample_enroll_ops (UserId ''u'') ''e'' ''d'' ''1'' 0 s)) \<noteq> []"
proof -
  obtain s ob1 ob2 where r: "enroll_run sample_enroll_ops (UserId ''u'') sample_enroll_frames sample_enrollment =
      Some (s, [ob1, no_single_face StepFrontalPrimary 1 [], ob2])"
    "accepted_for_step ob1" "obs_step ob1 = StepFrontalPrimary" "accepted_for_step ob2" "obs_step ob2 = StepBlinkMotion"
    using sample_enroll_run by blast
  have "length (candidates_of (candidates_by_group s) FrontalPrimary) = 1"
    using enroll_run_counts(1) [OF r(1), of FrontalPrimary] r
    by (simp add: sample_enrollment_new joins_def no_single_face_def)
  then obtain c where c: "candidates_by_group s FrontalPrimary = Some [c]"
    by (auto simp: candidates_of_def length_Suc_conv split: option.splits)
  have "FrontalPrimary \<in> set unlock_groups" by simp
  from enrollment_keeps_the_best [OF r(1) [unfolded sample_enrollment_new] sample_keeps c _ this, of c "''e''" "''d''" "''1''" 0]
  have "filter (\<lambda>t. pose_group t = FrontalPrimary)
       (set_templates (finish sample_enroll_ops (UserId ''u'') ''e'' ''d'' ''1'' 0 s)) \<noteq> []"
    by (auto simp del: set_filter filter_filter)
  then show ?thesis using r(1) c by (auto simp: candidates_of_def)
qed

theorem enrolled_set_is_usable_witness:
  "\<exists>s os. enroll_run sample_enroll_ops (UserId ''u'') sample_enroll_frames sample_enrollment = Some (s, os) \<and>
     snd (validate_authentication_preconditions (enroll_models sample_enroll_ops)
       (templates_of_set (finish sample_enroll_ops (UserId ''u'') ''e'' ''d'' ''1'' 0 s)) 5
       (new_authenticator () f32_one (attempts sample_authenticator))) \<in> {Inr (), Inl CooldownActive}"
proof -
  obtain s ob1 ob2 where r: "enroll_run sample_enroll_ops (UserId ''u'') sample_enroll_frames sample_enrollment =
      Some (s, [ob1, no_single_face StepFrontalPrimary 1 [], ob2])"
    "accepted_for_step ob1" "obs_step ob1 = StepFrontalPrimary" "accepted_for_step ob2" "obs_step ob2 = StepBlinkMotion"
    using sample_enroll_run by blast
  show ?thesis
    using enrolled_set_is_usable [OF r(1) [unfolded sample_enrollment_new] sample_keeps, of ob1
        "enroll_models sample_enroll_ops" "new_authenticator () f32_one (attempts sample_authenticator)"
        "''e''" "''d''" "''1''" 0 5] r
    by (auto simp: new_authenticator_def)
qed

theorem faceless_frames_lower_the_average_area_witness:
  "\<exists>s1 r. observe_frame sample_enroll_ops dark_frame (UserId ''u'') StepFrontalPrimary 0 10 sample_enrollment =
       Some (s1, r) \<and>
     average_face_area (templates_of_set (finish sample_enroll_ops (UserId ''u'') ''e'' ''d'' ''1'' 0 s1)) = Some 0"
proof -
  note o = sample_observe_dark [of "UserId ''u''" StepFrontalPrimary 0 10 sample_enrollment]
  have d: "snd (detect (enroll_models sample_enroll_ops) dark_frame (enroll_model sample_enrollment)) = Inr []"
    by (simp add: sample_enroll_ops_def dark_frame_def)
  have "sample_metadata (finish sample_enroll_ops (UserId ''u'') ''e'' ''d'' ''1'' 0 sample_enrollment) = []"
    by (simp add: finish_def select_all_def unlock_groups_def select_group_def leftover_metadata_def
        leftover_groups_def sample_enrollment_def new_guided_enrollment_def Let_def)
  with faceless_frames_lower_the_average_area [OF d o, of "''e''" "''d''" "''1''" 0]
  show ?thesis using o by simp
qed

theorem enrollment_never_panics_witness:
  "enroll_run sample_enroll_ops (UserId ''u'') sample_enroll_frames sample_enrollment \<noteq> None"
  by (rule enrollment_never_panics) (simp add: sample_enroll_frames_def sample_frame_usable)

end
