(* ===== verification/Credential_Format.thy ===== *)
theory Credential_Format
  imports Protocol
begin

text \<open>
  Crate \<open>credential_store\<close>, the formats at rest: the encrypted password
  (\<open>src/credential_blob/format.rs\<close>), the data it is bound to (\<open>src/credential_blob/protector.rs\<close>), the
  file of the protected master key (\<open>src/key_file.rs\<close>) and what the tables store
  (\<open>src/persistence/sqlcipher_repository.rs\<close>). The format is read back exactly: what is accepted is
  what was written.
\<close>

datatype credential_store_error =
    StoreUnavailable
  | IoFailed
  | RandomGenerationFailed
  | InvalidProtectedKeyFile
  | InvalidCredentialBlob
  | KeyGenerationFailed
  | KeyProtectionFailed
  | KeyUnprotectFailed
  | CredentialBlobEncryptionFailed
  | CredentialBlobDecryptionFailed
  | SchemaMigrationFailed
  | RecordValidationFailed
  | RepositoryUnavailable
  | HardwareMismatch
  | UserNotFound
  | CredentialNotFound

text \<open>The bytes of a string (\<open>as_bytes\<close>).\<close>

definition string_bytes :: "string \<Rightarrow> u8 list" where
  "string_bytes s = map of_char s"

section \<open>The encrypted password\<close>

datatype credential_blob_algorithm = Aes256GcmV1

record credential_blob =
  algorithm :: credential_blob_algorithm
  blob_nonce :: "u8 list"
  ciphertext :: "u8 list"

definition credential_blob_magic :: "u8 list" where
  "credential_blob_magic = string_bytes ''WFUCRD01''"

definition credential_blob_version :: u8 where "credential_blob_version = 1"

fun to_format_id :: "credential_blob_algorithm \<Rightarrow> u8" where
  "to_format_id Aes256GcmV1 = 1"

definition from_format_id :: "u8 \<Rightarrow> credential_store_error + credential_blob_algorithm" where
  "from_format_id b = (if b = 1 then Inr Aes256GcmV1 else Inl InvalidCredentialBlob)"

definition serialize_blob :: "credential_blob \<Rightarrow> credential_store_error + u8 list" where
  "serialize_blob b =
     (if blob_nonce b = [] \<or> ciphertext b = [] then Inl InvalidCredentialBlob
      else if length (blob_nonce b) > 255 \<or> length (ciphertext b) > 2 ^ 32 - 1 then Inl InvalidCredentialBlob
      else Inr (credential_blob_magic @
                [credential_blob_version, to_format_id (algorithm b), word_of_nat (length (blob_nonce b))] @
                le_bytes 4 (length (ciphertext b)) @ blob_nonce b @ ciphertext b))"

definition blob_header_len :: nat where "blob_header_len = 15"

definition deserialize_blob :: "u8 list \<Rightarrow> credential_store_error + credential_blob" where
  "deserialize_blob s =
     (if length s < blob_header_len then Inl InvalidCredentialBlob
      else if take 8 s \<noteq> credential_blob_magic then Inl InvalidCredentialBlob
      else if s ! 8 \<noteq> credential_blob_version then Inl InvalidCredentialBlob
      else rbind (from_format_id (s ! 9)) (\<lambda>alg.
        let nonce_len = unat (s ! 10);
            ciphertext_len = of_le_bytes [s ! 11, s ! 12, s ! 13, s ! 14]
        in if nonce_len = 0 \<or> ciphertext_len = 0 then Inl InvalidCredentialBlob
           else if length s \<noteq> blob_header_len + nonce_len + ciphertext_len then Inl InvalidCredentialBlob
           else
             let nonce_end = blob_header_len + nonce_len; ciphertext_end = nonce_end + ciphertext_len
             in Inr \<lparr>algorithm = alg, blob_nonce = drop blob_header_len (take nonce_end s),
                     ciphertext = drop nonce_end (take ciphertext_end s)\<rparr>))"

section \<open>What a password is bound to\<close>

record credential_blob_associated_data =
  ad_user_id :: user_id
  ad_credential_ref :: credential_ref

definition credential_blob_aad_context :: "u8 list" where
  "credential_blob_aad_context = string_bytes ''WinFaceUnlockCredentialBlobAadV1''"

text \<open>The length is cut to 32 bits.\<close>

definition len_prefixed_bytes :: "u8 list \<Rightarrow> u8 list" where
  "len_prefixed_bytes bs = le_bytes 4 (length bs) @ bs"

fun to_aad_bytes :: "user_id \<Rightarrow> credential_ref \<Rightarrow> u8 list" where
  "to_aad_bytes (UserId u) (CredentialRef c) =
     credential_blob_aad_context @ len_prefixed_bytes (string_bytes u) @ len_prefixed_bytes (string_bytes c)"

section \<open>The file of the master key\<close>

definition protected_master_key_magic :: "u8 list" where
  "protected_master_key_magic = string_bytes ''WFUKEY01''"

definition protected_master_key_version :: u8 where "protected_master_key_version = 1"

definition max_protected_master_key_len :: nat where "max_protected_master_key_len = 64 * 1024"

definition key_file_bytes :: "u8 list \<Rightarrow> u8 list" where
  "key_file_bytes blob =
     protected_master_key_magic @ [protected_master_key_version] @ le_bytes 4 (length blob) @ blob"

text \<open>\<open>read_exact\<close>: the bytes asked for and the rest, or too few.\<close>

definition read_exact :: "nat \<Rightarrow> u8 list \<Rightarrow> credential_store_error + (u8 list \<times> u8 list)" where
  "read_exact n bs = (if length bs < n then Inl InvalidProtectedKeyFile else Inr (take n bs, drop n bs))"

definition parse_key_file :: "u8 list \<Rightarrow> credential_store_error + u8 list" where
  "parse_key_file bs =
     rbind (read_exact 8 bs) (\<lambda>(magic, r1).
       if magic \<noteq> protected_master_key_magic then Inl InvalidProtectedKeyFile
       else rbind (read_exact 1 r1) (\<lambda>(version, r2).
         if version ! 0 \<noteq> protected_master_key_version then Inl InvalidProtectedKeyFile
         else rbind (read_exact 4 r2) (\<lambda>(len_bytes, r3).
           let len = of_le_bytes len_bytes
           in if len = 0 \<or> len > max_protected_master_key_len then Inl InvalidProtectedKeyFile
              else rbind (read_exact len r3) (\<lambda>(protected, trailing).
                if trailing \<noteq> [] then Inl InvalidProtectedKeyFile else Inr protected))))"

section \<open>What the tables store\<close>

definition hex_digit :: "nat \<Rightarrow> char" where
  "hex_digit n = ''0123456789abcdef'' ! n"

definition encode_sqlcipher_raw_key :: "u8 list \<Rightarrow> string" where
  "encode_sqlcipher_raw_key bs =
     concat (map (\<lambda>b. [hex_digit (unat b div 16), hex_digit (unat b mod 16)]) bs)"

fun account_type_to_storage :: "account_type \<Rightarrow> string" where
  "account_type_to_storage Local = ''local''"
| "account_type_to_storage MicrosoftAccount = ''microsoft_account''"
| "account_type_to_storage Domain = ''domain''"

definition account_type_from_storage :: "string \<Rightarrow> credential_store_error + account_type" where
  "account_type_from_storage s =
     (if s = ''local'' then Inr Local
      else if s = ''microsoft_account'' then Inr MicrosoftAccount
      else if s = ''domain'' then Inr Domain
      else Inl RepositoryUnavailable)"

section \<open>Laws of the formats\<close>

lemma string_bytes_length [simp]: "length (string_bytes s) = length s"
  by (simp add: string_bytes_def)

lemma of_char_inject: "(of_char c :: u8) = of_char d \<longleftrightarrow> c = d"
proof
  have u: "unat (of_char x :: u8) = (of_char x :: nat)" for x
  proof -
    have "(of_char x :: u8) = of_nat (of_char x)" by (simp add: of_nat_of_char)
    moreover have "(of_char x :: nat) < 256" by (cases x) (simp add: of_char_def)
    ultimately show ?thesis by (simp add: unat_of_nat take_bit_nat_eq_self)
  qed
  assume "(of_char c :: u8) = of_char d"
  then have "(of_char c :: nat) = of_char d" using u by metis
  then show "c = d" by simp
qed simp

lemma string_bytes_inject: "string_bytes s = string_bytes t \<longleftrightarrow> s = t"
  unfolding string_bytes_def by (rule inj_map_eq_map) (simp add: inj_def of_char_inject)

lemma magic_length [simp]:
  "length credential_blob_magic = 8" "length protected_master_key_magic = 8"
  by (simp_all add: credential_blob_magic_def protected_master_key_magic_def)

lemma le_bytes_inverse: "length bs = 4 \<Longrightarrow> le_bytes 4 (of_le_bytes bs) = bs"
  by (metis le_bytes_of_le_bytes)

lemma from_format_id_Inr: "from_format_id b = Inr alg \<longleftrightarrow> b = to_format_id alg"
  by (cases alg) (auto simp: from_format_id_def)

text \<open>A byte string of at least a header: the magic and seven more bytes.\<close>

lemma header_split:
  assumes "blob_header_len \<le> length s"
  obtains a b c d e f g rest where "s = take 8 s @ a # b # c # d # e # f # g # rest"
proof -
  define t where "t = drop 8 s"
  have "Suc (Suc (Suc (Suc (Suc (Suc (Suc 0)))))) \<le> length t"
    using assms by (simp add: blob_header_len_def t_def)
  then obtain a b c d e f g rest where "t = a # b # c # d # e # f # g # rest"
    by (auto simp: Suc_le_length_iff)
  then have "drop 8 s = a # b # c # d # e # f # g # rest" by (simp add: t_def)
  then show thesis using that append_take_drop_id [of 8 s] by metis
qed

lemma deserialize_parts:
  assumes "length magic = 8"
  shows "deserialize_blob (magic @ a # b # c # d # e # f # g # rest) =
     (if magic \<noteq> credential_blob_magic \<or> a \<noteq> credential_blob_version then Inl InvalidCredentialBlob
      else rbind (from_format_id b) (\<lambda>alg.
        let n = unat c; k = of_le_bytes [d, e, f, g]
        in if n = 0 \<or> k = 0 \<or> length rest \<noteq> n + k then Inl InvalidCredentialBlob
           else Inr \<lparr>algorithm = alg, blob_nonce = take n rest, ciphertext = drop n (take (n + k) rest)\<rparr>))"
proof -
  let ?s = "magic @ a # b # c # d # e # f # g # rest"
  have at: "?s ! 8 = a" "?s ! 9 = b" "?s ! 10 = c" "?s ! 11 = d" "?s ! 12 = e" "?s ! 13 = f" "?s ! 14 = g"
    using assms by (simp_all add: nth_append)
  have len: "length ?s = 15 + length rest" "take 8 ?s = magic" using assms by simp_all
  have rest: "drop 15 ?s = rest" using assms by (simp add: drop_Cons')
  have parts: "drop 15 (take (15 + n) ?s) = take n rest"
    "drop (15 + n) (take (15 + n + k) ?s) = drop n (take (n + k) rest)" for n k
  proof -
    show "drop 15 (take (15 + n) ?s) = take n rest"
      unfolding drop_take rest by simp
    have "drop (15 + n) ?s = drop n rest" using rest by (metis add.commute drop_drop)
    then show "drop (15 + n) (take (15 + n + k) ?s) = drop n (take (n + k) rest)"
      by (simp only: drop_take) simp
  qed
  show ?thesis
    unfolding deserialize_blob_def blob_header_len_def at len Let_def parts
    by (cases "from_format_id b") auto
qed

lemma deserialize_serialize: "deserialize_blob s = Inr b \<longleftrightarrow> serialize_blob b = Inr s"
proof
  assume D: "deserialize_blob s = Inr b"
  then have "blob_header_len \<le> length s" by (auto simp: deserialize_blob_def split: if_splits)
  then obtain v a n c0 c1 c2 c3 rest where s: "s = take 8 s @ v # a # n # c0 # c1 # c2 # c3 # rest"
    by (rule header_split)
  have "length (take 8 s) = 8" using \<open>blob_header_len \<le> length s\<close> by (simp add: blob_header_len_def)
  note P = deserialize_parts [OF this, of v a n c0 c1 c2 c3 rest, folded s, unfolded D]
  define k where "k = of_le_bytes [c0, c1, c2, c3]"
  have "take 8 s = credential_blob_magic" "v = credential_blob_version" "a = to_format_id (algorithm b)"
    "0 < unat n" "0 < k" "length rest = unat n + k" "blob_nonce b = take (unat n) rest"
    "ciphertext b = drop (unat n) rest"
    using P by (auto simp: rbind_Inr_iff [symmetric] from_format_id_Inr k_def Let_def rbind_def
        split: if_splits sum.splits)
  moreover have "le_bytes 4 k = [c0, c1, c2, c3]"
    using le_bytes_inverse [of "[c0, c1, c2, c3]"] unfolding k_def by simp
  moreover have "unat n < 256" "k < 256 ^ 4"
    using unat_u8_less of_le_bytes_less [of "[c0, c1, c2, c3]"] by (simp_all add: k_def)
  ultimately show "serialize_blob b = Inr s"
    by (subst s) (auto simp: serialize_blob_def)
next
  assume S: "serialize_blob b = Inr s"
  define k where "k = length (ciphertext b)"
  have n: "blob_nonce b \<noteq> []" "length (blob_nonce b) < 256" "0 < k" "k < 256 ^ 4"
    and s: "s = credential_blob_magic @ credential_blob_version # to_format_id (algorithm b) #
      word_of_nat (length (blob_nonce b)) # le_bytes 4 k @ blob_nonce b @ ciphertext b"
    using S by (auto simp: serialize_blob_def k_def split: if_splits)
  have u: "unat (word_of_nat (length (blob_nonce b)) :: u8) = length (blob_nonce b)"
    using n by (simp add: unat_of_nat take_bit_nat_eq_self)
  obtain c0 c1 c2 c3 where c: "le_bytes 4 k = [c0, c1, c2, c3]" by (simp add: le_bytes_4)
  have "of_le_bytes [c0, c1, c2, c3] = k"
    using of_le_bytes_le_bytes [of 4 k] n(4) by (simp add: c)
  then show "deserialize_blob s = Inr b"
    unfolding s c append_Cons append_Nil using n
    by (subst deserialize_parts) (simp_all add: u from_format_id_def k_def Let_def, cases "algorithm b", simp_all)
qed

lemma associated_data_injective:
  assumes "length u < 2 ^ 32" and "length u' < 2 ^ 32" and "length c < 2 ^ 32" and "length c' < 2 ^ 32"
    and "to_aad_bytes (UserId u) (CredentialRef c) = to_aad_bytes (UserId u') (CredentialRef c')"
  shows "u = u' \<and> c = c'"
proof -
  have split: "x = y \<and> p = q" if e: "len_prefixed_bytes x @ p = len_prefixed_bytes y @ q"
    and l: "length x < 2 ^ 32" "length y < 2 ^ 32" for x y p q
  proof -
    have le: "le_bytes 4 (length x) = le_bytes 4 (length y)" and r: "x @ p = y @ q"
      using e by (simp_all add: len_prefixed_bytes_def)
    have "of_le_bytes (le_bytes 4 (length x)) = of_le_bytes (le_bytes 4 (length y))" using le by simp
    then have "length x = length y" using l by (simp add: of_le_bytes_le_bytes)
    then show ?thesis using r by simp
  qed
  have "string_bytes u = string_bytes u' \<and> len_prefixed_bytes (string_bytes c) = len_prefixed_bytes (string_bytes c')"
    by (rule split) (use assms in simp_all)
  moreover from this have "string_bytes c = string_bytes c' \<and> ([] :: u8 list) = []"
    by (intro split) (use assms in simp_all)
  ultimately show ?thesis by (simp add: string_bytes_inject)
qed

lemma parse_key_file_iff:
  "parse_key_file bs = Inr blob \<longleftrightarrow>
     bs = key_file_bytes blob \<and> blob \<noteq> [] \<and> length blob \<le> max_protected_master_key_len"
proof
  assume P: "parse_key_file bs = Inr blob"
  then obtain len where "take 8 bs = protected_master_key_magic" "take 1 (drop 8 bs) ! 0 = protected_master_key_version"
    "len = of_le_bytes (take 4 (drop 1 (drop 8 bs)))" "0 < len" "len \<le> max_protected_master_key_len"
    "13 \<le> length bs" "blob = take len (drop 13 bs)" "drop len (drop 13 bs) = []" "len \<le> length (drop 13 bs)"
    by (auto simp: parse_key_file_def read_exact_def rbind_def Let_def split: if_splits)
  note p = this
  have "take 1 (drop 8 bs) = [protected_master_key_version]"
    using p(2,6) by (cases "drop 8 bs") simp_all
  moreover have "le_bytes 4 len = take 4 (drop 1 (drop 8 bs))"
    unfolding p(3) by (rule le_bytes_inverse) (use p(6) in simp)
  moreover have "bs = take 8 bs @ take 1 (drop 8 bs) @ take 4 (drop 1 (drop 8 bs)) @ drop 13 bs"
  proof -
    have "drop 8 bs = take 1 (drop 8 bs) @ drop 1 (drop 8 bs)" by (rule append_take_drop_id [symmetric])
    moreover have "drop 1 (drop 8 bs) = take 4 (drop 1 (drop 8 bs)) @ drop 13 bs"
      using append_take_drop_id [of 4 "drop 1 (drop 8 bs)"] by simp
    ultimately show ?thesis using append_take_drop_id [of 8 bs] by metis
  qed
  moreover have "drop 13 bs = blob" "length blob = len" using p(7-9) by simp_all
  ultimately show "bs = key_file_bytes blob \<and> blob \<noteq> [] \<and> length blob \<le> max_protected_master_key_len"
    using p(1,4,5) by (auto simp: key_file_bytes_def)
next
  assume K: "bs = key_file_bytes blob \<and> blob \<noteq> [] \<and> length blob \<le> max_protected_master_key_len"
  then have "of_le_bytes (le_bytes 4 (length blob)) = length blob"
    by (simp add: of_le_bytes_le_bytes max_protected_master_key_len_def)
  then show "parse_key_file bs = Inr blob"
    using K by (simp add: parse_key_file_def read_exact_def key_file_bytes_def Let_def)
qed

lemma account_type_roundtrip [simp]: "account_type_from_storage (account_type_to_storage t) = Inr t"
  by (cases t) (simp_all add: account_type_from_storage_def)

text \<open>The hexadecimal form of the database key determines the key.\<close>

lemma hex_digit_inject: "m < 16 \<Longrightarrow> n < 16 \<Longrightarrow> hex_digit m = hex_digit n \<longleftrightarrow> m = n"
proof -
  have "distinct ''0123456789abcdef''" by simp
  moreover assume "m < 16" "n < 16"
  ultimately show ?thesis unfolding hex_digit_def by (subst nth_eq_iff_index_eq) simp_all
qed

lemma raw_key_inject: "encode_sqlcipher_raw_key a = encode_sqlcipher_raw_key b \<Longrightarrow> a = b"
proof (induction a arbitrary: b)
  case Nil
  then show ?case by (cases b) (simp_all add: encode_sqlcipher_raw_key_def)
next
  case (Cons x a)
  then obtain y b' where b: "b = y # b'" by (cases b) (simp_all add: encode_sqlcipher_raw_key_def)
  have "unat x div 16 = unat y div 16" "unat x mod 16 = unat y mod 16"
    using Cons.prems unat_u8_less [of x] unat_u8_less [of y] b
    by (auto simp: encode_sqlcipher_raw_key_def hex_digit_inject)
  then have "unat x = unat y" by (metis div_mult_mod_eq)
  then show ?case using Cons b by (simp add: encode_sqlcipher_raw_key_def word_unat_eq_iff)
qed

text \<open>C35: the stored form of an encrypted password is read back exactly: \<open>deserialize\<close> accepts a byte
  string just when \<open>serialize\<close> gives it, and then gives what was serialized.\<close>

theorem credential_blob_bijection: "deserialize_blob s = Inr b \<longleftrightarrow> serialize_blob b = Inr s"
  by (rule deserialize_serialize)

text \<open>A key file is accepted just when it is the file written for a key of allowed length; nothing
  may follow the key.\<close>

theorem key_file_bijection:
  "parse_key_file bs = Inr blob \<longleftrightarrow>
     bs = key_file_bytes blob \<and> blob \<noteq> [] \<and> length blob \<le> max_protected_master_key_len"
  by (rule parse_key_file_iff)

text \<open>The data a password is bound to tells its user and its reference: unless a string is longer
  than \<open>u32::MAX\<close>, different pairs have different data.\<close>

theorem associated_data_identifies_owner:
  assumes "length u < 2 ^ 32" and "length u' < 2 ^ 32" and "length c < 2 ^ 32" and "length c' < 2 ^ 32"
    and "to_aad_bytes (UserId u) (CredentialRef c) = to_aad_bytes (UserId u') (CredentialRef c')"
  shows "u = u' \<and> c = c'"
  by (rule associated_data_injective [OF assms])

theorem associated_data_identifies_owner_witness:
  "to_aad_bytes (UserId ''ab'') (CredentialRef ''c'') \<noteq> to_aad_bytes (UserId ''a'') (CredentialRef ''bc'')"
  using associated_data_identifies_owner [of "''ab''" "''a''" "''c''" "''bc''"] by auto

end
