(* ===== verification/Windows_Path.thy ===== *)
theory Windows_Path
  imports Prelude
begin

text \<open>
  The paths of Windows as \<open>std::path\<close> reads them, over UTF-16 units: the prefix (a drive, a share, a
  device, a verbatim path), the root, and the components, which paths are compared by. Used by the
  credential store (\<open>credential_store/src/location.rs\<close>, \<open>win_service/src/credential_store_config.rs\<close>).
\<close>

type_synonym u16 = "16 word"

type_synonym store_dir = "u16 list"

text \<open>The units of a text of ASCII (\<open>encode_utf16\<close>).\<close>

definition wide_ascii :: "string \<Rightarrow> u16 list" where
  "wide_ascii s = map of_char s"

definition backslash :: u16 where "backslash = 92"

definition is_verbatim_sep :: "u16 \<Rightarrow> bool" where "is_verbatim_sep u \<longleftrightarrow> u = backslash"

definition is_path_sep :: "u16 \<Rightarrow> bool" where "is_path_sep u \<longleftrightarrow> u = backslash \<or> u = 47"

definition is_ascii_letter :: "u16 \<Rightarrow> bool" where
  "is_ascii_letter u \<longleftrightarrow> 65 \<le> u \<and> u \<le> 90 \<or> 97 \<le> u \<and> u \<le> 122"

definition to_ascii_uppercase :: "u16 \<Rightarrow> u16" where
  "to_ascii_uppercase u = (if 97 \<le> u \<and> u \<le> 122 then u - 32 else u)"

datatype path_prefix =
    Verbatim "u16 list"
  | VerbatimUNC "u16 list" "u16 list"
  | VerbatimDisk u16
  | DeviceNS "u16 list"
  | UNC "u16 list" "u16 list"
  | Disk u16

datatype path_component = Prefix path_prefix | RootDir | CurDir | ParentDir | Normal "u16 list"

text \<open>The units before the next separator, and those after it.\<close>

fun next_component :: "(u16 \<Rightarrow> bool) \<Rightarrow> u16 list \<Rightarrow> u16 list \<times> u16 list" where
  "next_component sep [] = ([], [])"
| "next_component sep (u # us) =
     (if sep u then ([], us) else (case next_component sep us of (c, rest) \<Rightarrow> (u # c, rest)))"

fun path_split :: "(u16 \<Rightarrow> bool) \<Rightarrow> u16 list \<Rightarrow> u16 list list" where
  "path_split sep [] = [[]]"
| "path_split sep (u # us) =
     (if sep u then [] # path_split sep us
      else (case path_split sep us of [] \<Rightarrow> [[u]] | c # cs \<Rightarrow> (u # c) # cs))"

definition drive_of :: "u16 list \<Rightarrow> u16 option" where
  "drive_of p =
     (case p of l # colon # _ \<Rightarrow> if is_ascii_letter l \<and> colon = 58 then Some (to_ascii_uppercase l) else None
      | _ \<Rightarrow> None)"

text \<open>\<open>parse_prefix\<close>: a prefix is matched with either separator in its first eight units; a verbatim
  prefix has no slash there.\<close>

definition unslash :: "u16 list \<Rightarrow> u16 list" where
  "unslash = map (\<lambda>u. if u = 47 then backslash else u)"

definition has_prefix :: "u16 list \<Rightarrow> u16 list \<Rightarrow> bool" where
  "has_prefix pat p \<longleftrightarrow> take (length pat) (unslash (take 8 p)) = pat"

definition verbatim_path :: "u16 list \<Rightarrow> bool" where
  "verbatim_path p \<longleftrightarrow> has_prefix [backslash, backslash, 63, backslash] p \<and> 47 \<notin> set (take 8 p)"

definition parse_prefix :: "u16 list \<Rightarrow> path_prefix option" where
  "parse_prefix p =
     (if has_prefix [backslash, backslash] p then
        if verbatim_path p then
          if has_prefix ([backslash, backslash, 63, backslash] @ wide_ascii ''UNC'' @ [backslash]) p then
            (case next_component is_verbatim_sep (drop 8 p) of (server, rest) \<Rightarrow>
               Some (VerbatimUNC server (fst (next_component is_verbatim_sep rest))))
          else
            (case drive_of (drop 4 p) of
               Some d \<Rightarrow>
                 if length p = 6 \<or> is_verbatim_sep (p ! 6) then Some (VerbatimDisk d)
                 else Some (Verbatim (fst (next_component is_verbatim_sep (drop 4 p))))
             | None \<Rightarrow> Some (Verbatim (fst (next_component is_verbatim_sep (drop 4 p)))))
        else if has_prefix [backslash, backslash, 46, backslash] p then
          Some (DeviceNS (fst (next_component is_path_sep (drop 4 p))))
        else
          (case next_component is_path_sep (drop 2 p) of (server, rest) \<Rightarrow>
             let share = fst (next_component is_path_sep rest)
             in if server \<noteq> [] \<and> share \<noteq> [] then Some (UNC server share) else None)
      else map_option Disk (drive_of p))"

fun prefix_length :: "path_prefix \<Rightarrow> nat" where
  "prefix_length (Verbatim x) = 4 + length x"
| "prefix_length (VerbatimUNC x y) = 8 + length x + (if y = [] then 0 else 1 + length y)"
| "prefix_length (VerbatimDisk _) = 6"
| "prefix_length (UNC x y) = 2 + length x + (if y = [] then 0 else 1 + length y)"
| "prefix_length (DeviceNS x) = 4 + length x"
| "prefix_length (Disk _) = 2"

definition is_drive :: "path_prefix \<Rightarrow> bool" where
  "is_drive x = (case x of Disk _ \<Rightarrow> True | _ \<Rightarrow> False)"

definition is_verbatim_prefix :: "path_prefix option \<Rightarrow> bool" where
  "is_verbatim_prefix x =
     (case x of Some (Verbatim _) \<Rightarrow> True | Some (VerbatimUNC _ _) \<Rightarrow> True | Some (VerbatimDisk _) \<Rightarrow> True
      | _ \<Rightarrow> False)"

definition path_sep :: "path_prefix option \<Rightarrow> u16 \<Rightarrow> bool" where
  "path_sep pre = (if is_verbatim_prefix pre then is_verbatim_sep else is_path_sep)"

definition after_prefix :: "u16 list \<Rightarrow> u16 list" where
  "after_prefix p = (case parse_prefix p of None \<Rightarrow> p | Some pre \<Rightarrow> drop (prefix_length pre) p)"

definition has_root :: "u16 list \<Rightarrow> bool" where
  "has_root p \<longleftrightarrow>
     (case after_prefix p of [] \<Rightarrow> False | u # _ \<Rightarrow> path_sep (parse_prefix p) u) \<or>
     (case parse_prefix p of None \<Rightarrow> False | Some pre \<Rightarrow> \<not> is_drive pre)"

definition path_is_absolute :: "u16 list \<Rightarrow> bool" where
  "path_is_absolute p \<longleftrightarrow> has_root p \<and> parse_prefix p \<noteq> None"

definition single_component :: "bool \<Rightarrow> u16 list \<Rightarrow> path_component list" where
  "single_component verbatim c =
     (if c = [] then []
      else if c = [46] then (if verbatim then [CurDir] else [])
      else if c = [46, 46] then [ParentDir]
      else [Normal c])"

text \<open>A leading \<open>.\<close> of a path with no root stays.\<close>

definition path_components :: "u16 list \<Rightarrow> path_component list" where
  "path_components p =
     (let pre = parse_prefix p; verbatim = is_verbatim_prefix pre; parts = path_split (path_sep pre) (after_prefix p)
      in (case pre of None \<Rightarrow> [] | Some x \<Rightarrow> [Prefix x]) @
         (if has_root p then [RootDir] else if hd parts = [46] then [CurDir] else []) @
         concat (map (single_component verbatim)
           (if \<not> has_root p \<and> hd parts = [46] then tl parts else parts)))"

definition path_eq :: "u16 list \<Rightarrow> u16 list \<Rightarrow> bool" where
  "path_eq p q \<longleftrightarrow> path_components p = path_components q"

definition sample_dir :: store_dir where
  "sample_dir = wide_ascii ''C:'' @ [backslash] @ wide_ascii ''wfu''"

lemma sample_dir_components:
  "path_components sample_dir = [Prefix (Disk 67), RootDir, Normal (wide_ascii ''wfu'')]"
  by code_simp

lemma sample_dir_absolute: "path_is_absolute sample_dir"
  by code_simp

text \<open>A parent component is found behind either separator, and only as a whole component.\<close>

lemma parent_components_found:
  "list_ex (\<lambda>s. ParentDir \<in> set (path_components (wide_ascii s))) [''C:/a/../b'', ''..'', ''C:/..'']"
  "ParentDir \<notin> set (path_components (wide_ascii ''C:/a/..b/c..''))"
  by code_simp+

end
