(* ===== verification/Credential_Repository.thy ===== *)
theory Credential_Repository
  imports Credential_Format Windows_Path "HOL-Library.AList"
begin

text \<open>
  Crate \<open>credential_store\<close>: the records (\<open>src/persistence/records.rs\<close>), the encrypted database
  (\<open>src/persistence/sqlcipher_repository.rs\<close>, with the tables of \<open>src/persistence/schema.rs\<close>) and the
  store over it (\<open>src/repository_store.rs\<close>), and the files of the store's directory. A table is an
  association list by its primary key, each SQL statement of the code the update or the query it
  states, with the foreign keys of the schema. Every call of the operating system and every
  statement may fail: the state holds the list of which of the next calls fail; a failing statement
  changes nothing, and a transaction that is not committed is rolled back. A file is named by the
  components of its directory's path and its own name.
\<close>

section \<open>Records\<close>

datatype liveness_requirement = Required | NotRequired

record policy_record =
  liveness_requirement :: liveness_requirement
  face_match_threshold :: f32
  failure_limit :: u32
  cooldown_duration_seconds :: u32

record credential_blob_record =
  cb_credential_ref :: credential_ref
  encrypted_blob_bytes :: "u8 list"
  key_version :: u32
  cb_created_at :: i64
  cb_updated_at :: i64

record face_template_record =
  ft_template_ref :: string
  enrolled_user_id :: user_id
  ft_model_family :: string
  ft_model_version :: string
  encrypted_template_bytes :: "u8 list"
  ft_created_at :: i64
  ft_updated_at :: i64

datatype audit_event_kind =
    StoreInitialized
  | CredentialBlobSaved
  | CredentialBlobLoaded
  | FaceTemplateSaved
  | PolicyUpdated
  | AuthenticationAttemptLogged

datatype audit_event_outcome = Completed | AuditRejected | AuditFailed

record audit_log_record =
  audit_event_id :: string
  event_kind :: audit_event_kind
  event_outcome :: audit_event_outcome
  occurred_at :: i64
  audit_user_id :: "user_id option"
  detail_code :: string

record stored_user_record =
  su_user_id :: user_id
  su_user_sid :: string
  su_username :: string
  su_account_type :: account_type
  su_credential_ref :: credential_ref
  su_policy_id :: string
  su_created_at :: i64
  su_updated_at :: i64

record user_record =
  ur_user_id :: user_id
  ur_user_sid :: string
  ur_username :: string
  ur_account_type :: account_type
  ur_credential_ref :: credential_ref

section \<open>The tables\<close>

record user_row =
  row_user_sid :: string
  row_username :: string
  row_account_type :: string
  row_credential_ref :: credential_ref
  row_policy_id :: string
  row_created_at :: i64
  row_updated_at :: i64

record database =
  schema_metadata :: "(string \<times> string) list"
  users :: "(user_id \<times> user_row) list"
  credentials :: "(credential_ref \<times> credential_blob_record) list"
  policies :: "(string \<times> policy_record) list"
  face_templates :: "(string \<times> face_template_record) list"
  user_face_templates :: "((user_id \<times> string) \<times> i64) list"
  audit_log :: "audit_log_record list"

definition empty_database :: database where
  "empty_database =
     \<lparr>schema_metadata = [], users = [], credentials = [], policies = [], face_templates = [], user_face_templates = [],
      audit_log = []\<rparr>"

type_synonym 'a statement = "database \<Rightarrow> credential_store_error + (database \<times> 'a)"

text \<open>\<open>INSERT .. ON CONFLICT(user_id) DO UPDATE\<close>, with the foreign keys of \<open>users\<close>.\<close>

definition write_user_record :: "stored_user_record \<Rightarrow> unit statement" where
  "write_user_record r db =
     (if map_of (credentials db) (su_credential_ref r) = None \<or> map_of (policies db) (su_policy_id r) = None
      then Inl RepositoryUnavailable
      else Inr (db\<lparr>users := AList.update (su_user_id r)
                    \<lparr>row_user_sid = su_user_sid r, row_username = su_username r,
                     row_account_type = account_type_to_storage (su_account_type r),
                     row_credential_ref = su_credential_ref r, row_policy_id = su_policy_id r,
                     row_created_at = (case map_of (users db) (su_user_id r) of
                                         None \<Rightarrow> su_created_at r | Some old \<Rightarrow> row_created_at old),
                     row_updated_at = su_updated_at r\<rparr> (users db)\<rparr>, ()))"

definition write_credential_blob_record :: "credential_blob_record \<Rightarrow> unit statement" where
  "write_credential_blob_record r db =
     Inr (db\<lparr>credentials := AList.update (cb_credential_ref r)
               (case map_of (credentials db) (cb_credential_ref r) of
                  None \<Rightarrow> r | Some old \<Rightarrow> r\<lparr>cb_created_at := cb_created_at old\<rparr>) (credentials db)\<rparr>, ())"

definition select_user :: "user_id \<Rightarrow> stored_user_record statement" where
  "select_user uid db =
     (case map_of (users db) uid of
        None \<Rightarrow> Inl UserNotFound
      | Some row \<Rightarrow>
          rbind (account_type_from_storage (row_account_type row)) (\<lambda>t.
            Inr (db, \<lparr>su_user_id = uid, su_user_sid = row_user_sid row, su_username = row_username row,
                      su_account_type = t, su_credential_ref = row_credential_ref row,
                      su_policy_id = row_policy_id row, su_created_at = row_created_at row,
                      su_updated_at = row_updated_at row\<rparr>)))"

definition select_credential_blob :: "credential_ref \<Rightarrow> credential_blob_record statement" where
  "select_credential_blob c db =
     (case map_of (credentials db) c of None \<Rightarrow> Inl CredentialNotFound | Some r \<Rightarrow> Inr (db, r))"

text \<open>\<open>SELECT EXISTS(SELECT 1 FROM users WHERE credential_ref = ?1 AND user_id <> ?2)\<close>.\<close>

definition bound_to_another_user :: "database \<Rightarrow> credential_ref \<Rightarrow> user_id \<Rightarrow> bool" where
  "bound_to_another_user db c uid \<longleftrightarrow>
     list_ex (\<lambda>u. u \<noteq> uid \<and> (case map_of (users db) u of
                                None \<Rightarrow> False | Some row \<Rightarrow> row_credential_ref row = c))
       (map fst (users db))"

definition write_policy_record :: "string \<Rightarrow> policy_record \<Rightarrow> unit statement" where
  "write_policy_record pid r db = Inr (db\<lparr>policies := AList.update pid r (policies db)\<rparr>, ())"

definition select_policy :: "string \<Rightarrow> policy_record statement" where
  "select_policy pid db =
     (case map_of (policies db) pid of None \<Rightarrow> Inl CredentialNotFound | Some r \<Rightarrow> Inr (db, r))"

definition write_face_template :: "face_template_record \<Rightarrow> unit statement" where
  "write_face_template r db =
     (if map_of (users db) (enrolled_user_id r) = None then Inl RepositoryUnavailable
      else Inr (db\<lparr>face_templates := AList.update (ft_template_ref r) r (face_templates db)\<rparr>, ()))"

definition select_face_template :: "string \<Rightarrow> face_template_record statement" where
  "select_face_template t db =
     (case map_of (face_templates db) t of None \<Rightarrow> Inl CredentialNotFound | Some r \<Rightarrow> Inr (db, r))"

definition write_face_template_link :: "user_id \<Rightarrow> string \<Rightarrow> i64 \<Rightarrow> unit statement" where
  "write_face_template_link uid t linked_at db =
     (if map_of (users db) uid = None \<or> map_of (face_templates db) t = None
      then Inl RepositoryUnavailable
      else Inr (db\<lparr>user_face_templates := AList.update (uid, t) linked_at (user_face_templates db)\<rparr>, ()))"

text \<open>\<open>ORDER BY linked_at_unix_ms\<close>; rows of the same time come in the order of the table.\<close>

definition select_face_template_refs :: "user_id \<Rightarrow> string list statement" where
  "select_face_template_refs uid db =
     Inr (db, map (snd \<circ> fst) (sort_key snd (filter (\<lambda>((u, t), _). u = uid) (user_face_templates db))))"

definition insert_audit_log :: "audit_log_record \<Rightarrow> unit statement" where
  "insert_audit_log r db =
     (if list_ex (\<lambda>x. audit_event_id x = audit_event_id r) (audit_log db) then Inl RepositoryUnavailable
      else Inr (db\<lparr>audit_log := audit_log db @ [r]\<rparr>, ()))"

section \<open>The environment\<close>

text \<open>What a path is: a file of other content, a database encrypted with a key, something that is no
  file.\<close>

datatype file_entry =
    RegularFile "u8 list"
  | DatabaseFile string database
  | OtherEntry

type_synonym store_path = "path_component list \<times> string"

type_synonym file_system = "store_path \<Rightarrow> file_entry option"

text \<open>A value of the registry: text as it is stored, or of another type.\<close>

datatype storage_value = RegSz "u16 list" | RegOtherType

text \<open>\<open>rivals\<close>: what other processes do to the files the next times the code leaves a window for them.\<close>

record store_env =
  files :: file_system
  faults :: "bool list"
  rivals :: "(file_system \<Rightarrow> file_system) list"
  randoms :: "nat \<Rightarrow> u8"
  randoms_used :: nat
  storage_registry :: "string \<Rightarrow> storage_value option"

type_synonym 'a store_op = "store_env \<Rightarrow> store_env \<times> (credential_store_error + 'a)"

text \<open>A call of the system: it fails with the error, or goes through.\<close>

definition sys :: "credential_store_error \<Rightarrow> unit store_op" where
  "sys err e =
     (case faults e of
        [] \<Rightarrow> (e, Inr ())
      | b # bs \<Rightarrow> (e\<lparr>faults := bs\<rparr>, if b then Inl err else Inr ()))"

definition put_file :: "store_path \<Rightarrow> file_entry option \<Rightarrow> unit store_op" where
  "put_file p x e = (e\<lparr>files := (files e)(p := x)\<rparr>, Inr ())"

definition get_file :: "store_path \<Rightarrow> file_entry option store_op" where
  "get_file p e = (e, Inr (files e p))"

definition others_run :: "unit store_op" where
  "others_run e =
     (case rivals e of
        [] \<Rightarrow> (e, Inr ())
      | f # fs \<Rightarrow> (e\<lparr>files := f (files e), rivals := fs\<rparr>, Inr ()))"

section \<open>The repository\<close>

text \<open>An open connection: the path of the database and the text of the key set on it.\<close>

type_synonym connection = "store_path \<times> string"

definition read_database :: "connection \<Rightarrow> database store_op" where
  "read_database conn =
     sbind (get_file (fst conn)) (\<lambda>f.
       case f of
         Some (DatabaseFile k db) \<Rightarrow> if k = snd conn then sret db else sfail RepositoryUnavailable
       | _ \<Rightarrow> sfail RepositoryUnavailable)"

text \<open>One statement outside a transaction.\<close>

definition execute :: "connection \<Rightarrow> 'a statement \<Rightarrow> 'a store_op" where
  "execute conn stmt =
     sbind (sys RepositoryUnavailable) (\<lambda>_.
     sbind (read_database conn) (\<lambda>db.
       case stmt db of
         Inl err \<Rightarrow> sfail err
       | Inr (db1, x) \<Rightarrow>
           sbind (put_file (fst conn) (Some (DatabaseFile (snd conn) db1))) (\<lambda>_. sret x)))"

text \<open>A statement inside a transaction works on the transaction's tables.\<close>

definition execute_in :: "database \<Rightarrow> 'a statement \<Rightarrow> (database \<times> 'a) store_op" where
  "execute_in db stmt = sbind (sys RepositoryUnavailable) (\<lambda>_. lift_result (stmt db))"

definition commit :: "connection \<Rightarrow> database \<Rightarrow> unit store_op" where
  "commit conn db =
     sbind (sys RepositoryUnavailable) (\<lambda>_. put_file (fst conn) (Some (DatabaseFile (snd conn) db)))"

text \<open>\<open>Connection::open\<close> creates an empty file; the first statement of the migrations decrypts the
  database, which fails with another key, and an empty file becomes a database.\<close>

definition connection_open :: "store_path \<Rightarrow> unit store_op" where
  "connection_open p =
     sbind (sys RepositoryUnavailable) (\<lambda>_.
     sbind (get_file p) (\<lambda>f.
       case f of
         None \<Rightarrow> put_file p (Some (RegularFile []))
       | Some OtherEntry \<Rightarrow> sfail RepositoryUnavailable
       | Some _ \<Rightarrow> sret ()))"

text \<open>The statements that create what is missing; the last one writes the version.\<close>

definition schema_statements :: "(database \<Rightarrow> database) list" where
  "schema_statements =
     replicate 7 id @ [\<lambda>db. db\<lparr>schema_metadata := AList.update ''current_version'' ''1'' (schema_metadata db)\<rparr>]"

fun run_schema_statements :: "(database \<Rightarrow> database) list \<Rightarrow> database \<Rightarrow> database store_op" where
  "run_schema_statements [] db = sret db"
| "run_schema_statements (f # fs) db =
     sbind (sys SchemaMigrationFailed) (\<lambda>_. run_schema_statements fs (f db))"

definition apply_migrations :: "connection \<Rightarrow> unit store_op" where
  "apply_migrations conn =
     sbind (sys RepositoryUnavailable) (\<lambda>_.
     sbind (get_file (fst conn)) (\<lambda>f.
     sbind (case f of
              Some (RegularFile []) \<Rightarrow> sret empty_database
            | Some (DatabaseFile k db) \<Rightarrow> if k = snd conn then sret db else sfail SchemaMigrationFailed
            | _ \<Rightarrow> sfail SchemaMigrationFailed) (\<lambda>db.
     sbind (run_schema_statements schema_statements db) (\<lambda>db1.
     sbind (sys SchemaMigrationFailed) (\<lambda>_.
       put_file (fst conn) (Some (DatabaseFile (snd conn) db1)))))))"

text \<open>\<open>SqlCipherRepository::open\<close>: two pragmas between the opening and the migrations.\<close>

definition sqlcipher_open :: "store_path \<Rightarrow> u8 list \<Rightarrow> connection store_op" where
  "sqlcipher_open p key =
     sbind (connection_open p) (\<lambda>_.
     sbind (sys RepositoryUnavailable) (\<lambda>_.
     sbind (sys RepositoryUnavailable) (\<lambda>_.
       let conn = (p, encode_sqlcipher_raw_key key)
       in sbind (apply_migrations conn) (\<lambda>_. sret conn))))"

definition repo_save_credential_enrollment ::
  "connection \<Rightarrow> stored_user_record \<Rightarrow> credential_blob_record \<Rightarrow> unit store_op" where
  "repo_save_credential_enrollment conn u b =
     (if su_credential_ref u \<noteq> cb_credential_ref b then sfail RecordValidationFailed
      else
        sbind (sys RepositoryUnavailable) (\<lambda>_.
        sbind (read_database conn) (\<lambda>db.
        sbind (execute_in db (\<lambda>db. Inr (db, bound_to_another_user db (su_credential_ref u) (su_user_id u))))
          (\<lambda>(_, bound).
          if bound then sfail RecordValidationFailed
          else
            sbind (execute_in db (write_credential_blob_record b)) (\<lambda>(db1, _).
            sbind (execute_in db1 (write_user_record u)) (\<lambda>(db2, _).
            commit conn db2))))))"

section \<open>The store over a repository\<close>

definition default_policy_id :: string where "default_policy_id = ''default''"

definition default_face_match_threshold :: f32 where
  "default_face_match_threshold = f32_round False 65 100"

definition store_initialize :: "connection \<Rightarrow> unit store_op" where
  "store_initialize conn =
     execute conn (write_policy_record default_policy_id
       \<lparr>liveness_requirement = NotRequired, face_match_threshold = default_face_match_threshold,
        failure_limit = 3, cooldown_duration_seconds = 30\<rparr>)"

definition stored_of_user :: "user_record \<Rightarrow> stored_user_record" where
  "stored_of_user r =
     \<lparr>su_user_id = ur_user_id r, su_user_sid = ur_user_sid r, su_username = ur_username r,
      su_account_type = ur_account_type r, su_credential_ref = ur_credential_ref r,
      su_policy_id = default_policy_id, su_created_at = 0, su_updated_at = 0\<rparr>"

definition blob_record_of :: "credential_ref \<Rightarrow> u8 list \<Rightarrow> credential_blob_record" where
  "blob_record_of c bytes =
     \<lparr>cb_credential_ref = c, encrypted_blob_bytes = bytes, key_version = 1, cb_created_at = 0,
      cb_updated_at = 0\<rparr>"

definition save_credential_enrollment ::
  "connection \<Rightarrow> user_record \<Rightarrow> credential_blob \<Rightarrow> unit store_op" where
  "save_credential_enrollment conn u b =
     sbind (lift_result (serialize_blob b)) (\<lambda>bytes.
       repo_save_credential_enrollment conn (stored_of_user u) (blob_record_of (ur_credential_ref u) bytes))"

definition upsert_user :: "connection \<Rightarrow> user_record \<Rightarrow> unit store_op" where
  "upsert_user conn u = execute conn (write_user_record (stored_of_user u))"

definition get_user :: "connection \<Rightarrow> user_id \<Rightarrow> user_record store_op" where
  "get_user conn uid =
     sbind (execute conn (select_user uid)) (\<lambda>s.
       sret \<lparr>ur_user_id = su_user_id s, ur_user_sid = su_user_sid s, ur_username = su_username s,
             ur_account_type = su_account_type s, ur_credential_ref = su_credential_ref s\<rparr>)"

definition get_protected_credential :: "connection \<Rightarrow> user_id \<Rightarrow> protected_credential store_op" where
  "get_protected_credential conn uid =
     sbind (get_user conn uid) (\<lambda>u.
       sret \<lparr>pc_user_id = ur_user_id u, pc_credential_ref = ur_credential_ref u\<rparr>)"

definition save_encrypted_credential_blob ::
  "connection \<Rightarrow> credential_ref \<Rightarrow> credential_blob \<Rightarrow> unit store_op" where
  "save_encrypted_credential_blob conn c b =
     sbind (lift_result (serialize_blob b)) (\<lambda>bytes.
       execute conn (write_credential_blob_record (blob_record_of c bytes)))"

definition load_encrypted_credential_blob :: "connection \<Rightarrow> credential_ref \<Rightarrow> credential_blob store_op" where
  "load_encrypted_credential_blob conn c =
     sbind (execute conn (select_credential_blob c)) (\<lambda>r.
       lift_result (deserialize_blob (encrypted_blob_bytes r)))"

definition save_face_template_record :: "connection \<Rightarrow> face_template_record \<Rightarrow> unit store_op" where
  "save_face_template_record conn r = execute conn (write_face_template r)"

definition load_face_template_record :: "connection \<Rightarrow> string \<Rightarrow> face_template_record store_op" where
  "load_face_template_record conn t = execute conn (select_face_template t)"

definition link_face_template_to_user :: "connection \<Rightarrow> user_id \<Rightarrow> string \<Rightarrow> unit store_op" where
  "link_face_template_to_user conn uid t = execute conn (write_face_template_link uid t 0)"

definition list_face_template_refs_for_user :: "connection \<Rightarrow> user_id \<Rightarrow> string list store_op" where
  "list_face_template_refs_for_user conn uid = execute conn (select_face_template_refs uid)"

definition append_audit_log_record :: "connection \<Rightarrow> audit_log_record \<Rightarrow> unit store_op" where
  "append_audit_log_record conn r = execute conn (insert_audit_log r)"

definition load_policy_record :: "connection \<Rightarrow> string \<Rightarrow> policy_record store_op" where
  "load_policy_record conn pid = execute conn (select_policy pid)"

end
