(* ===== verification/Credential_Location.thy ===== *)
theory Credential_Location
  imports Credential_Repository
begin

text \<open>
  Where the credential store lies: the two values in the registry that pin its directory and say
  whether it was initialized (\<open>credential_store/src/location/registry.rs\<close>), and the checks on the
  directory and its two files (\<open>credential_store/src/location.rs\<close>).
\<close>

section \<open>The registry\<close>

definition store_directory_value :: string where "store_directory_value = ''CredentialStoreDir''"

definition initialized_value :: string where "initialized_value = ''StoreInitialized''"

text \<open>The size of a value is 2 to 65536 bytes.\<close>

definition read_wide :: "string \<Rightarrow> u16 list option store_op" where
  "read_wide name e =
     sbind (sys StoreUnavailable) (\<lambda>_.
       case storage_registry e name of
         None \<Rightarrow> sret None
       | Some RegOtherType \<Rightarrow> sfail StoreUnavailable
       | Some (RegSz units) \<Rightarrow>
           if units = [] \<or> 65536 < 2 * length units then sfail StoreUnavailable else sret (Some units)) e"

definition read_string :: "string \<Rightarrow> store_dir option store_op" where
  "read_string name =
     sbind (read_wide name) (\<lambda>w.
       case w of
         None \<Rightarrow> sret None
       | Some units \<Rightarrow>
           if last units \<noteq> 0 \<or> butlast units = [] \<or> 0 \<in> set (butlast units) then sfail RecordValidationFailed
           else sret (Some (butlast units)))"

definition registry_load :: "store_dir option store_op" where
  "registry_load = read_string store_directory_value"

definition registry_initialized :: "bool store_op" where
  "registry_initialized =
     sbind (read_string initialized_value) (\<lambda>v.
       case v of
         None \<Rightarrow> sret False
       | Some p \<Rightarrow>
           if path_eq p (wide_ascii ''1'') then sret True
           else if path_eq p (wide_ascii ''0'') then sret False
           else sfail RecordValidationFailed)"

definition set_registry :: "string \<Rightarrow> storage_value option \<Rightarrow> unit store_op" where
  "set_registry name v e = (e\<lparr>storage_registry := (storage_registry e)(name := v)\<rparr>, Inr ())"

definition set_initialized :: "bool \<Rightarrow> unit store_op" where
  "set_initialized b =
     sbind (sys StoreUnavailable) (\<lambda>_.
       set_registry initialized_value (Some (RegSz (wide_ascii (if b then ''1'' else ''0'') @ [0]))))"

definition registry_save :: "store_dir \<Rightarrow> bool \<Rightarrow> unit store_op" where
  "registry_save p b =
     sbind (sys StoreUnavailable) (\<lambda>_.
     sbind (set_initialized b) (\<lambda>_.
     sbind (sys StoreUnavailable) (\<lambda>_.
     sbind (set_registry store_directory_value (Some (RegSz (p @ [0])))) (\<lambda>_.
     sys StoreUnavailable))))"

definition registry_mark_initialized :: "unit store_op" where
  "registry_mark_initialized =
     sbind registry_initialized (\<lambda>b.
       if b then sret ()
       else
         sbind (sys StoreUnavailable) (\<lambda>_.
         sbind (set_initialized True) (\<lambda>_. sys StoreUnavailable)))"

text \<open>Deleting a value that is not there is no failure.\<close>

definition registry_delete :: "string \<Rightarrow> unit store_op" where
  "registry_delete name = sbind (sys StoreUnavailable) (\<lambda>_. set_registry name None)"

definition registry_clear :: "unit store_op" where
  "registry_clear =
     sbind (sys StoreUnavailable) (\<lambda>_.
     sbind (registry_delete store_directory_value) (\<lambda>_.
     sbind (registry_delete initialized_value) (\<lambda>_. sys StoreUnavailable)))"

section \<open>The directory\<close>

definition master_key_file_name :: string where "master_key_file_name = ''protected-master-key.bin''"

definition database_file_name :: string where "database_file_name = ''credential-store.db''"

definition path_join :: "store_dir \<Rightarrow> string \<Rightarrow> store_path" where
  "path_join d name = (path_components d, name)"

definition validate_absolute_directory :: "store_dir \<Rightarrow> unit store_op" where
  "validate_absolute_directory p =
     (if \<not> path_is_absolute p \<or> ParentDir \<in> set (path_components p) then sfail RecordValidationFailed
      else sret ())"

text \<open>\<open>fs::metadata\<close>: a file, nothing, or something else.\<close>

definition file_exists :: "store_path \<Rightarrow> bool store_op" where
  "file_exists p =
     sbind (sys IoFailed) (\<lambda>_.
     sbind (get_file p) (\<lambda>f.
       case f of
         None \<Rightarrow> sret False
       | Some OtherEntry \<Rightarrow> sfail StoreUnavailable
       | Some _ \<Rightarrow> sret True))"

definition validate_store_directory :: "store_dir \<Rightarrow> bool \<Rightarrow> unit store_op" where
  "validate_store_directory p allow_new =
     sbind (validate_absolute_directory p) (\<lambda>_.
     sbind (file_exists (path_join p master_key_file_name)) (\<lambda>key.
     sbind (file_exists (path_join p database_file_name)) (\<lambda>db.
       if key \<and> db then sret ()
       else if \<not> key \<and> \<not> db \<and> allow_new then sret ()
       else sfail StoreUnavailable)))"

definition load_pinned_store_directory :: "store_dir option store_op" where
  "load_pinned_store_directory =
     sbind registry_load (\<lambda>p.
       case p of
         None \<Rightarrow> sret None
       | Some d \<Rightarrow>
           sbind registry_initialized (\<lambda>i.
           sbind (validate_store_directory d (\<not> i)) (\<lambda>_. sret (Some d))))"

definition path_try_exists :: "store_path \<Rightarrow> bool store_op" where
  "path_try_exists p =
     sbind (sys IoFailed) (\<lambda>_. sbind (get_file p) (\<lambda>f. sret (f \<noteq> None)))"

definition pin_store_directory :: "store_dir \<Rightarrow> store_dir store_op" where
  "pin_store_directory p =
     sbind load_pinned_store_directory (\<lambda>pinned.
       case pinned of
         Some d \<Rightarrow> sret d
       | None \<Rightarrow>
           sbind (validate_store_directory p True) (\<lambda>_.
           sbind (path_try_exists (path_join p database_file_name)) (\<lambda>ex.
           sbind (registry_save p ex) (\<lambda>_. sret p))))"

definition mark_pinned_store_initialized :: "store_dir \<Rightarrow> unit store_op" where
  "mark_pinned_store_initialized p =
     sbind registry_load (\<lambda>d.
       if (case d of None \<Rightarrow> True | Some q \<Rightarrow> \<not> path_eq q p) then sfail StoreUnavailable
       else
         sbind (validate_store_directory p False) (\<lambda>_. registry_mark_initialized))"

fun remove_files :: "store_path list \<Rightarrow> unit store_op" where
  "remove_files [] = sret ()"
| "remove_files (p # ps) =
     sbind (sys IoFailed) (\<lambda>_.
     sbind (get_file p) (\<lambda>f.
       if f = Some OtherEntry then sfail IoFailed
       else sbind (put_file p None) (\<lambda>_. remove_files ps)))"

definition store_data_files :: "string list" where
  "store_data_files =
     [master_key_file_name, database_file_name, ''credential-store.db-wal'', ''credential-store.db-shm'',
      ''credential-store.db-journal'']"

definition delete_pinned_store_data :: "unit store_op" where
  "delete_pinned_store_data =
     sbind registry_load (\<lambda>p.
     sbind (case p of
              None \<Rightarrow> sret ()
            | Some d \<Rightarrow>
                sbind (validate_absolute_directory d) (\<lambda>_. remove_files (map (path_join d) store_data_files)))
       (\<lambda>_. registry_clear))"

end
