(* ===== verification/Credential_Store.thy ===== *)
theory Credential_Store
  imports Credential_Location Logon_Guard
begin

text \<open>
  The credential store as the service uses it: the file of the protected master key
  (\<open>credential_store/src/key_file.rs\<close>, \<open>key_file/atomic_write.rs\<close>), its protection
  (\<open>key_protector.rs\<close>), the encryption of a password (\<open>credential_blob/protector.rs\<close>), and the opening
  of the store, the enrollment and the check of a password
  (\<open>win_service/src/credential_store_config.rs\<close>). AES-GCM and the data protection of Windows are the
  functions of \<open>crypto\<close>, \<open>None\<close> their failure.
\<close>

record crypto =
  aead_seal :: "u8 list \<Rightarrow> u8 list \<Rightarrow> u8 list \<Rightarrow> u8 list \<Rightarrow> u8 list option"
  aead_open :: "u8 list \<Rightarrow> u8 list \<Rightarrow> u8 list \<Rightarrow> u8 list \<Rightarrow> u8 list option"
  dpapi_protect :: "u8 list \<Rightarrow> u8 list option"
  dpapi_unprotect :: "u8 list \<Rightarrow> u8 list option"

section \<open>Random bytes and the protection of the key\<close>

definition fill_cryptographic_bytes :: "nat \<Rightarrow> u8 list store_op" where
  "fill_cryptographic_bytes n =
     sbind (sys RandomGenerationFailed) (\<lambda>_ e.
       (e\<lparr>randoms_used := randoms_used e + n\<rparr>, Inr (map (\<lambda>i. randoms e (randoms_used e + i)) [0..<n])))"

definition master_key_len :: nat where "master_key_len = 32"

definition generate_master_key :: "u8 list store_op" where
  "generate_master_key = map_err (\<lambda>_. KeyGenerationFailed) (fill_cryptographic_bytes master_key_len)"

text \<open>\<open>blob_to_vec\<close>: no output, or an empty one, is a failure.\<close>

definition blob_to_vec :: "u8 list option \<Rightarrow> 'e \<Rightarrow> 'e + u8 list" where
  "blob_to_vec out err = (case out of None \<Rightarrow> Inl err | Some bs \<Rightarrow> if bs = [] then Inl err else Inr bs)"

definition protect_master_key :: "crypto \<Rightarrow> u8 list \<Rightarrow> u8 list store_op" where
  "protect_master_key C key =
     sbind (sys KeyProtectionFailed) (\<lambda>_. lift_result (blob_to_vec (dpapi_protect C key) KeyProtectionFailed))"

definition unprotect_master_key :: "crypto \<Rightarrow> u8 list \<Rightarrow> u8 list store_op" where
  "unprotect_master_key C p =
     sbind (sys KeyUnprotectFailed) (\<lambda>_.
     sbind (lift_result (blob_to_vec (dpapi_unprotect C p) KeyUnprotectFailed)) (\<lambda>key.
       if length key \<noteq> master_key_len then sfail KeyUnprotectFailed else sret key))"

section \<open>The file of the key\<close>

text \<open>A key file is written to a file of its own and moved to its name, which fails when there is
  one. The file on the way has a name nothing reads and is removed in the end, so it is not part of
  the model. Another process may act before the move. The calls before it create the directory and
  the file, write it and flush it.\<close>

definition publish_if_absent :: "store_path \<Rightarrow> u8 list \<Rightarrow> bool store_op" where
  "publish_if_absent p bytes =
     sbind (sys IoFailed) (\<lambda>_.
     sbind (sys IoFailed) (\<lambda>_.
     sbind (sys IoFailed) (\<lambda>_.
     sbind (sys IoFailed) (\<lambda>_.
     sbind others_run (\<lambda>_.
     sbind (sys IoFailed) (\<lambda>_.
     sbind (get_file p) (\<lambda>f.
       if f \<noteq> None then sret False
       else sbind (put_file p (Some (RegularFile bytes))) (\<lambda>_. sret True))))))))"

definition save_if_absent :: "store_path \<Rightarrow> u8 list \<Rightarrow> bool store_op" where
  "save_if_absent p blob =
     (if blob = [] \<or> length blob > max_protected_master_key_len then sfail InvalidProtectedKeyFile
      else publish_if_absent p (key_file_bytes blob))"

definition key_file_save :: "store_path \<Rightarrow> u8 list \<Rightarrow> unit store_op" where
  "key_file_save p blob = sbind (save_if_absent p blob) (\<lambda>b. if \<not> b then sfail IoFailed else sret ())"

text \<open>The bytes of an encrypted database are no key file.\<close>

definition key_file_load :: "store_path \<Rightarrow> u8 list store_op" where
  "key_file_load p =
     sbind (sys IoFailed) (\<lambda>_.
     sbind (get_file p) (\<lambda>f.
     sbind (sys InvalidProtectedKeyFile) (\<lambda>_.
       case f of
         Some (RegularFile bs) \<Rightarrow> lift_result (parse_key_file bs)
       | Some (DatabaseFile _ _) \<Rightarrow> sfail InvalidProtectedKeyFile
       | _ \<Rightarrow> sfail IoFailed)))"

section \<open>The encryption of a password\<close>

definition aes_gcm_nonce_len :: nat where "aes_gcm_nonce_len = 12"

definition encrypt_credential_secret ::
  "crypto \<Rightarrow> u8 list \<Rightarrow> user_id \<Rightarrow> credential_ref \<Rightarrow> u8 list \<Rightarrow> credential_blob store_op" where
  "encrypt_credential_secret C key u c secret =
     sbind (fill_cryptographic_bytes aes_gcm_nonce_len) (\<lambda>nonce.
       case aead_seal C key nonce secret (to_aad_bytes u c) of
         None \<Rightarrow> sfail CredentialBlobEncryptionFailed
       | Some ct \<Rightarrow> sret \<lparr>algorithm = Aes256GcmV1, blob_nonce = nonce, ciphertext = ct\<rparr>)"

definition decrypt_credential_secret ::
  "crypto \<Rightarrow> u8 list \<Rightarrow> user_id \<Rightarrow> credential_ref \<Rightarrow> credential_blob \<Rightarrow>
     credential_store_error + u8 list" where
  "decrypt_credential_secret C key u c b =
     (if algorithm b \<noteq> Aes256GcmV1 \<or> length (blob_nonce b) \<noteq> aes_gcm_nonce_len
      then Inl InvalidCredentialBlob
      else ok_or CredentialBlobDecryptionFailed
             (aead_open C key (blob_nonce b) (ciphertext b) (to_aad_bytes u c)))"

section \<open>The store of the service\<close>

type_synonym 'a service_op = "store_env \<Rightarrow> store_env \<times> (protocol_error + 'a)"

fun credential_store_error_to_protocol_error :: "credential_store_error \<Rightarrow> protocol_error" where
  "credential_store_error_to_protocol_error UserNotFound = Unauthorized"
| "credential_store_error_to_protocol_error CredentialNotFound = Unauthorized"
| "credential_store_error_to_protocol_error StoreUnavailable = TransportUnavailable"
| "credential_store_error_to_protocol_error RepositoryUnavailable = TransportUnavailable"
| "credential_store_error_to_protocol_error IoFailed = TransportUnavailable"
| "credential_store_error_to_protocol_error _ = InvalidMessage"

definition unavailable :: "'a store_op \<Rightarrow> 'a service_op" where
  "unavailable = map_err (\<lambda>_. TransportUnavailable)"

definition store_error :: "'a store_op \<Rightarrow> 'a service_op" where
  "store_error = map_err credential_store_error_to_protocol_error"

record store_paths =
  sp_directory :: store_dir
  pinned :: bool

definition master_key_path :: "store_paths \<Rightarrow> store_path" where
  "master_key_path p = path_join (sp_directory p) master_key_file_name"

definition database_path :: "store_paths \<Rightarrow> store_path" where
  "database_path p = path_join (sp_directory p) database_file_name"

definition from_store_dir :: "store_dir \<Rightarrow> store_paths" where
  "from_store_dir d = \<lparr>sp_directory = d, pinned = False\<rparr>"

text \<open>The arguments: the variable \<open>WINFACEUNLOCK_STORE_DIR\<close>, and the directory of the executable with
  the name of the store joined.\<close>

definition from_environment_or_default ::
  "store_dir option \<Rightarrow> store_dir option \<Rightarrow> store_paths service_op" where
  "from_environment_or_default env_dir exe_dir =
     sbind (unavailable load_pinned_store_directory) (\<lambda>pin.
       case pin of
         Some d \<Rightarrow> sret ((from_store_dir d)\<lparr>pinned := True\<rparr>)
       | None \<Rightarrow>
           (case env_dir of
              Some d \<Rightarrow> if \<not> path_is_absolute d then sfail InvalidMessage else sret (from_store_dir d)
            | None \<Rightarrow>
                (case exe_dir of
                   None \<Rightarrow> sfail TransportUnavailable
                 | Some d \<Rightarrow> sret (from_store_dir d))))"

definition is_file :: "store_path \<Rightarrow> bool service_op" where
  "is_file p = unavailable (file_exists p)"

definition credential_store_files_exist :: "store_paths \<Rightarrow> bool service_op" where
  "credential_store_files_exist p =
     sbind (if pinned p then
              sbind (unavailable load_pinned_store_directory) (\<lambda>d.
                case d of
                  None \<Rightarrow> sfail TransportUnavailable
                | Some q \<Rightarrow>
                    if master_key_path p \<noteq> path_join q master_key_file_name \<or>
                       database_path p \<noteq> path_join q database_file_name
                    then sfail TransportUnavailable else sret ())
            else sret ()) (\<lambda>_.
     sbind (is_file (master_key_path p)) (\<lambda>key.
     sbind (is_file (database_path p)) (\<lambda>db.
       if key \<and> db then sret True
       else if \<not> key \<and> \<not> db then sret False
       else sfail TransportUnavailable)))"

definition load_service_master_key :: "crypto \<Rightarrow> store_path \<Rightarrow> u8 list service_op" where
  "load_service_master_key C p =
     sbind (unavailable (key_file_load p)) (\<lambda>protected. unavailable (unprotect_master_key C protected))"

definition load_or_create_service_master_key :: "crypto \<Rightarrow> store_path \<Rightarrow> u8 list service_op" where
  "load_or_create_service_master_key C p =
     sbind (unavailable (path_try_exists p)) (\<lambda>ex.
       if ex then load_service_master_key C p
       else
         sbind (unavailable generate_master_key) (\<lambda>key.
         sbind (unavailable (protect_master_key C key)) (\<lambda>protected.
         sbind (unavailable (save_if_absent p protected)) (\<lambda>saved.
           if saved then sret key else load_service_master_key C p))))"

definition ensure_parent_directory :: "unit service_op" where
  "ensure_parent_directory = unavailable (sys IoFailed)"

definition open_service_credential_store ::
  "crypto \<Rightarrow> store_paths \<Rightarrow> (connection \<times> u8 list) service_op" where
  "open_service_credential_store C p =
     sbind (credential_store_files_exist p) (\<lambda>_.
     sbind ensure_parent_directory (\<lambda>_.
     sbind ensure_parent_directory (\<lambda>_.
     sbind (load_or_create_service_master_key C (master_key_path p)) (\<lambda>key.
     sbind (unavailable (sqlcipher_open (database_path p) key)) (\<lambda>conn.
     sbind (store_error (store_initialize conn)) (\<lambda>_.
     sbind (if pinned p then unavailable (mark_pinned_store_initialized (sp_directory p)) else sret ()) (\<lambda>_.
       sret (conn, key))))))))"

record windows_credential_enrollment =
  en_user :: user_record
  en_password :: string

definition save_enrollment ::
  "crypto \<Rightarrow> connection \<Rightarrow> u8 list \<Rightarrow> windows_credential_enrollment \<Rightarrow> unit service_op" where
  "save_enrollment C conn key en =
     sbind (store_error (encrypt_credential_secret C key (ur_user_id (en_user en))
              (ur_credential_ref (en_user en)) (string_bytes (en_password en)))) (\<lambda>blob.
       store_error (save_credential_enrollment conn (en_user en) blob))"

text \<open>An enrollment into the pinned store clears the rejections of the guard.\<close>

definition enroll_credential ::
  "crypto \<Rightarrow> store_paths \<Rightarrow> windows_credential_enrollment \<Rightarrow> store_env \<times> registry \<Rightarrow>
     (store_env \<times> registry) \<times> (protocol_error + unit)" where
  "enroll_credential C p en s =
     (case s of (e, g) \<Rightarrow>
        (case sbind (open_service_credential_store C p)
                 (\<lambda>(conn, key). save_enrollment C conn key en) e of
           (e1, Inl err) \<Rightarrow> ((e1, g), Inl err)
         | (e1, Inr _) \<Rightarrow>
             if pinned p then
               (case g_credentials_updated persistent_logon_guard g of
                  (g1, Inl _) \<Rightarrow> ((e1, g1), Inl TransportUnavailable)
                | (g1, Inr _) \<Rightarrow> ((e1, g1), Inr ()))
             else ((e1, g), Inr ())))"

definition is_credential_secret_configured ::
  "crypto \<Rightarrow> store_paths \<Rightarrow> user_id \<Rightarrow> credential_ref \<Rightarrow> bool service_op" where
  "is_credential_secret_configured C p u c =
     sbind (credential_store_files_exist p) (\<lambda>ex.
       if \<not> ex then sret False
       else
         sbind (open_service_credential_store C p) (\<lambda>(conn, key) e.
           case get_user conn u e of
             (e1, Inl UserNotFound) \<Rightarrow> (e1, Inr False)
           | (e1, Inl err) \<Rightarrow> (e1, Inl (credential_store_error_to_protocol_error err))
           | (e1, Inr user) \<Rightarrow>
               (if ur_credential_ref user \<noteq> c then (e1, Inr False)
                else
                  sbind (unavailable (load_encrypted_credential_blob conn c)) (\<lambda>blob.
                  sbind (unavailable (lift_result
                           (decrypt_credential_secret C key (ur_user_id user) (ur_credential_ref user) blob)))
                    (\<lambda>_. sret True)) e1)))"

definition default_policy_user_sid :: string where
  "default_policy_user_sid = ''S-1-5-21-winfaceunlock-pending''"

text \<open>The argument \<open>dev_password\<close> is the variable \<open>WINFACEUNLOCK_DEV_PASSWORD\<close>.\<close>

definition ensure_development_credential_if_missing ::
  "crypto \<Rightarrow> string option \<Rightarrow> connection \<Rightarrow> u8 list \<Rightarrow> user_id \<Rightarrow> unit service_op" where
  "ensure_development_credential_if_missing C dev_password conn key u e =
     (case get_user conn u e of
        (e1, Inr _) \<Rightarrow> (e1, Inr ())
      | (e1, Inl UserNotFound) \<Rightarrow>
          save_enrollment C conn key
            \<lparr>en_user = \<lparr>ur_user_id = u, ur_user_sid = default_policy_user_sid, ur_username = ''dev-user'',
                        ur_account_type = Local, ur_credential_ref = CredentialRef ''dev-credential-ref''\<rparr>,
             en_password = (case dev_password of None \<Rightarrow> ''dev-password'' | Some s \<Rightarrow> s)\<rparr> e1
      | (e1, Inl err) \<Rightarrow> (e1, Inl (credential_store_error_to_protocol_error err)))"

end
