(* ===== verification/Store_Interface.thy ===== *)
theory Store_Interface
  imports Credential_Store
begin

text \<open>
  The trait \<open>CredentialStore\<close> (\<open>credential_store/src/file_store.rs\<close>) and its two implementations: the
  store over the database (\<open>repository_store.rs\<close>) and the one in memory (\<open>FileCredentialStore\<close>). The
  locale \<open>credential_store\<close> states what a client relies on: a successful write is what is read, a
  failed one changes nothing, reading changes nothing.
\<close>

record 's credential_store_ops =
  cs_upsert_user :: "user_record \<Rightarrow> 's \<Rightarrow> 's \<times> (credential_store_error + unit)"
  cs_get_user :: "user_id \<Rightarrow> 's \<Rightarrow> 's \<times> (credential_store_error + user_record)"
  cs_get_protected_credential :: "user_id \<Rightarrow> 's \<Rightarrow> 's \<times> (credential_store_error + protected_credential)"
  cs_save_blob :: "credential_ref \<Rightarrow> credential_blob \<Rightarrow> 's \<Rightarrow> 's \<times> (credential_store_error + unit)"
  cs_load_blob :: "credential_ref \<Rightarrow> 's \<Rightarrow> 's \<times> (credential_store_error + credential_blob)"

definition repository_credential_store :: "connection \<Rightarrow> store_env credential_store_ops" where
  "repository_credential_store conn =
     \<lparr>cs_upsert_user = upsert_user conn,
      cs_get_user = get_user conn,
      cs_get_protected_credential = get_protected_credential conn,
      cs_save_blob = save_encrypted_credential_blob conn,
      cs_load_blob = load_encrypted_credential_blob conn\<rparr>"

section \<open>The store in memory\<close>

record file_store =
  fs_env :: store_env
  key_file :: store_path
  fs_users :: "user_id \<rightharpoonup> user_record"
  encrypted_credential_blobs :: "credential_ref \<rightharpoonup> credential_blob"
  fs_master_key :: "u8 list option"

definition new_file_store :: "store_env \<Rightarrow> store_path \<Rightarrow> file_store" where
  "new_file_store e p =
     \<lparr>fs_env = e, key_file = p, fs_users = Map.empty, encrypted_credential_blobs = Map.empty,
      fs_master_key = None\<rparr>"

definition load_or_create_master_key :: "crypto \<Rightarrow> store_path \<Rightarrow> u8 list store_op" where
  "load_or_create_master_key C p =
     sbind (path_try_exists p) (\<lambda>ex.
       if ex then sbind (key_file_load p) (\<lambda>protected. unprotect_master_key C protected)
       else
         sbind generate_master_key (\<lambda>key.
         sbind (protect_master_key C key) (\<lambda>protected.
         sbind (save_if_absent p protected) (\<lambda>saved.
           if saved then sret key
           else sbind (key_file_load p) (\<lambda>protected. unprotect_master_key C protected)))))"

definition file_store_initialize ::
  "crypto \<Rightarrow> file_store \<Rightarrow> file_store \<times> (credential_store_error + unit)" where
  "file_store_initialize C s =
     (case load_or_create_master_key C (key_file s) (fs_env s) of
        (e, Inl err) \<Rightarrow> (s\<lparr>fs_env := e\<rparr>, Inl err)
      | (e, Inr key) \<Rightarrow> (s\<lparr>fs_env := e, fs_master_key := Some key\<rparr>, Inr ()))"

definition file_get_user :: "user_id \<Rightarrow> file_store \<Rightarrow> file_store \<times> (credential_store_error + user_record)" where
  "file_get_user u s = (s, ok_or UserNotFound (fs_users s u))"

definition file_credential_store :: "file_store credential_store_ops" where
  "file_credential_store =
     \<lparr>cs_upsert_user = (\<lambda>r s. (s\<lparr>fs_users := (fs_users s)(ur_user_id r \<mapsto> r)\<rparr>, Inr ())),
      cs_get_user = file_get_user,
      cs_get_protected_credential = (\<lambda>u.
        sbind (file_get_user u) (\<lambda>r.
          sret \<lparr>pc_user_id = ur_user_id r, pc_credential_ref = ur_credential_ref r\<rparr>)),
      cs_save_blob = (\<lambda>c b s.
        (s\<lparr>encrypted_credential_blobs := (encrypted_credential_blobs s)(c \<mapsto> b)\<rparr>, Inr ())),
      cs_load_blob = (\<lambda>c s. (s, ok_or CredentialNotFound (encrypted_credential_blobs s c)))\<rparr>"

section \<open>What a client relies on\<close>

locale credential_store =
  fixes S :: "'s credential_store_ops"
    and users_of :: "'s \<Rightarrow> user_id \<Rightarrow> user_record option"
    and blobs_of :: "'s \<Rightarrow> credential_ref \<Rightarrow> credential_blob option"
  assumes upsert_ok: "cs_upsert_user S r s = (s', Inr x) \<Longrightarrow>
      users_of s' = (users_of s)(ur_user_id r \<mapsto> r) \<and> blobs_of s' = blobs_of s"
    and upsert_err: "cs_upsert_user S r s = (s', Inl e) \<Longrightarrow> users_of s' = users_of s \<and> blobs_of s' = blobs_of s"
    and get_ok: "cs_get_user S u s = (s', Inr r) \<Longrightarrow> users_of s u = Some r"
    and get_keeps: "users_of (fst (cs_get_user S u s)) = users_of s \<and> blobs_of (fst (cs_get_user S u s)) = blobs_of s"
    and protected_is_user: "cs_get_protected_credential S u s =
      (case cs_get_user S u s of
         (s', Inl e) \<Rightarrow> (s', Inl e)
       | (s', Inr r) \<Rightarrow> (s', Inr \<lparr>pc_user_id = ur_user_id r, pc_credential_ref = ur_credential_ref r\<rparr>))"
    and save_ok: "cs_save_blob S c b s = (s', Inr x) \<Longrightarrow>
      blobs_of s' = (blobs_of s)(c \<mapsto> b) \<and> users_of s' = users_of s"
    and save_err: "cs_save_blob S c b s = (s', Inl e) \<Longrightarrow> blobs_of s' = blobs_of s \<and> users_of s' = users_of s"
    and load_ok: "cs_load_blob S c s = (s', Inr b) \<Longrightarrow> blobs_of s c = Some b"
    and load_keeps: "users_of (fst (cs_load_blob S c s)) = users_of s \<and> blobs_of (fst (cs_load_blob S c s)) = blobs_of s"
begin

lemma get_after_upsert:
  assumes "cs_upsert_user S r s = (s1, Inr x)" and "cs_get_user S (ur_user_id r) s1 = (s2, Inr r')"
  shows "r' = r"
  using upsert_ok [OF assms(1)] get_ok [OF assms(2)] by simp

lemma load_after_save:
  assumes "cs_save_blob S c b s = (s1, Inr x)" and "cs_load_blob S c s1 = (s2, Inr b')"
  shows "b' = b"
  using save_ok [OF assms(1)] load_ok [OF assms(2)] by simp

lemma get_keepsD: "cs_get_user S u s = (s', x) \<Longrightarrow> users_of s' = users_of s \<and> blobs_of s' = blobs_of s"
  using get_keeps [of u s] by simp

lemma protected_ok:
  "cs_get_protected_credential S u s = (s', Inr p) \<Longrightarrow>
     \<exists>r. users_of s u = Some r \<and> p = \<lparr>pc_user_id = ur_user_id r, pc_credential_ref = ur_credential_ref r\<rparr>"
  using get_ok [of u s]
  by (auto simp: protected_is_user split: prod.splits sum.splits)

end

section \<open>The store in memory keeps the contract\<close>

lemma ok_or_Inr_iff: "ok_or e x = Inr y \<longleftrightarrow> x = Some y"
  by (cases x) simp_all

interpretation memory_store: credential_store file_credential_store fs_users encrypted_credential_blobs
  by unfold_locales
    (auto simp: file_credential_store_def file_get_user_def sbind_def sret_def ok_or_Inr_iff
      split: prod.splits sum.splits)

section \<open>The store over the database keeps the contract\<close>

definition repository_database :: "connection \<Rightarrow> store_env \<Rightarrow> database option" where
  "repository_database conn e =
     (case files e (fst conn) of
        Some (DatabaseFile k db) \<Rightarrow> if k = snd conn then Some db else None
      | _ \<Rightarrow> None)"

definition stored_user :: "database \<Rightarrow> user_id \<Rightarrow> user_record option" where
  "stored_user db u =
     (case map_of (users db) u of
        None \<Rightarrow> None
      | Some row \<Rightarrow>
          (case account_type_from_storage (row_account_type row) of
             Inl _ \<Rightarrow> None
           | Inr t \<Rightarrow> Some \<lparr>ur_user_id = u, ur_user_sid = row_user_sid row, ur_username = row_username row,
                            ur_account_type = t, ur_credential_ref = row_credential_ref row\<rparr>))"

definition stored_blob :: "database \<Rightarrow> credential_ref \<Rightarrow> credential_blob option" where
  "stored_blob db c =
     (case map_of (credentials db) c of
        None \<Rightarrow> None | Some r \<Rightarrow> result_ok (deserialize_blob (encrypted_blob_bytes r)))"

definition repository_users :: "connection \<Rightarrow> store_env \<Rightarrow> user_id \<Rightarrow> user_record option" where
  "repository_users conn e u = (case repository_database conn e of None \<Rightarrow> None | Some db \<Rightarrow> stored_user db u)"

definition repository_blobs :: "connection \<Rightarrow> store_env \<Rightarrow> credential_ref \<Rightarrow> credential_blob option" where
  "repository_blobs conn e c = (case repository_database conn e of None \<Rightarrow> None | Some db \<Rightarrow> stored_blob db c)"

lemma sys_files [simp]: "files (fst (sys err e)) = files e"
  by (simp add: sys_def split: list.splits)

lemma sys_cases: "sys err e = (e', r) \<Longrightarrow> files e' = files e \<and> (r = Inl err \<or> r = Inr ())"
  by (auto simp: sys_def split: list.splits if_splits)

lemma repository_database_files: "files e' = files e \<Longrightarrow> repository_database conn e' = repository_database conn e"
  by (simp add: repository_database_def)

lemma read_database_iff:
  "read_database conn e = (e', Inr db) \<longleftrightarrow> e' = e \<and> repository_database conn e = Some db"
  by (auto simp: read_database_def sbind_def get_file_def repository_database_def sret_def sfail_def
      split: option.splits file_entry.splits)

lemma read_database_state: "read_database conn e = (e', r) \<Longrightarrow> e' = e"
  by (auto simp: read_database_def sbind_def get_file_def sret_def sfail_def
      split: option.splits file_entry.splits if_splits)

text \<open>A statement that succeeds replaces the database by what it says; one that fails changes no
  file.\<close>

lemma execute_ok:
  assumes "execute conn stmt e = (e', Inr x)"
  obtains db db1 where "repository_database conn e = Some db" "stmt db = Inr (db1, x)"
    "repository_database conn e' = Some db1"
    "files e' = (files e)(fst conn \<mapsto> DatabaseFile (snd conn) db1)"
proof -
  obtain e1 where 1: "sys RepositoryUnavailable e = (e1, Inr ())"
    and 2: "sbind (read_database conn) (\<lambda>db. case stmt db of Inl err \<Rightarrow> sfail err
       | Inr (db1, x) \<Rightarrow> sbind (put_file (fst conn) (Some (DatabaseFile (snd conn) db1))) (\<lambda>_. sret x)) e1 =
       (e', Inr x)"
    using assms unfolding execute_def sbind_Inr_iff by auto
  obtain db where 3: "repository_database conn e1 = Some db"
    and 4: "(case stmt db of Inl err \<Rightarrow> sfail err
       | Inr (db1, x) \<Rightarrow> sbind (put_file (fst conn) (Some (DatabaseFile (snd conn) db1))) (\<lambda>_. sret x)) e1 =
       (e', Inr x)"
    using 2 unfolding sbind_Inr_iff read_database_iff by auto
  obtain db1 where 5: "stmt db = Inr (db1, x)" and 6: "put_file (fst conn) (Some (DatabaseFile (snd conn) db1)) e1 = (e', Inr ())"
    using 4 by (auto simp: sbind_Inr_iff split: sum.splits prod.splits)
  have f: "files e1 = files e" using sys_cases [OF 1] by simp
  show thesis
  proof (rule that)
    show "repository_database conn e = Some db" using 3 repository_database_files [OF f] by simp
    show "stmt db = Inr (db1, x)" by (rule 5)
    show "repository_database conn e' = Some db1" using 6 by (auto simp: put_file_def repository_database_def)
    show "files e' = (files e)(fst conn \<mapsto> DatabaseFile (snd conn) db1)" using 6 f by (auto simp: put_file_def)
  qed
qed

lemma execute_err: "execute conn stmt e = (e', Inl err) \<Longrightarrow> files e' = files e"
  by (auto simp: execute_def sbind_def sret_def sfail_def put_file_def dest!: sys_cases read_database_state
      split: prod.splits sum.splits)

text \<open>A query leaves the database.\<close>

definition query :: "'a statement \<Rightarrow> bool" where
  "query stmt \<longleftrightarrow> (\<forall>db db1 x. stmt db = Inr (db1, x) \<longrightarrow> db1 = db)"

lemma execute_query:
  assumes "query stmt"
  shows "repository_database conn (fst (execute conn stmt e)) = repository_database conn e"
proof (cases "execute conn stmt e")
  case (Pair e' r)
  show ?thesis
  proof (cases r)
    case (Inl err)
    then have "files e' = files e" using execute_err [of conn stmt e e' err] Pair by simp
    then show ?thesis using Pair by (simp add: repository_database_def)
  next
    case (Inr x)
    then have "execute conn stmt e = (e', Inr x)" using Pair by simp
    then obtain db db1 where "repository_database conn e = Some db" "stmt db = Inr (db1, x)"
      "repository_database conn e' = Some db1"
      by (rule execute_ok)
    then show ?thesis using assms Pair by (auto simp: query_def)
  qed
qed

lemma queries: "query (select_user u)" "query (select_credential_blob c)"
  by (auto simp: query_def select_user_def select_credential_blob_def rbind_Inr_iff split: option.splits)

lemma select_user_iff:
  "select_user u db = Inr (db1, s) \<Longrightarrow>
     stored_user db u = Some \<lparr>ur_user_id = su_user_id s, ur_user_sid = su_user_sid s, ur_username = su_username s,
       ur_account_type = su_account_type s, ur_credential_ref = su_credential_ref s\<rparr> \<and> su_user_id s = u"
  by (auto simp: select_user_def stored_user_def rbind_Inr_iff split: option.splits)

lemma views_cong:
  "repository_database conn e' = repository_database conn e \<Longrightarrow>
     repository_users conn e' = repository_users conn e \<and> repository_blobs conn e' = repository_blobs conn e"
  by (simp add: repository_users_def repository_blobs_def fun_eq_iff)

lemma get_user_state: "fst (get_user conn u e) = fst (execute conn (select_user u) e)"
  by (simp add: get_user_def sbind_def sret_def split: prod.splits sum.splits)

lemma get_user_views:
  "repository_users conn (fst (get_user conn u e)) = repository_users conn e \<and>
   repository_blobs conn (fst (get_user conn u e)) = repository_blobs conn e"
  unfolding get_user_state by (rule views_cong) (rule execute_query, rule queries)

lemma get_user_ok:
  assumes "get_user conn u e = (e', Inr r)"
  shows "repository_users conn e u = Some r \<and> ur_user_id r = u"
proof -
  obtain s where x: "execute conn (select_user u) e = (e', Inr s)"
    and r: "r = \<lparr>ur_user_id = su_user_id s, ur_user_sid = su_user_sid s, ur_username = su_username s,
       ur_account_type = su_account_type s, ur_credential_ref = su_credential_ref s\<rparr>"
    using assms by (auto simp: get_user_def sbind_Inr_iff)
  obtain db db1 where "repository_database conn e = Some db" "select_user u db = Inr (db1, s)"
    by (rule execute_ok [OF x])
  then show ?thesis using select_user_iff [of u db db1 s] r by (simp add: repository_users_def)
qed

lemma load_blob_ok:
  assumes "load_encrypted_credential_blob conn c e = (e', Inr b)"
  shows "repository_blobs conn e c = Some b"
proof -
  obtain s where x: "execute conn (select_credential_blob c) e = (e', Inr s)"
    and r: "deserialize_blob (encrypted_blob_bytes s) = Inr b"
    using assms by (auto simp: load_encrypted_credential_blob_def sbind_Inr_iff)
  obtain db db1 where "repository_database conn e = Some db" "select_credential_blob c db = Inr (db1, s)"
    by (rule execute_ok [OF x])
  then show ?thesis using r
    by (auto simp: repository_blobs_def stored_blob_def select_credential_blob_def split: option.splits)
qed

lemma load_blob_state:
  "fst (load_encrypted_credential_blob conn c e) = fst (execute conn (select_credential_blob c) e)"
  by (simp add: load_encrypted_credential_blob_def sbind_def lift_result_def split: prod.splits sum.splits)

lemma load_blob_views:
  "repository_users conn (fst (load_encrypted_credential_blob conn c e)) = repository_users conn e \<and>
   repository_blobs conn (fst (load_encrypted_credential_blob conn c e)) = repository_blobs conn e"
  unfolding load_blob_state by (rule views_cong) (rule execute_query, rule queries)

lemma upsert_user_ok:
  assumes "upsert_user conn r e = (e', Inr x)"
  shows "repository_users conn e' = (repository_users conn e)(ur_user_id r \<mapsto> r) \<and>
    repository_blobs conn e' = repository_blobs conn e"
proof -
  have "execute conn (write_user_record (stored_of_user r)) e = (e', Inr x)"
    using assms by (simp add: upsert_user_def)
  then obtain db db1 where d: "repository_database conn e = Some db" "repository_database conn e' = Some db1"
    and w: "write_user_record (stored_of_user r) db = Inr (db1, x)"
    by (rule execute_ok)
  have "stored_user db1 = (stored_user db)(ur_user_id r \<mapsto> r)"
    using w by (auto simp: write_user_record_def stored_of_user_def stored_user_def update_conv fun_eq_iff
        split: if_splits)
  moreover have "stored_blob db1 = stored_blob db"
    using w by (auto simp: write_user_record_def stored_blob_def fun_eq_iff split: if_splits)
  ultimately show ?thesis by (simp add: repository_users_def repository_blobs_def d fun_eq_iff)
qed

lemma save_blob_ok:
  assumes "save_encrypted_credential_blob conn c b e = (e', Inr x)"
  shows "repository_blobs conn e' = (repository_blobs conn e)(c \<mapsto> b) \<and>
    repository_users conn e' = repository_users conn e"
proof -
  obtain bytes where s: "serialize_blob b = Inr bytes"
    and "execute conn (write_credential_blob_record (blob_record_of c bytes)) e = (e', Inr x)"
    using assms by (cases "serialize_blob b") (auto simp: save_encrypted_credential_blob_def sbind_Inr_iff)
  then obtain db db1 where d: "repository_database conn e = Some db" "repository_database conn e' = Some db1"
    and w: "write_credential_blob_record (blob_record_of c bytes) db = Inr (db1, x)"
    by (auto elim: execute_ok)
  have "deserialize_blob bytes = Inr b" using s by (simp add: deserialize_serialize)
  then have "stored_blob db1 = (stored_blob db)(c \<mapsto> b)"
    using w by (auto simp: write_credential_blob_record_def blob_record_of_def stored_blob_def update_conv
        fun_eq_iff split: option.splits)
  moreover have "stored_user db1 = stored_user db"
    using w by (auto simp: write_credential_blob_record_def stored_user_def fun_eq_iff)
  ultimately show ?thesis by (simp add: repository_users_def repository_blobs_def d fun_eq_iff)
qed

lemma write_fails:
  "upsert_user conn r e = (e', Inl err) \<Longrightarrow> files e' = files e"
  "save_encrypted_credential_blob conn c b e = (e', Inl err) \<Longrightarrow> files e' = files e"
  by (auto dest: execute_err simp: upsert_user_def save_encrypted_credential_blob_def sbind_def lift_result_def
      split: prod.splits sum.splits)

lemma write_fails_views:
  assumes "files e' = files e"
  shows "repository_users conn e' = repository_users conn e \<and> repository_blobs conn e' = repository_blobs conn e"
  by (rule views_cong) (simp add: repository_database_def assms)

interpretation repository: credential_store "repository_credential_store conn" "repository_users conn"
  "repository_blobs conn"
  for conn
proof (unfold_locales, goal_cases)
  case (5 u s)
  show ?case
    by (simp add: repository_credential_store_def get_protected_credential_def sbind_def sret_def
        split: prod.splits sum.splits)
qed (auto simp: repository_credential_store_def get_user_views load_blob_views
    dest: upsert_user_ok save_blob_ok get_user_ok load_blob_ok write_fails write_fails_views)

end
