(* ===== verification/Credential_Resolver.thy ===== *)
theory Credential_Resolver
  imports Store_Interface Service_Handler
begin

text \<open>
  The resolver of the service over the store (\<open>win_service/src/credential_resolver.rs\<close>): from the user
  of a grant to the password, encrypted for the credential provider
  (\<open>ipc/src/credential_material.rs\<close>).
\<close>

record credential_material_secret =
  cm_user_id :: user_id
  cm_domain :: string
  cm_username :: string
  cm_password :: "u8 list"

definition protect_local_machine :: "crypto \<Rightarrow> u8 list \<Rightarrow> protocol_error + u8 list" where
  "protect_local_machine C bytes = blob_to_vec (dpapi_protect C bytes) Unauthorized"

definition unprotect_local_machine :: "crypto \<Rightarrow> u8 list \<Rightarrow> protocol_error + u8 list" where
  "unprotect_local_machine C bytes = blob_to_vec (dpapi_unprotect C bytes) Unauthorized"

definition protect_credential_material ::
  "crypto \<Rightarrow> credential_material_secret \<Rightarrow> protocol_error + protected_credential_material" where
  "protect_credential_material C m =
     rbind (protect_local_machine C (cm_password m)) (\<lambda>p.
       Inr \<lparr>pcm_user_id = cm_user_id m, pcm_domain = cm_domain m, pcm_username = cm_username m,
            protected_password = p, protection = DpapiLocalMachineV1\<rparr>)"

definition unprotect_credential_material ::
  "crypto \<Rightarrow> protected_credential_material \<Rightarrow> protocol_error + credential_material_secret" where
  "unprotect_credential_material C m =
     (if protection m \<noteq> DpapiLocalMachineV1 then Inl InvalidMessage
      else rbind (unprotect_local_machine C (protected_password m)) (\<lambda>p.
        Inr \<lparr>cm_user_id = pcm_user_id m, cm_domain = pcm_domain m, cm_username = pcm_username m,
             cm_password = p\<rparr>))"

section \<open>The resolver\<close>

definition reject_development_placeholder_credential :: "string \<Rightarrow> string \<Rightarrow> protocol_error + unit" where
  "reject_development_placeholder_credential username c =
     (if username = ''dev-user'' \<and> c = ''dev-credential-ref'' then Inl Unauthorized else Inr ())"

text \<open>\<open>split_once('\\')\<close>.\<close>

fun split_once :: "char \<Rightarrow> string \<Rightarrow> (string \<times> string) option" where
  "split_once d [] = None"
| "split_once d (c # cs) =
     (if c = d then Some ([], cs) else map_option (\<lambda>(a, b). (c # a, b)) (split_once d cs))"

definition domain_separator :: char where "domain_separator = CHR 0x5C"

text \<open>The argument \<open>computer_name\<close> is the variable \<open>COMPUTERNAME\<close>.\<close>

fun credential_domain :: "string option \<Rightarrow> account_type \<Rightarrow> string \<Rightarrow> string" where
  "credential_domain computer_name Local username = (case computer_name of None \<Rightarrow> ''.'' | Some s \<Rightarrow> s)"
| "credential_domain computer_name MicrosoftAccount username = []"
| "credential_domain computer_name Domain username =
     (case split_once domain_separator username of None \<Rightarrow> [] | Some (d, _) \<Rightarrow> d)"

fun credential_username :: "account_type \<Rightarrow> string \<Rightarrow> string" where
  "credential_username Domain username =
     (case split_once domain_separator username of None \<Rightarrow> username | Some (_, u) \<Rightarrow> u)"
| "credential_username _ username = username"

fun credential_ref_text :: "credential_ref \<Rightarrow> string" where
  "credential_ref_text (CredentialRef c) = c"

record 's store_resolver =
  rs_store :: 's
  rs_master_key :: "u8 list option"

text \<open>An operation of the store, its error turned into one of the protocol.\<close>

definition in_store ::
  "('s \<Rightarrow> 's \<times> (credential_store_error + 'a)) \<Rightarrow> 's \<Rightarrow> 's \<times> (protocol_error + 'a)" where
  "in_store = map_err credential_store_error_to_protocol_error"

definition with_store ::
  "('s \<Rightarrow> 's \<times> (protocol_error + 'a)) \<Rightarrow> 's store_resolver \<Rightarrow> 's store_resolver \<times> (protocol_error + 'a)" where
  "with_store m s = (case m (rs_store s) of (e, r) \<Rightarrow> (s\<lparr>rs_store := e\<rparr>, r))"

definition resolve_credential ::
  "'s credential_store_ops \<Rightarrow> auth_grant \<Rightarrow> 's store_resolver \<Rightarrow>
     's store_resolver \<times> (protocol_error + protected_credential)" where
  "resolve_credential S g = with_store (in_store (cs_get_protected_credential S (user_id g)))"

definition resolve_material_in ::
  "crypto \<Rightarrow> string option \<Rightarrow> 's credential_store_ops \<Rightarrow> u8 list option \<Rightarrow> user_id \<Rightarrow>
     's \<Rightarrow> 's \<times> (protocol_error + protected_credential_material)" where
  "resolve_material_in C computer_name S master_key uid =
     sbind (in_store (cs_get_user S uid)) (\<lambda>user.
     sbind (lift_result (reject_development_placeholder_credential (ur_username user)
              (credential_ref_text (ur_credential_ref user)))) (\<lambda>_.
     sbind (in_store (cs_load_blob S (ur_credential_ref user))) (\<lambda>blob.
     sbind (lift_result (ok_or TransportUnavailable master_key)) (\<lambda>key.
     sbind (in_store (lift_result
              (decrypt_credential_secret C key (ur_user_id user) (ur_credential_ref user) blob))) (\<lambda>secret.
       lift_result (protect_credential_material C
         \<lparr>cm_user_id = ur_user_id user,
          cm_domain = credential_domain computer_name (ur_account_type user) (ur_username user),
          cm_username = credential_username (ur_account_type user) (ur_username user),
          cm_password = secret\<rparr>))))))"

definition resolve_credential_material ::
  "crypto \<Rightarrow> string option \<Rightarrow> 's credential_store_ops \<Rightarrow> auth_grant \<Rightarrow> 's store_resolver \<Rightarrow>
     's store_resolver \<times> (protocol_error + protected_credential_material)" where
  "resolve_credential_material C computer_name S g s =
     with_store (resolve_material_in C computer_name S (rs_master_key s) (user_id g)) s"

definition store_resolver_ops ::
  "crypto \<Rightarrow> string option \<Rightarrow> 's credential_store_ops \<Rightarrow> 's store_resolver resolver_ops" where
  "store_resolver_ops C computer_name S =
     \<lparr>resolve_protected_credential = resolve_credential S,
      resolve_protected_credential_material = resolve_credential_material C computer_name S\<rparr>"

section \<open>What a resolver gives out\<close>

text \<open>The material made of a user's record and the secret decrypted for it.\<close>

definition material_of ::
  "crypto \<Rightarrow> string option \<Rightarrow> user_record \<Rightarrow> u8 list \<Rightarrow> protocol_error + protected_credential_material" where
  "material_of C computer_name user secret =
     protect_credential_material C
       \<lparr>cm_user_id = ur_user_id user,
        cm_domain = credential_domain computer_name (ur_account_type user) (ur_username user),
        cm_username = credential_username (ur_account_type user) (ur_username user),
        cm_password = secret\<rparr>"

definition is_placeholder :: "user_record \<Rightarrow> bool" where
  "is_placeholder user \<longleftrightarrow>
     ur_username user = ''dev-user'' \<and> ur_credential_ref user = CredentialRef ''dev-credential-ref''"

lemma reject_iff: "reject_development_placeholder_credential (ur_username u) (credential_ref_text (ur_credential_ref u)) =
    (if is_placeholder u then Inl Unauthorized else Inr ())"
  by (cases "ur_credential_ref u") (simp add: reject_development_placeholder_credential_def is_placeholder_def)

lemma in_store_Inr_iff: "in_store m s = (s1, Inr x) \<longleftrightarrow> m s = (s1, Inr x)"
  by (simp add: in_store_def map_err_Inr_iff)

context credential_store
begin

text \<open>Whatever the store is, material comes only from the user and the password stored in it.\<close>

lemma resolved_from_store:
  assumes "resolve_material_in C cn S mk u s = (s', Inr m)"
  shows "\<exists>r b key secret. users_of s u = Some r \<and> \<not> is_placeholder r \<and>
    blobs_of s (ur_credential_ref r) = Some b \<and> mk = Some key \<and>
    decrypt_credential_secret C key (ur_user_id r) (ur_credential_ref r) b = Inr secret \<and>
    material_of C cn r secret = Inr m"
proof -
  obtain r s1 where g: "cs_get_user S u s = (s1, Inr r)" and p: "\<not> is_placeholder r"
    and 1: "sbind (in_store (cs_load_blob S (ur_credential_ref r))) (\<lambda>blob.
     sbind (lift_result (ok_or TransportUnavailable mk)) (\<lambda>key.
     sbind (in_store (lift_result
              (decrypt_credential_secret C key (ur_user_id r) (ur_credential_ref r) blob))) (\<lambda>secret.
       lift_result (material_of C cn r secret)))) s1 = (s', Inr m)"
    using assms unfolding resolve_material_in_def material_of_def sbind_Inr_iff in_store_Inr_iff reject_iff
    by (auto split: if_splits)
  obtain b s2 key secret where l: "cs_load_blob S (ur_credential_ref r) s1 = (s2, Inr b)"
    and k: "ok_or TransportUnavailable mk = Inr key"
    and d: "decrypt_credential_secret C key (ur_user_id r) (ur_credential_ref r) b = Inr secret"
    and m: "material_of C cn r secret = Inr m"
    using 1 unfolding sbind_Inr_iff in_store_Inr_iff by auto
  have "blobs_of s (ur_credential_ref r) = Some b" using load_ok [OF l] get_keepsD [OF g] by simp
  moreover have "mk = Some key" using k by (simp add: ok_or_Inr_iff)
  ultimately show ?thesis using get_ok [OF g] p d m by metis
qed

lemma resolving_keeps_store:
  "users_of (fst (resolve_material_in C cn S mk u s)) = users_of s \<and>
   blobs_of (fst (resolve_material_in C cn S mk u s)) = blobs_of s"
proof -
  let ?K = "\<lambda>x. users_of x = users_of s \<and> blobs_of x = blobs_of s"
  have "keeps ?K (cs_get_user S v)" "keeps ?K (cs_load_blob S c)" for v c
    using get_keeps [of v] load_keeps [of c] by (simp_all add: keeps_def)
  then have "keeps ?K (resolve_material_in C cn S mk u)"
    unfolding resolve_material_in_def in_store_def by (intro keeps_intros)
  then show ?thesis by (simp add: keeps_def)
qed

end

end
