(* ===== verification/Credential_Steps.thy ===== *)
theory Credential_Steps
  imports Credential_Resolver
begin

text \<open>
  What the operations of the credential store do to its files, for every failure of the system and any
  interference of other processes: the relation \<open>store_step\<close> holds every change, the transaction of an
  enrollment is all or nothing, and a property of the files that the steps keep is kept by every run of
  the service (\<open>run_store_keeps\<close>).
\<close>

section \<open>What an operation may do to the files\<close>

text \<open>An operation that leaves the files (it may write the registry).\<close>

named_theorems reads_intros \<open>operations that leave the files\<close>

definition reads :: "(store_env \<Rightarrow> store_env \<times> 'r) \<Rightarrow> bool" where
  "reads m \<longleftrightarrow> (\<forall>e. files (fst (m e)) = files e \<and> rivals (fst (m e)) = rivals e)"

lemma readsD: "reads m \<Longrightarrow> m e = (e', r) \<Longrightarrow> files e' = files e \<and> rivals e' = rivals e"
  by (auto simp: reads_def dest: spec [of _ e])

lemma reads_keeps: "reads m \<longleftrightarrow> (\<forall>F R. keeps (\<lambda>e. files e = F \<and> rivals e = R) m)"
  by (auto simp: reads_def keeps_def)

lemma reads_sbind [reads_intros]: "reads m \<Longrightarrow> (\<And>x. reads (f x)) \<Longrightarrow> reads (sbind m f)"
  unfolding reads_keeps by (intro allI keeps_sbind) simp_all

lemma reads_map_err [reads_intros]: "reads m \<Longrightarrow> reads (map_err h m)"
  unfolding reads_keeps by (intro allI keeps_map_err) simp_all

lemma reads_basic [reads_intros]:
  "reads (sys err)" "reads (lift_result x)" "reads (read_database conn)" "reads (get_file p)" "reads (sret y)"
  "reads (sfail z)" "reads (set_registry n v)"
  unfolding reads_def
  by (simp_all add: sys_def lift_result_def get_file_def sret_def sfail_def set_registry_def split: list.split)
    (metis read_database_state surjective_pairing)

lemma reads_cases [reads_intros]:
  "(c \<Longrightarrow> reads a) \<Longrightarrow> (\<not> c \<Longrightarrow> reads b) \<Longrightarrow> reads (if c then a else b)"
  "reads a \<Longrightarrow> (\<And>x. reads (f x)) \<Longrightarrow> reads (case v of None \<Rightarrow> a | Some x \<Rightarrow> f x)"
  "(\<And>x. reads (g x)) \<Longrightarrow> (\<And>k x. reads (h k x)) \<Longrightarrow> reads a \<Longrightarrow>
     reads (case y of RegularFile x \<Rightarrow> g x | DatabaseFile k x \<Rightarrow> h k x | OtherEntry \<Rightarrow> a)"
  "(\<And>x. reads (l x)) \<Longrightarrow> (\<And>x. reads (r x)) \<Longrightarrow> reads (case w of Inl x \<Rightarrow> l x | Inr x \<Rightarrow> r x)"
  by (cases c; cases v; cases y; cases w; simp)+

lemma reads_fill [reads_intros]: "reads (fill_cryptographic_bytes n)"
  unfolding fill_cryptographic_bytes_def by (intro reads_intros) (simp add: reads_def)

lemma reads_read_wide [reads_intros]: "reads (read_wide n)"
  unfolding reads_def
proof (intro allI)
  fix e :: store_env
  have "reads (sbind (sys StoreUnavailable) (\<lambda>_.
       case storage_registry e n of
         None \<Rightarrow> sret None
       | Some RegOtherType \<Rightarrow> sfail StoreUnavailable
       | Some (RegSz units) \<Rightarrow>
           if units = [] \<or> 65536 < 2 * length units then sfail StoreUnavailable else sret (Some units)))"
    by (cases "storage_registry e n"; cases "the (storage_registry e n)") (simp_all add: reads_intros)
  then show "files (fst (read_wide n e)) = files e \<and> rivals (fst (read_wide n e)) = rivals e"
    by (simp add: reads_def read_wide_def)
qed

lemma reads_location [reads_intros]:
  "reads (read_string n)"
  "reads registry_load"
  "reads registry_initialized"
  "reads (set_initialized b)"
  "reads registry_mark_initialized"
  "reads (file_exists p)"
  "reads (validate_absolute_directory d)"
  unfolding read_string_def registry_load_def registry_initialized_def set_initialized_def
    registry_mark_initialized_def file_exists_def validate_absolute_directory_def
  by (intro reads_intros)+

lemma reads_directory [reads_intros]:
  "reads (validate_store_directory d b)"
  "reads load_pinned_store_directory"
  "reads (mark_pinned_store_initialized d)"
  "reads (path_try_exists p)"
  unfolding validate_store_directory_def load_pinned_store_directory_def
    mark_pinned_store_initialized_def path_try_exists_def
  by (intro reads_intros)+

lemma reads_key [reads_intros]:
  "reads generate_master_key"
  "reads (protect_master_key C k)"
  "reads (unprotect_master_key C k)"
  "reads (key_file_load p)"
  "reads (encrypt_credential_secret C k u c x)"
  unfolding generate_master_key_def protect_master_key_def unprotect_master_key_def key_file_load_def
    encrypt_credential_secret_def
  by (intro reads_intros)+

lemma reads_unavailable [reads_intros]: "reads m \<Longrightarrow> reads (unavailable m)" "reads m \<Longrightarrow> reads (store_error m)"
  by (simp_all add: unavailable_def store_error_def reads_map_err)

lemma reads_files_exist [reads_intros]: "reads (credential_store_files_exist p)"
  unfolding credential_store_files_exist_def is_file_def by (intro reads_intros)

lemma reads_load_service_key [reads_intros]: "reads (load_service_master_key C p)"
  unfolding load_service_master_key_def by (intro reads_intros)

text \<open>A property of the files that the other processes keep too.\<close>

definition stable :: "(file_system \<Rightarrow> bool) \<Rightarrow> store_env \<Rightarrow> bool" where
  "stable I e \<longleftrightarrow> I (files e) \<and> (\<forall>f \<in> set (rivals e). \<forall>fs. I fs \<longrightarrow> I (f fs))"

lemma stable_reads: "reads m \<Longrightarrow> keeps (stable I) m"
  by (simp add: reads_def keeps_def stable_def)

lemma stable_others_run [keeps_intros]: "keeps (stable I) others_run"
  by (simp add: keeps_def stable_def others_run_def split: list.splits)

lemma keeps_case_option [keeps_intros]:
  "keeps P a \<Longrightarrow> (\<And>x. keeps P (b x)) \<Longrightarrow> keeps P (case v of None \<Rightarrow> a | Some x \<Rightarrow> b x)"
  by (cases v) simp_all

lemma keeps_case_prod [keeps_intros]:
  "(\<And>x y. keeps P (f x y)) \<Longrightarrow> keeps P (case v of (x, y) \<Rightarrow> f x y)"
  by (cases v) simp

lemmas stable_calls [keeps_intros] =
  reads_basic [THEN stable_reads] reads_directory [THEN stable_reads] reads_key [THEN stable_reads]
  reads_files_exist [THEN stable_reads] reads_load_service_key [THEN stable_reads]

lemma stable_unavailable [keeps_intros]:
  "keeps P m \<Longrightarrow> keeps P (unavailable m)" "keeps P m \<Longrightarrow> keeps P (store_error m)"
  by (simp_all add: unavailable_def store_error_def keeps_map_err)

section \<open>Statements and transactions\<close>

lemma sys_state:
  "sys err e = (e', r) \<Longrightarrow> files e' = files e \<and> rivals e' = rivals e \<and> (r = Inl err \<or> r = Inr ())"
  using sys_cases [of err e e' r] readsD [OF reads_basic(1) [of err], of e e' r] by auto

lemma execute_rivals: "rivals (fst (execute conn stmt e)) = rivals e"
  by (auto simp: execute_def sbind_def sret_def sfail_def put_file_def dest!: sys_state read_database_state
      split: prod.splits sum.splits)

lemma stable_execute:
  assumes "\<And>fs db db1 x. I fs \<Longrightarrow> fs (fst conn) = Some (DatabaseFile (snd conn) db) \<Longrightarrow>
    stmt db = Inr (db1, x) \<Longrightarrow> I (fs(fst conn \<mapsto> DatabaseFile (snd conn) db1))"
  shows "keeps (stable I) (execute conn stmt)"
proof (rule keepsI)
  fix e assume s: "stable I e"
  obtain e' r where x: "execute conn stmt e = (e', r)" by fastforce
  have "I (files e')"
  proof (cases r)
    case (Inl err)
    then show ?thesis using x execute_err [of conn stmt e e' err] s by (simp add: stable_def)
  next
    case (Inr y)
    then have "execute conn stmt e = (e', Inr y)" using x by simp
    then obtain db db1 where "repository_database conn e = Some db" "stmt db = Inr (db1, y)"
      "files e' = (files e)(fst conn \<mapsto> DatabaseFile (snd conn) db1)"
      by (rule execute_ok)
    then show ?thesis using s assms [of "files e" db db1 y]
      by (auto simp: stable_def repository_database_def split: option.splits file_entry.splits if_splits)
  qed
  then show "stable I (fst (execute conn stmt e))"
    using s execute_rivals [of conn stmt e] x by (simp add: stable_def)
qed

definition enrolled_tables ::
  "stored_user_record \<Rightarrow> credential_blob_record \<Rightarrow> database \<Rightarrow> database option" where
  "enrolled_tables u b db =
     (if su_credential_ref u \<noteq> cb_credential_ref b \<or> bound_to_another_user db (su_credential_ref u) (su_user_id u)
      then None
      else (case write_credential_blob_record b db of
              Inl _ \<Rightarrow> None
            | Inr (db1, _) \<Rightarrow> map_option fst (result_ok (write_user_record u db1))))"

lemma execute_in_iff:
  "execute_in db stmt e = (e', Inr y) \<longleftrightarrow> sys RepositoryUnavailable e = (e', Inr ()) \<and> stmt db = Inr y"
  by (auto simp: execute_in_def sbind_Inr_iff)

text \<open>An operation that leaves the files when it fails.\<close>

definition all_or_nothing :: "(store_env \<Rightarrow> store_env \<times> ('e + 'a)) \<Rightarrow> bool" where
  "all_or_nothing m \<longleftrightarrow>
     (\<forall>e e' err. m e = (e', Inl err) \<longrightarrow> files e' = files e \<and> rivals e' = rivals e)"

lemma reads_execute_in: "reads (execute_in db stmt)"
  unfolding execute_in_def by (intro reads_intros)

lemma all_or_nothing_sbind:
  assumes m: "reads m" and f: "\<And>x. all_or_nothing (f x)"
  shows "all_or_nothing (sbind m f)"
  unfolding all_or_nothing_def
proof (intro allI impI)
  fix e e' err assume s: "sbind m f e = (e', Inl err)"
  obtain e1 r where 1: "m e = (e1, r)" by fastforce
  note k = readsD [OF m 1]
  show "files e' = files e \<and> rivals e' = rivals e"
  proof (cases r)
    case (Inl x)
    then show ?thesis using s 1 k by (simp add: sbind_def)
  next
    case (Inr x)
    then have "f x e1 = (e', Inl err)" using s 1 by (simp add: sbind_def)
    then show ?thesis using f [of x] k unfolding all_or_nothing_def by metis
  qed
qed

lemma all_or_nothing_if: "all_or_nothing a \<Longrightarrow> all_or_nothing b \<Longrightarrow> all_or_nothing (if c then a else b)"
  by simp

lemma all_or_nothing_sfail: "all_or_nothing (sfail e)"
  by (simp add: all_or_nothing_def)

lemma all_or_nothing_commit: "all_or_nothing (commit conn db)"
  by (auto simp: all_or_nothing_def commit_def sbind_def put_file_def dest!: sys_state
      split: prod.splits sum.splits)

lemma all_or_nothing_prod: "(\<And>x y. all_or_nothing (f x y)) \<Longrightarrow> all_or_nothing (case v of (x, y) \<Rightarrow> f x y)"
  by (cases v) simp

lemma enrollment_all_or_nothing: "all_or_nothing (repo_save_credential_enrollment conn u b)"
  unfolding repo_save_credential_enrollment_def
  by (intro all_or_nothing_if all_or_nothing_sfail all_or_nothing_sbind reads_basic reads_execute_in
      all_or_nothing_prod all_or_nothing_commit)

text \<open>The transaction of an enrollment when it is committed: all its writes are there.\<close>

lemma enrollment_committed:
  assumes "repo_save_credential_enrollment conn u b e = (e', Inr x)"
  obtains db db2 where "repository_database conn e = Some db" "enrolled_tables u b db = Some db2"
    "files e' = (files e)(fst conn \<mapsto> DatabaseFile (snd conn) db2)" "rivals e' = rivals e"
proof -
  have ne: "su_credential_ref u = cb_credential_ref b"
    by (rule ccontr) (use assms in \<open>simp add: repo_save_credential_enrollment_def\<close>)
  from assms ne obtain e1 db e2 bound db1 e3 db2 e4 where
    1: "sys RepositoryUnavailable e = (e1, Inr ())" and 2: "repository_database conn e1 = Some db"
    and 3: "sys RepositoryUnavailable e1 = (e2, Inr ())"
    and 4: "\<not> bound_to_another_user db (su_credential_ref u) (su_user_id u)"
    and 5: "sys RepositoryUnavailable e2 = (e3, Inr ())" "write_credential_blob_record b db = Inr (db1, ())"
    and 6: "sys RepositoryUnavailable e3 = (e4, Inr ())" "write_user_record u db1 = Inr (db2, ())"
    and 7: "commit conn db2 e4 = (e', Inr x)"
    unfolding repo_save_credential_enrollment_def
    by (auto simp: sbind_Inr_iff execute_in_iff read_database_iff split: if_splits)
  have f: "files e4 = files e" "rivals e4 = rivals e"
    using 1 3 5 6 by (auto dest!: sys_state)
  have "files e' = (files e)(fst conn \<mapsto> DatabaseFile (snd conn) db2)" "rivals e' = rivals e"
    using 7 f by (auto simp: commit_def sbind_Inr_iff put_file_def dest!: sys_state)
  moreover have "repository_database conn e = Some db"
    using 2 sys_state [OF 1] by (simp add: repository_database_def)
  moreover have "enrolled_tables u b db = Some db2"
    using ne 4 5 6 by (simp add: enrolled_tables_def)
  ultimately show thesis by (rule that [rotated 2])
qed

section \<open>The steps of the service on the files\<close>

text \<open>Everything the service ever does to the files of its store.\<close>

definition migrated :: "database \<Rightarrow> database" where
  "migrated db = db\<lparr>schema_metadata := AList.update ''current_version'' ''1'' (schema_metadata db)\<rparr>"

inductive store_step :: "store_path \<Rightarrow> store_path \<Rightarrow> file_system \<Rightarrow> file_system \<Rightarrow> bool"
  for kp dp where
  publish_key: "fs kp = None \<Longrightarrow> store_step kp dp fs (fs(kp \<mapsto> RegularFile (key_file_bytes blob)))"
| create_database: "fs dp = None \<Longrightarrow> store_step kp dp fs (fs(dp \<mapsto> RegularFile []))"
| encrypt_database: "fs dp = Some (RegularFile []) \<Longrightarrow>
    store_step kp dp fs (fs(dp \<mapsto> DatabaseFile k (migrated empty_database)))"
| migrate_database: "fs dp = Some (DatabaseFile k db) \<Longrightarrow>
    store_step kp dp fs (fs(dp \<mapsto> DatabaseFile k (migrated db)))"
| write_policy: "fs dp = Some (DatabaseFile k db) \<Longrightarrow>
    store_step kp dp fs (fs(dp \<mapsto> DatabaseFile k (db\<lparr>policies := AList.update pid r (policies db)\<rparr>)))"
| write_enrollment: "fs dp = Some (DatabaseFile k db) \<Longrightarrow> enrolled_tables u b db = Some db2 \<Longrightarrow>
    store_step kp dp fs (fs(dp \<mapsto> DatabaseFile k db2))"

definition closed :: "store_paths \<Rightarrow> (file_system \<Rightarrow> bool) \<Rightarrow> bool" where
  "closed p I \<longleftrightarrow> (\<forall>fs fs'. I fs \<longrightarrow> store_step (master_key_path p) (database_path p) fs fs' \<longrightarrow> I fs')"

lemma closedD: "closed p I \<Longrightarrow> store_step (master_key_path p) (database_path p) fs fs' \<Longrightarrow> I fs \<Longrightarrow> I fs'"
  by (auto simp: closed_def)

text \<open>An operation whose effect on the files is nothing or one step.\<close>

definition one_step :: "store_paths \<Rightarrow> (store_env \<Rightarrow> store_env \<times> 'r) \<Rightarrow> bool" where
  "one_step p m \<longleftrightarrow> (\<forall>e. rivals (fst (m e)) = rivals e \<and>
     (files (fst (m e)) = files e \<or>
      store_step (master_key_path p) (database_path p) (files e) (files (fst (m e)))))"

lemma stable_one_step:
  assumes "one_step p m" and "closed p I"
  shows "keeps (stable I) m"
proof (rule keepsI)
  fix e assume "stable I e"
  then show "stable I (fst (m e))"
    using assms closedD [OF assms(2), of "files e" "files (fst (m e))"]
    unfolding one_step_def stable_def by metis
qed

lemma run_schema_statements_state:
  "run_schema_statements fs db e = (e', r) \<Longrightarrow>
     files e' = files e \<and> rivals e' = rivals e \<and> (\<forall>db1. r = Inr db1 \<longrightarrow> db1 = fold (\<lambda>f. f) fs db)"
proof (induction fs arbitrary: db e)
  case Nil
  then show ?case by simp
next
  case (Cons f fs)
  obtain e1 q where 1: "sys SchemaMigrationFailed e = (e1, q)" by fastforce
  note s = sys_state [OF 1]
  show ?case
  proof (cases q)
    case (Inl x)
    then show ?thesis using Cons.prems 1 s by (auto simp: sbind_def)
  next
    case (Inr x)
    then have "run_schema_statements fs (f db) e1 = (e', r)" using Cons.prems 1 by (simp add: sbind_def)
    from Cons.IH [OF this] show ?thesis using s by simp
  qed
qed

lemma fold_schema_statements: "fold (\<lambda>f. f) schema_statements db = migrated db"
  by (simp add: schema_statements_def migrated_def numeral_eq_Suc)

lemma connection_open_step: "one_step p (connection_open (database_path p))"
  unfolding one_step_def
proof (intro allI)
  fix e
  obtain e1 q where 1: "sys RepositoryUnavailable e = (e1, q)" by fastforce
  show "rivals (fst (connection_open (database_path p) e)) = rivals e \<and>
    (files (fst (connection_open (database_path p) e)) = files e \<or>
     store_step (master_key_path p) (database_path p) (files e) (files (fst (connection_open (database_path p) e))))"
    using sys_state [OF 1] 1 create_database [of "files e" "database_path p" "master_key_path p"]
    by (auto simp: connection_open_def sbind_def get_file_def put_file_def sfail_def sret_def
        split: option.splits file_entry.splits sum.splits)
qed

lemma migrate_and_commit_state:
  defines "rest \<equiv> \<lambda>conn db. sbind (run_schema_statements schema_statements db) (\<lambda>db1.
     sbind (sys SchemaMigrationFailed) (\<lambda>_. put_file (fst conn) (Some (DatabaseFile (snd conn) db1))))"
  shows "rivals (fst (rest conn db e)) = rivals e \<and>
    (files (fst (rest conn db e)) = files e \<or>
     files (fst (rest conn db e)) = (files e)(fst conn \<mapsto> DatabaseFile (snd conn) (migrated db)))"
proof -
  obtain e1 q where 1: "run_schema_statements schema_statements db e = (e1, q)" by fastforce
  note s1 = run_schema_statements_state [OF 1, unfolded fold_schema_statements]
  show ?thesis
  proof (cases q)
    case (Inl x)
    then show ?thesis using 1 s1 by (simp add: rest_def sbind_def)
  next
    case (Inr db1)
    obtain e2 q2 where 2: "sys SchemaMigrationFailed e1 = (e2, q2)" by fastforce
    show ?thesis using 1 2 s1 sys_state [OF 2] Inr
      by (cases q2) (simp_all add: rest_def sbind_def put_file_def)
  qed
qed

lemma apply_migrations_step: "snd conn = k \<Longrightarrow> fst conn = database_path p \<Longrightarrow> one_step p (apply_migrations conn)"
  unfolding one_step_def
proof (intro allI)
  fix e assume c: "snd conn = k" "fst conn = database_path p"
  let ?read = "\<lambda>f. case f of
              Some (RegularFile []) \<Rightarrow> sret empty_database
            | Some (DatabaseFile k db) \<Rightarrow> if k = snd conn then sret db else sfail SchemaMigrationFailed
            | _ \<Rightarrow> sfail SchemaMigrationFailed"
  let ?rest = "\<lambda>db. sbind (run_schema_statements schema_statements db) (\<lambda>db1.
     sbind (sys SchemaMigrationFailed) (\<lambda>_. put_file (fst conn) (Some (DatabaseFile (snd conn) db1))))"
  obtain e1 q where 1: "sys RepositoryUnavailable e = (e1, q)" by fastforce
  note s1 = sys_state [OF 1]
  note rest = migrate_and_commit_state [where conn = conn and e = e1]
  show "rivals (fst (apply_migrations conn e)) = rivals e \<and>
    (files (fst (apply_migrations conn e)) = files e \<or>
     store_step (master_key_path p) (database_path p) (files e) (files (fst (apply_migrations conn e))))"
  proof (cases q)
    case (Inl x)
    then show ?thesis using 1 s1 by (simp add: apply_migrations_def sbind_def)
  next
    case (Inr x)
    then have a: "apply_migrations conn e = sbind (?read (files e (fst conn))) ?rest e1"
      using 1 s1 by (simp add: apply_migrations_def sbind_step [of "sys _"] sbind_step [of "get_file _"] get_file_def)
    consider (new) "files e (fst conn) = Some (RegularFile [])"
      | (old) db where "files e (fst conn) = Some (DatabaseFile (snd conn) db)"
      | (fail) "files e (fst conn) \<noteq> Some (RegularFile [])"
          "\<And>db. files e (fst conn) \<noteq> Some (DatabaseFile (snd conn) db)"
      by blast
    then show ?thesis
    proof cases
      case new
      then have "apply_migrations conn e = ?rest empty_database e1" unfolding a by simp
      then show ?thesis using rest [of empty_database] s1 c new
          encrypt_database [of "files e" "database_path p" "master_key_path p" k] by auto
    next
      case old
      then have "apply_migrations conn e = ?rest db e1" unfolding a by simp
      then show ?thesis using rest [of db] s1 c old
          migrate_database [of "files e" "database_path p" k db "master_key_path p"] by auto
    next
      case fail
      then have "?read (files e (fst conn)) = (sfail SchemaMigrationFailed :: database store_op)"
        by (auto split: option.splits file_entry.splits list.splits)
      then have "apply_migrations conn e = (e1, Inl SchemaMigrationFailed)"
        using a by (simp only: sbind_sfail)
      then show ?thesis using s1 by simp
    qed
  qed
qed

text \<open>The key file is published in one step, after what other processes did.\<close>

definition keeps_absent_publish :: "store_path \<Rightarrow> (file_system \<Rightarrow> bool) \<Rightarrow> bool" where
  "keeps_absent_publish kp I \<longleftrightarrow>
     (\<forall>fs blob. I fs \<longrightarrow> fs kp = None \<longrightarrow> I (fs(kp \<mapsto> RegularFile (key_file_bytes blob))))"

lemma closed_publish: "closed p I \<Longrightarrow> keeps_absent_publish (master_key_path p) I"
  by (auto simp: keeps_absent_publish_def intro: closedD publish_key)

lemma stable_publish_move:
  assumes "keeps_absent_publish kp I"
  shows "keeps (stable I) (sbind (get_file kp) (\<lambda>f.
     if f \<noteq> None then sret False
     else sbind (put_file kp (Some (RegularFile (key_file_bytes blob)))) (\<lambda>_. sret True)))"
  using assms
  by (auto simp: keeps_def stable_def keeps_absent_publish_def sbind_def get_file_def put_file_def sret_def)

lemma stable_save_if_absent: "keeps_absent_publish kp I \<Longrightarrow> keeps (stable I) (save_if_absent kp blob)"
  unfolding save_if_absent_def publish_if_absent_def
  by (intro keeps_intros stable_publish_move)

lemma stable_master_key:
  "keeps_absent_publish kp I \<Longrightarrow> keeps (stable I) (load_or_create_service_master_key C kp)"
  unfolding load_or_create_service_master_key_def load_service_master_key_def
  by (intro keeps_intros stable_save_if_absent)

lemma stable_sqlcipher_open: "closed p I \<Longrightarrow> keeps (stable I) (sqlcipher_open (database_path p) key)"
  unfolding sqlcipher_open_def Let_def
  by (intro keeps_intros stable_one_step [OF connection_open_step]
      stable_one_step [OF apply_migrations_step [OF refl]]) simp_all

lemma stable_write_policy:
  assumes "closed p I" and "fst conn = database_path p"
  shows "keeps (stable I) (execute conn (write_policy_record pid r))"
proof (rule stable_execute)
  fix fs db db1 x
  assume "I fs" "fs (fst conn) = Some (DatabaseFile (snd conn) db)" "write_policy_record pid r db = Inr (db1, x)"
  then show "I (fs(fst conn \<mapsto> DatabaseFile (snd conn) db1))"
    using closedD [OF assms(1) write_policy] assms(2) by (auto simp: write_policy_record_def)
qed

lemma stable_query: "query stmt \<Longrightarrow> keeps (stable I) (execute conn stmt)"
  by (rule stable_execute) (metis query_def fun_upd_triv)

lemma stable_get_user [keeps_intros]: "keeps (stable I) (get_user conn u)"
  unfolding get_user_def by (intro keeps_intros stable_query queries)

lemma stable_load_blob [keeps_intros]: "keeps (stable I) (load_encrypted_credential_blob conn c)"
  unfolding load_encrypted_credential_blob_def by (intro keeps_intros stable_query queries)

lemma stable_transaction:
  assumes "closed p I" and "fst conn = database_path p"
  shows "keeps (stable I) (repo_save_credential_enrollment conn u b)"
proof (rule keepsI)
  fix e assume s: "stable I e"
  obtain e' r where x: "repo_save_credential_enrollment conn u b e = (e', r)" by fastforce
  have "stable I e'"
  proof (cases r)
    case (Inl err)
    then have "files e' = files e" "rivals e' = rivals e"
      using enrollment_all_or_nothing [of conn u b] x unfolding all_or_nothing_def by metis+
    then show ?thesis using s by (simp add: stable_def)
  next
    case (Inr y)
    then have "repo_save_credential_enrollment conn u b e = (e', Inr y)" using x by simp
    then obtain db db2 where d: "repository_database conn e = Some db" "enrolled_tables u b db = Some db2"
      "files e' = (files e)(fst conn \<mapsto> DatabaseFile (snd conn) db2)" "rivals e' = rivals e"
      by (rule enrollment_committed)
    have "files e (database_path p) = Some (DatabaseFile (snd conn) db)"
      using d(1) assms(2) by (simp add: repository_database_def split: option.splits file_entry.splits if_splits)
    then show ?thesis using closedD [OF assms(1) write_enrollment] d(2-) s assms(2) by (simp add: stable_def)
  qed
  then show "stable I (fst (repo_save_credential_enrollment conn u b e))" by (simp add: x)
qed

lemma stable_save_enrollment:
  assumes "closed p I" and "fst conn = database_path p"
  shows "keeps (stable I) (save_enrollment C conn key en)"
  unfolding save_enrollment_def save_credential_enrollment_def
  by (intro keeps_intros stable_transaction [OF assms])

lemma sqlcipher_open_connection:
  "sqlcipher_open d key e = (e', Inr conn) \<Longrightarrow> conn = (d, encode_sqlcipher_raw_key key)"
  by (auto simp: sqlcipher_open_def sbind_Inr_iff Let_def)

text \<open>After an operation that gives a value, what follows may rely on the value.\<close>

lemma keeps_sbind_value:
  assumes "keeps P m" and "\<And>e e' x. m e = (e', Inr x) \<Longrightarrow> keeps P (f x)"
  shows "keeps P (sbind m f)"
proof (rule keepsI)
  fix e assume "P e"
  obtain e1 r where 1: "m e = (e1, r)" by fastforce
  then have "P e1" using assms(1) \<open>P e\<close> by (auto simp: keeps_def dest: spec [of _ e])
  then show "P (fst (sbind m f e))"
    using 1 assms(2) [of e e1] by (cases r) (auto simp: sbind_def keeps_def)
qed

lemma unavailable_Inr_iff: "unavailable m e = (e', Inr x) \<longleftrightarrow> m e = (e', Inr x)"
  "store_error m e = (e', Inr x) \<longleftrightarrow> m e = (e', Inr x)"
  by (simp_all add: unavailable_def store_error_def map_err_Inr_iff)

text \<open>The opening after the key is known.\<close>

definition open_with_key :: "store_paths \<Rightarrow> u8 list \<Rightarrow> (connection \<times> u8 list) service_op" where
  "open_with_key p key =
     sbind (unavailable (sqlcipher_open (database_path p) key)) (\<lambda>conn.
     sbind (store_error (store_initialize conn)) (\<lambda>_.
     sbind (if pinned p then unavailable (mark_pinned_store_initialized (sp_directory p)) else sret ()) (\<lambda>_.
       sret (conn, key))))"

lemma open_split:
  "open_service_credential_store C p =
     sbind (credential_store_files_exist p) (\<lambda>_.
     sbind ensure_parent_directory (\<lambda>_.
     sbind ensure_parent_directory (\<lambda>_.
     sbind (load_or_create_service_master_key C (master_key_path p)) (open_with_key p))))"
  unfolding open_service_credential_store_def open_with_key_def ..

lemma stable_open_with_key:
  assumes "closed p I"
  shows "keeps (stable I) (open_with_key p key)"
  unfolding open_with_key_def
proof (rule keeps_sbind_value)
  show "keeps (stable I) (unavailable (sqlcipher_open (database_path p) key))"
    by (intro stable_unavailable stable_sqlcipher_open assms)
next
  fix e e' conn
  assume "unavailable (sqlcipher_open (database_path p) key) e = (e', Inr conn)"
  then have "fst conn = database_path p"
    by (auto simp: unavailable_Inr_iff dest: sqlcipher_open_connection)
  then show "keeps (stable I) (sbind (store_error (store_initialize conn)) (\<lambda>_.
     sbind (if pinned p then unavailable (mark_pinned_store_initialized (sp_directory p)) else sret ()) (\<lambda>_.
       sret (conn, key))))"
    unfolding store_initialize_def by (intro keeps_intros stable_write_policy [OF assms])
qed

lemma reads_ensure [reads_intros]: "reads ensure_parent_directory"
  unfolding ensure_parent_directory_def by (intro reads_intros)

lemma stable_open:
  assumes "closed p I"
  shows "keeps (stable I) (open_service_credential_store C p)"
  unfolding open_split
  by (intro keeps_sbind stable_reads reads_files_exist reads_ensure stable_open_with_key
      stable_master_key closed_publish assms)

lemma open_connection:
  "open_service_credential_store C p e = (e', Inr (conn, key)) \<Longrightarrow>
     conn = (database_path p, encode_sqlcipher_raw_key key)"
  by (auto simp: open_service_credential_store_def sbind_Inr_iff unavailable_Inr_iff
      dest: sqlcipher_open_connection)

section \<open>Runs of the service\<close>

text \<open>The calls the service makes of its store; a resolver keeps its connection and its key from the
  time it was built.\<close>

datatype store_call =
    OpenStore
  | EnrollCredential windows_credential_enrollment
  | CheckCredential user_id credential_ref
  | EnsureDevelopmentCredential "string option" user_id
  | ResolveMaterial string "u8 list option" user_id

type_synonym store_machine = "store_env \<times> registry"

definition on_store :: "'a service_op \<Rightarrow> store_machine \<Rightarrow> store_machine" where
  "on_store m s = (fst (m (fst s)), snd s)"

fun call_store :: "crypto \<Rightarrow> string option \<Rightarrow> store_paths \<Rightarrow> store_call \<Rightarrow> store_machine \<Rightarrow> store_machine" where
  "call_store C cn p OpenStore s = on_store (open_service_credential_store C p) s"
| "call_store C cn p (EnrollCredential en) s = fst (enroll_credential C p en s)"
| "call_store C cn p (CheckCredential u c) s = on_store (is_credential_secret_configured C p u c) s"
| "call_store C cn p (EnsureDevelopmentCredential pw u) s =
     on_store (sbind (open_service_credential_store C p) (\<lambda>(conn, key).
       ensure_development_credential_if_missing C pw conn key u)) s"
| "call_store C cn p (ResolveMaterial k mk u) s =
     on_store (resolve_material_in C cn (repository_credential_store (database_path p, k)) mk u) s"

definition run_store ::
  "crypto \<Rightarrow> string option \<Rightarrow> store_paths \<Rightarrow> store_call list \<Rightarrow> store_machine \<Rightarrow> store_machine" where
  "run_store C cn p cs s = fold (call_store C cn p) cs s"

lemma stable_check:
  assumes "closed p I"
  shows "keeps (stable I) (is_credential_secret_configured C p u c)"
proof -
  have user: "keeps (stable I) (\<lambda>e. case get_user conn u e of
             (e1, Inl UserNotFound) \<Rightarrow> (e1, Inr False)
           | (e1, Inl err) \<Rightarrow> (e1, Inl (credential_store_error_to_protocol_error err))
           | (e1, Inr user) \<Rightarrow>
               (if ur_credential_ref user \<noteq> c then (e1, Inr False)
                else
                  sbind (unavailable (load_encrypted_credential_blob conn c)) (\<lambda>blob.
                  sbind (unavailable (lift_result
                           (decrypt_credential_secret C key (ur_user_id user) (ur_credential_ref user) blob)))
                    (\<lambda>_. sret True)) e1))" for conn key
  proof (rule keepsI)
    fix e assume "stable I e"
    obtain e1 r where 1: "get_user conn u e = (e1, r)" by fastforce
    have s1: "stable I e1" using stable_get_user \<open>stable I e\<close> 1 by (rule keepsD)
    have k: "keeps (stable I) (sbind (unavailable (load_encrypted_credential_blob conn c)) (\<lambda>blob.
        sbind (unavailable (lift_result (f blob))) (\<lambda>_. sret True)))"
      for f :: "credential_blob \<Rightarrow> credential_store_error + u8 list"
      by (intro keeps_intros)
    show "stable I (fst (case get_user conn u e of
             (e1, Inl UserNotFound) \<Rightarrow> (e1, Inr False)
           | (e1, Inl err) \<Rightarrow> (e1, Inl (credential_store_error_to_protocol_error err))
           | (e1, Inr user) \<Rightarrow>
               (if ur_credential_ref user \<noteq> c then (e1, Inr False)
                else
                  sbind (unavailable (load_encrypted_credential_blob conn c)) (\<lambda>blob.
                  sbind (unavailable (lift_result
                           (decrypt_credential_secret C key (ur_user_id user) (ur_credential_ref user) blob)))
                    (\<lambda>_. sret True)) e1)))"
    proof (cases r)
      case (Inl x)
      then show ?thesis using 1 s1 by (cases x) simp_all
    next
      case (Inr y)
      then show ?thesis using 1 s1 k [unfolded keeps_def] by simp
    qed
  qed
  show ?thesis
    unfolding is_credential_secret_configured_def
    by (rule keeps_sbind [OF stable_reads [OF reads_files_exist]], intro keeps_if keeps_sret keeps_sbind [OF stable_open [OF assms]]
        keeps_case_prod, rule user)
qed

lemma stable_ensure:
  assumes "closed p I" and "fst conn = database_path p"
  shows "keeps (stable I) (ensure_development_credential_if_missing C pw conn key u)"
proof (rule keepsI)
  fix e assume "stable I e"
  obtain e1 r where 1: "get_user conn u e = (e1, r)" by fastforce
  have s1: "stable I e1" using stable_get_user \<open>stable I e\<close> 1 by (rule keepsD)
  note k = stable_save_enrollment [OF assms, unfolded keeps_def, rule_format, OF s1]
  show "stable I (fst (ensure_development_credential_if_missing C pw conn key u e))"
    using 1 s1 k
    by (simp add: ensure_development_credential_if_missing_def split: sum.split credential_store_error.split)
qed

lemma stable_enroll:
  assumes "closed p I" and "stable I (fst s)"
  shows "stable I (fst (fst (enroll_credential C p en s)))"
proof -
  have "keeps (stable I) (sbind (open_service_credential_store C p) (\<lambda>(conn, key). save_enrollment C conn key en))"
    by (rule keeps_sbind_value [OF stable_open [OF assms(1)]])
      (auto intro!: stable_save_enrollment [OF assms(1)] dest: open_connection)
  then have "stable I (fst (sbind (open_service_credential_store C p)
      (\<lambda>(conn, key). save_enrollment C conn key en) (fst s)))"
    using assms(2) by (simp add: keeps_def)
  then show ?thesis
    by (auto simp: enroll_credential_def split: prod.splits sum.splits)
qed

lemma stable_resolve: "keeps (stable I) (resolve_material_in C cn (repository_credential_store conn) mk u)"
  unfolding resolve_material_in_def in_store_def repository_credential_store_def
  by (intro keeps_intros) (simp_all add: stable_get_user stable_load_blob)

lemma reads_execute_query: "query stmt \<Longrightarrow> reads (execute conn stmt)"
  unfolding reads_def
proof (intro allI conjI)
  fix e assume q: "query stmt"
  obtain e' r where x: "execute conn stmt e = (e', r)" by fastforce
  show "files (fst (execute conn stmt e)) = files e"
  proof (cases r)
    case (Inl err)
    then show ?thesis using x execute_err [of conn stmt e e' err] by simp
  next
    case (Inr y)
    then have "execute conn stmt e = (e', Inr y)" using x by simp
    then obtain db db1 where "repository_database conn e = Some db" "stmt db = Inr (db1, y)"
      "files e' = (files e)(fst conn \<mapsto> DatabaseFile (snd conn) db1)"
      by (rule execute_ok)
    moreover have "db1 = db" using q calculation(2) by (metis query_def)
    ultimately show ?thesis using x
      by (auto simp: repository_database_def split: option.splits file_entry.splits if_splits)
  qed
qed (simp add: execute_rivals)

lemma reads_queries:
  "reads (get_user conn u)" "reads (load_encrypted_credential_blob conn c)"
  unfolding get_user_def load_encrypted_credential_blob_def
  by (intro reads_intros reads_execute_query queries)+

lemma reads_resolve: "reads (resolve_material_in C cn (repository_credential_store conn) mk u)"
  unfolding resolve_material_in_def in_store_def repository_credential_store_def
  by (intro reads_intros) (simp_all add: reads_queries)

text \<open>Whatever fails and whatever the other processes do, a run changes the files by steps of
  \<open>store_step\<close> only: what those keep, every run keeps.\<close>

lemma run_store_keeps:
  assumes "closed p I" and "stable I (fst s)"
  shows "stable I (fst (run_store C cn p cs s))"
  using assms(2)
proof (induction cs arbitrary: s)
  case Nil
  then show ?case by (simp add: run_store_def)
next
  case (Cons c cs)
  have "stable I (fst (call_store C cn p c s))"
  proof (cases c)
    case OpenStore
    then show ?thesis using stable_open [OF assms(1)] Cons.prems by (simp add: on_store_def keeps_def)
  next
    case (EnrollCredential en)
    then show ?thesis using stable_enroll [OF assms(1)] Cons.prems by simp
  next
    case (CheckCredential u x)
    then show ?thesis using stable_check [OF assms(1)] Cons.prems by (simp add: on_store_def keeps_def)
  next
    case (EnsureDevelopmentCredential pw u)
    have "keeps (stable I) (sbind (open_service_credential_store C p) (\<lambda>(conn, key).
       ensure_development_credential_if_missing C pw conn key u))"
      by (rule keeps_sbind_value [OF stable_open [OF assms(1)]])
        (auto intro!: stable_ensure [OF assms(1)] dest: open_connection)
    then show ?thesis using EnsureDevelopmentCredential Cons.prems by (simp add: on_store_def keeps_def)
  next
    case (ResolveMaterial k mk u)
    then show ?thesis using stable_resolve Cons.prems by (simp add: on_store_def keeps_def)
  qed
  from Cons.IH [OF this] show ?case by (simp add: run_store_def)
qed

end
