(* ===== verification/Credential_Key.thy ===== *)
theory Credential_Key
  imports Credential_Steps
begin

text \<open>
  The file of the master key: a process works with the key in the file (\<open>load_or_create_ok\<close>), and a
  run of the service leaves a key file alone, one that was there before and one that another process
  puts there in the window between the check of an opening and its publication
  (\<open>run_awaited_or_kept\<close>).
\<close>

section \<open>A key file stays\<close>

lemma paths_differ: "master_key_path p \<noteq> database_path p"
  by (simp add: master_key_path_def database_path_def path_join_def master_key_file_name_def database_file_name_def)

definition key_stays :: "store_path \<Rightarrow> file_entry \<Rightarrow> file_system \<Rightarrow> bool" where
  "key_stays kp x fs \<longleftrightarrow> fs kp = Some x"

lemma closed_key_stays: "closed p (key_stays (master_key_path p) x)"
  using paths_differ [of p]
  by (auto simp: closed_def key_stays_def elim!: store_step.cases)

text \<open>Other processes that keep a key file once there is one.\<close>

definition rivals_keep_key :: "store_path \<Rightarrow> store_env \<Rightarrow> bool" where
  "rivals_keep_key kp e \<longleftrightarrow>
     (\<forall>f \<in> set (rivals e). \<forall>fs x. fs kp = Some x \<longrightarrow> f fs kp = Some x)"

lemma stable_key_stays:
  "files e kp = Some x \<Longrightarrow> rivals_keep_key kp e \<Longrightarrow> stable (key_stays kp x) e"
  by (auto simp: stable_def key_stays_def rivals_keep_key_def)

section \<open>The key in the file\<close>

text \<open>What the documentation of the data protection promises.\<close>

definition dpapi_roundtrip :: "crypto \<Rightarrow> bool" where
  "dpapi_roundtrip C \<longleftrightarrow> (\<forall>x p. dpapi_protect C x = Some p \<longrightarrow> dpapi_unprotect C p = Some x)"

text \<open>The key a process works with is the one in the file.\<close>

definition key_in_file :: "crypto \<Rightarrow> file_entry option \<Rightarrow> u8 list \<Rightarrow> bool" where
  "key_in_file C f key \<longleftrightarrow>
     (\<exists>p. f = Some (RegularFile (key_file_bytes p)) \<and> parse_key_file (key_file_bytes p) = Inr p \<and>
          dpapi_unprotect C p = Some key)"

lemma blob_to_vec_Inr_iff: "blob_to_vec x e = Inr bs \<longleftrightarrow> x = Some bs \<and> bs \<noteq> []"
  by (auto simp: blob_to_vec_def split: option.splits if_splits)

lemma key_file_load_ok:
  assumes "key_file_load kp e = (e', Inr p)"
  shows "files e' = files e \<and> files e kp = Some (RegularFile (key_file_bytes p)) \<and>
    parse_key_file (key_file_bytes p) = Inr p"
proof -
  obtain e1 e2 where 1: "sys IoFailed e = (e1, Inr ())" "sys InvalidProtectedKeyFile e1 = (e2, Inr ())"
    and c: "(case files e1 kp of
         Some (RegularFile bs) \<Rightarrow> lift_result (parse_key_file bs)
       | Some (DatabaseFile _ _) \<Rightarrow> sfail InvalidProtectedKeyFile
       | _ \<Rightarrow> sfail IoFailed) e2 = (e', Inr p)"
    using assms unfolding key_file_load_def sbind_Inr_iff get_file_def
    by auto
  have f: "files e1 = files e" "files e2 = files e" using 1 by (auto dest!: sys_state)
  obtain bs where "files e1 kp = Some (RegularFile bs)" "parse_key_file bs = Inr p" "e' = e2"
    using c by (cases "files e1 kp"; cases "the (files e1 kp)") auto
  then show ?thesis using f by (simp add: parse_key_file_iff)
qed

lemma load_key_ok:
  assumes "load_service_master_key C kp e = (e', Inr key)"
  shows "files e' = files e \<and> key_in_file C (files e kp) key"
proof -
  obtain p e1 where 1: "key_file_load kp e = (e1, Inr p)" and 2: "unprotect_master_key C p e1 = (e', Inr key)"
    using assms by (auto simp: load_service_master_key_def sbind_Inr_iff unavailable_Inr_iff)
  have "dpapi_unprotect C p = Some key" "files e' = files e1"
    using 2 by (auto simp: unprotect_master_key_def sbind_Inr_iff blob_to_vec_Inr_iff dest!: sys_state
        split: if_splits)
  then show ?thesis using key_file_load_ok [OF 1] by (auto simp: key_in_file_def)
qed

lemma save_if_absent_ok:
  assumes "save_if_absent kp blob e = (e', Inr saved)"
  shows "(saved \<longrightarrow> files e' kp = Some (RegularFile (key_file_bytes blob)) \<and>
      parse_key_file (key_file_bytes blob) = Inr blob)"
  using assms
  by (auto simp: save_if_absent_def publish_if_absent_def sbind_Inr_iff get_file_def put_file_def
      parse_key_file_iff split: if_splits)

lemma load_or_create_ok:
  assumes "load_or_create_service_master_key C kp e = (e', Inr key)" and "dpapi_roundtrip C"
  shows "key_in_file C (files e' kp) key"
proof -
  obtain e1 ex where 1: "path_try_exists kp e = (e1, Inr ex)"
    and 2: "(if ex then load_service_master_key C kp
       else sbind (unavailable generate_master_key) (\<lambda>key.
         sbind (unavailable (protect_master_key C key)) (\<lambda>protected.
         sbind (unavailable (save_if_absent kp protected)) (\<lambda>saved.
           if saved then sret key else load_service_master_key C kp)))) e1 = (e', Inr key)"
    using assms(1) by (auto simp: load_or_create_service_master_key_def sbind_Inr_iff unavailable_Inr_iff)
  show ?thesis
  proof (cases ex)
    case True
    then show ?thesis using 2 load_key_ok [of C kp e1 e' key] by simp
  next
    case False
    then obtain e2 k e3 p e4 saved where "protect_master_key C k e2 = (e3, Inr p)"
      and s: "save_if_absent kp p e3 = (e4, Inr saved)"
      and r: "(if saved then sret k else load_service_master_key C kp) e4 = (e', Inr key)"
      using 2 by (auto simp: sbind_Inr_iff unavailable_Inr_iff)
    then have "dpapi_protect C k = Some p"
      by (auto simp: protect_master_key_def sbind_Inr_iff blob_to_vec_Inr_iff)
    then have u: "dpapi_unprotect C p = Some k" using assms(2) by (simp add: dpapi_roundtrip_def)
    show ?thesis
    proof (cases saved)
      case True
      then show ?thesis using r u save_if_absent_ok [OF s] by (auto simp: key_in_file_def)
    next
      case False
      then show ?thesis using r load_key_ok [of C kp e4 e' key] by simp
    qed
  qed
qed

lemma key_in_file_unique: "key_in_file C f k \<Longrightarrow> key_in_file C f k' \<Longrightarrow> k = k'"
proof -
  assume "key_in_file C f k" and "key_in_file C f k'"
  then obtain p q where p: "f = Some (RegularFile (key_file_bytes p))" "parse_key_file (key_file_bytes p) = Inr p"
    "dpapi_unprotect C p = Some k" and q: "f = Some (RegularFile (key_file_bytes q))"
    "parse_key_file (key_file_bytes q) = Inr q" "dpapi_unprotect C q = Some k'"
    unfolding key_in_file_def by blast
  have "key_file_bytes p = key_file_bytes q" using p(1) q(1) by simp
  then have "(Inr p :: credential_store_error + u8 list) = Inr q" by (simp only: p(2) [symmetric] q(2) [symmetric])
  then show "k = k'" using p(3) q(3) by simp
qed

definition present :: "file_entry option \<Rightarrow> bool" where
  "present f \<longleftrightarrow> (case f of Some OtherEntry \<Rightarrow> False | Some _ \<Rightarrow> True | None \<Rightarrow> False)"

lemma file_exists_ok:
  assumes "file_exists p e = (e', Inr b)"
  shows "b = present (files e p)" "b \<or> files e p = None"
proof -
  obtain e1 where 1: "sys IoFailed e = (e1, Inr ())"
    and c: "(case files e1 p of None \<Rightarrow> sret False | Some OtherEntry \<Rightarrow> sfail StoreUnavailable | Some _ \<Rightarrow> sret True) e1 = (e', Inr b)"
    using assms unfolding file_exists_def sbind_Inr_iff get_file_def by auto
  have "files e1 = files e" using sys_state [OF 1] by simp
  then show "b = present (files e p)" "b \<or> files e p = None"
    using c by (cases "files e p"; cases "the (files e p)"; simp add: present_def)+
qed

section \<open>The window of a publication\<close>

text \<open>A store without its key file, and the processes that act in the next windows.\<close>

definition key_awaited :: "store_path \<Rightarrow> (file_system \<Rightarrow> file_system) list \<Rightarrow> store_env \<Rightarrow> bool" where
  "key_awaited kp fs e \<longleftrightarrow> files e kp = None \<and> rivals e = fs"

text \<open>An operation that needs the key: it leaves the file that was put there in its window, or it fails
  before it.\<close>

definition needs_key ::
  "store_path \<Rightarrow> file_entry \<Rightarrow> (file_system \<Rightarrow> file_system) list \<Rightarrow> (store_env \<Rightarrow> store_env \<times> ('e + 'a)) \<Rightarrow> bool" where
  "needs_key kp x fs m \<longleftrightarrow>
     (\<forall>e. key_awaited kp fs e \<longrightarrow>
        stable (key_stays kp x) (fst (m e)) \<or> key_awaited kp fs (fst (m e)) \<and> \<not> is_ok (snd (m e)))"

lemma needs_key_after: "reads m \<Longrightarrow> (\<And>y. needs_key kp x fs (g y)) \<Longrightarrow> needs_key kp x fs (sbind m g)"
  unfolding needs_key_def
proof (intro allI impI)
  fix e assume m: "reads m" and g: "\<And>y. \<forall>e. key_awaited kp fs e \<longrightarrow>
    stable (key_stays kp x) (fst (g y e)) \<or> key_awaited kp fs (fst (g y e)) \<and> \<not> is_ok (snd (g y e))"
    and e: "key_awaited kp fs e"
  obtain e1 r where 1: "m e = (e1, r)" by fastforce
  then have "key_awaited kp fs e1" using readsD [OF m 1] e by (simp add: key_awaited_def)
  then show "stable (key_stays kp x) (fst (sbind m g e)) \<or>
      key_awaited kp fs (fst (sbind m g e)) \<and> \<not> is_ok (snd (sbind m g e))"
    using g 1 by (cases r) (simp_all add: sbind_def)
qed

lemma needs_key_value:
  assumes "needs_key kp x fs m" and "\<And>e e' y. m e = (e', Inr y) \<Longrightarrow> keeps (stable (key_stays kp x)) (g y)"
  shows "needs_key kp x fs (sbind m g)"
  unfolding needs_key_def
proof (intro allI impI)
  fix e assume e: "key_awaited kp fs e"
  obtain e1 r where 1: "m e = (e1, r)" by fastforce
  show "stable (key_stays kp x) (fst (sbind m g e)) \<or>
      key_awaited kp fs (fst (sbind m g e)) \<and> \<not> is_ok (snd (sbind m g e))"
    using assms(1) [unfolded needs_key_def, rule_format, OF e] assms(2) [of e e1, unfolded keeps_def] 1
    by (cases r) (auto simp: sbind_def)
qed

lemma needs_key_then:
  "needs_key kp x fs m \<Longrightarrow> (\<And>y. keeps (stable (key_stays kp x)) (g y)) \<Longrightarrow> needs_key kp x fs (sbind m g)"
  by (rule needs_key_value)

lemma needs_key_intros:
  "needs_key kp x fs a \<Longrightarrow> needs_key kp x fs b \<Longrightarrow> needs_key kp x fs (if c then a else b)"
  "needs_key kp x fs m' \<Longrightarrow> needs_key kp x fs (unavailable m')"
  "needs_key kp x fs (sfail err)"
  by (auto simp: needs_key_def unavailable_def map_err_def sfail_def split: prod.splits sum.splits)

text \<open>The process of the next window publishes a key file, and the later ones keep it.\<close>

definition rival_publishes ::
  "store_path \<Rightarrow> file_entry \<Rightarrow> (file_system \<Rightarrow> file_system) list \<Rightarrow> bool" where
  "rival_publishes kp x fs \<longleftrightarrow>
     (case fs of
        [] \<Rightarrow> False
      | f # rest \<Rightarrow> (\<forall>g. g kp = None \<longrightarrow> f g kp = Some x) \<and>
          (\<forall>h \<in> set rest. \<forall>g. g kp = Some x \<longrightarrow> h g kp = Some x))"

lemma needs_key_window: "rival_publishes kp x fs \<Longrightarrow> needs_key kp x fs others_run"
  by (auto simp: needs_key_def key_awaited_def others_run_def stable_def key_stays_def rival_publishes_def
      split: list.splits)

lemma keeps_move: "keeps (stable (key_stays kp x)) (sbind (sys IoFailed) (\<lambda>_. sbind (get_file kp) (\<lambda>f.
     if f \<noteq> None then sret False else sbind (put_file kp (Some y)) (\<lambda>_. sret True))))"
  by (rule keeps_sbind [OF stable_reads [OF reads_basic(1)]])
    (auto simp: keeps_def stable_def key_stays_def sbind_def get_file_def put_file_def sret_def)

lemma needs_key_publish: "rival_publishes kp x fs \<Longrightarrow> needs_key kp x fs (publish_if_absent kp bytes)"
  unfolding publish_if_absent_def
  by (intro needs_key_after reads_basic needs_key_then needs_key_window keeps_move)

lemma needs_key_save: "rival_publishes kp x fs \<Longrightarrow> needs_key kp x fs (save_if_absent kp blob)"
  unfolding save_if_absent_def by (intro needs_key_intros needs_key_publish)

lemma absent_key_not_loaded: "needs_key kp x fs (load_service_master_key C kp)"
  unfolding needs_key_def
proof (intro allI impI)
  fix e assume e: "key_awaited kp fs e"
  obtain e' r where 1: "load_service_master_key C kp e = (e', r)" by fastforce
  have "\<not> is_ok r"
    using load_key_ok [of C kp e e'] 1 e by (cases r) (auto simp: key_awaited_def key_in_file_def)
  then show "stable (key_stays kp x) (fst (load_service_master_key C kp e)) \<or>
      key_awaited kp fs (fst (load_service_master_key C kp e)) \<and> \<not> is_ok (snd (load_service_master_key C kp e))"
    using readsD [OF reads_load_service_key 1] 1 e by (simp add: key_awaited_def)
qed

lemma needs_key_load_or_create:
  "rival_publishes kp x fs \<Longrightarrow> needs_key kp x fs (load_or_create_service_master_key C kp)"
  unfolding load_or_create_service_master_key_def
  by (intro needs_key_after needs_key_then needs_key_intros needs_key_save absent_key_not_loaded reads_intros
      keeps_if keeps_sret stable_reads)

lemma needs_key_open:
  "rival_publishes (master_key_path p) x fs \<Longrightarrow>
     needs_key (master_key_path p) x fs (open_service_credential_store C p)"
  unfolding open_split
  by (intro needs_key_after needs_key_then needs_key_load_or_create reads_files_exist reads_ensure
      stable_open_with_key closed_key_stays)

text \<open>Before the window of the rival, or the file it put there.\<close>

definition awaited_or_kept ::
  "store_path \<Rightarrow> file_entry \<Rightarrow> (file_system \<Rightarrow> file_system) list \<Rightarrow> store_env \<Rightarrow> bool" where
  "awaited_or_kept kp x fs e \<longleftrightarrow> stable (key_stays kp x) e \<or> key_awaited kp fs e"

lemma keeps_awaited_or_kept:
  "needs_key kp x fs m \<Longrightarrow> keeps (stable (key_stays kp x)) m \<Longrightarrow> keeps (awaited_or_kept kp x fs) m"
  by (auto simp: keeps_def needs_key_def awaited_or_kept_def)

lemma reads_awaited_or_kept: "reads m \<Longrightarrow> keeps (awaited_or_kept kp x fs) m"
  by (simp add: reads_def keeps_def stable_def awaited_or_kept_def key_awaited_def)

lemma opened_connection:
  "open_service_credential_store C p e = (e', Inr y) \<Longrightarrow> fst (fst y) = database_path p"
  using open_connection [of C p e e' "fst y" "snd y"] by simp

lemma files_exist_key:
  assumes "credential_store_files_exist p e = (e', Inr True)"
  shows "files e (master_key_path p) \<noteq> None"
proof -
  let ?pin = "if pinned p then
              sbind (unavailable load_pinned_store_directory) (\<lambda>d.
                case d of
                  None \<Rightarrow> sfail TransportUnavailable
                | Some q \<Rightarrow>
                    if master_key_path p \<noteq> path_join q master_key_file_name \<or>
                       database_path p \<noteq> path_join q database_file_name
                    then sfail TransportUnavailable else sret ())
            else sret ()"
  obtain e0 x e1 k where 0: "?pin e = (e0, Inr x)" and k: "file_exists (master_key_path p) e0 = (e1, Inr k)" and k
    using assms unfolding credential_store_files_exist_def is_file_def sbind_Inr_iff unavailable_Inr_iff
    by (auto split: if_splits)
  have "reads ?pin" by (intro reads_intros)
  then have "files e0 = files e" using 0 by (auto simp: reads_def dest: spec [of _ e])
  then show ?thesis using file_exists_ok(1) [OF k] \<open>k\<close> by (auto simp: present_def split: option.splits)
qed

lemma call_awaited_or_kept:
  assumes "rival_publishes (master_key_path p) x fs" and "awaited_or_kept (master_key_path p) x fs (fst s)"
  shows "awaited_or_kept (master_key_path p) x fs (fst (call_store C cn p c s))"
proof -
  let ?kp = "master_key_path p"
  note open1 = needs_key_open [OF assms(1), of C]
  note st = closed_key_stays [of p x]
  have saves: "needs_key ?kp x fs (sbind (open_service_credential_store C p)
      (\<lambda>(conn, key). save_enrollment C conn key en))" for en
    by (rule needs_key_value [OF open1])
      (auto intro!: stable_save_enrollment [OF st] dest: opened_connection)
  have run: "stable (key_stays ?kp x) (fst (call_store C cn p c s))" if "stable (key_stays ?kp x) (fst s)"
    using run_store_keeps [OF st that, of C cn "[c]"] by (simp add: run_store_def)
  show ?thesis
  proof (cases "stable (key_stays ?kp x) (fst s)")
    case True
    then show ?thesis using run by (simp add: awaited_or_kept_def)
  next
    case False
    then have a: "key_awaited ?kp fs (fst s)" using assms(2) by (simp add: awaited_or_kept_def)
    show ?thesis
    proof (cases c)
      case OpenStore
      then show ?thesis using open1 a by (auto simp: on_store_def needs_key_def awaited_or_kept_def)
    next
      case (EnrollCredential en)
      have "fst (fst (enroll_credential C p en s)) =
          fst (sbind (open_service_credential_store C p) (\<lambda>(conn, key). save_enrollment C conn key en) (fst s))"
        by (auto simp: enroll_credential_def split: prod.splits sum.splits)
      then show ?thesis using EnrollCredential saves [of en] a by (auto simp: needs_key_def awaited_or_kept_def)
    next
      case (CheckCredential u r)
      obtain e1 q where 1: "credential_store_files_exist p (fst s) = (e1, q)" by fastforce
      have a1: "key_awaited ?kp fs e1" using readsD [OF reads_files_exist 1] a by (simp add: key_awaited_def)
      have "q \<noteq> Inr True" using files_exist_key [of p "fst s" e1] 1 a by (auto simp: key_awaited_def)
      then have "fst (is_credential_secret_configured C p u r (fst s)) = e1"
        using 1 by (cases q) (auto simp: is_credential_secret_configured_def sbind_def sret_def)
      then show ?thesis using CheckCredential a1 by (simp add: on_store_def awaited_or_kept_def)
    next
      case (EnsureDevelopmentCredential pw u)
      have "needs_key ?kp x fs (sbind (open_service_credential_store C p)
          (\<lambda>(conn, key). ensure_development_credential_if_missing C pw conn key u))"
        by (rule needs_key_value [OF open1]) (auto intro!: stable_ensure [OF st] dest: opened_connection)
      then show ?thesis using EnsureDevelopmentCredential a
        by (auto simp: on_store_def needs_key_def awaited_or_kept_def)
    next
      case (ResolveMaterial k mk u)
      then show ?thesis using reads_awaited_or_kept [OF reads_resolve] assms(2)
        by (simp add: on_store_def keeps_def)
    qed
  qed
qed


lemma run_awaited_or_kept:
  assumes "rival_publishes (master_key_path p) x fs" and "awaited_or_kept (master_key_path p) x fs (fst s)"
  shows "awaited_or_kept (master_key_path p) x fs (fst (run_store C cn p cs s))"
  unfolding run_store_def
  by (rule fold_invariant [of cs "\<lambda>_. True"]) (simp_all add: assms call_awaited_or_kept)

end
