(* ===== verification/Credential_Properties.thy ===== *)
theory Credential_Properties
  imports Credential_Key
begin

text \<open>
  What the credential store guarantees, for every failure of the system: an enrollment is stored whole
  or not at all, a password belongs to one user, half a store is never completed, the master key is
  never replaced, only an enrollment clears a rejection of Windows; and that an enrolled password is
  the one the credential provider receives.
\<close>

section \<open>A sample machine\<close>

fun sample_tag :: "u8 list \<Rightarrow> u8 list" where
  "sample_tag [] = [0]"
| "sample_tag (a # as) = 1 # a # sample_tag as"

fun sample_untag :: "u8 list \<Rightarrow> (u8 list \<times> u8 list) option" where
  "sample_untag (t # r) =
     (if t = 0 then Some ([], r)
      else (case r of [] \<Rightarrow> None | a # r' \<Rightarrow> map_option (\<lambda>(as, m). (a # as, m)) (sample_untag r')))"
| "sample_untag [] = None"

definition sample_crypto :: crypto where
  "sample_crypto =
     \<lparr>aead_seal = (\<lambda>k n m a. Some (sample_tag a @ m)),
      aead_open = (\<lambda>k n c a. case sample_untag c of None \<Rightarrow> None | Some (a', m) \<Rightarrow> if a' = a then Some m else None),
      dpapi_protect = (\<lambda>bs. Some (1 # bs)),
      dpapi_unprotect = (\<lambda>bs. case bs of [] \<Rightarrow> None | b # r \<Rightarrow> Some r)\<rparr>"

definition sample_env :: store_env where
  "sample_env =
     \<lparr>files = Map.empty, faults = [], rivals = [], randoms = (\<lambda>i. word_of_nat (7 + i)), randoms_used = 0,
      storage_registry = (\<lambda>_. None)\<rparr>"

definition sample_paths :: store_paths where
  "sample_paths = from_store_dir sample_dir"

definition sample_user :: user_record where
  "sample_user =
     \<lparr>ur_user_id = UserId ''ann'', ur_user_sid = ''S-1'', ur_username = ''ann'', ur_account_type = Local,
      ur_credential_ref = CredentialRef ''c1''\<rparr>"

definition sample_enrollment :: windows_credential_enrollment where
  "sample_enrollment = \<lparr>en_user = sample_user, en_password = ''secret''\<rparr>"

lemma sample_untag_tag: "sample_untag (sample_tag a @ m) = Some (a, m)"
  by (induction a) simp_all

section \<open>Laws of the cryptography\<close>

text \<open>What the documentation of AES-GCM promises; the law of the data protection is \<open>dpapi_roundtrip\<close>.\<close>

definition aead_roundtrip :: "crypto \<Rightarrow> bool" where
  "aead_roundtrip C \<longleftrightarrow> (\<forall>k n m a c. aead_seal C k n m a = Some c \<longrightarrow> aead_open C k n c a = Some m)"

definition aead_authentic :: "crypto \<Rightarrow> bool" where
  "aead_authentic C \<longleftrightarrow>
     (\<forall>k n m a c a'. aead_seal C k n m a = Some c \<longrightarrow> a' \<noteq> a \<longrightarrow> aead_open C k n c a' = None)"

lemma sample_laws:
  "aead_roundtrip sample_crypto" "aead_authentic sample_crypto" "dpapi_roundtrip sample_crypto"
  by (auto simp: aead_roundtrip_def aead_authentic_def dpapi_roundtrip_def sample_crypto_def sample_untag_tag)

section \<open>An enrollment is atomic\<close>

lemma enrolled_tables_views:
  assumes "enrolled_tables (stored_of_user u) (blob_record_of (ur_credential_ref u) bytes) db = Some db2"
    and "serialize_blob b = Inr bytes"
  shows "stored_user db2 = (stored_user db)(ur_user_id u \<mapsto> u)"
    "stored_blob db2 = (stored_blob db)(ur_credential_ref u \<mapsto> b)"
proof -
  let ?r = "blob_record_of (ur_credential_ref u) bytes"
  obtain db1 where 1: "write_credential_blob_record ?r db = Inr (db1, ())"
    and 2: "write_user_record (stored_of_user u) db1 = Inr (db2, ())"
    using assms(1)
    by (auto simp: enrolled_tables_def write_credential_blob_record_def result_ok_Some_iff
        split: if_splits sum.splits)
  have "deserialize_blob bytes = Inr b" using assms(2) by (simp add: deserialize_serialize)
  then have b1: "stored_blob db1 = (stored_blob db)(ur_credential_ref u \<mapsto> b)"
    using 1 by (auto simp: write_credential_blob_record_def blob_record_of_def stored_blob_def update_conv
        fun_eq_iff split: option.splits)
  have u1: "stored_user db1 = stored_user db"
    using 1 by (auto simp: write_credential_blob_record_def stored_user_def fun_eq_iff)
  show "stored_user db2 = (stored_user db)(ur_user_id u \<mapsto> u)"
    using 2 unfolding u1 [symmetric]
    by (auto simp: write_user_record_def stored_of_user_def stored_user_def update_conv fun_eq_iff split: if_splits)
  show "stored_blob db2 = (stored_blob db)(ur_credential_ref u \<mapsto> b)"
    using 2 unfolding b1 [symmetric] by (auto simp: write_user_record_def stored_blob_def fun_eq_iff split: if_splits)
qed

lemma save_credential_enrollment_ok:
  assumes "save_credential_enrollment conn u b e = (e', Inr x)"
  shows "repository_users conn e' = (repository_users conn e)(ur_user_id u \<mapsto> u)"
    "repository_blobs conn e' = (repository_blobs conn e)(ur_credential_ref u \<mapsto> b)"
proof -
  obtain bytes where s: "serialize_blob b = Inr bytes"
    and r: "repo_save_credential_enrollment conn (stored_of_user u) (blob_record_of (ur_credential_ref u) bytes) e = (e', Inr x)"
    using assms by (auto simp: save_credential_enrollment_def sbind_Inr_iff)
  obtain db db2 where d: "repository_database conn e = Some db"
    "enrolled_tables (stored_of_user u) (blob_record_of (ur_credential_ref u) bytes) db = Some db2"
    "files e' = (files e)(fst conn \<mapsto> DatabaseFile (snd conn) db2)"
    by (rule enrollment_committed [OF r])
  have "repository_database conn e' = Some db2" using d(3) by (simp add: repository_database_def)
  then show "repository_users conn e' = (repository_users conn e)(ur_user_id u \<mapsto> u)"
    "repository_blobs conn e' = (repository_blobs conn e)(ur_credential_ref u \<mapsto> b)"
    using enrolled_tables_views [OF d(2) s] d(1) by (simp_all add: repository_users_def repository_blobs_def fun_eq_iff)
qed

lemma enrolled_tables_frame:
  assumes "enrolled_tables u b db = Some db2"
  shows "db2 = db\<lparr>users := users db2, credentials := credentials db2\<rparr>"
    "\<exists>row. map_of (users db2) = (map_of (users db))(su_user_id u \<mapsto> row)"
    "\<exists>blob. map_of (credentials db2) = (map_of (credentials db))(cb_credential_ref b \<mapsto> blob)"
  using assms
  by (auto simp: enrolled_tables_def write_credential_blob_record_def write_user_record_def update_conv'
      result_ok_Some_iff split: if_splits sum.splits)

lemma save_credential_enrollment_frame:
  assumes "save_credential_enrollment conn u b e = (e', Inr x)"
  shows "\<exists>db us cs row blob. repository_database conn e = Some db \<and>
    files e' = (files e)(fst conn \<mapsto> DatabaseFile (snd conn) (db\<lparr>users := us, credentials := cs\<rparr>)) \<and>
    map_of us = (map_of (users db))(ur_user_id u \<mapsto> row) \<and>
    map_of cs = (map_of (credentials db))(ur_credential_ref u \<mapsto> blob)"
proof -
  obtain bytes where
    "repo_save_credential_enrollment conn (stored_of_user u) (blob_record_of (ur_credential_ref u) bytes) e = (e', Inr x)"
    using assms by (auto simp: save_credential_enrollment_def sbind_Inr_iff)
  then obtain db db2 where "repository_database conn e = Some db"
    and t: "enrolled_tables (stored_of_user u) (blob_record_of (ur_credential_ref u) bytes) db = Some db2"
    and "files e' = (files e)(fst conn \<mapsto> DatabaseFile (snd conn) db2)"
    by (rule enrollment_committed)
  moreover have "\<exists>row. map_of (users db2) = (map_of (users db))(ur_user_id u \<mapsto> row)"
    "\<exists>blob. map_of (credentials db2) = (map_of (credentials db))(ur_credential_ref u \<mapsto> blob)"
    using enrolled_tables_frame(2,3) [OF t] by (simp_all add: stored_of_user_def blob_record_of_def)
  ultimately show ?thesis using enrolled_tables_frame(1) [OF t] by metis
qed

text \<open>C11: whatever call of the system fails, saving an enrollment either reports an error and no file has
  changed, or stores the user and the encrypted password together and nothing else changes: no other
  file, no other row of the users or of the passwords, and no other table of the database (schema,
  policies, face templates, their links to users, audit log).\<close>

theorem enrollment_is_atomic:
  "case save_credential_enrollment conn u b e of
     (e', Inr _) \<Rightarrow>
       repository_users conn e' = (repository_users conn e)(ur_user_id u \<mapsto> u) \<and>
       repository_blobs conn e' = (repository_blobs conn e)(ur_credential_ref u \<mapsto> b) \<and>
       (\<exists>db us cs row blob. repository_database conn e = Some db \<and>
          files e' = (files e)(fst conn \<mapsto> DatabaseFile (snd conn) (db\<lparr>users := us, credentials := cs\<rparr>)) \<and>
          map_of us = (map_of (users db))(ur_user_id u \<mapsto> row) \<and>
          map_of cs = (map_of (credentials db))(ur_credential_ref u \<mapsto> blob))
   | (e', Inl _) \<Rightarrow> files e' = files e"
proof (cases "save_credential_enrollment conn u b e")
  case (Pair e' r)
  have "all_or_nothing (save_credential_enrollment conn u b)"
    unfolding save_credential_enrollment_def
    by (intro all_or_nothing_sbind reads_basic enrollment_all_or_nothing)
  then have err: "\<And>err. r = Inl err \<Longrightarrow> files e' = files e"
    using Pair unfolding all_or_nothing_def by metis
  show ?thesis
  proof (cases r)
    case (Inl x)
    then show ?thesis using Pair err by simp
  next
    case (Inr x)
    then have s: "save_credential_enrollment conn u b e = (e', Inr x)" using Pair by simp
    show ?thesis
      using save_credential_enrollment_ok [OF s] save_credential_enrollment_frame [OF s] by (simp add: s)
  qed
qed

section \<open>A password belongs to one user\<close>

definition refs_unique :: "database \<Rightarrow> bool" where
  "refs_unique db \<longleftrightarrow>
     (\<forall>u u' r r'. map_of (users db) u = Some r \<longrightarrow> map_of (users db) u' = Some r' \<longrightarrow>
        row_credential_ref r = row_credential_ref r' \<longrightarrow> u = u')"

definition refs_unique_at :: "store_path \<Rightarrow> file_system \<Rightarrow> bool" where
  "refs_unique_at dp fs \<longleftrightarrow> (\<forall>k db. fs dp = Some (DatabaseFile k db) \<longrightarrow> refs_unique db)"

lemma bound_iff:
  "bound_to_another_user db c u \<longleftrightarrow> (\<exists>v r. v \<noteq> u \<and> map_of (users db) v = Some r \<and> row_credential_ref r = c)"
proof
  assume "\<exists>v r. v \<noteq> u \<and> map_of (users db) v = Some r \<and> row_credential_ref r = c"
  then obtain v r where "v \<noteq> u" "map_of (users db) v = Some r" "row_credential_ref r = c" by blast
  moreover from this have "v \<in> set (map fst (users db))" by (force dest: map_of_SomeD)
  ultimately show "bound_to_another_user db c u"
    unfolding bound_to_another_user_def list_ex_iff by (intro bexI [of _ v]) simp_all
qed (auto simp: bound_to_another_user_def list_ex_iff split: option.splits)

lemma refs_unique_enrolled:
  assumes "refs_unique db" and "enrolled_tables u b db = Some db2"
  shows "refs_unique db2"
proof -
  obtain db1 where nb: "\<not> bound_to_another_user db (su_credential_ref u) (su_user_id u)"
    and 1: "write_credential_blob_record b db = Inr (db1, ())"
    and 2: "write_user_record u db1 = Inr (db2, ())"
    using assms(2) by (auto simp: enrolled_tables_def result_ok_Some_iff split: if_splits sum.splits)
  have "users db1 = users db" using 1 by (auto simp: write_credential_blob_record_def)
  then obtain row where "map_of (users db2) = (map_of (users db))(su_user_id u \<mapsto> row)"
    "row_credential_ref row = su_credential_ref u"
    using 2 by (auto simp: write_user_record_def update_conv' split: if_splits)
  then show ?thesis using assms(1) nb unfolding refs_unique_def bound_iff by (auto split: if_splits)
qed

lemma closed_refs_unique: "closed p (refs_unique_at (database_path p))"
  unfolding closed_def
proof (intro allI impI)
  fix fs fs'
  assume "refs_unique_at (database_path p) fs" and "store_step (master_key_path p) (database_path p) fs fs'"
  from this(2,1) show "refs_unique_at (database_path p) fs'"
  proof cases
    case (publish_key blob)
    then show ?thesis using \<open>refs_unique_at (database_path p) fs\<close> paths_differ [of p] by (simp add: refs_unique_at_def)
  next
    case (write_enrollment k db u b db2)
    then show ?thesis using \<open>refs_unique_at (database_path p) fs\<close>
      by (auto simp: refs_unique_at_def intro: refs_unique_enrolled)
  qed (auto simp: refs_unique_at_def refs_unique_def migrated_def empty_database_def)
qed

text \<open>C12: in every run of the service, with any failures, two users of the store never share a reference to
  a password: who is signed in with a password is the user it was enrolled for. The hypotheses: it
  holds at the start, and other processes keep it.\<close>

theorem credential_refs_stay_unique:
  assumes "refs_unique_at (database_path p) (files (fst s))"
    and "\<forall>f \<in> set (rivals (fst s)). \<forall>fs. refs_unique_at (database_path p) fs \<longrightarrow> refs_unique_at (database_path p) (f fs)"
    and "repository_users (database_path p, k) (fst (run_store C cn p cs s)) u = Some r"
    and "repository_users (database_path p, k) (fst (run_store C cn p cs s)) u' = Some r'"
    and "ur_credential_ref r = ur_credential_ref r'"
  shows "u = u'"
proof -
  have "stable (refs_unique_at (database_path p)) (fst s)" using assms(1,2) by (simp add: stable_def)
  then have "stable (refs_unique_at (database_path p)) (fst (run_store C cn p cs s))"
    by (rule run_store_keeps [OF closed_refs_unique])
  then have "refs_unique_at (database_path p) (files (fst (run_store C cn p cs s)))" by (simp add: stable_def)
  then show ?thesis using assms(3-)
    by (auto simp: repository_users_def repository_database_def stored_user_def refs_unique_at_def refs_unique_def
        split: option.splits file_entry.splits if_splits sum.splits)
qed

theorem credential_refs_stay_unique_witness:
  "let e = fst (run_store sample_crypto None sample_paths
             [EnrollCredential sample_enrollment,
              EnrollCredential (sample_enrollment\<lparr>en_user := sample_user\<lparr>ur_user_id := UserId ''bob''\<rparr>\<rparr>)]
             (sample_env, rejected_registry))
   in \<forall>u u' r r' k. repository_users (database_path sample_paths, k) e u = Some r \<longrightarrow>
        repository_users (database_path sample_paths, k) e u' = Some r' \<longrightarrow>
        ur_credential_ref r = ur_credential_ref r' \<longrightarrow> u = u'"
  unfolding Let_def
  using credential_refs_stay_unique [of sample_paths "(sample_env, rejected_registry)" _ sample_crypto None]
  by (auto simp: refs_unique_at_def sample_env_def)

section \<open>The master key\<close>

text \<open>C33: no run of the service replaces, truncates or removes the file of the master key. A file that is
  there at the start of the run is there, with the same content, at the end; and when there is none and
  another process puts its own there in the window between the check of an opening and its
  publication, the file of that process is the one at the end: the key that encrypts the passwords is
  not lost to a restart or to a second process. The hypothesis: other processes, too, keep a key file
  that is there.\<close>

theorem master_key_never_replaced:
  assumes "rivals_keep_key (master_key_path p) (fst s)"
  shows "let fs = files (fst (run_store C cn p cs s)) in
    (files (fst s) (master_key_path p) = Some x \<longrightarrow> fs (master_key_path p) = Some x) \<and>
    (files (fst s) (master_key_path p) = None \<and>
     rivals (fst s) = f # later \<and> (\<forall>g. g (master_key_path p) = None \<longrightarrow> f g (master_key_path p) = Some x) \<and>
     rivals (fst (run_store C cn p cs s)) \<noteq> f # later \<longrightarrow> fs (master_key_path p) = Some x)"
proof -
  have "rival_publishes (master_key_path p) x (f # later)"
    if "rivals (fst s) = f # later" "\<forall>g. g (master_key_path p) = None \<longrightarrow> f g (master_key_path p) = Some x"
    using that assms by (simp add: rival_publishes_def rivals_keep_key_def)
  from run_awaited_or_kept [OF this, of s C cn cs] show ?thesis
    using run_store_keeps [OF closed_key_stays stable_key_stays [OF _ assms], of x C cn cs]
    by (auto simp: Let_def awaited_or_kept_def key_awaited_def stable_def key_stays_def)
qed

text \<open>Processes that initialize the store at the same time end with the same master key: whichever
  files the others left between its calls, a process that gets a key has the key of the file, so two
  that end with the same file have the same key.\<close>

theorem initializers_agree:
  assumes "load_or_create_service_master_key C kp e = (e1, Inr k1)"
    and "load_or_create_service_master_key C kp e2 = (e3, Inr k2)"
    and "dpapi_roundtrip C" and "rivals_keep_key kp e2" and "files e2 kp = files e1 kp"
  shows "k1 = k2"
proof -
  have k1: "key_in_file C (files e2 kp) k1" using load_or_create_ok [OF assms(1,3)] assms(5) by simp
  then obtain x where x: "files e2 kp = Some x" by (auto simp: key_in_file_def)
  have "files e3 kp = Some x"
  proof -
    have "stable (key_stays kp x) e2" by (rule stable_key_stays [OF x assms(4)])
    moreover have "keeps (stable (key_stays kp x)) (load_or_create_service_master_key C kp)"
      by (rule stable_master_key) (auto simp: key_stays_def keeps_absent_publish_def)
    ultimately have "stable (key_stays kp x) e3" using assms(2) keepsD by metis
    then show ?thesis by (simp add: stable_def key_stays_def)
  qed
  then show ?thesis using k1 x load_or_create_ok [OF assms(2,3)] key_in_file_unique by metis
qed

definition rival_key :: "u8 list" where "rival_key = replicate 32 5"

definition contended_env :: store_env where
  "contended_env = sample_env\<lparr>rivals := [\<lambda>fs.
     if fs (master_key_path sample_paths) = None
     then fs(master_key_path sample_paths \<mapsto> RegularFile (key_file_bytes (1 # rival_key))) else fs]\<rparr>"

lemmas run_simps =
  unavailable_def store_error_def map_err_def sbind_def sret_def sfail_def get_file_def put_file_def
  others_run_def lift_result_def path_try_exists_def fill_cryptographic_bytes_def generate_master_key_def
  protect_master_key_def unprotect_master_key_def blob_to_vec_def save_if_absent_def publish_if_absent_def
  key_file_load_def load_or_create_service_master_key_def load_service_master_key_def

lemma sys_ok [simp]: "faults e = [] \<Longrightarrow> sys err e = (e, Inr ())"
  by (simp add: sys_def)

lemma rival_key_parsed: "parse_key_file (key_file_bytes (1 # rival_key)) = Inr (1 # rival_key)"
  by (simp add: parse_key_file_iff rival_key_def max_protected_master_key_len_def)

lemma contended_run:
  "snd (load_or_create_service_master_key sample_crypto (master_key_path sample_paths) contended_env) = Inr rival_key"
  "is_ok (snd (load_or_create_service_master_key sample_crypto (master_key_path sample_paths)
     (fst (load_or_create_service_master_key sample_crypto (master_key_path sample_paths) contended_env))))"
  "rivals (fst (load_or_create_service_master_key sample_crypto (master_key_path sample_paths) contended_env)) = []"
  by (simp_all add: run_simps contended_env_def sample_env_def sample_crypto_def rival_key_parsed
      master_key_len_def max_protected_master_key_len_def) (simp_all add: rival_key_def)

theorem initializers_agree_witness:
  "snd (load_or_create_service_master_key sample_crypto (master_key_path sample_paths)
     (fst (load_or_create_service_master_key sample_crypto (master_key_path sample_paths) contended_env))) =
   Inr rival_key"
proof -
  let ?run = "load_or_create_service_master_key sample_crypto (master_key_path sample_paths)"
  obtain e1 where 1: "?run contended_env = (e1, Inr rival_key)"
    using contended_run(1) by (cases "?run contended_env") simp
  obtain e3 k2 where 2: "?run e1 = (e3, Inr k2)"
    using contended_run(2) unfolding 1 by (cases "?run e1") (auto simp: is_ok_iff)
  have "rivals e1 = []" using contended_run(3) unfolding 1 by simp
  then have "rival_key = k2"
    using initializers_agree [OF 1 2 sample_laws(3)] by (simp add: rivals_keep_key_def)
  then show ?thesis by (simp add: 1 2)
qed

section \<open>Half a store\<close>

definition half_store :: "store_paths \<Rightarrow> file_system \<Rightarrow> bool" where
  "half_store p fs \<longleftrightarrow>
     present (fs (master_key_path p)) \<and> fs (database_path p) = None \<or>
     fs (master_key_path p) = None \<and> present (fs (database_path p))"

text \<open>An operation whose only error is that the store is unavailable.\<close>

definition only_unavailable :: "'a service_op \<Rightarrow> bool" where
  "only_unavailable m \<longleftrightarrow> (\<forall>e e' err. m e = (e', Inl err) \<longrightarrow> err = TransportUnavailable)"

lemma only_unavailable_intros:
  "only_unavailable (unavailable m')"
  "only_unavailable m \<Longrightarrow> (\<And>x. only_unavailable (f x)) \<Longrightarrow> only_unavailable (sbind m f)"
  "only_unavailable a \<Longrightarrow> only_unavailable b \<Longrightarrow> only_unavailable (if c then a else b)"
  "only_unavailable (sret y)" "only_unavailable (sfail TransportUnavailable)"
  "only_unavailable a \<Longrightarrow> (\<And>x. only_unavailable (g x)) \<Longrightarrow>
     only_unavailable (case v of None \<Rightarrow> a | Some x \<Rightarrow> g x)"
  by (auto simp: only_unavailable_def unavailable_def map_err_def sbind_def split: prod.splits sum.splits option.split)

lemma files_exist_only_unavailable: "only_unavailable (credential_store_files_exist p)"
  unfolding credential_store_files_exist_def is_file_def by (intro only_unavailable_intros)

lemma files_exist_half:
  assumes "half_store p (files e)"
  obtains e' where "credential_store_files_exist p e = (e', Inl TransportUnavailable)" "files e' = files e"
proof -
  obtain e' r where 1: "credential_store_files_exist p e = (e', r)" by fastforce
  have f: "files e' = files e" using readsD [OF reads_files_exist 1] by simp
  show thesis
  proof (cases r)
    case (Inl err)
    then show thesis using 1 f files_exist_only_unavailable [of p] that unfolding only_unavailable_def by metis
  next
    case (Inr b)
    let ?pin = "if pinned p then
              sbind (unavailable load_pinned_store_directory) (\<lambda>d.
                case d of
                  None \<Rightarrow> sfail TransportUnavailable
                | Some q \<Rightarrow>
                    if master_key_path p \<noteq> path_join q master_key_file_name \<or>
                       database_path p \<noteq> path_join q database_file_name
                    then sfail TransportUnavailable else sret ())
            else sret ()"
    obtain e0 x where 0: "?pin e = (e0, Inr x)"
      and 2: "sbind (is_file (master_key_path p)) (\<lambda>key.
     sbind (is_file (database_path p)) (\<lambda>db.
       if key \<and> db then sret True
       else if \<not> key \<and> \<not> db then sret False
       else sfail TransportUnavailable)) e0 = (e', Inr b)"
      using sbind_Inr_iff [THEN iffD1, OF 1 [unfolded credential_store_files_exist_def Inr]] by blast
    obtain e1 e2 k d where k: "file_exists (master_key_path p) e0 = (e1, Inr k)"
      and d: "file_exists (database_path p) e1 = (e2, Inr d)" and "k = d"
      using 2 unfolding is_file_def sbind_Inr_iff unavailable_Inr_iff by (auto split: if_splits)
    have "reads ?pin" by (intro reads_intros)
    then have "files e0 = files e" using 0 by (auto simp: reads_def dest: spec [of _ e])
    moreover have "files e1 = files e0" using readsD [OF reads_location(6) k] by simp
    ultimately have False
      using file_exists_ok [OF k] file_exists_ok [OF d] \<open>k = d\<close> assms by (auto simp: half_store_def present_def)
    then show thesis ..
  qed
qed

text \<open>When only one of the two files of the store is there, opening the store, checking a password and
  enrolling one are all refused, whatever else happens, and change no file: a lost database is not
  replaced by an empty one, and no new key is made for a database that needs the lost one. A refused
  enrollment clears no rejection of Windows.\<close>

theorem half_store_is_refused:
  assumes "half_store p (files e)"
  shows "snd (open_service_credential_store C p e) = Inl TransportUnavailable \<and>
    files (fst (open_service_credential_store C p e)) = files e \<and>
    snd (is_credential_secret_configured C p u c e) = Inl TransportUnavailable \<and>
    files (fst (is_credential_secret_configured C p u c e)) = files e \<and>
    snd (enroll_credential C p en (e, g)) = Inl TransportUnavailable \<and>
    files (fst (fst (enroll_credential C p en (e, g)))) = files e \<and>
    snd (fst (enroll_credential C p en (e, g))) = g"
proof -
  obtain e' where x: "credential_store_files_exist p e = (e', Inl TransportUnavailable)" "files e' = files e"
    by (rule files_exist_half [OF assms])
  have o: "open_service_credential_store C p e = (e', Inl TransportUnavailable)"
    using x(1) by (simp add: open_service_credential_store_def sbind_def)
  have "is_credential_secret_configured C p u c e = (e', Inl TransportUnavailable)"
    using x(1) by (simp add: is_credential_secret_configured_def sbind_def)
  moreover have "enroll_credential C p en (e, g) = ((e', g), Inl TransportUnavailable)"
    using o by (simp add: enroll_credential_def sbind_def)
  ultimately show ?thesis using o x(2) by simp
qed

theorem half_store_is_refused_witness:
  "snd (open_service_credential_store sample_crypto sample_paths
     (sample_env\<lparr>files := [database_path sample_paths \<mapsto> RegularFile [1]]\<rparr>)) = Inl TransportUnavailable"
proof -
  have "half_store sample_paths [database_path sample_paths \<mapsto> RegularFile [1]]"
    using paths_differ [of sample_paths] by (simp add: half_store_def present_def)
  then show ?thesis
    using half_store_is_refused [of sample_paths "sample_env\<lparr>files := [database_path sample_paths \<mapsto> RegularFile [1]]\<rparr>"]
    by simp
qed

section \<open>An interrupted first start\<close>

text \<open>The calls that succeed in the first opening before \<open>Connection::open\<close>.\<close>

definition calls_before_database :: nat where "calls_before_database = 12"

lemma sys_next: "faults e = b # bs \<Longrightarrow> sys err e = (e\<lparr>faults := bs\<rparr>, if b then Inl err else Inr ())"
  by (simp add: sys_def)

lemma half_store_call:
  assumes "half_store p (files (fst s))"
  shows "files (fst (call_store C cn p c s)) = files (fst s)"
proof -
  note r = half_store_is_refused [OF assms, of C]
  obtain e' where o: "open_service_credential_store C p (fst s) = (e', Inl TransportUnavailable)"
    using r by (metis prod.collapse)
  show ?thesis
  proof (cases c)
    case (EnrollCredential en)
    then show ?thesis using r by (cases s) auto
  next
    case (EnsureDevelopmentCredential pw u)
    then show ?thesis using r o by (simp add: on_store_def sbind_def)
  next
    case (ResolveMaterial k mk u)
    then show ?thesis using reads_resolve by (simp add: on_store_def reads_def)
  qed (use r in \<open>auto simp: on_store_def\<close>)
qed

lemma half_store_run:
  assumes "half_store p (files (fst s))"
  shows "files (fst (run_store C cn p cs s)) = files (fst s)"
  unfolding run_store_def
  by (rule fold_invariant [of cs "\<lambda>_. True"]) (simp_all add: half_store_call assms)

text \<open>C34: when the first opening of a store whose directory is not pinned fails between the publication of
  the key and the creation of the database, and no other process is at work, the key file stays, and
  from then on the service is stuck: after any further calls of the service on its store (openings,
  checks of a password, enrollments, resolutions, with any failures or none) the files are as the
  failed opening left them, and an opening, a check of a password and an enrollment are refused as
  unavailable. The service cannot start until the file is removed by hand.\<close>

theorem interrupted_first_open_is_permanent:
  fixes e :: store_env and C :: crypto and p :: store_paths
  defines "e1 \<equiv> fst (open_service_credential_store C p e)"
  assumes "\<not> pinned p" and "files e (master_key_path p) = None" and "files e (database_path p) = None"
    and "rivals e = []" and "faults e = replicate calls_before_database False @ [True]"
    and "dpapi_protect C (map (\<lambda>i. randoms e (randoms_used e + i)) [0..<master_key_len]) = Some blob"
    and "blob \<noteq> []" and "length blob \<le> max_protected_master_key_len"
  shows "snd (open_service_credential_store C p e) = Inl TransportUnavailable \<and>
    files e1 = (files e)(master_key_path p \<mapsto> RegularFile (key_file_bytes blob)) \<and>
    (\<forall>cn cs f g. case run_store C cn p cs (e1\<lparr>faults := f\<rparr>, g) of (e2, g2) \<Rightarrow>
       files e2 = files e1 \<and>
       snd (open_service_credential_store C p e2) = Inl TransportUnavailable \<and>
       (\<forall>u c. snd (is_credential_secret_configured C p u c e2) = Inl TransportUnavailable) \<and>
       (\<forall>en. snd (enroll_credential C p en (e2, g2)) = Inl TransportUnavailable))"
proof -
  let ?key = "map (\<lambda>i. randoms e (randoms_used e + i)) [0..<master_key_len]"
  have ne: "database_path p \<noteq> master_key_path p" using paths_differ [of p] by simp
  have run: "open_service_credential_store C p e =
    (e\<lparr>files := (files e)(master_key_path p \<mapsto> RegularFile (key_file_bytes blob)), faults := [],
       randoms_used := randoms_used e + master_key_len\<rparr>, Inl TransportUnavailable)"
    using assms(2-) ne
    by (simp add: open_service_credential_store_def credential_store_files_exist_def is_file_def
        file_exists_def ensure_parent_directory_def sqlcipher_open_def connection_open_def run_simps sys_next
        calls_before_database_def numeral_eq_Suc)
  then have e1: "files e1 = (files e)(master_key_path p \<mapsto> RegularFile (key_file_bytes blob))"
    by (simp add: e1_def)
  have half: "half_store p (files e1)"
    using ne assms(4) by (simp add: half_store_def e1 present_def)
  have "case run_store C cn p cs (e1\<lparr>faults := f\<rparr>, g) of (e2, g2) \<Rightarrow>
       files e2 = files e1 \<and>
       snd (open_service_credential_store C p e2) = Inl TransportUnavailable \<and>
       (\<forall>u c. snd (is_credential_secret_configured C p u c e2) = Inl TransportUnavailable) \<and>
       (\<forall>en. snd (enroll_credential C p en (e2, g2)) = Inl TransportUnavailable)" for cn cs f g
  proof (cases "run_store C cn p cs (e1\<lparr>faults := f\<rparr>, g)")
    case (Pair e2 g2)
    then have "files e2 = files e1"
      using half_store_run [of p "(e1\<lparr>faults := f\<rparr>, g)" C cn cs] half by simp
    then show ?thesis using Pair half_store_is_refused [of p e2 C] half by simp
  qed
  then show ?thesis using e1 run by simp
qed

definition interrupted_env :: store_env where
  "interrupted_env = sample_env\<lparr>faults := replicate calls_before_database False @ [True]\<rparr>"

theorem interrupted_first_open_is_permanent_witness:
  "let s = run_store sample_crypto None sample_paths [OpenStore, EnrollCredential sample_enrollment]
       ((fst (open_service_credential_store sample_crypto sample_paths interrupted_env))\<lparr>faults := []\<rparr>, rejected_registry)
   in snd (open_service_credential_store sample_crypto sample_paths (fst s)) = Inl TransportUnavailable \<and>
      snd (is_credential_secret_configured sample_crypto sample_paths (UserId ''ann'') (CredentialRef ''c1'') (fst s)) =
        Inl TransportUnavailable"
proof -
  let ?blob = "1 # map (\<lambda>i. randoms interrupted_env (randoms_used interrupted_env + i)) [0..<master_key_len]"
  have "files interrupted_env = Map.empty" "rivals interrupted_env = []"
    "faults interrupted_env = replicate calls_before_database False @ [True]"
    by (simp_all add: interrupted_env_def sample_env_def)
  moreover have "dpapi_protect sample_crypto x = Some (1 # x)" for x
    by (simp add: sample_crypto_def)
  moreover have "length ?blob \<le> max_protected_master_key_len"
    by (simp add: max_protected_master_key_len_def master_key_len_def)
  moreover have "\<not> pinned sample_paths" by (simp add: sample_paths_def from_store_dir_def)
  ultimately have "\<forall>cn cs f g. case run_store sample_crypto cn sample_paths cs
      ((fst (open_service_credential_store sample_crypto sample_paths interrupted_env))\<lparr>faults := f\<rparr>, g) of
      (e2, g2) \<Rightarrow>
        snd (open_service_credential_store sample_crypto sample_paths e2) = Inl TransportUnavailable \<and>
        (\<forall>u c. snd (is_credential_secret_configured sample_crypto sample_paths u c e2) = Inl TransportUnavailable)"
    using interrupted_first_open_is_permanent [of sample_paths interrupted_env sample_crypto ?blob]
    by (simp add: split_def)
  from this [rule_format, of None "[OpenStore, EnrollCredential sample_enrollment]" "[]" rejected_registry]
  show ?thesis by (simp add: Let_def split_def)
qed

section \<open>The rejections of Windows\<close>

text \<open>C19: only an enrollment into the pinned store whose password was saved touches the guard of the
  machine: opening the store, checking a password and resolving one for a sign-in never clear a
  rejection of Windows.\<close>

theorem rejection_cleared_only_by_enrollment:
  "snd (call_store C cn p c s) = snd s \<or>
   (\<exists>en k. c = EnrollCredential en \<and> pinned p \<and>
      repository_users (database_path p, k) (fst (call_store C cn p c s)) (ur_user_id (en_user en)) =
        Some (en_user en))"
proof (cases c)
  case (EnrollCredential en)
  obtain e g where s: "s = (e, g)" by fastforce
  show ?thesis
  proof (cases "snd (call_store C cn p c s) = snd s")
    case changed: False
    obtain e1 r where x: "sbind (open_service_credential_store C p) (\<lambda>(conn, key). save_enrollment C conn key en) e = (e1, r)"
      by fastforce
    have "pinned p" "r = Inr ()" "fst (call_store C cn p c s) = e1"
      using changed x by (auto simp: EnrollCredential s enroll_credential_def split: prod.splits sum.splits if_splits)
    then obtain e2 conn key where o: "open_service_credential_store C p e = (e2, Inr (conn, key))"
      and v: "save_enrollment C conn key en e2 = (e1, Inr ())"
      using x by (auto simp: sbind_Inr_iff)
    obtain e3 blob where "save_credential_enrollment conn (en_user en) blob e3 = (e1, Inr ())"
      using v by (auto simp: save_enrollment_def sbind_Inr_iff unavailable_Inr_iff)
    then have "repository_users conn e1 (ur_user_id (en_user en)) = Some (en_user en)"
      by (simp add: save_credential_enrollment_ok)
    then show ?thesis
      using EnrollCredential \<open>pinned p\<close> \<open>fst (call_store C cn p c s) = e1\<close> open_connection [OF o] by auto
  qed simp
qed (simp_all add: on_store_def)

section \<open>A password only opens for its owner\<close>

text \<open>C10: a stored password that was encrypted for one user and reference is refused for any other: a row
  moved or copied inside the database gives no sign-in. AES-GCM is assumed to reject other associated
  data.\<close>

theorem moved_password_is_refused:
  assumes "aead_authentic C"
    and "encrypt_credential_secret C key (UserId u) (CredentialRef c) secret e0 = (e0', Inr b)"
    and "repository_users conn e (UserId v) = Some r" and "ur_credential_ref r = CredentialRef d"
    and "repository_blobs conn e (CredentialRef d) = Some b"
    and "u \<noteq> v \<or> c \<noteq> d"
    and "length u < 2 ^ 32" and "length v < 2 ^ 32" and "length c < 2 ^ 32" and "length d < 2 ^ 32"
  shows "\<not> is_ok (snd (resolve_material_in C cn (repository_credential_store conn) (Some key) (UserId v) e))"
proof
  assume "is_ok (snd (resolve_material_in C cn (repository_credential_store conn) (Some key) (UserId v) e))"
  then obtain e' m where res: "resolve_material_in C cn (repository_credential_store conn) (Some key) (UserId v) e = (e', Inr m)"
    by (cases "resolve_material_in C cn (repository_credential_store conn) (Some key) (UserId v) e") (auto simp: is_ok_iff)
  have rv: "ur_user_id r = UserId v"
    using assms(3) by (auto simp: repository_users_def stored_user_def split: option.splits sum.splits)
  obtain secret' where "decrypt_credential_secret C key (UserId v) (CredentialRef d) b = Inr secret'"
    using repository.resolved_from_store [OF res] assms(3-5) rv by auto
  then have o: "aead_open C key (blob_nonce b) (ciphertext b) (to_aad_bytes (UserId v) (CredentialRef d)) = Some secret'"
    by (auto simp: decrypt_credential_secret_def ok_or_Inr_iff split: if_splits)
  have "aead_seal C key (blob_nonce b) secret (to_aad_bytes (UserId u) (CredentialRef c)) = Some (ciphertext b)"
    using assms(2) by (auto simp: encrypt_credential_secret_def sbind_Inr_iff split: option.splits)
  moreover have "to_aad_bytes (UserId v) (CredentialRef d) \<noteq> to_aad_bytes (UserId u) (CredentialRef c)"
    using associated_data_injective [of v u d c] assms(6-) by auto
  ultimately have "aead_open C key (blob_nonce b) (ciphertext b) (to_aad_bytes (UserId v) (CredentialRef d)) = None"
    using assms(1) unfolding aead_authentic_def by blast
  then show False using o by simp
qed

definition moved_blob :: credential_blob where
  "moved_blob =
     \<lparr>algorithm = Aes256GcmV1, blob_nonce = map (\<lambda>i. word_of_nat (7 + i)) [0..<aes_gcm_nonce_len],
      ciphertext = sample_tag (to_aad_bytes (UserId ''ann'') (CredentialRef ''c1'')) @ string_bytes ''secret''\<rparr>"

definition moved_env :: store_env where
  "moved_env = sample_env\<lparr>files := [database_path sample_paths \<mapsto> DatabaseFile ''k''
     (empty_database\<lparr>users := [(UserId ''bob'',
          \<lparr>row_user_sid = ''S-2'', row_username = ''bob'', row_account_type = ''local'',
           row_credential_ref = CredentialRef ''c2'', row_policy_id = ''default'', row_created_at = 0,
           row_updated_at = 0\<rparr>)],
        credentials := [(CredentialRef ''c2'',
          blob_record_of (CredentialRef ''c2'') (case serialize_blob moved_blob of Inl _ \<Rightarrow> [] | Inr bs \<Rightarrow> bs))]\<rparr>)]\<rparr>"

lemma sample_tag_nonempty: "sample_tag a \<noteq> []"
  by (cases a) simp_all

lemma sample_tag_length: "length (sample_tag a) = Suc (2 * length a)"
  by (induction a) simp_all

lemma moved_blob_serializes: "\<exists>bs. serialize_blob moved_blob = Inr bs"
proof -
  have "length (ciphertext moved_blob) \<le> 2 ^ 32 - 1"
    by (simp add: moved_blob_def sample_tag_length len_prefixed_bytes_def credential_blob_aad_context_def)
  then show ?thesis
    by (simp add: serialize_blob_def moved_blob_def sample_tag_nonempty aes_gcm_nonce_len_def)
qed

theorem moved_password_is_refused_witness:
  "\<not> is_ok (snd (resolve_material_in sample_crypto None
     (repository_credential_store (database_path sample_paths, ''k'')) (Some rival_key) (UserId ''bob'') moved_env))"
proof (rule moved_password_is_refused [where u = "''ann''" and c = "''c1''" and d = "''c2''" and b = moved_blob])
  obtain bs where bs: "serialize_blob moved_blob = Inr bs" using moved_blob_serializes by blast
  then have "deserialize_blob bs = Inr moved_blob" by (simp add: deserialize_serialize)
  then show "repository_blobs (database_path sample_paths, ''k'') moved_env (CredentialRef ''c2'') = Some moved_blob"
    by (simp add: repository_blobs_def repository_database_def moved_env_def stored_blob_def blob_record_of_def bs)
  show "repository_users (database_path sample_paths, ''k'') moved_env (UserId ''bob'') =
    Some \<lparr>ur_user_id = UserId ''bob'', ur_user_sid = ''S-2'', ur_username = ''bob'', ur_account_type = Local,
          ur_credential_ref = CredentialRef ''c2''\<rparr>"
    by (simp add: repository_users_def repository_database_def moved_env_def stored_user_def
        account_type_from_storage_def)
  show "encrypt_credential_secret sample_crypto rival_key (UserId ''ann'') (CredentialRef ''c1'')
      (string_bytes ''secret'') sample_env =
    (sample_env\<lparr>randoms_used := aes_gcm_nonce_len\<rparr>, Inr moved_blob)"
    by (simp add: encrypt_credential_secret_def run_simps sample_env_def sample_crypto_def moved_blob_def)
qed (simp_all add: sample_laws)

section \<open>An enrolled password is the one handed out\<close>

lemma keeps_rivals_read: "reads m \<Longrightarrow> keeps (rivals_keep_key kp) m"
  by (simp add: reads_def keeps_def rivals_keep_key_def)

lemma keeps_rivals_run: "keeps (rivals_keep_key kp) others_run" "keeps (rivals_keep_key kp) (put_file p x)"
  by (simp_all add: keeps_def rivals_keep_key_def others_run_def put_file_def split: list.split)

lemma rivals_after_key: "keeps (rivals_keep_key kp) (load_or_create_service_master_key C p)"
  unfolding load_or_create_service_master_key_def save_if_absent_def publish_if_absent_def
  by (intro keeps_sbind keeps_if keeps_sret keeps_sfail stable_unavailable keeps_rivals_run
      keeps_rivals_read reads_intros)

text \<open>An opened store works with the key in the file.\<close>

lemma open_key_in_file:
  assumes "open_service_credential_store C p e = (e', Inr (conn, key))"
    and "dpapi_roundtrip C" and "rivals_keep_key (master_key_path p) e"
  shows "key_in_file C (files e' (master_key_path p)) key"
proof -
  let ?kp = "master_key_path p"
  obtain e1 b e2 x e3 y e4 k where 1: "credential_store_files_exist p e = (e1, Inr b)"
    and 2: "ensure_parent_directory e1 = (e2, Inr x)" and 3: "ensure_parent_directory e2 = (e3, Inr y)"
    and l: "load_or_create_service_master_key C ?kp e3 = (e4, Inr k)"
    and o: "open_with_key p k e4 = (e', Inr (conn, key))"
    using assms(1) unfolding open_split sbind_Inr_iff by blast
  have "k = key" using o by (auto simp: open_with_key_def sbind_Inr_iff)
  have "rivals_keep_key ?kp e3"
    using assms(3) readsD [OF reads_files_exist 1] readsD [OF reads_ensure 2] readsD [OF reads_ensure 3]
    by (simp add: rivals_keep_key_def)
  then have r: "rivals_keep_key ?kp e4" by (rule keepsD [OF rivals_after_key _ l])
  have k: "key_in_file C (files e4 ?kp) key"
    using load_or_create_ok [OF l assms(2)] \<open>k = key\<close> by simp
  then obtain f where f: "files e4 ?kp = Some f" by (auto simp: key_in_file_def)
  have "stable (key_stays ?kp f) e'"
    by (rule keepsD [OF stable_open_with_key [OF closed_key_stays] stable_key_stays [OF f r] o])
  then show ?thesis using k f by (simp add: stable_def key_stays_def)
qed

lemma execute_query_succeeds:
  assumes "faults e = []" and "repository_database conn e = Some db" and "stmt db = Inr (db, x)"
  shows "execute conn stmt e = (e, Inr x)"
proof -
  have f: "files e (fst conn) = Some (DatabaseFile (snd conn) db)"
    using assms(2) by (simp add: repository_database_def split: option.splits file_entry.splits if_splits)
  then have "(files e)(fst conn \<mapsto> DatabaseFile (snd conn) db) = files e" by (simp add: fun_upd_idem)
  moreover have "read_database conn e = (e, Inr db)" using assms(2) by (simp add: read_database_iff)
  ultimately show ?thesis using assms(1,3)
    by (simp add: execute_def sbind_def put_file_def sret_def)
qed

lemma get_user_succeeds:
  assumes "faults e = []" and "repository_users conn e u = Some r"
  shows "get_user conn u e = (e, Inr r)"
proof -
  obtain db where d: "repository_database conn e = Some db" "stored_user db u = Some r"
    using assms(2) by (auto simp: repository_users_def split: option.splits)
  then obtain s where "select_user u db = Inr (db, s)"
    and "r = \<lparr>ur_user_id = su_user_id s, ur_user_sid = su_user_sid s, ur_username = su_username s,
             ur_account_type = su_account_type s, ur_credential_ref = su_credential_ref s\<rparr>"
    by (auto simp: stored_user_def select_user_def split: option.splits sum.splits)
  then show ?thesis using execute_query_succeeds [where stmt = "select_user u", OF assms(1) d(1)]
    by (simp add: get_user_def sbind_def sret_def)
qed

lemma load_blob_succeeds:
  assumes "faults e = []" and "repository_blobs conn e c = Some b"
  shows "load_encrypted_credential_blob conn c e = (e, Inr b)"
proof -
  obtain db s where d: "repository_database conn e = Some db" and s: "select_credential_blob c db = Inr (db, s)"
    and b: "deserialize_blob (encrypted_blob_bytes s) = Inr b"
    using assms(2)
    by (auto simp: repository_blobs_def stored_blob_def select_credential_blob_def result_ok_Some_iff
        split: option.splits)
  show ?thesis using execute_query_succeeds [where stmt = "select_credential_blob c", OF assms(1) d s] b
    by (simp add: load_encrypted_credential_blob_def sbind_def lift_result_def)
qed

lemma fill_length: "fill_cryptographic_bytes n e = (e', Inr bs) \<Longrightarrow> length bs = n"
  unfolding fill_cryptographic_bytes_def sbind_Inr_iff by fastforce

text \<open>What an encryption gives is decrypted to the secret.\<close>

lemma encrypt_decrypt:
  assumes "aead_roundtrip C" and "encrypt_credential_secret C key u c secret e = (e', Inr b)"
  shows "decrypt_credential_secret C key u c b = Inr secret"
proof -
  obtain nonce e1 where f: "fill_cryptographic_bytes aes_gcm_nonce_len e = (e1, Inr nonce)"
    and 1: "(case aead_seal C key nonce secret (to_aad_bytes u c) of None \<Rightarrow> sfail CredentialBlobEncryptionFailed
       | Some ct \<Rightarrow> sret \<lparr>algorithm = Aes256GcmV1, blob_nonce = nonce, ciphertext = ct\<rparr>) e1 = (e', Inr b)"
    using assms(2) unfolding encrypt_credential_secret_def sbind_Inr_iff by blast
  have n: "length nonce = aes_gcm_nonce_len" "blob_nonce b = nonce" "algorithm b = Aes256GcmV1"
    "aead_seal C key nonce secret (to_aad_bytes u c) = Some (ciphertext b)"
    using fill_length [OF f] 1 by (cases "aead_seal C key nonce secret (to_aad_bytes u c)"; auto)+
  then have "aead_open C key nonce (ciphertext b) (to_aad_bytes u c) = Some secret"
    using assms(1) unfolding aead_roundtrip_def by blast
  then show ?thesis using n by (simp add: decrypt_credential_secret_def)
qed

text \<open>The password saved by an enrollment is resolved when nothing fails, with the key of the enrollment.\<close>

lemma saved_password_resolves:
  assumes "save_enrollment C conn key en e = (e', Inr x)" and "aead_roundtrip C" and "faults e' = []"
    and "\<not> is_placeholder (en_user en)"
  shows "resolve_material_in C cn (repository_credential_store conn) (Some key) (ur_user_id (en_user en)) e' =
    (e', material_of C cn (en_user en) (string_bytes (en_password en)))"
proof -
  let ?u = "en_user en"
  obtain b e1 where c: "encrypt_credential_secret C key (ur_user_id ?u) (ur_credential_ref ?u)
      (string_bytes (en_password en)) e = (e1, Inr b)"
    and s: "save_credential_enrollment conn ?u b e1 = (e', Inr x)"
    using assms(1) by (auto simp: save_enrollment_def sbind_Inr_iff unavailable_Inr_iff)
  have "repository_users conn e' (ur_user_id ?u) = Some ?u" "repository_blobs conn e' (ur_credential_ref ?u) = Some b"
    using save_credential_enrollment_ok [OF s] by simp_all
  then have "get_user conn (ur_user_id ?u) e' = (e', Inr ?u)"
    "load_encrypted_credential_blob conn (ur_credential_ref ?u) e' = (e', Inr b)"
    using assms(3) by (simp_all add: get_user_succeeds load_blob_succeeds)
  then show ?thesis
    using encrypt_decrypt [OF assms(2) c] assms(4)
    by (simp add: resolve_material_in_def material_of_def in_store_def map_err_def sbind_def
        repository_credential_store_def lift_result_def reject_iff)
qed

text \<open>C4: a password enrolled while the service runs is what the service hands out from then on: the
  resolver made at the start of the service gives material for the credential provider that decrypts
  to the enrolled password, under the user's name and domain. The enrollment opens the store again;
  it finds the same key. Hypotheses: the laws of the cryptography, no failing call while the password
  is resolved, and other processes that keep the key file.\<close>

theorem enrolled_password_is_handed_out:
  assumes "open_service_credential_store C p e = (e1, Inr (conn, key))"
    and "enroll_credential C p en (e2, g) = ((e3, g'), Inr ())"
    and "files e2 (master_key_path p) = files e1 (master_key_path p)"
    and "rivals_keep_key (master_key_path p) e" and "rivals_keep_key (master_key_path p) e2"
    and "aead_roundtrip C" and "dpapi_roundtrip C" and "faults e3 = []"
    and "\<not> is_placeholder (en_user en)" and "user_id gr = ur_user_id (en_user en)"
    and "dpapi_protect C (string_bytes (en_password en)) = Some sealed" and "sealed \<noteq> []" and "en_password en \<noteq> []"
  shows "\<exists>m. snd (resolve_credential_material C cn (repository_credential_store conn) gr
           \<lparr>rs_store = e3, rs_master_key = Some key\<rparr>) = Inr m \<and>
    unprotect_credential_material C m = Inr
      \<lparr>cm_user_id = ur_user_id (en_user en),
       cm_domain = credential_domain cn (ur_account_type (en_user en)) (ur_username (en_user en)),
       cm_username = credential_username (ur_account_type (en_user en)) (ur_username (en_user en)),
       cm_password = string_bytes (en_password en)\<rparr>"
proof -
  let ?kp = "master_key_path p"
  have k1: "key_in_file C (files e2 ?kp) key"
    using open_key_in_file [OF assms(1,7,4)] assms(3) by simp
  obtain e4 where "sbind (open_service_credential_store C p) (\<lambda>(conn, key). save_enrollment C conn key en) e2 =
      (e3, Inr ())"
    using assms(2) by (auto simp: enroll_credential_def split: prod.splits sum.splits if_splits)
  then obtain e4 conn' key' where o: "open_service_credential_store C p e2 = (e4, Inr (conn', key'))"
    and v: "save_enrollment C conn' key' en e4 = (e3, Inr ())"
    by (auto simp: sbind_Inr_iff)
  obtain f where f: "files e2 ?kp = Some f" using k1 by (auto simp: key_in_file_def)
  have "stable (key_stays ?kp f) e4"
    by (rule keepsD [OF stable_open [OF closed_key_stays] stable_key_stays [OF f assms(5)] o])
  then have "files e4 ?kp = files e2 ?kp" using f by (simp add: stable_def key_stays_def)
  then have "key' = key"
    using key_in_file_unique [OF open_key_in_file [OF o assms(7,5)]] k1 by simp
  then have "conn' = conn" using open_connection [OF assms(1)] open_connection [OF o] by simp
  have "dpapi_unprotect C sealed = Some (string_bytes (en_password en))"
    using assms(7,11) by (simp add: dpapi_roundtrip_def)
  then show ?thesis
    using saved_password_resolves [OF v assms(6,8,9), of cn] assms(10-)
    unfolding \<open>key' = key\<close> \<open>conn' = conn\<close>
    by (simp add: resolve_credential_material_def with_store_def material_of_def protect_credential_material_def
        protect_local_machine_def unprotect_credential_material_def unprotect_local_machine_def blob_to_vec_def
        string_bytes_def)
qed

subsection \<open>A first start and an enrollment on the sample machine\<close>

definition sample_key :: "u8 list" where
  "sample_key = map (\<lambda>i. word_of_nat (7 + i)) [0..<master_key_len]"

definition sample_database :: database where
  "sample_database = (migrated empty_database)\<lparr>policies := [(default_policy_id,
       \<lparr>liveness_requirement = NotRequired, face_match_threshold = default_face_match_threshold,
        failure_limit = 3, cooldown_duration_seconds = 30\<rparr>)]\<rparr>"

definition started_env :: store_env where
  "started_env = sample_env
     \<lparr>files := [master_key_path sample_paths \<mapsto> RegularFile (key_file_bytes (1 # sample_key)),
               database_path sample_paths \<mapsto> DatabaseFile (encode_sqlcipher_raw_key sample_key) sample_database],
      randoms_used := master_key_len\<rparr>"

lemmas open_simps =
  run_simps open_service_credential_store_def credential_store_files_exist_def is_file_def file_exists_def
  ensure_parent_directory_def sqlcipher_open_def connection_open_def apply_migrations_def store_initialize_def
  execute_def read_database_def write_policy_record_def Let_def

lemma sample_key_parsed: "parse_key_file (key_file_bytes (1 # sample_key)) = Inr (1 # sample_key)"
  by (simp add: parse_key_file_iff sample_key_def max_protected_master_key_len_def master_key_len_def)

lemma run_schema_succeeds:
  "faults e = [] \<Longrightarrow> run_schema_statements fs db e = (e, Inr (fold (\<lambda>f. f) fs db))"
  by (induction fs arbitrary: db) (simp_all add: sbind_def sret_def)

lemma sample_facts:
  "length sample_key = master_key_len" "\<not> pinned sample_paths"
  "master_key_path sample_paths \<noteq> database_path sample_paths" "database_path sample_paths \<noteq> master_key_path sample_paths"
  using paths_differ [of sample_paths]
  by (auto simp: sample_key_def sample_paths_def from_store_dir_def)

lemma sample_open:
  "open_service_credential_store sample_crypto sample_paths sample_env =
     (started_env, Inr ((database_path sample_paths, encode_sqlcipher_raw_key sample_key), sample_key))"
proof -
  have k: "map (\<lambda>i. randoms sample_env (randoms_used sample_env + i)) [0..<master_key_len] = sample_key"
    by (simp add: sample_env_def sample_key_def)
  have "faults sample_env = []" "rivals sample_env = []" "files sample_env = Map.empty" "randoms_used sample_env = 0"
    by (simp_all add: sample_env_def)
  note e = this
  have c: "dpapi_protect sample_crypto sample_key = Some (1 # sample_key)" by (simp add: sample_crypto_def)
  have l: "length (1 # sample_key) \<le> max_protected_master_key_len"
    by (simp add: sample_key_def max_protected_master_key_len_def master_key_len_def)
  show ?thesis
    using e c l k
    by (simp add: open_simps sample_facts run_schema_succeeds fold_schema_statements started_env_def
        sample_database_def migrated_def empty_database_def)
qed

lemma sample_reopen:
  "open_service_credential_store sample_crypto sample_paths started_env =
     (started_env, Inr ((database_path sample_paths, encode_sqlcipher_raw_key sample_key), sample_key))"
proof -
  let ?kp = "master_key_path sample_paths" and ?dp = "database_path sample_paths"
  have e: "faults started_env = []" "rivals started_env = []"
    "files started_env = [?kp \<mapsto> RegularFile (key_file_bytes (1 # sample_key)),
       ?dp \<mapsto> DatabaseFile (encode_sqlcipher_raw_key sample_key) sample_database]"
    by (simp_all add: started_env_def sample_env_def)
  have c: "dpapi_unprotect sample_crypto (1 # sample_key) = Some sample_key" "sample_key \<noteq> []"
    by (simp_all add: sample_crypto_def sample_key_def master_key_len_def)
  have m: "migrated sample_database = sample_database"
    "sample_database\<lparr>policies := AList.update default_policy_id
       \<lparr>liveness_requirement = NotRequired, face_match_threshold = default_face_match_threshold,
        failure_limit = 3, cooldown_duration_seconds = 30\<rparr> (policies sample_database)\<rparr> = sample_database"
    by (simp_all add: sample_database_def migrated_def empty_database_def)
  have f: "started_env\<lparr>files := [?kp \<mapsto> RegularFile (key_file_bytes (1 # sample_key)),
       ?dp \<mapsto> DatabaseFile (encode_sqlcipher_raw_key sample_key) sample_database]\<rparr> = started_env"
    by (simp add: started_env_def)
  show ?thesis
    using e c f
    by (simp add: open_simps sample_facts run_schema_succeeds fold_schema_statements m sample_key_parsed)
qed

lemma contended_open:
  "rivals (fst (open_service_credential_store sample_crypto sample_paths contended_env)) = []"
proof -
  have e: "faults contended_env = []" "files contended_env = Map.empty" "randoms_used contended_env = 0"
    "rivals contended_env = [\<lambda>fs.
     if fs (master_key_path sample_paths) = None
     then fs(master_key_path sample_paths \<mapsto> RegularFile (key_file_bytes (1 # rival_key))) else fs]"
    "randoms contended_env = (\<lambda>i. word_of_nat (7 + i))"
    by (simp_all add: contended_env_def sample_env_def)
  have c: "dpapi_protect sample_crypto z = Some (1 # z)" "dpapi_unprotect sample_crypto (1 # z) = Some z" for z
    by (simp_all add: sample_crypto_def)
  have l: "length rival_key = master_key_len" "rival_key \<noteq> []" "Suc master_key_len \<le> max_protected_master_key_len"
    by (simp_all add: rival_key_def max_protected_master_key_len_def master_key_len_def)
  show ?thesis
    using e c l
    by (simp add: open_simps sample_facts run_schema_succeeds fold_schema_statements rival_key_parsed)
qed

theorem master_key_never_replaced_witness:
  "files (fst (run_store sample_crypto None sample_paths [OpenStore, EnrollCredential sample_enrollment]
     (sample_env\<lparr>files := [master_key_path sample_paths \<mapsto> RegularFile [1]]\<rparr>, rejected_registry)))
     (master_key_path sample_paths) = Some (RegularFile [1]) \<and>
   files (fst (run_store sample_crypto None sample_paths [OpenStore] (contended_env, rejected_registry)))
     (master_key_path sample_paths) = Some (RegularFile (key_file_bytes (1 # rival_key)))"
proof
  show "files (fst (run_store sample_crypto None sample_paths [OpenStore, EnrollCredential sample_enrollment]
     (sample_env\<lparr>files := [master_key_path sample_paths \<mapsto> RegularFile [1]]\<rparr>, rejected_registry)))
     (master_key_path sample_paths) = Some (RegularFile [1])"
    using master_key_never_replaced [of sample_paths
        "(sample_env\<lparr>files := [master_key_path sample_paths \<mapsto> RegularFile [1]]\<rparr>, rejected_registry)"]
    by (simp add: sample_env_def rivals_keep_key_def Let_def)
next
  have "rivals_keep_key (master_key_path sample_paths) contended_env"
    by (simp add: contended_env_def sample_env_def rivals_keep_key_def)
  moreover have "rivals (fst (run_store sample_crypto None sample_paths [OpenStore] (contended_env, rejected_registry))) = []"
    using contended_open by (simp add: run_store_def on_store_def)
  ultimately show "files (fst (run_store sample_crypto None sample_paths [OpenStore] (contended_env, rejected_registry)))
     (master_key_path sample_paths) = Some (RegularFile (key_file_bytes (1 # rival_key)))"
    using master_key_never_replaced [of sample_paths "(contended_env, rejected_registry)"]
    by (simp add: Let_def contended_env_def sample_env_def)
qed

lemma sample_enrolls:
  "snd (enroll_credential sample_crypto sample_paths sample_enrollment (started_env, g)) = Inr ()"
  "faults (fst (fst (enroll_credential sample_crypto sample_paths sample_enrollment (started_env, g)))) = []"
  "snd (fst (enroll_credential sample_crypto sample_paths sample_enrollment (started_env, g))) = g"
proof -
  let ?ct = "sample_tag (to_aad_bytes (UserId ''ann'') (CredentialRef ''c1'')) @ string_bytes ''secret''"
  let ?nonce = "map (\<lambda>i. word_of_nat (39 + i)) [0..<12] :: u8 list"
  have ct: "length ?ct \<le> 2 ^ 32 - 1" "?ct \<noteq> []"
    using sample_tag_length [of "to_aad_bytes (UserId ''ann'') (CredentialRef ''c1'')"]
    by (simp_all add: len_prefixed_bytes_def credential_blob_aad_context_def sample_tag_nonempty)
  obtain bs where bs: "serialize_blob \<lparr>algorithm = Aes256GcmV1, blob_nonce = ?nonce, ciphertext = ?ct\<rparr> = Inr bs"
    using ct by (simp add: serialize_blob_def)
  have seal: "aead_seal sample_crypto k n m a = Some (sample_tag a @ m)" for k n m a
    by (simp add: sample_crypto_def)
  have e: "faults started_env = []" "randoms started_env = (\<lambda>i. word_of_nat (7 + i))"
    "randoms_used started_env = 32"
    "files started_env (database_path sample_paths) =
       Some (DatabaseFile (encode_sqlcipher_raw_key sample_key) sample_database)"
    by (simp_all add: started_env_def sample_env_def master_key_len_def)
  have "sbind (open_service_credential_store sample_crypto sample_paths)
      (\<lambda>(conn, key). save_enrollment sample_crypto conn key sample_enrollment) started_env =
    save_enrollment sample_crypto (database_path sample_paths, encode_sqlcipher_raw_key sample_key) sample_key
      sample_enrollment started_env"
    by (subst sbind_step, rule sample_reopen) simp
  moreover have "\<exists>e'. save_enrollment sample_crypto (database_path sample_paths, encode_sqlcipher_raw_key sample_key)
      sample_key sample_enrollment started_env = (e', Inr ()) \<and> faults e' = []"
    using e bs seal
    by (simp add: save_enrollment_def save_credential_enrollment_def repo_save_credential_enrollment_def
        encrypt_credential_secret_def execute_in_def commit_def run_simps read_database_def
        sample_enrollment_def sample_user_def aes_gcm_nonce_len_def stored_of_user_def blob_record_of_def
        sample_database_def migrated_def empty_database_def bound_to_another_user_def
        write_credential_blob_record_def write_user_record_def default_policy_id_def)
  ultimately show
    "snd (enroll_credential sample_crypto sample_paths sample_enrollment (started_env, g)) = Inr ()"
    "faults (fst (fst (enroll_credential sample_crypto sample_paths sample_enrollment (started_env, g)))) = []"
    "snd (fst (enroll_credential sample_crypto sample_paths sample_enrollment (started_env, g))) = g"
    by (auto simp: enroll_credential_def sample_facts)
qed

definition sample_store_grant :: auth_grant where
  "sample_store_grant =
     \<lparr>grant_id = GrantId ''g'', nonce = Nonce ''n'', session_id = SessionId ''s'', user_id = UserId ''ann'',
      source = ManualTest, score = \<lparr>match_score = f32_zero, liveness_score = None\<rparr>,
      issued_at_unix_ms = 0, expires_at_unix_ms = 5000\<rparr>"

theorem enrolled_password_is_handed_out_witness:
  "\<exists>m. snd (resolve_credential_material sample_crypto (Some ''PC'')
         (repository_credential_store (database_path sample_paths, encode_sqlcipher_raw_key sample_key)) sample_store_grant
         \<lparr>rs_store = fst (fst (enroll_credential sample_crypto sample_paths sample_enrollment
            (started_env, rejected_registry))), rs_master_key = Some sample_key\<rparr>) = Inr m \<and>
     unprotect_credential_material sample_crypto m = Inr
       \<lparr>cm_user_id = UserId ''ann'', cm_domain = ''PC'', cm_username = ''ann'', cm_password = string_bytes ''secret''\<rparr>"
proof -
  let ?en = "enroll_credential sample_crypto sample_paths sample_enrollment (started_env, rejected_registry)"
  have "?en = ((fst (fst ?en), rejected_registry), Inr ())"
    using sample_enrolls [of rejected_registry] by (metis prod.collapse)
  note handed_out = enrolled_password_is_handed_out [where gr = sample_store_grant and cn = "Some ''PC''"
      and sealed = "1 # string_bytes ''secret''", OF sample_open this]
  have en: "en_user sample_enrollment = sample_user" "en_password sample_enrollment = ''secret''"
    "ur_user_id sample_user = UserId ''ann''" "ur_account_type sample_user = Local"
    "ur_username sample_user = ''ann''" "user_id sample_store_grant = UserId ''ann''"
    "\<not> is_placeholder sample_user"
    by (simp_all add: sample_enrollment_def sample_user_def sample_store_grant_def is_placeholder_def)
  have "rivals_keep_key (master_key_path sample_paths) sample_env"
    "rivals_keep_key (master_key_path sample_paths) started_env"
    by (simp_all add: rivals_keep_key_def started_env_def sample_env_def)
  moreover have "dpapi_protect sample_crypto x = Some (1 # x)" for x
    by (simp add: sample_crypto_def)
  ultimately show ?thesis
    using handed_out sample_laws sample_enrolls(2) [of rejected_registry] by (simp add: en)
qed

end
