(* ===== verification/Control_Text.thy ===== *)
theory Control_Text
  imports F32
begin

text \<open>
  The operations of \<open>str\<close>, \<open>u128\<close> and \<open>f32\<close> that the control application's crates apply to texts
  (strings of UTF-8 bytes): trimming, ASCII case, prefixes, lines, and the reading and printing of
  numbers.
\<close>

section \<open>Trimming\<close>

text \<open>The characters with the Unicode property \<open>White_Space\<close>, as UTF-8 bytes. In a valid text the
  bytes of one stand for the character wherever they occur.\<close>

definition utf8_bytes :: "nat list \<Rightarrow> string" where
  "utf8_bytes ns = map char_of ns"

definition white_space :: "string list" where
  "white_space = map utf8_bytes
     ([[9], [10], [11], [12], [13], [32], [0xC2, 0x85], [0xC2, 0xA0], [0xE1, 0x9A, 0x80]] @
      map (\<lambda>k. [0xE2, 0x80, k])
        [0x80, 0x81, 0x82, 0x83, 0x84, 0x85, 0x86, 0x87, 0x88, 0x89, 0x8A, 0xA8, 0xA9, 0xAF] @
      [[0xE2, 0x81, 0x9F], [0xE3, 0x80, 0x80]])"

fun strip_prefix :: "string \<Rightarrow> string \<Rightarrow> string option" where
  "strip_prefix [] cs = Some cs"
| "strip_prefix (p # ps) [] = None"
| "strip_prefix (p # ps) (c # cs) = (if p = c then strip_prefix ps cs else None)"

text \<open>The text after the first of the patterns it begins with.\<close>

fun strip_any :: "string list \<Rightarrow> string \<Rightarrow> string option" where
  "strip_any [] cs = None"
| "strip_any (p # ps) cs =
     (case strip_prefix p cs of Some rest \<Rightarrow> Some rest | None \<Rightarrow> strip_any ps cs)"

lemma strip_prefix_append: "strip_prefix p cs = Some rest \<longleftrightarrow> cs = p @ rest"
  by (induction p cs rule: strip_prefix.induct) auto

lemma strip_any_Some: "strip_any ps cs = Some rest \<Longrightarrow> \<exists>p \<in> set ps. cs = p @ rest"
  by (induction ps) (auto split: option.splits simp: strip_prefix_append)

lemma white_space_nonempty: "p \<in> set white_space \<Longrightarrow> p \<noteq> []"
  by (auto simp: white_space_def utf8_bytes_def)

function strip_all :: "string list \<Rightarrow> string \<Rightarrow> string" where
  "strip_all ps cs =
     (case strip_any (filter (\<lambda>p. p \<noteq> []) ps) cs of None \<Rightarrow> cs | Some rest \<Rightarrow> strip_all ps rest)"
  by pat_completeness auto
termination
  by (relation "measure (\<lambda>(ps, cs). length cs)") (auto dest!: strip_any_Some)

declare strip_all.simps [simp del]

definition trim_start :: "string \<Rightarrow> string" where
  "trim_start cs = strip_all white_space cs"

definition trim_end :: "string \<Rightarrow> string" where
  "trim_end cs = rev (strip_all (map rev white_space) (rev cs))"

definition trim :: "string \<Rightarrow> string" where
  "trim cs = trim_end (trim_start cs)"

text \<open>A text that begins with no white space, resp. ends with none, is left as it is.\<close>

lemma strip_all_id: "strip_any (filter (\<lambda>p. p \<noteq> []) ps) cs = None \<Longrightarrow> strip_all ps cs = cs"
  by (subst strip_all.simps) simp

lemma strip_all_fixed: "strip_any (filter (\<lambda>p. p \<noteq> []) ps) (strip_all ps cs) = None"
proof (induction ps cs rule: strip_all.induct)
  case (1 ps cs)
  then show ?case
    by (subst strip_all.simps) (auto split: option.split)
qed

lemma strip_all_idem: "strip_all ps (strip_all ps cs) = strip_all ps cs"
  by (rule strip_all_id) (rule strip_all_fixed)

lemma strip_all_Nil [simp]: "strip_all ps [] = []"
proof -
  have "strip_any (filter (\<lambda>p. p \<noteq> []) ps) [] = None"
    by (induction ps) (auto split: list.splits option.splits simp: neq_Nil_conv)
  then show ?thesis by (rule strip_all_id)
qed

lemma trim_Nil [simp]: "trim [] = []"
  by (simp add: trim_def trim_start_def trim_end_def)

section \<open>Bytes\<close>

definition is_ascii_digit :: "char \<Rightarrow> bool" where
  "is_ascii_digit c \<longleftrightarrow> 48 \<le> (of_char c :: nat) \<and> (of_char c :: nat) \<le> 57"

definition is_ascii_alphanumeric :: "char \<Rightarrow> bool" where
  "is_ascii_alphanumeric c \<longleftrightarrow>
     is_ascii_digit c \<or> 65 \<le> (of_char c :: nat) \<and> (of_char c :: nat) \<le> 90 \<or>
     97 \<le> (of_char c :: nat) \<and> (of_char c :: nat) \<le> 122"

definition ascii_lower :: "char \<Rightarrow> char" where
  "ascii_lower c =
     (if 65 \<le> (of_char c :: nat) \<and> (of_char c :: nat) \<le> 90 then char_of ((of_char c :: nat) + 32) else c)"

definition to_ascii_lowercase :: "string \<Rightarrow> string" where
  "to_ascii_lowercase cs = map ascii_lower cs"

definition eq_ignore_ascii_case :: "string \<Rightarrow> string \<Rightarrow> bool" where
  "eq_ignore_ascii_case a b \<longleftrightarrow> to_ascii_lowercase a = to_ascii_lowercase b"

text \<open>\<open>lines\<close>: the pieces that end with a line feed and what is left after the last, each without a
  carriage return at its end.\<close>

fun pieces :: "char \<Rightarrow> string \<Rightarrow> string list" where
  "pieces d [] = []"
| "pieces d (c # cs) =
     (if c = d then [] # pieces d cs
      else case pieces d cs of [] \<Rightarrow> [[c]] | p # ps \<Rightarrow> (c # p) # ps)"

definition drop_cr :: "string \<Rightarrow> string" where
  "drop_cr cs = (if cs \<noteq> [] \<and> last cs = CHR 0x0D then butlast cs else cs)"

text \<open>The piece after the last line feed keeps its carriage return.\<close>

definition text_lines :: "string \<Rightarrow> string list" where
  "text_lines cs =
     (let ps = pieces (CHR 0x0A) cs
      in if cs \<noteq> [] \<and> last cs \<noteq> CHR 0x0A then map drop_cr (butlast ps) @ [last ps] else map drop_cr ps)"

fun split_once :: "char \<Rightarrow> string \<Rightarrow> (string \<times> string) option" where
  "split_once d [] = None"
| "split_once d (c # cs) =
     (if c = d then Some ([], cs)
      else map_option (\<lambda>(a, b). (c # a, b)) (split_once d cs))"

section \<open>Numbers\<close>

text \<open>\<open>parse::<u128>\<close>: a sign \<open>+\<close> is accepted.\<close>

definition digits_value :: "string \<Rightarrow> nat" where
  "digits_value cs = foldl (\<lambda>acc c. 10 * acc + (of_char c - 48)) 0 cs"

definition parse_unsigned :: "nat \<Rightarrow> string \<Rightarrow> nat option" where
  "parse_unsigned bits s =
     (let ds = (case s of c # cs \<Rightarrow> if c = CHR ''+'' then cs else s | [] \<Rightarrow> [])
      in if ds \<noteq> [] \<and> list_all is_ascii_digit ds \<and> digits_value ds < 2 ^ bits
         then Some (digits_value ds) else None)"

definition parse_u128 :: "string \<Rightarrow> nat option" where
  "parse_u128 = parse_unsigned 128"

text \<open>\<open>parse::<f32>\<close>: a sign, digits with at most one point and an exponent, or the name of an
  infinity or of a NaN; the nearest value.\<close>

definition decimal_f32 :: "bool \<Rightarrow> nat \<Rightarrow> int \<Rightarrow> f32" where
  "decimal_f32 neg n e =
     (if 0 \<le> e then f32_round neg (n * 10 ^ nat e) 1 else f32_round neg n (10 ^ nat (- e)))"

fun parse_exponent :: "string \<Rightarrow> int option" where
  "parse_exponent [] = Some 0"
| "parse_exponent (c # cs) =
     (if c \<noteq> CHR ''e'' \<and> c \<noteq> CHR ''E'' then None
      else
        let (neg, ds) = (case cs of
              s # rest \<Rightarrow> if s = CHR ''-'' then (True, rest) else if s = CHR ''+'' then (False, rest) else (False, cs)
            | [] \<Rightarrow> (False, cs))
        in if ds \<noteq> [] \<and> list_all is_ascii_digit ds
           then Some (if neg then - int (digits_value ds) else int (digits_value ds)) else None)"

definition parse_decimal :: "bool \<Rightarrow> string \<Rightarrow> f32 option" where
  "parse_decimal neg s =
     (let whole = takeWhile is_ascii_digit s; rest = dropWhile is_ascii_digit s;
          (frac, rest2) =
            (case rest of
               c # cs \<Rightarrow> if c = CHR ''.'' then (takeWhile is_ascii_digit cs, dropWhile is_ascii_digit cs)
                         else ([], rest)
             | [] \<Rightarrow> ([], []))
      in if whole @ frac = [] then None
         else case parse_exponent rest2 of
                None \<Rightarrow> None
              | Some e \<Rightarrow> Some (decimal_f32 neg (digits_value (whole @ frac)) (e - int (length frac))))"

definition parse_f32 :: "string \<Rightarrow> f32 option" where
  "parse_f32 s =
     (let (neg, cs) = (case s of
            c # rest \<Rightarrow> if c = CHR ''-'' then (True, rest) else if c = CHR ''+'' then (False, rest) else (False, s)
          | [] \<Rightarrow> (False, s))
      in case parse_decimal neg cs of
           Some x \<Rightarrow> Some x
         | None \<Rightarrow>
             if to_ascii_lowercase cs = ''inf'' \<or> to_ascii_lowercase cs = ''infinity'' then Some (f32_inf neg)
             else if to_ascii_lowercase cs = ''nan'' then Some (if neg then f32_neg f32_nan else f32_nan)
             else None)"

text \<open>\<open>format!("{x:.3}")\<close> for a finite value: the nearest thousandth, ties to even. Infinities and
  NaN print their names.\<close>

definition thousandths :: "f32 \<Rightarrow> nat" where
  "thousandths x = round_half_even (mag_value (f32_magnitude x) * 1000) (2 ^ 149)"

definition format_3 :: "f32 \<Rightarrow> string" where
  "format_3 x =
     (if f32_is_nan x then ''NaN''
      else
        (if f32_negative x then ''-'' else '''') @
        (if \<not> f32_is_finite x then ''inf''
         else decimal (thousandths x div 1000) @ ''.'' @
              [digit_char (thousandths x div 100 mod 10), digit_char (thousandths x div 10 mod 10),
               digit_char (thousandths x mod 10)]))"

end
