(* ===== verification/Control_Registry.thy ===== *)
theory Control_Registry
  imports Control_Text
begin

text \<open>
  The part of the machine registry the control status reader uses
  (\<open>crates/control_status/src/lib.rs\<close>, module \<open>registry\<close>): keys, their string values, and a system
  that may refuse any call with an error code. Each call of the system takes the next status of
  \<open>reg_faults\<close>; a status of 0 is success, and an exhausted list means that every further call
  succeeds.
\<close>

text \<open>A value is a text (a \<open>REG_SZ\<close> whose units decode), or one that the reader passes over: another
  type, shorter than a unit, or not decodable.\<close>

datatype reg_value = RegText string | RegPassedOver

record config_registry =
  reg_keys :: "string set"
  reg_values :: "string \<times> string \<rightharpoonup> reg_value"
  reg_faults :: "nat list"

record registry_read_error =
  rre_operation :: string
  rre_path :: string
  rre_value_name :: "string option"
  rre_code :: nat

record registry_write_error =
  rwe_operation :: string
  rwe_path :: string
  rwe_value_name :: string
  rwe_code :: nat

type_synonym ('e, 'a) reg_op = "config_registry \<Rightarrow> config_registry \<times> ('e + 'a)"

definition error_file_not_found :: nat where "error_file_not_found = 2"

definition error_access_denied :: nat where "error_access_denied = 5"

definition read_is_access_denied :: "registry_read_error \<Rightarrow> bool" where
  "read_is_access_denied e \<longleftrightarrow> rre_code e = error_access_denied"

definition write_is_access_denied :: "registry_write_error \<Rightarrow> bool" where
  "write_is_access_denied e \<longleftrightarrow> rwe_code e = error_access_denied"

definition display_read_error :: "registry_read_error \<Rightarrow> string" where
  "display_read_error e =
     (case rre_value_name e of
        Some n \<Rightarrow> rre_operation e @ '' failed for '' @ rre_path e @ [CHR 0x5C] @ n @ '': error '' @ decimal (rre_code e)
      | None \<Rightarrow> rre_operation e @ '' failed for '' @ rre_path e @ '': error '' @ decimal (rre_code e))"

definition display_write_error :: "registry_write_error \<Rightarrow> string" where
  "display_write_error e =
     rwe_operation e @ '' failed for '' @ rwe_path e @ [CHR 0x5C] @ rwe_value_name e @ '': error '' @
     decimal (rwe_code e)"

text \<open>The status of the next call.\<close>

definition reg_call :: "('e, nat) reg_op" where
  "reg_call r =
     (case reg_faults r of [] \<Rightarrow> (r, Inr 0) | c # cs \<Rightarrow> (r\<lparr>reg_faults := cs\<rparr>, Inr c))"

definition get_registry :: "('e, config_registry) reg_op" where
  "get_registry r = (r, Inr r)"

definition registry_error :: "string \<Rightarrow> string \<Rightarrow> string option \<Rightarrow> nat \<Rightarrow> registry_read_error" where
  "registry_error operation path name code =
     \<lparr>rre_operation = operation, rre_path = path, rre_value_name = name, rre_code = code\<rparr>"

definition make_write_error :: "string \<Rightarrow> string \<Rightarrow> string \<Rightarrow> nat \<Rightarrow> registry_write_error" where
  "make_write_error operation path name code =
     \<lparr>rwe_operation = operation, rwe_path = path, rwe_value_name = name, rwe_code = code\<rparr>"

text \<open>A key that is not there is no error.\<close>

definition open_key :: "string \<Rightarrow> (registry_read_error, bool) reg_op" where
  "open_key path =
     sbind reg_call (\<lambda>status.
     sbind get_registry (\<lambda>r.
       if status = error_file_not_found \<or> status = 0 \<and> path \<notin> reg_keys r then sret False
       else if status = 0 then sret True
       else sfail (registry_error ''open key'' path None status)))"

definition key_exists :: "string \<Rightarrow> (registry_read_error, bool) reg_op" where
  "key_exists path = open_key path"

text \<open>The size is asked for first, then the units are read; the text ends at its first null.\<close>

definition read_string_value ::
  "string \<Rightarrow> string \<Rightarrow> (registry_read_error, string option) reg_op" where
  "read_string_value path name =
     sbind (open_key path) (\<lambda>opened.
     if \<not> opened then sret None
     else
       sbind reg_call (\<lambda>probe.
       sbind get_registry (\<lambda>r.
       if probe = error_file_not_found then sret None
       else if probe \<noteq> 0 then sfail (registry_error ''query value'' path (Some name) probe)
       else
         case reg_values r (path, name) of
           None \<Rightarrow> sret None
         | Some RegPassedOver \<Rightarrow> sret None
         | Some (RegText text) \<Rightarrow>
             sbind reg_call (\<lambda>status.
             if status \<noteq> 0 then sfail (registry_error ''query value'' path (Some name) status)
             else sret (Some (takeWhile (\<lambda>c. c \<noteq> CHR 0x00) text))))))"

definition create_key :: "string \<Rightarrow> (registry_write_error, unit) reg_op" where
  "create_key path =
     sbind reg_call (\<lambda>status r.
       if status = 0 then (r\<lparr>reg_keys := insert path (reg_keys r)\<rparr>, Inr ())
       else (r, Inl (make_write_error ''create key'' path '''' status)))"

definition write_string_value ::
  "string \<Rightarrow> string \<Rightarrow> string \<Rightarrow> (registry_write_error, unit) reg_op" where
  "write_string_value path name value =
     sbind (create_key path) (\<lambda>_.
     sbind reg_call (\<lambda>status r.
       if status = 0
       then (r\<lparr>reg_values := (reg_values r)((path, name) \<mapsto> RegText value)\<rparr>, Inr ())
       else (r, Inl (make_write_error ''set value'' path name status))))"

section \<open>Reads and writes without faults\<close>

lemma reg_call_quiet: "reg_faults r = [] \<Longrightarrow> reg_call r = (r, Inr 0)"
  by (simp add: reg_call_def)

text \<open>What the reader finds under a name when no call fails.\<close>

definition stored_text :: "config_registry \<Rightarrow> string \<Rightarrow> string \<Rightarrow> string option" where
  "stored_text r path name =
     (if path \<notin> reg_keys r then None
      else case reg_values r (path, name) of
             Some (RegText t) \<Rightarrow> Some (takeWhile (\<lambda>c. c \<noteq> CHR 0x00) t) | _ \<Rightarrow> None)"

definition store_text :: "string \<Rightarrow> string \<Rightarrow> string \<Rightarrow> config_registry \<Rightarrow> config_registry" where
  "store_text path name value r =
     r\<lparr>reg_keys := insert path (reg_keys r),
       reg_values := (reg_values r)((path, name) \<mapsto> RegText value)\<rparr>"

lemma read_quiet:
  assumes "reg_faults r = []"
  shows "read_string_value path name r = (r, Inr (stored_text r path name))"
  using assms
  by (cases "reg_values r (path, name)")
     (auto simp: read_string_value_def open_key_def stored_text_def sbind_def reg_call_quiet
        get_registry_def sret_def error_file_not_found_def split: reg_value.splits)

lemma write_quiet:
  assumes "reg_faults r = []"
  shows "write_string_value path name value r = (store_text path name value r, Inr ())"
  using assms
  by (simp add: write_string_value_def create_key_def sbind_def reg_call_def store_text_def)

lemma store_text_faults [simp]: "reg_faults (store_text path name value r) = reg_faults r"
  by (simp add: store_text_def)

lemma stored_store_text:
  "stored_text (store_text path name value r) path' name' =
     (if path' = path \<and> name' = name then Some (takeWhile (\<lambda>c. c \<noteq> CHR 0x00) value)
      else if path' = path \<and> path \<notin> reg_keys r
      then (case reg_values r (path', name') of
              Some (RegText t) \<Rightarrow> Some (takeWhile (\<lambda>c. c \<noteq> CHR 0x00) t) | _ \<Rightarrow> None)
      else stored_text r path' name')"
  by (auto simp: stored_text_def store_text_def split: option.splits reg_value.splits)

section \<open>What a failing call leaves\<close>

text \<open>Reading changes nothing but the statuses still to come.\<close>

definition same_store :: "config_registry \<Rightarrow> config_registry \<Rightarrow> bool" where
  "same_store r0 r \<longleftrightarrow> reg_keys r = reg_keys r0 \<and> reg_values r = reg_values r0"

lemma same_store_refl [simp]: "same_store r r"
  by (simp add: same_store_def)

lemma keeps_reg_call [keeps_intros]: "keeps (same_store r0) reg_call"
  by (auto simp: keeps_def same_store_def reg_call_def split: list.splits)

lemma keeps_get_registry [keeps_intros]: "keeps P get_registry"
  by (simp add: keeps_def get_registry_def)

lemma keeps_open_key [keeps_intros]: "keeps (same_store r0) (open_key path)"
  unfolding open_key_def by (intro keeps_intros)

lemma keeps_key_exists [keeps_intros]: "keeps (same_store r0) (key_exists path)"
  unfolding key_exists_def by (intro keeps_intros)

lemma keeps_read [keeps_intros]: "keeps (same_store r0) (read_string_value path name)"
  unfolding read_string_value_def
  by (intro keeps_intros) (auto split: option.splits reg_value.splits intro!: keeps_intros)

text \<open>A write that fails leaves the value as it was, or as it is not there when the key was.\<close>

lemma write_failed:
  assumes "write_string_value path name value r = (r1, Inl e)"
  shows "reg_values r1 = reg_values r"
  using assms
  by (auto simp: write_string_value_def create_key_def sbind_def reg_call_def
      split: list.splits if_splits)

lemma write_done:
  assumes "write_string_value path name value r = (r1, Inr u)"
  shows "reg_values r1 = (reg_values r)((path, name) \<mapsto> RegText value)" "reg_keys r1 = insert path (reg_keys r)"
  using assms
  by (auto simp: write_string_value_def create_key_def sbind_def reg_call_def
      split: list.splits if_splits)

end
