(* ===== verification/Control_Protocol.thy ===== *)
theory Control_Protocol
  imports Control_Text Protocol
begin

text \<open>
  Crate \<open>control_protocol\<close> (\<open>src/lib.rs\<close>): the requests of the control application, their payloads
  with the checks on them, and the responses. A payload arrives as a JSON value; what the response
  carries as JSON is kept as the value it is made from (\<open>safe_details\<close>). The settings patch is in the
  theory of the service's protocol.
\<close>

section \<open>Values\<close>

text \<open>\<open>serde_json::Value\<close>; numbers are kept as they are written.\<close>

datatype json_value =
    JNull
  | JBool bool
  | JNumber string
  | JString string
  | JArray "json_value list"
  | JObject "(string \<times> json_value) list"

datatype control_operation =
    GetDashboardStatus
  | GetSettings
  | UpdateControlSettings
  | GetWindowsCredentialAccount
  | EnrollControlCredential
  | ListFaceTemplates
  | DeleteFaceTemplate
  | ListCameras
  | StartFaceEnrollment
  | GetFaceEnrollmentStatus
  | GetFaceEnrollmentPreview
  | CancelFaceEnrollment
  | FinishFaceEnrollment
  | RunFaceAuthSelfTest
  | ListIntruderSnapshots
  | DeleteIntruderSnapshot
  | ClearIntruderSnapshots

datatype control_operation_status =
    OpCompleted
  | OpFailed
  | OpRequiresElevation
  | OpRequiresUserInput
  | OpServiceUnavailable
  | OpPermissionDenied
  | OpInvalidRequest
  | OpUnsupportedProtocol
  | OpCancelled

datatype control_error_code =
    InvalidDashboardStatusRequest
  | InvalidSettingsRequest
  | InvalidCredentialAccountRequest
  | InvalidCredentialEnrollmentRequest
  | InvalidFaceTemplateRequest
  | InvalidFaceEnrollmentRequest
  | InvalidAuthSelfTestRequest
  | InvalidIntruderSnapshotRequest
  | DashboardStatusUnavailable
  | SettingsUnavailable
  | SettingsPersistenceFailed
  | CredentialAccountUnavailable
  | CredentialEnrollmentUnavailable
  | CredentialEnrollmentFailed
  | FaceTemplateStoreUnavailable
  | FaceTemplateConfigMissing
  | FaceTemplateFileMissing
  | FaceTemplateParseFailed
  | FaceTemplateEmpty
  | FaceTemplateNotFound
  | ActiveTemplateDeleteBlocked
  | FaceTemplateDeleteFailed
  | FaceEnrollmentUnavailable
  | FaceEnrollmentAlreadyRunning
  | FaceEnrollmentSessionNotFound
  | CameraUnavailable
  | FaceModelUnavailable
  | FaceEnrollmentFailed
  | FaceEnrollmentCancelled
  | FaceTemplateMissing
  | CredentialMissing
  | AuthMatchFailed
  | GrantIssueFailed
  | CredentialMaterialUnavailable
  | AuthSelfTestFailed
  | ServiceStatusUnavailable
  | ProviderStatusUnavailable
  | ServiceConfigUnavailable
  | DataDirectoryStatusUnavailable
  | PresenceRuntimeStatusUnavailable
  | ElevationRequired
  | PermissionDenied
  | IntruderSnapshotUnavailable
  | IntruderSnapshotDeleteFailed
  | IntruderSnapshotClearFailed

section \<open>Settings and credentials\<close>

definition default_logon_face_match_threshold :: f32 where
  "default_logon_face_match_threshold = F32 0x3F266666" \<comment> \<open>0.65\<close>

definition default_intruder_similarity_threshold :: f32 where
  "default_intruder_similarity_threshold = F32 0x3E99999A" \<comment> \<open>0.30\<close>

record control_settings_snapshot =
  snap_presence_lock_enabled :: bool
  snap_intruder_snap_enabled :: bool
  snap_logon_wake_mode :: "logon_wake_mode option"
  snap_logon_face_match_threshold :: f32
  snap_intruder_similarity_threshold :: f32

record windows_credential_enrollment_payload =
  wcp_windows_account_username :: "string option"
  wcp_user_id :: string
  wcp_user_sid :: string
  wcp_account_type :: account_type
  wcp_credential_ref :: "string option"

text \<open>\<open>s.trim().is_empty()\<close> negated, on a field and on an optional one.\<close>

definition filled :: "string \<Rightarrow> bool" where
  "filled s \<longleftrightarrow> trim s \<noteq> []"

definition filled_if_any :: "string option \<Rightarrow> bool" where
  "filled_if_any v = (case v of None \<Rightarrow> True | Some s \<Rightarrow> filled s)"

definition has_valid_safe_fields :: "windows_credential_enrollment_payload \<Rightarrow> bool" where
  "has_valid_safe_fields p \<longleftrightarrow>
     filled (wcp_user_id p) \<and> filled (wcp_user_sid p) \<and>
     filled_if_any (wcp_credential_ref p) \<and> filled_if_any (wcp_windows_account_username p)"

definition resolved_credential_ref :: "windows_credential_enrollment_payload \<Rightarrow> string" where
  "resolved_credential_ref p =
     (case wcp_credential_ref p of
        Some r \<Rightarrow> r | None \<Rightarrow> ''windows-credential-'' @ wcp_user_id p)"

datatype windows_credential_secret_state = SecretConfigured | SecretNotConfigured

record windows_credential_account_profile =
  wca_windows_account_username :: string
  wca_display_name :: "string option"
  wca_user_id :: string
  wca_user_sid :: string
  wca_account_type :: account_type
  wca_credential_ref :: string
  wca_credential_secret_state :: windows_credential_secret_state

text \<open>\<open>WindowsCredentialEnrollmentOutcome\<close> has the fields of the profile.\<close>

type_synonym windows_credential_enrollment_outcome = windows_credential_account_profile

definition default_control_user_id :: string where
  "default_control_user_id = ''dev-user''"

definition default_control_user_sid :: string where
  "default_control_user_sid = ''S-1-5-21-winfaceunlock-pending''"

text \<open>The payload of an empty object: every field by its serde default.\<close>

definition default_credential_payload :: windows_credential_enrollment_payload where
  "default_credential_payload =
     \<lparr>wcp_windows_account_username = None, wcp_user_id = default_control_user_id,
      wcp_user_sid = default_control_user_sid, wcp_account_type = Local, wcp_credential_ref = None\<rparr>"

section \<open>Face templates and cameras\<close>

datatype face_template_kind = SelectedTemplateSet | RepositoryTemplateKind

datatype face_template_source_state = ActiveServiceTemplate | RepositoryTemplate

record face_avatar_preview =
  preview_mime_type :: string
  preview_image_base64 :: string
  preview_updated_at_unix_ms :: "i64 option"

record face_recognition_model_summary =
  model_family :: string
  model_version :: string

record face_template_summary =
  fts_face_template_ref :: string
  fts_user_id :: string
  fts_display_name :: "string option"
  fts_avatar_preview :: "face_avatar_preview option"
  fts_template_kind :: face_template_kind
  fts_recognition_model :: face_recognition_model_summary
  fts_selected_template_count :: u32
  fts_rejected_sample_count :: "u32 option"
  fts_created_at_unix_ms :: "i64 option"
  fts_updated_at_unix_ms :: "i64 option"
  fts_source_state :: face_template_source_state

record face_template_list =
  listed_templates :: "face_template_summary list"

record delete_face_template_payload =
  dft_face_template_ref :: string

definition has_valid_ref :: "delete_face_template_payload \<Rightarrow> bool" where
  "has_valid_ref p \<longleftrightarrow> filled (dft_face_template_ref p)"

record delete_face_template_outcome =
  dfo_face_template_ref :: string
  dfo_template_deleted :: bool
  dfo_service_auth_requires_reconfiguration :: bool

record camera_device_summary =
  cds_camera_id :: string
  cds_display_name :: string

record camera_device_list =
  cameras :: "camera_device_summary list"

section \<open>Enrollment\<close>

datatype face_enrollment_profile = GuidedStandard

definition default_camera_id :: string where
  "default_camera_id = ''opencv-index:0''"

record face_enrollment_start_payload =
  fes_user_id :: string
  fes_camera_id :: string
  fes_enrollment_profile :: face_enrollment_profile
  fes_allow_partial_enrollment :: bool

definition has_valid_start_fields :: "face_enrollment_start_payload \<Rightarrow> bool" where
  "has_valid_start_fields p \<longleftrightarrow> filled (fes_user_id p) \<and> filled (fes_camera_id p)"

record face_enrollment_session_payload =
  fep_enrollment_session_id :: string

definition has_valid_session_id :: "face_enrollment_session_payload \<Rightarrow> bool" where
  "has_valid_session_id p \<longleftrightarrow> filled (fep_enrollment_session_id p)"

datatype face_enrollment_session_state =
    SessionStarting
  | SessionRunning
  | SessionWaitingForFace
  | SessionWaitingForPose
  | SessionCapturing
  | SessionFinishing
  | SessionCompleted
  | SessionFailed
  | SessionCancelled

datatype face_enrollment_frame_result =
    FrameFaceAccepted
  | FrameNoFaceDetected
  | FrameMultipleFacesDetected
  | FramePoseNotReady
  | FrameQualityRejected
  | FrameModelUnavailable

record face_template_enrollment_summary =
  tes_selected_template_count :: u32
  tes_rejected_sample_count :: u32

record face_enrollment_session_status =
  ess_enrollment_session_id :: string
  ess_session_state :: face_enrollment_session_state
  ess_user_id :: string
  ess_camera_id :: string
  ess_current_step :: "string option"
  ess_current_instruction_code :: "string option"
  ess_accepted_sample_count :: u32
  ess_required_sample_count :: "u32 option"
  ess_last_frame_result :: "face_enrollment_frame_result option"
  ess_template_summary :: "face_template_enrollment_summary option"

record face_enrollment_preview_frame =
  epf_enrollment_session_id :: string
  epf_preview_available :: bool
  epf_mime_type :: "string option"
  epf_image_base64 :: "string option"
  epf_frame_updated_at_unix_ms :: "i64 option"

record face_enrollment_finish_outcome =
  efo_enrollment_session_id :: string
  efo_session_state :: face_enrollment_session_state
  efo_face_template_ref :: string
  efo_user_id :: string
  efo_template_summary :: face_template_enrollment_summary
  efo_service_auth_configured :: bool
  efo_service_auth_configuration_error :: "string option"

section \<open>The self test\<close>

record face_auth_self_test_payload =
  stp_session_id :: string
  stp_require_credential_ready :: bool
  stp_camera_id :: "string option"

definition has_valid_self_test_fields :: "face_auth_self_test_payload \<Rightarrow> bool" where
  "has_valid_self_test_fields p \<longleftrightarrow> filled (stp_session_id p) \<and> filled_if_any (stp_camera_id p)"

record face_auth_self_test_outcome =
  sto_session_id :: string
  sto_auth_match_passed :: bool
  sto_grant_issued :: bool
  sto_credential_material_ready :: bool
  sto_credential_decryption_succeeded :: bool
  sto_pipe_delivery_confirmed :: bool
  sto_best_match_score :: "f32 option"
  sto_matched_face_template_ref :: "string option"

definition default_face_auth_self_test_session_id :: string where
  "default_face_auth_self_test_session_id = ''control-auth-self-test''"

definition default_require_credential_ready :: bool where
  "default_require_credential_ready = True"

definition default_self_test_payload :: face_auth_self_test_payload where
  "default_self_test_payload =
     \<lparr>stp_session_id = default_face_auth_self_test_session_id,
      stp_require_credential_ready = default_require_credential_ready, stp_camera_id = None\<rparr>"

section \<open>The dashboard\<close>

datatype service_installation_state = ServiceInstalled | ServiceNotInstalled

datatype service_runtime_state =
    ServiceRunning
  | ServiceStopped
  | ServicePaused
  | ServiceStartPending
  | ServiceStopPending
  | ServiceMissing
  | ServiceUnknown string

record service_status_summary =
  installation_state :: service_installation_state
  runtime_state :: service_runtime_state
  service_process_id :: "u32 option"

datatype provider_registration_state = Registered | PartiallyRegistered | NotRegistered

record provider_status_summary =
  registration_state :: provider_registration_state
  psum_credential_provider_registered :: bool
  psum_com_server_registered :: bool
  psum_project_config_registered :: bool

datatype registry_config_state = RegistryConfigPresent | RegistryConfigMissing

record service_config_summary =
  registry_config_state :: registry_config_state
  csum_auth_mode :: "string option"
  csum_face_template_path :: "string option"
  csum_presence_lock_enabled :: "bool option"
  csum_intruder_snap_enabled :: "bool option"
  csum_presence_detector_kind :: "string option"
  csum_presence_tracking_mode :: "string option"

datatype path_presence = PathPresent | PathMissing | PathUnknown

record data_directory_summary =
  dsum_program_data_dir :: "string option"
  program_data_presence :: path_presence
  dsum_presence_audit_dir :: "string option"
  presence_audit_presence :: path_presence

datatype presence_monitor_state =
    MonitorRunning
  | MonitorStopped
  | MonitorDisabled
  | MonitorUnavailable
  | MonitorUnknown string

record presence_runtime_summary =
  prs_monitor_state :: presence_monitor_state
  prs_session_id :: "u32 option"
  prs_reason :: "string option"
  prs_updated_at_unix_ms :: "i64 option"

record dashboard_status =
  dash_service :: service_status_summary
  dash_provider :: provider_status_summary
  dash_service_config :: service_config_summary
  dash_data_directory :: data_directory_summary
  dash_presence_runtime :: "presence_runtime_summary option"

section \<open>Intruder snapshots\<close>

record intruder_snapshot_summary =
  iss_id :: string
  iss_timestamp_ms :: nat
  iss_avatar_preview_base64 :: string

record delete_intruder_snapshot_payload =
  dis_id :: string

section \<open>Envelopes\<close>

definition control_protocol_version :: u32 where
  "control_protocol_version = 1"

record control_request_envelope =
  req_protocol_version :: u32
  req_correlation_id :: string
  req_operation :: control_operation
  req_payload :: json_value

datatype safe_details =
    DetailsErrorCode control_error_code
  | DetailsParseError control_error_code string
  | DetailsSupportedVersion u32
  | DetailsDashboard dashboard_status
  | DetailsSettings control_settings_snapshot
  | DetailsAccount windows_credential_account_profile
  | DetailsEnrolled windows_credential_enrollment_outcome
  | DetailsTemplates face_template_list
  | DetailsTemplateDeleted delete_face_template_outcome
  | DetailsCameras camera_device_list
  | DetailsSession face_enrollment_session_status
  | DetailsPreview face_enrollment_preview_frame
  | DetailsFinished face_enrollment_finish_outcome
  | DetailsSelfTest face_auth_self_test_outcome
  | DetailsSnapshots "intruder_snapshot_summary list"
  | DetailsSnapshotDeleted bool
  | DetailsSnapshotsCleared u32

record control_response_envelope =
  resp_protocol_version :: u32
  resp_correlation_id :: string
  resp_operation :: control_operation
  resp_status :: control_operation_status
  resp_message :: string
  resp_details :: safe_details
  resp_next_action :: "string option"

definition completed ::
  "control_request_envelope \<Rightarrow> string \<Rightarrow> safe_details \<Rightarrow> control_response_envelope" where
  "completed req msg details =
     \<lparr>resp_protocol_version = control_protocol_version, resp_correlation_id = req_correlation_id req,
      resp_operation = req_operation req, resp_status = OpCompleted, resp_message = msg,
      resp_details = details, resp_next_action = None\<rparr>"

definition failed ::
  "control_request_envelope \<Rightarrow> string \<Rightarrow> control_error_code \<Rightarrow> control_response_envelope" where
  "failed req msg code =
     \<lparr>resp_protocol_version = control_protocol_version, resp_correlation_id = req_correlation_id req,
      resp_operation = req_operation req, resp_status = OpFailed, resp_message = msg,
      resp_details = DetailsErrorCode code,
      resp_next_action = Some ''Review the control error and retry after remediation.''\<rparr>"

definition invalid_request ::
  "control_request_envelope \<Rightarrow> string \<Rightarrow> safe_details \<Rightarrow> control_response_envelope" where
  "invalid_request req msg details =
     \<lparr>resp_protocol_version = control_protocol_version, resp_correlation_id = req_correlation_id req,
      resp_operation = req_operation req, resp_status = OpInvalidRequest, resp_message = msg,
      resp_details = details, resp_next_action = Some ''Correct the control request payload.''\<rparr>"

definition unsupported_protocol :: "control_request_envelope \<Rightarrow> control_response_envelope" where
  "unsupported_protocol req =
     \<lparr>resp_protocol_version = control_protocol_version, resp_correlation_id = req_correlation_id req,
      resp_operation = req_operation req, resp_status = OpUnsupportedProtocol,
      resp_message =
        ''Unsupported control protocol version '' @ decimal (unat (req_protocol_version req)) @ ''.'',
      resp_details = DetailsSupportedVersion control_protocol_version,
      resp_next_action = Some ''Update the control frontend or backend.''\<rparr>"

text \<open>Every response names the request it answers.\<close>

definition answers :: "control_request_envelope \<Rightarrow> control_response_envelope \<Rightarrow> bool" where
  "answers req resp \<longleftrightarrow>
     resp_protocol_version resp = control_protocol_version \<and>
     resp_correlation_id resp = req_correlation_id req \<and> resp_operation resp = req_operation req"

lemma answers_simps [simp]:
  "answers req (completed req msg d)" "answers req (failed req msg c)"
  "answers req (invalid_request req msg d)" "answers req (unsupported_protocol req)"
  by (simp_all add: answers_def completed_def failed_def invalid_request_def unsupported_protocol_def)

lemma resp_status_simps [simp]:
  "resp_status (completed req msg d) = OpCompleted"
  "resp_status (failed req msg c) = OpFailed"
  "resp_status (invalid_request req msg d) = OpInvalidRequest"
  "resp_status (unsupported_protocol req) = OpUnsupportedProtocol"
  by (simp_all add: completed_def failed_def invalid_request_def unsupported_protocol_def)

end
