(* ===== verification/Control_Settings.thy ===== *)
theory Control_Settings
  imports Control_Registry Control_Protocol
begin

text \<open>
  Crate \<open>control_status\<close> (\<open>src/lib.rs\<close>), the settings: how their registry values are read and
  written (\<open>SettingsSource\<close> and \<open>WindowsSettingsSource\<close>), \<open>load_control_settings\<close> and
  \<open>update_control_settings\<close>.
\<close>

section \<open>Errors\<close>

datatype control_status_error =
    ServiceStatusUnavailableError string
  | ProviderStatusUnavailableError string
  | ServiceConfigUnavailableError string
  | SettingsUnavailableError string
  | SettingsPersistenceFailedError string
  | DataDirectoryStatusUnavailableError string
  | PresenceRuntimeStatusUnavailableError string
  | ElevationRequiredError string
  | PermissionDeniedError string

fun control_status_message :: "control_status_error \<Rightarrow> string" where
  "control_status_message (ServiceStatusUnavailableError m) = m"
| "control_status_message (ProviderStatusUnavailableError m) = m"
| "control_status_message (ServiceConfigUnavailableError m) = m"
| "control_status_message (SettingsUnavailableError m) = m"
| "control_status_message (SettingsPersistenceFailedError m) = m"
| "control_status_message (DataDirectoryStatusUnavailableError m) = m"
| "control_status_message (PresenceRuntimeStatusUnavailableError m) = m"
| "control_status_message (ElevationRequiredError m) = m"
| "control_status_message (PermissionDeniedError m) = m"

definition settings_read_error :: "registry_read_error \<Rightarrow> control_status_error" where
  "settings_read_error e =
     (if read_is_access_denied e
      then PermissionDeniedError ''service settings registry access denied''
      else SettingsUnavailableError
             (''service settings registry cannot be read: '' @ display_read_error e))"

definition settings_write_error :: "registry_write_error \<Rightarrow> control_status_error" where
  "settings_write_error e =
     (if write_is_access_denied e
      then ElevationRequiredError ''service settings registry update requires elevation''
      else SettingsPersistenceFailedError
             (''service settings registry cannot be updated: '' @ display_write_error e))"

section \<open>Names\<close>

text \<open>A backslash cannot stand in a string literal of the theory.\<close>

definition joined_path :: "string list \<Rightarrow> string" where
  "joined_path parts =
     (case parts of [] \<Rightarrow> [] | p # ps \<Rightarrow> p @ concat (map (\<lambda>q. CHR 0x5C # q) ps))"

definition service_config_registry_path :: string where
  "service_config_registry_path = joined_path [''SOFTWARE'', ''WinFaceUnlock'', ''Service'']"

definition provider_root_registry_path :: string where
  "provider_root_registry_path = joined_path [''SOFTWARE'', ''WinFaceUnlock'', ''CredentialProvider'']"

definition reg_match_threshold :: string where "reg_match_threshold = ''MatchThreshold''"

definition reg_presence_lock_enabled :: string where
  "reg_presence_lock_enabled = ''PresenceLockEnabled''"

definition reg_intruder_snap_enabled :: string where
  "reg_intruder_snap_enabled = ''IntruderSnapEnabled''"

definition reg_intruder_similarity_threshold :: string where
  "reg_intruder_similarity_threshold = ''IntruderSimilarityThreshold''"

definition reg_value_auto_wake_on_advise :: string where
  "reg_value_auto_wake_on_advise = ''AutoWakeOnAdvise''"

definition reg_value_logon_wake_mode :: string where
  "reg_value_logon_wake_mode = ''LogonWakeMode''"

definition logon_wake_mode_triggered_recognition :: string where
  "logon_wake_mode_triggered_recognition = ''triggered-recognition''"

definition logon_wake_mode_background_silent_recognition :: string where
  "logon_wake_mode_background_silent_recognition = ''background-silent-recognition''"

definition logon_wake_mode_input_triggered :: string where
  "logon_wake_mode_input_triggered = ''input-triggered''"

definition logon_wake_mode_background_policy :: string where
  "logon_wake_mode_background_policy = ''background-policy''"

definition logon_wake_mode_hybrid :: string where "logon_wake_mode_hybrid = ''hybrid''"

lemmas registry_names =
  service_config_registry_path_def provider_root_registry_path_def joined_path_def
  reg_match_threshold_def reg_presence_lock_enabled_def reg_intruder_snap_enabled_def
  reg_intruder_similarity_threshold_def reg_value_auto_wake_on_advise_def
  reg_value_logon_wake_mode_def

lemmas wake_mode_names =
  logon_wake_mode_triggered_recognition_def logon_wake_mode_background_silent_recognition_def
  logon_wake_mode_input_triggered_def logon_wake_mode_background_policy_def logon_wake_mode_hybrid_def

section \<open>Values\<close>

definition parse_registry_bool :: "string \<Rightarrow> bool option" where
  "parse_registry_bool value =
     (let v = to_ascii_lowercase (trim value)
      in if v \<in> {''1'', ''true'', ''yes'', ''enabled''} then Some True
         else if v \<in> {''0'', ''false'', ''no'', ''disabled''} then Some False
         else None)"

definition bool_registry_value :: "bool \<Rightarrow> string" where
  "bool_registry_value b = (if b then ''true'' else ''false'')"

definition logon_wake_mode_registry_value :: "logon_wake_mode \<Rightarrow> string" where
  "logon_wake_mode_registry_value mode =
     (case mode of
        TriggeredRecognition \<Rightarrow> logon_wake_mode_triggered_recognition
      | BackgroundSilentRecognition \<Rightarrow> logon_wake_mode_background_silent_recognition)"

definition triggered_names :: "string set" where
  "triggered_names =
     {logon_wake_mode_triggered_recognition, ''triggered_recognition'', logon_wake_mode_input_triggered,
      ''input_triggered''}"

definition background_names :: "string set" where
  "background_names =
     {logon_wake_mode_background_silent_recognition, ''background_silent_recognition'',
      logon_wake_mode_background_policy, ''background_policy'', logon_wake_mode_hybrid}"

definition parse_logon_wake_mode :: "string \<Rightarrow> logon_wake_mode option" where
  "parse_logon_wake_mode value =
     (if trim value \<in> triggered_names then Some TriggeredRecognition
      else if trim value \<in> background_names then Some BackgroundSilentRecognition
      else None)"

definition legacy_logon_wake_mode :: "string option \<Rightarrow> logon_wake_mode option" where
  "legacy_logon_wake_mode auto_wake =
     (case Option.bind auto_wake parse_registry_bool of
        Some True \<Rightarrow> Some TriggeredRecognition | _ \<Rightarrow> None)"

definition is_valid_logon_face_match_threshold :: "f32 \<Rightarrow> bool" where
  "is_valid_logon_face_match_threshold t \<longleftrightarrow>
     f32_is_finite t \<and> f32_le min_logon_face_match_threshold t \<and> f32_le t max_logon_face_match_threshold"

definition is_valid_intruder_similarity_threshold :: "f32 \<Rightarrow> bool" where
  "is_valid_intruder_similarity_threshold t \<longleftrightarrow>
     f32_is_finite t \<and> f32_le min_intruder_similarity_threshold t \<and>
     f32_le t max_intruder_similarity_threshold"

definition parse_logon_face_match_threshold :: "string \<Rightarrow> f32 option" where
  "parse_logon_face_match_threshold value =
     Option.bind (parse_f32 (trim value))
       (\<lambda>t. if is_valid_logon_face_match_threshold t then Some t else None)"

definition parse_intruder_similarity_threshold :: "string \<Rightarrow> f32 option" where
  "parse_intruder_similarity_threshold value =
     Option.bind (parse_f32 (trim value))
       (\<lambda>t. if is_valid_intruder_similarity_threshold t then Some t else None)"

section \<open>The source\<close>

type_synonym 'a settings_op = "(control_status_error, 'a) reg_op"

definition read_setting :: "string \<Rightarrow> string \<Rightarrow> string option settings_op" where
  "read_setting path name = map_err settings_read_error (read_string_value path name)"

definition write_setting :: "string \<Rightarrow> string \<Rightarrow> string \<Rightarrow> unit settings_op" where
  "write_setting path name value = map_err settings_write_error (write_string_value path name value)"

definition read_presence_lock_enabled :: "string option settings_op" where
  "read_presence_lock_enabled = read_setting service_config_registry_path reg_presence_lock_enabled"

definition write_presence_lock_enabled :: "bool \<Rightarrow> unit settings_op" where
  "write_presence_lock_enabled enabled =
     write_setting service_config_registry_path reg_presence_lock_enabled (bool_registry_value enabled)"

definition read_intruder_snap_enabled :: "string option settings_op" where
  "read_intruder_snap_enabled = read_setting service_config_registry_path reg_intruder_snap_enabled"

definition write_intruder_snap_enabled :: "bool \<Rightarrow> unit settings_op" where
  "write_intruder_snap_enabled enabled =
     write_setting service_config_registry_path reg_intruder_snap_enabled (bool_registry_value enabled)"

definition read_intruder_similarity_threshold :: "string option settings_op" where
  "read_intruder_similarity_threshold =
     read_setting service_config_registry_path reg_intruder_similarity_threshold"

definition write_intruder_similarity_threshold :: "f32 \<Rightarrow> unit settings_op" where
  "write_intruder_similarity_threshold t =
     write_setting service_config_registry_path reg_intruder_similarity_threshold (format_3 t)"

definition read_logon_wake_mode :: "string option settings_op" where
  "read_logon_wake_mode = read_setting provider_root_registry_path reg_value_logon_wake_mode"

definition read_auto_wake_on_advise :: "string option settings_op" where
  "read_auto_wake_on_advise = read_setting provider_root_registry_path reg_value_auto_wake_on_advise"

definition write_logon_wake_mode :: "logon_wake_mode \<Rightarrow> unit settings_op" where
  "write_logon_wake_mode mode =
     sbind (write_setting provider_root_registry_path reg_value_logon_wake_mode
              (logon_wake_mode_registry_value mode)) (\<lambda>_.
     write_setting provider_root_registry_path reg_value_auto_wake_on_advise (bool_registry_value True))"

definition read_logon_face_match_threshold :: "string option settings_op" where
  "read_logon_face_match_threshold = read_setting service_config_registry_path reg_match_threshold"

definition write_logon_face_match_threshold :: "f32 \<Rightarrow> unit settings_op" where
  "write_logon_face_match_threshold t =
     write_setting service_config_registry_path reg_match_threshold (format_3 t)"

section \<open>Loading and updating\<close>

definition load_intruder_snap_enabled :: "bool settings_op" where
  "load_intruder_snap_enabled =
     sbind read_intruder_snap_enabled (\<lambda>v.
       sret (case Option.bind v parse_registry_bool of Some b \<Rightarrow> b | None \<Rightarrow> False))"

text \<open>\<open>result.ok()\<close> of an operation: its error becomes \<open>None\<close>.\<close>

definition attempt :: "('e, 'a) reg_op \<Rightarrow> ('f, 'a option) reg_op" where
  "attempt m r = (case m r of (r1, q) \<Rightarrow> (r1, Inr (result_ok q)))"

definition read_wake_mode :: "logon_wake_mode option settings_op" where
  "read_wake_mode =
     sbind read_logon_wake_mode (\<lambda>v.
       case Option.bind v parse_logon_wake_mode of
         Some mode \<Rightarrow> sret (Some mode)
       | None \<Rightarrow>
           sbind (attempt read_auto_wake_on_advise) (\<lambda>a. sret (legacy_logon_wake_mode (Option.bind a id))))"

definition load_control_settings :: "control_settings_snapshot settings_op" where
  "load_control_settings =
     sbind read_presence_lock_enabled (\<lambda>presence.
     sbind load_intruder_snap_enabled (\<lambda>snap.
     sbind read_wake_mode (\<lambda>mode.
     sbind read_logon_face_match_threshold (\<lambda>face.
     sbind read_intruder_similarity_threshold (\<lambda>intruder.
       sret \<lparr>snap_presence_lock_enabled =
               (case Option.bind presence parse_registry_bool of Some b \<Rightarrow> b | None \<Rightarrow> False),
             snap_intruder_snap_enabled = snap,
             snap_logon_wake_mode = mode,
             snap_logon_face_match_threshold =
               (case Option.bind face parse_logon_face_match_threshold of
                  Some t \<Rightarrow> t | None \<Rightarrow> default_logon_face_match_threshold),
             snap_intruder_similarity_threshold =
               (case Option.bind intruder parse_intruder_similarity_threshold of
                  Some t \<Rightarrow> t | None \<Rightarrow> default_intruder_similarity_threshold)\<rparr>)))))"

text \<open>One field of a patch: nothing to do without it.\<close>

definition when_some :: "'a option \<Rightarrow> ('a \<Rightarrow> unit settings_op) \<Rightarrow> unit settings_op" where
  "when_some v f = (case v of None \<Rightarrow> sret () | Some x \<Rightarrow> f x)"

definition update_control_settings ::
  "control_settings_patch \<Rightarrow> control_settings_snapshot settings_op" where
  "update_control_settings patch =
     sbind (when_some (presence_lock_enabled patch) write_presence_lock_enabled) (\<lambda>_.
     sbind (when_some (intruder_snap_enabled patch) write_intruder_snap_enabled) (\<lambda>_.
     sbind (when_some (logon_wake_mode patch) write_logon_wake_mode) (\<lambda>_.
     sbind (when_some (logon_face_match_threshold patch) (\<lambda>t.
              if \<not> is_valid_logon_face_match_threshold t
              then sfail (SettingsPersistenceFailedError
                     ''logon face match threshold must be between 0.30 and 0.90'')
              else write_logon_face_match_threshold t)) (\<lambda>_.
     sbind (when_some (intruder_similarity_threshold patch) (\<lambda>t.
              if \<not> is_valid_intruder_similarity_threshold t
              then sfail (SettingsPersistenceFailedError
                     ''intruder similarity threshold must be between 0.10 and 0.60'')
              else write_intruder_similarity_threshold t)) (\<lambda>_.
     load_control_settings)))))"

end
