(* ===== verification/Control_Decimal.thy ===== *)
theory Control_Decimal
  imports Control_Settings
begin

text \<open>
  The thresholds as the registry keeps them: a threshold is stored with three decimals and read back
  as the nearest \<open>f32\<close>. The stored text reads back as the stored thousandth, storing that again
  changes nothing, and the bounds of the settings are themselves thousandths, so a valid threshold
  stays valid.
\<close>

section \<open>Rounding to a natural number\<close>

lemma round_half_even_bounds:
  assumes "0 < q"
  shows "2 * p \<le> 2 * (q * round_half_even p q) + q" "2 * (q * round_half_even p q) \<le> 2 * p + q"
proof -
  define k where "k = p div q"
  define r where "r = p mod q"
  have p: "p = q * k + r" and r: "r < q" using assms by (simp_all add: k_def r_def)
  have "round_half_even p q = (if 2 * r < q then k else if q < 2 * r then Suc k else if even k then k else Suc k)"
    by (simp add: round_half_even_def k_def r_def Let_def)
  then show "2 * p \<le> 2 * (q * round_half_even p q) + q" "2 * (q * round_half_even p q) \<le> 2 * p + q"
    using r by (auto simp: p algebra_simps)
qed

lemma round_half_even_unique:
  assumes "2 * p < 2 * (q * n) + q" and "2 * (q * n) < 2 * p + q"
  shows "round_half_even p q = n"
proof -
  have q: "0 < q" using assms by (cases "q = 0") auto
  show ?thesis
  proof (cases "q * n \<le> p")
    case True
    then obtain d where d: "p = q * n + d" by (metis le_iff_add)
    then have "2 * d < q" using assms(1) by simp
    then show ?thesis using q by (simp add: round_half_even_def d Let_def)
  next
    case False
    then obtain m where n: "n = Suc m" by (cases n) auto
    define d where "d = p - q * m"
    have m: "q * m \<le> p" using assms(2) q by (simp add: n algebra_simps)
    have p: "p = q * m + d" using m by (simp add: d_def)
    have d: "q < 2 * d" "d < q" using assms(2) False by (simp_all add: n p algebra_simps)
    then have "p div q = m" "p mod q = d" by (simp_all add: p)
    then show ?thesis using d by (simp add: round_half_even_def n Let_def)
  qed
qed

lemma round_half_even_mono:
  assumes le: "p \<le> p'"
  shows "round_half_even p q \<le> round_half_even p' q"
proof (cases "q = 0")
  case True
  then show ?thesis using le by (auto simp: round_half_even_def Let_def)
next
  case False
  have "p div q < p' div q \<or> p div q = p' div q" using le by (metis div_le_mono le_neq_implies_less)
  then show ?thesis
  proof
    assume lt: "p div q < p' div q"
    have "round_half_even p q \<le> Suc (p div q)" by (simp add: round_half_even_def Let_def)
    also have "\<dots> \<le> p' div q" using lt by simp
    also have "\<dots> \<le> round_half_even p' q" by (simp add: round_half_even_def Let_def)
    finally show ?thesis .
  next
    assume eq: "p div q = p' div q"
    then have "p mod q \<le> p' mod q" using le by (metis add_le_cancel_left div_mult_mod_eq)
    then show ?thesis by (auto simp: round_half_even_def Let_def eq)
  qed
qed

section \<open>A thousandth as an f32\<close>

text \<open>The exponent field and the shift of \<open>n / 1000\<close> between 1/16 and 1.\<close>

definition kilo_exp :: "nat \<Rightarrow> nat" where
  "kilo_exp n = (if n < 125 then 122 else if n < 250 then 123 else if n < 500 then 124 else 125)"

definition kilo_mant :: "nat \<Rightarrow> nat" where
  "kilo_mant n = round_half_even (n * 2 ^ (149 - kilo_exp n)) 1000"

definition kilo_mag :: "nat \<Rightarrow> nat" where
  "kilo_mag n = kilo_exp n * 2 ^ 23 + kilo_mant n"

lemma bit_len_eq: "2 ^ k \<le> n \<Longrightarrow> n < 2 ^ Suc k \<Longrightarrow> bit_len n = Suc k"
proof -
  assume lo: "2 ^ k \<le> n" and hi: "n < 2 ^ Suc k"
  then have pos: "0 < n" by (metis less_le_trans zero_less_numeral zero_less_power)
  then have b: "n < 2 ^ bit_len n" "2 ^ (bit_len n - 1) \<le> n" using bit_len_bounds [of n] by auto
  have "k < bit_len n"
    using le_less_trans [OF lo b(1)] by (rule power_less_imp_less_exp [rotated]) simp
  moreover have "bit_len n - 1 < Suc k"
    using le_less_trans [OF b(2) hi] by (rule power_less_imp_less_exp [rotated]) simp
  ultimately show ?thesis by simp
qed

lemma kilo_mant_bounds:
  assumes "63 \<le> n" and "n < 1000"
  shows "2 ^ 23 \<le> kilo_mant n" "kilo_mant n \<le> 2 ^ 24"
proof -
  have s: "(2 :: nat) ^ 23 * 1000 \<le> n * 2 ^ (149 - kilo_exp n) \<and>
      n * 2 ^ (149 - kilo_exp n) \<le> 2 ^ 24 * 1000"
    using assms by (simp add: kilo_exp_def)
  have "round_half_even (2 ^ 23 * 1000) 1000 = 2 ^ 23" "round_half_even (2 ^ 24 * 1000) 1000 = 2 ^ 24"
    by (rule round_half_even_exact, simp)+
  then show "2 ^ 23 \<le> kilo_mant n" "kilo_mant n \<le> 2 ^ 24"
    using round_half_even_mono [of "2 ^ 23 * 1000" _ 1000] round_half_even_mono [of _ "2 ^ 24 * 1000" 1000] s
    unfolding kilo_mant_def by metis+
qed

lemma f32_round_thousandth:
  assumes "63 \<le> n" and "n < 1000"
  shows "f32_round False n 1000 = signed_bits False (kilo_mag n)"
proof -
  have d: "bit_len 1000 = 10" by (rule bit_len_eq [of 9, simplified]) simp_all
  define e0 where "e0 = int (bit_len n) - 10"
  have b: "e0 = (if n < 64 then - 4 else if n < 128 then - 3 else if n < 256 then - 2 else if n < 512 then - 1 else 0)"
    using assms bit_len_eq [of 5 n] bit_len_eq [of 6 n] bit_len_eq [of 7 n] bit_len_eq [of 8 n] bit_len_eq [of 9 n]
    by (simp add: e0_def)
  have e: "max (if frac_ge_pow2 n 1000 e0 then e0 else e0 - 1) (- 126) = int (kilo_exp n) - 126"
    using assms by (simp add: b frac_ge_pow2_def scale2_def kilo_exp_def split del: if_split split: if_split)
  have sh: "scale2 (149 - int (kilo_exp n)) n 1000 = (n * 2 ^ (149 - kilo_exp n), 1000)"
    by (simp add: scale2_def kilo_exp_def)
  have m: "\<not> 0x7F800000 \<le> kilo_exp n * 2 ^ 23 + kilo_mant n"
    using kilo_mant_bounds [OF assms] by (simp add: kilo_exp_def)
  show ?thesis
    unfolding f32_round_def kilo_mag_def
    using assms(1) m by (simp add: d e0_def [symmetric] e sh Let_def kilo_mant_def [symmetric])
qed

lemma kilo_mag_less:
  assumes "63 \<le> n" and "n < 1000"
  shows "kilo_mag n < 2 ^ 31" "kilo_mag n < 0x7F800000"
  using kilo_mant_bounds [OF assms] by (simp_all add: kilo_mag_def kilo_exp_def)

lemma kilo_mag_mono:
  assumes "63 \<le> m" and "m \<le> n" and "n < 1000"
  shows "kilo_mag m \<le> kilo_mag n"
proof (cases "kilo_exp m = kilo_exp n")
  case True
  then have "kilo_mant m \<le> kilo_mant n"
    unfolding kilo_mant_def using assms(2) by (simp add: round_half_even_mono)
  then show ?thesis using True by (simp add: kilo_mag_def)
next
  case False
  have "kilo_exp m \<le> kilo_exp n" using assms(2) by (simp add: kilo_exp_def)
  with False have "Suc (kilo_exp m) \<le> kilo_exp n" by simp
  then have "Suc (kilo_exp m) * 2 ^ 23 \<le> kilo_exp n * 2 ^ 23" by (rule mult_le_mono1)
  moreover have "kilo_mant m \<le> 2 ^ 24" "2 ^ 23 \<le> kilo_mant n"
    using kilo_mant_bounds [of m] kilo_mant_bounds [of n] assms by simp_all
  ultimately show ?thesis by (simp add: kilo_mag_def)
qed

text \<open>The value of such an \<open>f32\<close>, as a multiple of \<open>2 ^ -149\<close>.\<close>

lemma kilo_mag_value:
  assumes "63 \<le> n" and "n < 1000"
  shows "mag_value (kilo_mag n) = kilo_mant n * 2 ^ kilo_exp n"
proof (cases "kilo_mant n = 2 ^ 24")
  case True
  then have "kilo_mag n = (kilo_exp n + 2) * 2 ^ 23" by (simp add: kilo_mag_def)
  then have "kilo_mag n div 2 ^ 23 = kilo_exp n + 2" "kilo_mag n mod 2 ^ 23 = 0" "\<not> kilo_mag n < 2 ^ 23"
    by simp_all
  then show ?thesis by (simp add: mag_value_def True)
next
  case False
  define k where "k = kilo_mant n - 2 ^ 23"
  have k: "kilo_mant n = 2 ^ 23 + k" "k < 2 ^ 23"
    using kilo_mant_bounds [OF assms] False by (simp_all add: k_def)
  then have m: "kilo_mag n = k + (kilo_exp n + 1) * 2 ^ 23" by (simp add: kilo_mag_def)
  have "kilo_mag n div 2 ^ 23 = kilo_exp n + 1" "kilo_mag n mod 2 ^ 23 = k" "\<not> kilo_mag n < 2 ^ 23"
    unfolding m using k(2) div_mult_self1 [of "2 ^ 23" k "kilo_exp n + 1"]
      mod_mult_self1 [of k "kilo_exp n + 1" "2 ^ 23"] by (simp_all only: div_less mod_less) simp_all
  then show ?thesis by (simp add: mag_value_def k(1))
qed

lemma thousandths_round:
  assumes "63 \<le> n" and "n < 1000"
  shows "thousandths (f32_round False n 1000) = n"
proof -
  define E where "E = kilo_exp n"
  have E: "E \<le> 125" by (simp add: E_def kilo_exp_def)
  have two: "(2 :: nat) ^ (149 - E) * 2 ^ E = 2 ^ 149" using E by (simp add: power_add [symmetric])
  have mag: "f32_magnitude (f32_round False n 1000) = kilo_mag n"
    using signed_bits_positive [OF kilo_mag_less(1) [OF assms]] by (simp add: f32_round_thousandth [OF assms])
  have v: "mag_value (kilo_mag n) * 1000 = (1000 * kilo_mant n) * 2 ^ E"
    by (simp add: kilo_mag_value [OF assms] E_def)
  have b: "2 * (n * 2 ^ (149 - E)) \<le> 2 * (1000 * kilo_mant n) + 1000"
    "2 * (1000 * kilo_mant n) \<le> 2 * (n * 2 ^ (149 - E)) + 1000"
    using round_half_even_bounds [of 1000 "n * 2 ^ (149 - E)"] by (simp_all add: kilo_mant_def E_def)
  have "2 * (n * 2 ^ (149 - E)) * 2 ^ E \<le> (2 * (1000 * kilo_mant n) + 1000) * 2 ^ E"
    using b(1) by (rule mult_le_mono1)
  then have 1: "2 * (n * 2 ^ 149) \<le> 2 * (mag_value (kilo_mag n) * 1000) + 1000 * 2 ^ E"
    by (simp only: v two [symmetric] algebra_simps)
  have "2 * (1000 * kilo_mant n) * 2 ^ E \<le> (2 * (n * 2 ^ (149 - E)) + 1000) * 2 ^ E"
    using b(2) by (rule mult_le_mono1)
  then have 2: "2 * (mag_value (kilo_mag n) * 1000) \<le> 2 * (n * 2 ^ 149) + 1000 * 2 ^ E"
    by (simp only: v two [symmetric] algebra_simps)
  have "(2 :: nat) ^ E \<le> 2 ^ 125" using E by (rule power_increasing) simp
  then have small: "1000 * 2 ^ E < (2 :: nat) ^ 149" by simp
  show ?thesis
    unfolding thousandths_def mag
    by (rule round_half_even_unique) (use 1 2 small in \<open>simp_all add: mult.commute\<close>)
qed

section \<open>The stored text\<close>

lemma digits_value_append: "digits_value (xs @ [digit_char d]) = 10 * digits_value xs + (of_char (digit_char d) - 48)"
  by (simp add: digits_value_def)

lemma digits_value_decimal: "digits_value (decimal n) = n"
  using undecimal_decimal [of n] by (simp add: digits_value_def)

lemma digit_is_digit: "d < 10 \<Longrightarrow> is_ascii_digit (digit_char d)"
  by (simp add: is_ascii_digit_def of_char_digit)

lemma decimal_digits: "list_all is_ascii_digit (decimal n)"
proof (induction n rule: decimal.induct)
  case (1 n)
  then show ?case
    by (subst decimal.simps) (simp add: digit_is_digit)
qed

lemma decimal_nonempty [simp]: "decimal n \<noteq> []"
  by (subst decimal.simps) simp

text \<open>A text that begins and ends with a digit is not trimmed.\<close>

lemma strip_any_None: "(\<And>p. p \<in> set ps \<Longrightarrow> p \<noteq> [] \<and> hd p \<noteq> c) \<Longrightarrow> strip_any ps (c # cs) = None"
proof (induction ps)
  case Nil
  show ?case by simp
next
  case (Cons p ps)
  have "p \<noteq> [] \<and> hd p \<noteq> c" by (rule Cons.prems) simp
  then have "strip_prefix p (c # cs) = None" by (cases p) auto
  then show ?case using Cons by simp
qed

lemma white_space_no_digit:
  "list_all (\<lambda>p. p \<noteq> [] \<and> \<not> is_ascii_digit (hd p) \<and> \<not> is_ascii_digit (last p)) white_space"
  by code_simp

lemma strip_digit:
  assumes "is_ascii_digit c"
  shows "strip_all white_space (c # cs) = c # cs" "strip_all (map rev white_space) (c # cs) = c # cs"
proof -
  have ws: "p \<noteq> [] \<and> hd p \<noteq> c \<and> last p \<noteq> c" if "p \<in> set white_space" for p
    using that assms white_space_no_digit by (auto simp: list_all_iff)
  then have rws: "p \<noteq> [] \<and> hd p \<noteq> c" if "p \<in> set (map rev white_space)" for p
    using that ws by (fastforce simp: hd_rev)
  have "strip_any (filter (\<lambda>p. p \<noteq> []) white_space) (c # cs) = None"
    by (rule strip_any_None) (use ws in auto)
  then show "strip_all white_space (c # cs) = c # cs" by (rule strip_all_id)
  have "strip_any (filter (\<lambda>p. p \<noteq> []) (map rev white_space)) (c # cs) = None"
    by (rule strip_any_None) (use rws in auto)
  then show "strip_all (map rev white_space) (c # cs) = c # cs" by (rule strip_all_id)
qed

lemma trim_digits:
  assumes "is_ascii_digit c" and "is_ascii_digit d"
  shows "trim (c # cs @ [d]) = c # cs @ [d]"
  using assms strip_digit [of c "cs @ [d]"] strip_digit [of d "rev (c # cs)"]
  by (simp add: trim_def trim_start_def trim_end_def)

text \<open>What is printed for a value of at least 1/16 and below 1 reads back as its thousandth.\<close>

lemma format_3_digits:
  assumes "f32_is_finite x" and "\<not> f32_negative x"
  defines "n \<equiv> thousandths x"
  shows "format_3 x = decimal (n div 1000) @ ''.'' @
     [digit_char (n div 100 mod 10), digit_char (n div 10 mod 10), digit_char (n mod 10)]"
proof -
  have "\<not> f32_is_nan x" using assms(1) by (simp add: f32_is_finite_def f32_is_nan_def)
  then show ?thesis using assms by (simp add: format_3_def)
qed

lemma parse_three_decimals:
  assumes "list_all is_ascii_digit whole" and "whole \<noteq> []"
    and "list_all is_ascii_digit frac" and "length frac = 3"
  shows "parse_f32 (whole @ ''.'' @ frac) = Some (f32_round False (digits_value (whole @ frac)) 1000)"
proof -
  obtain c cs where w: "whole = c # cs" using assms(2) by (cases whole) auto
  have c: "c \<noteq> CHR ''-''" "c \<noteq> CHR ''+''" using assms(1) by (auto simp: w is_ascii_digit_def)
  have dot: "\<not> is_ascii_digit (CHR ''.'')" by (simp add: is_ascii_digit_def)
  have tk: "takeWhile is_ascii_digit (whole @ ''.'' @ frac) = whole"
    "dropWhile is_ascii_digit (whole @ ''.'' @ frac) = ''.'' @ frac"
    using assms(1) dot by (simp_all add: list_all_iff)
  have fr: "takeWhile is_ascii_digit frac = frac" "dropWhile is_ascii_digit frac = []"
    using assms(3) by (simp_all add: list_all_iff takeWhile_eq_all_conv)
  have "parse_decimal False (whole @ ''.'' @ frac) = Some (decimal_f32 False (digits_value (whole @ frac)) (- 3))"
    unfolding parse_decimal_def tk Let_def using assms(2,4) by (simp add: fr del: dropWhile_eq_Nil_conv)
  then show ?thesis
    using c by (simp add: parse_f32_def w decimal_f32_def)
qed

lemma digit_triple:
  fixes n :: nat
  shows "10 * (10 * (10 * (n div 1000) + n div 100 mod 10) + n div 10 mod 10) + n mod 10 = n"
proof -
  have "n div 1000 = n div 100 div 10" "n div 100 = n div 10 div 10" by (simp_all add: div_mult2_eq [symmetric])
  then show ?thesis by presburger
qed

lemma parse_format_3:
  assumes "f32_is_finite x" and "\<not> f32_negative x"
  shows "parse_f32 (trim (format_3 x)) = Some (f32_round False (thousandths x) 1000)"
proof -
  define n where "n = thousandths x"
  define a b d where "a = n div 100 mod 10" and "b = n div 10 mod 10" and "d = n mod 10"
  have lt: "a < 10" "b < 10" "d < 10" by (simp_all add: a_def b_def d_def)
  have f: "format_3 x = decimal (n div 1000) @ ''.'' @ [digit_char a, digit_char b, digit_char d]"
    unfolding n_def a_def b_def d_def by (rule format_3_digits [OF assms])
  obtain c cs where c: "decimal (n div 1000) = c # cs" by (cases "decimal (n div 1000)") auto
  then have "is_ascii_digit c" using decimal_digits [of "n div 1000"] by simp
  then have "trim (format_3 x) = format_3 x"
    using trim_digits [of c "digit_char d" "cs @ ''.'' @ [digit_char a, digit_char b]"] lt
    by (simp add: f c digit_is_digit)
  moreover have "parse_f32 (format_3 x) =
      Some (f32_round False (digits_value (decimal (n div 1000) @ [digit_char a, digit_char b, digit_char d])) 1000)"
    unfolding f by (rule parse_three_decimals) (use lt in \<open>simp_all add: decimal_digits digit_is_digit\<close>)
  moreover have "digits_value (decimal (n div 1000) @ [digit_char a, digit_char b, digit_char d]) = n"
  proof -
    have "decimal (n div 1000) @ [digit_char a, digit_char b, digit_char d] =
        ((decimal (n div 1000) @ [digit_char a]) @ [digit_char b]) @ [digit_char d]" by simp
    then have "digits_value (decimal (n div 1000) @ [digit_char a, digit_char b, digit_char d]) =
        10 * (10 * (10 * (n div 1000) + a) + b) + d"
      using lt by (simp only: digits_value_append digits_value_decimal of_char_digit) simp
    also have "\<dots> = n" unfolding a_def b_def d_def by (rule digit_triple)
    finally show ?thesis .
  qed
  ultimately show ?thesis by (simp add: n_def)
qed

section \<open>Thresholds\<close>

text \<open>The stored form of a threshold: the nearest \<open>f32\<close> to its nearest thousandth.\<close>

definition stored_threshold :: "f32 \<Rightarrow> f32" where
  "stored_threshold x = f32_round False (thousandths x) 1000"

text \<open>A value between two thousandths rounds to a thousandth between them.\<close>

lemma thousandths_between:
  assumes x: "\<not> f32_negative x" "f32_is_finite x"
    and lo: "f32_le (f32_round False l 1000) x" and hi: "f32_le x (f32_round False h 1000)"
    and l: "63 \<le> l" and lh: "l \<le> h" and h: "h < 1000"
  shows "l \<le> thousandths x" "thousandths x \<le> h"
proof -
  have mag: "f32_magnitude (f32_round False n 1000) = kilo_mag n" "\<not> f32_negative (f32_round False n 1000)"
    if "63 \<le> n" "n < 1000" for n
    using signed_bits_positive [OF kilo_mag_less(1) [OF that]] by (simp_all add: f32_round_thousandth [OF that])
  have "kilo_mag l \<le> f32_magnitude x" "f32_magnitude x \<le> kilo_mag h"
    using lo hi x(1) mag [of l] mag [of h] l lh h by (simp_all add: f32_le_def f32_key_def)
  then have "mag_value (kilo_mag l) * 1000 \<le> mag_value (f32_magnitude x) * 1000"
    "mag_value (f32_magnitude x) * 1000 \<le> mag_value (kilo_mag h) * 1000"
    by (simp_all add: mag_value_mono)
  then have "thousandths (f32_round False l 1000) \<le> thousandths x"
    "thousandths x \<le> thousandths (f32_round False h 1000)"
    using mag [of l] mag [of h] l lh h by (simp_all add: thousandths_def round_half_even_mono)
  then show "l \<le> thousandths x" "thousandths x \<le> h"
    using thousandths_round [of l] thousandths_round [of h] l lh h by simp_all
qed

lemma stored_threshold_between:
  assumes "\<not> f32_negative x" "f32_is_finite x"
    and "f32_le (f32_round False l 1000) x" and "f32_le x (f32_round False h 1000)"
    and "63 \<le> l" and "l \<le> h" and "h < 1000"
  shows "f32_is_finite (stored_threshold x)" "\<not> f32_negative (stored_threshold x)"
    "f32_le (f32_round False l 1000) (stored_threshold x)" "f32_le (stored_threshold x) (f32_round False h 1000)"
    "stored_threshold (stored_threshold x) = stored_threshold x"
proof -
  define n where "n = thousandths x"
  have n: "l \<le> n" "n \<le> h" using thousandths_between [OF assms] by (simp_all add: n_def)
  have mag: "f32_magnitude (f32_round False k 1000) = kilo_mag k" "\<not> f32_negative (f32_round False k 1000)"
    "f32_magnitude (f32_round False k 1000) < 0x7F800000"
    if "63 \<le> k" "k < 1000" for k
    using signed_bits_positive [OF kilo_mag_less(1) [OF that]] kilo_mag_less(2) [OF that]
    by (simp_all add: f32_round_thousandth [OF that])
  have st: "stored_threshold x = f32_round False n 1000" by (simp add: stored_threshold_def n_def)
  show "f32_is_finite (stored_threshold x)" "\<not> f32_negative (stored_threshold x)"
    using mag [of n] n assms(5,7) by (simp_all add: st f32_is_finite_def)
  show "f32_le (f32_round False l 1000) (stored_threshold x)" "f32_le (stored_threshold x) (f32_round False h 1000)"
    using mag [of l] mag [of n] mag [of h] n assms(5-7) kilo_mag_mono [of l n] kilo_mag_mono [of n h]
    by (simp_all add: st f32_le_def f32_is_nan_def f32_key_def)
  show "stored_threshold (stored_threshold x) = stored_threshold x"
    using thousandths_round [of n] n assms(5,7) unfolding st by (simp add: stored_threshold_def)
qed

text \<open>The bounds and the defaults of the settings are thousandths.\<close>

lemma thousandth_literal:
  "63 \<le> n \<Longrightarrow> n < 1000 \<Longrightarrow> f32_round False n 1000 = F32 (word_of_nat (kilo_mag n))"
  by (simp add: f32_round_thousandth signed_bits_def)

lemma setting_bounds:
  "min_logon_face_match_threshold = f32_round False 300 1000"
  "max_logon_face_match_threshold = f32_round False 900 1000"
  "min_intruder_similarity_threshold = f32_round False 100 1000"
  "max_intruder_similarity_threshold = f32_round False 600 1000"
  "default_logon_face_match_threshold = f32_round False 650 1000"
  "default_intruder_similarity_threshold = f32_round False 300 1000"
  by (simp_all add: thousandth_literal kilo_mag_def kilo_mant_def kilo_exp_def round_half_even_def Let_def
      min_logon_face_match_threshold_def max_logon_face_match_threshold_def
      min_intruder_similarity_threshold_def max_intruder_similarity_threshold_def
      default_logon_face_match_threshold_def default_intruder_similarity_threshold_def)

lemma f32_le_positive:
  assumes "f32_le a x" and "\<not> f32_negative a" and "f32_magnitude a \<noteq> 0"
  shows "\<not> f32_negative x"
  using assms by (auto simp: f32_le_def f32_key_def split: if_splits)

lemma threshold_positive:
  assumes "f32_le (f32_round False l 1000) x" and "63 \<le> l" and "l < 1000"
  shows "\<not> f32_negative x"
proof -
  have "f32_magnitude (f32_round False l 1000) = kilo_mag l" "\<not> f32_negative (f32_round False l 1000)"
    using signed_bits_positive [OF kilo_mag_less(1) [OF assms(2,3)]] by (simp_all add: f32_round_thousandth assms)
  moreover have "kilo_mag l \<noteq> 0" by (simp add: kilo_mag_def kilo_exp_def)
  ultimately show ?thesis using assms(1) f32_le_positive by metis
qed

text \<open>A valid threshold is stored as a valid threshold, and reads back as its thousandth.\<close>

lemma stored_face_threshold:
  assumes "is_valid_logon_face_match_threshold t"
  shows "is_valid_logon_face_match_threshold (stored_threshold t)"
    "parse_f32 (trim (format_3 t)) = Some (stored_threshold t)"
    "stored_threshold (stored_threshold t) = stored_threshold t"
proof -
  have v: "f32_is_finite t" "f32_le (f32_round False 300 1000) t" "f32_le t (f32_round False 900 1000)"
    using assms by (simp_all add: is_valid_logon_face_match_threshold_def setting_bounds)
  have p: "\<not> f32_negative t" using threshold_positive [OF v(2)] by simp
  note st = stored_threshold_between [OF p v, simplified]
  show "is_valid_logon_face_match_threshold (stored_threshold t)"
    using st by (simp add: is_valid_logon_face_match_threshold_def setting_bounds)
  show "parse_f32 (trim (format_3 t)) = Some (stored_threshold t)"
    using parse_format_3 [OF v(1) p] by (simp add: stored_threshold_def)
  show "stored_threshold (stored_threshold t) = stored_threshold t" using st by simp
qed

lemma stored_intruder_threshold:
  assumes "is_valid_intruder_similarity_threshold t"
  shows "is_valid_intruder_similarity_threshold (stored_threshold t)"
    "parse_f32 (trim (format_3 t)) = Some (stored_threshold t)"
    "stored_threshold (stored_threshold t) = stored_threshold t"
proof -
  have v: "f32_is_finite t" "f32_le (f32_round False 100 1000) t" "f32_le t (f32_round False 600 1000)"
    using assms by (simp_all add: is_valid_intruder_similarity_threshold_def setting_bounds)
  have p: "\<not> f32_negative t" using threshold_positive [OF v(2)] by simp
  note st = stored_threshold_between [OF p v, simplified]
  show "is_valid_intruder_similarity_threshold (stored_threshold t)"
    using st by (simp add: is_valid_intruder_similarity_threshold_def setting_bounds)
  show "parse_f32 (trim (format_3 t)) = Some (stored_threshold t)"
    using parse_format_3 [OF v(1) p] by (simp add: stored_threshold_def)
  show "stored_threshold (stored_threshold t) = stored_threshold t" using st by simp
qed

end
