(* ===== verification/Provider_Config.thy ===== *)
theory Provider_Config
  imports Control_Settings Provider_State
begin

text \<open>
  Crate \<open>windows_provider\<close>, \<open>src/provider_config.rs\<close>: the configuration the credential provider reads
  from the registry when LogonUI loads it. A value that cannot be read is a value that is not there.
\<close>

text \<open>\<open>registry::read_string_value\<close> of the provider.\<close>

definition provider_read_string_value :: "string \<Rightarrow> string \<Rightarrow> config_registry \<Rightarrow> config_registry \<times> string option" where
  "provider_read_string_value path name r =
     (case reg_call r :: config_registry \<times> (unit + nat) of
        (r1, Inl _) \<Rightarrow> (r1, None)
      | (r1, Inr opened) \<Rightarrow>
          if opened \<noteq> 0 \<or> path \<notin> reg_keys r1 then (r1, None)
          else case reg_call r1 :: config_registry \<times> (unit + nat) of
                 (r2, Inl _) \<Rightarrow> (r2, None)
               | (r2, Inr probe) \<Rightarrow>
                   if probe \<noteq> 0 then (r2, None)
                   else case reg_values r2 (path, name) of
                          Some (RegText text) \<Rightarrow>
                            (case reg_call r2 :: config_registry \<times> (unit + nat) of
                               (r3, Inl _) \<Rightarrow> (r3, None)
                             | (r3, Inr code) \<Rightarrow>
                                 (r3, if code \<noteq> 0 then None
                                      else Some (takeWhile (\<lambda>c. c \<noteq> CHR 0x00) text)))
                        | _ \<Rightarrow> (r2, None))"

definition reg_value_tile_visibility :: string where "reg_value_tile_visibility = ''TileVisibility''"

definition reg_value_wake_auth_source :: string where "reg_value_wake_auth_source = ''WakeAuthSource''"

definition tile_visibility_visible :: string where "tile_visibility_visible = ''visible''"

definition tile_visibility_hidden_until_ready :: string where
  "tile_visibility_hidden_until_ready = ''hidden-until-ready''"

definition wake_auth_source_local_camera :: string where "wake_auth_source_local_camera = ''local-camera''"

definition wake_auth_source_manual_test :: string where "wake_auth_source_manual_test = ''manual-test''"

definition tile_visibility_from_config_value :: "string \<Rightarrow> provider_tile_visibility" where
  "tile_visibility_from_config_value v =
     (if v = tile_visibility_hidden_until_ready then HiddenUntilCredentialReady
      else VisibleBeforeCredentialReady)"

definition bool_from_config_value :: "string \<Rightarrow> bool" where
  "bool_from_config_value v \<longleftrightarrow> v \<in> {''1'', ''true'', ''TRUE'', ''True'', ''yes'', ''YES''}"

definition wake_auth_source_from_config_value :: "string \<Rightarrow> auth_source" where
  "wake_auth_source_from_config_value v =
     (if v = wake_auth_source_manual_test then ManualTest else LocalCamera)"

text \<open>\<open>ProviderLogonWakeMode\<close> has the two modes of the control protocol.\<close>

definition logon_wake_mode_from_config_value :: "string \<Rightarrow> logon_wake_mode option" where
  "logon_wake_mode_from_config_value v =
     (if v \<in> triggered_names then Some TriggeredRecognition
      else if v \<in> background_names then Some BackgroundSilentRecognition
      else None)"

definition provider_legacy_logon_wake_mode :: "bool \<Rightarrow> logon_wake_mode option" where
  "provider_legacy_logon_wake_mode auto_wake = (if auto_wake then Some TriggeredRecognition else None)"

record provider_runtime_config =
  config_tile_visibility :: provider_tile_visibility
  config_auto_wake_on_advise :: bool
  config_wake_auth_source :: auth_source
  config_logon_wake_mode :: "logon_wake_mode option"

definition default_provider_config :: provider_runtime_config where
  "default_provider_config =
     \<lparr>config_tile_visibility = VisibleBeforeCredentialReady, config_auto_wake_on_advise = False,
      config_wake_auth_source = LocalCamera, config_logon_wake_mode = None\<rparr>"

definition provider_config_from_registry :: "config_registry \<Rightarrow> config_registry \<times> provider_runtime_config" where
  "provider_config_from_registry r =
     (let (r1, auto_value) = provider_read_string_value provider_root_registry_path reg_value_auto_wake_on_advise r;
          auto_wake = (case auto_value of Some v \<Rightarrow> bool_from_config_value v | None \<Rightarrow> False);
          (r2, tile) = provider_read_string_value provider_root_registry_path reg_value_tile_visibility r1;
          (r3, source) = provider_read_string_value provider_root_registry_path reg_value_wake_auth_source r2;
          (r4, mode) = provider_read_string_value provider_root_registry_path reg_value_logon_wake_mode r3
      in (r4,
          \<lparr>config_tile_visibility =
             (case tile of Some v \<Rightarrow> tile_visibility_from_config_value v | None \<Rightarrow> VisibleBeforeCredentialReady),
           config_auto_wake_on_advise = auto_wake,
           config_wake_auth_source =
             (case source of Some v \<Rightarrow> wake_auth_source_from_config_value v | None \<Rightarrow> LocalCamera),
           config_logon_wake_mode =
             (case Option.bind mode logon_wake_mode_from_config_value of
                Some m \<Rightarrow> Some m | None \<Rightarrow> provider_legacy_logon_wake_mode auto_wake)\<rparr>))"

lemma provider_read_quiet:
  assumes "reg_faults r = []"
  shows "provider_read_string_value path name r = (r, stored_text r path name)"
  using assms
  by (cases "reg_values r (path, name)")
     (auto simp: provider_read_string_value_def reg_call_quiet stored_text_def split: reg_value.splits)

lemma provider_config_quiet:
  assumes "reg_faults r = []"
  defines "get \<equiv> stored_text r provider_root_registry_path"
  shows "config_logon_wake_mode (snd (provider_config_from_registry r)) =
     (case Option.bind (get reg_value_logon_wake_mode) logon_wake_mode_from_config_value of
        Some m \<Rightarrow> Some m
      | None \<Rightarrow> provider_legacy_logon_wake_mode
                  (case get reg_value_auto_wake_on_advise of Some v \<Rightarrow> bool_from_config_value v | None \<Rightarrow> False))"
    "config_auto_wake_on_advise (snd (provider_config_from_registry r)) =
       (case get reg_value_auto_wake_on_advise of Some v \<Rightarrow> bool_from_config_value v | None \<Rightarrow> False)"
  unfolding get_def
  using assms(1) by (simp_all add: provider_config_from_registry_def provider_read_quiet Let_def split: option.split)

end
