(* ===== verification/Path_Text.thy ===== *)
theory Path_Text
  imports Windows_Path
begin

text \<open>
  The operations of \<open>std::path\<close> on the texts the configuration and the control application keep: where
  each component of a path ends, \<open>parent\<close>, \<open>file_name\<close>, \<open>is_relative\<close> and \<open>join\<close>. A text is a list of
  bytes, and a path is read over its bytes.
\<close>

definition units :: "string \<Rightarrow> u16 list" where
  "units s = wide_ascii s"

text \<open>The ends of the components that \<open>path_components\<close> gives for the parts between separators.\<close>

fun part_ends :: "bool \<Rightarrow> nat \<Rightarrow> u16 list list \<Rightarrow> nat list" where
  "part_ends verbatim from [] = []"
| "part_ends verbatim from (c # cs) =
     (if single_component verbatim c = [] then [] else [from + length c]) @
     part_ends verbatim (from + length c + 1) cs"

definition prefix_end :: "u16 list \<Rightarrow> nat" where
  "prefix_end p = length p - length (after_prefix p)"

definition root_end :: "u16 list \<Rightarrow> nat" where
  "root_end p =
     (case after_prefix p of [] \<Rightarrow> prefix_end p
      | u # _ \<Rightarrow> if path_sep (parse_prefix p) u then prefix_end p + 1 else prefix_end p)"

definition component_ends :: "u16 list \<Rightarrow> nat list" where
  "component_ends p =
     (let pre = parse_prefix p; verbatim = is_verbatim_prefix pre; parts = path_split (path_sep pre) (after_prefix p)
      in (case pre of None \<Rightarrow> [] | Some _ \<Rightarrow> [prefix_end p]) @
         (if has_root p then [root_end p] else if hd parts = [46] then [prefix_end p + 1] else []) @
         (if \<not> has_root p \<and> hd parts = [46] then part_ends verbatim (prefix_end p + 2) (tl parts)
          else part_ends verbatim (prefix_end p) parts))"

text \<open>A path that ends with its prefix or its root has no parent.\<close>

definition path_parent :: "string \<Rightarrow> string option" where
  "path_parent s =
     (let cs = path_components (units s)
      in if cs = [] then None
         else case last cs of
                Prefix _ \<Rightarrow> None
              | RootDir \<Rightarrow> None
              | _ \<Rightarrow> Some (case butlast (component_ends (units s)) of [] \<Rightarrow> [] | es \<Rightarrow> take (last es) s))"

definition path_file_name :: "string \<Rightarrow> string option" where
  "path_file_name s =
     (let cs = path_components (units s)
      in if cs = [] then None
         else case last cs of Normal c \<Rightarrow> Some (map (\<lambda>u. char_of (unat u)) c) | _ \<Rightarrow> None)"

definition path_is_relative :: "string \<Rightarrow> bool" where
  "path_is_relative s \<longleftrightarrow> \<not> path_is_absolute (units s)"

text \<open>\<open>PathBuf::push\<close>. Onto a verbatim path the components are pushed one by one, with \<open>.\<close> left out and
  \<open>..\<close> resolved.\<close>

fun component_text :: "string \<Rightarrow> path_component \<Rightarrow> string" where
  "component_text s (Prefix _) = take (prefix_end (units s)) s"
| "component_text s RootDir = [CHR 0x5C]"
| "component_text s CurDir = ''.''"
| "component_text s ParentDir = ''..''"
| "component_text s (Normal c) = map (\<lambda>u. char_of (unat u)) c"

fun push_component :: "path_component list \<Rightarrow> path_component \<Rightarrow> path_component list" where
  "push_component buf RootDir = take 1 buf @ [RootDir]"
| "push_component buf CurDir = buf"
| "push_component buf ParentDir =
     (if buf \<noteq> [] \<and> (case last buf of Normal _ \<Rightarrow> True | _ \<Rightarrow> False) then butlast buf else buf)"
| "push_component buf c = buf @ [c]"

fun rebuild :: "string \<Rightarrow> bool \<Rightarrow> path_component list \<Rightarrow> string" where
  "rebuild s need_sep [] = []"
| "rebuild s need_sep (c # cs) =
     (if need_sep \<and> c \<noteq> RootDir then [CHR 0x5C] else []) @ component_text s c @
     rebuild s (case c of RootDir \<Rightarrow> False | Prefix p \<Rightarrow> \<not> is_drive p \<and> prefix_length p > 0 | _ \<Rightarrow> True) cs"

definition join_path :: "string \<Rightarrow> string \<Rightarrow> string" where
  "join_path base path =
     (let b = units base; p = units path; pre = parse_prefix b;
          bare_drive = (case pre of Some x \<Rightarrow> is_drive x \<and> prefix_end b = length b | None \<Rightarrow> False);
          need_sep = (b \<noteq> [] \<and> \<not> is_path_sep (last b) \<and> \<not> bare_drive)
      in if path_is_absolute p \<or> parse_prefix p \<noteq> None then path
         else if is_verbatim_prefix pre \<and> path \<noteq> []
         then rebuild base False (foldl push_component (path_components b) (path_components p))
         else if has_root p then take (prefix_end b) base @ path
         else if need_sep then base @ [CHR 0x5C] @ path
         else base @ path)"

text \<open>A text with the backslashes written as slashes, for the samples.\<close>

definition windows_text :: "string \<Rightarrow> string" where
  "windows_text s = map (\<lambda>c. if c = CHR ''/'' then CHR 0x5C else c) s"

lemma path_samples:
  "path_parent (windows_text ''C:/wfu/face-enrollment/t.json'') = Some (windows_text ''C:/wfu/face-enrollment'')"
  "path_parent (windows_text ''C:/wfu'') = Some (windows_text ''C:/'')"
  "path_parent (windows_text ''C:/'') = None"
  "path_file_name (windows_text ''C:/wfu/face-enrollment'') = Some ''face-enrollment''"
  "join_path (windows_text ''C:/wfu'') ''models/a.onnx'' = windows_text ''C:/wfu/'' @ ''models/a.onnx''"
  "join_path (windows_text ''C:/wfu'') (windows_text ''D:/x'') = windows_text ''D:/x''"
  by code_simp+

section \<open>The parent is shorter\<close>

lemma part_ends_bounds:
  "e \<in> set (part_ends v a ps) \<Longrightarrow> a < e \<and> e + 1 \<le> a + sum_list (map (\<lambda>c. length c + 1) ps)"
proof (induction ps arbitrary: a)
  case Nil
  then show ?case by simp
next
  case (Cons c cs)
  show ?case using Cons.prems Cons.IH [of "a + length c + 1"]
    by (cases "c = []") (auto simp: single_component_def split: if_splits)
qed

lemma part_ends_sorted: "sorted_wrt (<) (part_ends v a ps)"
proof (induction ps arbitrary: a)
  case Nil
  then show ?case by simp
next
  case (Cons c cs)
  show ?case using Cons.IH part_ends_bounds [of _ v "a + length c + 1" cs]
    by (force simp: sorted_wrt_append)
qed

lemma part_ends_Nil: "part_ends v a ps = [] \<longleftrightarrow> concat (map (single_component v) ps) = []"
  by (induction ps arbitrary: a) auto

lemma path_split_length: "sum_list (map (\<lambda>c. length c + 1) (path_split sep us)) = length us + 1"
proof (induction us)
  case (Cons u us)
  then show ?case by (cases "path_split sep us") auto
qed simp

lemma path_split_not_Nil [simp]: "path_split sep us \<noteq> []"
  by (induction us) (auto split: list.split)

lemma sorted_before_last:
  fixes xs :: "nat list"
  assumes "sorted_wrt (<) xs" and "x \<in> set (butlast xs)"
  shows "x < last xs"
proof -
  have "xs = butlast xs @ [last xs]" using assms(2) by (cases xs) auto
  then have "sorted_wrt (<) (butlast xs @ [last xs])" using assms(1) by simp
  then show ?thesis using assms(2) by (simp add: sorted_wrt_append)
qed

text \<open>The ends of the parts lie behind the root, and none lies behind the end of the path.\<close>

definition later_ends :: "u16 list \<Rightarrow> nat list" where
  "later_ends p =
     (let pre = parse_prefix p; verbatim = is_verbatim_prefix pre; parts = path_split (path_sep pre) (after_prefix p)
      in if \<not> has_root p \<and> hd parts = [46] then (prefix_end p + 1) # part_ends verbatim (prefix_end p + 2) (tl parts)
         else part_ends verbatim (prefix_end p) parts)"

definition early_ends :: "u16 list \<Rightarrow> nat list" where
  "early_ends p =
     (case parse_prefix p of None \<Rightarrow> [] | Some _ \<Rightarrow> [prefix_end p]) @ (if has_root p then [root_end p] else [])"

lemma component_ends_split: "component_ends p = early_ends p @ later_ends p"
  by (auto simp: component_ends_def early_ends_def later_ends_def Let_def split: option.split)

lemma prefix_end_le: "prefix_end p + length (after_prefix p) = length p"
  by (auto simp: prefix_end_def after_prefix_def split: option.split)

lemma later_ends_sorted: "sorted_wrt (<) (later_ends p)"
  using part_ends_sorted part_ends_bounds
  by (fastforce simp: later_ends_def Let_def)

lemma later_ends_bounds:
  assumes "e \<in> set (later_ends p)"
  shows "prefix_end p < e" and "e \<le> length p"
proof -
  let ?parts = "path_split (path_sep (parse_prefix p)) (after_prefix p)"
  have total: "sum_list (map (\<lambda>c. length c + 1) ?parts) = length (after_prefix p) + 1"
    by (rule path_split_length)
  have head: "sum_list (map (\<lambda>c. length c + 1) (tl ?parts)) + length (hd ?parts) + 1 =
      length (after_prefix p) + 1"
    using total by (cases ?parts) auto
  show "prefix_end p < e"
    using assms part_ends_bounds [of e]
    by (fastforce simp: later_ends_def Let_def split: if_splits)
  show "e \<le> length p"
  proof (cases "\<not> has_root p \<and> hd ?parts = [46]")
    case True
    then have "e = prefix_end p + 1 \<or>
        e + 1 \<le> prefix_end p + 2 + sum_list (map (\<lambda>c. length c + 1) (tl ?parts))"
      using assms part_ends_bounds [of e]
      by (force simp: later_ends_def Let_def)
    then show ?thesis using head True prefix_end_le [of p] by auto
  next
    case False
    then have "e + 1 \<le> prefix_end p + sum_list (map (\<lambda>c. length c + 1) ?parts)"
      using assms part_ends_bounds [of e] by (auto simp: later_ends_def Let_def split: if_splits)
    then show ?thesis using total prefix_end_le [of p] by simp
  qed
qed

lemma root_before_later:
  assumes "has_root p" and "e \<in> set (later_ends p)"
  shows "root_end p < e"
proof (cases "after_prefix p")
  case Nil
  then show ?thesis using later_ends_bounds(1) [OF assms(2)] by (simp add: root_end_def)
next
  case (Cons u us)
  show ?thesis
  proof (cases "path_sep (parse_prefix p) u")
    case True
    then have "e \<in> set (part_ends (is_verbatim_prefix (parse_prefix p)) (prefix_end p + 1)
        (path_split (path_sep (parse_prefix p)) us))"
      using assms Cons by (simp add: later_ends_def Let_def single_component_def)
    then show ?thesis using part_ends_bounds True Cons by (fastforce simp: root_end_def)
  next
    case False
    then show ?thesis using later_ends_bounds(1) [OF assms(2)] Cons by (simp add: root_end_def)
  qed
qed

lemma later_ends_Nil:
  assumes "later_ends p = []"
  shows "path_components p = [] \<or> (\<exists>x. last (path_components p) = Prefix x) \<or> last (path_components p) = RootDir"
  using assms part_ends_Nil
  by (auto simp: later_ends_def path_components_def Let_def split: if_splits option.splits)

lemma path_parent_shorter:
  assumes "path_parent s = Some q"
  shows "length q < length s"
proof -
  let ?p = "units s"
  have len: "length ?p = length s" by (simp add: units_def wide_ascii_def)
  have q: "q = (case butlast (component_ends ?p) of [] \<Rightarrow> [] | es \<Rightarrow> take (last es) s)"
    and later: "later_ends ?p \<noteq> []"
    using assms later_ends_Nil [of ?p]
    by (auto simp: path_parent_def Let_def split: if_splits path_component.splits)
  let ?l = "last (later_ends ?p)"
  have l: "?l \<in> set (later_ends ?p)" using later by simp
  have before: "e < ?l" if "e \<in> set (butlast (component_ends ?p))" for e
  proof -
    have "e \<in> set (early_ends ?p) \<or> e \<in> set (butlast (later_ends ?p))"
      using that later by (auto simp: component_ends_split butlast_append split: if_splits)
    then show ?thesis
    proof
      assume "e \<in> set (early_ends ?p)"
      then show ?thesis
        using later_ends_bounds(1) [OF l] root_before_later [OF _ l]
        by (auto simp: early_ends_def split: if_splits option.splits)
    next
      assume "e \<in> set (butlast (later_ends ?p))"
      then show ?thesis by (rule sorted_before_last [OF later_ends_sorted])
    qed
  qed
  show ?thesis
  proof (cases "butlast (component_ends ?p)")
    case Nil
    then show ?thesis using q later_ends_bounds(2) [OF l] later_ends_bounds(1) [OF l] len by auto
  next
    case (Cons e es)
    then have "last (e # es) < ?l"
      using before [of "last (e # es)"] last_in_set [of "e # es"] by (metis list.distinct(1))
    then have "length (take (last (e # es)) s) < length s"
      using later_ends_bounds(2) [OF l] len by simp
    then show ?thesis using q Cons by simp
  qed
qed

end
