(* ===== verification/Service_Config.thy ===== *)
theory Service_Config
  imports Control_Settings Path_Text Camera_Frames
begin

text \<open>
  Crate \<open>win_service\<close>, \<open>src/service_config.rs\<close>: the configuration the service starts with, from the
  process environment and the registry. \<open>from_lookup\<close> asks its lookup for every name once, so a lookup
  is the function from names to what it answers. With the identity of a camera
  (\<open>video_provider/src/provider.rs\<close>) and its binding to a device.
\<close>

section \<open>Names\<close>

definition env_auth_mode :: string where "env_auth_mode = ''WINFACEUNLOCK_AUTH_MODE''"

definition env_face_template_path :: string where
  "env_face_template_path = ''WINFACEUNLOCK_FACE_TEMPLATE_PATH''"

definition env_camera_id :: string where "env_camera_id = ''WINFACEUNLOCK_CAMERA_ID''"

definition env_yunet_model_path :: string where
  "env_yunet_model_path = ''WINFACEUNLOCK_YUNET_MODEL_PATH''"

definition env_sface_model_path :: string where
  "env_sface_model_path = ''WINFACEUNLOCK_SFACE_MODEL_PATH''"

definition env_minifasnet_model_path :: string where
  "env_minifasnet_model_path = ''WINFACEUNLOCK_MINIFASNET_MODEL_PATH''"

definition env_minifasnet_crop_scale :: string where
  "env_minifasnet_crop_scale = ''WINFACEUNLOCK_MINIFASNET_CROP_SCALE''"

definition env_minifasnet_min_live_score :: string where
  "env_minifasnet_min_live_score = ''WINFACEUNLOCK_MINIFASNET_MIN_LIVE_SCORE''"

definition env_minifasnet_min_spoof_score :: string where
  "env_minifasnet_min_spoof_score = ''WINFACEUNLOCK_MINIFASNET_MIN_SPOOF_SCORE''"

definition env_minifasnet_max_spoof_frame_ratio :: string where
  "env_minifasnet_max_spoof_frame_ratio = ''WINFACEUNLOCK_MINIFASNET_MAX_SPOOF_FRAME_RATIO''"

definition env_frame_width :: string where "env_frame_width = ''WINFACEUNLOCK_FRAME_WIDTH''"

definition env_frame_height :: string where "env_frame_height = ''WINFACEUNLOCK_FRAME_HEIGHT''"

definition env_max_auth_frames :: string where "env_max_auth_frames = ''WINFACEUNLOCK_MAX_AUTH_FRAMES''"

definition env_required_consecutive :: string where
  "env_required_consecutive = ''WINFACEUNLOCK_REQUIRED_CONSECUTIVE''"

definition env_match_threshold :: string where "env_match_threshold = ''WINFACEUNLOCK_MATCH_THRESHOLD''"

definition env_presence_lock_enabled :: string where
  "env_presence_lock_enabled = ''WINFACEUNLOCK_PRESENCE_LOCK_ENABLED''"

definition env_intruder_snap_enabled :: string where
  "env_intruder_snap_enabled = ''WINFACEUNLOCK_INTRUDER_SNAP_ENABLED''"

definition env_intruder_similarity_threshold :: string where
  "env_intruder_similarity_threshold = ''WINFACEUNLOCK_INTRUDER_SIMILARITY_THRESHOLD''"

definition env_presence_owner_match_threshold :: string where
  "env_presence_owner_match_threshold = ''WINFACEUNLOCK_PRESENCE_OWNER_MATCH_THRESHOLD''"

definition env_presence_detector_kind :: string where
  "env_presence_detector_kind = ''WINFACEUNLOCK_PRESENCE_DETECTOR_KIND''"

definition env_presence_tracking_mode :: string where
  "env_presence_tracking_mode = ''WINFACEUNLOCK_PRESENCE_TRACKING_MODE''"

definition env_presence_detector_fps :: string where
  "env_presence_detector_fps = ''WINFACEUNLOCK_PRESENCE_DETECTOR_FPS''"

definition env_presence_unload_model_when_idle :: string where
  "env_presence_unload_model_when_idle = ''WINFACEUNLOCK_PRESENCE_UNLOAD_MODEL_WHEN_IDLE''"

definition env_presence_person_confidence_threshold :: string where
  "env_presence_person_confidence_threshold = ''WINFACEUNLOCK_PRESENCE_PERSON_CONFIDENCE_THRESHOLD''"

definition env_presence_person_detector_model :: string where
  "env_presence_person_detector_model = ''WINFACEUNLOCK_PRESENCE_PERSON_DETECTOR_MODEL''"

definition env_presence_person_suspect_fps :: string where
  "env_presence_person_suspect_fps = ''WINFACEUNLOCK_PRESENCE_PERSON_SUSPECT_FPS''"

definition env_presence_absent_required_frames :: string where
  "env_presence_absent_required_frames = ''WINFACEUNLOCK_PRESENCE_ABSENT_REQUIRED_FRAMES''"

definition env_presence_boundary_margin_ratio :: string where
  "env_presence_boundary_margin_ratio = ''WINFACEUNLOCK_PRESENCE_BOUNDARY_MARGIN_RATIO''"

definition env_presence_movement_delta_ratio :: string where
  "env_presence_movement_delta_ratio = ''WINFACEUNLOCK_PRESENCE_MOVEMENT_DELTA_RATIO''"

definition env_presence_person_model_path :: string where
  "env_presence_person_model_path = ''WINFACEUNLOCK_PRESENCE_PERSON_MODEL_PATH''"

definition env_presence_person_model_config_path :: string where
  "env_presence_person_model_config_path = ''WINFACEUNLOCK_PRESENCE_PERSON_MODEL_CONFIG_PATH''"

definition env_presence_person_debug_output_dir :: string where
  "env_presence_person_debug_output_dir = ''WINFACEUNLOCK_PRESENCE_PERSON_DEBUG_OUTPUT_DIR''"

definition env_presence_pose_bridge_dll_path :: string where
  "env_presence_pose_bridge_dll_path = ''WINFACEUNLOCK_PRESENCE_POSE_BRIDGE_DLL_PATH''"

definition env_presence_pose_model_path :: string where
  "env_presence_pose_model_path = ''WINFACEUNLOCK_PRESENCE_POSE_MODEL_PATH''"

definition env_presence_pose_min_landmark_visibility :: string where
  "env_presence_pose_min_landmark_visibility = ''WINFACEUNLOCK_PRESENCE_POSE_MIN_LANDMARK_VISIBILITY''"

definition env_presence_pose_min_landmark_presence :: string where
  "env_presence_pose_min_landmark_presence = ''WINFACEUNLOCK_PRESENCE_POSE_MIN_LANDMARK_PRESENCE''"

lemmas env_names =
  env_auth_mode_def env_face_template_path_def env_camera_id_def env_yunet_model_path_def
  env_sface_model_path_def env_minifasnet_model_path_def env_minifasnet_crop_scale_def
  env_minifasnet_min_live_score_def env_minifasnet_min_spoof_score_def
  env_minifasnet_max_spoof_frame_ratio_def env_frame_width_def env_frame_height_def
  env_max_auth_frames_def env_required_consecutive_def env_match_threshold_def
  env_presence_lock_enabled_def env_intruder_snap_enabled_def env_intruder_similarity_threshold_def
  env_presence_owner_match_threshold_def env_presence_detector_kind_def
  env_presence_tracking_mode_def env_presence_detector_fps_def
  env_presence_unload_model_when_idle_def env_presence_person_confidence_threshold_def
  env_presence_person_detector_model_def env_presence_person_suspect_fps_def
  env_presence_absent_required_frames_def env_presence_boundary_margin_ratio_def
  env_presence_movement_delta_ratio_def env_presence_person_model_path_def
  env_presence_person_model_config_path_def env_presence_person_debug_output_dir_def
  env_presence_pose_bridge_dll_path_def env_presence_pose_model_path_def
  env_presence_pose_min_landmark_visibility_def env_presence_pose_min_landmark_presence_def

definition reg_auth_mode :: string where "reg_auth_mode = ''AuthMode''"

definition reg_face_template_path :: string where "reg_face_template_path = ''FaceTemplatePath''"

definition reg_camera_id :: string where "reg_camera_id = ''CameraId''"

definition reg_yunet_model_path :: string where "reg_yunet_model_path = ''YuNetModelPath''"

definition reg_sface_model_path :: string where "reg_sface_model_path = ''SFaceModelPath''"

definition reg_minifasnet_model_path :: string where
  "reg_minifasnet_model_path = ''MiniFasNetModelPath''"

definition reg_minifasnet_crop_scale :: string where
  "reg_minifasnet_crop_scale = ''MiniFasNetCropScale''"

definition reg_minifasnet_min_live_score :: string where
  "reg_minifasnet_min_live_score = ''MiniFasNetMinLiveScore''"

definition reg_minifasnet_min_spoof_score :: string where
  "reg_minifasnet_min_spoof_score = ''MiniFasNetMinSpoofScore''"

definition reg_minifasnet_max_spoof_frame_ratio :: string where
  "reg_minifasnet_max_spoof_frame_ratio = ''MiniFasNetMaxSpoofFrameRatio''"

definition reg_frame_width :: string where "reg_frame_width = ''FrameWidth''"

definition reg_frame_height :: string where "reg_frame_height = ''FrameHeight''"

definition reg_max_auth_frames :: string where "reg_max_auth_frames = ''MaxAuthFrames''"

definition reg_required_consecutive :: string where
  "reg_required_consecutive = ''RequiredConsecutiveMatchCount''"

definition reg_presence_owner_match_threshold :: string where
  "reg_presence_owner_match_threshold = ''PresenceOwnerMatchThreshold''"

definition reg_presence_detector_kind :: string where
  "reg_presence_detector_kind = ''PresenceDetectorKind''"

definition reg_presence_tracking_mode :: string where
  "reg_presence_tracking_mode = ''PresenceTrackingMode''"

definition reg_presence_detector_fps :: string where
  "reg_presence_detector_fps = ''PresenceDetectorFps''"

definition reg_presence_unload_model_when_idle :: string where
  "reg_presence_unload_model_when_idle = ''PresenceUnloadModelWhenIdle''"

definition reg_presence_person_confidence_threshold :: string where
  "reg_presence_person_confidence_threshold = ''PresencePersonConfidenceThreshold''"

definition reg_presence_person_detector_model :: string where
  "reg_presence_person_detector_model = ''PresencePersonDetectorModel''"

definition reg_presence_person_suspect_fps :: string where
  "reg_presence_person_suspect_fps = ''PresencePersonSuspectFps''"

definition reg_presence_absent_required_frames :: string where
  "reg_presence_absent_required_frames = ''PresenceAbsentRequiredFrames''"

definition reg_presence_boundary_margin_ratio :: string where
  "reg_presence_boundary_margin_ratio = ''PresenceBoundaryMarginRatio''"

definition reg_presence_movement_delta_ratio :: string where
  "reg_presence_movement_delta_ratio = ''PresenceMovementDeltaRatio''"

definition reg_presence_person_model_path :: string where
  "reg_presence_person_model_path = ''PresencePersonModelPath''"

definition reg_presence_person_model_config_path :: string where
  "reg_presence_person_model_config_path = ''PresencePersonModelConfigPath''"

definition reg_presence_person_debug_output_dir :: string where
  "reg_presence_person_debug_output_dir = ''PresencePersonDebugOutputDir''"

definition reg_presence_pose_bridge_dll_path :: string where
  "reg_presence_pose_bridge_dll_path = ''PresencePoseBridgeDllPath''"

definition reg_presence_pose_model_path :: string where
  "reg_presence_pose_model_path = ''PresencePoseModelPath''"

definition reg_presence_pose_min_landmark_visibility :: string where
  "reg_presence_pose_min_landmark_visibility = ''PresencePoseMinLandmarkVisibility''"

definition reg_presence_pose_min_landmark_presence :: string where
  "reg_presence_pose_min_landmark_presence = ''PresencePoseMinLandmarkPresence''"

lemmas service_registry_names =
  reg_auth_mode_def reg_face_template_path_def reg_camera_id_def reg_yunet_model_path_def
  reg_sface_model_path_def reg_minifasnet_model_path_def reg_minifasnet_crop_scale_def
  reg_minifasnet_min_live_score_def reg_minifasnet_min_spoof_score_def
  reg_minifasnet_max_spoof_frame_ratio_def reg_frame_width_def reg_frame_height_def
  reg_max_auth_frames_def reg_required_consecutive_def reg_presence_owner_match_threshold_def
  reg_presence_detector_kind_def reg_presence_tracking_mode_def reg_presence_detector_fps_def
  reg_presence_unload_model_when_idle_def reg_presence_person_confidence_threshold_def
  reg_presence_person_detector_model_def reg_presence_person_suspect_fps_def
  reg_presence_absent_required_frames_def reg_presence_boundary_margin_ratio_def
  reg_presence_movement_delta_ratio_def reg_presence_person_model_path_def
  reg_presence_person_model_config_path_def reg_presence_person_debug_output_dir_def
  reg_presence_pose_bridge_dll_path_def reg_presence_pose_model_path_def
  reg_presence_pose_min_landmark_visibility_def reg_presence_pose_min_landmark_presence_def

definition config_names :: "(string \<times> string) list" where
  "config_names =
     [(env_auth_mode, reg_auth_mode),
      (env_face_template_path, reg_face_template_path),
      (env_camera_id, reg_camera_id),
      (env_yunet_model_path, reg_yunet_model_path),
      (env_sface_model_path, reg_sface_model_path),
      (env_minifasnet_model_path, reg_minifasnet_model_path),
      (env_minifasnet_crop_scale, reg_minifasnet_crop_scale),
      (env_minifasnet_min_live_score, reg_minifasnet_min_live_score),
      (env_minifasnet_min_spoof_score, reg_minifasnet_min_spoof_score),
      (env_minifasnet_max_spoof_frame_ratio, reg_minifasnet_max_spoof_frame_ratio),
      (env_frame_width, reg_frame_width),
      (env_frame_height, reg_frame_height),
      (env_max_auth_frames, reg_max_auth_frames),
      (env_required_consecutive, reg_required_consecutive),
      (env_match_threshold, reg_match_threshold),
      (env_presence_lock_enabled, reg_presence_lock_enabled),
      (env_intruder_snap_enabled, reg_intruder_snap_enabled),
      (env_intruder_similarity_threshold, reg_intruder_similarity_threshold),
      (env_presence_owner_match_threshold, reg_presence_owner_match_threshold),
      (env_presence_detector_kind, reg_presence_detector_kind),
      (env_presence_tracking_mode, reg_presence_tracking_mode),
      (env_presence_detector_fps, reg_presence_detector_fps),
      (env_presence_unload_model_when_idle, reg_presence_unload_model_when_idle),
      (env_presence_person_confidence_threshold, reg_presence_person_confidence_threshold),
      (env_presence_person_detector_model, reg_presence_person_detector_model),
      (env_presence_person_suspect_fps, reg_presence_person_suspect_fps),
      (env_presence_absent_required_frames, reg_presence_absent_required_frames),
      (env_presence_boundary_margin_ratio, reg_presence_boundary_margin_ratio),
      (env_presence_movement_delta_ratio, reg_presence_movement_delta_ratio),
      (env_presence_person_model_path, reg_presence_person_model_path),
      (env_presence_person_model_config_path, reg_presence_person_model_config_path),
      (env_presence_person_debug_output_dir, reg_presence_person_debug_output_dir),
      (env_presence_pose_bridge_dll_path, reg_presence_pose_bridge_dll_path),
      (env_presence_pose_model_path, reg_presence_pose_model_path),
      (env_presence_pose_min_landmark_visibility, reg_presence_pose_min_landmark_visibility),
      (env_presence_pose_min_landmark_presence, reg_presence_pose_min_landmark_presence)]"

definition registry_value_name :: "string \<Rightarrow> string option" where
  "registry_value_name env_name = map_of config_names env_name"

section \<open>Camera identities\<close>

datatype camera_id = CameraId (camera_id_text: string)

definition device_id_prefix :: string where "device_id_prefix = ''windows-device:''"

definition camera_from_index :: "nat \<Rightarrow> camera_id" where
  "camera_from_index n = CameraId (''opencv-index:'' @ decimal n)"

definition camera_index :: "camera_id \<Rightarrow> video_error + i32" where
  "camera_index c =
     (case strip_prefix ''opencv-index:'' (camera_id_text c) of
        None \<Rightarrow> Inl CameraNotFound
      | Some t \<Rightarrow>
          (case parse_unsigned 32 t of
             None \<Rightarrow> Inl CameraNotFound
           | Some n \<Rightarrow> if n < 2 ^ 31 then Inr (int n) else Inl CameraNotFound))"

text \<open>\<open>char::is_control\<close> over UTF-8: the C0 controls, delete, and the C1 controls as two bytes.\<close>

fun has_control :: "string \<Rightarrow> bool" where
  "has_control [] = False"
| "has_control (c # cs) =
     ((of_char c :: nat) < 32 \<or> (of_char c :: nat) = 127 \<or>
      (of_char c :: nat) = 0xC2 \<and> cs \<noteq> [] \<and> (of_char (hd cs) :: nat) < 0xA0 \<or> has_control cs)"

definition device_path_start :: string where
  "device_path_start = [CHR 0x5C, CHR 0x5C, CHR ''?'', CHR 0x5C]"

definition from_device_path :: "string \<Rightarrow> video_error + camera_id" where
  "from_device_path s =
     (let path = (case strip_prefix ''@device:pnp:'' s of Some p \<Rightarrow> p | None \<Rightarrow> s)
      in if strip_prefix device_path_start path = None \<or> length path \<le> 4 \<or> 8192 < length path \<or>
            has_control path
         then Inl CameraNotFound
         else Inr (CameraId (device_id_prefix @ to_ascii_lowercase path)))"

definition validate_camera_id :: "camera_id \<Rightarrow> video_error + unit" where
  "validate_camera_id c =
     (case strip_prefix device_id_prefix (camera_id_text c) of
        Some path \<Rightarrow> rbind (from_device_path path) (\<lambda>_. Inr ())
      | None \<Rightarrow> rbind (camera_index c) (\<lambda>_. Inr ()))"

definition camera_is_stable :: "camera_id \<Rightarrow> bool" where
  "camera_is_stable c \<longleftrightarrow>
     strip_prefix device_id_prefix (camera_id_text c) \<noteq> None \<and> is_ok (validate_camera_id c)"

definition normalized_camera_id :: "camera_id \<Rightarrow> video_error + camera_id" where
  "normalized_camera_id c =
     (case strip_prefix device_id_prefix (camera_id_text c) of
        Some path \<Rightarrow> from_device_path path
      | None \<Rightarrow> rbind (camera_index c) (\<lambda>n. Inr (camera_from_index (nat n))))"

section \<open>Values\<close>

text \<open>A lookup may change a state: reading the registry does.\<close>

type_synonym 's lookup = "string \<Rightarrow> 's \<Rightarrow> 's \<times> string option"

type_synonym ('s, 'a) config_op = "'s \<Rightarrow> 's \<times> (protocol_error + 'a)"

definition looked_up :: "'s lookup \<Rightarrow> string \<Rightarrow> (string option \<Rightarrow> protocol_error + 'a) \<Rightarrow> ('s, 'a) config_op" where
  "looked_up look name f s = (case look name s of (s1, v) \<Rightarrow> (s1, f v))"

definition optional_value :: "(string \<Rightarrow> 'a option) \<Rightarrow> string option \<Rightarrow> protocol_error + 'a option" where
  "optional_value parse v =
     (case v of
        None \<Rightarrow> Inr None
      | Some t \<Rightarrow> (case parse t of None \<Rightarrow> Inl InvalidMessage | Some x \<Rightarrow> Inr (Some x)))"

definition parse_service_bool :: "string \<Rightarrow> bool option" where
  "parse_service_bool value =
     (let v = to_ascii_lowercase (trim value)
      in if v \<in> {''1'', ''true'', ''yes'', ''enabled'', ''on''} then Some True
         else if v \<in> {''0'', ''false'', ''no'', ''disabled'', ''off''} then Some False
         else None)"

definition optional_bool :: "'s lookup \<Rightarrow> string \<Rightarrow> ('s, bool option) config_op" where
  "optional_bool look name = looked_up look name (optional_value parse_service_bool)"

definition optional_u32 :: "'s lookup \<Rightarrow> string \<Rightarrow> ('s, nat option) config_op" where
  "optional_u32 look name = looked_up look name (optional_value (parse_unsigned 32))"

definition optional_f32 :: "'s lookup \<Rightarrow> string \<Rightarrow> ('s, f32 option) config_op" where
  "optional_f32 look name = looked_up look name (optional_value parse_f32)"

definition required_path :: "'s lookup \<Rightarrow> string \<Rightarrow> ('s, string) config_op" where
  "required_path look name = looked_up look name (ok_or InvalidMessage)"

definition optional_path_or_default :: "'s lookup \<Rightarrow> string \<Rightarrow> string \<Rightarrow> ('s, string) config_op" where
  "optional_path_or_default look name default_path =
     looked_up look name (\<lambda>v. Inr (case v of Some p \<Rightarrow> p | None \<Rightarrow> default_path))"

definition optional_path :: "'s lookup \<Rightarrow> string \<Rightarrow> ('s, string option) config_op" where
  "optional_path look name =
     looked_up look name (\<lambda>v. Inr (case v of
         None \<Rightarrow> None | Some t \<Rightarrow> if trim t = [] then None else Some (trim t)))"

text \<open>\<open>unwrap_or\<close> after \<open>?\<close>.\<close>

definition or_default :: "'a \<Rightarrow> ('s, 'a option) config_op \<Rightarrow> ('s, 'a) config_op" where
  "or_default d m = sbind m (\<lambda>v. sret (case v of Some x \<Rightarrow> x | None \<Rightarrow> d))"

datatype presence_detector_kind = FaceOwnerMatch | OpenCvDnnPerson | MediaPipePoseLite

datatype presence_tracking_mode = FacePolicy | ContinuousLowFps

datatype presence_person_detector_model = MobileNetSsd | YoloV8Onnx | OrtYoloV8Onnx

definition optional_presence_person_detector_model ::
  "'s lookup \<Rightarrow> string \<Rightarrow> ('s, presence_person_detector_model option) config_op" where
  "optional_presence_person_detector_model look name = looked_up look name (optional_value (\<lambda>t.
     if trim t \<in> {'''', ''mobilenet-ssd''} then Some MobileNetSsd
     else if trim t = ''yolov8-onnx'' then Some YoloV8Onnx
     else if trim t = ''ort-yolov8-onnx'' then Some OrtYoloV8Onnx
     else None))"

definition optional_presence_detector_kind ::
  "'s lookup \<Rightarrow> string \<Rightarrow> ('s, presence_detector_kind option) config_op" where
  "optional_presence_detector_kind look name = looked_up look name (optional_value (\<lambda>t.
     if trim t \<in> {'''', ''face-owner-match''} then Some FaceOwnerMatch
     else if trim t = ''opencv-dnn-person'' then Some OpenCvDnnPerson
     else if trim t = ''mediapipe-pose-lite'' then Some MediaPipePoseLite
     else None))"

definition optional_presence_tracking_mode ::
  "'s lookup \<Rightarrow> string \<Rightarrow> ('s, presence_tracking_mode option) config_op" where
  "optional_presence_tracking_mode look name = looked_up look name (optional_value (\<lambda>t.
     if trim t \<in> {'''', ''face-policy''} then Some FacePolicy
     else if trim t = ''continuous-low-fps'' then Some ContinuousLowFps
     else None))"

section \<open>The presence configuration\<close>

record service_presence_config =
  spc_presence_lock_enabled :: bool
  spc_owner_match_threshold :: f32
  spc_detector_kind :: presence_detector_kind
  spc_tracking_mode :: presence_tracking_mode
  spc_detector_fps :: f32
  spc_unload_model_when_idle :: bool
  spc_person_confidence_threshold :: f32
  spc_person_detector_model :: presence_person_detector_model
  spc_person_suspect_fps :: f32
  spc_absent_required_frames :: nat
  spc_boundary_margin_ratio :: f32
  spc_movement_delta_ratio :: f32
  spc_person_model_path :: string
  spc_person_model_config_path :: "string option"
  spc_person_debug_output_dir :: "string option"
  spc_pose_bridge_dll_path :: string
  spc_pose_model_path :: string
  spc_pose_min_landmark_visibility :: f32
  spc_pose_min_landmark_presence :: f32

definition default_person_model_path :: "presence_person_detector_model \<Rightarrow> string" where
  "default_person_model_path m =
     (if m = MobileNetSsd then ''models/MobileNetSSD_deploy.caffemodel'' else ''models/yolov8n.onnx'')"

definition default_person_model_config_path :: "presence_person_detector_model \<Rightarrow> string option" where
  "default_person_model_config_path m =
     (if m = MobileNetSsd then Some ''models/MobileNetSSD_deploy.prototxt'' else None)"

definition presence_from_lookup :: "'s lookup \<Rightarrow> ('s, service_presence_config) config_op" where
  "presence_from_lookup look =
     sbind (or_default OrtYoloV8Onnx
       (optional_presence_person_detector_model look env_presence_person_detector_model)) (\<lambda>model.
     sbind (or_default False (optional_bool look env_presence_lock_enabled)) (\<lambda>lock.
     sbind (or_default (f32_lit 50 100) (optional_f32 look env_presence_owner_match_threshold)) (\<lambda>owner.
     sbind (or_default OpenCvDnnPerson (optional_presence_detector_kind look env_presence_detector_kind)) (\<lambda>kind.
     sbind (or_default ContinuousLowFps
       (optional_presence_tracking_mode look env_presence_tracking_mode)) (\<lambda>tracking.
     sbind (or_default (f32_lit 2 1) (optional_f32 look env_presence_detector_fps)) (\<lambda>fps.
     sbind (or_default False (optional_bool look env_presence_unload_model_when_idle)) (\<lambda>unload.
     sbind (or_default (f32_lit 50 100) (optional_f32 look env_presence_person_confidence_threshold)) (\<lambda>conf.
     sbind (or_default (f32_lit 1 1) (optional_f32 look env_presence_person_suspect_fps)) (\<lambda>suspect.
     sbind (or_default 3 (optional_u32 look env_presence_absent_required_frames)) (\<lambda>absent.
     sbind (or_default (f32_lit 12 100) (optional_f32 look env_presence_boundary_margin_ratio)) (\<lambda>margin.
     sbind (or_default (f32_lit 4 100) (optional_f32 look env_presence_movement_delta_ratio)) (\<lambda>movement.
     sbind (optional_path_or_default look env_presence_person_model_path
       (default_person_model_path model)) (\<lambda>model_path.
     sbind (optional_path look env_presence_person_model_config_path) (\<lambda>config_path.
     sbind (optional_path look env_presence_person_debug_output_dir) (\<lambda>debug_dir.
     sbind (optional_path_or_default look env_presence_pose_bridge_dll_path
       ''native/winfaceunlock_mediapipe_bridge.dll'') (\<lambda>bridge.
     sbind (optional_path_or_default look env_presence_pose_model_path
       ''models/pose_landmarker_lite.task'') (\<lambda>pose_model.
     sbind (or_default (f32_lit 45 100) (optional_f32 look env_presence_pose_min_landmark_visibility)) (\<lambda>visibility.
     sbind (or_default (f32_lit 45 100) (optional_f32 look env_presence_pose_min_landmark_presence)) (\<lambda>presence.
       sret \<lparr>spc_presence_lock_enabled = lock, spc_owner_match_threshold = owner,
             spc_detector_kind = kind, spc_tracking_mode = tracking, spc_detector_fps = fps,
             spc_unload_model_when_idle = unload, spc_person_confidence_threshold = conf,
             spc_person_detector_model = model, spc_person_suspect_fps = suspect,
             spc_absent_required_frames = absent, spc_boundary_margin_ratio = margin,
             spc_movement_delta_ratio = movement, spc_person_model_path = model_path,
             spc_person_model_config_path =
               (case config_path of Some p \<Rightarrow> Some p | None \<Rightarrow> default_person_model_config_path model),
             spc_person_debug_output_dir = debug_dir, spc_pose_bridge_dll_path = bridge,
             spc_pose_model_path = pose_model, spc_pose_min_landmark_visibility = visibility,
             spc_pose_min_landmark_presence = presence\<rparr>)))))))))))))))))))"

definition resolve_relative_path_against_install_dir :: "string \<Rightarrow> string \<Rightarrow> string" where
  "resolve_relative_path_against_install_dir install_dir path =
     (if path_is_relative path then join_path install_dir path else path)"

definition presence_resolve_paths :: "string \<Rightarrow> service_presence_config \<Rightarrow> service_presence_config" where
  "presence_resolve_paths dir c =
     c\<lparr>spc_person_model_path := resolve_relative_path_against_install_dir dir (spc_person_model_path c),
       spc_person_model_config_path :=
         map_option (resolve_relative_path_against_install_dir dir) (spc_person_model_config_path c),
       spc_person_debug_output_dir :=
         map_option (resolve_relative_path_against_install_dir dir) (spc_person_debug_output_dir c),
       spc_pose_bridge_dll_path := resolve_relative_path_against_install_dir dir (spc_pose_bridge_dll_path c),
       spc_pose_model_path := resolve_relative_path_against_install_dir dir (spc_pose_model_path c)\<rparr>"

section \<open>The authentication configuration\<close>

datatype opencv_camera_backend = Msmf | Dshow | AnyBackend

record opencv_camera_config =
  max_camera_index :: nat
  requested_frame_width :: "nat option"
  requested_frame_height :: "nat option"
  preferred_backend :: "opencv_camera_backend option"

record minifasnet_config =
  minifasnet_model_path :: string
  crop_scale :: f32
  minifasnet_input_width :: i32
  minifasnet_input_height :: i32
  min_live_score :: f32
  min_spoof_score :: f32
  reject_on_model_spoof :: bool

record local_camera_auth_config =
  lca_face_template_path :: string
  lca_camera_id :: camera_id
  lca_camera_config :: opencv_camera_config
  lca_yunet_model_path :: string
  lca_sface_model_path :: string
  lca_minifasnet_config :: minifasnet_config
  lca_minifasnet_max_spoof_frame_ratio :: f32
  lca_max_auth_frames :: nat
  lca_required_consecutive_match_count :: nat
  lca_match_threshold :: f32
  lca_intruder_snap_enabled :: bool
  lca_intruder_similarity_threshold :: f32

datatype configured_auth_mode =
    ManualTestOnlyConfig
  | LocalCameraUnavailableConfig
  | LocalCameraConfig local_camera_auth_config

definition local_camera_from_lookup :: "'s lookup \<Rightarrow> ('s, local_camera_auth_config) config_op" where
  "local_camera_from_lookup look =
     sbind (required_path look env_face_template_path) (\<lambda>template.
     sbind (looked_up look env_camera_id
       (\<lambda>v. Inr (case v of Some t \<Rightarrow> CameraId t | None \<Rightarrow> camera_from_index 0))) (\<lambda>camera.
     sbind (optional_u32 look env_frame_width) (\<lambda>frame_width.
     sbind (optional_u32 look env_frame_height) (\<lambda>frame_height.
     sbind (optional_path_or_default look env_yunet_model_path
       ''models/face_detection_yunet_2023mar.onnx'') (\<lambda>yunet.
     sbind (optional_path_or_default look env_sface_model_path
       ''models/ghostfacenet_v1_stride2.onnx'') (\<lambda>sface.
     sbind (optional_path_or_default look env_minifasnet_model_path ''models/minifasnet_v2.onnx'') (\<lambda>mini.
     sbind (or_default (f32_lit 27 10) (optional_f32 look env_minifasnet_crop_scale)) (\<lambda>crop.
     sbind (or_default (f32_lit 80 100) (optional_f32 look env_minifasnet_min_live_score)) (\<lambda>live.
     sbind (or_default (f32_lit 70 100) (optional_f32 look env_minifasnet_min_spoof_score)) (\<lambda>spoof.
     sbind (or_default (f32_lit 40 100) (optional_f32 look env_minifasnet_max_spoof_frame_ratio)) (\<lambda>ratio.
     sbind (or_default 30 (optional_u32 look env_max_auth_frames)) (\<lambda>frames.
     sbind (or_default 2 (optional_u32 look env_required_consecutive)) (\<lambda>required.
     sbind (or_default (f32_lit 65 100) (optional_f32 look env_match_threshold)) (\<lambda>threshold.
     sbind (or_default False (optional_bool look env_intruder_snap_enabled)) (\<lambda>snap.
     sbind (or_default (f32_lit 30 100) (optional_f32 look env_intruder_similarity_threshold)) (\<lambda>intruder.
       sret \<lparr>lca_face_template_path = template, lca_camera_id = camera,
             lca_camera_config =
               \<lparr>max_camera_index = 8, requested_frame_width = frame_width,
                requested_frame_height = frame_height, preferred_backend = None\<rparr>,
             lca_yunet_model_path = yunet, lca_sface_model_path = sface,
             lca_minifasnet_config =
               \<lparr>minifasnet_model_path = mini, crop_scale = crop, minifasnet_input_width = 80,
                minifasnet_input_height = 80, min_live_score = live, min_spoof_score = spoof,
                reject_on_model_spoof = True\<rparr>,
             lca_minifasnet_max_spoof_frame_ratio = ratio, lca_max_auth_frames = frames,
             lca_required_consecutive_match_count = required, lca_match_threshold = threshold,
             lca_intruder_snap_enabled = snap, lca_intruder_similarity_threshold = intruder\<rparr>))))))))))))))))"

definition auth_from_lookup :: "'s lookup \<Rightarrow> ('s, configured_auth_mode) config_op" where
  "auth_from_lookup look =
     sbind (looked_up look env_auth_mode (\<lambda>v. Inr (case v of Some t \<Rightarrow> t | None \<Rightarrow> ''manual-test''))) (\<lambda>mode.
     if mode \<in> {'''', ''manual-test''} then sret ManualTestOnlyConfig
     else if mode = ''local-camera'' then
       sbind (local_camera_from_lookup look) (\<lambda>c. sret (LocalCameraConfig c))
     else sfail InvalidMessage)"

text \<open>The permission for snapshots and the bound camera come from the registry alone.\<close>

definition persisted_lookup :: "bool \<Rightarrow> string option \<Rightarrow> 's lookup \<Rightarrow> 's lookup" where
  "persisted_lookup permission camera look name s =
     (if name = env_intruder_snap_enabled then (s, Some (if permission then ''true'' else ''false''))
      else if name = env_camera_id \<and> camera \<noteq> None then (s, camera)
      else look name s)"

definition from_persisted_settings ::
  "bool \<Rightarrow> string option \<Rightarrow> 's lookup \<Rightarrow> ('s, configured_auth_mode) config_op" where
  "from_persisted_settings permission camera look = auth_from_lookup (persisted_lookup permission camera look)"

definition auth_resolve_paths :: "string \<Rightarrow> configured_auth_mode \<Rightarrow> configured_auth_mode" where
  "auth_resolve_paths dir mode =
     (case mode of
        LocalCameraConfig c \<Rightarrow>
          LocalCameraConfig
            (c\<lparr>lca_face_template_path := resolve_relative_path_against_install_dir dir (lca_face_template_path c),
               lca_yunet_model_path := resolve_relative_path_against_install_dir dir (lca_yunet_model_path c),
               lca_sface_model_path := resolve_relative_path_against_install_dir dir (lca_sface_model_path c),
               lca_minifasnet_config := (lca_minifasnet_config c)
                 \<lparr>minifasnet_model_path :=
                    resolve_relative_path_against_install_dir dir (minifasnet_model_path (lca_minifasnet_config c))\<rparr>\<rparr>)
      | _ \<Rightarrow> mode)"

text \<open>\<open>resolve\<close> enumerates the devices; \<open>persist\<close> writes the registry.\<close>

definition resolve_persisted_camera_binding ::
  "camera_id \<Rightarrow> string option \<Rightarrow> (camera_id \<Rightarrow> video_error + camera_id) \<Rightarrow>
     (camera_id \<Rightarrow> ('s, unit) config_op) \<Rightarrow> ('s, camera_id) config_op" where
  "resolve_persisted_camera_binding requested persisted resolve persist =
     (case validate_camera_id requested of
        Inl _ \<Rightarrow> sfail InvalidMessage
      | Inr _ \<Rightarrow>
          (case (if camera_is_stable requested then Inr requested else resolve requested) of
             Inl _ \<Rightarrow> sfail TransportUnavailable
           | Inr resolved \<Rightarrow>
               if persisted \<noteq> Some (camera_id_text resolved)
               then sbind (persist resolved) (\<lambda>_. sret resolved)
               else sret resolved))"

section \<open>The process\<close>

text \<open>What the process finds outside: its environment, the directory of its program, the devices.\<close>

record service_process =
  env_vars :: "string \<Rightarrow> string option"
  current_exe_dir :: "string option"
  resolve_device :: "camera_id \<Rightarrow> video_error + camera_id"

text \<open>The \<open>service_registry\<close> of this file passes over every failure.\<close>

definition service_read_string_value :: "string \<Rightarrow> string \<Rightarrow> config_registry \<Rightarrow> config_registry \<times> string option" where
  "service_read_string_value path name r =
     (case reg_call r :: config_registry \<times> (unit + nat) of
        (r1, Inl _) \<Rightarrow> (r1, None)
      | (r1, Inr opened) \<Rightarrow>
          if opened \<noteq> 0 \<or> path \<notin> reg_keys r1 then (r1, None)
          else case reg_call r1 :: config_registry \<times> (unit + nat) of
                 (r2, Inl _) \<Rightarrow> (r2, None)
               | (r2, Inr probe) \<Rightarrow>
                   if probe \<noteq> 0 then (r2, None)
                   else case reg_values r2 (path, name) of
                          Some (RegText text) \<Rightarrow>
                            (case reg_call r2 :: config_registry \<times> (unit + nat) of
                               (r3, Inl _) \<Rightarrow> (r3, None)
                             | (r3, Inr code) \<Rightarrow>
                                 (r3, if code \<noteq> 0 then None
                                      else Some (takeWhile (\<lambda>c. c \<noteq> CHR 0x00) text)))
                        | _ \<Rightarrow> (r2, None))"

definition registry_value_for_env_name :: "string \<Rightarrow> config_registry \<Rightarrow> config_registry \<times> string option" where
  "registry_value_for_env_name env_name r =
     (case registry_value_name env_name of
        None \<Rightarrow> (r, None)
      | Some name \<Rightarrow> service_read_string_value service_config_registry_path name r)"

definition process_lookup :: "service_process \<Rightarrow> config_registry lookup" where
  "process_lookup p env_name r =
     (case env_vars p env_name of
        Some v \<Rightarrow> (r, Some v)
      | None \<Rightarrow> registry_value_for_env_name env_name r)"

definition presence_from_environment ::
  "service_process \<Rightarrow> (config_registry, service_presence_config) config_op" where
  "presence_from_environment p =
     sbind (presence_from_lookup (process_lookup p)) (\<lambda>c.
     sret (case current_exe_dir p of Some dir \<Rightarrow> presence_resolve_paths dir c | None \<Rightarrow> c))"

text \<open>\<open>load_camera_id\<close> and \<open>persist_camera_id\<close> of \<open>control_status\<close>; their errors become
  \<open>TransportUnavailable\<close> here.\<close>

definition load_camera_id :: "(config_registry, string option) config_op" where
  "load_camera_id =
     map_err (\<lambda>_. TransportUnavailable) (read_string_value service_config_registry_path reg_camera_id)"

definition persist_camera_id :: "camera_id \<Rightarrow> (config_registry, unit) config_op" where
  "persist_camera_id c =
     (if trim (camera_id_text c) = [] \<or> CHR 0x00 \<in> set (camera_id_text c) then sfail TransportUnavailable
      else map_err (\<lambda>_. TransportUnavailable)
             (write_string_value service_config_registry_path reg_camera_id (camera_id_text c)))"

definition bind_camera ::
  "service_process \<Rightarrow> string option \<Rightarrow> configured_auth_mode \<Rightarrow> (config_registry, configured_auth_mode) config_op" where
  "bind_camera p camera mode r =
     (case mode of
        LocalCameraConfig c \<Rightarrow>
          (case resolve_persisted_camera_binding (lca_camera_id c) camera (resolve_device p)
                  persist_camera_id r of
             (r1, Inr resolved) \<Rightarrow> (r1, Inr (LocalCameraConfig (c\<lparr>lca_camera_id := resolved\<rparr>)))
           | (r1, Inl _) \<Rightarrow> (r1, Inr LocalCameraUnavailableConfig))
      | _ \<Rightarrow> (r, Inr mode))"

definition auth_from_environment :: "service_process \<Rightarrow> (config_registry, configured_auth_mode) config_op" where
  "auth_from_environment p =
     sbind (map_err (\<lambda>_. TransportUnavailable) load_intruder_snap_enabled) (\<lambda>permission.
     sbind load_camera_id (\<lambda>camera.
     sbind (from_persisted_settings permission camera (process_lookup p)) (\<lambda>mode.
     bind_camera p camera
       (case current_exe_dir p of Some dir \<Rightarrow> auth_resolve_paths dir mode | None \<Rightarrow> mode))))"

end
