(* ===== verification/Config_Properties.thy ===== *)
theory Config_Properties
  imports Control_Decimal Provider_Config Service_Config
begin

text \<open>
  The settings from the control application to the programs that use them: updating them is an update
  of the settings as they are seen (an abstract view of the registry), and the service and the
  credential provider, each with a reader of its own, read what was saved. Then what the service does
  with values the control application would not have saved, and with the bound camera.
\<close>

section \<open>The view of the registry\<close>

definition settings_view :: "config_registry \<Rightarrow> control_settings_snapshot" where
  "settings_view r =
     (let service = stored_text r service_config_registry_path;
          provider = stored_text r provider_root_registry_path
      in \<lparr>snap_presence_lock_enabled =
            (case Option.bind (service reg_presence_lock_enabled) parse_registry_bool of
               Some b \<Rightarrow> b | None \<Rightarrow> False),
          snap_intruder_snap_enabled =
            (case Option.bind (service reg_intruder_snap_enabled) parse_registry_bool of
               Some b \<Rightarrow> b | None \<Rightarrow> False),
          snap_logon_wake_mode =
            (case Option.bind (provider reg_value_logon_wake_mode) parse_logon_wake_mode of
               Some m \<Rightarrow> Some m
             | None \<Rightarrow> legacy_logon_wake_mode (provider reg_value_auto_wake_on_advise)),
          snap_logon_face_match_threshold =
            (case Option.bind (service reg_match_threshold) parse_logon_face_match_threshold of
               Some t \<Rightarrow> t | None \<Rightarrow> default_logon_face_match_threshold),
          snap_intruder_similarity_threshold =
            (case Option.bind (service reg_intruder_similarity_threshold) parse_intruder_similarity_threshold of
               Some t \<Rightarrow> t | None \<Rightarrow> default_intruder_similarity_threshold)\<rparr>)"

text \<open>What a patch does to the settings: a threshold takes the value it is stored with.\<close>

definition patched :: "control_settings_patch \<Rightarrow> control_settings_snapshot \<Rightarrow> control_settings_snapshot" where
  "patched patch s =
     \<lparr>snap_presence_lock_enabled =
        (case presence_lock_enabled patch of Some b \<Rightarrow> b | None \<Rightarrow> snap_presence_lock_enabled s),
      snap_intruder_snap_enabled =
        (case intruder_snap_enabled patch of Some b \<Rightarrow> b | None \<Rightarrow> snap_intruder_snap_enabled s),
      snap_logon_wake_mode =
        (case logon_wake_mode patch of Some m \<Rightarrow> Some m | None \<Rightarrow> snap_logon_wake_mode s),
      snap_logon_face_match_threshold =
        (case logon_face_match_threshold patch of
           Some t \<Rightarrow> stored_threshold t | None \<Rightarrow> snap_logon_face_match_threshold s),
      snap_intruder_similarity_threshold =
        (case control_settings_patch.intruder_similarity_threshold patch of
           Some t \<Rightarrow> stored_threshold t | None \<Rightarrow> snap_intruder_similarity_threshold s)\<rparr>"

text \<open>The values a patch writes, one after the other.\<close>

definition store_if :: "'a option \<Rightarrow> ('a \<Rightarrow> config_registry \<Rightarrow> config_registry) \<Rightarrow> config_registry \<Rightarrow> config_registry" where
  "store_if v f r = (case v of None \<Rightarrow> r | Some x \<Rightarrow> f x r)"

definition apply_patch :: "control_settings_patch \<Rightarrow> config_registry \<Rightarrow> config_registry" where
  "apply_patch patch r =
     store_if (control_settings_patch.intruder_similarity_threshold patch)
       (\<lambda>t. store_text service_config_registry_path reg_intruder_similarity_threshold (format_3 t))
     (store_if (logon_face_match_threshold patch)
       (\<lambda>t. store_text service_config_registry_path reg_match_threshold (format_3 t))
     (store_if (logon_wake_mode patch)
       (\<lambda>m r. store_text provider_root_registry_path reg_value_auto_wake_on_advise (bool_registry_value True)
               (store_text provider_root_registry_path reg_value_logon_wake_mode
                 (logon_wake_mode_registry_value m) r))
     (store_if (intruder_snap_enabled patch)
       (\<lambda>b. store_text service_config_registry_path reg_intruder_snap_enabled (bool_registry_value b))
     (store_if (presence_lock_enabled patch)
       (\<lambda>b. store_text service_config_registry_path reg_presence_lock_enabled (bool_registry_value b)) r))))"

text \<open>A value lies in a key that exists.\<close>

definition reg_wf :: "config_registry \<Rightarrow> bool" where
  "reg_wf r \<longleftrightarrow> (\<forall>path name. reg_values r (path, name) \<noteq> None \<longrightarrow> path \<in> reg_keys r)"

lemma reg_wf_store [simp]: "reg_wf r \<Longrightarrow> reg_wf (store_text path name value r)"
  by (auto simp: reg_wf_def store_text_def)

lemma stored_wf:
  "reg_wf r \<Longrightarrow> stored_text r path name =
     (case reg_values r (path, name) of
        Some (RegText t) \<Rightarrow> Some (takeWhile (\<lambda>c. c \<noteq> CHR 0x00) t) | _ \<Rightarrow> None)"
  by (auto simp: stored_text_def reg_wf_def split: option.split)

lemma stored_store:
  "reg_wf r \<Longrightarrow> stored_text (store_text path name value r) path' name' =
     (if path' = path \<and> name' = name then Some (takeWhile (\<lambda>c. c \<noteq> CHR 0x00) value)
      else stored_text r path' name')"
  by (simp add: stored_wf) (simp add: store_text_def)

lemma store_if_simps [simp]:
  "reg_faults (store_if v f r) = reg_faults r" if "\<And>x r. reg_faults (f x r) = reg_faults r"
  using that by (simp add: store_if_def split: option.split)

lemma store_if_wf:
  "reg_wf r \<Longrightarrow> (\<And>x r. reg_wf r \<Longrightarrow> reg_wf (f x r)) \<Longrightarrow> reg_wf (store_if v f r)"
  by (simp add: store_if_def split: option.split)

lemma stored_store_if:
  "stored_text (store_if v f r) path name =
     (case v of None \<Rightarrow> stored_text r path name | Some x \<Rightarrow> stored_text (f x r) path name)"
  by (simp add: store_if_def split: option.split)

lemma apply_patch_quiet: "reg_faults (apply_patch patch r) = reg_faults r"
  by (simp add: apply_patch_def)

lemma apply_patch_wf: "reg_wf r \<Longrightarrow> reg_wf (apply_patch patch r)"
  unfolding apply_patch_def by (intro store_if_wf reg_wf_store)

section \<open>What is printed reads back\<close>

lemma trim_word:
  assumes "is_ascii_alphanumeric c" and "is_ascii_alphanumeric d"
  shows "trim (c # cs @ [d]) = c # cs @ [d]"
proof -
  have ws: "list_all (\<lambda>p. p \<noteq> [] \<and> \<not> is_ascii_alphanumeric (hd p) \<and> \<not> is_ascii_alphanumeric (last p)) white_space"
    by code_simp
  have "strip_any (filter (\<lambda>p. p \<noteq> []) white_space) (c # cs @ [d]) = None"
    by (rule strip_any_None) (use ws assms in \<open>auto simp: list_all_iff\<close>)
  then have 1: "strip_all white_space (c # cs @ [d]) = c # cs @ [d]" by (rule strip_all_id)
  have "strip_any (filter (\<lambda>p. p \<noteq> []) (map rev white_space)) (d # rev (c # cs)) = None"
    by (rule strip_any_None) (use ws assms in \<open>fastforce simp: list_all_iff hd_rev\<close>)
  then have 2: "strip_all (map rev white_space) (d # rev (c # cs)) = d # rev (c # cs)" by (rule strip_all_id)
  show ?thesis using 1 2 by (simp add: trim_def trim_start_def trim_end_def)
qed

lemma trim_saved_words:
  "trim ''true'' = ''true''" "trim ''false'' = ''false''"
  "trim ''triggered-recognition'' = ''triggered-recognition''"
  "trim ''background-silent-recognition'' = ''background-silent-recognition''"
  using trim_word [of "CHR ''t''" "CHR ''e''" "''ru''"] trim_word [of "CHR ''f''" "CHR ''e''" "''als''"]
    trim_word [of "CHR ''t''" "CHR ''n''" "''riggered-recognitio''"]
    trim_word [of "CHR ''b''" "CHR ''n''" "''ackground-silent-recognitio''"]
  by (simp_all add: is_ascii_alphanumeric_def is_ascii_digit_def)

lemma saved_bool:
  "takeWhile (\<lambda>c. c \<noteq> CHR 0x00) (bool_registry_value b) = bool_registry_value b"
  "parse_registry_bool (bool_registry_value b) = Some b"
  "parse_service_bool (bool_registry_value b) = Some b"
  "bool_from_config_value (bool_registry_value b) = b"
  by (cases b; simp add: bool_registry_value_def parse_registry_bool_def parse_service_bool_def
      bool_from_config_value_def trim_saved_words to_ascii_lowercase_def ascii_lower_def)+

lemma saved_wake_mode:
  "takeWhile (\<lambda>c. c \<noteq> CHR 0x00) (logon_wake_mode_registry_value m) = logon_wake_mode_registry_value m"
  "parse_logon_wake_mode (logon_wake_mode_registry_value m) = Some m"
  "logon_wake_mode_from_config_value (logon_wake_mode_registry_value m) = Some m"
  by (cases m; simp add: logon_wake_mode_registry_value_def parse_logon_wake_mode_def wake_mode_names
      logon_wake_mode_from_config_value_def trim_saved_words triggered_names_def background_names_def)+

lemma digit_not_null: "is_ascii_digit c \<Longrightarrow> c \<noteq> CHR 0x00"
  by (auto simp: is_ascii_digit_def)

lemma decimal_no_null: "CHR 0x00 \<notin> set (decimal n)"
  using decimal_digits [of n] digit_not_null by (auto simp: list_all_iff)

lemma digit_char_no_null: "k < 10 \<Longrightarrow> digit_char k \<noteq> CHR 0x00"
  using digit_is_digit digit_not_null by blast

lemma saved_threshold_text:
  "takeWhile (\<lambda>c. c \<noteq> CHR 0x00) (format_3 t) = format_3 t"
proof -
  have "CHR 0x00 \<notin> set (format_3 t)"
    using digit_char_no_null [of "thousandths t div 100 mod 10"] digit_char_no_null [of "thousandths t div 10 mod 10"]
      digit_char_no_null [of "thousandths t mod 10"]
    by (simp add: format_3_def decimal_no_null eq_commute [of "CHR 0x00"])
  then show ?thesis by (auto simp: takeWhile_eq_all_conv)
qed

section \<open>Loading and updating without faults\<close>

lemma settings_quiet:
  assumes "reg_faults r = []"
  shows "read_setting path name r = (r, Inr (stored_text r path name))"
    "write_setting path name value r = (store_text path name value r, Inr ())"
  using assms by (simp_all add: read_setting_def write_setting_def map_err_def read_quiet write_quiet)

lemma load_settings_quiet:
  assumes "reg_faults r = []"
  shows "load_control_settings r = (r, Inr (settings_view r))"
  using assms
  by (cases "Option.bind (stored_text r provider_root_registry_path reg_value_logon_wake_mode) parse_logon_wake_mode")
     (simp_all add: load_control_settings_def settings_view_def sbind_def sret_def settings_quiet
        read_presence_lock_enabled_def read_intruder_snap_enabled_def read_logon_wake_mode_def
        read_auto_wake_on_advise_def read_logon_face_match_threshold_def attempt_def read_wake_mode_def
        read_intruder_similarity_threshold_def load_intruder_snap_enabled_def Let_def)

lemma when_some_quiet:
  assumes "\<And>x. v = Some x \<Longrightarrow> f x r = (g x r, Inr ())"
  shows "when_some v f r = (store_if v g r, Inr ())"
  using assms by (cases v) (simp_all add: when_some_def store_if_def sret_def)

lemma valid_thresholds:
  assumes "has_valid_values patch"
  shows "logon_face_match_threshold patch = Some t \<Longrightarrow> is_valid_logon_face_match_threshold t"
    "control_settings_patch.intruder_similarity_threshold patch = Some t \<Longrightarrow> is_valid_intruder_similarity_threshold t"
  using assms by (simp_all add: has_valid_values_def threshold_in_def is_valid_logon_face_match_threshold_def
      is_valid_intruder_similarity_threshold_def)

lemma update_quiet:
  assumes q: "reg_faults r = []" and v: "has_valid_values patch"
  shows "update_control_settings patch r = (apply_patch patch r, Inr (settings_view (apply_patch patch r)))"
proof -
  define r1 where "r1 = store_if (presence_lock_enabled patch)
       (\<lambda>b. store_text service_config_registry_path reg_presence_lock_enabled (bool_registry_value b)) r"
  define r2 where "r2 = store_if (intruder_snap_enabled patch)
       (\<lambda>b. store_text service_config_registry_path reg_intruder_snap_enabled (bool_registry_value b)) r1"
  define r3 where "r3 = store_if (logon_wake_mode patch)
       (\<lambda>m r. store_text provider_root_registry_path reg_value_auto_wake_on_advise (bool_registry_value True)
               (store_text provider_root_registry_path reg_value_logon_wake_mode
                 (logon_wake_mode_registry_value m) r)) r2"
  define r4 where "r4 = store_if (logon_face_match_threshold patch)
       (\<lambda>t. store_text service_config_registry_path reg_match_threshold (format_3 t)) r3"
  have q1: "reg_faults r1 = []" and q2: "reg_faults r2 = []" and q3: "reg_faults r3 = []" and q4: "reg_faults r4 = []"
    using q by (simp_all add: r1_def r2_def r3_def r4_def)
  have w1: "when_some (presence_lock_enabled patch) write_presence_lock_enabled r = (r1, Inr ())"
    unfolding r1_def by (rule when_some_quiet) (simp add: write_presence_lock_enabled_def settings_quiet q)
  have w2: "when_some (intruder_snap_enabled patch) write_intruder_snap_enabled r1 = (r2, Inr ())"
    unfolding r2_def by (rule when_some_quiet) (simp add: write_intruder_snap_enabled_def settings_quiet q1)
  have w3: "when_some (logon_wake_mode patch) write_logon_wake_mode r2 = (r3, Inr ())"
    unfolding r3_def by (rule when_some_quiet) (simp add: write_logon_wake_mode_def sbind_def settings_quiet q2)
  have w4: "when_some (logon_face_match_threshold patch) (\<lambda>t.
      if \<not> is_valid_logon_face_match_threshold t
      then sfail (SettingsPersistenceFailedError ''logon face match threshold must be between 0.30 and 0.90'')
      else write_logon_face_match_threshold t) r3 = (r4, Inr ())"
    unfolding r4_def by (rule when_some_quiet)
      (simp add: valid_thresholds(1) [OF v] write_logon_face_match_threshold_def settings_quiet q3)
  have w5: "when_some (control_settings_patch.intruder_similarity_threshold patch) (\<lambda>t.
      if \<not> is_valid_intruder_similarity_threshold t
      then sfail (SettingsPersistenceFailedError ''intruder similarity threshold must be between 0.10 and 0.60'')
      else write_intruder_similarity_threshold t) r4 = (apply_patch patch r, Inr ())"
    unfolding apply_patch_def r1_def [symmetric] r2_def [symmetric] r3_def [symmetric] r4_def [symmetric]
    by (rule when_some_quiet)
      (simp add: valid_thresholds(2) [OF v] write_intruder_similarity_threshold_def settings_quiet q4)
  show ?thesis
    unfolding update_control_settings_def
    by (simp only: sbind_def w1 w2 w3 w4 w5 prod.case sum.case load_settings_quiet apply_patch_quiet q)
qed

text \<open>The names are distinct, and so are the two keys.\<close>

lemma setting_names_distinct [simp]:
  "reg_match_threshold \<noteq> reg_presence_lock_enabled" "reg_presence_lock_enabled \<noteq> reg_match_threshold"
  "reg_match_threshold \<noteq> reg_intruder_snap_enabled" "reg_intruder_snap_enabled \<noteq> reg_match_threshold"
  "reg_match_threshold \<noteq> reg_intruder_similarity_threshold" "reg_intruder_similarity_threshold \<noteq> reg_match_threshold"
  "reg_presence_lock_enabled \<noteq> reg_intruder_snap_enabled" "reg_intruder_snap_enabled \<noteq> reg_presence_lock_enabled"
  "reg_presence_lock_enabled \<noteq> reg_intruder_similarity_threshold"
  "reg_intruder_similarity_threshold \<noteq> reg_presence_lock_enabled"
  "reg_intruder_snap_enabled \<noteq> reg_intruder_similarity_threshold"
  "reg_intruder_similarity_threshold \<noteq> reg_intruder_snap_enabled"
  "reg_value_auto_wake_on_advise \<noteq> reg_value_logon_wake_mode" "reg_value_logon_wake_mode \<noteq> reg_value_auto_wake_on_advise"
  "service_config_registry_path \<noteq> provider_root_registry_path" "provider_root_registry_path \<noteq> service_config_registry_path"
  by (simp_all add: registry_names)

lemma stored_after_patch:
  assumes "reg_wf r"
  shows "stored_text (apply_patch patch r) service_config_registry_path reg_presence_lock_enabled =
      (case presence_lock_enabled patch of Some b \<Rightarrow> Some (bool_registry_value b)
       | None \<Rightarrow> stored_text r service_config_registry_path reg_presence_lock_enabled)"
    "stored_text (apply_patch patch r) service_config_registry_path reg_intruder_snap_enabled =
      (case intruder_snap_enabled patch of Some b \<Rightarrow> Some (bool_registry_value b)
       | None \<Rightarrow> stored_text r service_config_registry_path reg_intruder_snap_enabled)"
    "stored_text (apply_patch patch r) service_config_registry_path reg_match_threshold =
      (case logon_face_match_threshold patch of Some t \<Rightarrow> Some (format_3 t)
       | None \<Rightarrow> stored_text r service_config_registry_path reg_match_threshold)"
    "stored_text (apply_patch patch r) service_config_registry_path reg_intruder_similarity_threshold =
      (case control_settings_patch.intruder_similarity_threshold patch of Some t \<Rightarrow> Some (format_3 t)
       | None \<Rightarrow> stored_text r service_config_registry_path reg_intruder_similarity_threshold)"
    "stored_text (apply_patch patch r) provider_root_registry_path reg_value_logon_wake_mode =
      (case logon_wake_mode patch of Some m \<Rightarrow> Some (logon_wake_mode_registry_value m)
       | None \<Rightarrow> stored_text r provider_root_registry_path reg_value_logon_wake_mode)"
    "stored_text (apply_patch patch r) provider_root_registry_path reg_value_auto_wake_on_advise =
      (case logon_wake_mode patch of Some m \<Rightarrow> Some (bool_registry_value True)
       | None \<Rightarrow> stored_text r provider_root_registry_path reg_value_auto_wake_on_advise)"
  using assms
  by (simp_all add: apply_patch_def stored_store_if stored_store store_if_wf saved_bool(1)
      saved_wake_mode(1) saved_threshold_text split: option.split)

lemma view_after_patch:
  assumes "reg_wf r" and "has_valid_values patch"
  shows "settings_view (apply_patch patch r) = patched patch (settings_view r)"
  using valid_thresholds [OF assms(2)] stored_face_threshold stored_intruder_threshold
  by (auto simp: settings_view_def patched_def stored_after_patch [OF assms(1)] Let_def saved_bool
      saved_wake_mode parse_logon_face_match_threshold_def parse_intruder_similarity_threshold_def
      split: option.split)

section \<open>The readers of the service\<close>

lemma service_read_quiet:
  assumes "reg_faults r = []"
  shows "service_read_string_value path name r = (r, stored_text r path name)"
  using assms
  by (cases "reg_values r (path, name)")
     (auto simp: service_read_string_value_def reg_call_quiet stored_text_def split: reg_value.splits)

lemma process_lookup_quiet:
  assumes "reg_faults r = []" and "env_vars p name = None" and "registry_value_name name = Some n"
  shows "process_lookup p name r = (r, stored_text r service_config_registry_path n)"
  using assms by (simp add: process_lookup_def registry_value_for_env_name_def service_read_quiet)

lemma setting_registry_names:
  "registry_value_name env_match_threshold = Some reg_match_threshold"
  "registry_value_name env_presence_lock_enabled = Some reg_presence_lock_enabled"
  "registry_value_name env_intruder_similarity_threshold = Some reg_intruder_similarity_threshold"
  by (simp_all add: registry_value_name_def config_names_def env_names)

lemma looked_up_quiet:
  "look name s = (s1, v) \<Longrightarrow> looked_up look name f s = (s1, f v)"
  by (simp add: looked_up_def)

text \<open>The text of a saved threshold has nothing around it to trim.\<close>

lemma saved_threshold_untrimmed:
  assumes "f32_is_finite t" and "\<not> f32_negative t"
  shows "trim (format_3 t) = format_3 t"
proof -
  obtain c cs where c: "decimal (thousandths t div 1000) = c # cs"
    by (cases "decimal (thousandths t div 1000)") auto
  then have "is_ascii_digit c" using decimal_digits [of "thousandths t div 1000"] by simp
  moreover have "is_ascii_digit (digit_char (thousandths t mod 10))" by (rule digit_is_digit) simp
  ultimately show ?thesis
    using trim_digits [of c "digit_char (thousandths t mod 10)"
        "cs @ ''.'' @ [digit_char (thousandths t div 100 mod 10), digit_char (thousandths t div 10 mod 10)]"]
    by (simp add: format_3_digits [OF assms] c)
qed

lemma valid_threshold_positive:
  "is_valid_logon_face_match_threshold t \<Longrightarrow> f32_is_finite t \<and> \<not> f32_negative t"
  "is_valid_intruder_similarity_threshold t \<Longrightarrow> f32_is_finite t \<and> \<not> f32_negative t"
  using threshold_positive [of 300 t] threshold_positive [of 100 t]
  by (simp_all add: is_valid_logon_face_match_threshold_def is_valid_intruder_similarity_threshold_def setting_bounds)

lemma saved_threshold_parses:
  "is_valid_logon_face_match_threshold t \<Longrightarrow> parse_f32 (format_3 t) = Some (stored_threshold t)"
  "is_valid_intruder_similarity_threshold t \<Longrightarrow> parse_f32 (format_3 t) = Some (stored_threshold t)"
  using stored_face_threshold(2) [of t] stored_intruder_threshold(2) [of t] valid_threshold_positive [of t]
    saved_threshold_untrimmed [of t] by simp_all

section \<open>Which registry a configuration comes from\<close>

text \<open>Reading a configuration changes no value of the registry.\<close>

lemma service_read_fst: "same_store r (fst (service_read_string_value path name r))"
  by (auto simp: service_read_string_value_def same_store_def reg_call_def
      split: list.splits option.splits reg_value.splits)

lemma same_store_trans: "same_store r0 r1 \<Longrightarrow> same_store r1 r2 \<Longrightarrow> same_store r0 r2"
  by (simp add: same_store_def)

lemma keeps_process_lookup: "keeps (same_store r0) (process_lookup p name)"
  using service_read_fst same_store_trans
  by (auto simp: keeps_def process_lookup_def registry_value_for_env_name_def split: option.splits)

lemma keeps_persisted_lookup:
  "keeps P (look name) \<Longrightarrow> keeps P (persisted_lookup permission camera look name)"
  by (auto simp: keeps_def persisted_lookup_def)

lemma keeps_looked_up: "keeps P (look name) \<Longrightarrow> keeps P (looked_up look name f)"
  by (auto simp: keeps_def looked_up_def split: prod.splits)

lemma keeps_or_default: "keeps P m \<Longrightarrow> keeps P (or_default d m)"
  unfolding or_default_def by (intro keeps_intros) (auto intro: keeps_intros)

lemma keeps_auth_from_lookup:
  assumes "\<And>name. keeps P (look name)"
  shows "keeps P (auth_from_lookup look)"
  unfolding auth_from_lookup_def local_camera_from_lookup_def optional_u32_def optional_f32_def
    optional_bool_def optional_path_or_default_def required_path_def
  by (intro keeps_intros keeps_or_default keeps_looked_up assms)

lemma keeps_load_snap: "keeps (same_store r0) load_intruder_snap_enabled"
  unfolding load_intruder_snap_enabled_def read_intruder_snap_enabled_def read_setting_def
  by (intro keeps_intros)

lemma keeps_load_camera: "keeps (same_store r0) load_camera_id"
  unfolding load_camera_id_def by (intro keeps_intros)

lemma read_Some_stored:
  assumes "read_string_value path name r = (r1, Inr (Some t))"
  shows "stored_text r path name = Some t"
  using assms
  by (auto simp: read_string_value_def open_key_def stored_text_def sbind_def get_registry_def reg_call_def
      sret_def sfail_def split: list.splits if_splits option.splits reg_value.splits)

lemma same_store_text: "same_store r0 r \<Longrightarrow> stored_text r path name = stored_text r0 path name"
  by (simp add: stored_text_def same_store_def)

lemma resolve_binding_stored:
  assumes "resolve_persisted_camera_binding c camera resolve persist_camera_id r = (r1, Inr c1)"
    and "\<And>t. camera = Some t \<Longrightarrow> stored_text r service_config_registry_path reg_camera_id = Some t"
  shows "stored_text r1 service_config_registry_path reg_camera_id = Some (camera_id_text c1)"
    "camera_is_stable c \<Longrightarrow> c1 = c"
proof -
  let ?resolved = "if camera_is_stable c then Inr c else resolve c"
  have valid: "validate_camera_id c = Inr ()" and res: "?resolved = Inr c1"
    and rest: "(if camera \<noteq> Some (camera_id_text c1) then sbind (persist_camera_id c1) (\<lambda>_. sret c1) else sret c1) r
      = (r1, Inr c1)"
    using assms(1) by (auto simp: resolve_persisted_camera_binding_def sbind_Inr_iff split: sum.splits if_splits)
  show "camera_is_stable c \<Longrightarrow> c1 = c" using res by simp
  show "stored_text r1 service_config_registry_path reg_camera_id = Some (camera_id_text c1)"
  proof (cases "camera = Some (camera_id_text c1)")
    case True
    then show ?thesis using rest assms(2) by simp
  next
    case False
    then have w: "CHR 0x00 \<notin> set (camera_id_text c1)"
      "write_string_value service_config_registry_path reg_camera_id (camera_id_text c1) r = (r1, Inr ())"
      using rest by (auto simp: persist_camera_id_def sbind_Inr_iff map_err_Inr_iff split: if_splits)
    then have "takeWhile (\<lambda>c. c \<noteq> CHR 0x00) (camera_id_text c1) = camera_id_text c1"
      by (auto simp: takeWhile_eq_all_conv)
    then show ?thesis using write_done [OF w(2)] by (simp add: stored_text_def)
  qed
qed

text \<open>A configuration for the camera, step by step.\<close>

lemma auth_from_environment_steps:
  assumes "auth_from_environment p r = (r1, Inr (LocalCameraConfig c))"
  obtains permission camera ra rb rc mode0 c0 where
    "load_intruder_snap_enabled r = (ra, Inr permission)"
    "load_camera_id ra = (rb, Inr camera)"
    "from_persisted_settings permission camera (process_lookup p) rb = (rc, Inr mode0)"
    "(case current_exe_dir p of Some dir \<Rightarrow> auth_resolve_paths dir mode0 | None \<Rightarrow> mode0) = LocalCameraConfig c0"
    "resolve_persisted_camera_binding (lca_camera_id c0) camera (resolve_device p) persist_camera_id rc
       = (r1, Inr (lca_camera_id c))"
    "c = c0\<lparr>lca_camera_id := lca_camera_id c\<rparr>"
proof -
  obtain permission camera ra rb rc mode0 where
    st: "load_intruder_snap_enabled r = (ra, Inr permission)" "load_camera_id ra = (rb, Inr camera)"
      "from_persisted_settings permission camera (process_lookup p) rb = (rc, Inr mode0)"
    and fin: "bind_camera p camera (case current_exe_dir p of Some dir \<Rightarrow> auth_resolve_paths dir mode0 | None \<Rightarrow> mode0) rc
        = (r1, Inr (LocalCameraConfig c))"
    using assms by (auto simp: auth_from_environment_def sbind_Inr_iff map_err_Inr_iff)
  obtain c0 where c0: "(case current_exe_dir p of Some dir \<Rightarrow> auth_resolve_paths dir mode0 | None \<Rightarrow> mode0) = LocalCameraConfig c0"
    using fin unfolding bind_camera_def by (auto split: configured_auth_mode.splits)
  then have b: "resolve_persisted_camera_binding (lca_camera_id c0) camera (resolve_device p) persist_camera_id rc
       = (r1, Inr (lca_camera_id c))" "c = c0\<lparr>lca_camera_id := lca_camera_id c\<rparr>"
    using fin by (auto simp: bind_camera_def split: prod.splits sum.splits)
  show thesis by (rule that [OF st c0 b])
qed

text \<open>Resolving the paths leaves everything else.\<close>

lemma resolved_paths_fields:
  assumes "(case d of Some dir \<Rightarrow> auth_resolve_paths dir mode0 | None \<Rightarrow> mode0) = LocalCameraConfig c0"
  obtains c where "mode0 = LocalCameraConfig c" "lca_camera_id c0 = lca_camera_id c"
    "lca_intruder_snap_enabled c0 = lca_intruder_snap_enabled c" "lca_match_threshold c0 = lca_match_threshold c"
  using assms by (cases d; cases mode0) (auto simp: auth_resolve_paths_def)

text \<open>The fields of a configuration and the names they are looked up by.\<close>

lemma looked_up_InrD:
  "looked_up look name f s = (s1, Inr x) \<Longrightarrow> \<exists>v. look name s = (s1, v) \<and> f v = Inr x"
  by (auto simp: looked_up_def split: prod.splits)

lemma local_camera_fields:
  assumes "local_camera_from_lookup look s = (s1, Inr c)"
  shows "\<exists>sa sb v. optional_bool look env_intruder_snap_enabled sa = (sb, Inr v) \<and>
      lca_intruder_snap_enabled c = (case v of Some b \<Rightarrow> b | None \<Rightarrow> False)"
    and "\<exists>sa sb v. look env_camera_id sa = (sb, v) \<and>
      lca_camera_id c = (case v of Some t \<Rightarrow> CameraId t | None \<Rightarrow> camera_from_index 0)"
    and "\<exists>sa sb v. optional_f32 look env_match_threshold sa = (sb, Inr v) \<and>
      lca_match_threshold c = (case v of Some t \<Rightarrow> t | None \<Rightarrow> f32_lit 65 100)"
  using assms
  unfolding local_camera_from_lookup_def sbind_Inr_iff or_default_def sret_iff
  apply -
  subgoal by (elim exE conjE) (intro exI conjI, assumption, simp)
  subgoal by (elim exE conjE, drule looked_up_InrD [where name = env_camera_id], elim exE conjE)
    (intro exI conjI, assumption, simp)
  subgoal by (elim exE conjE) (intro exI conjI, assumption, simp)
  done

lemma from_persisted_fields:
  assumes "from_persisted_settings permission camera look s = (s1, Inr (LocalCameraConfig c))"
  shows "lca_intruder_snap_enabled c = permission"
    "camera = Some t \<Longrightarrow> lca_camera_id c = CameraId t"
    "\<exists>sa sb v. optional_f32 (persisted_lookup permission camera look) env_match_threshold sa = (sb, Inr v) \<and>
      lca_match_threshold c = (case v of Some t \<Rightarrow> t | None \<Rightarrow> f32_lit 65 100)"
proof -
  obtain s0 where l: "local_camera_from_lookup (persisted_lookup permission camera look) s0 = (s1, Inr c)"
    using assms by (auto simp: from_persisted_settings_def auth_from_lookup_def sbind_Inr_iff split: if_splits)
  have b: "parse_service_bool (if permission then ''true'' else ''false'') = Some permission"
    using saved_bool(3) [of permission] by (simp add: bool_registry_value_def)
  show "lca_intruder_snap_enabled c = permission"
    using local_camera_fields(1) [OF l] b
    by (auto simp: optional_bool_def looked_up_def persisted_lookup_def optional_value_def)
  have "env_camera_id \<noteq> env_intruder_snap_enabled" by (simp add: env_names)
  then show "camera = Some t \<Longrightarrow> lca_camera_id c = CameraId t"
    using local_camera_fields(2) [OF l] by (auto simp: persisted_lookup_def)
  show "\<exists>sa sb v. optional_f32 (persisted_lookup permission camera look) env_match_threshold sa = (sb, Inr v) \<and>
      lca_match_threshold c = (case v of Some t \<Rightarrow> t | None \<Rightarrow> f32_lit 65 100)"
    by (rule local_camera_fields(3) [OF l])
qed

end
