(* ===== verification/Settings_Properties.thy ===== *)
theory Settings_Properties
  imports Config_Properties
begin

text \<open>
  The properties of the settings and of the configuration of the service: what an update does, that
  every program reads what was saved, where the permission for snapshots and the identity of the camera
  come from, and where the readers differ.
\<close>

definition empty_registry :: config_registry where
  "empty_registry = \<lparr>reg_keys = {}, reg_values = Map.empty, reg_faults = []\<rparr>"

definition sample_patch :: control_settings_patch where
  "sample_patch =
     \<lparr>presence_lock_enabled = Some True, intruder_snap_enabled = Some False,
      logon_wake_mode = Some BackgroundSilentRecognition,
      logon_face_match_threshold = Some (F32 0x3F266666), intruder_similarity_threshold = None\<rparr>"

lemma empty_registry_wf: "reg_wf empty_registry" "reg_faults empty_registry = []"
  by (simp_all add: empty_registry_def reg_wf_def)

lemma sample_patch_valid: "has_valid_values sample_patch"
  by (simp add: has_valid_values_def sample_patch_def threshold_in_def f32_is_finite_def f32_le_def f32_is_nan_def
      f32_magnitude_def f32_key_def f32_negative_def min_logon_face_match_threshold_def
      max_logon_face_match_threshold_def)

text \<open>C14: updating the settings is an update of what the settings are seen to be: on a registry without
  failures, a valid patch is accepted, the answer is the settings with exactly the patched fields
  changed, and so is every later reading. Thresholds take the value of their nearest thousandth, which
  is itself valid and is not changed by being saved again.\<close>

theorem settings_update_refines:
  assumes "reg_wf r" and "reg_faults r = []" and "has_valid_values patch"
  shows "\<exists>r1. update_control_settings patch r = (r1, Inr (patched patch (settings_view r))) \<and>
      load_control_settings r1 = (r1, Inr (patched patch (settings_view r))) \<and> reg_wf r1 \<and> reg_faults r1 = [] \<and>
      (\<forall>t. logon_face_match_threshold patch = Some t \<longrightarrow>
         is_valid_logon_face_match_threshold (stored_threshold t) \<and>
         stored_threshold (stored_threshold t) = stored_threshold t)"
proof (intro exI conjI)
  have q: "reg_faults (apply_patch patch r) = []" using assms(2) by (simp add: apply_patch_quiet)
  show "update_control_settings patch r = (apply_patch patch r, Inr (patched patch (settings_view r)))"
    using update_quiet [OF assms(2,3)] view_after_patch [OF assms(1,3)] by simp
  show "load_control_settings (apply_patch patch r) = (apply_patch patch r, Inr (patched patch (settings_view r)))"
    using load_settings_quiet [OF q] view_after_patch [OF assms(1,3)] by simp
  show "reg_wf (apply_patch patch r)" "reg_faults (apply_patch patch r) = []"
    using apply_patch_wf [OF assms(1)] q by simp_all
  show "\<forall>t. logon_face_match_threshold patch = Some t \<longrightarrow>
      is_valid_logon_face_match_threshold (stored_threshold t) \<and> stored_threshold (stored_threshold t) = stored_threshold t"
    using valid_thresholds(1) [OF assms(3)] stored_face_threshold by blast
qed

theorem settings_update_refines_witness:
  "\<exists>r1. update_control_settings sample_patch empty_registry =
     (r1, Inr (patched sample_patch (settings_view empty_registry)))"
  using settings_update_refines [OF empty_registry_wf sample_patch_valid] by blast

text \<open>One reader after the other.\<close>

lemma saved_settings_read_back:
  assumes wf: "reg_wf r" and q: "reg_faults r = []" and v: "has_valid_values patch"
    and up: "update_control_settings patch r = (r1, Inr shown)"
    and env: "env_vars p env_match_threshold = None" "env_vars p env_presence_lock_enabled = None"
      "env_vars p env_intruder_similarity_threshold = None"
  shows "logon_face_match_threshold patch = Some t \<Longrightarrow>
      optional_f32 (process_lookup p) env_match_threshold r1 = (r1, Inr (Some (snap_logon_face_match_threshold shown)))"
    and "control_settings_patch.intruder_similarity_threshold patch = Some t \<Longrightarrow>
      optional_f32 (process_lookup p) env_intruder_similarity_threshold r1 =
        (r1, Inr (Some (snap_intruder_similarity_threshold shown)))"
    and "presence_lock_enabled patch = Some b \<Longrightarrow>
      optional_bool (process_lookup p) env_presence_lock_enabled r1 = (r1, Inr (Some b)) \<and>
      snap_presence_lock_enabled shown = b"
    and "logon_wake_mode patch = Some m \<Longrightarrow>
      config_logon_wake_mode (snd (provider_config_from_registry r1)) = Some m \<and>
      config_auto_wake_on_advise (snd (provider_config_from_registry r1)) \<and> snap_logon_wake_mode shown = Some m"
proof -
  have r1: "r1 = apply_patch patch r" and sh: "shown = patched patch (settings_view r)"
    using up update_quiet [OF q v] view_after_patch [OF wf v] by simp_all
  have q1: "reg_faults r1 = []" using q by (simp add: r1 apply_patch_quiet)
  note look = looked_up_def process_lookup_quiet [OF q1 env(1) setting_registry_names(1)]
    process_lookup_quiet [OF q1 env(2) setting_registry_names(2)]
    process_lookup_quiet [OF q1 env(3) setting_registry_names(3)]
  show "optional_f32 (process_lookup p) env_match_threshold r1 = (r1, Inr (Some (snap_logon_face_match_threshold shown)))"
    if "logon_face_match_threshold patch = Some t"
    using that stored_after_patch [OF wf, of patch] valid_thresholds(1) [OF v] saved_threshold_parses(1)
    by (simp add: optional_f32_def look sh patched_def r1 [symmetric] optional_value_def)
  show "optional_f32 (process_lookup p) env_intruder_similarity_threshold r1 =
      (r1, Inr (Some (snap_intruder_similarity_threshold shown)))"
    if "control_settings_patch.intruder_similarity_threshold patch = Some t"
    using that stored_after_patch [OF wf, of patch] valid_thresholds(2) [OF v] saved_threshold_parses(2)
    by (simp add: optional_f32_def look sh patched_def r1 [symmetric] optional_value_def)
  show "optional_bool (process_lookup p) env_presence_lock_enabled r1 = (r1, Inr (Some b)) \<and>
      snap_presence_lock_enabled shown = b"
    if "presence_lock_enabled patch = Some b"
    using that stored_after_patch [OF wf, of patch]
    by (simp add: optional_bool_def look sh patched_def r1 [symmetric] optional_value_def saved_bool)
  show "config_logon_wake_mode (snd (provider_config_from_registry r1)) = Some m \<and>
      config_auto_wake_on_advise (snd (provider_config_from_registry r1)) \<and> snap_logon_wake_mode shown = Some m"
    if "logon_wake_mode patch = Some m"
    using that stored_after_patch [OF wf, of patch]
    by (simp add: provider_config_quiet [OF q1] sh patched_def r1 [symmetric] saved_bool saved_wake_mode)
qed

text \<open>C23: what the control application saves is what its readers read. After an update the service, with
  no variable of its environment in the way, reads the thresholds and the presence lock as the answer
  showed them, and the credential provider reads the wake mode that was saved, with waking on advise
  enabled. Each of the three programs has a parser of its own.\<close>

theorem saved_settings_reach_their_readers:
  assumes "reg_wf r" and "reg_faults r = []" and "has_valid_values patch"
    and "update_control_settings patch r = (r1, Inr shown)"
    and "env_vars p env_match_threshold = None" and "env_vars p env_presence_lock_enabled = None"
    and "env_vars p env_intruder_similarity_threshold = None"
  shows "(logon_face_match_threshold patch \<noteq> None \<longrightarrow>
      optional_f32 (process_lookup p) env_match_threshold r1 =
        (r1, Inr (Some (snap_logon_face_match_threshold shown)))) \<and>
    (control_settings_patch.intruder_similarity_threshold patch \<noteq> None \<longrightarrow>
      optional_f32 (process_lookup p) env_intruder_similarity_threshold r1 =
        (r1, Inr (Some (snap_intruder_similarity_threshold shown)))) \<and>
    (\<forall>b. presence_lock_enabled patch = Some b \<longrightarrow>
      optional_bool (process_lookup p) env_presence_lock_enabled r1 = (r1, Inr (Some b)) \<and>
      snap_presence_lock_enabled shown = b) \<and>
    (\<forall>m. logon_wake_mode patch = Some m \<longrightarrow>
      config_logon_wake_mode (snd (provider_config_from_registry r1)) = Some m \<and>
      config_auto_wake_on_advise (snd (provider_config_from_registry r1)) \<and> snap_logon_wake_mode shown = Some m)"
  using saved_settings_read_back [OF assms] by blast

definition plain_process :: service_process where
  "plain_process =
     \<lparr>env_vars = (\<lambda>_. None), current_exe_dir = None, resolve_device = (\<lambda>c. Inl CameraNotFound)\<rparr>"

theorem saved_settings_reach_their_readers_witness:
  "\<exists>r1. update_control_settings sample_patch empty_registry = (r1, Inr (patched sample_patch (settings_view empty_registry))) \<and>
     optional_bool (process_lookup plain_process) env_presence_lock_enabled r1 = (r1, Inr (Some True)) \<and>
     config_logon_wake_mode (snd (provider_config_from_registry r1)) = Some BackgroundSilentRecognition"
proof (intro exI conjI)
  let ?r1 = "apply_patch sample_patch empty_registry"
  have up: "update_control_settings sample_patch empty_registry =
      (?r1, Inr (patched sample_patch (settings_view empty_registry)))"
    using update_quiet [OF empty_registry_wf(2) sample_patch_valid]
      view_after_patch [OF empty_registry_wf(1) sample_patch_valid] by simp
  have env: "env_vars plain_process n = None" for n by (simp add: plain_process_def)
  have fields: "presence_lock_enabled sample_patch = Some True"
    "logon_wake_mode sample_patch = Some BackgroundSilentRecognition" by (simp_all add: sample_patch_def)
  note reach = saved_settings_reach_their_readers [OF empty_registry_wf sample_patch_valid up env env env]
  show "update_control_settings sample_patch empty_registry =
      (?r1, Inr (patched sample_patch (settings_view empty_registry)))" by (rule up)
  show "optional_bool (process_lookup plain_process) env_presence_lock_enabled ?r1 = (?r1, Inr (Some True))"
    using reach fields by blast
  show "config_logon_wake_mode (snd (provider_config_from_registry ?r1)) = Some BackgroundSilentRecognition"
    using reach fields by blast
qed

text \<open>C15: the permission to take pictures of intruders is the persisted one: whatever the environment of the
  process says and whichever calls of the registry fail, a configuration for the camera carries the
  permission that was read from the registry at that moment.\<close>

theorem snapshot_permission_is_persisted:
  assumes "auth_from_environment p r = (r1, Inr (LocalCameraConfig c))"
  shows "snd (load_intruder_snap_enabled r) = Inr (lca_intruder_snap_enabled c)"
proof -
  obtain permission camera ra rb rc mode0 c0 where
    st: "load_intruder_snap_enabled r = (ra, Inr permission)"
      "from_persisted_settings permission camera (process_lookup p) rb = (rc, Inr mode0)"
    and paths: "(case current_exe_dir p of Some dir \<Rightarrow> auth_resolve_paths dir mode0 | None \<Rightarrow> mode0) = LocalCameraConfig c0"
    and c: "c = c0\<lparr>lca_camera_id := lca_camera_id c\<rparr>"
    by (rule auth_from_environment_steps [OF assms]) blast
  obtain c1 where "mode0 = LocalCameraConfig c1" "lca_intruder_snap_enabled c0 = lca_intruder_snap_enabled c1"
    by (rule resolved_paths_fields [OF paths]) blast
  moreover have "lca_intruder_snap_enabled c = lca_intruder_snap_enabled c0"
    by (subst c) simp
  ultimately show ?thesis using st from_persisted_fields(1) [of permission camera "process_lookup p" rb rc c1] by simp
qed

text \<open>A registry with a bound camera, and an environment that asks for snapshots and another camera.\<close>

definition bound_camera :: string where
  "bound_camera = device_id_prefix @ device_path_start @ ''usb#cam''"

definition registry_with_threshold :: "string option \<Rightarrow> config_registry" where
  "registry_with_threshold threshold =
     \<lparr>reg_keys = {service_config_registry_path},
      reg_values = (\<lambda>k.
        if k = (service_config_registry_path, reg_auth_mode) then Some (RegText ''local-camera'')
        else if k = (service_config_registry_path, reg_face_template_path) then Some (RegText ''t.json'')
        else if k = (service_config_registry_path, reg_camera_id) then Some (RegText bound_camera)
        else if k = (service_config_registry_path, reg_match_threshold) then map_option RegText threshold
        else None),
      reg_faults = []\<rparr>"

definition bound_registry :: config_registry where
  "bound_registry = registry_with_threshold None"

definition pushing_process :: service_process where
  "pushing_process = plain_process
     \<lparr>env_vars := [env_intruder_snap_enabled \<mapsto> ''true'', env_camera_id \<mapsto> ''opencv-index:3'']\<rparr>"

lemma process_lookup_value:
  assumes "reg_faults r = []"
  shows "process_lookup p name r =
     (r, case env_vars p name of Some v \<Rightarrow> Some v
         | None \<Rightarrow> (case registry_value_name name of None \<Rightarrow> None
                   | Some n \<Rightarrow> stored_text r service_config_registry_path n))"
  using assms by (simp add: process_lookup_def registry_value_for_env_name_def service_read_quiet
      split: option.split)

lemmas bare_registry_names = service_registry_names reg_match_threshold_def reg_presence_lock_enabled_def
  reg_intruder_snap_enabled_def reg_intruder_similarity_threshold_def

lemma bound_no_faults [simp]: "reg_faults (registry_with_threshold mt) = []"
  by (simp add: registry_with_threshold_def)

text \<open>Thresholds of the samples: none, and one that is out of range.\<close>

definition sample_threshold :: "string option \<Rightarrow> bool" where
  "sample_threshold mt \<longleftrightarrow> mt = None \<or> mt = Some ''0.05''"

lemma bound_text:
  assumes "sample_threshold mt"
  shows "stored_text (registry_with_threshold mt) service_config_registry_path n =
   (if n = reg_auth_mode then Some ''local-camera'' else if n = reg_face_template_path then Some ''t.json''
    else if n = reg_camera_id then Some bound_camera else if n = reg_match_threshold then mt else None)"
proof -
  have "takeWhile (\<lambda>c. c \<noteq> CHR 0x00) bound_camera = bound_camera" by code_simp
  then show ?thesis
    using assms unfolding sample_threshold_def by (elim disjE) (simp_all add: stored_text_def registry_with_threshold_def)
qed

text \<open>The names a configuration looks up that the samples say nothing of.\<close>

definition unset_names :: "string list" where
  "unset_names =
     [env_frame_width, env_frame_height, env_yunet_model_path, env_sface_model_path, env_minifasnet_model_path,
      env_minifasnet_crop_scale, env_minifasnet_min_live_score, env_minifasnet_min_spoof_score,
      env_minifasnet_max_spoof_frame_ratio, env_max_auth_frames, env_required_consecutive,
      env_intruder_similarity_threshold]"

lemma unset_lookup:
  assumes "sample_threshold mt" and "n \<in> set unset_names"
  shows "process_lookup pushing_process n (registry_with_threshold mt) = (registry_with_threshold mt, None)"
  using assms(2)
  by (auto simp: process_lookup_value bound_text [OF assms(1)] pushing_process_def plain_process_def env_names
     registry_value_name_def config_names_def bare_registry_names unset_names_def)

lemma set_lookup:
  assumes "sample_threshold mt"
  shows "process_lookup pushing_process env_auth_mode (registry_with_threshold mt) =
      (registry_with_threshold mt, Some ''local-camera'')"
    "process_lookup pushing_process env_face_template_path (registry_with_threshold mt) =
      (registry_with_threshold mt, Some ''t.json'')"
    "process_lookup pushing_process env_match_threshold (registry_with_threshold mt) = (registry_with_threshold mt, mt)"
  by (simp_all add: process_lookup_value bound_text [OF assms] pushing_process_def plain_process_def env_names
     registry_value_name_def config_names_def bare_registry_names)

lemma env_apart:
  "list_all (\<lambda>n. n \<noteq> env_intruder_snap_enabled \<and> n \<noteq> env_camera_id)
     (env_auth_mode # env_face_template_path # env_match_threshold # unset_names)"
  by (simp add: env_names unset_names_def)

lemma sample_threshold_parses:
  "sample_threshold mt \<Longrightarrow> \<exists>u. optional_value parse_f32 mt = Inr u"
proof -
  have "parse_f32 ''0.05'' = Some (f32_round False (digits_value ''005'') 100)"
    by (simp add: parse_f32_def parse_decimal_def is_ascii_digit_def decimal_f32_def)
  then show "sample_threshold mt \<Longrightarrow> \<exists>u. optional_value parse_f32 mt = Inr u"
    by (auto simp: sample_threshold_def optional_value_def)
qed

lemma bound_mode:
  assumes "sample_threshold mt"
  shows "\<exists>c. from_persisted_settings False (Some bound_camera) (process_lookup pushing_process)
      (registry_with_threshold mt) = (registry_with_threshold mt, Inr (LocalCameraConfig c)) \<and>
     lca_camera_id c = CameraId bound_camera"
proof -
  have "env_camera_id \<noteq> env_intruder_snap_enabled" by (simp add: env_names)
  moreover have "parse_service_bool ''false'' = Some False" using saved_bool(3) [of False] by (simp add: bool_registry_value_def)
  moreover obtain u where "optional_value parse_f32 mt = Inr u" using sample_threshold_parses [OF assms] by blast
  ultimately show ?thesis
    using env_apart
    by (simp add: from_persisted_settings_def auth_from_lookup_def local_camera_from_lookup_def sbind_def
        looked_up_def persisted_lookup_def unset_lookup [OF assms] set_lookup [OF assms] unset_names_def
        optional_f32_def optional_u32_def optional_bool_def optional_path_or_default_def required_path_def
        or_default_def optional_value_def [of _ None] optional_value_def [of parse_service_bool] sret_def)
qed

lemma bound_camera_binding:
  "validate_camera_id (CameraId bound_camera) = Inr ()" "camera_is_stable (CameraId bound_camera)"
  by code_simp+

lemma bound_loads:
  assumes "sample_threshold mt"
  shows "load_intruder_snap_enabled (registry_with_threshold mt) = (registry_with_threshold mt, Inr False)"
    "load_camera_id (registry_with_threshold mt) = (registry_with_threshold mt, Inr (Some bound_camera))"
  by (simp_all add: load_intruder_snap_enabled_def read_intruder_snap_enabled_def settings_quiet sbind_def sret_def
      load_camera_id_def map_err_def read_quiet bound_text [OF assms] bare_registry_names)

lemma bound_run:
  assumes "sample_threshold mt"
  shows "\<exists>c. auth_from_environment pushing_process (registry_with_threshold mt) =
     (registry_with_threshold mt, Inr (LocalCameraConfig c))"
proof -
  obtain c where c: "from_persisted_settings False (Some bound_camera) (process_lookup pushing_process)
      (registry_with_threshold mt) = (registry_with_threshold mt, Inr (LocalCameraConfig c))"
    "lca_camera_id c = CameraId bound_camera"
    using bound_mode [OF assms] by blast
  have "current_exe_dir pushing_process = None" by (simp add: pushing_process_def plain_process_def)
  moreover have "bind_camera pushing_process (Some bound_camera) (LocalCameraConfig c) (registry_with_threshold mt) =
      (registry_with_threshold mt, Inr (LocalCameraConfig c))"
    using c(2) bound_camera_binding
    by (simp add: bind_camera_def resolve_persisted_camera_binding_def sret_def)
  ultimately show ?thesis
    by (simp add: auth_from_environment_def sbind_def map_err_def bound_loads [OF assms] c(1))
qed

lemma bound_registry_run:
  "\<exists>c. auth_from_environment pushing_process bound_registry = (bound_registry, Inr (LocalCameraConfig c))"
  "load_intruder_snap_enabled bound_registry = (bound_registry, Inr False)"
  "load_camera_id bound_registry = (bound_registry, Inr (Some bound_camera))"
  using bound_run [of None] bound_loads [of None] by (simp_all add: bound_registry_def sample_threshold_def)

theorem snapshot_permission_is_persisted_witness:
  "\<exists>c. auth_from_environment pushing_process bound_registry = (bound_registry, Inr (LocalCameraConfig c)) \<and>
     env_vars pushing_process env_intruder_snap_enabled = Some ''true'' \<and> \<not> lca_intruder_snap_enabled c"
proof -
  obtain c where c: "auth_from_environment pushing_process bound_registry = (bound_registry, Inr (LocalCameraConfig c))"
    using bound_registry_run(1) by blast
  have "snd (load_intruder_snap_enabled bound_registry) = Inr (lca_intruder_snap_enabled c)"
    by (rule snapshot_permission_is_persisted [OF c])
  moreover have "snd (load_intruder_snap_enabled bound_registry) = Inr False" by (simp add: bound_registry_run(2))
  ultimately show ?thesis using c by (auto simp: pushing_process_def env_names)
qed

text \<open>The camera in use is the one in the registry: after a configuration for the camera was made, the
  registry holds the identity it uses, so the next start finds the same one; and an identity of a device
  that was bound before is kept, whatever devices there are now and whatever the environment names.\<close>

theorem camera_in_use_is_persisted:
  assumes "auth_from_environment p r = (r1, Inr (LocalCameraConfig c))"
  shows "stored_text r1 service_config_registry_path reg_camera_id = Some (camera_id_text (lca_camera_id c))"
    and "snd (load_camera_id (fst (load_intruder_snap_enabled r))) = Inr (Some t) \<Longrightarrow> camera_is_stable (CameraId t) \<Longrightarrow>
      lca_camera_id c = CameraId t"
proof -
  obtain permission camera ra rb rc mode0 c0 where
    st: "load_intruder_snap_enabled r = (ra, Inr permission)" "load_camera_id ra = (rb, Inr camera)"
      "from_persisted_settings permission camera (process_lookup p) rb = (rc, Inr mode0)"
    and paths: "(case current_exe_dir p of Some dir \<Rightarrow> auth_resolve_paths dir mode0 | None \<Rightarrow> mode0) = LocalCameraConfig c0"
    and bind: "resolve_persisted_camera_binding (lca_camera_id c0) camera (resolve_device p) persist_camera_id rc
        = (r1, Inr (lca_camera_id c))"
    by (rule auth_from_environment_steps [OF assms]) blast
  obtain c1 where c1: "mode0 = LocalCameraConfig c1" "lca_camera_id c0 = lca_camera_id c1"
    by (rule resolved_paths_fields [OF paths]) blast
  have ab: "same_store ra rb" using keepsD [OF keeps_load_camera _ st(2)] by simp
  have bc: "same_store rb rc"
    using keepsD [OF keeps_auth_from_lookup [OF keeps_persisted_lookup [OF keeps_process_lookup]] _
        st(3) [unfolded from_persisted_settings_def]] by simp
  have stored: "stored_text rc service_config_registry_path reg_camera_id = Some u" if "camera = Some u" for u
  proof -
    have "read_string_value service_config_registry_path reg_camera_id ra = (rb, Inr (Some u))"
      using st(2) that by (simp add: load_camera_id_def map_err_Inr_iff)
    then have "stored_text ra service_config_registry_path reg_camera_id = Some u" by (rule read_Some_stored)
    then show ?thesis using same_store_text [OF ab] same_store_text [OF bc] by simp
  qed
  show "stored_text r1 service_config_registry_path reg_camera_id = Some (camera_id_text (lca_camera_id c))"
    by (rule resolve_binding_stored(1) [OF bind stored])
  show "lca_camera_id c = CameraId t"
    if "snd (load_camera_id (fst (load_intruder_snap_enabled r))) = Inr (Some t)" "camera_is_stable (CameraId t)"
  proof -
    have cam: "camera = Some t" using that(1) st by simp
    have "lca_camera_id c1 = CameraId t"
      by (rule from_persisted_fields(2) [OF st(3) [unfolded c1(1)] cam])
    then have "camera_is_stable (lca_camera_id c0)" using that(2) c1(2) by simp
    then show ?thesis
      using resolve_binding_stored(2) [OF bind stored] c1(2) \<open>lca_camera_id c1 = CameraId t\<close> by simp
  qed
qed

theorem camera_in_use_is_persisted_witness:
  "\<exists>c. auth_from_environment pushing_process bound_registry = (bound_registry, Inr (LocalCameraConfig c)) \<and>
     env_vars pushing_process env_camera_id = Some ''opencv-index:3'' \<and> lca_camera_id c = CameraId bound_camera"
proof -
  obtain c where c: "auth_from_environment pushing_process bound_registry = (bound_registry, Inr (LocalCameraConfig c))"
    using bound_registry_run(1) by blast
  have "lca_camera_id c = CameraId bound_camera"
    using camera_in_use_is_persisted(2) [OF c] bound_camera_binding(2) by (simp add: bound_registry_run)
  then show ?thesis using c by (auto simp: pushing_process_def env_names)
qed

text \<open>The readers do not agree on everything that may stand in the registry. The service's parser of
  switches accepts more words than the control application's (\<open>on\<close>, \<open>off\<close>), and it takes any number for
  the threshold.\<close>

lemma service_bool_wider:
  "parse_registry_bool t = Some b \<Longrightarrow> parse_service_bool t = Some b"
  by (auto simp: parse_registry_bool_def parse_service_bool_def Let_def split: if_splits)

lemma switch_on_differs: "parse_service_bool ''on'' = Some True" "parse_registry_bool ''on'' = None"
proof -
  have "trim ''on'' = ''on''" using trim_word [of "CHR ''o''" "CHR ''n''" "[]"]
    by (simp add: is_ascii_alphanumeric_def is_ascii_digit_def)
  then show "parse_service_bool ''on'' = Some True" "parse_registry_bool ''on'' = None"
    by (simp_all add: parse_service_bool_def parse_registry_bool_def to_ascii_lowercase_def ascii_lower_def)
qed

text \<open>With no failures nothing changes between the lookups.\<close>

lemma quiet_lookup:
  assumes "reg_faults r = []"
  shows "\<exists>v. persisted_lookup permission camera (process_lookup p) name r = (r, v)"
  using assms by (simp add: persisted_lookup_def process_lookup_value)

lemma local_camera_threshold_quiet:
  assumes run: "local_camera_from_lookup look r = (s1, Inr c)"
    and quiet: "\<And>name. \<exists>v. look name r = (r, v)"
  shows "\<exists>v. look env_match_threshold r = (r, v) \<and>
     (\<exists>u. optional_value parse_f32 v = Inr u \<and>
       lca_match_threshold c = (case u of Some t \<Rightarrow> t | None \<Rightarrow> f32_lit 65 100))"
proof -
  define g where "g = (\<lambda>name. snd (look name r))"
  have at: "looked_up look name f r = (r, f (g name))" for name and f :: "string option \<Rightarrow> protocol_error + 'b"
    using quiet [of name] by (auto simp: looked_up_def g_def)
  have "look env_match_threshold r = (r, g env_match_threshold)"
    using quiet [of env_match_threshold] by (auto simp: g_def)
  moreover have "\<exists>u. optional_value parse_f32 (g env_match_threshold) = Inr u \<and>
       lca_match_threshold c = (case u of Some t \<Rightarrow> t | None \<Rightarrow> f32_lit 65 100)"
    using run
    by (auto simp: local_camera_from_lookup_def sbind_Inr_iff or_default_def required_path_def optional_f32_def
        optional_u32_def optional_bool_def optional_path_or_default_def at)
  ultimately show ?thesis by blast
qed

lemma from_persisted_threshold_quiet:
  assumes "from_persisted_settings permission camera (process_lookup p) r = (s1, Inr (LocalCameraConfig c))"
    and "reg_faults r = []"
    and "persisted_lookup permission camera (process_lookup p) env_match_threshold r = (r, Some v)"
  obtains u where "optional_value parse_f32 (Some v) = Inr u"
    "lca_match_threshold c = (case u of Some t \<Rightarrow> t | None \<Rightarrow> f32_lit 65 100)"
proof -
  obtain q where "persisted_lookup permission camera (process_lookup p) env_auth_mode r = (r, q)"
    using quiet_lookup [OF assms(2)] by blast
  then have "local_camera_from_lookup (persisted_lookup permission camera (process_lookup p)) r = (s1, Inr c)"
    using assms(1) by (auto simp: from_persisted_settings_def auth_from_lookup_def sbind_Inr_iff looked_up_def
        split: if_splits)
  from local_camera_threshold_quiet [OF this quiet_lookup [OF assms(2)]]
  obtain w u where "persisted_lookup permission camera (process_lookup p) env_match_threshold r = (r, w)"
    "optional_value parse_f32 w = Inr u"
    "lca_match_threshold c = (case u of Some t \<Rightarrow> t | None \<Rightarrow> f32_lit 65 100)" by blast
  then show thesis using assms(3) that by simp
qed

text \<open>C26: a threshold outside the permitted range is used and not shown: with a number in the registry that
  no setting may have, no environment variable for the threshold and no failing call of the registry,
  the control application shows the default of 0.65, while the configuration the service makes for the
  camera, whenever it makes one, compares faces against that number.\<close>

theorem threshold_shown_is_not_the_one_used:
  assumes q: "reg_faults r = []" and val: "stored_text r service_config_registry_path reg_match_threshold = Some v"
    and num: "trim v = v" "parse_f32 v = Some t" and out: "\<not> is_valid_logon_face_match_threshold t"
    and env: "env_vars p env_match_threshold = None"
    and run: "auth_from_environment p r = (r1, Inr (LocalCameraConfig c))"
  shows "load_control_settings r = (r, Inr (settings_view r)) \<and>
      snap_logon_face_match_threshold (settings_view r) = default_logon_face_match_threshold \<and>
      lca_match_threshold c = t"
proof -
  obtain permission camera ra rb rc mode0 c0 where
    st: "load_intruder_snap_enabled r = (ra, Inr permission)" "load_camera_id ra = (rb, Inr camera)"
      "from_persisted_settings permission camera (process_lookup p) rb = (rc, Inr mode0)"
    and paths: "(case current_exe_dir p of Some dir \<Rightarrow> auth_resolve_paths dir mode0 | None \<Rightarrow> mode0) = LocalCameraConfig c0"
    and c: "c = c0\<lparr>lca_camera_id := lca_camera_id c\<rparr>"
    by (rule auth_from_environment_steps [OF run]) blast
  obtain c1 where c1: "mode0 = LocalCameraConfig c1" "lca_match_threshold c0 = lca_match_threshold c1"
    by (rule resolved_paths_fields [OF paths]) blast
  have "ra = r" using st(1) by (simp add: load_intruder_snap_enabled_def read_intruder_snap_enabled_def settings_quiet q sbind_def sret_def)
  moreover have "rb = ra" using st(2) \<open>ra = r\<close> by (simp add: load_camera_id_def map_err_def read_quiet q)
  ultimately have rb: "rb = r" by simp
  have "lca_match_threshold c1 = t"
  proof -
    have look: "persisted_lookup permission camera (process_lookup p) env_match_threshold r = (r, Some v)"
      using val env by (simp add: persisted_lookup_def process_lookup_value [OF q] setting_registry_names(1))
        (simp add: env_names)
    obtain u where u: "optional_value parse_f32 (Some v) = Inr u"
      "lca_match_threshold c1 = (case u of Some t \<Rightarrow> t | None \<Rightarrow> f32_lit 65 100)"
      by (rule from_persisted_threshold_quiet [OF st(3) [unfolded c1(1) rb] q look])
    then show ?thesis using num(2) by (simp add: optional_value_def split: option.splits)
  qed
  moreover have "lca_match_threshold c = lca_match_threshold c0" by (subst c) simp
  moreover have "parse_logon_face_match_threshold v = None"
    using num out by (simp add: parse_logon_face_match_threshold_def)
  ultimately show ?thesis
    using load_settings_quiet [OF q] val c1(2) by (simp add: settings_view_def Let_def)
qed

theorem threshold_shown_is_not_the_one_used_witness:
  "\<exists>c. auth_from_environment pushing_process (registry_with_threshold (Some ''0.05'')) =
       (registry_with_threshold (Some ''0.05''), Inr (LocalCameraConfig c)) \<and>
     snap_logon_face_match_threshold (settings_view (registry_with_threshold (Some ''0.05''))) =
       default_logon_face_match_threshold \<and>
     lca_match_threshold c = f32_round False 5 100"
proof -
  let ?r = "registry_with_threshold (Some ''0.05'')"
  have s: "sample_threshold (Some ''0.05'')" by (simp add: sample_threshold_def)
  obtain c where c: "auth_from_environment pushing_process ?r = (?r, Inr (LocalCameraConfig c))"
    using bound_run [OF s] by blast
  have "stored_text ?r service_config_registry_path reg_match_threshold = Some ''0.05''"
    by (simp add: bound_text [OF s] bare_registry_names)
  moreover have "trim ''0.05'' = ''0.05''"
    using trim_digits [of "CHR ''0''" "CHR ''5''" "''.0''"] by (simp add: is_ascii_digit_def)
  moreover have p: "parse_f32 ''0.05'' = Some (f32_round False 5 100)"
    by (simp add: parse_f32_def parse_decimal_def is_ascii_digit_def decimal_f32_def digits_value_def)
  moreover have "f32_round False 5 100 = F32 0x3D4CCCCD"
    by (simp add: f32_round_def bit_len.simps frac_ge_pow2_def scale2_def round_half_even_def signed_bits_def Let_def)
  then have "\<not> is_valid_logon_face_match_threshold (f32_round False 5 100)"
    by (simp add: is_valid_logon_face_match_threshold_def f32_le_def f32_key_def f32_negative_def f32_magnitude_def
        min_logon_face_match_threshold_def)
  moreover have "env_vars pushing_process env_match_threshold = None"
    by (simp add: pushing_process_def plain_process_def env_names)
  ultimately show ?thesis
    using threshold_shown_is_not_the_one_used [OF bound_no_faults _ _ _ _ _ c] c by blast
qed

end
