(* ===== verification/Control_Status.thy ===== *)
theory Control_Status
  imports Service_Config
begin

text \<open>
  Crate \<open>control_status\<close> (\<open>src/lib.rs\<close>), the status of the installation and of the face templates:
  what the dashboard shows is read from the service manager, the registry and two files; a template
  file is summarised from its content. The service manager and the file system are what the process
  finds (\<open>status_world\<close>); the JSON parser and base64 are parameters of it.
\<close>

section \<open>What is found outside\<close>

datatype service_state =
    StateStopped
  | StateStartPending
  | StateStopPending
  | StateRunning
  | StateContinuePending
  | StatePausePending
  | StatePaused

text \<open>\<open>windows_service::Error\<close>: an error of the system with its code, or another one; with its text.\<close>

datatype windows_service_error = Winapi "int option" string | OtherServiceError string

fun display_service_error :: "windows_service_error \<Rightarrow> string" where
  "display_service_error (Winapi _ t) = t"
| "display_service_error (OtherServiceError t) = t"

datatype io_error = IoError (io_not_found: bool) (io_os_error: "int option") (io_text: string)

record presence_runtime_status_file =
  prf_state :: string
  prf_session_id :: "u32 option"
  prf_reason :: string
  prf_updated_at_unix_ms :: i64

record selected_template_quality_summary =
  tqs_selected_template_count :: "u32 option"
  tqs_rejected_sample_count :: "u32 option"

record selected_template_set_file =
  tsf_user_id :: string
  tsf_recognizer_model_family :: string
  tsf_recognizer_model_version :: string
  tsf_enrollment_created_at_unix_ms :: "i64 option"
  tsf_templates :: "bool list" \<comment> \<open>\<open>selected_for_unlock\<close> of each entry\<close>
  tsf_quality_summary :: "selected_template_quality_summary option"

record status_world =
  manager_connect :: "windows_service_error + unit"
  manager_open_service :: "windows_service_error + unit"
  service_query_status :: "windows_service_error + service_state \<times> u32 option"
  path_exists :: "string \<Rightarrow> bool"
  file_modified :: "string \<Rightarrow> io_error + i64 option" \<comment> \<open>the time of change in milliseconds, where it has one\<close>
  file_read :: "string \<Rightarrow> io_error + string"
  parse_presence_status :: "string \<Rightarrow> string + presence_runtime_status_file"
  parse_template_set :: "string \<Rightarrow> string + selected_template_set_file"
  base64_encode :: "string \<Rightarrow> string"

section \<open>Errors\<close>

datatype face_template_status_error =
    TemplateServiceConfigUnavailable string
  | TemplateConfigMissing string
  | TemplateFileMissing string
  | TemplateParseFailed string
  | TemplateEmpty string
  | TemplatePermissionDenied string

fun face_template_status_message :: "face_template_status_error \<Rightarrow> string" where
  "face_template_status_message (TemplateServiceConfigUnavailable m) = m"
| "face_template_status_message (TemplateConfigMissing m) = m"
| "face_template_status_message (TemplateFileMissing m) = m"
| "face_template_status_message (TemplateParseFailed m) = m"
| "face_template_status_message (TemplateEmpty m) = m"
| "face_template_status_message (TemplatePermissionDenied m) = m"

definition is_service_missing_error :: "windows_service_error \<Rightarrow> bool" where
  "is_service_missing_error e \<longleftrightarrow> (case e of Winapi code _ \<Rightarrow> code = Some 1060 | _ \<Rightarrow> False)"

definition is_access_denied_service_error :: "windows_service_error \<Rightarrow> bool" where
  "is_access_denied_service_error e \<longleftrightarrow> (case e of Winapi code _ \<Rightarrow> code = Some 5 | _ \<Rightarrow> False)"

definition service_error :: "windows_service_error \<Rightarrow> control_status_error" where
  "service_error e =
     (if is_access_denied_service_error e then PermissionDeniedError ''service status access denied''
      else ServiceStatusUnavailableError (''service status cannot be queried: '' @ display_service_error e))"

definition provider_registry_error :: "registry_read_error \<Rightarrow> control_status_error" where
  "provider_registry_error e =
     (if read_is_access_denied e then PermissionDeniedError ''provider registry access denied''
      else ProviderStatusUnavailableError
             (''provider registry status cannot be read: '' @ display_read_error e))"

definition service_config_error :: "registry_read_error \<Rightarrow> control_status_error" where
  "service_config_error e =
     (if read_is_access_denied e then PermissionDeniedError ''service config registry access denied''
      else ServiceConfigUnavailableError
             (''service config registry status cannot be read: '' @ display_read_error e))"

definition face_template_service_config_error :: "control_status_error \<Rightarrow> face_template_status_error" where
  "face_template_service_config_error e =
     (case e of
        PermissionDeniedError m \<Rightarrow> TemplatePermissionDenied m
      | other \<Rightarrow> TemplateServiceConfigUnavailable
                   (''service face template configuration cannot be read: '' @ control_status_message other))"

definition face_template_registry_write_error :: "registry_write_error \<Rightarrow> face_template_status_error" where
  "face_template_registry_write_error e =
     (if write_is_access_denied e
      then TemplatePermissionDenied ''service face template configuration update requires elevation''
      else TemplateServiceConfigUnavailable
             (''service face template configuration cannot be updated: '' @ display_write_error e))"

definition face_template_file_read_error :: "io_error \<Rightarrow> face_template_status_error" where
  "face_template_file_read_error e =
     (if io_not_found e then TemplateFileMissing ''configured face template file is missing''
      else if io_os_error e = Some 5 then TemplatePermissionDenied ''configured face template file access denied''
      else TemplateParseFailed (''configured face template file cannot be read: '' @ io_text e))"

section \<open>The service and the provider\<close>

record observed_service_status =
  oss_runtime_state :: service_runtime_state
  oss_process_id :: "u32 option"

record observed_provider_registry_status =
  opr_credential_provider_registered :: bool
  opr_com_server_registered :: bool
  opr_project_config_registered :: bool

record observed_service_config_status =
  osc_registry_config_exists :: bool
  osc_auth_mode :: "string option"
  osc_face_template_path :: "string option"
  osc_presence_lock_enabled :: "string option"
  osc_intruder_snap_enabled :: "string option"
  osc_presence_detector_kind :: "string option"
  osc_presence_tracking_mode :: "string option"

text \<open>The Rust names of the two states the summary has no name for.\<close>

definition map_service_runtime_state :: "service_state \<Rightarrow> service_runtime_state" where
  "map_service_runtime_state s =
     (case s of
        StateRunning \<Rightarrow> ServiceRunning
      | StateStopped \<Rightarrow> ServiceStopped
      | StatePaused \<Rightarrow> ServicePaused
      | StateStartPending \<Rightarrow> ServiceStartPending
      | StateStopPending \<Rightarrow> ServiceStopPending
      | StateContinuePending \<Rightarrow> ServiceUnknown ''ContinuePending''
      | StatePausePending \<Rightarrow> ServiceUnknown ''PausePending'')"

definition map_observed_service_status :: "service_state \<times> u32 option \<Rightarrow> observed_service_status" where
  "map_observed_service_status s =
     \<lparr>oss_runtime_state = map_service_runtime_state (fst s), oss_process_id = snd s\<rparr>"

definition query_service_status :: "status_world \<Rightarrow> control_status_error + observed_service_status option" where
  "query_service_status w =
     (case manager_connect w of
        Inl e \<Rightarrow> Inl (service_error e)
      | Inr _ \<Rightarrow>
          (case manager_open_service w of
             Inr _ \<Rightarrow>
               (case service_query_status w of
                  Inl e \<Rightarrow> Inl (service_error e)
                | Inr s \<Rightarrow> Inr (Some (map_observed_service_status s)))
           | Inl e \<Rightarrow> if is_service_missing_error e then Inr None else Inl (service_error e)))"

definition provider_clsid_registry_path :: string where
  "provider_clsid_registry_path =
     joined_path [''SOFTWARE'', ''Microsoft'', ''Windows'', ''CurrentVersion'', ''Authentication'',
       ''Credential Providers'', ''{019E7C17-2BA4-74F1-879D-025113ECFD98}'']"

definition com_inproc_server_registry_path :: string where
  "com_inproc_server_registry_path =
     joined_path [''SOFTWARE'', ''Classes'', ''CLSID'', ''{019E7C17-2BA4-74F1-879D-025113ECFD98}'',
       ''InprocServer32'']"

definition query_provider_registry_status :: "observed_provider_registry_status settings_op" where
  "query_provider_registry_status =
     sbind (map_err provider_registry_error (key_exists provider_clsid_registry_path)) (\<lambda>cp.
     sbind (map_err provider_registry_error (key_exists com_inproc_server_registry_path)) (\<lambda>com.
     sbind (map_err provider_registry_error (key_exists provider_root_registry_path)) (\<lambda>root.
       sret \<lparr>opr_credential_provider_registered = cp, opr_com_server_registered = com,
             opr_project_config_registered = root\<rparr>)))"

definition read_config :: "string \<Rightarrow> string option settings_op" where
  "read_config name = map_err service_config_error (read_string_value service_config_registry_path name)"

definition query_service_config_status :: "observed_service_config_status settings_op" where
  "query_service_config_status =
     sbind (map_err service_config_error (key_exists service_config_registry_path)) (\<lambda>ex.
     sbind (read_config reg_auth_mode) (\<lambda>auth_mode.
     sbind (read_config reg_face_template_path) (\<lambda>template_path.
     sbind (attempt (read_string_value service_config_registry_path reg_presence_lock_enabled)) (\<lambda>lock.
     sbind (attempt (read_string_value service_config_registry_path reg_intruder_snap_enabled)) (\<lambda>snap.
     sbind (read_config reg_presence_detector_kind) (\<lambda>kind.
     sbind (read_config reg_presence_tracking_mode) (\<lambda>tracking.
       sret \<lparr>osc_registry_config_exists = ex, osc_auth_mode = auth_mode,
             osc_face_template_path = template_path,
             osc_presence_lock_enabled = Option.bind lock id, osc_intruder_snap_enabled = Option.bind snap id,
             osc_presence_detector_kind = kind, osc_presence_tracking_mode = tracking\<rparr>)))))))"

definition map_service_status :: "observed_service_status option \<Rightarrow> service_status_summary" where
  "map_service_status s =
     (case s of
        Some st \<Rightarrow> \<lparr>installation_state = ServiceInstalled, runtime_state = oss_runtime_state st,
                    service_process_id = oss_process_id st\<rparr>
      | None \<Rightarrow> \<lparr>installation_state = ServiceNotInstalled, runtime_state = ServiceMissing,
                 service_process_id = None\<rparr>)"

definition map_provider_status :: "observed_provider_registry_status \<Rightarrow> provider_status_summary" where
  "map_provider_status s =
     (let cp = opr_credential_provider_registered s; com = opr_com_server_registered s;
          root = opr_project_config_registered s
      in \<lparr>registration_state =
            (if cp \<and> com \<and> root then Registered
             else if cp \<or> com \<or> root then PartiallyRegistered else NotRegistered),
          psum_credential_provider_registered = cp, psum_com_server_registered = com,
          psum_project_config_registered = root\<rparr>)"

definition map_service_config :: "observed_service_config_status \<Rightarrow> service_config_summary" where
  "map_service_config s =
     \<lparr>registry_config_state = (if osc_registry_config_exists s then RegistryConfigPresent else RegistryConfigMissing),
      csum_auth_mode = osc_auth_mode s, csum_face_template_path = osc_face_template_path s,
      csum_presence_lock_enabled = Option.bind (osc_presence_lock_enabled s) parse_registry_bool,
      csum_intruder_snap_enabled = Option.bind (osc_intruder_snap_enabled s) parse_registry_bool,
      csum_presence_detector_kind = osc_presence_detector_kind s,
      csum_presence_tracking_mode = osc_presence_tracking_mode s\<rparr>"

section \<open>The data directory and the presence monitor\<close>

record control_status_paths =
  program_data_dir :: string
  presence_audit_dir :: string
  presence_runtime_status_path :: string

definition paths_from_program_data_dir :: "string \<Rightarrow> control_status_paths" where
  "paths_from_program_data_dir dir =
     \<lparr>program_data_dir = dir, presence_audit_dir = join_path dir ''presence-audit'',
      presence_runtime_status_path =
        join_path (join_path dir ''runtime'') ''presence-runtime-status.json''\<rparr>"

definition install_dir_from_service_template_path :: "string \<Rightarrow> string option" where
  "install_dir_from_service_template_path template_path =
     Option.bind (path_parent template_path) (\<lambda>face_enrollment_dir.
       if (case path_file_name face_enrollment_dir of
             Some name \<Rightarrow> eq_ignore_ascii_case name ''face-enrollment'' | None \<Rightarrow> False)
       then path_parent face_enrollment_dir else None)"

definition resolved_paths_from_service_config :: "control_status_paths \<Rightarrow> control_status_paths settings_op" where
  "resolved_paths_from_service_config paths =
     sbind (read_config reg_face_template_path) (\<lambda>template_path.
       sret (case Option.bind template_path install_dir_from_service_template_path of
               Some dir \<Rightarrow> paths_from_program_data_dir dir
             | None \<Rightarrow> paths))"

definition path_presence :: "status_world \<Rightarrow> string \<Rightarrow> path_presence" where
  "path_presence w p = (if path_exists w p then PathPresent else PathMissing)"

definition query_data_directory_status ::
  "status_world \<Rightarrow> control_status_paths \<Rightarrow> data_directory_summary settings_op" where
  "query_data_directory_status w paths0 =
     sbind (resolved_paths_from_service_config paths0) (\<lambda>paths.
       sret \<lparr>dsum_program_data_dir = Some (program_data_dir paths),
             program_data_presence = path_presence w (program_data_dir paths),
             dsum_presence_audit_dir = Some (presence_audit_dir paths),
             presence_audit_presence = path_presence w (presence_audit_dir paths)\<rparr>)"

definition map_presence_monitor_state :: "string \<Rightarrow> presence_monitor_state" where
  "map_presence_monitor_state s =
     (if s = ''running'' then MonitorRunning
      else if s = ''stopped'' then MonitorStopped
      else if s = ''disabled'' then MonitorDisabled
      else if s = ''unavailable'' then MonitorUnavailable
      else MonitorUnknown s)"

definition presence_file_summary :: "presence_runtime_status_file \<Rightarrow> presence_runtime_summary" where
  "presence_file_summary f =
     \<lparr>prs_monitor_state = map_presence_monitor_state (prf_state f), prs_session_id = prf_session_id f,
      prs_reason = Some (prf_reason f), prs_updated_at_unix_ms = Some (prf_updated_at_unix_ms f)\<rparr>"

definition query_presence_runtime_status ::
  "status_world \<Rightarrow> control_status_paths \<Rightarrow> presence_runtime_summary option settings_op" where
  "query_presence_runtime_status w paths0 =
     sbind (resolved_paths_from_service_config paths0) (\<lambda>paths.
       if \<not> path_exists w (presence_runtime_status_path paths) then
         sret (Some \<lparr>prs_monitor_state = MonitorUnavailable, prs_session_id = None,
                     prs_reason = Some ''presence runtime status file is missing'',
                     prs_updated_at_unix_ms = None\<rparr>)
       else
         case file_read w (presence_runtime_status_path paths) of
           Inl e \<Rightarrow> sfail (PresenceRuntimeStatusUnavailableError
                      (''presence runtime status file cannot be read: '' @ io_text e))
         | Inr body \<Rightarrow>
             (case parse_presence_status w body of
                Inl e \<Rightarrow> sfail (PresenceRuntimeStatusUnavailableError
                          (''presence runtime status file is invalid: '' @ e))
              | Inr f \<Rightarrow> sret (Some (presence_file_summary f))))"

definition load_dashboard_status :: "status_world \<Rightarrow> control_status_paths \<Rightarrow> dashboard_status settings_op" where
  "load_dashboard_status w paths =
     sbind (lift_result (query_service_status w)) (\<lambda>service.
     sbind query_provider_registry_status (\<lambda>provider.
     sbind query_service_config_status (\<lambda>config.
     sbind (query_data_directory_status w paths) (\<lambda>data.
     sbind (query_presence_runtime_status w paths) (\<lambda>presence.
       sret \<lparr>dash_service = map_service_status service, dash_provider = map_provider_status provider,
             dash_service_config = map_service_config config, dash_data_directory = data,
             dash_presence_runtime = presence\<rparr>)))))"

section \<open>Face templates\<close>

type_synonym 'a template_op = "(face_template_status_error, 'a) reg_op"

definition load_active_face_template_path :: "string template_op" where
  "load_active_face_template_path =
     sbind (map_err face_template_service_config_error query_service_config_status) (\<lambda>c.
       if \<not> osc_registry_config_exists c
       then sfail (TemplateConfigMissing ''service configuration is missing a face template path'')
       else
         case osc_face_template_path c of
           None \<Rightarrow> sfail (TemplateConfigMissing ''service configuration is missing a face template path'')
         | Some p \<Rightarrow>
             if trim p = [] then sfail (TemplateConfigMissing ''service configuration is missing a face template path'')
             else sret (trim p))"

definition apply_active_face_template_path :: "string \<Rightarrow> unit template_op" where
  "apply_active_face_template_path path =
     (if path = [] then sfail (TemplateConfigMissing ''face template path is empty'')
      else map_err face_template_registry_write_error
             (write_string_value service_config_registry_path reg_face_template_path path))"

fun write_config_values :: "(string \<times> string) list \<Rightarrow> unit template_op" where
  "write_config_values [] = sret ()"
| "write_config_values ((name, value) # rest) =
     sbind (map_err face_template_registry_write_error
              (write_string_value service_config_registry_path name value)) (\<lambda>_.
     write_config_values rest)"

definition local_camera_values :: "string \<Rightarrow> string \<Rightarrow> string \<Rightarrow> (string \<times> string) list" where
  "local_camera_values template_path camera install_dir =
     (let models = join_path install_dir ''models''
      in [(reg_auth_mode, ''local-camera''), (reg_face_template_path, template_path), (reg_camera_id, camera),
          (reg_yunet_model_path, join_path models ''face_detection_yunet_2023mar.onnx''),
          (reg_sface_model_path, join_path models ''ghostfacenet_v1_stride2.onnx''),
          (reg_minifasnet_model_path, join_path models ''minifasnet_v2.onnx'')])"

definition apply_local_camera_auth_config_values :: "string \<Rightarrow> string \<Rightarrow> string \<Rightarrow> unit template_op" where
  "apply_local_camera_auth_config_values template_path camera install_dir =
     (if template_path = [] then sfail (TemplateConfigMissing ''face template path is empty'')
      else if trim camera = [] then sfail (TemplateConfigMissing ''camera id is empty'')
      else if install_dir = [] then sfail (TemplateConfigMissing ''install dir is empty'')
      else write_config_values (local_camera_values template_path (trim camera) install_dir))"

definition selected_template_count :: "selected_template_set_file \<Rightarrow> u32" where
  "selected_template_count f =
     (case Option.bind (tsf_quality_summary f) tqs_selected_template_count of
        Some n \<Rightarrow> n
      | None \<Rightarrow>
          (let n = length (filter id (tsf_templates f)) in if n < 2 ^ 32 then word_of_nat n else - 1))"

text \<open>The name of the first user, in UTF-8.\<close>

definition default_face_display_name :: string where
  "default_face_display_name = utf8_bytes [0xE7, 0x94, 0xA8, 0xE6, 0x88, 0xB7, 0x31]"

definition read_face_avatar_preview :: "status_world \<Rightarrow> string \<Rightarrow> face_avatar_preview option" where
  "read_face_avatar_preview w template_path =
     Option.bind (path_parent template_path) (\<lambda>dir.
     let p = join_path dir ''preview_frame.jpg''
     in case file_read w p of
          Inl _ \<Rightarrow> None
        | Inr bytes \<Rightarrow>
            (case file_modified w p of
               Inl _ \<Rightarrow> None
             | Inr modified \<Rightarrow>
                 Some \<lparr>preview_mime_type = ''image/jpeg'', preview_image_base64 = base64_encode w bytes,
                       preview_updated_at_unix_ms = modified\<rparr>))"

definition summarize_selected_face_template_file ::
  "status_world \<Rightarrow> string \<Rightarrow> string \<Rightarrow> face_template_source_state \<Rightarrow>
     face_template_status_error + face_template_summary" where
  "summarize_selected_face_template_file w path ref src_state =
     (case file_modified w path of
        Inl e \<Rightarrow> Inl (face_template_file_read_error e)
      | Inr modified \<Rightarrow>
          (case file_read w path of
             Inl e \<Rightarrow> Inl (face_template_file_read_error e)
           | Inr bytes \<Rightarrow>
               (case parse_template_set w bytes of
                  Inl e \<Rightarrow> Inl (TemplateParseFailed (''active face template file is invalid: '' @ e))
                | Inr f \<Rightarrow>
                    if selected_template_count f = 0
                    then Inl (TemplateEmpty
                           ''active face template file does not contain selected unlock templates'')
                    else Inr
                      \<lparr>fts_face_template_ref = ref, fts_user_id = tsf_user_id f,
                       fts_display_name = Some default_face_display_name,
                       fts_avatar_preview = read_face_avatar_preview w path,
                       fts_template_kind = SelectedTemplateSet,
                       fts_recognition_model =
                         \<lparr>model_family = tsf_recognizer_model_family f,
                          model_version = tsf_recognizer_model_version f\<rparr>,
                       fts_selected_template_count = selected_template_count f,
                       fts_rejected_sample_count =
                         Option.bind (tsf_quality_summary f) tqs_rejected_sample_count,
                       fts_created_at_unix_ms = tsf_enrollment_created_at_unix_ms f,
                       fts_updated_at_unix_ms = modified, fts_source_state = src_state\<rparr>)))"

definition active_service_face_template_ref :: string where
  "active_service_face_template_ref = ''active-service-template''"

definition load_face_template_list :: "status_world \<Rightarrow> face_template_list template_op" where
  "load_face_template_list w =
     sbind load_active_face_template_path (\<lambda>path.
     sbind (lift_result (summarize_selected_face_template_file w path active_service_face_template_ref
              ActiveServiceTemplate)) (\<lambda>s.
       sret \<lparr>listed_templates = [s]\<rparr>))"

section \<open>What is shown\<close>

text \<open>A summary has a selected template; a list of templates has exactly one entry.\<close>

lemma summary_not_empty:
  "summarize_selected_face_template_file w path ref src_state = Inr s \<Longrightarrow> fts_selected_template_count s \<noteq> 0"
  by (auto simp: summarize_selected_face_template_file_def split: sum.splits if_splits)

lemma summary_ref:
  "summarize_selected_face_template_file w path ref src_state = Inr s \<Longrightarrow>
     fts_face_template_ref s = ref \<and> fts_source_state s = src_state"
  by (auto simp: summarize_selected_face_template_file_def split: sum.splits if_splits)

text \<open>The provider is shown as registered exactly when all three of its keys are there.\<close>

lemma registered_iff:
  "registration_state (map_provider_status s) = Registered \<longleftrightarrow>
     opr_credential_provider_registered s \<and> opr_com_server_registered s \<and> opr_project_config_registered s"
  "registration_state (map_provider_status s) = NotRegistered \<longleftrightarrow>
     \<not> opr_credential_provider_registered s \<and> \<not> opr_com_server_registered s \<and> \<not> opr_project_config_registered s"
  by (auto simp: map_provider_status_def Let_def)

text \<open>Reading the status changes no value of the registry.\<close>

lemma keeps_attempt [keeps_intros]: "keeps P m \<Longrightarrow> keeps P (attempt m)"
  by (auto simp: keeps_def attempt_def split: prod.splits)

lemma keeps_read_config [keeps_intros]: "keeps (same_store r0) (read_config name)"
  unfolding read_config_def by (intro keeps_intros)

lemma keeps_dashboard: "keeps (same_store r0) (load_dashboard_status w paths)"
  unfolding load_dashboard_status_def query_provider_registry_status_def query_service_config_status_def
    query_data_directory_status_def query_presence_runtime_status_def resolved_paths_from_service_config_def
  by (intro keeps_intros) (auto intro!: keeps_intros split: sum.split)

end
