(* ===== verification/Control_Error.thy ===== *)
theory Control_Error
  imports Control_Status
begin

text \<open>
  Crate \<open>control_backend\<close> (\<open>src/lib.rs\<close>), the errors: \<open>ControlBackendError\<close> with its constructors,
  what the errors of the status reader, of the template files, of the enrollment process and of the
  service become, and the response made of an error.
\<close>

section \<open>The error\<close>

record control_backend_error =
  be_operation_status :: control_operation_status
  be_control_error_code :: control_error_code
  be_message :: string
  be_next_recommended_action :: "string option"

definition backend_error ::
  "control_operation_status \<Rightarrow> control_error_code \<Rightarrow> string \<Rightarrow> string \<Rightarrow> control_backend_error" where
  "backend_error st code m act =
     \<lparr>be_operation_status = st, be_control_error_code = code, be_message = m,
      be_next_recommended_action = Some act\<rparr>"

definition dashboard_status_unavailable :: "string \<Rightarrow> control_backend_error" where
  "dashboard_status_unavailable m =
     backend_error OpServiceUnavailable DashboardStatusUnavailable m
       ''Check whether WinFaceUnlock service and configuration are available.''"

definition settings_unavailable :: "string \<Rightarrow> control_backend_error" where
  "settings_unavailable m =
     backend_error OpServiceUnavailable SettingsUnavailable m
       ''Check whether WinFaceUnlock service configuration is available.''"

definition settings_persistence_failed :: "string \<Rightarrow> control_backend_error" where
  "settings_persistence_failed m =
     backend_error OpFailed SettingsPersistenceFailed m
       ''Retry after confirming the service registry configuration can be updated.''"

definition credential_enrollment_unavailable :: "string \<Rightarrow> control_backend_error" where
  "credential_enrollment_unavailable m =
     backend_error OpServiceUnavailable CredentialEnrollmentUnavailable m
       ''Check whether the WinFaceUnlock credential store can be opened.''"

definition credential_account_unavailable :: "string \<Rightarrow> control_backend_error" where
  "credential_account_unavailable m =
     backend_error OpServiceUnavailable CredentialAccountUnavailable m
       ''Check whether the current Windows account identity is available.''"

definition credential_enrollment_failed :: "string \<Rightarrow> control_backend_error" where
  "credential_enrollment_failed m =
     backend_error OpFailed CredentialEnrollmentFailed m
       ''Confirm the Windows credential and retry enrollment.''"

definition face_template_store_unavailable :: "string \<Rightarrow> control_backend_error" where
  "face_template_store_unavailable m =
     backend_error OpServiceUnavailable FaceTemplateStoreUnavailable m
       ''Check whether WinFaceUnlock service configuration and template storage are available.''"

definition face_template_config_missing :: "string \<Rightarrow> control_backend_error" where
  "face_template_config_missing m =
     backend_error OpFailed FaceTemplateConfigMissing m
       ''Enroll or configure a face template before listing enrolled faces.''"

definition face_template_file_missing :: "string \<Rightarrow> control_backend_error" where
  "face_template_file_missing m =
     backend_error OpFailed FaceTemplateFileMissing m
       ''Run face enrollment again or repair the configured face template path.''"

definition face_template_parse_failed :: "string \<Rightarrow> control_backend_error" where
  "face_template_parse_failed m =
     backend_error OpFailed FaceTemplateParseFailed m
       ''Regenerate the face template through guided enrollment.''"

definition face_template_empty :: "string \<Rightarrow> control_backend_error" where
  "face_template_empty m =
     backend_error OpFailed FaceTemplateEmpty m
       ''Run face enrollment again so at least one unlock template is selected.''"

definition face_template_not_found :: "string \<Rightarrow> control_backend_error" where
  "face_template_not_found m =
     backend_error OpFailed FaceTemplateNotFound m
       ''Refresh face template management and retry with an existing template reference.''"

definition active_template_delete_blocked :: "string \<Rightarrow> control_backend_error" where
  "active_template_delete_blocked m =
     backend_error OpFailed ActiveTemplateDeleteBlocked m
       ''Reconfigure service authentication before deleting the active face template.''"

definition face_template_delete_failed :: "string \<Rightarrow> control_backend_error" where
  "face_template_delete_failed m =
     backend_error OpFailed FaceTemplateDeleteFailed m
       ''Retry face template deletion after checking template storage permissions.''"

definition camera_discovery_unavailable :: "string \<Rightarrow> control_backend_error" where
  "camera_discovery_unavailable m =
     backend_error OpServiceUnavailable CameraUnavailable m
       ''Check camera permissions and camera device availability.''"

definition face_enrollment_unavailable :: "string \<Rightarrow> control_backend_error" where
  "face_enrollment_unavailable m =
     backend_error OpServiceUnavailable FaceEnrollmentUnavailable m
       ''Check camera access, model files, and the face enrollment runtime.''"

definition face_enrollment_already_running :: "string \<Rightarrow> control_backend_error" where
  "face_enrollment_already_running m =
     backend_error OpFailed FaceEnrollmentAlreadyRunning m
       ''Finish or cancel the current face enrollment session before starting another.''"

definition face_enrollment_session_not_found :: "string \<Rightarrow> control_backend_error" where
  "face_enrollment_session_not_found m =
     backend_error OpFailed FaceEnrollmentSessionNotFound m
       ''Start a new face enrollment session and retry.''"

definition camera_unavailable :: "string \<Rightarrow> control_backend_error" where
  "camera_unavailable m =
     backend_error OpServiceUnavailable CameraUnavailable m
       ''Check camera permissions and camera device availability.''"

definition face_model_unavailable :: "string \<Rightarrow> control_backend_error" where
  "face_model_unavailable m =
     backend_error OpServiceUnavailable FaceModelUnavailable m
       ''Check whether WinFaceUnlock face model files are installed.''"

definition face_enrollment_failed :: "string \<Rightarrow> control_backend_error" where
  "face_enrollment_failed m =
     backend_error OpFailed FaceEnrollmentFailed m
       ''Retry guided face enrollment after checking camera positioning and model files.''"

definition face_enrollment_cancelled :: "string \<Rightarrow> control_backend_error" where
  "face_enrollment_cancelled m =
     backend_error OpCancelled FaceEnrollmentCancelled m
       ''Start face enrollment again when ready.''"

definition service_unavailable :: "string \<Rightarrow> control_backend_error" where
  "service_unavailable m =
     backend_error OpServiceUnavailable ServiceStatusUnavailable m
       ''Check whether WinFaceUnlockService is installed and running.''"

definition auth_match_failed :: "string \<Rightarrow> control_backend_error" where
  "auth_match_failed m =
     backend_error OpFailed AuthMatchFailed m
       ''Check camera access, face positioning, enrolled templates, and matching threshold.''"

definition grant_issue_failed :: "string \<Rightarrow> control_backend_error" where
  "grant_issue_failed m =
     backend_error OpFailed GrantIssueFailed m
       ''Retry authentication after checking service grant issuance state.''"

definition credential_missing :: "string \<Rightarrow> control_backend_error" where
  "credential_missing m =
     backend_error OpFailed CredentialMissing m
       ''Enroll the Windows credential before running face auth self-test.''"

definition credential_material_unavailable :: "string \<Rightarrow> control_backend_error" where
  "credential_material_unavailable m =
     backend_error OpFailed CredentialMaterialUnavailable m
       ''Check credential store access and credential material protection.''"

definition auth_self_test_failed :: "string \<Rightarrow> control_backend_error" where
  "auth_self_test_failed m =
     backend_error OpFailed AuthSelfTestFailed m
       ''Check that face templates, credentials, service auth, and camera access are ready.''"

definition permission_denied :: "string \<Rightarrow> control_backend_error" where
  "permission_denied m =
     backend_error OpPermissionDenied PermissionDenied m
       ''Run the control frontend with sufficient local privileges.''"

definition requires_elevation :: "string \<Rightarrow> control_backend_error" where
  "requires_elevation m =
     backend_error OpRequiresElevation ElevationRequired m
       ''Retry from an elevated local control process or service-mediated settings path.''"

section \<open>The errors of the parts\<close>

definition status_reader_error :: "control_status_error \<Rightarrow> control_backend_error" where
  "status_reader_error e =
     (case e of
        PermissionDeniedError m \<Rightarrow> permission_denied m
      | ElevationRequiredError m \<Rightarrow> requires_elevation m
      | ServiceStatusUnavailableError m \<Rightarrow>
          backend_error OpServiceUnavailable ServiceStatusUnavailable m
            ''Check whether the Windows Service Control Manager is reachable.''
      | ProviderStatusUnavailableError m \<Rightarrow>
          backend_error OpFailed ProviderStatusUnavailable m
            ''Check WinFaceUnlock credential provider registry entries.''
      | ServiceConfigUnavailableError m \<Rightarrow>
          backend_error OpFailed ServiceConfigUnavailable m
            ''Check WinFaceUnlock service configuration registry entries.''
      | SettingsUnavailableError m \<Rightarrow> settings_unavailable m
      | SettingsPersistenceFailedError m \<Rightarrow> settings_persistence_failed m
      | DataDirectoryStatusUnavailableError m \<Rightarrow>
          backend_error OpFailed DataDirectoryStatusUnavailable m
            ''Check WinFaceUnlock ProgramData directory access.''
      | PresenceRuntimeStatusUnavailableError m \<Rightarrow>
          backend_error OpFailed PresenceRuntimeStatusUnavailable m
            ''Check the WinFaceUnlock presence runtime status file.'')"

definition template_status_error :: "face_template_status_error \<Rightarrow> control_backend_error" where
  "template_status_error e =
     (case e of
        TemplateServiceConfigUnavailable m \<Rightarrow> face_template_store_unavailable m
      | TemplateConfigMissing m \<Rightarrow> face_template_config_missing m
      | TemplateFileMissing m \<Rightarrow> face_template_file_missing m
      | TemplateParseFailed m \<Rightarrow> face_template_parse_failed m
      | TemplateEmpty m \<Rightarrow> face_template_empty m
      | TemplatePermissionDenied m \<Rightarrow> permission_denied m)"

definition face_enrollment_template_status_error_to_control_error ::
  "face_template_status_error \<Rightarrow> control_backend_error" where
  "face_enrollment_template_status_error_to_control_error e =
     (case e of
        TemplateFileMissing m \<Rightarrow> face_enrollment_failed m
      | TemplateParseFailed m \<Rightarrow> face_enrollment_failed m
      | TemplateEmpty m \<Rightarrow> face_enrollment_failed m
      | TemplatePermissionDenied m \<Rightarrow> permission_denied m
      | TemplateServiceConfigUnavailable m \<Rightarrow> face_enrollment_failed m
      | TemplateConfigMissing m \<Rightarrow> face_enrollment_failed m)"

datatype face_enrollment_process_error =
    MissingDiagnosticsCli string
  | OutputDirectoryUnavailable string
  | EnrollmentCameraUnavailable string
  | EnrollmentModelUnavailable string
  | ProcessStartFailed string
  | ProcessStatusFailed string
  | ProcessCancelFailed string
  | EnrollmentTemplateFileMissing string
  | EnrollmentTemplateParseFailed string
  | EnrollmentTemplateEmpty string
  | EnrollmentPermissionDenied string

definition face_enrollment_process_error_to_control_error ::
  "face_enrollment_process_error \<Rightarrow> control_backend_error" where
  "face_enrollment_process_error_to_control_error e =
     (case e of
        MissingDiagnosticsCli m \<Rightarrow> face_enrollment_unavailable m
      | OutputDirectoryUnavailable m \<Rightarrow> face_enrollment_unavailable m
      | EnrollmentCameraUnavailable m \<Rightarrow> camera_unavailable m
      | EnrollmentModelUnavailable m \<Rightarrow> face_model_unavailable m
      | ProcessStartFailed m \<Rightarrow> face_enrollment_failed m
      | ProcessStatusFailed m \<Rightarrow> face_enrollment_failed m
      | EnrollmentTemplateFileMissing m \<Rightarrow> face_enrollment_failed m
      | EnrollmentTemplateParseFailed m \<Rightarrow> face_enrollment_failed m
      | EnrollmentTemplateEmpty m \<Rightarrow> face_enrollment_failed m
      | ProcessCancelFailed m \<Rightarrow> face_enrollment_failed m
      | EnrollmentPermissionDenied m \<Rightarrow> permission_denied m)"

section \<open>The errors of the service\<close>

text \<open>The names \<open>{:?}\<close> prints.\<close>

fun debug_protocol_error :: "protocol_error \<Rightarrow> string" where
  "debug_protocol_error Unauthorized = ''Unauthorized''"
| "debug_protocol_error InvalidMessage = ''InvalidMessage''"
| "debug_protocol_error ExpiredGrant = ''ExpiredGrant''"
| "debug_protocol_error UsedGrant = ''UsedGrant''"
| "debug_protocol_error SessionMismatch = ''SessionMismatch''"
| "debug_protocol_error TransportUnavailable = ''TransportUnavailable''"

fun debug_auth_failure_reason :: "auth_failure_reason \<Rightarrow> string" where
  "debug_auth_failure_reason NoFaceDetected = ''NoFaceDetected''"
| "debug_auth_failure_reason MultipleFacesDetected = ''MultipleFacesDetected''"
| "debug_auth_failure_reason MatchBelowThreshold = ''MatchBelowThreshold''"
| "debug_auth_failure_reason IntruderDetected = ''IntruderDetected''"
| "debug_auth_failure_reason TemplateModelMismatch = ''TemplateModelMismatch''"
| "debug_auth_failure_reason LivenessFailed = ''LivenessFailed''"
| "debug_auth_failure_reason CooldownActive = ''CooldownActive''"
| "debug_auth_failure_reason Timeout = ''Timeout''"
| "debug_auth_failure_reason Cancelled = ''Cancelled''"
| "debug_auth_failure_reason InternalError = ''InternalError''"

definition credential_protocol_error_to_control_error :: "protocol_error \<Rightarrow> control_backend_error" where
  "credential_protocol_error_to_control_error e =
     credential_account_unavailable (''Failed to communicate with service: '' @ debug_protocol_error e)"

definition auth_wake_protocol_error :: "protocol_error \<Rightarrow> control_backend_error" where
  "auth_wake_protocol_error e =
     (case e of
        TransportUnavailable \<Rightarrow> service_unavailable ''service auth IPC is unavailable''
      | Unauthorized \<Rightarrow> grant_issue_failed ''service rejected wake-auth authorization''
      | _ \<Rightarrow> auth_self_test_failed (''service wake-auth request failed: '' @ debug_protocol_error e))"

definition credential_material_protocol_error :: "protocol_error \<Rightarrow> control_backend_error" where
  "credential_material_protocol_error e =
     (case e of
        TransportUnavailable \<Rightarrow> service_unavailable ''service credential material IPC is unavailable''
      | Unauthorized \<Rightarrow> credential_missing ''service could not resolve enrolled credential material''
      | InvalidMessage \<Rightarrow>
          credential_material_unavailable ''service returned invalid credential material state''
      | _ \<Rightarrow> grant_issue_failed
                (''service rejected credential material grant: '' @ debug_protocol_error e))"

definition face_template_apply_protocol_error :: "protocol_error \<Rightarrow> control_backend_error" where
  "face_template_apply_protocol_error e =
     (case e of
        TransportUnavailable \<Rightarrow>
          service_unavailable ''service face template configuration IPC is unavailable''
      | Unauthorized \<Rightarrow>
          permission_denied ''service rejected face template configuration authorization''
      | InvalidMessage \<Rightarrow>
          face_enrollment_failed ''service rejected face template configuration payload''
      | _ \<Rightarrow> face_enrollment_failed
                (''service rejected face template configuration request: '' @ debug_protocol_error e))"

definition settings_update_protocol_error :: "protocol_error \<Rightarrow> control_backend_error" where
  "settings_update_protocol_error e =
     (case e of
        TransportUnavailable \<Rightarrow> service_unavailable ''service settings IPC is unavailable''
      | Unauthorized \<Rightarrow> permission_denied ''service rejected settings update authorization''
      | InvalidMessage \<Rightarrow> settings_persistence_failed ''service rejected settings payload''
      | _ \<Rightarrow> settings_persistence_failed
                (''service rejected settings update request: '' @ debug_protocol_error e))"

definition auth_failure_reason_to_control_error :: "auth_failure_reason \<Rightarrow> control_backend_error" where
  "auth_failure_reason_to_control_error r =
     (case r of
        Cancelled \<Rightarrow> auth_self_test_failed ''face authentication was cancelled''
      | InternalError \<Rightarrow> auth_self_test_failed ''service reported an internal auth error''
      | _ \<Rightarrow> auth_match_failed (''face authentication failed: '' @ debug_auth_failure_reason r))"

section \<open>The response made of an error\<close>

definition into_response ::
  "control_backend_error \<Rightarrow> control_request_envelope \<Rightarrow> control_response_envelope" where
  "into_response e req =
     \<lparr>resp_protocol_version = control_protocol_version, resp_correlation_id = req_correlation_id req,
      resp_operation = req_operation req, resp_status = be_operation_status e,
      resp_message = be_message e, resp_details = DetailsErrorCode (be_control_error_code e),
      resp_next_action = be_next_recommended_action e\<rparr>"

lemma answers_into_response [simp]: "answers req (into_response e req)"
  by (simp add: answers_def into_response_def)

lemmas backend_error_defs =
  dashboard_status_unavailable_def settings_unavailable_def settings_persistence_failed_def
  credential_enrollment_unavailable_def credential_account_unavailable_def
  credential_enrollment_failed_def face_template_store_unavailable_def face_template_config_missing_def
  face_template_file_missing_def face_template_parse_failed_def face_template_empty_def
  face_template_not_found_def active_template_delete_blocked_def face_template_delete_failed_def
  camera_discovery_unavailable_def face_enrollment_unavailable_def face_enrollment_already_running_def
  face_enrollment_session_not_found_def camera_unavailable_def face_model_unavailable_def
  face_enrollment_failed_def face_enrollment_cancelled_def service_unavailable_def
  auth_match_failed_def grant_issue_failed_def credential_missing_def
  credential_material_unavailable_def auth_self_test_failed_def permission_denied_def
  requires_elevation_def

text \<open>No error reads as success: its status is never \<open>Completed\<close>, and it always has a next action.\<close>

definition proper_error :: "control_backend_error \<Rightarrow> bool" where
  "proper_error e \<longleftrightarrow> be_operation_status e \<noteq> OpCompleted \<and> be_next_recommended_action e \<noteq> None"

lemma proper_backend_error [simp]: "proper_error (backend_error st c m a) \<longleftrightarrow> st \<noteq> OpCompleted"
  by (simp add: proper_error_def backend_error_def)

lemma proper_constructors [simp]:
  "proper_error (dashboard_status_unavailable m)"
  "proper_error (settings_unavailable m)"
  "proper_error (settings_persistence_failed m)"
  "proper_error (credential_enrollment_unavailable m)"
  "proper_error (credential_account_unavailable m)"
  "proper_error (credential_enrollment_failed m)"
  "proper_error (face_template_store_unavailable m)"
  "proper_error (face_template_config_missing m)"
  "proper_error (face_template_file_missing m)"
  "proper_error (face_template_parse_failed m)"
  "proper_error (face_template_empty m)"
  "proper_error (face_template_not_found m)"
  "proper_error (active_template_delete_blocked m)"
  "proper_error (face_template_delete_failed m)"
  "proper_error (camera_discovery_unavailable m)"
  "proper_error (face_enrollment_unavailable m)"
  "proper_error (face_enrollment_already_running m)"
  "proper_error (face_enrollment_session_not_found m)"
  "proper_error (camera_unavailable m)"
  "proper_error (face_model_unavailable m)"
  "proper_error (face_enrollment_failed m)"
  "proper_error (face_enrollment_cancelled m)"
  "proper_error (service_unavailable m)"
  "proper_error (auth_match_failed m)"
  "proper_error (grant_issue_failed m)"
  "proper_error (credential_missing m)"
  "proper_error (credential_material_unavailable m)"
  "proper_error (auth_self_test_failed m)"
  "proper_error (permission_denied m)"
  "proper_error (requires_elevation m)"
  by (simp_all add: backend_error_defs)

lemma proper_mapped [simp]:
  "proper_error (status_reader_error cs)" "proper_error (template_status_error ts)"
  "proper_error (face_enrollment_template_status_error_to_control_error ts)"
  "proper_error (face_enrollment_process_error_to_control_error pe)"
  by (simp_all add: status_reader_error_def template_status_error_def
        face_enrollment_template_status_error_to_control_error_def
        face_enrollment_process_error_to_control_error_def
      split: control_status_error.split face_template_status_error.split
        face_enrollment_process_error.split)

lemma proper_of_service [simp]:
  "proper_error (credential_protocol_error_to_control_error p)" "proper_error (auth_wake_protocol_error p)"
  "proper_error (credential_material_protocol_error p)" "proper_error (face_template_apply_protocol_error p)"
  "proper_error (settings_update_protocol_error p)" "proper_error (auth_failure_reason_to_control_error r)"
  by (simp_all add: credential_protocol_error_to_control_error_def auth_wake_protocol_error_def
        credential_material_protocol_error_def face_template_apply_protocol_error_def
        settings_update_protocol_error_def auth_failure_reason_to_control_error_def
      split: protocol_error.split auth_failure_reason.split)

end
