(* ===== verification/Control_Service.thy ===== *)
theory Control_Service
  imports Control_Error Wake_Worker
begin

text \<open>
  Crate \<open>control_backend\<close> (\<open>src/lib.rs\<close>), the parts that ask the service over its pipe: the self test
  (\<open>ServiceFaceAuthSelfTestRunner\<close>), the template applier, the settings store and the credential
  store (\<open>ServiceIpc..\<close>). The pipe with the service behind it is the argument \<open>ask\<close>, a request on
  the world \<open>'w\<close>; the variables of the process, the path of its executable and the SID of its user
  are what it finds (\<open>control_process\<close>).
\<close>

type_synonym ('w, 'a) backend_call = "'w \<Rightarrow> 'w \<times> (control_backend_error + 'a)"

text \<open>One request: the transport's error goes through \<open>f\<close>, the event decides.\<close>

definition ask_service ::
  "'w pipe_request \<Rightarrow> (protocol_error \<Rightarrow> control_backend_error) \<Rightarrow> service_request \<Rightarrow>
     (service_event \<Rightarrow> ('w, 'a) backend_call) \<Rightarrow> ('w, 'a) backend_call" where
  "ask_service ask f req k w =
     (case ask req w of
        (w1, Inl e) \<Rightarrow> (w1, Inl (f e))
      | (w1, Inr ev) \<Rightarrow> k ev w1)"

definition refuse :: "control_backend_error \<Rightarrow> ('w, 'a) backend_call" where
  "refuse e w = (w, Inl e)"

definition give :: "'a \<Rightarrow> ('w, 'a) backend_call" where
  "give x w = (w, Inr x)"

section \<open>The self test\<close>

definition self_test_outcome ::
  "face_auth_self_test_payload \<Rightarrow> bool \<Rightarrow> auth_grant \<Rightarrow> face_auth_self_test_outcome" where
  "self_test_outcome p credential g =
     \<lparr>sto_session_id = stp_session_id p, sto_auth_match_passed = True, sto_grant_issued = True,
      sto_credential_material_ready = credential, sto_credential_decryption_succeeded = credential,
      sto_pipe_delivery_confirmed = True, sto_best_match_score = Some (match_score (score g)),
      sto_matched_face_template_ref = None\<rparr>"

definition fetch_for_self_test ::
  "'w pipe_request \<Rightarrow> face_auth_self_test_payload \<Rightarrow> auth_grant \<Rightarrow>
     ('w, face_auth_self_test_outcome) backend_call" where
  "fetch_for_self_test ask p g =
     ask_service ask credential_material_protocol_error
       (FetchCredentialMaterial (SessionId (stp_session_id p)) (grant_id g) (nonce g))
       (\<lambda>ev. case ev of
           CredentialMaterialReady _ _ \<Rightarrow> give (self_test_outcome p True g)
         | RequestRejected reason \<Rightarrow> refuse (credential_material_protocol_error reason)
         | _ \<Rightarrow> refuse (credential_material_unavailable
                   ''service returned an invalid credential material response''))"

definition service_self_test ::
  "'w pipe_request \<Rightarrow> face_auth_self_test_payload \<Rightarrow> ('w, face_auth_self_test_outcome) backend_call" where
  "service_self_test ask p =
     ask_service ask auth_wake_protocol_error
       (WakeAuth (SessionId (stp_session_id p)) LocalCamera CredentialScreenEntered)
       (\<lambda>ev. case ev of
           AuthSucceeded g \<Rightarrow>
             if \<not> stp_require_credential_ready p then give (self_test_outcome p False g)
             else fetch_for_self_test ask p g
         | AuthFailed _ reason \<Rightarrow> refuse (auth_failure_reason_to_control_error reason)
         | RequestRejected reason \<Rightarrow> refuse (auth_wake_protocol_error reason)
         | _ \<Rightarrow> refuse (auth_self_test_failed ''service returned an invalid wake-auth response''))"

section \<open>The template and the settings\<close>

record control_process =
  env_username :: "string option" \<comment> \<open>the variable \<open>USERNAME\<close>\<close>
  env_user :: "string option" \<comment> \<open>the variable \<open>USER\<close>\<close>
  exe_directory :: "string option" \<comment> \<open>the directory of \<open>current_exe\<close>\<close>
  process_user_sid :: "string + string"

definition service_apply_template ::
  "'w pipe_request \<Rightarrow> control_process \<Rightarrow> string \<Rightarrow> string \<Rightarrow> ('w, unit) backend_call" where
  "service_apply_template ask P template_path camera =
     (case exe_directory P of
        None \<Rightarrow> refuse (face_enrollment_failed ''Failed to determine install directory'')
      | Some install_dir \<Rightarrow>
          ask_service ask face_template_apply_protocol_error
            (ApplyLocalCameraAuthConfig template_path camera install_dir)
            (\<lambda>ev. case ev of
                AuthConfigReloaded \<Rightarrow> give ()
              | RequestRejected reason \<Rightarrow> refuse (face_template_apply_protocol_error reason)
              | _ \<Rightarrow> refuse (face_enrollment_failed
                        ''service returned an invalid auth config reload response'')))"

text \<open>\<open>load\<close> reads the settings back from the registry.\<close>

definition service_update_settings ::
  "'w pipe_request \<Rightarrow> ('w, control_settings_snapshot) backend_call \<Rightarrow> control_settings_patch \<Rightarrow>
     ('w, control_settings_snapshot) backend_call" where
  "service_update_settings ask load patch =
     (if \<not> has_updates patch \<or> \<not> has_valid_values patch
      then refuse (settings_persistence_failed ''Invalid patch'')
      else
        ask_service ask settings_update_protocol_error (UpdateSettings patch)
          (\<lambda>ev. case ev of
              AuthConfigReloaded \<Rightarrow> load
            | RequestRejected reason \<Rightarrow> refuse (settings_update_protocol_error reason)
            | _ \<Rightarrow> refuse (settings_persistence_failed
                      ''service returned an invalid settings update response'')))"

text \<open>The store that reads and writes the registry itself, where the world has one.\<close>

definition registry_load_settings ::
  "('w \<Rightarrow> config_registry) \<Rightarrow> (config_registry \<Rightarrow> 'w \<Rightarrow> 'w) \<Rightarrow> ('w, control_settings_snapshot) backend_call" where
  "registry_load_settings get put w =
     (case load_control_settings (get w) of
        (r, Inl e) \<Rightarrow> (put r w, Inl (status_reader_error e))
      | (r, Inr s) \<Rightarrow> (put r w, Inr s))"

section \<open>The credential\<close>

text \<open>\<open>USERNAME\<close>, or \<open>USER\<close> where that is not set, without the blanks around it.\<close>

definition account_username :: "control_process \<Rightarrow> string option" where
  "account_username P =
     (case (case env_username P of Some u \<Rightarrow> Some u | None \<Rightarrow> env_user P) of
        None \<Rightarrow> None
      | Some u \<Rightarrow> if trim u = [] then None else Some (trim u))"

definition resolve_windows_account_username ::
  "control_process \<Rightarrow> windows_credential_enrollment_payload \<Rightarrow> control_backend_error + string" where
  "resolve_windows_account_username P p =
     (case Option.bind (wcp_windows_account_username p) (\<lambda>u. if trim u = [] then None else Some (trim u)) of
        Some u \<Rightarrow> Inr u
      | None \<Rightarrow> ok_or (credential_enrollment_unavailable ''current Windows account username is unavailable'')
                  (account_username P))"

definition current_windows_account_username :: "control_process \<Rightarrow> control_backend_error + string" where
  "current_windows_account_username P =
     ok_or (credential_account_unavailable ''current Windows account username is unavailable'')
       (account_username P)"

definition profile_credential_ref :: string where
  "profile_credential_ref = ''windows-credential-'' @ default_control_user_id"

definition service_load_account ::
  "'w pipe_request \<Rightarrow> control_process \<Rightarrow> ('w, windows_credential_account_profile) backend_call" where
  "service_load_account ask P =
     (case current_windows_account_username P of
        Inl e \<Rightarrow> refuse e
      | Inr name \<Rightarrow>
          (case process_user_sid P of
             Inl m \<Rightarrow> refuse (credential_account_unavailable
                         (''current Windows account SID is unavailable: '' @ m))
           | Inr sid \<Rightarrow>
               ask_service ask credential_protocol_error_to_control_error
                 (CheckWindowsCredential (UserId default_control_user_id)
                    (CredentialRef profile_credential_ref))
                 (\<lambda>ev. case ev of
                     WindowsCredentialStatus configured \<Rightarrow>
                       give \<lparr>wca_windows_account_username = name, wca_display_name = None,
                             wca_user_id = default_control_user_id, wca_user_sid = sid,
                             wca_account_type = Local, wca_credential_ref = profile_credential_ref,
                             wca_credential_secret_state =
                               (if configured then SecretConfigured else SecretNotConfigured)\<rparr>
                   | RequestRejected reason \<Rightarrow>
                       refuse (credential_protocol_error_to_control_error reason)
                   | _ \<Rightarrow> refuse (credential_account_unavailable
                             ''service returned an invalid credential status response''))))"

definition service_enroll_credential ::
  "'w pipe_request \<Rightarrow> control_process \<Rightarrow> windows_credential_enrollment_payload \<Rightarrow> string \<Rightarrow>
     ('w, windows_credential_enrollment_outcome) backend_call" where
  "service_enroll_credential ask P p secret =
     (case resolve_windows_account_username P p of
        Inl e \<Rightarrow> refuse e
      | Inr name \<Rightarrow>
          ask_service ask credential_protocol_error_to_control_error
            (EnrollWindowsCredential (UserId (wcp_user_id p)) (wcp_user_sid p) name (wcp_account_type p)
               (CredentialRef (resolved_credential_ref p)) secret)
            (\<lambda>ev. case ev of
                WindowsCredentialEnrolled \<Rightarrow>
                  give \<lparr>wca_windows_account_username = name, wca_display_name = None,
                        wca_user_id = wcp_user_id p, wca_user_sid = wcp_user_sid p,
                        wca_account_type = wcp_account_type p,
                        wca_credential_ref = resolved_credential_ref p,
                        wca_credential_secret_state = SecretConfigured\<rparr>
              | RequestRejected reason \<Rightarrow> refuse (credential_protocol_error_to_control_error reason)
              | _ \<Rightarrow> refuse (credential_enrollment_failed
                        ''service returned an invalid credential enrollment response'')))"

section \<open>What is asked and what is answered\<close>

lemma ask_service_Inr:
  "ask_service ask f req k w = (w', Inr x) \<longleftrightarrow>
     (\<exists>w1 ev. ask req w = (w1, Inr ev) \<and> k ev w1 = (w', Inr x))"
  by (auto simp: ask_service_def split: prod.split sum.split)

lemma refuse_Inr [simp]: "refuse e w = (w', Inr x) \<longleftrightarrow> False"
  by (simp add: refuse_def)

lemma give_Inr [simp]: "give x w = (w', Inr y) \<longleftrightarrow> w' = w \<and> y = x"
  by (auto simp: give_def)

text \<open>An event no answer accepts is refused: only the event that is waited for gets through.\<close>

lemma self_test_passed:
  assumes "service_self_test ask p w = (w', Inr out)"
  obtains g w1 where
    "ask (WakeAuth (SessionId (stp_session_id p)) LocalCamera CredentialScreenEntered) w =
       (w1, Inr (AuthSucceeded g))"
    and "out = self_test_outcome p (stp_require_credential_ready p) g"
    and "stp_require_credential_ready p \<Longrightarrow> \<exists>k m.
       ask (FetchCredentialMaterial (SessionId (stp_session_id p)) (grant_id g) (nonce g)) w1 =
         (w', Inr (CredentialMaterialReady k m))"
    and "\<not> stp_require_credential_ready p \<Longrightarrow> w' = w1"
proof -
  from assms obtain w1 ev where wake:
    "ask (WakeAuth (SessionId (stp_session_id p)) LocalCamera CredentialScreenEntered) w = (w1, Inr ev)"
    and k: "(case ev of
           AuthSucceeded g \<Rightarrow>
             if \<not> stp_require_credential_ready p then give (self_test_outcome p False g)
             else fetch_for_self_test ask p g
         | AuthFailed _ reason \<Rightarrow> refuse (auth_failure_reason_to_control_error reason)
         | RequestRejected reason \<Rightarrow> refuse (auth_wake_protocol_error reason)
         | _ \<Rightarrow> refuse (auth_self_test_failed ''service returned an invalid wake-auth response'')) w1 =
        (w', Inr out)"
    by (auto simp: service_self_test_def ask_service_Inr)
  from k obtain g where ev: "ev = AuthSucceeded g" by (cases ev) auto
  show thesis
  proof (cases "stp_require_credential_ready p")
    case False
    with that [of w1 g] wake k ev show thesis by simp
  next
    case True
    with k ev have "fetch_for_self_test ask p g w1 = (w', Inr out)" by simp
    then obtain w2 ev' where
      "ask (FetchCredentialMaterial (SessionId (stp_session_id p)) (grant_id g) (nonce g)) w1 = (w2, Inr ev')"
      and "(case ev' of
           CredentialMaterialReady _ _ \<Rightarrow> give (self_test_outcome p True g)
         | RequestRejected reason \<Rightarrow> refuse (credential_material_protocol_error reason)
         | _ \<Rightarrow> refuse (credential_material_unavailable
                   ''service returned an invalid credential material response'')) w2 = (w', Inr out)"
      by (auto simp: fetch_for_self_test_def ask_service_Inr)
    then show thesis using that [of w1 g] wake ev True by (cases ev') auto
  qed
qed

lemma settings_updated:
  assumes "service_update_settings ask load patch w = (w', Inr s)"
  shows "has_updates patch \<and> has_valid_values patch \<and>
    (\<exists>w1. ask (UpdateSettings patch) w = (w1, Inr AuthConfigReloaded) \<and> load w1 = (w', Inr s))"
proof -
  have valid: "has_updates patch \<and> has_valid_values patch"
    using assms by (auto simp: service_update_settings_def split: if_splits)
  with assms obtain w1 ev where "ask (UpdateSettings patch) w = (w1, Inr ev)"
    and "(case ev of
              AuthConfigReloaded \<Rightarrow> load
            | RequestRejected reason \<Rightarrow> refuse (settings_update_protocol_error reason)
            | _ \<Rightarrow> refuse (settings_persistence_failed
                      ''service returned an invalid settings update response'')) w1 = (w', Inr s)"
    by (auto simp: service_update_settings_def ask_service_Inr)
  then show ?thesis using valid by (cases ev) auto
qed

lemma template_applied:
  assumes "service_apply_template ask P path camera w = (w', Inr u)"
  shows "\<exists>dir. exe_directory P = Some dir \<and>
    ask (ApplyLocalCameraAuthConfig path camera dir) w = (w', Inr AuthConfigReloaded)"
proof -
  from assms obtain dir where dir: "exe_directory P = Some dir"
    by (auto simp: service_apply_template_def split: option.splits)
  with assms obtain w1 ev where "ask (ApplyLocalCameraAuthConfig path camera dir) w = (w1, Inr ev)"
    and "(case ev of
                AuthConfigReloaded \<Rightarrow> give ()
              | RequestRejected reason \<Rightarrow> refuse (face_template_apply_protocol_error reason)
              | _ \<Rightarrow> refuse (face_enrollment_failed
                        ''service returned an invalid auth config reload response'')) w1 = (w', Inr u)"
    by (auto simp: service_apply_template_def ask_service_Inr)
  then show ?thesis using dir by (cases ev) auto
qed

lemma resolved_username_filled:
  "resolve_windows_account_username P p = Inr name \<Longrightarrow> name \<noteq> []"
  by (auto simp: resolve_windows_account_username_def account_username_def ok_or_def
      split: option.splits if_splits bind_splits)

lemma credential_enrolled:
  assumes "service_enroll_credential ask P p secret w = (w', Inr out)"
  shows "ask (EnrollWindowsCredential (UserId (wcp_user_id p)) (wcp_user_sid p)
      (wca_windows_account_username out) (wcp_account_type p) (CredentialRef (resolved_credential_ref p))
      secret) w = (w', Inr WindowsCredentialEnrolled) \<and>
    wca_windows_account_username out \<noteq> [] \<and> wca_credential_ref out = resolved_credential_ref p \<and>
    wca_credential_secret_state out = SecretConfigured"
proof -
  from assms obtain name where name: "resolve_windows_account_username P p = Inr name"
    by (auto simp: service_enroll_credential_def split: sum.splits)
  with assms obtain w1 ev where
    "ask (EnrollWindowsCredential (UserId (wcp_user_id p)) (wcp_user_sid p) name (wcp_account_type p)
       (CredentialRef (resolved_credential_ref p)) secret) w = (w1, Inr ev)"
    and "(case ev of
                WindowsCredentialEnrolled \<Rightarrow>
                  give \<lparr>wca_windows_account_username = name, wca_display_name = None,
                        wca_user_id = wcp_user_id p, wca_user_sid = wcp_user_sid p,
                        wca_account_type = wcp_account_type p,
                        wca_credential_ref = resolved_credential_ref p,
                        wca_credential_secret_state = SecretConfigured\<rparr>
              | RequestRejected reason \<Rightarrow> refuse (credential_protocol_error_to_control_error reason)
              | _ \<Rightarrow> refuse (credential_enrollment_failed
                        ''service returned an invalid credential enrollment response'')) w1 = (w', Inr out)"
    by (auto simp: service_enroll_credential_def ask_service_Inr)
  then show ?thesis using resolved_username_filled [OF name] by (cases ev) auto
qed

text \<open>The profile shown is about the reference an enrollment by default stores under.\<close>

lemma profile_ref_is_default:
  "resolved_credential_ref default_credential_payload = profile_credential_ref"
  by (simp add: resolved_credential_ref_def default_credential_payload_def profile_credential_ref_def)

end
