(* ===== verification/Enrollment_Runtime.thy ===== *)
theory Enrollment_Runtime
  imports Control_Service
begin

text \<open>
  Crate \<open>control_backend\<close> (\<open>src/lib.rs\<close>), the enrollment sessions of the control application
  (\<open>CommandFaceEnrollmentRuntime\<close>): a session runs a guided enrollment as a process of its own,
  follows the status the process writes to a file, and takes over the templates once the process has
  ended. The factory of the processes is the trait \<open>FaceEnrollmentProcessFactory\<close> with the processes
  it makes, the applier the trait \<open>FaceEnrollmentTemplateApplier\<close>; both act on the world \<open>'w\<close>, from
  which the clock and the files are read. A critical section of the sessions' lock is one operation.
\<close>

section \<open>The process and the host\<close>

record face_enrollment_exit =
  exit_success :: bool
  exit_code :: "int option"

record ('w, 'p) process_factory =
  prepare_output_dir :: "string \<Rightarrow> 'w \<Rightarrow> 'w \<times> (face_enrollment_process_error + string)"
  start_guided_enrollment ::
    "string \<Rightarrow> face_enrollment_start_payload \<Rightarrow> string \<Rightarrow> 'w \<Rightarrow> 'w \<times> (face_enrollment_process_error + 'p)"
  process_try_wait :: "'p \<Rightarrow> 'w \<Rightarrow> 'w \<times> (face_enrollment_process_error + face_enrollment_exit option)"
  process_cancel :: "'p \<Rightarrow> 'w \<Rightarrow> 'w \<times> (face_enrollment_process_error + unit)"

record runtime_face_enrollment_status =
  rfs_session_state :: face_enrollment_session_state
  rfs_current_step :: "string option"
  rfs_current_instruction_code :: "string option"
  rfs_accepted_sample_count :: u32
  rfs_required_sample_count :: "u32 option"
  rfs_last_frame_result :: "face_enrollment_frame_result option"

text \<open>The clock, in nanoseconds since the epoch; the files; the JSON parser of the status file. Time
  passes between the operations on the world, not within a step of the runtime.\<close>

record 'w runtime_host =
  host_now :: "'w \<Rightarrow> int"
  host_files :: "'w \<Rightarrow> status_world"
  parse_runtime_status :: "string \<Rightarrow> runtime_face_enrollment_status option"

section \<open>A session\<close>

record 'p enrollment_session =
  enrollment_session_id :: string
  start_payload :: face_enrollment_start_payload
  output_dir :: string
  started_at :: int
  session_state :: face_enrollment_session_state
  session_process :: "'p option"
  current_step :: "string option"
  current_instruction_code :: "string option"
  accepted_sample_count :: u32
  required_sample_count :: "u32 option"
  last_frame_result :: "face_enrollment_frame_result option"
  template_summary :: "face_template_enrollment_summary option"
  failure_message :: "string option"

definition running_session ::
  "string \<Rightarrow> face_enrollment_start_payload \<Rightarrow> string \<Rightarrow> int \<Rightarrow> 'p \<Rightarrow> 'p enrollment_session" where
  "running_session sid p dir now proc =
     \<lparr>enrollment_session_id = sid, start_payload = p, output_dir = dir, started_at = now,
      session_state = SessionRunning, session_process = Some proc, current_step = None,
      current_instruction_code = None, accepted_sample_count = 0, required_sample_count = None,
      last_frame_result = None, template_summary = None, failure_message = None\<rparr>"

definition is_running_state :: "face_enrollment_session_state \<Rightarrow> bool" where
  "is_running_state st \<longleftrightarrow>
     st \<in> {SessionStarting, SessionRunning, SessionWaitingForFace, SessionWaitingForPose,
           SessionCapturing, SessionFinishing}"

definition is_running :: "'p enrollment_session \<Rightarrow> bool" where
  "is_running s \<longleftrightarrow> is_running_state (session_state s)"

definition session_status :: "'p enrollment_session \<Rightarrow> face_enrollment_session_status" where
  "session_status s =
     \<lparr>ess_enrollment_session_id = enrollment_session_id s, ess_session_state = session_state s,
      ess_user_id = fes_user_id (start_payload s), ess_camera_id = fes_camera_id (start_payload s),
      ess_current_step = current_step s, ess_current_instruction_code = current_instruction_code s,
      ess_accepted_sample_count = accepted_sample_count s,
      ess_required_sample_count = required_sample_count s,
      ess_last_frame_result = last_frame_result s, ess_template_summary = template_summary s\<rparr>"

definition selected_templates_path :: "'p enrollment_session \<Rightarrow> string" where
  "selected_templates_path s = join_path (output_dir s) ''selected_templates.json''"

definition enrollment_face_template_ref :: "string \<Rightarrow> string" where
  "enrollment_face_template_ref sid = ''face-enrollment-template-'' @ sid"

section \<open>What the process has written\<close>

definition file_bytes :: "status_world \<Rightarrow> string \<Rightarrow> string option" where
  "file_bytes fs path = (case file_read fs path of Inl _ \<Rightarrow> None | Inr bytes \<Rightarrow> Some bytes)"

definition read_runtime_face_enrollment_status ::
  "'w runtime_host \<Rightarrow> string \<Rightarrow> 'w \<Rightarrow> runtime_face_enrollment_status option" where
  "read_runtime_face_enrollment_status H dir w =
     Option.bind (file_bytes (host_files H w) (join_path dir ''enrollment_status.json''))
       (parse_runtime_status H)"

definition apply_runtime_face_enrollment_status ::
  "'w runtime_host \<Rightarrow> 'w \<Rightarrow> 'p enrollment_session \<Rightarrow> 'p enrollment_session" where
  "apply_runtime_face_enrollment_status H w s =
     (case read_runtime_face_enrollment_status H (output_dir s) w of
        None \<Rightarrow> s
      | Some r \<Rightarrow>
          (if is_running_state (rfs_session_state r) then s\<lparr>session_state := rfs_session_state r\<rparr> else s)
            \<lparr>current_step := rfs_current_step r,
             current_instruction_code := rfs_current_instruction_code r,
             accepted_sample_count := rfs_accepted_sample_count r,
             required_sample_count := rfs_required_sample_count r,
             last_frame_result := rfs_last_frame_result r\<rparr>)"

definition read_enrollment_preview_frame ::
  "status_world \<Rightarrow> 'p enrollment_session \<Rightarrow> face_enrollment_preview_frame" where
  "read_enrollment_preview_frame fs s =
     (let path = join_path (output_dir s) ''preview_frame.jpg''
      in case file_bytes fs path of
           None \<Rightarrow>
             \<lparr>epf_enrollment_session_id = enrollment_session_id s, epf_preview_available = False,
              epf_mime_type = None, epf_image_base64 = None, epf_frame_updated_at_unix_ms = None\<rparr>
         | Some bytes \<Rightarrow>
             \<lparr>epf_enrollment_session_id = enrollment_session_id s, epf_preview_available = True,
              epf_mime_type = Some ''image/jpeg'', epf_image_base64 = Some (base64_encode fs bytes),
              epf_frame_updated_at_unix_ms =
                (case file_modified fs path of Inl _ \<Rightarrow> None | Inr modified \<Rightarrow> modified)\<rparr>)"

definition read_enrollment_template_summary ::
  "status_world \<Rightarrow> 'p enrollment_session \<Rightarrow> control_backend_error + face_template_enrollment_summary" where
  "read_enrollment_template_summary fs s =
     (case summarize_selected_face_template_file fs (selected_templates_path s)
             (enrollment_face_template_ref (enrollment_session_id s)) RepositoryTemplate of
        Inl e \<Rightarrow> Inl (face_enrollment_template_status_error_to_control_error e)
      | Inr t \<Rightarrow>
          Inr \<lparr>tes_selected_template_count = fts_selected_template_count t,
               tes_rejected_sample_count =
                 (case fts_rejected_sample_count t of Some n \<Rightarrow> n | None \<Rightarrow> 0)\<rparr>)"

section \<open>Following the process\<close>

definition face_enrollment_startup_timeout :: int where
  "face_enrollment_startup_timeout = 12 * 10 ^ 9"

text \<open>\<open>started_at.elapsed()\<close> is an error when the clock went back.\<close>

definition startup_timed_out :: "int \<Rightarrow> 'p enrollment_session \<Rightarrow> bool" where
  "startup_timed_out now s \<longleftrightarrow>
     session_state s = SessionStarting \<and> started_at s \<le> now \<and>
     now - started_at s > face_enrollment_startup_timeout"

definition decimal_int :: "int \<Rightarrow> string" where
  "decimal_int i = (if i < 0 then ''-'' @ decimal (nat (- i)) else decimal (nat i))"

text \<open>The process has ended.\<close>

definition settle_session ::
  "status_world \<Rightarrow> face_enrollment_exit \<Rightarrow> 'p enrollment_session \<Rightarrow>
     'p enrollment_session \<times> (control_backend_error + unit)" where
  "settle_session fs exit s0 =
     (let s = s0\<lparr>session_process := None\<rparr>
      in if exit_success exit then
           (case read_enrollment_template_summary fs s of
              Inr t \<Rightarrow>
                (s\<lparr>template_summary := Some t, session_state := SessionCompleted, failure_message := None\<rparr>,
                 Inr ())
            | Inl e \<Rightarrow>
                (s\<lparr>session_state := SessionFailed, failure_message := Some (be_message e)\<rparr>, Inl e))
         else
           (s\<lparr>session_state := SessionFailed,
              failure_message :=
                Some (''face enrollment command failed with exit code '' @
                  (case exit_code exit of Some c \<Rightarrow> decimal_int c | None \<Rightarrow> ''unknown''))\<rparr>, Inr ()))"

text \<open>The session is changed in place, also when an error is returned.\<close>

type_synonym ('w, 'p, 'a) session_op =
  "'p enrollment_session \<Rightarrow> 'w \<Rightarrow> 'w \<times> 'p enrollment_session \<times> (control_backend_error + 'a)"

definition end_process ::
  "('w, 'p) process_factory \<Rightarrow> ('p enrollment_session \<Rightarrow> 'p enrollment_session) \<Rightarrow> ('w, 'p, unit) session_op" where
  "end_process F f s w =
     (case session_process s of
        None \<Rightarrow> (w, f s, Inr ())
      | Some proc \<Rightarrow>
          (case process_cancel F proc w of
             (w1, Inl e) \<Rightarrow> (w1, s, Inl (face_enrollment_process_error_to_control_error e))
           | (w1, Inr _) \<Rightarrow> (w1, f (s\<lparr>session_process := None\<rparr>), Inr ())))"

definition startup_failure :: string where
  "startup_failure = ''camera startup did not produce a readable frame within 12 seconds''"

definition refresh_session :: "'w runtime_host \<Rightarrow> ('w, 'p) process_factory \<Rightarrow> ('w, 'p, unit) session_op" where
  "refresh_session H F s0 w =
     (if \<not> is_running s0 then (w, s0, Inr ())
      else
        let s = apply_runtime_face_enrollment_status H w s0
        in if startup_timed_out (host_now H w) s
           then end_process F
                  (\<lambda>s. s\<lparr>session_state := SessionFailed, failure_message := Some startup_failure\<rparr>) s w
           else
             case session_process s of
               None \<Rightarrow> (w, s, Inr ())
             | Some proc \<Rightarrow>
                 (case process_try_wait F proc w of
                    (w1, Inl e) \<Rightarrow> (w1, s, Inl (face_enrollment_process_error_to_control_error e))
                  | (w1, Inr None) \<Rightarrow> (w1, s, Inr ())
                  | (w1, Inr (Some exit)) \<Rightarrow> (w1, settle_session (host_files H w1) exit s)))"

section \<open>The operations\<close>

record 'p enrollment_runtime =
  enrollment_sessions :: "string \<rightharpoonup> 'p enrollment_session"
  sessions_poisoned :: bool

type_synonym ('w, 'p, 'a) runtime_op =
  "'p enrollment_runtime \<Rightarrow> 'w \<Rightarrow> 'w \<times> 'p enrollment_runtime \<times> (control_backend_error + 'a)"

definition new_runtime :: "'p enrollment_runtime" where
  "new_runtime = \<lparr>enrollment_sessions = Map.empty, sessions_poisoned = False\<rparr>"

definition locked_sessions :: "('w, 'p, 'a) runtime_op \<Rightarrow> ('w, 'p, 'a) runtime_op" where
  "locked_sessions f rt w =
     (if sessions_poisoned rt
      then (w, rt, Inl (face_enrollment_unavailable ''face enrollment session state is unavailable''))
      else f rt w)"

definition put_session :: "string \<Rightarrow> 'p enrollment_session \<Rightarrow> 'p enrollment_runtime \<Rightarrow> 'p enrollment_runtime" where
  "put_session k s rt = rt\<lparr>enrollment_sessions := (enrollment_sessions rt)(k \<mapsto> s)\<rparr>"

text \<open>\<open>values_mut().try_fold\<close>: the table is iterated in an order of its own, \<open>order\<close>, which is
  the argument of the operation; the first error ends it.\<close>

fun refresh_all ::
  "'w runtime_host \<Rightarrow> ('w, 'p) process_factory \<Rightarrow> string list \<Rightarrow> bool \<Rightarrow> ('w, 'p, bool) runtime_op" where
  "refresh_all H F [] has_running rt w = (w, rt, Inr has_running)"
| "refresh_all H F (k # ks) has_running rt w =
     (case enrollment_sessions rt k of
        None \<Rightarrow> refresh_all H F ks has_running rt w
      | Some s \<Rightarrow>
          (case refresh_session H F s w of
             (w1, s1, Inl e) \<Rightarrow> (w1, put_session k s1 rt, Inl e)
           | (w1, s1, Inr _) \<Rightarrow>
               refresh_all H F ks (has_running \<or> is_running s1) (put_session k s1 rt) w1))"

definition current_unix_ms :: "int \<Rightarrow> nat" where
  "current_unix_ms now = (if now < 0 then 0 else min (nat (now div 10 ^ 6)) (2 ^ 63 - 1))"

text \<open>The first free name of \<open>base-number\<close>, \<open>base-(number+1)\<close>, .., of \<open>count\<close> of them.\<close>

fun free_name :: "(string \<Rightarrow> bool) \<Rightarrow> string \<Rightarrow> nat \<Rightarrow> nat \<Rightarrow> string option" where
  "free_name taken base number count =
     (if count = 0 then None
      else let candidate = base @ ''-'' @ decimal number
           in if taken candidate then free_name taken base (Suc number) (count - 1) else Some candidate)"

declare free_name.simps [simp del]

definition next_face_enrollment_session_id :: "(string \<rightharpoonup> 'a) \<Rightarrow> int \<Rightarrow> string" where
  "next_face_enrollment_session_id sessions now =
     (let taken = (\<lambda>k. sessions k \<noteq> None); base = ''face-enrollment-'' @ decimal (current_unix_ms now)
      in if \<not> taken base then base
         else case free_name taken base 1 (2 ^ 32 - 1) of
                Some name \<Rightarrow> name
              | None \<Rightarrow> base @ ''-fallback'')"

definition start_face_enrollment ::
  "'w runtime_host \<Rightarrow> ('w, 'p) process_factory \<Rightarrow> string list \<Rightarrow> face_enrollment_start_payload \<Rightarrow>
     ('w, 'p, face_enrollment_session_status) runtime_op" where
  "start_face_enrollment H F order payload = locked_sessions (\<lambda>rt w.
     case refresh_all H F order False rt w of
       (w1, rt1, Inl e) \<Rightarrow> (w1, rt1, Inl e)
     | (w1, rt1, Inr True) \<Rightarrow>
         (w1, rt1, Inl (face_enrollment_already_running ''another face enrollment session is already running''))
     | (w1, rt1, Inr False) \<Rightarrow>
         (let sid = next_face_enrollment_session_id (enrollment_sessions rt1) (host_now H w1)
          in case prepare_output_dir F sid w1 of
               (w2, Inl e) \<Rightarrow> (w2, rt1, Inl (face_enrollment_process_error_to_control_error e))
             | (w2, Inr dir) \<Rightarrow>
                 (case start_guided_enrollment F sid payload dir w2 of
                    (w3, Inl e) \<Rightarrow> (w3, rt1, Inl (face_enrollment_process_error_to_control_error e))
                  | (w3, Inr proc) \<Rightarrow>
                      (let s = running_session sid payload dir (host_now H w3) proc
                       in (w3, put_session sid s rt1, Inr (session_status s))))))"

text \<open>The session of a payload, refreshed; \<open>k\<close> goes on with it.\<close>

definition with_session ::
  "'w runtime_host \<Rightarrow> ('w, 'p) process_factory \<Rightarrow> string \<Rightarrow> ('w, 'p, 'a) session_op \<Rightarrow> ('w, 'p, 'a) runtime_op" where
  "with_session H F sid k = locked_sessions (\<lambda>rt w.
     case enrollment_sessions rt sid of
       None \<Rightarrow> (w, rt, Inl (face_enrollment_session_not_found
                         (''face enrollment session '' @ sid @ '' was not found'')))
     | Some s \<Rightarrow>
         (case refresh_session H F s w of
            (w1, s1, Inl e) \<Rightarrow> (w1, put_session sid s1 rt, Inl e)
          | (w1, s1, Inr _) \<Rightarrow> (case k s1 w1 of (w2, s2, r) \<Rightarrow> (w2, put_session sid s2 rt, r))))"

definition get_face_enrollment_status ::
  "'w runtime_host \<Rightarrow> ('w, 'p) process_factory \<Rightarrow> face_enrollment_session_payload \<Rightarrow>
     ('w, 'p, face_enrollment_session_status) runtime_op" where
  "get_face_enrollment_status H F p =
     with_session H F (fep_enrollment_session_id p) (\<lambda>s w. (w, s, Inr (session_status s)))"

definition get_face_enrollment_preview ::
  "'w runtime_host \<Rightarrow> ('w, 'p) process_factory \<Rightarrow> face_enrollment_session_payload \<Rightarrow>
     ('w, 'p, face_enrollment_preview_frame) runtime_op" where
  "get_face_enrollment_preview H F p =
     with_session H F (fep_enrollment_session_id p)
       (\<lambda>s w. (w, s, Inr (read_enrollment_preview_frame (host_files H w) s)))"

definition cancel_session :: "('w, 'p) process_factory \<Rightarrow> ('w, 'p, face_enrollment_session_status) session_op" where
  "cancel_session F s w =
     (if \<not> is_running s then (w, s, Inr (session_status s))
      else case end_process F (\<lambda>s. s\<lparr>session_state := SessionCancelled, failure_message := None\<rparr>) s w of
             (w1, s1, Inl e) \<Rightarrow> (w1, s1, Inl e)
           | (w1, s1, Inr _) \<Rightarrow> (w1, s1, Inr (session_status s1)))"

definition cancel_face_enrollment ::
  "'w runtime_host \<Rightarrow> ('w, 'p) process_factory \<Rightarrow> face_enrollment_session_payload \<Rightarrow>
     ('w, 'p, face_enrollment_session_status) runtime_op" where
  "cancel_face_enrollment H F p = with_session H F (fep_enrollment_session_id p) (cancel_session F)"

type_synonym 'w template_applier = "string \<Rightarrow> string \<Rightarrow> ('w, unit) backend_call"

definition finish_session ::
  "'w template_applier \<Rightarrow> ('w, 'p, face_enrollment_finish_outcome) session_op" where
  "finish_session A s w =
     (case session_state s of
        SessionCompleted \<Rightarrow>
          (case template_summary s of
             None \<Rightarrow> (w, s, Inl (face_enrollment_failed
                               ''completed face enrollment session is missing template summary''))
           | Some t \<Rightarrow>
               (case A (selected_templates_path s) (fes_camera_id (start_payload s)) w of
                  (w1, Inl e) \<Rightarrow> (w1, s, Inl e)
                | (w1, Inr _) \<Rightarrow>
                    (w1, s, Inr \<lparr>efo_enrollment_session_id = enrollment_session_id s,
                                 efo_session_state = SessionCompleted,
                                 efo_face_template_ref =
                                   enrollment_face_template_ref (enrollment_session_id s),
                                 efo_user_id = fes_user_id (start_payload s),
                                 efo_template_summary = t, efo_service_auth_configured = True,
                                 efo_service_auth_configuration_error = None\<rparr>)))
      | SessionFailed \<Rightarrow>
          (w, s, Inl (face_enrollment_failed
             (case failure_message s of
                Some m \<Rightarrow> m
              | None \<Rightarrow> ''face enrollment session failed before a template was generated'')))
      | SessionCancelled \<Rightarrow>
          (w, s, Inl (face_enrollment_cancelled ''face enrollment session was cancelled''))
      | _ \<Rightarrow> (w, s, Inl (face_enrollment_failed ''face enrollment session is still running'')))"

definition finish_face_enrollment ::
  "'w runtime_host \<Rightarrow> ('w, 'p) process_factory \<Rightarrow> 'w template_applier \<Rightarrow> face_enrollment_session_payload \<Rightarrow>
     ('w, 'p, face_enrollment_finish_outcome) runtime_op" where
  "finish_face_enrollment H F A p =
     with_session H F (fep_enrollment_session_id p) (finish_session A)"

end
