(* ===== verification/Enrollment_Process.thy ===== *)
theory Enrollment_Process
  imports Enrollment_Runtime
begin

text \<open>
  Crate \<open>control_backend\<close> (\<open>src/lib.rs\<close>), the enrollment process: the command line of
  \<open>diagnostics_cli\<close> that runs it (\<open>DiagnosticsCliEnrollmentProcessFactory\<close>), the child process
  (\<open>ChildFaceEnrollmentProcess\<close>), the preview frames it prints, and the list of cameras. The child
  processes, the files and the environment are what the control application finds
  (\<open>enroll_world\<close>); a list of failures says what happens to the next calls.
\<close>

section \<open>What is found outside\<close>

datatype child_state = ChildNone | ChildAlive | ChildExited face_enrollment_exit

datatype spawn_error = SpawnNotFound | SpawnPermissionDenied | SpawnOther string

record command_line =
  cmd_program :: string
  cmd_args :: "string list"
  cmd_dir :: "string option"

record command_output =
  out_success :: bool
  out_stdout :: string
  out_stderr :: string

record 's enroll_world =
  ew_now :: int
  ew_files :: status_world
  ew_env :: "string \<Rightarrow> string option"
  ew_exe_dir :: "string option"
  ew_mkdir_error :: "string \<Rightarrow> string option"
  ew_children :: "nat \<Rightarrow> child_state"
  ew_commands :: "command_line list" \<comment> \<open>child number \<open>i\<close> was started by command \<open>i\<close>\<close>
  ew_spawn_faults :: "spawn_error option list"
  ew_child_faults :: "string option list"
  ew_run :: "command_line \<Rightarrow> spawn_error + command_output"
  ew_service :: 's \<comment> \<open>the service behind the pipe\<close>

text \<open>What happens to the next call of a child; with an empty list it succeeds.\<close>

definition child_call :: "'s enroll_world \<Rightarrow> 's enroll_world \<times> string option" where
  "child_call w =
     (case ew_child_faults w of
        [] \<Rightarrow> (w, None)
      | f # fs \<Rightarrow> (w\<lparr>ew_child_faults := fs\<rparr>, f))"

definition spawn_child :: "command_line \<Rightarrow> 's enroll_world \<Rightarrow> 's enroll_world \<times> (spawn_error + nat)" where
  "spawn_child cmd w =
     (case ew_spawn_faults w of
        Some e # fs \<Rightarrow> (w\<lparr>ew_spawn_faults := fs\<rparr>, Inl e)
      | fs \<Rightarrow>
          (let c = length (ew_commands w)
           in (w\<lparr>ew_spawn_faults := tl fs, ew_children := (ew_children w)(c := ChildAlive),
                 ew_commands := ew_commands w @ [cmd]\<rparr>, Inr c)))"

section \<open>The factory\<close>

record cli_factory =
  diagnostics_cli_path :: string
  enrollment_root_dir :: string

definition default_install_dir :: "'s enroll_world \<Rightarrow> string" where
  "default_install_dir w =
     (case ew_exe_dir w of Some dir \<Rightarrow> dir | None \<Rightarrow> windows_text ''C:/WinFaceUnlock'')"

definition control_install_dir :: "'s enroll_world \<Rightarrow> string" where
  "control_install_dir w =
     (case ew_env w ''WINFACEUNLOCK_INSTALL_DIR'' of Some dir \<Rightarrow> dir | None \<Rightarrow> default_install_dir w)"

definition cli_factory_from_environment :: "'s enroll_world \<Rightarrow> cli_factory" where
  "cli_factory_from_environment w =
     \<lparr>diagnostics_cli_path =
        (case ew_env w ''WINFACEUNLOCK_DIAGNOSTICS_CLI'' of
           Some p \<Rightarrow> p | None \<Rightarrow> join_path (control_install_dir w) ''diagnostics_cli.exe''),
      enrollment_root_dir =
        (case ew_env w ''WINFACEUNLOCK_FACE_ENROLLMENT_OUTPUT_DIR'' of
           Some p \<Rightarrow> p | None \<Rightarrow> join_path (control_install_dir w) ''face-enrollment'')\<rparr>"

text \<open>The name is read as bytes: a character beyond ASCII, several of them, gives as many dashes.\<close>

definition sanitize_session_path_segment :: "string \<Rightarrow> string" where
  "sanitize_session_path_segment value =
     (let s = map (\<lambda>c. if is_ascii_alphanumeric c \<or> c = CHR ''-'' \<or> c = CHR ''_'' then c else CHR ''-'') value
      in if s = [] then ''face-enrollment-session'' else s)"

definition cli_prepare_output_dir ::
  "cli_factory \<Rightarrow> string \<Rightarrow> 's enroll_world \<Rightarrow> 's enroll_world \<times> (face_enrollment_process_error + string)" where
  "cli_prepare_output_dir f sid w =
     (let dir = join_path (enrollment_root_dir f) (sanitize_session_path_segment sid)
      in case ew_mkdir_error w dir of
           Some e \<Rightarrow> (w, Inl (OutputDirectoryUnavailable
                        (''face enrollment output directory is unavailable: '' @ e)))
         | None \<Rightarrow>
             (w\<lparr>ew_files := (ew_files w)\<lparr>path_exists := (path_exists (ew_files w))(dir := True)\<rparr>\<rparr>, Inr dir))"

section \<open>The files of the models\<close>

text \<open>\<open>find_model_path_in_ancestors\<close>: the directories above the program, from the nearest on. The
  parent of a path is shorter, so the search ends.\<close>

function model_in_ancestors :: "status_world \<Rightarrow> string \<Rightarrow> string option \<Rightarrow> string option" where
  "model_in_ancestors fs rel None = None"
| "model_in_ancestors fs rel (Some dir) =
     (let candidate = join_path dir rel
      in if path_exists fs candidate then Some candidate
         else model_in_ancestors fs rel (path_parent dir))"
  by pat_completeness auto
termination
  by (relation "measure (\<lambda>(_, _, d). case d of None \<Rightarrow> 0 | Some s \<Rightarrow> Suc (length s))")
    (auto simp: path_parent_shorter split: option.split)

declare model_in_ancestors.simps(2) [simp del]

definition resolve_model_path :: "cli_factory \<Rightarrow> string \<Rightarrow> string \<Rightarrow> 's enroll_world \<Rightarrow> string" where
  "resolve_model_path f env_key rel w =
     (case ew_env w env_key of
        Some p \<Rightarrow> p
      | None \<Rightarrow>
          (case model_in_ancestors (ew_files w) rel (path_parent (diagnostics_cli_path f)) of
             Some p \<Rightarrow> p
           | None \<Rightarrow> join_path (control_install_dir w) rel))"

section \<open>Starting the process\<close>

definition cli_command :: "cli_factory \<Rightarrow> string list \<Rightarrow> command_line" where
  "cli_command f args =
     \<lparr>cmd_program = diagnostics_cli_path f, cmd_args = args, cmd_dir = path_parent (diagnostics_cli_path f)\<rparr>"

definition guided_enroll_args ::
  "cli_factory \<Rightarrow> string \<Rightarrow> face_enrollment_start_payload \<Rightarrow> string \<Rightarrow> 's enroll_world \<Rightarrow> string list" where
  "guided_enroll_args f sid p dir w =
     [''guided-enroll'',
      ''--output-dir'', dir,
      ''--camera-id'', fes_camera_id p,
      ''--yunet-model'',
        resolve_model_path f ''WINFACEUNLOCK_YUNET_MODEL_PATH'' ''models/face_detection_yunet_2023mar.onnx'' w,
      ''--sface-model'',
        resolve_model_path f ''WINFACEUNLOCK_SFACE_MODEL_PATH'' ''models/ghostfacenet_v1_stride2.onnx'' w,
      ''--user-id'', fes_user_id p,
      ''--enrollment-id'', sid,
      ''--accepted-frames-per-step'', ''6'',
      ''--max-wait-frames-per-step'', ''180'',
      ''--max-frames-per-step'', ''180'',
      ''--pose-ready-consecutive'', ''3'',
      ''--pose-ready-min-fit'', ''0.25'',
      ''--frame-delay-ms'', ''60''] @
     (if fes_allow_partial_enrollment p then [''--allow-partial-enrollment''] else [])"

definition enrollment_runtime_missing :: face_enrollment_process_error where
  "enrollment_runtime_missing = MissingDiagnosticsCli ''face enrollment runtime executable is unavailable''"

definition cli_start_guided_enrollment ::
  "cli_factory \<Rightarrow> string \<Rightarrow> face_enrollment_start_payload \<Rightarrow> string \<Rightarrow> 's enroll_world \<Rightarrow>
     's enroll_world \<times> (face_enrollment_process_error + nat)" where
  "cli_start_guided_enrollment f sid p dir w =
     (if \<not> path_exists (ew_files w) (diagnostics_cli_path f) then (w, Inl enrollment_runtime_missing)
      else
        case spawn_child (cli_command f (guided_enroll_args f sid p dir w)) w of
          (w1, Inr c) \<Rightarrow> (w1, Inr c)
        | (w1, Inl e) \<Rightarrow>
            (w1, Inl (case e of
                SpawnNotFound \<Rightarrow> enrollment_runtime_missing
              | SpawnPermissionDenied \<Rightarrow>
                  EnrollmentPermissionDenied ''permission denied while starting face enrollment''
              | SpawnOther m \<Rightarrow> ProcessStartFailed (''failed to start face enrollment process: '' @ m))))"

section \<open>The child process\<close>

definition query_child :: "nat \<Rightarrow> 's enroll_world \<Rightarrow> 's enroll_world \<times> (string + face_enrollment_exit option)" where
  "query_child c w =
     (case child_call w of
        (w1, Some e) \<Rightarrow> (w1, Inl e)
      | (w1, None) \<Rightarrow>
          (w1, Inr (case ew_children w1 c of ChildExited x \<Rightarrow> Some x | _ \<Rightarrow> None)))"

definition child_try_wait ::
  "nat \<Rightarrow> 's enroll_world \<Rightarrow> 's enroll_world \<times> (face_enrollment_process_error + face_enrollment_exit option)" where
  "child_try_wait c w =
     (case query_child c w of
        (w1, Inl e) \<Rightarrow> (w1, Inl (ProcessStatusFailed (''failed to query face enrollment process: '' @ e)))
      | (w1, Inr x) \<Rightarrow> (w1, Inr x))"

text \<open>A killed process exits without success; the result of the wait is ignored.\<close>

definition kill_child :: "nat \<Rightarrow> 's enroll_world \<Rightarrow> 's enroll_world \<times> (string + unit)" where
  "kill_child c w =
     (case child_call w of
        (w1, Some e) \<Rightarrow> (w1, Inl e)
      | (w1, None) \<Rightarrow>
          (w1\<lparr>ew_children := (ew_children w1)
                (c := ChildExited \<lparr>exit_success = False, exit_code = Some 1\<rparr>)\<rparr>, Inr ()))"

definition child_cancel ::
  "nat \<Rightarrow> 's enroll_world \<Rightarrow> 's enroll_world \<times> (face_enrollment_process_error + unit)" where
  "child_cancel c w =
     (case query_child c w of
        (w1, Inr (Some _)) \<Rightarrow> (w1, Inr ())
      | (w1, Inr None) \<Rightarrow>
          (case kill_child c w1 of
             (w2, Inl e) \<Rightarrow> (w2, Inl (ProcessCancelFailed (''failed to cancel face enrollment process: '' @ e)))
           | (w2, Inr _) \<Rightarrow> (fst (child_call w2), Inr ()))
      | (w1, Inl e) \<Rightarrow>
          (w1, Inl (ProcessStatusFailed
             (''failed to query face enrollment process before cancellation: '' @ e))))"

definition cli_processes :: "cli_factory \<Rightarrow> ('s enroll_world, nat) process_factory" where
  "cli_processes f =
     \<lparr>prepare_output_dir = cli_prepare_output_dir f,
      start_guided_enrollment = cli_start_guided_enrollment f,
      process_try_wait = child_try_wait, process_cancel = child_cancel\<rparr>"

definition cli_host :: "(string \<Rightarrow> runtime_face_enrollment_status option) \<Rightarrow> 's enroll_world runtime_host" where
  "cli_host parse = \<lparr>host_now = ew_now, host_files = ew_files, parse_runtime_status = parse\<rparr>"

text \<open>The applier of the control application: the service is asked over its pipe.\<close>

definition enrollment_applier ::
  "'s pipe_request \<Rightarrow> control_process \<Rightarrow> 's enroll_world template_applier" where
  "enrollment_applier ask P path camera w =
     (case service_apply_template ask P path camera (ew_service w) of
        (s1, r) \<Rightarrow> (w\<lparr>ew_service := s1\<rparr>, r))"

section \<open>The preview\<close>

record preview_frame_event =
  pfe_mime_type :: string
  pfe_image_base64 :: string

text \<open>The file a line of the process writes: \<open>parse\<close> is the JSON parser, \<open>decode\<close> base64. The result
  of the write is ignored.\<close>

definition persist_enrollment_preview_frame ::
  "(string \<Rightarrow> preview_frame_event option) \<Rightarrow> (string \<Rightarrow> string option) \<Rightarrow> string \<Rightarrow> string \<Rightarrow>
     (string \<times> string) option" where
  "persist_enrollment_preview_frame parse decode dir event_json =
     Option.bind (parse event_json) (\<lambda>ev.
       if pfe_mime_type ev \<noteq> ''image/jpeg'' \<or> pfe_image_base64 ev = [] then None
       else map_option (\<lambda>bytes. (join_path dir ''preview_frame.jpg'', bytes)) (decode (pfe_image_base64 ev)))"

text \<open>\<open>spawn_preview_event_forwarder\<close>: the lines read until the first error, the events passed on and
  the files written, in order.\<close>

fun forward_preview_events ::
  "(string \<Rightarrow> preview_frame_event option) \<Rightarrow> (string \<Rightarrow> string option) \<Rightarrow> string \<Rightarrow>
     (string + string) list \<Rightarrow> string list \<times> (string \<times> string) list" where
  "forward_preview_events parse decode dir (Inr line # rest) =
     (case forward_preview_events parse decode dir rest of
        (evs, files) \<Rightarrow>
          (case strip_prefix ''WINFACEUNLOCK_PREVIEW_FRAME '' line of
             None \<Rightarrow> (evs, files)
           | Some event_json \<Rightarrow>
               (event_json # evs,
                (case persist_enrollment_preview_frame parse decode dir event_json of
                   None \<Rightarrow> files | Some f \<Rightarrow> f # files))))"
| "forward_preview_events parse decode dir _ = ([], [])"

section \<open>The cameras\<close>

definition parse_camera_line :: "string \<Rightarrow> camera_device_summary option" where
  "parse_camera_line line =
     Option.bind (strip_prefix ''camera: '' line) (\<lambda>camera.
     Option.bind (split_once (CHR '' '') camera) (\<lambda>(cid, name).
       if trim cid = [] then None
       else Some \<lparr>cds_camera_id = trim cid, cds_display_name = trim name\<rparr>))"

definition parse_diagnostics_camera_list :: "string \<Rightarrow> camera_device_list" where
  "parse_diagnostics_camera_list output = \<lparr>cameras = List.map_filter parse_camera_line (text_lines output)\<rparr>"

definition cli_list_cameras ::
  "cli_factory \<Rightarrow> 's enroll_world \<Rightarrow> face_enrollment_process_error + camera_device_list" where
  "cli_list_cameras f w =
     (if \<not> path_exists (ew_files w) (diagnostics_cli_path f)
      then Inl (MissingDiagnosticsCli ''camera discovery runtime executable is unavailable'')
      else
        case ew_run w (cli_command f [''list-cameras'']) of
          Inl SpawnNotFound \<Rightarrow>
            Inl (MissingDiagnosticsCli ''camera discovery runtime executable is unavailable'')
        | Inl SpawnPermissionDenied \<Rightarrow>
            Inl (EnrollmentPermissionDenied ''permission denied while listing cameras'')
        | Inl (SpawnOther m) \<Rightarrow> Inl (ProcessStartFailed (''failed to list cameras: '' @ m))
        | Inr out \<Rightarrow>
            if \<not> out_success out
            then Inl (EnrollmentCameraUnavailable (''camera discovery failed: '' @ trim (out_stderr out)))
            else Inr (parse_diagnostics_camera_list (out_stdout out)))"

definition list_cameras :: "cli_factory \<Rightarrow> 's enroll_world \<Rightarrow> control_backend_error + camera_device_list" where
  "list_cameras f w =
     (case cli_list_cameras f w of
        Inl e \<Rightarrow> Inl (face_enrollment_process_error_to_control_error e)
      | Inr cs \<Rightarrow> Inr cs)"

end
