(* ===== verification/Enrollment_Runtime_Properties.thy ===== *)
theory Enrollment_Runtime_Properties
  imports Enrollment_Process
begin

text \<open>
  The enrollment sessions in any order of operations, with a world that changes between them. The
  locale \<open>enrollment_processes\<close> states what the runtime relies on in the processes it starts; it is
  interpreted for the child processes of the command line.
\<close>

section \<open>One operation on a session\<close>

text \<open>A session has a process as long as it runs, and is completed only with a template.\<close>

definition session_ok :: "'p enrollment_session \<Rightarrow> bool" where
  "session_ok s \<longleftrightarrow>
     (is_running s \<longleftrightarrow> session_process s \<noteq> None) \<and>
     (session_state s = SessionCompleted \<longrightarrow>
        (\<exists>t. template_summary s = Some t \<and> tes_selected_template_count t \<noteq> 0))"

text \<open>The session keeps its identity; one that has ended is left alone.\<close>

definition session_follows :: "'p enrollment_session \<Rightarrow> 'p enrollment_session \<Rightarrow> bool" where
  "session_follows s s1 \<longleftrightarrow>
     enrollment_session_id s1 = enrollment_session_id s \<and> start_payload s1 = start_payload s \<and>
     output_dir s1 = output_dir s \<and> (session_ok s \<longrightarrow> session_ok s1) \<and> (\<not> is_running s \<longrightarrow> s1 = s) \<and>
     (session_process s1 = session_process s \<or> session_process s1 = None)"

lemma session_follows_refl [simp]: "session_follows s s"
  by (simp add: session_follows_def)

lemma session_follows_trans: "session_follows s s1 \<Longrightarrow> session_follows s1 s2 \<Longrightarrow> session_follows s s2"
  by (auto simp: session_follows_def)

lemma running_states [simp]:
  "is_running_state SessionRunning" "\<not> is_running_state SessionCompleted"
  "\<not> is_running_state SessionFailed" "\<not> is_running_state SessionCancelled"
  "is_running_state SessionStarting"
  by (simp_all add: is_running_state_def)

lemma template_summary_not_empty:
  "read_enrollment_template_summary fs s = Inr t \<Longrightarrow> tes_selected_template_count t \<noteq> 0"
  by (auto simp: read_enrollment_template_summary_def dest: summary_not_empty split: sum.splits)

text \<open>The status file changes the phase of a running session, not that it runs.\<close>

lemma apply_runtime_status_simps [simp]:
  "enrollment_session_id (apply_runtime_face_enrollment_status H w s) = enrollment_session_id s"
  "start_payload (apply_runtime_face_enrollment_status H w s) = start_payload s"
  "output_dir (apply_runtime_face_enrollment_status H w s) = output_dir s"
  "session_process (apply_runtime_face_enrollment_status H w s) = session_process s"
  "template_summary (apply_runtime_face_enrollment_status H w s) = template_summary s"
  by (simp_all add: apply_runtime_face_enrollment_status_def split: option.split)

lemma apply_runtime_status_running:
  "is_running s \<Longrightarrow> is_running (apply_runtime_face_enrollment_status H w s)"
  by (auto simp: apply_runtime_face_enrollment_status_def is_running_def split: option.split)

lemma apply_runtime_status_follows:
  assumes "is_running s"
  shows "session_follows s (apply_runtime_face_enrollment_status H w s)"
  using apply_runtime_status_running [OF assms, of H w] assms
  by (auto simp: session_follows_def session_ok_def is_running_def)

lemma settle_session_follows:
  assumes "is_running s"
  shows "session_follows s (fst (settle_session fs exit s))"
    and "session_process (fst (settle_session fs exit s)) = None"
  using assms template_summary_not_empty
  by (auto simp: settle_session_def session_follows_def session_ok_def is_running_def Let_def
      split: sum.split)

lemma refresh_all_has_running: "refresh_all H F ks h rt w = (w', rt', Inr False) \<Longrightarrow> \<not> h"
  by (induction ks arbitrary: h rt w) (auto split: option.splits prod.splits sum.splits)

section \<open>Names of sessions\<close>

lemma decimal_inj: "decimal m = decimal n \<Longrightarrow> m = n"
  by (metis undecimal_decimal)

lemma free_name_None:
  "free_name taken base number count = None \<Longrightarrow> i < count \<Longrightarrow> taken (base @ ''-'' @ decimal (number + i))"
proof (induction count arbitrary: number i)
  case (Suc count)
  from Suc.prems(1) have now: "taken (base @ ''-'' @ decimal number)"
    and later: "free_name taken base (Suc number) count = None"
    by (auto simp: free_name.simps [of taken base number "Suc count"] Let_def split: if_splits)
  then show ?case using Suc.IH [OF later, of "i - 1"] Suc.prems(2) by (cases i) auto
qed simp

lemma free_name_Some: "free_name taken base number count = Some name \<Longrightarrow> \<not> taken name"
proof (induction count arbitrary: number)
  case (Suc count)
  then show ?case
    by (auto simp: free_name.simps [of taken base number "Suc count"] Let_def split: if_splits)
qed (simp add: free_name.simps)

lemma next_id_fresh:
  fixes ss :: "string \<rightharpoonup> 'a"
  assumes "finite (dom ss)" and "card (dom ss) < 2 ^ 32 - 1"
  shows "next_face_enrollment_session_id ss now \<notin> dom ss"
proof -
  define base where "base = ''face-enrollment-'' @ decimal (current_unix_ms now)"
  let ?taken = "\<lambda>k. ss k \<noteq> None"
  have "free_name ?taken base 1 (2 ^ 32 - 1) \<noteq> None"
  proof
    assume none: "free_name ?taken base 1 (2 ^ 32 - 1) = None"
    let ?f = "\<lambda>i. base @ ''-'' @ decimal (1 + i)"
    have "?f ` {..<2 ^ 32 - 1} \<subseteq> dom ss"
      using free_name_None [OF none] by (auto simp: dom_def)
    then have "card (?f ` {..<2 ^ 32 - 1}) \<le> card (dom ss)"
      by (rule card_mono [OF assms(1)])
    moreover have "inj ?f" by (intro injI) (auto dest: decimal_inj)
    then have "card (?f ` {..<2 ^ 32 - 1}) = 2 ^ 32 - 1"
      by (subst card_image) (auto intro: inj_on_subset)
    ultimately show False using assms(2) by simp
  qed
  then show ?thesis
    using free_name_Some [of ?taken base 1 "2 ^ 32 - 1"]
    unfolding next_face_enrollment_session_id_def Let_def base_def [symmetric]
    by (auto split: option.split)
qed

section \<open>Any order of operations\<close>

text \<open>Every operation of the control application, with the order in which the table of sessions is
  iterated, and a change of the world.\<close>

inductive runtime_step ::
  "'w runtime_host \<Rightarrow> ('w, 'p) process_factory \<Rightarrow> 'w template_applier \<Rightarrow> ('w \<Rightarrow> 'w \<Rightarrow> bool) \<Rightarrow>
     'p enrollment_runtime \<times> 'w \<Rightarrow> 'p enrollment_runtime \<times> 'w \<Rightarrow> bool" for H F A env where
  start: "runtime_step H F A env (rt, w) (rt', w')"
    if "set order = dom (enrollment_sessions rt)" and "start_face_enrollment H F order p rt w = (w', rt', r1)"
| status_read: "runtime_step H F A env (rt, w) (rt', w')"
    if "get_face_enrollment_status H F q rt w = (w', rt', r2)"
| preview: "runtime_step H F A env (rt, w) (rt', w')"
    if "get_face_enrollment_preview H F q rt w = (w', rt', r3)"
| cancel: "runtime_step H F A env (rt, w) (rt', w')"
    if "cancel_face_enrollment H F q rt w = (w', rt', r4)"
| finish: "runtime_step H F A env (rt, w) (rt', w')"
    if "finish_face_enrollment H F A q rt w = (w', rt', r5)"
| world: "runtime_step H F A env (rt, w) (rt, w')" if "env w w'"

inductive_cases runtime_stepE [consumes 1, case_names start status_read preview cancel finish world]: "runtime_step H F A env (rt, w) (rt', w')"

text \<open>\<open>n\<close> steps.\<close>

inductive runtime_run ::
  "'w runtime_host \<Rightarrow> ('w, 'p) process_factory \<Rightarrow> 'w template_applier \<Rightarrow> ('w \<Rightarrow> 'w \<Rightarrow> bool) \<Rightarrow> nat \<Rightarrow>
     'p enrollment_runtime \<times> 'w \<Rightarrow> 'p enrollment_runtime \<times> 'w \<Rightarrow> bool" for H F A env where
  none: "runtime_run H F A env 0 c c"
| step: "runtime_run H F A env n c c' \<Longrightarrow> runtime_step H F A env c' c'' \<Longrightarrow> runtime_run H F A env (Suc n) c c''"

section \<open>The processes\<close>

text \<open>What the runtime relies on in the processes: \<open>alive w\<close> are those that may still use the camera.\<close>

locale enrollment_processes =
  fixes F :: "('w, 'p) process_factory" and A :: "'w template_applier"
    and env :: "'w \<Rightarrow> 'w \<Rightarrow> bool" and alive :: "'w \<Rightarrow> 'p set"
  assumes prepare_alive: "prepare_output_dir F sid w = (w', r1) \<Longrightarrow> alive w' \<subseteq> alive w"
    and start_alive: "start_guided_enrollment F sid p dir w = (w', r2) \<Longrightarrow>
      alive w' \<subseteq> (case r2 of Inl _ \<Rightarrow> {} | Inr proc \<Rightarrow> {proc}) \<union> alive w"
    and wait_alive: "process_try_wait F proc w = (w', r3) \<Longrightarrow>
      alive w' \<subseteq> alive w \<and> (\<forall>x. r3 = Inr (Some x) \<longrightarrow> proc \<notin> alive w')"
    and cancel_alive: "process_cancel F proc w = (w', r4) \<Longrightarrow>
      alive w' \<subseteq> alive w \<and> (r4 = Inr () \<longrightarrow> proc \<notin> alive w')"
    and applier_alive: "A path cam w = (w', r5) \<Longrightarrow> alive w' \<subseteq> alive w"
    and env_alive: "env w w' \<Longrightarrow> alive w' \<subseteq> alive w"
begin

text \<open>One operation on a session: a process the session gives up is not alive any more.\<close>

definition session_step :: "'p enrollment_session \<Rightarrow> 'w \<Rightarrow> 'p enrollment_session \<Rightarrow> 'w \<Rightarrow> bool" where
  "session_step s w s1 w1 \<longleftrightarrow>
     session_follows s s1 \<and> alive w1 \<subseteq> alive w \<and>
     (session_process s1 = None \<longrightarrow> (\<forall>p. session_process s = Some p \<longrightarrow> p \<notin> alive w1))"

lemma session_step_refl [simp]: "session_step s w s w"
  by (auto simp: session_step_def)

lemma session_step_trans:
  assumes "session_step s w s1 w1" and "session_step s1 w1 s2 w2"
  shows "session_step s w s2 w2"
  using assms by (auto simp: session_step_def session_follows_def)

lemma session_step_apply:
  "is_running s \<Longrightarrow> session_step s w (apply_runtime_face_enrollment_status H w' s) w"
  by (auto simp: session_step_def apply_runtime_status_follows)

lemma end_process_step:
  assumes "end_process F f s w = (w1, s1, r)" and "is_running s"
    and f: "\<And>s. enrollment_session_id (f s) = enrollment_session_id s \<and> start_payload (f s) = start_payload s \<and>
      output_dir (f s) = output_dir s \<and> session_process (f s) = session_process s \<and>
      session_state (f s) \<in> {SessionFailed, SessionCancelled}"
  shows "session_step s w s1 w1"
proof -
  have ended: "\<not> is_running (f s')" "session_state (f s') \<noteq> SessionCompleted" for s'
    using f [of s'] by (auto simp: is_running_def)
  show ?thesis
  proof (cases "session_process s")
    case None
    then show ?thesis using assms ended f [of s]
      by (auto simp: end_process_def session_step_def session_follows_def session_ok_def)
  next
    case (Some proc)
    obtain w2 r2 where c: "process_cancel F proc w = (w2, r2)" by fastforce
    show ?thesis using assms Some c cancel_alive [OF c] ended f [of "s\<lparr>session_process := None\<rparr>"]
      by (auto simp: end_process_def session_step_def session_follows_def session_ok_def split: sum.splits)
  qed
qed

lemma refresh_step:
  assumes "refresh_session H F s w = (w1, s1, r)"
  shows "session_step s w s1 w1"
proof (cases "is_running s")
  case False
  then show ?thesis using assms by (simp add: refresh_session_def)
next
  case True
  let ?s = "apply_runtime_face_enrollment_status H w s"
  have run: "is_running ?s" by (rule apply_runtime_status_running [OF True])
  have first: "session_step s w ?s w" by (rule session_step_apply [OF True])
  have "session_step ?s w s1 w1"
  proof (cases "startup_timed_out (host_now H w) ?s")
    case t: True
    then have "end_process F (\<lambda>s. s\<lparr>session_state := SessionFailed, failure_message := Some startup_failure\<rparr>) ?s w =
        (w1, s1, r)"
      using assms True by (simp add: refresh_session_def)
    then show ?thesis by (rule end_process_step [OF _ run]) simp
  next
    case f: False
    show ?thesis
    proof (cases "session_process ?s")
      case None
      then show ?thesis using assms True f by (auto simp: refresh_session_def Let_def)
    next
      case (Some proc)
      obtain w2 q where q: "process_try_wait F proc w = (w2, q)" by fastforce
      note alive = wait_alive [OF q]
      show ?thesis
      proof (cases q)
        case (Inl e)
        then show ?thesis using assms True f Some q alive
          by (simp add: refresh_session_def Let_def session_step_def)
      next
        case (Inr x)
        show ?thesis
        proof (cases x)
          case None
          then show ?thesis using assms True f Some q Inr alive
            by (simp add: refresh_session_def Let_def session_step_def)
        next
          case x: (Some exit)
          then have "w1 = w2" and "s1 = fst (settle_session (host_files H w2) exit ?s)"
            using assms True f Some q Inr by (auto simp: refresh_session_def Let_def)
          then show ?thesis
            using settle_session_follows [OF run, of "host_files H w2" exit] alive Inr x Some
            by (simp add: session_step_def)
        qed
      qed
    qed
  qed
  then show ?thesis by (rule session_step_trans [OF first])
qed

lemma cancel_step:
  assumes "cancel_session F s w = (w1, s1, r)"
  shows "session_step s w s1 w1"
proof (cases "is_running s")
  case False
  then show ?thesis using assms by (simp add: cancel_session_def)
next
  case True
  obtain w2 s2 q where e: "end_process F
      (\<lambda>s. s\<lparr>session_state := SessionCancelled, failure_message := None\<rparr>) s w = (w2, s2, q)"
    by (metis prod_cases3)
  have "session_step s w s2 w2" by (rule end_process_step [OF e True]) simp
  moreover have "w1 = w2 \<and> s1 = s2" using assms True e by (auto simp: cancel_session_def split: sum.splits)
  ultimately show ?thesis by simp
qed

lemma finish_step:
  assumes "finish_session A s w = (w1, s1, r)"
  shows "session_step s w s1 w1" and "s1 = s"
proof -
  show "s1 = s"
    using assms
    by (auto simp: finish_session_def split: face_enrollment_session_state.splits option.splits prod.splits
        sum.splits)
  have "alive w1 \<subseteq> alive w"
    using assms applier_alive
    by (auto simp: finish_session_def split: face_enrollment_session_state.splits option.splits prod.splits
        sum.splits)
  then show "session_step s w s1 w1" using \<open>s1 = s\<close> by (auto simp: session_step_def)
qed

text \<open>The sessions: at most one runs, and every process that is alive belongs to one.\<close>

definition runtime_ok :: "'p enrollment_runtime \<Rightarrow> 'w \<Rightarrow> bool" where
  "runtime_ok rt w \<longleftrightarrow>
     (\<forall>k s. enrollment_sessions rt k = Some s \<longrightarrow> session_ok s) \<and>
     (\<forall>k k' s s'. enrollment_sessions rt k = Some s \<and> enrollment_sessions rt k' = Some s' \<and>
        is_running s \<and> is_running s' \<longrightarrow> k = k') \<and>
     (\<forall>p \<in> alive w. \<exists>k s. enrollment_sessions rt k = Some s \<and> session_process s = Some p)"

text \<open>No session is lost, and one that has ended stays as it is.\<close>

definition sessions_kept :: "'p enrollment_runtime \<Rightarrow> 'p enrollment_runtime \<Rightarrow> bool" where
  "sessions_kept rt rt' \<longleftrightarrow>
     dom (enrollment_sessions rt') = dom (enrollment_sessions rt) \<and>
     (\<forall>k s. enrollment_sessions rt k = Some s \<and> \<not> is_running s \<longrightarrow> enrollment_sessions rt' k = Some s)"

lemma sessions_kept_refl [simp]: "sessions_kept rt rt"
  by (simp add: sessions_kept_def)

lemma sessions_kept_trans: "sessions_kept rt rt1 \<Longrightarrow> sessions_kept rt1 rt2 \<Longrightarrow> sessions_kept rt rt2"
  by (auto simp: sessions_kept_def)

lemma put_session_ok:
  assumes "runtime_ok rt w" and k: "enrollment_sessions rt k = Some s" and step: "session_step s w s1 w1"
  shows "runtime_ok (put_session k s1 rt) w1"
proof -
  have follows: "session_follows s s1" and sub: "alive w1 \<subseteq> alive w"
    and dead: "session_process s1 = None \<Longrightarrow> session_process s = Some p \<Longrightarrow> p \<notin> alive w1" for p
    using step by (auto simp: session_step_def)
  have ok: "session_ok s1" and run: "is_running s1 \<Longrightarrow> is_running s"
    using follows assms(1) k by (auto simp: session_follows_def runtime_ok_def)
  have "\<exists>k' s'. enrollment_sessions (put_session k s1 rt) k' = Some s' \<and> session_process s' = Some p"
    if p: "p \<in> alive w1" for p
  proof -
    from p sub obtain k' s' where s': "enrollment_sessions rt k' = Some s'" "session_process s' = Some p"
      using assms(1) unfolding runtime_ok_def by blast
    show ?thesis
    proof (cases "k' = k")
      case True
      with s' k dead [of p] p have "session_process s1 \<noteq> None" by auto
      with follows True s' k have "session_process s1 = Some p" by (auto simp: session_follows_def)
      then show ?thesis by (auto simp: put_session_def)
    next
      case False
      then show ?thesis using s' by (auto simp: put_session_def)
    qed
  qed
  moreover have "\<forall>k' s'. enrollment_sessions (put_session k s1 rt) k' = Some s' \<longrightarrow> session_ok s'"
    using assms(1) ok by (auto simp: put_session_def runtime_ok_def)
  moreover have "\<forall>k1 k2 s1' s2'. enrollment_sessions (put_session k s1 rt) k1 = Some s1' \<and>
      enrollment_sessions (put_session k s1 rt) k2 = Some s2' \<and> is_running s1' \<and> is_running s2' \<longrightarrow> k1 = k2"
    using assms(1) k run by (auto simp: put_session_def runtime_ok_def)
  ultimately show ?thesis by (simp add: runtime_ok_def)
qed

lemma put_session_kept:
  assumes "enrollment_sessions rt k = Some s" and "session_step s w s1 w1"
  shows "sessions_kept rt (put_session k s1 rt)"
  using assms by (auto simp: sessions_kept_def put_session_def session_step_def session_follows_def)

lemma with_session_ok:
  assumes "with_session H F sid k rt w = (w', rt', r)" and ok: "runtime_ok rt w"
    and k: "\<And>s w w1 s1 r. k s w = (w1, s1, r) \<Longrightarrow> session_step s w s1 w1"
  shows "runtime_ok rt' w' \<and> sessions_kept rt rt'"
proof (cases "sessions_poisoned rt \<or> enrollment_sessions rt sid = None")
  case True
  then show ?thesis using assms by (auto simp: with_session_def locked_sessions_def split: if_splits)
next
  case False
  then obtain s where s: "enrollment_sessions rt sid = Some s" by auto
  obtain w1 s1 q where q: "refresh_session H F s w = (w1, s1, q)" by (metis prod_cases3)
  obtain w2 s2 r2 where r2: "k s1 w1 = (w2, s2, r2)" by (metis prod_cases3)
  have first: "session_step s w s1 w1" by (rule refresh_step [OF q])
  have second: "session_step s w s2 w2" by (rule session_step_trans [OF first k [OF r2]])
  show ?thesis using assms False s q r2 first second
    by (auto simp: with_session_def locked_sessions_def put_session_ok put_session_kept split: sum.splits)
qed

lemma refresh_all_ok:
  assumes "refresh_all H F ks h rt w = (w', rt', r)" and "runtime_ok rt w"
  shows "runtime_ok rt' w' \<and> sessions_kept rt rt'"
  using assms
proof (induction ks arbitrary: h rt w)
  case (Cons k ks)
  show ?case
  proof (cases "enrollment_sessions rt k")
    case None
    then show ?thesis using Cons by simp
  next
    case (Some s)
    obtain w1 s1 q where q: "refresh_session H F s w = (w1, s1, q)" by (metis prod_cases3)
    note step = refresh_step [OF q]
    have ok: "runtime_ok (put_session k s1 rt) w1" by (rule put_session_ok [OF Cons.prems(2) Some step])
    have kept: "sessions_kept rt (put_session k s1 rt)" by (rule put_session_kept [OF Some step])
    show ?thesis
    proof (cases q)
      case (Inl e)
      then show ?thesis using Cons.prems Some q ok kept by simp
    next
      case (Inr u)
      then have "refresh_all H F ks (h \<or> is_running s1) (put_session k s1 rt) w1 = (w', rt', r)"
        using Cons.prems(1) Some q by simp
      from Cons.IH [OF this ok] show ?thesis using kept sessions_kept_trans by blast
    qed
  qed
qed simp

lemma refresh_all_none_running:
  assumes "refresh_all H F ks h rt w = (w', rt', Inr False)" and "runtime_ok rt w"
    and "k \<in> set ks" and "enrollment_sessions rt' k = Some s'"
  shows "\<not> is_running s'"
  using assms
proof (induction ks arbitrary: h rt w)
  case (Cons k0 ks)
  show ?case
  proof (cases "enrollment_sessions rt k0")
    case None
    then have rest: "refresh_all H F ks h rt w = (w', rt', Inr False)" using Cons.prems(1) by simp
    have "k \<noteq> k0"
      using refresh_all_ok [OF rest Cons.prems(2)] None Cons.prems(4) by (auto simp: sessions_kept_def)
    then show ?thesis using Cons.IH [OF rest Cons.prems(2)] Cons.prems by simp
  next
    case (Some s)
    obtain w1 s1 q where q: "refresh_session H F s w = (w1, s1, q)" by (metis prod_cases3)
    have ok: "runtime_ok (put_session k0 s1 rt) w1"
      by (rule put_session_ok [OF Cons.prems(2) Some refresh_step [OF q]])
    have rest: "refresh_all H F ks (h \<or> is_running s1) (put_session k0 s1 rt) w1 = (w', rt', Inr False)"
      using Cons.prems(1) Some q by (auto split: sum.splits)
    show ?thesis
    proof (cases "k \<in> set ks")
      case True
      then show ?thesis using Cons.IH [OF rest ok] Cons.prems(4) by simp
    next
      case False
      then have k: "k = k0" using Cons.prems(3) by simp
      have no: "\<not> is_running s1" using refresh_all_has_running [OF rest] by simp
      then have "enrollment_sessions rt' k0 = Some s1"
        using refresh_all_ok [OF rest ok] by (simp add: sessions_kept_def put_session_def)
      then show ?thesis using no k Cons.prems(4) by simp
    qed
  qed
qed simp

lemma start_ok:
  assumes "start_face_enrollment H F order p rt w = (w', rt', r)" and "runtime_ok rt w"
    and order: "set order = dom (enrollment_sessions rt)"
  shows "runtime_ok rt' w'"
proof (cases "sessions_poisoned rt")
  case True
  then show ?thesis using assms by (simp add: start_face_enrollment_def locked_sessions_def)
next
  case False
  obtain w1 rt1 q where q: "refresh_all H F order False rt w = (w1, rt1, q)" by (metis prod_cases3)
  note ok = refresh_all_ok [OF q assms(2)]
  show ?thesis
  proof (cases "q = Inr False")
    case no: False
    then show ?thesis using assms(1) False q ok
      by (auto simp: start_face_enrollment_def locked_sessions_def split: sum.splits bool.splits)
  next
    case True
    have ended: "\<not> is_running s" if "enrollment_sessions rt1 k = Some s" for k s
    proof (rule refresh_all_none_running [OF q [unfolded True] assms(2) _ that])
      show "k \<in> set order" using that ok order by (auto simp: sessions_kept_def)
    qed
    then have "alive w1 = {}"
      using ok by (fastforce simp: runtime_ok_def session_ok_def)
    define sid where "sid = next_face_enrollment_session_id (enrollment_sessions rt1) (host_now H w1)"
    obtain w2 d where d: "prepare_output_dir F sid w1 = (w2, d)" by fastforce
    have a2: "alive w2 = {}" using prepare_alive [OF d] \<open>alive w1 = {}\<close> by simp
    have ok2: "runtime_ok rt1 w2" using ok a2 by (simp add: runtime_ok_def)
    show ?thesis
    proof (cases d)
      case (Inl e)
      then show ?thesis using assms(1) False q True d ok2
        by (simp add: start_face_enrollment_def locked_sessions_def sid_def [symmetric])
    next
      case (Inr dir)
      obtain w3 c where c: "start_guided_enrollment F sid p dir w2 = (w3, c)" by fastforce
      note a3 = start_alive [OF c]
      show ?thesis
      proof (cases c)
        case (Inl e)
        then show ?thesis using assms(1) False q True d Inr c ok2 a3 a2
          by (simp add: start_face_enrollment_def locked_sessions_def sid_def [symmetric] runtime_ok_def)
      next
        case proc: (Inr proc)
        have "rt' = put_session sid (running_session sid p dir (host_now H w3) proc) rt1" and "w' = w3"
          using assms(1) False q True d Inr c proc
          by (auto simp: start_face_enrollment_def locked_sessions_def sid_def [symmetric] Let_def)
        moreover have "alive w3 \<subseteq> {proc}" using a3 a2 proc by simp
        ultimately show ?thesis using ok2 ended
          by (auto simp: runtime_ok_def put_session_def running_session_def session_ok_def is_running_def)
      qed
    qed
  qed
qed

lemma runtime_step_ok:
  assumes "runtime_step H F A env (rt, w) (rt', w')" and "runtime_ok rt w"
  shows "runtime_ok rt' w'"
  using assms(1)
proof (cases rule: runtime_stepE)
  case (start order p r1)
  then show ?thesis using start_ok assms(2) by blast
next
  case (status_read q r2)
  show ?thesis
    using with_session_ok [OF status_read [unfolded get_face_enrollment_status_def] assms(2)] by auto
next
  case (preview q r3)
  show ?thesis
    using with_session_ok [OF preview [unfolded get_face_enrollment_preview_def] assms(2)] by auto
next
  case (cancel q r4)
  show ?thesis
    using with_session_ok [OF cancel [unfolded cancel_face_enrollment_def] assms(2)] cancel_step by blast
next
  case (finish q r5)
  show ?thesis
    using with_session_ok [OF finish [unfolded finish_face_enrollment_def] assms(2)] finish_step(1) by blast
next
  case world
  have "alive w' \<subseteq> alive w" using world by (blast dest: env_alive)
  then show ?thesis using assms(2) world unfolding runtime_ok_def by (metis subsetD)
qed

text \<open>A session is lost or changed after its end only when every name is taken.\<close>

lemma runtime_step_kept:
  assumes "runtime_step H F A env (rt, w) (rt', w')" and "runtime_ok rt w"
    and few: "finite (dom (enrollment_sessions rt))" "card (dom (enrollment_sessions rt)) < 2 ^ 32 - 1"
    and k: "enrollment_sessions rt k = Some s" "\<not> is_running s"
  shows "enrollment_sessions rt' k = Some s"
  using assms(1)
proof (cases rule: runtime_stepE)
  case (start order p r1)
  show ?thesis
  proof (cases "sessions_poisoned rt")
    case True
    then show ?thesis using start k by (simp add: start_face_enrollment_def locked_sessions_def)
  next
    case False
    obtain w1 rt1 q where q: "refresh_all H F order False rt w = (w1, rt1, q)" by (metis prod_cases3)
    have kept: "sessions_kept rt rt1" using refresh_all_ok [OF q assms(2)] by simp
    then have k1: "enrollment_sessions rt1 k = Some s" using k by (auto simp: sessions_kept_def)
    define sid where "sid = next_face_enrollment_session_id (enrollment_sessions rt1) (host_now H w1)"
    have "sid \<notin> dom (enrollment_sessions rt1)"
      using next_id_fresh [of "enrollment_sessions rt1"] kept few by (simp add: sessions_kept_def sid_def)
    then have sid: "k \<noteq> sid" using k1 by (metis domI)
    have "rt' = rt1 \<or> (\<exists>s'. rt' = put_session sid s' rt1)"
      using start(2) False q
      by (simp add: start_face_enrollment_def locked_sessions_def sid_def [symmetric] Let_def
          split: sum.splits bool.splits prod.splits) metis
    then show ?thesis using k1 sid by (auto simp: put_session_def)
  qed
next
  case (status_read q r2)
  show ?thesis
    using with_session_ok [OF status_read [unfolded get_face_enrollment_status_def] assms(2)] k
    by (auto simp: sessions_kept_def)
next
  case (preview q r3)
  show ?thesis
    using with_session_ok [OF preview [unfolded get_face_enrollment_preview_def] assms(2)] k
    by (auto simp: sessions_kept_def)
next
  case (cancel q r4)
  then have "runtime_ok rt' w' \<and> sessions_kept rt rt'"
    using with_session_ok [OF cancel [unfolded cancel_face_enrollment_def] assms(2)] cancel_step by blast
  then show ?thesis using k by (auto simp: sessions_kept_def)
next
  case (finish q r5)
  then have "runtime_ok rt' w' \<and> sessions_kept rt rt'"
    using with_session_ok [OF finish [unfolded finish_face_enrollment_def] assms(2)] finish_step(1) by blast
  then show ?thesis using k by (auto simp: sessions_kept_def)
next
  case world
  then show ?thesis using k by simp
qed

end

section \<open>The child processes\<close>

text \<open>What other programs and time do: a child ends, none comes back to life.\<close>

definition world_change :: "'s enroll_world \<Rightarrow> 's enroll_world \<Rightarrow> bool" where
  "world_change w w' \<longleftrightarrow> (\<forall>c. ew_children w' c = ChildAlive \<longrightarrow> ew_children w c = ChildAlive)"

definition children_alive :: "'s enroll_world \<Rightarrow> nat set" where
  "children_alive w = {c. ew_children w c = ChildAlive}"

lemma child_call_simps [simp]:
  "ew_children (fst (child_call w)) = ew_children w" "ew_service (fst (child_call w)) = ew_service w"
  "ew_files (fst (child_call w)) = ew_files w"
  by (simp_all add: child_call_def split: list.split)

lemma child_callD:
  "child_call w = (w', r) \<Longrightarrow> ew_children w' = ew_children w \<and> ew_service w' = ew_service w \<and> ew_files w' = ew_files w"
  using child_call_simps [of w] by simp

lemma query_childD:
  assumes "query_child c w = (w', r)"
  shows "ew_children w' = ew_children w" and "ew_service w' = ew_service w" and "ew_files w' = ew_files w"
    and "r = Inr (Some x) \<Longrightarrow> ew_children w c = ChildExited x"
  using assms by (auto simp: query_child_def split: prod.splits option.splits child_state.splits dest: child_callD)

lemma child_try_waitD:
  assumes "child_try_wait c w = (w', r)"
  shows "ew_children w' = ew_children w" and "ew_service w' = ew_service w" and "ew_files w' = ew_files w"
    and "r = Inr (Some x) \<Longrightarrow> ew_children w c = ChildExited x"
  using assms by (auto simp: child_try_wait_def split: prod.splits sum.splits dest: query_childD)

lemma kill_childD:
  assumes "kill_child c w = (w', r)"
  shows "children_alive w' \<subseteq> children_alive w" and "ew_service w' = ew_service w"
    and "r = Inr () \<Longrightarrow> c \<notin> children_alive w'"
  using assms
  by (auto simp: kill_child_def children_alive_def split: prod.splits option.splits if_splits dest: child_callD)

lemma child_cancelD:
  assumes "child_cancel c w = (w', r)"
  shows "children_alive w' \<subseteq> children_alive w" and "ew_service w' = ew_service w"
    and "r = Inr () \<Longrightarrow> c \<notin> children_alive w'"
proof -
  obtain w1 q where q: "query_child c w = (w1, q)" by fastforce
  obtain w2 k where k: "kill_child c w1 = (w2, k)" by fastforce
  note q' = query_childD [OF q] and k' = kill_childD [OF k]
  have "children_alive w' \<subseteq> children_alive w \<and> ew_service w' = ew_service w \<and>
      (r = Inr () \<longrightarrow> c \<notin> children_alive w')"
    using assms q k q' k'
    by (auto simp: child_cancel_def children_alive_def split: sum.splits option.splits prod.splits)
  then show "children_alive w' \<subseteq> children_alive w" and "ew_service w' = ew_service w"
    and "r = Inr () \<Longrightarrow> c \<notin> children_alive w'" by simp_all
qed

lemma prepare_output_dirD:
  assumes "cli_prepare_output_dir f sid w = (w', r)"
  shows "children_alive w' = children_alive w" and "ew_service w' = ew_service w"
  using assms by (auto simp: cli_prepare_output_dir_def children_alive_def Let_def split: option.splits)

lemma start_guided_enrollmentD:
  assumes "cli_start_guided_enrollment f sid p dir w = (w', r)"
  shows "children_alive w' \<subseteq> (case r of Inl _ \<Rightarrow> {} | Inr c \<Rightarrow> {c}) \<union> children_alive w"
    and "ew_service w' = ew_service w"
  using assms
  by (auto simp: cli_start_guided_enrollment_def spawn_child_def children_alive_def Let_def
      split: if_splits list.splits option.splits)

lemma enrollment_applier_children:
  "enrollment_applier ask P path camera w = (w', r) \<Longrightarrow> children_alive w' = children_alive w"
  by (auto simp: enrollment_applier_def children_alive_def split: prod.splits)

lemma cli_processes_simps [simp]:
  "prepare_output_dir (cli_processes f) = cli_prepare_output_dir f"
  "start_guided_enrollment (cli_processes f) = cli_start_guided_enrollment f"
  "process_try_wait (cli_processes f) = child_try_wait" "process_cancel (cli_processes f) = child_cancel"
  by (simp_all add: cli_processes_def)

lemma cli_host_simps [simp]:
  "host_now (cli_host parse) = ew_now" "host_files (cli_host parse) = ew_files"
  "Enrollment_Runtime.parse_runtime_status (cli_host parse) = parse"
  by (simp_all add: cli_host_def)

interpretation cli: enrollment_processes "cli_processes f" "enrollment_applier ask P" world_change children_alive
  for f ask P
proof unfold_locales
  show "children_alive w' \<subseteq> children_alive w \<and> (\<forall>x. r = Inr (Some x) \<longrightarrow> c \<notin> children_alive w')"
    if "process_try_wait (cli_processes f) c w = (w', r)" for c w w' r
    using that child_try_waitD(1,4) by (fastforce simp: children_alive_def)
qed (simp_all add: prepare_output_dirD start_guided_enrollmentD child_cancelD enrollment_applier_children,
    auto simp: world_change_def children_alive_def)

end
