(* ===== verification/Enrollment_Completion.thy ===== *)
theory Enrollment_Completion
  imports Enrollment_Runtime_Properties
begin

text \<open>
  How an enrollment session becomes completed: only by an operation that finds its process exited with
  success and its template file with selected templates (\<open>process_succeeded\<close>), for every operation of
  the control application and every order in which the table of sessions is iterated.
\<close>

section \<open>What an operation finds\<close>

text \<open>In the world \<open>w\<close> the process of the session \<open>s\<close> has exited with success, and its template file
  gives the summary that the session \<open>s1\<close> has.\<close>

definition process_succeeded ::
  "'s enroll_world \<Rightarrow> nat enrollment_session \<Rightarrow> nat enrollment_session \<Rightarrow> bool" where
  "process_succeeded w s s1 \<longleftrightarrow>
     enrollment_session_id s1 = enrollment_session_id s \<and> output_dir s1 = output_dir s \<and>
     (\<exists>c x t. session_process s = Some c \<and> ew_children w c = ChildExited x \<and> exit_success x \<and>
        read_enrollment_template_summary (ew_files w) s = Inr t \<and> template_summary s1 = Some t)"

text \<open>The files are the same, and a child seen to have succeeded had done so before.\<close>

definition no_new_success :: "'s enroll_world \<Rightarrow> 's enroll_world \<Rightarrow> bool" where
  "no_new_success w w1 \<longleftrightarrow> ew_files w1 = ew_files w \<and>
     (\<forall>c x. ew_children w1 c = ChildExited x \<and> exit_success x \<longrightarrow> ew_children w c = ChildExited x)"

lemma no_new_success_refl [simp]: "no_new_success w w"
  by (simp add: no_new_success_def)

lemma no_new_success_trans: "no_new_success w w1 \<Longrightarrow> no_new_success w1 w2 \<Longrightarrow> no_new_success w w2"
  by (auto simp: no_new_success_def)

lemma child_call_success: "child_call w = (w', r) \<Longrightarrow> no_new_success w w'"
  by (auto simp: no_new_success_def dest: child_callD)

lemma query_child_success: "query_child c w = (w', r) \<Longrightarrow> no_new_success w w'"
  using query_childD by (fastforce simp: no_new_success_def)

lemma kill_child_success:
  assumes "kill_child c w = (w', r)"
  shows "no_new_success w w'"
proof -
  obtain w1 e where e: "child_call w = (w1, e)" by fastforce
  show ?thesis using assms e child_callD [OF e]
    by (auto simp: kill_child_def no_new_success_def split: option.splits if_splits)
qed

lemma child_cancel_success:
  assumes "child_cancel c w = (w', r)"
  shows "no_new_success w w'"
proof -
  obtain w1 q where q: "query_child c w = (w1, q)" by fastforce
  obtain w2 k where k: "kill_child c w1 = (w2, k)" by fastforce
  obtain w3 e where e: "child_call w2 = (w3, e)" by fastforce
  note n = query_child_success [OF q] kill_child_success [OF k] child_call_success [OF e]
  have "w' \<in> {w1, w2, w3}"
    using assms q k e by (auto simp: child_cancel_def split: sum.splits option.splits)
  then show ?thesis using n no_new_success_trans by blast
qed

lemma read_summary_cong:
  "enrollment_session_id s1 = enrollment_session_id s \<Longrightarrow> output_dir s1 = output_dir s \<Longrightarrow>
     read_enrollment_template_summary fs s1 = read_enrollment_template_summary fs s"
  by (simp add: read_enrollment_template_summary_def selected_templates_path_def)

section \<open>Following one session\<close>

lemma end_process_success:
  assumes "end_process (cli_processes f) g s w = (w1, s1, r)"
  shows "no_new_success w w1" and "s1 = s \<or> (\<exists>s0. s1 = g s0)"
  using assms
  by (auto simp: end_process_def split: option.splits prod.splits sum.splits dest: child_cancel_success)

lemma refresh_completed:
  assumes "refresh_session (cli_host parse) (cli_processes f) s w = (w1, s1, r)"
  shows "no_new_success w w1"
    and "session_state s1 = SessionCompleted \<Longrightarrow> is_running s \<Longrightarrow> process_succeeded w s s1"
proof -
  let ?s = "apply_runtime_face_enrollment_status (cli_host parse) w s"
  have "no_new_success w w1 \<and>
      (session_state s1 = SessionCompleted \<longrightarrow> is_running s \<longrightarrow> process_succeeded w s s1)"
  proof (cases "is_running s")
    case False
    then show ?thesis using assms by (simp add: refresh_session_def)
  next
    case run: True
    have not_done: "session_state ?s \<noteq> SessionCompleted"
      using apply_runtime_status_running [OF run, of "cli_host parse" w] by (auto simp: is_running_def)
    show ?thesis
    proof (cases "startup_timed_out (ew_now w) ?s")
      case True
      then have e: "end_process (cli_processes f)
          (\<lambda>s. s\<lparr>session_state := SessionFailed, failure_message := Some startup_failure\<rparr>) ?s w = (w1, s1, r)"
        using assms run by (simp add: refresh_session_def)
      show ?thesis using end_process_success [OF e] not_done by auto
    next
      case False
      show ?thesis
      proof (cases "session_process s")
        case None
        then show ?thesis using assms run False not_done by (auto simp: refresh_session_def Let_def)
      next
        case (Some c)
        obtain w2 q where q: "child_try_wait c w = (w2, q)" by fastforce
        note k = child_try_waitD [OF q]
        show ?thesis
        proof (cases "\<exists>x. q = Inr (Some x)")
          case f: False
          then show ?thesis using assms run False not_done Some q k
            by (auto simp: refresh_session_def Let_def no_new_success_def split: sum.splits option.splits)
        next
          case True
          then obtain x where x: "q = Inr (Some x)" by blast
          have "read_enrollment_template_summary (ew_files w) (?s\<lparr>session_process := None\<rparr>) =
              read_enrollment_template_summary (ew_files w) s"
            by (rule read_summary_cong) simp_all
          then show ?thesis using assms run False not_done Some q k(1-3) k(4) [OF x] x
            by (auto simp: refresh_session_def Let_def settle_session_def no_new_success_def process_succeeded_def
                split: if_splits sum.splits)
        qed
      qed
    qed
  qed
  then show "no_new_success w w1"
    and "session_state s1 = SessionCompleted \<Longrightarrow> is_running s \<Longrightarrow> process_succeeded w s s1" by blast+
qed

lemma process_succeeded_before:
  assumes "process_succeeded w1 s1 s2" and "no_new_success w w1" and "session_follows s s1"
  shows "process_succeeded w s s2"
  using assms read_summary_cong [of s1 s "ew_files w"]
  by (auto simp: process_succeeded_def no_new_success_def session_follows_def)

lemma refresh_all_completed:
  assumes "refresh_all (cli_host parse) (cli_processes f) ks h rt w = (w', rt', r)"
    and "enrollment_sessions rt k = Some s" and "enrollment_sessions rt' k = Some s'"
    and "session_state s' = SessionCompleted"
  shows "s' = s \<or> process_succeeded w s s'"
  using assms(1,2)
proof (induction ks arbitrary: h rt w s)
  case Nil
  then show ?case using assms(3) by simp
next
  case (Cons k0 ks)
  show ?case
  proof (cases "enrollment_sessions rt k0")
    case None
    then show ?thesis using Cons by simp
  next
    case (Some s0)
    obtain w1 s1 q where q: "refresh_session (cli_host parse) (cli_processes f) s0 w = (w1, s1, q)"
      by (metis prod_cases3)
    note one = refresh_completed [OF q]
    have follows: "session_follows s0 s1"
      using cli.refresh_step [OF q] by (simp add: cli.session_step_def)
    let ?rt = "put_session k0 s1 rt"
    have k: "enrollment_sessions ?rt k = Some (if k = k0 then s1 else s)"
      using Cons.prems(2) by (simp add: put_session_def)
    have now: "s1 = s \<or> process_succeeded w s s1" if "k = k0" "session_state s1 = SessionCompleted"
      using that Some Cons.prems(2) one(2) follows by (cases "is_running s0") (auto simp: session_follows_def)
    show ?thesis
    proof (cases q)
      case (Inl e)
      then have "rt' = ?rt" using Cons.prems(1) Some q by simp
      then show ?thesis using k assms(3,4) now by (auto split: if_splits)
    next
      case (Inr u)
      then have rest: "refresh_all (cli_host parse) (cli_processes f) ks (h \<or> is_running s1) ?rt w1 = (w', rt', r)"
        using Cons.prems(1) Some q by simp
      have "s' = (if k = k0 then s1 else s) \<or> process_succeeded w1 (if k = k0 then s1 else s) s'"
        by (rule Cons.IH [OF rest k])
      moreover have "session_follows s (if k = k0 then s1 else s)"
        using follows Some Cons.prems(2) by auto
      ultimately show ?thesis
        using now process_succeeded_before [OF _ one(1)] assms(4) by (auto split: if_splits)
    qed
  qed
qed

section \<open>Any operation\<close>

lemma with_session_completed:
  assumes "with_session (cli_host parse) (cli_processes f) sid op rt w = (w', rt', r)"
    and op: "\<And>s1 w1 w2 s2 r2. op s1 w1 = (w2, s2, r2) \<Longrightarrow> session_state s2 = SessionCompleted \<Longrightarrow> s2 = s1"
    and "enrollment_sessions rt' k = Some s'" and "session_state s' = SessionCompleted"
  shows "\<exists>s. enrollment_sessions rt k = Some s \<and> (s' = s \<or> process_succeeded w s s')"
proof (cases "sessions_poisoned rt \<or> enrollment_sessions rt sid = None \<or> k \<noteq> sid")
  case True
  then have "enrollment_sessions rt' k = enrollment_sessions rt k"
    using assms(1)
    by (auto simp: with_session_def locked_sessions_def put_session_def
        split: if_splits option.splits prod.splits sum.splits)
  then show ?thesis using assms(3) by (intro exI [of _ s']) simp
next
  case False
  then obtain s where s: "enrollment_sessions rt sid = Some s" by auto
  obtain w1 s1 q where q: "refresh_session (cli_host parse) (cli_processes f) s w = (w1, s1, q)"
    by (metis prod_cases3)
  obtain w2 s2 r2 where r2: "op s1 w1 = (w2, s2, r2)" by (metis prod_cases3)
  have "s' = s1 \<or> s' = s2"
    using assms(1,3) False s q r2
    by (auto simp: with_session_def locked_sessions_def put_session_def split: sum.splits)
  then have "s' = s1" using op [OF r2] assms(4) by blast
  moreover have "session_follows s s1"
    using cli.refresh_step [OF q] by (simp add: cli.session_step_def)
  ultimately show ?thesis
    using False s refresh_completed(2) [OF q] assms(4) by (cases "is_running s") (auto simp: session_follows_def)
qed

lemma cancel_not_completed:
  assumes "cancel_session (cli_processes f) s1 w1 = (w2, s2, r2)" and "session_state s2 = SessionCompleted"
  shows "s2 = s1"
proof (cases "is_running s1")
  case True
  obtain w3 s3 q where e: "end_process (cli_processes f)
      (\<lambda>s. s\<lparr>session_state := SessionCancelled, failure_message := None\<rparr>) s1 w1 = (w3, s3, q)"
    by (metis prod_cases3)
  have "s2 = s3" using assms(1) True e by (auto simp: cancel_session_def split: sum.splits)
  then show ?thesis using end_process_success(2) [OF e] assms(2) by auto
qed (use assms in \<open>simp add: cancel_session_def\<close>)

lemma start_completed:
  assumes "start_face_enrollment (cli_host parse) (cli_processes f) order p rt w = (w', rt', r)"
    and dom: "set order = dom (enrollment_sessions rt)" and ok: "cli.runtime_ok rt w"
    and "enrollment_sessions rt' k = Some s'" and "session_state s' = SessionCompleted"
  shows "\<exists>s. enrollment_sessions rt k = Some s \<and> (s' = s \<or> process_succeeded w s s')"
proof (cases "sessions_poisoned rt")
  case True
  then show ?thesis using assms by (simp add: start_face_enrollment_def locked_sessions_def)
next
  case False
  obtain w1 rt1 q where q: "refresh_all (cli_host parse) (cli_processes f) order False rt w = (w1, rt1, q)"
    by (metis prod_cases3)
  have "rt' = rt1 \<or> (\<exists>sid dir now proc. rt' = put_session sid (running_session sid p dir now proc) rt1)"
    using assms(1) False q
    by (auto simp: start_face_enrollment_def locked_sessions_def Let_def split: sum.splits bool.splits prod.splits)
  then have k: "enrollment_sessions rt1 k = Some s'"
    using assms(4,5) by (auto simp: put_session_def running_session_def split: if_splits)
  moreover have "dom (enrollment_sessions rt1) = dom (enrollment_sessions rt)"
    using cli.refresh_all_ok [OF q ok] by (simp add: cli.sessions_kept_def)
  ultimately obtain s where "enrollment_sessions rt k = Some s" by (metis domD domI)
  then show ?thesis using refresh_all_completed [OF q _ k assms(5)] by blast
qed

lemma step_completed:
  assumes "runtime_step (cli_host parse) (cli_processes f) (enrollment_applier ask P) world_change
      (rt, w) (rt', w')" and "cli.runtime_ok rt w"
    and "enrollment_sessions rt' k = Some s'" and "session_state s' = SessionCompleted"
  shows "\<exists>s. enrollment_sessions rt k = Some s \<and> (s' = s \<or> process_succeeded w s s')"
  using assms(1)
proof (cases rule: runtime_stepE)
  case (start order p r1)
  then show ?thesis using start_completed assms(2-4) by blast
next
  case (status_read q r2)
  show ?thesis
    by (rule with_session_completed [OF status_read [unfolded get_face_enrollment_status_def] _ assms(3,4)]) simp
next
  case (preview q r3)
  show ?thesis
    by (rule with_session_completed [OF preview [unfolded get_face_enrollment_preview_def] _ assms(3,4)]) simp
next
  case (cancel q r4)
  show ?thesis
    by (rule with_session_completed [OF cancel [unfolded cancel_face_enrollment_def] cancel_not_completed assms(3,4)])
next
  case (finish q r5)
  show ?thesis
    by (rule with_session_completed [OF finish [unfolded finish_face_enrollment_def] cli.finish_step(2) assms(3,4)])
next
  case world
  then show ?thesis using assms(3) by blast
qed

end
