(* ===== verification/Enrollment_Session_Properties.thy ===== *)
theory Enrollment_Session_Properties
  imports Enrollment_Completion
begin

text \<open>
  What the enrollment sessions of the control application promise, over the child processes: one
  process at a time, an ended session stays ended, and the service is asked to use templates only of
  a completed session; and a session whose process succeeded reaches the service.
\<close>

section \<open>Runs\<close>

abbreviation cli_run ::
  "(string \<Rightarrow> runtime_face_enrollment_status option) \<Rightarrow> cli_factory \<Rightarrow> 's pipe_request \<Rightarrow> control_process \<Rightarrow>
     nat \<Rightarrow> nat enrollment_runtime \<times> 's enroll_world \<Rightarrow> nat enrollment_runtime \<times> 's enroll_world \<Rightarrow> bool" where
  "cli_run parse f ask P \<equiv>
     runtime_run (cli_host parse) (cli_processes f) (enrollment_applier ask P) world_change"

lemma run_ok:
  assumes "cli_run parse f ask P n (rt, w) (rt', w')" and "cli.runtime_ok rt w"
  shows "cli.runtime_ok rt' w'"
  using assms
proof (induction n "(rt, w)" "(rt', w')" arbitrary: rt' w' rule: runtime_run.induct)
  case (step n c')
  obtain rt1 w1 where "c' = (rt1, w1)" by fastforce
  with step cli.runtime_step_ok show ?case by metis
qed simp

lemma new_runtime_ok: "children_alive w = {} \<Longrightarrow> cli.runtime_ok new_runtime w"
  by (simp add: cli.runtime_ok_def new_runtime_def)

lemma put_dom: "enrollment_sessions rt k = Some s \<Longrightarrow>
    dom (enrollment_sessions (put_session k s' rt)) = dom (enrollment_sessions rt)"
  by (auto simp: put_session_def)

text \<open>A step adds at most one session.\<close>

lemma step_dom:
  assumes "runtime_step (cli_host parse) (cli_processes f) (enrollment_applier ask P) world_change
      (rt, w) (rt', w')" and "cli.runtime_ok rt w"
  shows "\<exists>k. dom (enrollment_sessions rt') \<subseteq> insert k (dom (enrollment_sessions rt))"
  using assms(1)
proof (cases rule: runtime_stepE)
  case (start order p r1)
  obtain w1 rt1 q where q: "refresh_all (cli_host parse) (cli_processes f) order False rt w = (w1, rt1, q)"
    by (metis prod_cases3)
  have "dom (enrollment_sessions rt1) = dom (enrollment_sessions rt)"
    using cli.refresh_all_ok [OF q assms(2)] by (simp add: cli.sessions_kept_def)
  then show ?thesis using start(2) q
    by (auto simp: start_face_enrollment_def locked_sessions_def Let_def put_session_def
        split: if_splits sum.splits bool.splits prod.splits)
next
  case (status_read q r2)
  then show ?thesis
    using cli.with_session_ok [OF status_read [unfolded get_face_enrollment_status_def] assms(2)]
    by (auto simp: cli.sessions_kept_def)
next
  case (preview q r3)
  then show ?thesis
    using cli.with_session_ok [OF preview [unfolded get_face_enrollment_preview_def] assms(2)]
    by (auto simp: cli.sessions_kept_def)
next
  case (cancel q r4)
  then have "cli.sessions_kept rt rt'"
    using cli.with_session_ok [OF cancel [unfolded cancel_face_enrollment_def] assms(2)] cli.cancel_step by blast
  then show ?thesis by (auto simp: cli.sessions_kept_def)
next
  case (finish q r5)
  then have "cli.sessions_kept rt rt'"
    using cli.with_session_ok [OF finish [unfolded finish_face_enrollment_def] assms(2)] cli.finish_step(1) by blast
  then show ?thesis by (auto simp: cli.sessions_kept_def)
qed auto

lemma run_card:
  assumes "cli_run parse f ask P n (rt, w) (rt', w')" and "cli.runtime_ok rt w"
    and "finite (dom (enrollment_sessions rt))"
  shows "finite (dom (enrollment_sessions rt')) \<and>
    card (dom (enrollment_sessions rt')) \<le> card (dom (enrollment_sessions rt)) + n"
  using assms
proof (induction n "(rt, w)" "(rt', w')" arbitrary: rt' w' rule: runtime_run.induct)
  case (step n c')
  obtain rt1 w1 where c': "c' = (rt1, w1)" by fastforce
  have ih: "finite (dom (enrollment_sessions rt1)) \<and>
      card (dom (enrollment_sessions rt1)) \<le> card (dom (enrollment_sessions rt)) + n"
    using step c' by simp
  have "cli.runtime_ok rt1 w1" using run_ok step c' by blast
  then obtain k where k: "dom (enrollment_sessions rt') \<subseteq> insert k (dom (enrollment_sessions rt1))"
    using step_dom step c' by blast
  have "card (dom (enrollment_sessions rt')) \<le> card (insert k (dom (enrollment_sessions rt1)))"
    using ih by (intro card_mono [OF _ k]) simp
  then show ?case using ih finite_subset [OF k] card_insert_le_m1 [of "Suc (card (dom (enrollment_sessions rt1)))"]
    by (auto simp: card_insert_if split: if_splits)
qed simp

lemma run_kept:
  assumes "cli_run parse f ask P n (rt, w) (rt', w')" and "cli.runtime_ok rt w"
    and "finite (dom (enrollment_sessions rt))" and "card (dom (enrollment_sessions rt)) + n < 2 ^ 32"
    and "enrollment_sessions rt k = Some s" "\<not> is_running s"
  shows "enrollment_sessions rt' k = Some s"
  using assms
proof (induction n "(rt, w)" "(rt', w')" arbitrary: rt' w' rule: runtime_run.induct)
  case (step n c')
  obtain rt1 w1 where c': "c' = (rt1, w1)" by fastforce
  have k: "enrollment_sessions rt1 k = Some s" using step c' by simp
  have run: "cli_run parse f ask P n (rt, w) (rt1, w1)" using step.hyps(1) c' by simp
  have "card (dom (enrollment_sessions rt1)) < 2 ^ 32 - 1"
    using run_card [OF run step.prems(1,2)] step.prems(3) by simp
  then show ?case
    using cli.runtime_step_kept [OF step.hyps(3) [unfolded c'] run_ok [OF run step.prems(1)] _ _ k]
      run_card [OF run step.prems(1,2)] step.prems(5) by blast
qed simp

text \<open>C6: at most one enrollment process is alive at any time, whatever is asked in whatever order and
  whichever calls fail; and that process is the one of a session that the control application shows
  as running. The camera is never used by two enrollments, and none goes on unseen.\<close>

theorem one_enrollment_process_alive:
  assumes "cli_run parse f ask P n (new_runtime, w0) (rt, w)" and "children_alive w0 = {}"
    and "c \<in> children_alive w"
  shows "children_alive w = {c} \<and>
    (\<exists>k s. enrollment_sessions rt k = Some s \<and> is_running s \<and> session_process s = Some c)"
proof -
  have ok: "cli.runtime_ok rt w" by (rule run_ok [OF assms(1) new_runtime_ok [OF assms(2)]])
  have own: "\<exists>k s. enrollment_sessions rt k = Some s \<and> is_running s \<and> session_process s = Some c'"
    if "c' \<in> children_alive w" for c'
  proof -
    from ok that obtain k s where "enrollment_sessions rt k = Some s" "session_process s = Some c'" "session_ok s"
      unfolding cli.runtime_ok_def by blast
    then show ?thesis by (auto simp: session_ok_def)
  qed
  have "c' = c" if alive: "c' \<in> children_alive w" for c'
  proof -
    obtain k s where k: "enrollment_sessions rt k = Some s" "is_running s" "session_process s = Some c"
      using own [OF assms(3)] by blast
    obtain k' s' where k': "enrollment_sessions rt k' = Some s'" "is_running s'" "session_process s' = Some c'"
      using own [OF alive] by blast
    have "k = k'" using ok k k' unfolding cli.runtime_ok_def by blast
    then show ?thesis using k k' by simp
  qed
  then have "children_alive w = {c}" using assms(3) by blast
  then show ?thesis using own [OF assms(3)] by simp
qed

text \<open>C25: a session that has ended, completed, failed or cancelled, never changes again: what it is
  shown as, its templates and its output directory stay. Fewer operations than there are names of
  sessions for one millisecond.\<close>

theorem ended_session_is_final:
  assumes "cli_run parse f ask P m (new_runtime, w0) (rt, w)" and "children_alive w0 = {}"
    and "cli_run parse f ask P n (rt, w) (rt', w')" and "m + n < 2 ^ 32"
    and "enrollment_sessions rt k = Some s" and "\<not> is_running s"
  shows "enrollment_sessions rt' k = Some s"
proof (rule run_kept [OF assms(3)])
  have ok: "cli.runtime_ok new_runtime w0" by (rule new_runtime_ok [OF assms(2)])
  show "cli.runtime_ok rt w" by (rule run_ok [OF assms(1) ok])
  have "finite (dom (enrollment_sessions rt)) \<and> card (dom (enrollment_sessions rt)) \<le> m"
    using run_card [OF assms(1) ok] by (simp add: new_runtime_def)
  then show "finite (dom (enrollment_sessions rt))" "card (dom (enrollment_sessions rt)) + n < 2 ^ 32"
    using assms(4) by auto
qed (use assms in auto)

section \<open>What the service is asked\<close>

lemma refresh_service:
  "refresh_session (cli_host parse) (cli_processes f) s w = (w1, s1, r) \<Longrightarrow> ew_service w1 = ew_service w"
  by (auto simp: refresh_session_def end_process_def Let_def split: if_splits option.splits prod.splits sum.splits
      dest: child_try_waitD(2) child_cancelD(2))

lemma finish_session_service:
  assumes "finish_session (enrollment_applier ask P) s w = (w', s', r)" and "session_ok s"
  shows "ew_service w' = ew_service w \<and> (\<exists>e. r = Inl e) \<or>
    session_state s = SessionCompleted \<and>
    (\<exists>t dir. template_summary s = Some t \<and> tes_selected_template_count t \<noteq> 0 \<and> exe_directory P = Some dir \<and>
       ew_service w' = fst (ask (ApplyLocalCameraAuthConfig (selected_templates_path s)
         (fes_camera_id (start_payload s)) dir) (ew_service w)))"
proof (cases "session_state s = SessionCompleted")
  case False
  then show ?thesis using assms(1)
    by (auto simp: finish_session_def split: face_enrollment_session_state.splits)
next
  case True
  then obtain t where t: "template_summary s = Some t" "tes_selected_template_count t \<noteq> 0"
    using assms(2) by (auto simp: session_ok_def)
  obtain s2 q where q: "service_apply_template ask P (selected_templates_path s)
      (fes_camera_id (start_payload s)) (ew_service w) = (s2, q)" by fastforce
  have w': "ew_service w' = s2" and r: "\<And>e. q = Inl e \<Longrightarrow> r = Inl e"
    using assms(1) True t q
    by (auto simp: finish_session_def enrollment_applier_def split: sum.splits)
  show ?thesis
  proof (cases "exe_directory P")
    case None
    then have "s2 = ew_service w" and "\<exists>e. q = Inl e"
      using q by (auto simp: service_apply_template_def refuse_def)
    then show ?thesis using w' r by auto
  next
    case (Some dir)
    obtain s3 ev where ev: "ask (ApplyLocalCameraAuthConfig (selected_templates_path s)
        (fes_camera_id (start_payload s)) dir) (ew_service w) = (s3, ev)" by fastforce
    have "s2 = s3"
    proof (cases ev)
      case (Inl e)
      then show ?thesis using q ev Some by (simp add: service_apply_template_def ask_service_def)
    next
      case (Inr x)
      then show ?thesis using q ev Some
        by (cases x) (simp_all add: service_apply_template_def ask_service_def refuse_def give_def)
    qed
    then show ?thesis using w' True t Some ev by simp
  qed
qed

text \<open>A completed session has, at an earlier point of the run or at its end, been found with a process
  that had succeeded.\<close>

lemma completed_by_success:
  assumes "cli_run parse f ask P n (new_runtime, w0) (rt, w)" and "children_alive w0 = {}"
    and "enrollment_sessions rt k = Some s" and "session_state s = SessionCompleted"
  shows "\<exists>a b rt1 w1 s1. cli_run parse f ask P a (new_runtime, w0) (rt1, w1) \<and>
    cli_run parse f ask P b (rt1, w1) (rt, w) \<and> enrollment_sessions rt1 k = Some s1 \<and> process_succeeded w1 s1 s"
  using assms
proof (induction n "(new_runtime :: nat enrollment_runtime, w0)" "(rt, w)" arbitrary: rt w s rule: runtime_run.induct)
  case none
  then show ?case by (simp add: new_runtime_def)
next
  case (step n c')
  obtain rt1 w1 where c': "c' = (rt1, w1)" by fastforce
  have run: "cli_run parse f ask P n (new_runtime, w0) (rt1, w1)" using step.hyps(1) c' by simp
  have last: "cli_run parse f ask P 1 (rt1, w1) (rt, w)"
    using runtime_run.step [OF runtime_run.none step.hyps(3) [unfolded c']] by simp
  have "cli.runtime_ok rt1 w1" by (rule run_ok [OF run new_runtime_ok [OF step.prems(1)]])
  from step_completed [OF step.hyps(3) [unfolded c'] this step.prems(2,3)]
  obtain s1 where s1: "enrollment_sessions rt1 k = Some s1" "s = s1 \<or> process_succeeded w1 s1 s" by blast
  show ?case
  proof (cases "process_succeeded w1 s1 s")
    case True
    then show ?thesis using run last s1(1) by blast
  next
    case False
    then have "s = s1" using s1(2) by simp
    with step.hyps(2) [OF c' step.prems(1) s1(1)] step.prems(3) obtain a b rt2 w2 s2 where
      "cli_run parse f ask P a (new_runtime, w0) (rt2, w2)" "cli_run parse f ask P b (rt2, w2) (rt1, w1)"
      "enrollment_sessions rt2 k = Some s2" "process_succeeded w2 s2 s"
      by blast
    moreover from this(2) have "cli_run parse f ask P (Suc b) (rt2, w2) (rt, w)"
      by (rule runtime_run.step) (rule step.hyps(3) [unfolded c'])
    ultimately show ?thesis by blast
  qed
qed

text \<open>C7: finishing an enrollment asks the service to use templates only when the session is completed:
  when, at the time of the request or at an earlier point of the run, its process had ended with
  success and its template file gave the summary of the session, with a selected template. The request
  names the file in the directory of that session and its camera. In every other case, a session that
  is unknown, running, failed or cancelled, the service is not asked and an error is returned.\<close>

theorem only_completed_enrollments_are_applied:
  assumes "cli_run parse f ask P n (new_runtime, w0) (rt, w)" and "children_alive w0 = {}"
    and "finish_face_enrollment (cli_host parse) (cli_processes f) (enrollment_applier ask P) q rt w =
      (w', rt', r)"
  shows "ew_service w' = ew_service w \<and> (\<exists>e. r = Inl e) \<or>
    (\<exists>s t dir. enrollment_sessions rt' (fep_enrollment_session_id q) = Some s \<and>
       session_state s = SessionCompleted \<and> template_summary s = Some t \<and>
       tes_selected_template_count t \<noteq> 0 \<and> exe_directory P = Some dir \<and>
       ew_service w' = fst (ask (ApplyLocalCameraAuthConfig (selected_templates_path s)
         (fes_camera_id (start_payload s)) dir) (ew_service w)) \<and>
       (\<exists>a b rt1 w1 s1 c x. cli_run parse f ask P a (new_runtime, w0) (rt1, w1) \<and>
          cli_run parse f ask P b (rt1, w1) (rt, w) \<and>
          enrollment_sessions rt1 (fep_enrollment_session_id q) = Some s1 \<and> output_dir s1 = output_dir s \<and>
          session_process s1 = Some c \<and> ew_children w1 c = ChildExited x \<and> exit_success x \<and>
          read_enrollment_template_summary (ew_files w1) s1 = Inr t))"
proof (cases "sessions_poisoned rt \<or> enrollment_sessions rt (fep_enrollment_session_id q) = None")
  case True
  then show ?thesis using assms(3)
    by (auto simp: finish_face_enrollment_def with_session_def locked_sessions_def split: if_splits)
next
  case False
  let ?k = "fep_enrollment_session_id q"
  have ok: "cli.runtime_ok rt w" by (rule run_ok [OF assms(1) new_runtime_ok [OF assms(2)]])
  from False obtain s where s: "enrollment_sessions rt ?k = Some s" by auto
  obtain w1 s1 e where e: "refresh_session (cli_host parse) (cli_processes f) s w = (w1, s1, e)"
    by (metis prod_cases3)
  note service = refresh_service [OF e]
  have follows: "session_follows s s1" using cli.refresh_step [OF e] by (simp add: cli.session_step_def)
  then have ok1: "session_ok s1" using ok s unfolding session_follows_def cli.runtime_ok_def by blast
  obtain w2 s2 r2 where r2: "finish_session (enrollment_applier ask P) s1 w1 = (w2, s2, r2)"
    by (metis prod_cases3)
  have same: "s2 = s1" by (rule cli.finish_step(2) [OF r2])
  note applied = finish_session_service [OF r2 ok1]
  show ?thesis
  proof (cases e)
    case (Inl err)
    then show ?thesis using assms(3) False s e service
      by (auto simp: finish_face_enrollment_def with_session_def locked_sessions_def)
  next
    case (Inr u)
    then have fin: "w' = w2" "r = r2" "enrollment_sessions rt' ?k = Some s1"
      using assms(3) False s e r2 same
      by (auto simp: finish_face_enrollment_def with_session_def locked_sessions_def put_session_def)
    have "\<exists>a b rt1 w1 s0. cli_run parse f ask P a (new_runtime, w0) (rt1, w1) \<and>
        cli_run parse f ask P b (rt1, w1) (rt, w) \<and> enrollment_sessions rt1 ?k = Some s0 \<and> process_succeeded w1 s0 s1"
      if c: "session_state s1 = SessionCompleted"
    proof (cases "is_running s")
      case True
      then have "process_succeeded w s s1" by (rule refresh_completed(2) [OF e c])
      then show ?thesis using assms(1) s runtime_run.none by blast
    next
      case False
      then have "s1 = s" using follows by (simp add: session_follows_def)
      then show ?thesis using completed_by_success [OF assms(1,2) s] c by simp
    qed
    then show ?thesis using applied service fin unfolding process_succeeded_def by force
  qed
qed

lemma finish_after_success:
  assumes "enrollment_sessions rt (fep_enrollment_session_id q) = Some s" and "\<not> sessions_poisoned rt"
    and "is_running s" and "session_process s = Some c"
    and "ew_children w c = ChildExited x" and "exit_success x" and "ew_child_faults w = []"
    and "\<not> startup_timed_out (ew_now w) (apply_runtime_face_enrollment_status (cli_host parse) w s)"
    and "summarize_selected_face_template_file (ew_files w) (selected_templates_path s)
      (enrollment_face_template_ref (enrollment_session_id s)) RepositoryTemplate = Inr t"
    and "exe_directory P = Some dir"
    and "ask (ApplyLocalCameraAuthConfig (selected_templates_path s) (fes_camera_id (start_payload s)) dir)
      (ew_service w) = (sv, Inr AuthConfigReloaded)"
  shows "\<exists>w' rt' out s'.
    finish_face_enrollment (cli_host parse) (cli_processes f) (enrollment_applier ask P) q rt w =
      (w', rt', Inr out) \<and> ew_service w' = sv \<and>
    enrollment_sessions rt' (fep_enrollment_session_id q) = Some s' \<and> session_state s' = SessionCompleted \<and>
    tes_selected_template_count (efo_template_summary out) = fts_selected_template_count t \<and>
    efo_user_id out = fes_user_id (start_payload s) \<and> efo_service_auth_configured out"
proof -
  let ?s = "apply_runtime_face_enrollment_status (cli_host parse) w s"
  let ?t = "\<lparr>tes_selected_template_count = fts_selected_template_count t,
    tes_rejected_sample_count = (case fts_rejected_sample_count t of Some n \<Rightarrow> n | None \<Rightarrow> 0)\<rparr>"
  let ?done = "?s\<lparr>session_process := None, template_summary := Some ?t, session_state := SessionCompleted,
    failure_message := None\<rparr>"
  have path: "selected_templates_path (?s\<lparr>session_process := None\<rparr>) = selected_templates_path s"
    by (simp add: selected_templates_path_def)
  have "child_try_wait c w = (w, Inr (Some x))"
    using assms by (simp add: child_try_wait_def query_child_def child_call_def)
  then have refresh: "refresh_session (cli_host parse) (cli_processes f) s w = (w, ?done, Inr ())"
    using assms path by (simp add: refresh_session_def settle_session_def Let_def read_enrollment_template_summary_def)
  have "selected_templates_path ?done = selected_templates_path s"
    by (simp add: selected_templates_path_def)
  then have "finish_session (enrollment_applier ask P) ?done w =
      (w\<lparr>ew_service := sv\<rparr>, ?done, Inr \<lparr>efo_enrollment_session_id = enrollment_session_id s,
         efo_session_state = SessionCompleted,
         efo_face_template_ref = enrollment_face_template_ref (enrollment_session_id s),
         efo_user_id = fes_user_id (start_payload s), efo_template_summary = ?t,
         efo_service_auth_configured = True, efo_service_auth_configuration_error = None\<rparr>)"
    using assms
    by (simp add: finish_session_def enrollment_applier_def service_apply_template_def ask_service_def give_def)
  then show ?thesis using assms(1,2) refresh
    by (auto simp: finish_face_enrollment_def with_session_def locked_sessions_def put_session_def)
qed

text \<open>C16: an enrollment that succeeds arrives: once the process of a running session has ended with
  success and its template file names selected templates, finishing the session configures the
  service with that file, reports the templates and completes the session, unless a call fails or the
  session is still waiting for its first frame after twelve seconds.\<close>

theorem successful_enrollment_is_applied:
  assumes "enrollment_sessions rt (fep_enrollment_session_id q) = Some s" and "\<not> sessions_poisoned rt"
    and "is_running s" and "session_process s = Some c"
    and "ew_children w c = ChildExited x" and "exit_success x" and "ew_child_faults w = []"
    and "\<not> startup_timed_out (ew_now w) (apply_runtime_face_enrollment_status (cli_host parse) w s)"
    and "summarize_selected_face_template_file (ew_files w) (selected_templates_path s)
      (enrollment_face_template_ref (enrollment_session_id s)) RepositoryTemplate = Inr t"
    and "exe_directory P = Some dir"
    and "ask (ApplyLocalCameraAuthConfig (selected_templates_path s) (fes_camera_id (start_payload s)) dir)
      (ew_service w) = (sv, Inr AuthConfigReloaded)"
  shows "\<exists>w' rt' out s'.
    finish_face_enrollment (cli_host parse) (cli_processes f) (enrollment_applier ask P) q rt w =
      (w', rt', Inr out) \<and> ew_service w' = sv \<and>
    enrollment_sessions rt' (fep_enrollment_session_id q) = Some s' \<and> session_state s' = SessionCompleted \<and>
    tes_selected_template_count (efo_template_summary out) = fts_selected_template_count t \<and>
    efo_user_id out = fes_user_id (start_payload s) \<and> efo_service_auth_configured out"
  using assms by (rule finish_after_success)

section \<open>A sample\<close>

text \<open>One enrollment at time 7 ms; its templates file names one selected template.\<close>

definition sample_template_set :: selected_template_set_file where
  "sample_template_set =
     \<lparr>tsf_user_id = ''u'', tsf_recognizer_model_family = ''sface'', tsf_recognizer_model_version = ''1'',
      tsf_enrollment_created_at_unix_ms = None, tsf_templates = [True, False], tsf_quality_summary = None\<rparr>"

definition sample_files :: status_world where
  "sample_files =
     \<lparr>manager_connect = Inr (), manager_open_service = Inr (), service_query_status = Inr (StateRunning, None),
      path_exists = (\<lambda>_. True), file_modified = (\<lambda>_. Inr None), file_read = (\<lambda>_. Inr ''x''),
      parse_presence_status = (\<lambda>_. Inl ''none''), parse_template_set = (\<lambda>_. Inr sample_template_set),
      base64_encode = id\<rparr>"

definition sample_enroll_world :: "nat enroll_world" where
  "sample_enroll_world =
     \<lparr>ew_now = 7000000, ew_files = sample_files, ew_env = (\<lambda>_. Some ''m''), ew_exe_dir = Some ''d'',
      ew_mkdir_error = (\<lambda>_. None), ew_children = (\<lambda>_. ChildNone), ew_commands = [], ew_spawn_faults = [],
      ew_child_faults = [], ew_run = (\<lambda>_. Inl SpawnNotFound), ew_service = 0\<rparr>"

definition sample_cli :: cli_factory where
  "sample_cli = \<lparr>diagnostics_cli_path = ''d'', enrollment_root_dir = ''r''\<rparr>"

definition sample_start :: face_enrollment_start_payload where
  "sample_start =
     \<lparr>fes_user_id = ''u'', fes_camera_id = ''opencv-index:0'', fes_enrollment_profile = GuidedStandard,
      fes_allow_partial_enrollment = False\<rparr>"

text \<open>The service counts the requests and accepts them.\<close>

definition sample_ask :: "nat pipe_request" where
  "sample_ask req n = (n + 1, Inr AuthConfigReloaded)"

definition sample_control_process :: control_process where
  "sample_control_process =
     \<lparr>env_username = Some ''u'', env_user = None, exe_directory = Some ''d'', process_user_sid = Inr ''S''\<rparr>"

definition sample_started :: "nat enroll_world \<times> nat enrollment_runtime" where
  "sample_started =
     (case start_face_enrollment (cli_host (\<lambda>_. None)) (cli_processes sample_cli) [] sample_start new_runtime
             sample_enroll_world of (w, rt, _) \<Rightarrow> (w, rt))"

definition sample_session :: "nat enrollment_session" where
  "sample_session =
     running_session ''face-enrollment-7'' sample_start (join_path ''r'' ''face-enrollment-7'') 7000000 0"

lemma sample_directory:
  "join_path ''r'' (sanitize_session_path_segment ''face-enrollment-7'') = join_path ''r'' ''face-enrollment-7''"
  by code_simp

lemma sample_id: "next_face_enrollment_session_id (\<lambda>_. None) 7000000 = ''face-enrollment-7''"
proof -
  have "decimal 7 = ''7''" by code_simp
  then show ?thesis by (simp add: next_face_enrollment_session_id_def current_unix_ms_def)
qed

lemma sample_start_run:
  "\<exists>r. start_face_enrollment (cli_host (\<lambda>_. None)) (cli_processes sample_cli) [] sample_start new_runtime
     sample_enroll_world = (fst sample_started, snd sample_started, r)"
  by (auto simp: sample_started_def split: prod.split)

lemma sample_started_simps:
  "enrollment_sessions (snd sample_started) = [''face-enrollment-7'' \<mapsto> sample_session]"
  "\<not> sessions_poisoned (snd sample_started)"
  "ew_children (fst sample_started) = (\<lambda>_. ChildNone)(0 := ChildAlive)"
  "ew_child_faults (fst sample_started) = []" "ew_now (fst sample_started) = 7000000"
  "ew_service (fst sample_started) = 0"
  "ew_files (fst sample_started) = sample_files
     \<lparr>path_exists := (\<lambda>_. True)(join_path ''r'' ''face-enrollment-7'' := True)\<rparr>"
  by (simp_all add: sample_started_def start_face_enrollment_def locked_sessions_def new_runtime_def
      sample_id sample_directory cli_prepare_output_dir_def cli_start_guided_enrollment_def spawn_child_def
      sample_enroll_world_def sample_files_def sample_cli_def put_session_def sample_session_def Let_def)

lemma sample_one_step:
  "cli_run (\<lambda>_. None) sample_cli sample_ask sample_control_process 1 (new_runtime, sample_enroll_world)
     (snd sample_started, fst sample_started)"
proof -
  obtain r where r: "start_face_enrollment (cli_host (\<lambda>_. None)) (cli_processes sample_cli) [] sample_start
      new_runtime sample_enroll_world = (fst sample_started, snd sample_started, r)"
    using sample_start_run by blast
  have "runtime_step (cli_host (\<lambda>_. None)) (cli_processes sample_cli)
      (enrollment_applier sample_ask sample_control_process) world_change
      (new_runtime, sample_enroll_world) (snd sample_started, fst sample_started)"
    by (rule runtime_step.start [OF _ r]) (simp add: new_runtime_def)
  then show ?thesis using runtime_run.step [OF runtime_run.none] by fastforce
qed

lemma sample_none_alive: "children_alive sample_enroll_world = {}"
  by (simp add: children_alive_def sample_enroll_world_def)

text \<open>The process ends with success.\<close>

definition sample_exited :: "nat enroll_world" where
  "sample_exited = (fst sample_started)
     \<lparr>ew_children := (\<lambda>_. ChildNone)(0 := ChildExited \<lparr>exit_success = True, exit_code = Some 0\<rparr>)\<rparr>"

lemma sample_exit_step:
  "cli_run (\<lambda>_. None) sample_cli sample_ask sample_control_process (Suc 1) (new_runtime, sample_enroll_world)
     (snd sample_started, sample_exited)"
  by (rule runtime_run.step [OF sample_one_step runtime_step.world])
    (simp add: world_change_def sample_exited_def)

theorem one_enrollment_process_alive_witness:
  "children_alive (fst sample_started) = {0}"
  using one_enrollment_process_alive [OF sample_one_step sample_none_alive, of 0]
  by (simp add: children_alive_def sample_started_simps)

definition sample_payload :: face_enrollment_session_payload where
  "sample_payload = \<lparr>fep_enrollment_session_id = ''face-enrollment-7''\<rparr>"

lemma sample_status_none [simp]: "apply_runtime_face_enrollment_status (cli_host (\<lambda>_. None)) w s = s"
  by (simp add: apply_runtime_face_enrollment_status_def read_runtime_face_enrollment_status_def bind_eq_None_conv
      split: option.split)

lemma sample_summary:
  "\<exists>t. summarize_selected_face_template_file (ew_files sample_exited) (selected_templates_path sample_session)
     (enrollment_face_template_ref (enrollment_session_id sample_session)) RepositoryTemplate = Inr t \<and>
     fts_selected_template_count t = 1"
  by (simp add: summarize_selected_face_template_file_def sample_exited_def sample_started_simps sample_files_def
      sample_template_set_def selected_template_count_def)

theorem successful_enrollment_is_applied_witness:
  "\<exists>w' rt' out s'.
    finish_face_enrollment (cli_host (\<lambda>_. None)) (cli_processes sample_cli)
      (enrollment_applier sample_ask sample_control_process) sample_payload (snd sample_started) sample_exited =
      (w', rt', Inr out) \<and> ew_service w' = 1 \<and>
    enrollment_sessions rt' ''face-enrollment-7'' = Some s' \<and> session_state s' = SessionCompleted \<and>
    tes_selected_template_count (efo_template_summary out) = 1"
proof -
  obtain t where t: "summarize_selected_face_template_file (ew_files sample_exited)
      (selected_templates_path sample_session)
      (enrollment_face_template_ref (enrollment_session_id sample_session)) RepositoryTemplate = Inr t"
    and one: "fts_selected_template_count t = 1" using sample_summary by blast
  from successful_enrollment_is_applied [where q = sample_payload and rt = "snd sample_started"
      and s = sample_session and c = 0 and w = sample_exited and x = "\<lparr>exit_success = True, exit_code = Some 0\<rparr>"
      and parse = "\<lambda>_. None" and P = sample_control_process and dir = "''d''" and ask = sample_ask
      and sv = 1 and f = sample_cli, OF _ _ _ _ _ _ _ _ t]
  show ?thesis
    by (auto simp: sample_started_simps sample_payload_def sample_session_def running_session_def is_running_def
        sample_exited_def startup_timed_out_def sample_control_process_def sample_ask_def one)
qed

theorem only_completed_enrollments_are_applied_witness:
  "\<exists>w' rt' out s a rt1 w1 s1. finish_face_enrollment (cli_host (\<lambda>_. None)) (cli_processes sample_cli)
      (enrollment_applier sample_ask sample_control_process) sample_payload (snd sample_started) sample_exited =
      (w', rt', Inr out) \<and> ew_service w' = 1 \<and>
    enrollment_sessions rt' ''face-enrollment-7'' = Some s \<and> session_state s = SessionCompleted \<and>
    cli_run (\<lambda>_. None) sample_cli sample_ask sample_control_process a (new_runtime, sample_enroll_world) (rt1, w1) \<and>
    enrollment_sessions rt1 ''face-enrollment-7'' = Some s1 \<and>
    (\<exists>c x. session_process s1 = Some c \<and> ew_children w1 c = ChildExited x \<and> exit_success x)"
proof -
  obtain t where t: "summarize_selected_face_template_file (ew_files sample_exited)
      (selected_templates_path sample_session)
      (enrollment_face_template_ref (enrollment_session_id sample_session)) RepositoryTemplate = Inr t"
    and one: "fts_selected_template_count t = 1" using sample_summary by blast
  from finish_after_success [where q = sample_payload and rt = "snd sample_started"
      and s = sample_session and c = 0 and w = sample_exited and x = "\<lparr>exit_success = True, exit_code = Some 0\<rparr>"
      and parse = "\<lambda>_. None" and P = sample_control_process and dir = "''d''" and ask = sample_ask
      and sv = 1 and f = sample_cli, OF _ _ _ _ _ _ _ _ t]
  obtain w' rt' out where r: "finish_face_enrollment (cli_host (\<lambda>_. None)) (cli_processes sample_cli)
      (enrollment_applier sample_ask sample_control_process) sample_payload (snd sample_started) sample_exited =
      (w', rt', Inr out)" "ew_service w' = 1"
    by (auto simp: sample_started_simps sample_payload_def sample_session_def running_session_def is_running_def
        sample_exited_def startup_timed_out_def sample_control_process_def sample_ask_def)
  have "fep_enrollment_session_id sample_payload = ''face-enrollment-7''" by (simp add: sample_payload_def)
  with only_completed_enrollments_are_applied [OF sample_exit_step sample_none_alive r(1)] r show ?thesis
    by fastforce
qed

text \<open>A cancelled session, and a request to finish it.\<close>

definition sample_cancelled :: "nat enroll_world \<times> nat enrollment_runtime" where
  "sample_cancelled =
     (case cancel_face_enrollment (cli_host (\<lambda>_. None)) (cli_processes sample_cli) sample_payload
             (snd sample_started) (fst sample_started) of (w, rt, _) \<Rightarrow> (w, rt))"

lemma sample_cancelled_session:
  "enrollment_sessions (snd sample_cancelled) ''face-enrollment-7'' =
     Some (sample_session\<lparr>session_process := None, session_state := SessionCancelled, failure_message := None\<rparr>)"
  by (simp add: sample_cancelled_def cancel_face_enrollment_def with_session_def locked_sessions_def
      sample_payload_def sample_started_simps refresh_session_def Let_def startup_timed_out_def child_try_wait_def
      query_child_def child_call_def cancel_session_def end_process_def child_cancel_def kill_child_def
      sample_session_def running_session_def is_running_def put_session_def)

lemma sample_cancel_step:
  "cli_run (\<lambda>_. None) sample_cli sample_ask sample_control_process (Suc 1) (new_runtime, sample_enroll_world)
     (snd sample_cancelled, fst sample_cancelled)"
proof (rule runtime_run.step [OF sample_one_step])
  obtain w rt r where r: "cancel_face_enrollment (cli_host (\<lambda>_. None)) (cli_processes sample_cli) sample_payload
      (snd sample_started) (fst sample_started) = (w, rt, r)" by (metis prod_cases3)
  show "runtime_step (cli_host (\<lambda>_. None)) (cli_processes sample_cli)
      (enrollment_applier sample_ask sample_control_process) world_change
      (snd sample_started, fst sample_started) (snd sample_cancelled, fst sample_cancelled)"
    using runtime_step.cancel [OF r] r by (simp add: sample_cancelled_def)
qed

theorem ended_session_is_final_witness:
  "enrollment_sessions (fst (snd (finish_face_enrollment (cli_host (\<lambda>_. None)) (cli_processes sample_cli)
      (enrollment_applier sample_ask sample_control_process) sample_payload
      (snd sample_cancelled) (fst sample_cancelled)))) ''face-enrollment-7'' =
     Some (sample_session\<lparr>session_process := None, session_state := SessionCancelled, failure_message := None\<rparr>)"
proof -
  obtain w rt r where r: "finish_face_enrollment (cli_host (\<lambda>_. None)) (cli_processes sample_cli)
      (enrollment_applier sample_ask sample_control_process) sample_payload
      (snd sample_cancelled) (fst sample_cancelled) = (w, rt, r)" by (metis prod_cases3)
  have "cli_run (\<lambda>_. None) sample_cli sample_ask sample_control_process (Suc 0)
      (snd sample_cancelled, fst sample_cancelled) (rt, w)"
    by (rule runtime_run.step [OF runtime_run.none runtime_step.finish [OF r]])
  from ended_session_is_final [OF sample_cancel_step sample_none_alive this _ sample_cancelled_session]
  show ?thesis using r by (simp add: is_running_def)
qed

end
