(* ===== verification/Control_Properties.thy ===== *)
theory Control_Properties
  imports Enrollment_Session_Properties Auth_Issuer_Properties Config_Properties
begin

text \<open>
  The control application with the service: the self test over the issuer that authenticates in the
  background, and the templates of a finished enrollment as the status reader lists them.
\<close>

section \<open>The self test\<close>

text \<open>C17: the self test asks the service to authenticate and does not wait for the result: as long as
  no grant from an earlier authentication of its session is at hand, the service starts the camera,
  answers that it has started, and the test fails with an invalid response, whoever is in front of
  the camera; the authentication goes on in the background and its session stays pending.\<close>

theorem self_test_fails_before_the_camera_is_done:
  assumes "local_camera_issuer (grant_issuer h) = Some o1" and "\<not> auth_mode_unavailable (grant_issuer h)"
    and "next_schedule (dev_schedule (grant_issuer h)) = ((before, mid, True), rest)"
    and "check_cache (SessionId (stp_session_id p)) t (job_steps A before o1) = (o2, None)"
    and "\<not> running_poisoned (generations (job_steps A mid o2) (current_generation (job_steps A mid o2)))"
    and "service_self_test (pipe_to (development_ops A D) R t) p h = (h', r)"
  shows "r = Inl (auth_self_test_failed ''service returned an invalid wake-auth response'') \<and>
    pending_auth_sessions h' (SessionId (stp_session_id p)) = Some t"
proof -
  let ?sid = "SessionId (stp_session_id p)"
  have spawn: "snd (spawn_job ?sid CredentialScreenEntered t True (job_steps A mid o2)) = Started"
    using assms(5) by (simp add: spawn_job_def Let_def)
  obtain o3 where "spawn_job ?sid CredentialScreenEntered t True (job_steps A mid o2) = (o3, Started)"
    using spawn by (cases "spawn_job ?sid CredentialScreenEntered t True (job_steps A mid o2)") simp
  then have o3: "issue_from_camera A ?sid CredentialScreenEntered t True mid (job_steps A before o1) = (o3, Started)"
    using assms(4) by (simp add: issue_from_camera_def)
  let ?h = "begin_request t h"
  have "grant_issuer ?h = grant_issuer h" by (simp add: begin_request_def)
  then obtain d1 where d1: "dev_issue A ?sid LocalCamera CredentialScreenEntered t (grant_issuer ?h) = (d1, Started)"
    using assms(1-3) o3 by (simp add: dev_issue_def)
  have "handle_request (development_ops A D) R (\<lambda>_. t) (WakeAuth ?sid LocalCamera CredentialScreenEntered) h =
      (?h\<lparr>grant_issuer := d1, pending_auth_sessions := (pending_auth_sessions ?h)(?sid \<mapsto> t)\<rparr>,
       Inr (AuthStarted ?sid))"
    using d1 by (simp add: handle_request_def handle_wake_auth_def development_ops_def Let_def)
  then show ?thesis using assms(6)
    by (auto simp: service_self_test_def ask_service_def pipe_to_def serve_request_def refuse_def)
qed

definition sample_self_test :: face_auth_self_test_payload where
  "sample_self_test = default_self_test_payload"

theorem self_test_fails_before_the_camera_is_done_witness:
  "snd (service_self_test (pipe_to (development_ops (camera_observed sample_models (\<lambda>_ _. f32_zero) sample_env)
      (sample_dev_ops (7, sample_issuer, 5))) sample_resolver 1000) sample_self_test sample_service) =
   Inl (auth_self_test_failed ''service returned an invalid wake-auth response'')"
proof -
  let ?A = "camera_observed sample_models (\<lambda>_ _. f32_zero) sample_env"
  let ?D = "sample_dev_ops (7, sample_issuer, 5)"
  let ?o = "new_orchestrator (7, sample_issuer, 5)"
  obtain h' r where r: "service_self_test (pipe_to (development_ops ?A ?D) sample_resolver 1000)
      sample_self_test sample_service = (h', r)" by fastforce
  have issuer: "local_camera_issuer (grant_issuer sample_service) = Some ?o"
    "\<not> auth_mode_unavailable (grant_issuer sample_service)"
    "next_schedule (dev_schedule (grant_issuer sample_service)) = (([], [], True), [])"
    by (simp_all add: sample_service_def new_handler_def sample_development_def)
  have cache: "check_cache (SessionId (stp_session_id sample_self_test)) 1000 (job_steps ?A [] ?o) = (?o, None)"
    by (simp add: check_cache_def new_orchestrator_def new_generation_def Let_def)
  have running: "\<not> running_poisoned (generations (job_steps ?A [] ?o) (current_generation (job_steps ?A [] ?o)))"
    by (simp add: new_orchestrator_def new_generation_def)
  from self_test_fails_before_the_camera_is_done [OF issuer cache running r] r show ?thesis by simp
qed

section \<open>The enrolled templates as they are listed\<close>

lemma write_config_quiet:
  assumes "reg_faults r = []"
  shows "write_config_values nvs r =
     (fold (\<lambda>(name, value). store_text service_config_registry_path name value) nvs r, Inr ())"
  using assms by (induction nvs arbitrary: r) (auto simp: sret_def sbind_def map_err_def write_quiet)

lemma key_exists_quiet: "reg_faults r = [] \<Longrightarrow> key_exists path r = (r, Inr (path \<in> reg_keys r))"
  by (auto simp: key_exists_def open_key_def sbind_def reg_call_quiet get_registry_def sret_def
      error_file_not_found_def)

lemma read_config_quiet:
  "reg_faults r = [] \<Longrightarrow> read_config name r = (r, Inr (stored_text r service_config_registry_path name))"
  by (simp add: read_config_def map_err_def read_quiet)

lemma query_config_quiet:
  assumes "reg_faults r = []"
  shows "\<exists>c. query_service_config_status r = (r, Inr c) \<and>
    osc_registry_config_exists c = (service_config_registry_path \<in> reg_keys r) \<and>
    osc_face_template_path c = stored_text r service_config_registry_path reg_face_template_path"
  using assms
  by (simp add: query_service_config_status_def sbind_def map_err_def attempt_def key_exists_quiet read_quiet
      read_config_quiet sret_def)

lemma active_path_quiet:
  assumes "reg_faults r = []" and "service_config_registry_path \<in> reg_keys r"
    and "stored_text r service_config_registry_path reg_face_template_path = Some path" and "trim path \<noteq> []"
  shows "load_active_face_template_path r = (r, Inr (trim path))"
  using query_config_quiet [OF assms(1)] assms
  by (auto simp: load_active_face_template_path_def sbind_def map_err_def sret_def)

lemma template_name_distinct:
  "reg_face_template_path \<noteq> reg_auth_mode" "reg_face_template_path \<noteq> reg_camera_id"
  "reg_face_template_path \<noteq> reg_yunet_model_path" "reg_face_template_path \<noteq> reg_sface_model_path"
  "reg_face_template_path \<noteq> reg_minifasnet_model_path"
  by (simp_all add: registry_names reg_face_template_path_def reg_auth_mode_def reg_camera_id_def
      reg_yunet_model_path_def reg_sface_model_path_def reg_minifasnet_model_path_def)

lemma configured_quiet:
  assumes "reg_faults r = []" and "reg_wf r" and "path \<noteq> []" and "trim camera \<noteq> []" and "dir \<noteq> []"
  shows "\<exists>r'. apply_local_camera_auth_config_values path camera dir r = (r', Inr ()) \<and> reg_faults r' = [] \<and>
    service_config_registry_path \<in> reg_keys r' \<and>
    stored_text r' service_config_registry_path reg_face_template_path = Some (takeWhile (\<lambda>c. c \<noteq> CHR 0x00) path)"
proof -
  let ?r = "fold (\<lambda>(name, value). store_text service_config_registry_path name value)
    (local_camera_values path (trim camera) dir) r"
  have "apply_local_camera_auth_config_values path camera dir r = (?r, Inr ())"
    using assms by (simp add: apply_local_camera_auth_config_values_def write_config_quiet)
  moreover have "reg_faults ?r = []" using assms(1) by (simp add: local_camera_values_def Let_def)
  moreover have "service_config_registry_path \<in> reg_keys ?r"
    by (simp add: local_camera_values_def Let_def store_text_def)
  moreover have "stored_text ?r service_config_registry_path reg_face_template_path =
      Some (takeWhile (\<lambda>c. c \<noteq> CHR 0x00) path)"
    using assms(2) by (simp add: local_camera_values_def Let_def stored_store template_name_distinct)
  ultimately show ?thesis by blast
qed

text \<open>C24: the templates the service was configured with are the templates that are listed: after the
  service has stored the path of a template file, with no failing call of the registry, the list of
  the control application has one entry, made of that file, with as many templates as the finished
  enrollment reported; a path with blanks around it or a null in it would be read back changed.\<close>

theorem configured_template_is_listed:
  assumes "reg_faults r = []" and "reg_wf r" and "path \<noteq> []" and "trim camera \<noteq> []" and "dir \<noteq> []"
    and "trim path = path" and "CHR 0x00 \<notin> set path"
    and "apply_local_camera_auth_config_values path camera dir r = (r', Inr ())"
    and "summarize_selected_face_template_file w path ref st = Inr t"
  shows "\<exists>s. load_face_template_list w r' = (r', Inr \<lparr>listed_templates = [s]\<rparr>) \<and>
    fts_face_template_ref s = active_service_face_template_ref \<and>
    fts_selected_template_count s = fts_selected_template_count t \<and> fts_user_id s = fts_user_id t"
proof -
  have "takeWhile (\<lambda>c. c \<noteq> CHR 0x00) path = path"
    using assms(7) by (simp add: takeWhile_eq_all_conv) blast
  then have "load_active_face_template_path r' = (r', Inr path)"
    using configured_quiet [OF assms(1-5)] assms(3,6,8) active_path_quiet [of r' path] by auto
  moreover have "\<exists>s. summarize_selected_face_template_file w path active_service_face_template_ref
      ActiveServiceTemplate = Inr s \<and> fts_face_template_ref s = active_service_face_template_ref \<and>
      fts_selected_template_count s = fts_selected_template_count t \<and> fts_user_id s = fts_user_id t"
    using assms(9) by (auto simp: summarize_selected_face_template_file_def split: sum.splits if_splits)
  ultimately show ?thesis
    by (auto simp: load_face_template_list_def sbind_def lift_result_def sret_def)
qed

definition sample_registry :: config_registry where
  "sample_registry = \<lparr>reg_keys = {}, reg_values = (\<lambda>_. None), reg_faults = []\<rparr>"

theorem configured_template_is_listed_witness:
  "\<exists>r' s. apply_local_camera_auth_config_values ''t.json'' ''cam'' ''d'' sample_registry = (r', Inr ()) \<and>
    load_face_template_list sample_files r' = (r', Inr \<lparr>listed_templates = [s]\<rparr>) \<and>
    fts_selected_template_count s = 1"
proof -
  have q: "reg_faults sample_registry = []" "reg_wf sample_registry"
    by (simp_all add: sample_registry_def reg_wf_def)
  have texts: "trim ''t.json'' = ''t.json''" "trim ''cam'' \<noteq> []" "CHR 0x00 \<notin> set ''t.json''"
    using trim_word [of "CHR ''t''" "CHR ''n''" "''.jso''"] trim_word [of "CHR ''c''" "CHR ''m''" "''a''"]
    by (simp_all add: is_ascii_alphanumeric_def is_ascii_digit_def)
  obtain r' where r': "apply_local_camera_auth_config_values ''t.json'' ''cam'' ''d'' sample_registry = (r', Inr ())"
    using configured_quiet [OF q, of "''t.json''" "''cam''" "''d''"] texts by auto
  have "\<exists>t. summarize_selected_face_template_file sample_files ''t.json'' ''e'' RepositoryTemplate = Inr t \<and>
      fts_selected_template_count t = 1"
    by (simp add: summarize_selected_face_template_file_def sample_files_def sample_template_set_def
        Control_Status.selected_template_count_def)
  then obtain t where t: "summarize_selected_face_template_file sample_files ''t.json'' ''e'' RepositoryTemplate = Inr t"
    and one: "fts_selected_template_count t = 1" by blast
  show ?thesis using configured_template_is_listed [OF q _ texts(2) _ texts(1,3) r' t] r' one by auto
qed

end
