(* ===== verification/Spec2Isabelle.thy ===== *)
theory Spec2Isabelle
  imports Service_Properties Frame_Codec Wake_Properties Presence_Monitor Camera_Runtime Camera_Frames
    Camera_Auth_Properties Auth_Issuer_Properties Enrollment_Properties Credential_Properties Settings_Properties
    Control_Properties
begin

text \<open>
  WinFaceUnlock signs a user in to Windows by face. This development models the logic of its Rust
  crates (\<open>src/crates/..\<close>) and proves what a sign-in may rely on.

  \<^bold>\<open>How a sign-in works.\<close> The credential provider (\<open>windows_provider\<close>, inside LogonUI) wakes the
  service over a named pipe (\<open>ipc\<close>). The service asks its issuer (\<open>win_service\<close>) for an
  authorization grant. The issuer of the camera takes the camera lease, reads frames, drops dark and
  broken ones, detects the face, compares its embedding with the enrolled templates
  (\<open>face_engine\<close>, \<open>face_auth\<close>), asks the liveness model and, after enough matches in a row, issues a
  grant. The provider redeems the grant for the protected password, reserves a submission with the
  guard (\<open>logon_safety\<close>), hands the password to Windows and reports the result. After the sign-in
  the presence monitor (\<open>win_service\<close>) watches whether the user is still there and locks the
  workstation.

  \<^bold>\<open>The theories, in the order of the code.\<close>
  \<^item> \<open>Prelude\<close>: saturating and checked arithmetic on words, the \<open>retain\<close> of maps, runs of a
    predicate at the end of a list, collections of simplification rules. \<open>F32\<close>: IEEE binary32 with
    rounding to nearest even, written over integers and evaluated by the simplifier.
  \<^item> \<open>Logon_Guard\<close> (\<open>logon_safety\<close>): the guard's phases, the in-memory and the registry guard with
    its 24-byte record, every registry and mutex failure. Locale \<open>submission_guard\<close>, interpreted for
    both guards.
  \<^item> \<open>Protocol\<close> (\<open>common_protocol\<close>, the settings patch of \<open>control_protocol\<close>), \<open>Frame_Codec\<close> and
    \<open>Grant_Registry\<close> (\<open>ipc/codec.rs\<close>, \<open>ipc/grant_registry.rs\<close>), \<open>Service_Handler\<close>
    (\<open>ipc/service_handler.rs\<close>) with the locale \<open>session_issuer\<close> for the issuers behind it;
    \<open>Simulated_Auth\<close> and \<open>Service_Properties\<close> over it.
  \<^item> \<open>Provider_State\<close>, \<open>Provider_Sharing\<close>, \<open>Provider_Properties\<close> (\<open>windows_provider\<close>,
    \<open>provider_state.rs\<close> and \<open>credential.rs\<close>): one provider, several providers sharing the guard,
    workers, and their invariants. \<open>Wake_Worker\<close>, \<open>Wake_Bounds\<close>, \<open>Wake_Properties\<close> (\<open>provider.rs\<close>,
    \<open>broker_client.rs\<close>): the worker thread, what it spends (locale \<open>metered_worker\<close>, interpreted for
    a worker whose requests are counted) and when it ends.
  \<^item> \<open>Presence_Policy\<close>, \<open>Presence_Monitor\<close> (\<open>presence_*.rs\<close>): when the workstation is locked.
  \<^item> \<open>Camera_Runtime\<close>, \<open>Camera_Frames\<close>: the lease on the camera, the checks of frames.
  \<^item> \<open>Attempt_Policy\<close>, \<open>Face_Matching\<close>, \<open>Authenticator\<close> (\<open>face_auth\<close>, \<open>face_engine\<close>) and
    \<open>Local_Camera_Auth\<close>, \<open>Camera_Auth_Properties\<close> (\<open>auth_issuer.rs\<close>, the camera issuer).
  \<^item> \<open>Orchestrator\<close>, \<open>Orchestrator_Properties\<close> (\<open>auth_orchestrator.rs\<close>): authentications as
    background jobs, one critical section a step, with requests at any point between.
    \<open>Auth_Issuer\<close>, \<open>Auth_Issuer_Properties\<close> (\<open>auth_issuer.rs\<close>, the issuer of the service):
    routing and the change of the configuration. Locale \<open>observed_issuer\<close> states what a background
    issuer promises; it is interpreted for the camera issuer, and \<open>session_issuer\<close> for the service's.
  \<^item> \<open>Face_Quality\<close> (\<open>quality.rs\<close>, \<open>enrollment_steps.rs\<close>, \<open>face_pose\<close>): the scores of a picture in
    binary32 and the gate. \<open>Guided_Enrollment\<close>, \<open>Enrollment_Selection\<close>, \<open>Enrollment_Properties\<close>
    (\<open>guided_enrollment.rs\<close>): how the templates of a user are chosen among the observed frames.
  \<^item> The credential store. \<open>Windows_Path\<close>: paths as \<open>std::path\<close> reads them. \<open>Credential_Format\<close>: the
    formats at rest (\<open>credential_blob\<close>, \<open>key_file.rs\<close>). \<open>Credential_Repository\<close>: the tables, the SQL
    statements and the transactions (\<open>persistence\<close>, \<open>repository_store.rs\<close>).
    \<open>Credential_Location\<close>: the pinned directory (\<open>location.rs\<close>). \<open>Credential_Store\<close>: the key file,
    the encryption, opening, enrolling and checking (\<open>credential_store_config.rs\<close>).
    \<open>Store_Interface\<close>: the locale \<open>credential_store\<close> for the trait, interpreted for the store over
    the database and for the one in memory. \<open>Credential_Resolver\<close> (\<open>credential_resolver.rs\<close>,
    \<open>credential_material.rs\<close>) over that locale. \<open>Credential_Steps\<close>: the relation of everything the
    service does to the files, and that every run keeps what its steps keep, with any failure and any
    other process. \<open>Credential_Key\<close>: the file of the master key and the window in which another
    process may publish its own. \<open>Credential_Properties\<close>.

  \<^item> The settings and the status. \<open>Control_Text\<close>: white space, decimal numbers and lines as the Rust
    library reads and prints them. \<open>Control_Protocol\<close> (\<open>control_protocol\<close>): requests, payloads,
    responses. \<open>Control_Registry\<close>, \<open>Control_Settings\<close>, \<open>Control_Decimal\<close>, \<open>Control_Status\<close>
    (\<open>control_status\<close>): the registry with failing calls, the settings, the values thresholds are
    stored with, the dashboard and the template files. \<open>Path_Text\<close>: \<open>join\<close>, \<open>parent\<close> and
    \<open>file_name\<close>. \<open>Service_Config\<close> (\<open>service_config.rs\<close>) and \<open>Provider_Config\<close>
    (\<open>provider_config.rs\<close>): the two programs that read what was saved. \<open>Config_Properties\<close>,
    \<open>Settings_Properties\<close>: an update of the registry refines an update of the settings as they are
    seen, and every reader finds what was saved.
  \<^item> The control application (\<open>control_backend\<close>). \<open>Control_Error\<close>: its errors. \<open>Control_Service\<close>: what
    it asks the service. \<open>Enrollment_Runtime\<close>: the enrollment sessions, over any factory of
    processes; \<open>Enrollment_Process\<close>: the child processes of the command line.
    \<open>Enrollment_Runtime_Properties\<close>: the step relation of all operations, and the locale
    \<open>enrollment_processes\<close> with the invariants of the sessions, interpreted for the child processes.
    \<open>Enrollment_Completion\<close>: a session is completed only by the success of its process.
    \<open>Enrollment_Session_Properties\<close>, \<open>Control_Properties\<close>: one process at a time, final sessions, and
    the control application together with the service and the status reader.

  \<^bold>\<open>How state and effects are modelled.\<close> A struct is a record, an enum a datatype, an integer a
  word of its width, with saturation, wrap-around and checked operations written out; scores are
  binary32. A \<open>Mutex\<close> carries the flag that it is poisoned. \<open>Result\<close> is a sum with the error on the
  left. Windows, the camera, the neural networks, the JSON library, the clock and the stores are
  parameters: records of functions on an environment, so that every failure they report is a branch.
  Threads are sequences of steps, one for each critical section, in any order. The file system of the
  credential store is a map from paths to files; a list says which of the next calls fail, another
  what other processes do in the windows the code leaves.

  \<^bold>\<open>Bounds and fuel.\<close> \<open>wait_for_camera_lease\<close> and the loops of the monitor that run until told to
  stop take the list of what happens as argument. A worker with a limit of attempts that starts at
  once ends by that limit, every worker when its event sink is taken away (\<open>worker_ends_without_sink\<close>).
  Loops over a bounded number of frames recurse on that number. The search for
  the models ends because the parent of a path is shorter (\<open>path_parent_shorter\<close>); a session gets a
  new name as long as there are fewer than \<open>2 ^ 32 - 1\<close> of them (\<open>next_id_fresh\<close>).

  \<^bold>\<open>What the groups of lemmas show.\<close> Credentials are released at most once for a grant and only for
  the session it was issued to; a reconfiguration revokes all grants and the results of jobs still
  running; a grant of the camera was earned by matching live frames; a rejected password stops all
  providers until it is reset; the lock is asked for exactly when the history of observations says so;
  an enrollment stores a password whole or not at all, for one user, under a master key that is never
  replaced, and the password enrolled is the one handed out. Settings are read as they were saved, and
  templates reach the service only from a completed enrollment.

  \<^bold>\<open>Not modelled.\<close> The neural networks and OpenCV, FFI to MediaPipe, Windows handles and services,
  the tools for diagnosis, the installer and the tray: they call the operating system and external
  libraries, and keep little state of their own. Of the control application, the dispatch of requests
  (it decodes JSON payloads and calls the operations modelled here) and the files of intruder
  pictures. Logging is left out everywhere.
\<close>

end
